(* ===== verification/Prelude.thy ===== *)
theory Prelude
  imports Main "HOL-Library.Sublist" "HOL-Library.List_Lexorder" "HOL-Library.Char_ord"
begin

text \<open>
  Shared vocabulary of the development: the fragment of the Rust standard library the
  sources use on \<open>String\<close>, \<open>Vec\<close> and \<open>HashMap\<close>, with the lemmas every component needs.

  A Rust \<open>String\<close> is its sequence of UTF-8 bytes, so a model \<open>string\<close> (a list of 8-bit
  \<open>char\<close>) has the length \<open>len()\<close> reports and tests on ASCII characters are tests on
  bytes. A \<open>HashMap\<close> is a map; where the code iterates over one, the iteration order is an
  explicit list of keys that \<open>enumerates\<close> the map.
\<close>

named_theorems fold_facts "facts about folding events into a state"
named_theorems journal_facts "facts about the journal representation"
named_theorems track_facts "facts about the cross-session tracking"

section \<open>Options and lists\<close>

definition or_else :: "'a option \<Rightarrow> 'a option \<Rightarrow> 'a option" where
  "or_else a b = (case a of Some x \<Rightarrow> Some x | None \<Rightarrow> b)"

lemma or_else_simps [simp]:
  "or_else None b = b"
  "or_else (Some x) b = Some x"
  "or_else a None = a"
  by (auto simp: or_else_def split: option.splits)

definition unwrap_or :: "'a option \<Rightarrow> 'a \<Rightarrow> 'a" where
  "unwrap_or a d = (case a of Some x \<Rightarrow> x | None \<Rightarrow> d)"

lemma unwrap_or_simps [simp]:
  "unwrap_or None d = d"
  "unwrap_or (Some x) d = x"
  by (simp_all add: unwrap_or_def)

lemma butlast_last_snoc: "xs \<noteq> [] \<Longrightarrow> butlast xs @ [last xs] = xs"
  by simp

lemma drop_Suc_Cons_nth: "n < length xs \<Longrightarrow> drop n xs = xs ! n # drop (Suc n) xs"
  by (rule Cons_nth_drop_Suc [symmetric])

lemma filter_eq_drop_enumerate:
  "n \<le> length xs \<Longrightarrow>
    filter (\<lambda>(i, x). k + n \<le> i) (enumerate k xs) = enumerate (k + n) (drop n xs)"
proof (induction xs arbitrary: k n)
  case Nil
  then show ?case by simp
next
  case (Cons x xs)
  show ?case
  proof (cases n)
    case 0
    have "\<forall>p \<in> set (enumerate k (x # xs)). k \<le> fst p"
      by (metis fst_conv in_set_enumerate_eq surj_pair)
    with 0 show ?thesis
      by (auto simp: filter_id_conv split_beta)
  next
    case (Suc m)
    with Cons.prems Cons.IH [of m "Suc k"] show ?thesis by simp
  qed
qed

lemma drop_enumerate: "drop k (enumerate n xs) = enumerate (n + k) (drop k xs)"
proof (induction xs arbitrary: k n)
  case Nil
  show ?case by simp
next
  case (Cons x xs)
  then show ?case by (cases k) simp_all
qed

section \<open>Hash maps and their iteration order\<close>

definition enumerates :: "'k list \<Rightarrow> ('k \<rightharpoonup> 'v) \<Rightarrow> bool" where
  "enumerates ks m \<longleftrightarrow> distinct ks \<and> set ks = dom m"

lemma enumerates_finite: "enumerates ks m \<Longrightarrow> finite (dom m)"
  by (metis enumerates_def List.finite_set)

lemma enumerates_sorted_list:
  "finite (dom m) \<Longrightarrow> enumerates (sorted_list_of_set (dom (m :: 'k::linorder \<rightharpoonup> 'v))) m"
  by (simp add: enumerates_def)

text \<open>Re-inserting every entry of a map, in any order, rebuilds the map.\<close>

lemma foldl_insert_lookup:
  "foldl (\<lambda>acc k. acc(k := m k)) acc0 ks k = (if k \<in> set ks then m k else acc0 k)"
  by (induction ks arbitrary: acc0) auto

lemma foldl_insert_enumerates:
  assumes "enumerates ks m"
  shows "foldl (\<lambda>acc k. acc(k := m k)) Map.empty ks = m"
proof
  fix k
  show "foldl (\<lambda>acc k. acc(k := m k)) Map.empty ks k = m k"
    using assms by (auto simp: foldl_insert_lookup enumerates_def)
qed

section \<open>Strings\<close>

fun digits_of :: "nat \<Rightarrow> string" where
  "digits_of n =
     (if n < 10 then [char_of (48 + n)] else digits_of (n div 10) @ [char_of (48 + n mod 10)])"

declare digits_of.simps [simp del]

definition show_int :: "int \<Rightarrow> string" where
  "show_int n = (if n < 0 then CHR ''-'' # digits_of (nat (- n)) else digits_of (nat n))"

text \<open>\<open>str::split(c)\<close>: always at least one piece.\<close>

fun split_on :: "char \<Rightarrow> string \<Rightarrow> string list" where
  "split_on c [] = [[]]"
| "split_on c (x # xs) =
     (if x = c then [] # split_on c xs
      else case split_on c xs of [] \<Rightarrow> [[x]] | p # ps \<Rightarrow> (x # p) # ps)"

fun join :: "string \<Rightarrow> string list \<Rightarrow> string" where
  "join sep [] = []"
| "join sep [s] = s"
| "join sep (s # t # ts) = s @ sep @ join sep (t # ts)"

definition starts_with :: "string \<Rightarrow> string \<Rightarrow> bool" where
  "starts_with s p \<longleftrightarrow> take (length p) s = p"

definition ends_with :: "string \<Rightarrow> string \<Rightarrow> bool" where
  "ends_with s p \<longleftrightarrow> length p \<le> length s \<and> drop (length s - length p) s = p"

fun contains :: "string \<Rightarrow> string \<Rightarrow> bool" where
  "contains [] p = (p = [])"
| "contains (x # xs) p = (starts_with (x # xs) p \<or> contains xs p)"

definition strip_prefix :: "string \<Rightarrow> string \<Rightarrow> string option" where
  "strip_prefix s p = (if starts_with s p then Some (drop (length p) s) else None)"

text \<open>\<open>str::split_once(c)\<close> on a character.\<close>

fun split_once :: "char \<Rightarrow> string \<Rightarrow> (string \<times> string) option" where
  "split_once c [] = None"
| "split_once c (x # xs) =
     (if x = c then Some ([], xs)
      else map_option (\<lambda>(a, b). (x # a, b)) (split_once c xs))"

lemma starts_with_prefix: "starts_with s p \<longleftrightarrow> prefix p s"
  by (metis append_eq_conv_conj append_take_drop_id prefix_def starts_with_def)

text \<open>\<open>str::lines\<close>: a carriage return before the line feed belongs to the line's end.\<close>

definition strip_cr :: "string \<Rightarrow> string" where
  "strip_cr l = (if l \<noteq> [] \<and> last l = CHR 0x0D then butlast l else l)"

definition str_lines :: "string \<Rightarrow> string list" where
  "str_lines s = (let ps = split_on (CHR 0x0A) s
     in map strip_cr (butlast ps) @ (if last ps = [] then [] else [last ps]))"

definition ascii_lower :: "string \<Rightarrow> string" where
  "ascii_lower s = map (\<lambda>c. if CHR ''A'' \<le> c \<and> c \<le> CHR ''Z'' then char_of (of_char c + 32 :: nat) else c) s"

text \<open>\<open>Path::join\<close>: an absolute path replaces the root.\<close>

definition path_join :: "string \<Rightarrow> string \<Rightarrow> string" where
  "path_join root p =
     (if starts_with p ''/'' then p
      else if root = [] \<or> last root = CHR ''/'' then root @ p
      else root @ ''/'' @ p)"

lemma split_on_nonempty [simp]: "split_on c s \<noteq> []"
  by (induction s) (auto split: list.splits)

lemma split_on_no_sep: "p \<in> set (split_on c s) \<Longrightarrow> c \<notin> set p"
  by (induction s arbitrary: p) (auto split: list.splits if_splits)

lemma join_split_on [simp]: "join [c] (split_on c s) = s"
proof (induction s)
  case Nil
  show ?case by simp
next
  case (Cons x xs)
  obtain p ps where s: "split_on c xs = p # ps"
    using split_on_nonempty [of c xs] by (cases "split_on c xs") auto
  with Cons.IH show ?case
    by (cases ps) auto
qed

lemma split_on_single: "c \<notin> set s \<Longrightarrow> split_on c s = [s]"
  by (induction s) auto

lemma split_on_append:
  "c \<notin> set s \<Longrightarrow> split_on c (s @ c # t) = s # split_on c t"
  by (induction s) (auto split: list.splits)

lemma split_on_join:
  "ps \<noteq> [] \<Longrightarrow> \<forall>p \<in> set ps. c \<notin> set p \<Longrightarrow> split_on c (join [c] ps) = ps"
proof (induction ps rule: induct_list012)
  case 1
  then show ?case by simp
next
  case (2 p)
  then show ?case by (simp add: split_on_single)
next
  case (3 p q ps)
  then show ?case by (simp add: split_on_append)
qed

lemma split_once_Some:
  "split_once c s = Some (a, b) \<Longrightarrow> s = a @ c # b \<and> c \<notin> set a"
  by (induction s arbitrary: a b) (auto split: if_splits)

lemma split_once_None: "split_once c s = None \<longleftrightarrow> c \<notin> set s"
  by (induction s) auto

lemma split_once_append: "c \<notin> set a \<Longrightarrow> split_once c (a @ c # b) = Some (a, b)"
  by (induction a) auto

lemma contains_append: "contains s p \<longleftrightarrow> (\<exists>a b. s = a @ p @ b)"
proof (induction s)
  case Nil
  then show ?case by auto
next
  case (Cons x xs)
  have "starts_with (x # xs) p \<longleftrightarrow> (\<exists>b. x # xs = p @ b)"
    by (auto simp: starts_with_prefix prefix_def)
  then show ?case
    using Cons.IH by (auto simp: Cons_eq_append_conv)
qed

end
