(* ===== verification/Session_Types.thy ===== *)
theory Session_Types
  imports Prelude "HOL-Library.Word"
begin

text \<open>
  The shared domain types of the wire contract, from
  \<^verbatim>\<open>server-rs/pantoken-protocol/src/session_driver.rs\<close>: one record per struct, one datatype per
  enum, fields and variants in the order of the source. A field name carries a short prefix of
  its struct, since record selectors share one name space; a variant of
  \<open>SessionDriverEvent\<close> carries \<open>E_\<close> and one of \<open>HostUiRequest\<close> carries \<open>H_\<close>, the aliases
  the reducer itself uses (\<open>E::\<close>, \<open>H::\<close>).

  An \<open>f64\<close> is its 64-bit pattern: the code modelled here only copies one. An \<open>i64\<close> that is
  only copied is an \<open>int\<close>. A \<open>serde_json::Value\<close> has the constructors of that enum; no function
  that prints or parses one is defined here.
\<close>

type_synonym workspace_id = string
type_synonym session_id = string
type_synonym run_id = string
type_synonym timestamp = string
type_synonym f64 = "64 word"

datatype json =
    J_Null
  | J_Bool bool
  | J_Number string
  | J_String string
  | J_Array "json list"
  | J_Object "(string \<times> json) list"

section \<open>References, status and mode enums\<close>

record workspace_ref =
  ws_workspace_id :: workspace_id
  ws_path :: string
  ws_display_name :: "string option"

record session_ref =
  workspace_id_of :: workspace_id
  session_id_of :: session_id

datatype session_status = Idle | Initializing | Running | Failed

datatype permission_monitor_mode = Standard | Bypass | BypassPlus | Autonomous

datatype delivery_mode = Steer | FollowUp

datatype image_content = Image (img_data: string) (img_mime_type: string)

record resolved_ref =
  rr_kind :: string
  rr_name :: string
  rr_file_kind :: "string option"

record queued_message =
  qm_id :: string
  qm_mode :: delivery_mode
  qm_text :: string
  qm_created_at :: timestamp
  qm_updated_at :: timestamp
  qm_references :: "resolved_ref list option"

section \<open>Session meta data\<close>

record session_config =
  model_id :: "string option"
  thinking_level :: "string option"
  available_thinking_levels :: "string list option"

definition default_session_config :: session_config where
  "default_session_config =
     \<lparr>model_id = None, thinking_level = None, available_thinking_levels = None\<rparr>"

record session_usage =
  tokens :: "int option"
  context_window :: int
  percent :: "f64 option"

datatype mcp_server_status = Connected | Disconnected | Reconnecting | Disabled

record mcp_server_info =
  server_name :: string
  mcp_status :: mcp_server_status
  tool_count :: int

record goal_info =
  summary :: string
  lifecycle :: string

datatype flagged_file_mode = Included | Referenced

record flagged_file =
  ff_path :: string
  ff_mode :: flagged_file_mode

datatype todo_status = Pending | InProgress | Done | Blocked

record todo_item =
  todo_id :: int
  todo_title :: string
  todo_description :: string
  todo_item_status :: todo_status
  todo_dependencies :: "int list"
  todo_created_at :: "string option"

record session_snapshot =
  s_ref :: session_ref
  s_workspace :: workspace_ref
  s_title :: string
  s_status :: session_status
  s_updated_at :: timestamp
  s_archived_at :: "timestamp option"
  s_preview :: "string option"
  s_config :: "session_config option"
  s_usage :: "session_usage option"
  s_running_run_id :: "run_id option"
  s_queued_messages :: "queued_message list option"
  s_facet :: "string option"
  s_permission_monitor :: "permission_monitor_mode option"
  s_adventurous_handoff :: "bool option"
  s_notification_autodrain :: "bool option"
  s_active_plan :: "string option"
  s_goal :: "goal_info option option"
  s_flags :: "flagged_file list option"
  s_todos :: "todo_item list option"
  s_mcp_servers :: "mcp_server_info list option"

record worktree_info =
  wi_path :: string
  wi_base :: string
  wi_name :: string
  wi_reaped :: "bool option"

record session_list_entry =
  le_session_id :: session_id
  le_path :: string
  le_cwd :: string
  le_display_name :: "string option"
  le_preview :: string
  le_user_message_count :: int
  le_updated_at :: timestamp
  le_created_at :: timestamp
  le_last_user_message_at :: timestamp
  le_parent_session_path :: "string option"
  le_usage :: "session_usage option"
  le_archived :: bool
  le_worktree :: "worktree_info option"

section \<open>Host UI requests\<close>

record qna_question_option =
  qo_label :: string
  qo_description :: "string option"

record qna_question =
  question :: string
  question_context :: "string option"
  question_options :: "qna_question_option list option"
  multi_select :: "bool option"

record qna_answer =
  selected_option_indices :: "int list"
  custom_text :: string

datatype host_ui_response =
    R_Value string string
  | R_Confirmed string bool
  | R_Answers string "qna_answer list"
  | R_Cancelled string bool

datatype notify_level = NotifyInfo | NotifyWarning | NotifyError

datatype widget_placement = WidgetAboveComposer | WidgetBelowComposer

text \<open>
  The request id comes first in every variant; the other arguments follow the source's order.
\<close>

datatype host_ui_request =
    H_Confirm string string string "bool option" "int option"
  | H_Unknown string string string
  | H_Input string string "string option" "string option" "int option"
  | H_Select string string "string list" "bool option" "int option"
  | H_Editor string string "string option"
  | H_Qna string "string option" "qna_question list" "int option"
  | H_Plan string string string "string option" "string option" "string \<times> string \<times> string"
      "int option"
  | H_Permission string string "string option" "string option" "string list" "int option"
  | H_Notify string string "notify_level option"
  | H_Status string string "string option"
  | H_Widget string string "string list option" "widget_placement option"
  | H_Title string string
  | H_EditorText string string
  | H_Reset string

fun is_dialog_request :: "host_ui_request \<Rightarrow> bool" where
  "is_dialog_request (H_Confirm _ _ _ _ _) = True"
| "is_dialog_request (H_Unknown _ _ _) = True"
| "is_dialog_request (H_Input _ _ _ _ _) = True"
| "is_dialog_request (H_Select _ _ _ _ _) = True"
| "is_dialog_request (H_Editor _ _ _) = True"
| "is_dialog_request (H_Qna _ _ _ _) = True"
| "is_dialog_request (H_Plan _ _ _ _ _ _ _) = True"
| "is_dialog_request (H_Permission _ _ _ _ _ _) = True"
| "is_dialog_request _ = False"

fun host_request_id :: "host_ui_request \<Rightarrow> string" where
  "host_request_id (H_Confirm i _ _ _ _) = i"
| "host_request_id (H_Unknown i _ _) = i"
| "host_request_id (H_Input i _ _ _ _) = i"
| "host_request_id (H_Select i _ _ _ _) = i"
| "host_request_id (H_Editor i _ _) = i"
| "host_request_id (H_Qna i _ _ _) = i"
| "host_request_id (H_Plan i _ _ _ _ _ _) = i"
| "host_request_id (H_Permission i _ _ _ _ _) = i"
| "host_request_id (H_Notify i _ _) = i"
| "host_request_id (H_Status i _ _) = i"
| "host_request_id (H_Widget i _ _ _) = i"
| "host_request_id (H_Title i _) = i"
| "host_request_id (H_EditorText i _) = i"
| "host_request_id (H_Reset i) = i"

datatype session_closed_reason = ClosedManual | ClosedEnded | ClosedFailed

datatype extension_issue_classification = TerminalOnly

record extension_compatibility_issue =
  issue_capability :: string
  issue_classification :: extension_issue_classification
  issue_message :: string
  issue_extension_path :: "string option"
  issue_event_name :: "string option"

record session_error_info =
  err_message :: string
  err_code :: "string option"
  err_details :: "json option"

section \<open>Driver events\<close>

record event_base =
  eb_session_ref :: session_ref
  eb_timestamp :: timestamp
  eb_run_id :: "run_id option"

datatype delta_channel = ChannelText | ChannelThinking

datatype session_driver_event =
    E_SessionOpened event_base session_snapshot
  | E_SessionUpdated event_base session_snapshot
  | E_AssistantDelta event_base string "delta_channel option" "string option"
  | E_QueuedMessageStarted event_base queued_message
  | E_QueueUpdated event_base "queued_message list"
  | E_UserMessage event_base string string "image_content list option" "string option"
      "resolved_ref list option"
  | E_CustomMessage event_base string string string bool bool
  | E_ToolStarted event_base string string "json option" "string option" "string option"
  | E_ToolUpdated event_base string "string option" "f64 option"
  | E_ToolFinished event_base string bool "json option" "image_content list option" "bool option"
  | E_RunCompleted event_base session_snapshot "string option" "string option"
  | E_UsageUpdated event_base session_usage
  | E_RunFailed event_base session_error_info
  | E_HostUiRequest event_base host_ui_request
  | E_HostUiResolved event_base string
  | E_ExtensionCompatibilityIssue event_base extension_compatibility_issue
  | E_SessionClosed event_base session_closed_reason
  | E_SessionReset event_base

fun event_base_of :: "session_driver_event \<Rightarrow> event_base" where
  "event_base_of (E_SessionOpened b _) = b"
| "event_base_of (E_SessionUpdated b _) = b"
| "event_base_of (E_AssistantDelta b _ _ _) = b"
| "event_base_of (E_QueuedMessageStarted b _) = b"
| "event_base_of (E_QueueUpdated b _) = b"
| "event_base_of (E_UserMessage b _ _ _ _ _) = b"
| "event_base_of (E_CustomMessage b _ _ _ _ _) = b"
| "event_base_of (E_ToolStarted b _ _ _ _ _) = b"
| "event_base_of (E_ToolUpdated b _ _ _) = b"
| "event_base_of (E_ToolFinished b _ _ _ _ _) = b"
| "event_base_of (E_RunCompleted b _ _ _) = b"
| "event_base_of (E_UsageUpdated b _) = b"
| "event_base_of (E_RunFailed b _) = b"
| "event_base_of (E_HostUiRequest b _) = b"
| "event_base_of (E_HostUiResolved b _) = b"
| "event_base_of (E_ExtensionCompatibilityIssue b _) = b"
| "event_base_of (E_SessionClosed b _) = b"
| "event_base_of (E_SessionReset b) = b"

definition event_session_ref :: "session_driver_event \<Rightarrow> session_ref" where
  "event_session_ref ev = eb_session_ref (event_base_of ev)"

definition event_timestamp :: "session_driver_event \<Rightarrow> timestamp" where
  "event_timestamp ev = eb_timestamp (event_base_of ev)"

definition event_run_id :: "session_driver_event \<Rightarrow> run_id option" where
  "event_run_id ev = eb_run_id (event_base_of ev)"

abbreviation event_sid :: "session_driver_event \<Rightarrow> session_id" where
  "event_sid ev \<equiv> session_id_of (event_session_ref ev)"

end
