(* ===== verification/Session_State.thy ===== *)
theory Session_State
  imports Session_Types
begin

text \<open>
  The folded session state and its reducer, from
  \<^verbatim>\<open>server-rs/pantoken-protocol/src/state.rs\<close>. The reducer mutates a \<open>SessionState\<close> in place; the
  model passes the state and returns it updated. \<open>fold_event\<close> has one equation per event, in the
  order of the source's \<open>match\<close>.
\<close>

section \<open>Transcript items and the state\<close>

record user_item =
  ui_id :: string
  ui_text :: string
  ui_images :: "image_content list option"
  ui_references :: "resolved_ref list option"
  ui_ts :: "string option"
  ui_entry_id :: "string option"
  ui_delivery :: "string option"
  ui_delivery_error :: "string option"

record assistant_item =
  ai_id :: string
  ai_text :: string
  ai_thinking :: string
  streaming :: bool
  ai_ts :: "string option"
  ai_entry_id :: "string option"
  completed_at :: "string option"

datatype tool_status = ToolRunning | ToolOk | ToolError | ToolInterrupted

record tool_item =
  ti_id :: string
  ti_name :: string
  ti_label :: "string option"
  ti_description :: "string option"
  ti_input :: "json option"
  ti_output :: "json option"
  ti_images :: "image_content list option"
  ti_text :: "string option"
  ti_progress :: "f64 option"
  ti_status :: tool_status
  started_at :: "string option"
  finished_at :: "string option"

datatype notice_level = NoticeInfo | NoticeWarning | NoticeError

record notice_item =
  ni_id :: string
  ni_level :: notice_level
  ni_text :: string

record inject_item =
  ii_id :: string
  ii_custom_type :: string
  ii_text :: string
  ii_display :: bool
  ii_turn_boundary :: bool
  ii_ts :: "string option"

datatype transcript_item =
    User user_item
  | Assistant assistant_item
  | Tool tool_item
  | Notice notice_item
  | Inject inject_item

datatype ambient_placement = AboveComposer | BelowComposer

record ambient_widget =
  aw_key :: string
  aw_lines :: "string list"
  aw_placement :: ambient_placement

record ambient_state =
  statuses :: "string \<rightharpoonup> string"
  widgets :: "string \<rightharpoonup> ambient_widget"
  ambient_title :: "string option"

definition default_ambient :: ambient_state where
  "default_ambient = \<lparr>statuses = Map.empty, widgets = Map.empty, ambient_title = None\<rparr>"

record session_state =
  session_ref_of :: "session_ref option"
  title :: string
  status :: session_status
  config :: session_config
  usage :: "session_usage option"
  facet :: "string option"
  permission_monitor :: "permission_monitor_mode option"
  adventurous_handoff :: "bool option"
  notification_autodrain :: "bool option"
  active_plan :: "string option"
  goal :: "goal_info option option"
  flags :: "flagged_file list"
  todos :: "todo_item list"
  mcp_servers :: "mcp_server_info list"
  items :: "transcript_item list"
  pending_approvals :: "host_ui_request list"
  ambient :: ambient_state
  queued :: "queued_message list"

definition initial_session_state :: session_state where
  "initial_session_state = \<lparr>
     session_ref_of = None, title = [], status = Idle, config = default_session_config,
     usage = None, facet = None, permission_monitor = None, adventurous_handoff = None,
     notification_autodrain = None, active_plan = None, goal = None, flags = [], todos = [],
     mcp_servers = [], items = [], pending_approvals = [], ambient = default_ambient,
     queued = []\<rparr>"

section \<open>Helpers of the reducer\<close>

definition last_item :: "transcript_item list \<Rightarrow> transcript_item option" where
  "last_item xs = (if xs = [] then None else Some (last xs))"

text \<open>\<open>open_assistant\<close> returns a mutable reference to the last item; the model returns the item
  and writes it back with \<open>set_last\<close>.\<close>

definition open_assistant :: "transcript_item list \<Rightarrow> assistant_item option" where
  "open_assistant xs =
     (case last_item xs of
        Some (Assistant a) \<Rightarrow> (if streaming a then Some a else None)
      | _ \<Rightarrow> None)"

definition set_last :: "transcript_item list \<Rightarrow> transcript_item \<Rightarrow> transcript_item list" where
  "set_last xs x = butlast xs @ [x]"

definition close_open_assistant :: "transcript_item list \<Rightarrow> string option \<Rightarrow> transcript_item list" where
  "close_open_assistant xs done_at =
     (case open_assistant xs of
        None \<Rightarrow> xs
      | Some a \<Rightarrow>
          (let a1 = a\<lparr>streaming := False\<rparr>;
               a2 = (case done_at of Some ts \<Rightarrow> a1\<lparr>completed_at := Some ts\<rparr> | None \<Rightarrow> a1)
           in set_last xs (Assistant a2)))"

datatype entry_id_kind = KindUser | KindAssistant

text \<open>The loop over \<open>items.iter_mut().rev()\<close>, on the reversed list.\<close>

fun stamp_first :: "entry_id_kind \<Rightarrow> string \<Rightarrow> transcript_item list \<Rightarrow> transcript_item list" where
  "stamp_first k eid [] = []"
| "stamp_first KindUser eid (User u # xs) = User (u\<lparr>ui_entry_id := Some eid\<rparr>) # xs"
| "stamp_first KindAssistant eid (Assistant a # xs) = Assistant (a\<lparr>ai_entry_id := Some eid\<rparr>) # xs"
| "stamp_first k eid (x # xs) = x # stamp_first k eid xs"

definition stamp_last_entry_id :: "transcript_item list \<Rightarrow> entry_id_kind \<Rightarrow> string \<Rightarrow> transcript_item list" where
  "stamp_last_entry_id xs k eid = rev (stamp_first k eid (rev xs))"

fun interrupt_tool :: "string \<Rightarrow> transcript_item \<Rightarrow> transcript_item" where
  "interrupt_tool ts (Tool t) =
     (if ti_status t = ToolRunning
      then Tool (t\<lparr>ti_status := ToolInterrupted, finished_at := Some ts\<rparr>) else Tool t)"
| "interrupt_tool ts x = x"

definition interrupt_running_tools :: "transcript_item list \<Rightarrow> string \<Rightarrow> transcript_item list" where
  "interrupt_running_tools xs ts = map (interrupt_tool ts) xs"

section \<open>The reducer\<close>

text \<open>The first arm: the part shared by opened, updated and completed snapshots.\<close>

definition fold_snapshot :: "session_state \<Rightarrow> session_snapshot \<Rightarrow> timestamp \<Rightarrow> session_state" where
  "fold_snapshot st sn ts = st\<lparr>
     session_ref_of := Some (s_ref sn),
     title := s_title sn,
     status := s_status sn,
     config := unwrap_or (s_config sn) (config st),
     usage := or_else (s_usage sn) (usage st),
     facet := or_else (s_facet sn) (facet st),
     permission_monitor := or_else (s_permission_monitor sn) (permission_monitor st),
     adventurous_handoff := or_else (s_adventurous_handoff sn) (adventurous_handoff st),
     notification_autodrain := or_else (s_notification_autodrain sn) (notification_autodrain st),
     active_plan := or_else (s_active_plan sn) (active_plan st),
     goal := (case s_goal sn of
                None \<Rightarrow> goal st
              | Some None \<Rightarrow> None
              | Some (Some g) \<Rightarrow> Some (Some g)),
     flags := unwrap_or (s_flags sn) (flags st),
     todos := unwrap_or (s_todos sn) (todos st),
     mcp_servers := unwrap_or (s_mcp_servers sn) (mcp_servers st),
     queued := unwrap_or (s_queued_messages sn) (queued st),
     items := (if s_status sn \<noteq> Running then close_open_assistant (items st) (Some ts)
               else items st)\<rparr>"

text \<open>\<open>RunCompleted\<close> settles running tools and stamps the branch handles.\<close>

definition settle_run :: "transcript_item list \<Rightarrow> timestamp \<Rightarrow> string option \<Rightarrow> string option \<Rightarrow> transcript_item list" where
  "settle_run xs ts user_entry_id assistant_entry_id =
     (let xs1 = interrupt_running_tools xs ts;
          xs2 = (case assistant_entry_id of
                   Some aid \<Rightarrow> stamp_last_entry_id xs1 KindAssistant aid | None \<Rightarrow> xs1)
      in (case user_entry_id of
            Some uid \<Rightarrow> stamp_last_entry_id xs2 KindUser uid | None \<Rightarrow> xs2))"

fun append_delta :: "delta_channel option \<Rightarrow> string \<Rightarrow> transcript_item \<Rightarrow> transcript_item" where
  "append_delta chan txt (Assistant a) =
     (case chan of
        Some ChannelThinking \<Rightarrow> Assistant (a\<lparr>ai_thinking := ai_thinking a @ txt\<rparr>)
      | _ \<Rightarrow> Assistant (a\<lparr>ai_text := ai_text a @ txt\<rparr>))"
| "append_delta chan txt x = x"

definition delta_item_id :: "timestamp \<Rightarrow> nat \<Rightarrow> string" where
  "delta_item_id ts n = ''a-'' @ ts @ ''-'' @ digits_of n"

definition open_bubble :: "transcript_item list \<Rightarrow> timestamp \<Rightarrow> string option \<Rightarrow> transcript_item list" where
  "open_bubble xs ts entry_id =
     (case open_assistant xs of
        Some _ \<Rightarrow> xs
      | None \<Rightarrow> xs @ [Assistant \<lparr>ai_id = delta_item_id ts (length xs), ai_text = [],
                  ai_thinking = [], streaming = True, ai_ts = Some ts, ai_entry_id = entry_id,
                  completed_at = None\<rparr>])"

definition fold_delta :: "transcript_item list \<Rightarrow> timestamp \<Rightarrow> string \<Rightarrow> delta_channel option \<Rightarrow> string option \<Rightarrow> transcript_item list" where
  "fold_delta xs ts txt chan entry_id =
     (let ys = open_bubble xs ts entry_id in set_last ys (append_delta chan txt (last ys)))"

fun update_tool :: "string \<Rightarrow> string option \<Rightarrow> f64 option \<Rightarrow> transcript_item \<Rightarrow> transcript_item" where
  "update_tool call_id txt prog (Tool t) =
     (if ti_id t = call_id
      then Tool (t\<lparr>ti_text := or_else txt (ti_text t), ti_progress := or_else prog (ti_progress t)\<rparr>)
      else Tool t)"
| "update_tool call_id txt prog x = x"

fun finish_tool :: "string \<Rightarrow> bool \<Rightarrow> json option \<Rightarrow> image_content list option \<Rightarrow> bool option \<Rightarrow> timestamp \<Rightarrow> transcript_item \<Rightarrow> transcript_item" where
  "finish_tool call_id success output images interrupted ts (Tool t) =
     (if ti_id t = call_id
      then Tool (t\<lparr>ti_status := (if interrupted = Some True then ToolInterrupted
                                else if success then ToolOk else ToolError),
                  ti_output := output,
                  ti_images := or_else images (ti_images t),
                  finished_at := Some ts\<rparr>)
      else Tool t)"
| "finish_tool call_id success output images interrupted ts x = x"

fun notice_level_of :: "notify_level \<Rightarrow> notice_level" where
  "notice_level_of NotifyInfo = NoticeInfo"
| "notice_level_of NotifyWarning = NoticeWarning"
| "notice_level_of NotifyError = NoticeError"

fun ambient_placement_of :: "widget_placement \<Rightarrow> ambient_placement" where
  "ambient_placement_of WidgetAboveComposer = AboveComposer"
| "ambient_placement_of WidgetBelowComposer = BelowComposer"

text \<open>
  The host-UI arm. A dialog is queued once per request id; the other requests update the ambient
  state or add a notice. The source's last arm (\<open>unreachable!\<close>) covers the dialog variants, which
  the first test has already taken (lemma \<open>dialog_or_ambient\<close> below).
\<close>

fun fold_ambient_request :: "session_state \<Rightarrow> host_ui_request \<Rightarrow> session_state" where
  "fold_ambient_request st (H_Status _ key txt) =
     st\<lparr>ambient := (ambient st)\<lparr>statuses := (statuses (ambient st))(key := txt)\<rparr>\<rparr>"
| "fold_ambient_request st (H_Widget _ key lns placement) =
     st\<lparr>ambient := (ambient st)\<lparr>widgets := (widgets (ambient st))(key :=
        (case lns of
           Some (l # ls) \<Rightarrow> Some \<lparr>aw_key = key, aw_lines = l # ls,
             aw_placement = ambient_placement_of (unwrap_or placement WidgetAboveComposer)\<rparr>
         | _ \<Rightarrow> None))\<rparr>\<rparr>"
| "fold_ambient_request st (H_Title _ t) = st\<lparr>ambient := (ambient st)\<lparr>ambient_title := Some t\<rparr>\<rparr>"
| "fold_ambient_request st (H_Notify rid msg lvl) =
     st\<lparr>items := close_open_assistant (items st) None @
          [Notice \<lparr>ni_id = rid, ni_level = notice_level_of (unwrap_or lvl NotifyInfo),
                   ni_text = msg\<rparr>]\<rparr>"
| "fold_ambient_request st (H_Reset _) = st\<lparr>ambient := default_ambient\<rparr>"
| "fold_ambient_request st (H_EditorText _ _) = st"
| "fold_ambient_request st _ = st"

definition fold_host_ui :: "session_state \<Rightarrow> host_ui_request \<Rightarrow> session_state" where
  "fold_host_ui st req =
     (if is_dialog_request req
      then (if \<exists>p \<in> set (pending_approvals st). host_request_id p = host_request_id req then st
            else st\<lparr>pending_approvals := pending_approvals st @ [req]\<rparr>)
      else fold_ambient_request st req)"

fun fold_event :: "session_state \<Rightarrow> session_driver_event \<Rightarrow> session_state" where
  "fold_event st (E_SessionOpened b sn) = fold_snapshot st sn (eb_timestamp b)"
| "fold_event st (E_SessionUpdated b sn) = fold_snapshot st sn (eb_timestamp b)"
| "fold_event st (E_RunCompleted b sn user_entry_id assistant_entry_id) =
     (let st1 = fold_snapshot st sn (eb_timestamp b)
      in st1\<lparr>items := settle_run (items st1) (eb_timestamp b) user_entry_id assistant_entry_id\<rparr>)"
| "fold_event st (E_UserMessage b i txt images entry_id refs) =
     st\<lparr>items := close_open_assistant (items st) None @
          [User \<lparr>ui_id = i, ui_text = txt, ui_images = images, ui_references = refs,
                 ui_ts = Some (eb_timestamp b), ui_entry_id = entry_id, ui_delivery = None,
                 ui_delivery_error = None\<rparr>]\<rparr>"
| "fold_event st (E_CustomMessage b i custom_type txt display turn_boundary) =
     st\<lparr>items := close_open_assistant (items st) None @
          [Inject \<lparr>ii_id = i, ii_custom_type = custom_type, ii_text = txt, ii_display = display,
                   ii_turn_boundary = turn_boundary, ii_ts = Some (eb_timestamp b)\<rparr>]\<rparr>"
| "fold_event st (E_QueuedMessageStarted b m) =
     st\<lparr>items := close_open_assistant (items st) None @
          [User \<lparr>ui_id = qm_id m, ui_text = qm_text m, ui_images = None,
                 ui_references = qm_references m, ui_ts = Some (qm_created_at m),
                 ui_entry_id = None, ui_delivery = None, ui_delivery_error = None\<rparr>],
        queued := filter (\<lambda>q. qm_id q \<noteq> qm_id m) (queued st)\<rparr>"
| "fold_event st (E_QueueUpdated b ms) = st\<lparr>queued := ms\<rparr>"
| "fold_event st (E_AssistantDelta b txt chan entry_id) =
     st\<lparr>items := fold_delta (items st) (eb_timestamp b) txt chan entry_id\<rparr>"
| "fold_event st (E_ToolStarted b tool_name call_id input label description) =
     st\<lparr>items := close_open_assistant (items st) None @
          [Tool \<lparr>ti_id = call_id, ti_name = tool_name, ti_label = label,
                 ti_description = description, ti_input = input, ti_output = None,
                 ti_images = None, ti_text = None, ti_progress = None, ti_status = ToolRunning,
                 started_at = Some (eb_timestamp b), finished_at = None\<rparr>]\<rparr>"
| "fold_event st (E_ToolUpdated b call_id txt prog) =
     st\<lparr>items := map (update_tool call_id txt prog) (items st)\<rparr>"
| "fold_event st (E_ToolFinished b call_id success output images interrupted) =
     st\<lparr>items := map (finish_tool call_id success output images interrupted (eb_timestamp b))
                     (items st)\<rparr>"
| "fold_event st (E_UsageUpdated b u) = st\<lparr>usage := Some u\<rparr>"
| "fold_event st (E_RunFailed b e) =
     st\<lparr>items := interrupt_running_tools (close_open_assistant (items st) None) (eb_timestamp b) @
          [Notice \<lparr>ni_id = ''err-'' @ eb_timestamp b, ni_level = NoticeError,
                   ni_text = err_message e\<rparr>],
        status := Failed\<rparr>"
| "fold_event st (E_HostUiRequest b req) = fold_host_ui st req"
| "fold_event st (E_HostUiResolved b rid) =
     st\<lparr>pending_approvals := filter (\<lambda>p. host_request_id p \<noteq> rid) (pending_approvals st)\<rparr>"
| "fold_event st (E_ExtensionCompatibilityIssue b issue) =
     st\<lparr>items := close_open_assistant (items st) None @
          [Notice \<lparr>ni_id = ''compat-'' @ eb_timestamp b, ni_level = NoticeWarning,
                   ni_text = ''Extension capability '' @ [CHR 0x22] @ issue_capability issue @
                     [CHR 0x22] @ '' is terminal-only: '' @ issue_message issue\<rparr>]\<rparr>"
| "fold_event st (E_SessionClosed b reason) =
     st\<lparr>items := interrupt_running_tools
                   (close_open_assistant (items st) (Some (eb_timestamp b))) (eb_timestamp b),
        status := (if reason = ClosedFailed then Failed else Idle)\<rparr>"
| "fold_event st (E_SessionReset b) = st\<lparr>items := []\<rparr>"

definition fold_all_from :: "session_state \<Rightarrow> session_driver_event list \<Rightarrow> session_state" where
  "fold_all_from st evs = foldl fold_event st evs"

definition fold_all :: "session_driver_event list \<Rightarrow> session_state" where
  "fold_all evs = fold_all_from initial_session_state evs"

end
