(* ===== verification/Fold_Facts.thy ===== *)
theory Fold_Facts
  imports Session_State
begin

text \<open>
  Facts about the reducer of \<open>Session_State\<close>: the shape of the transcript (at most one streaming
  bubble, and only as the last item), the well-formedness invariant \<open>state_wf\<close> that every event
  keeps, what the events that end a turn settle, and which events can shrink a transcript.
\<close>

section \<open>Facts about the helpers\<close>

lemma dialog_or_ambient:
  "\<not> is_dialog_request r \<Longrightarrow>
     (\<exists>i m l. r = H_Notify i m l) \<or> (\<exists>i k t. r = H_Status i k t) \<or> (\<exists>i k l p. r = H_Widget i k l p)
     \<or> (\<exists>i t. r = H_Title i t) \<or> (\<exists>i t. r = H_EditorText i t) \<or> (\<exists>i. r = H_Reset i)"
  by (cases r) auto

fun is_streaming :: "transcript_item \<Rightarrow> bool" where
  "is_streaming (Assistant a) = streaming a"
| "is_streaming _ = False"

fun item_id :: "transcript_item \<Rightarrow> string" where
  "item_id (User u) = ui_id u"
| "item_id (Assistant a) = ai_id a"
| "item_id (Tool t) = ti_id t"
| "item_id (Notice n) = ni_id n"
| "item_id (Inject i) = ii_id i"

definition no_open :: "transcript_item list \<Rightarrow> bool" where
  "no_open xs \<longleftrightarrow> (\<forall>x \<in> set xs. \<not> is_streaming x)"

definition bubble_wf :: "transcript_item list \<Rightarrow> bool" where
  "bubble_wf xs \<longleftrightarrow> no_open (butlast xs)"

lemma no_open_simps [simp]:
  "no_open []"
  "no_open (x # xs) \<longleftrightarrow> \<not> is_streaming x \<and> no_open xs"
  "no_open (xs @ ys) \<longleftrightarrow> no_open xs \<and> no_open ys"
  by (auto simp: no_open_def)

lemma no_open_bubble_wf [intro, simp]: "no_open xs \<Longrightarrow> bubble_wf xs"
  by (auto simp: bubble_wf_def no_open_def dest: in_set_butlastD)

lemma bubble_wf_snoc [simp]: "bubble_wf (xs @ [x]) \<longleftrightarrow> no_open xs"
  by (simp add: bubble_wf_def)

lemma bubble_wf_Nil [simp]: "bubble_wf []"
  by (simp add: bubble_wf_def)

lemma open_assistant_Some:
  "open_assistant xs = Some a \<longleftrightarrow> xs \<noteq> [] \<and> last xs = Assistant a \<and> streaming a"
  by (auto simp: open_assistant_def last_item_def split: transcript_item.splits)

lemma open_assistant_None:
  "open_assistant xs = None \<longleftrightarrow> xs = [] \<or> \<not> is_streaming (last xs)"
  by (cases "last xs") (auto simp: open_assistant_def last_item_def)

lemma open_assistant_None_no_open:
  "bubble_wf xs \<Longrightarrow> open_assistant xs = None \<Longrightarrow> no_open xs"
  by (cases xs rule: rev_cases) (auto simp: open_assistant_None)

lemma set_last_snoc [simp]: "set_last (xs @ [y]) x = xs @ [x]"
  by (simp add: set_last_def)

lemma length_set_last [simp]: "xs \<noteq> [] \<Longrightarrow> length (set_last xs x) = length xs"
  by (simp add: set_last_def)

lemma map_set_last: "xs \<noteq> [] \<Longrightarrow> f x = f (last xs) \<Longrightarrow> map f (set_last xs x) = map f xs"
  by (cases xs rule: rev_cases) (simp_all add: set_last_def)

lemma no_open_close [simp]: "bubble_wf xs \<Longrightarrow> no_open (close_open_assistant xs d)"
  by (cases "open_assistant xs")
     (auto simp: close_open_assistant_def Let_def set_last_def bubble_wf_def
       open_assistant_None_no_open split: option.splits)

lemma no_open_interrupt [simp]: "no_open (interrupt_running_tools xs ts) = no_open xs"
proof -
  have "is_streaming (interrupt_tool ts x) = is_streaming x" for x
    by (cases x) auto
  then show ?thesis by (simp add: no_open_def interrupt_running_tools_def)
qed

lemma bubble_wf_map:
  assumes "\<And>x. is_streaming (f x) = is_streaming x"
  shows "bubble_wf (map f xs) = bubble_wf xs"
  using assms by (simp add: bubble_wf_def no_open_def map_butlast [symmetric])

lemma streaming_interrupt [simp]: "is_streaming (interrupt_tool ts x) = is_streaming x"
  by (cases x) auto

lemma streaming_update [simp]: "is_streaming (update_tool c t p x) = is_streaming x"
  by (cases x) auto

lemma streaming_finish [simp]: "is_streaming (finish_tool c s u im i ts x) = is_streaming x"
  by (cases x) auto

lemma stamp_first_streaming [simp]:
  "map is_streaming (stamp_first k e xs) = map is_streaming xs"
  by (induction k e xs rule: stamp_first.induct) auto

lemma stamp_last_streaming [simp]:
  "map is_streaming (stamp_last_entry_id xs k e) = map is_streaming xs"
  by (simp add: stamp_last_entry_id_def rev_map [symmetric])

lemma bubble_wf_streaming_cong:
  "map is_streaming xs = map is_streaming ys \<Longrightarrow> bubble_wf xs = bubble_wf ys"
proof -
  assume "map is_streaming xs = map is_streaming ys"
  then have "butlast (map is_streaming xs) = butlast (map is_streaming ys)" by simp
  then have "map is_streaming (butlast xs) = map is_streaming (butlast ys)"
    by (simp add: map_butlast)
  then have "set (map is_streaming (butlast xs)) = set (map is_streaming (butlast ys))"
    by (rule arg_cong)
  then show ?thesis
    by (auto simp: bubble_wf_def no_open_def image_def set_eq_iff)
qed

lemma settle_run_streaming [simp]:
  "map is_streaming (settle_run xs ts u a) = map is_streaming xs"
  by (simp add: settle_run_def Let_def interrupt_running_tools_def comp_def split: option.splits)

section \<open>The well-formedness invariant of a folded state\<close>

text \<open>
  \<open>tool_wf\<close>: a tool card has a finish time exactly when it has left \<open>Running\<close>, and a bubble
  that is still streaming has no completion time.
\<close>

fun item_wf :: "transcript_item \<Rightarrow> bool" where
  "item_wf (Tool t) = ((ti_status t = ToolRunning) = (finished_at t = None))"
| "item_wf (Assistant a) = (streaming a \<longrightarrow> completed_at a = None)"
| "item_wf _ = True"

definition items_wf :: "transcript_item list \<Rightarrow> bool" where
  "items_wf xs \<longleftrightarrow> list_all item_wf xs"

definition ambient_wf :: "ambient_state \<Rightarrow> bool" where
  "ambient_wf am \<longleftrightarrow> finite (dom (statuses am)) \<and> finite (dom (widgets am)) \<and>
     (\<forall>k w. widgets am k = Some w \<longrightarrow> aw_key w = k \<and> aw_lines w \<noteq> [])"

definition approvals_wf :: "host_ui_request list \<Rightarrow> bool" where
  "approvals_wf ps \<longleftrightarrow> (\<forall>p \<in> set ps. is_dialog_request p) \<and> distinct (map host_request_id ps)"

definition state_wf :: "session_state \<Rightarrow> bool" where
  "state_wf st \<longleftrightarrow> bubble_wf (items st) \<and> items_wf (items st) \<and>
     ambient_wf (ambient st) \<and> approvals_wf (pending_approvals st) \<and> goal st \<noteq> Some None"

lemma state_wf_initial: "state_wf initial_session_state"
  by (simp add: state_wf_def items_wf_def initial_session_state_def ambient_wf_def approvals_wf_def
      default_ambient_def)

lemma item_wf_interrupt [simp]: "item_wf x \<Longrightarrow> item_wf (interrupt_tool ts x)"
  by (cases x) auto

lemma item_wf_update [simp]: "item_wf (update_tool c t p x) = item_wf x"
  by (cases x) auto

lemma item_wf_finish [simp]: "item_wf x \<Longrightarrow> item_wf (finish_tool c s u im i ts x)"
  by (cases x) auto

lemma items_wf_simps [simp]:
  "items_wf []"
  "items_wf (x # xs) \<longleftrightarrow> item_wf x \<and> items_wf xs"
  "items_wf (xs @ ys) \<longleftrightarrow> items_wf xs \<and> items_wf ys"
  by (simp_all add: items_wf_def)

lemma items_wf_rev [simp]: "items_wf (rev xs) = items_wf xs"
  by (simp add: items_wf_def)

lemma items_wf_butlast [simp]: "items_wf xs \<Longrightarrow> items_wf (butlast xs)"
  by (auto simp: items_wf_def list_all_iff dest: in_set_butlastD)

lemma items_wf_last: "items_wf xs \<Longrightarrow> xs \<noteq> [] \<Longrightarrow> item_wf (last xs)"
  by (simp add: items_wf_def list_all_iff)

lemma items_wf_map: "items_wf xs \<Longrightarrow> (\<And>x. item_wf x \<Longrightarrow> item_wf (f x)) \<Longrightarrow> items_wf (map f xs)"
  by (simp add: items_wf_def list_all_iff)

lemma items_wf_stamp_first: "items_wf xs \<Longrightarrow> items_wf (stamp_first k e xs)"
  by (induction k e xs rule: stamp_first.induct) auto

lemma items_wf_stamp [simp]: "items_wf xs \<Longrightarrow> items_wf (stamp_last_entry_id xs k e)"
  by (simp add: stamp_last_entry_id_def items_wf_stamp_first)

lemma items_wf_interrupt [simp]: "items_wf xs \<Longrightarrow> items_wf (interrupt_running_tools xs ts)"
  by (simp add: interrupt_running_tools_def items_wf_map)

lemma items_wf_settle [simp]: "items_wf xs \<Longrightarrow> items_wf (settle_run xs ts u a)"
  by (simp add: settle_run_def Let_def split: option.splits)

lemma items_wf_close [simp]: "items_wf xs \<Longrightarrow> items_wf (close_open_assistant xs d)"
  by (simp add: close_open_assistant_def Let_def set_last_def split: option.splits)

lemma items_wf_fold_delta [simp]:
  assumes "items_wf xs"
  shows "items_wf (fold_delta xs ts txt ch e)"
proof -
  have ad: "item_wf (append_delta ch txt x) = item_wf x" for x
    by (cases x) (auto split: option.splits delta_channel.splits)
  have "items_wf (open_bubble xs ts e)" and "open_bubble xs ts e \<noteq> []"
    using assms by (auto simp: open_bubble_def open_assistant_Some split: option.splits)
  then show ?thesis
    by (simp add: fold_delta_def Let_def set_last_def ad items_wf_last)
qed

lemma bubble_wf_fold_delta [simp]: "bubble_wf xs \<Longrightarrow> bubble_wf (fold_delta xs ts txt ch e)"
  using open_assistant_None_no_open [of xs]
  by (auto simp: fold_delta_def Let_def set_last_def open_bubble_def split: option.splits)
     (simp add: bubble_wf_def)

lemma finite_dom_upd [simp]: "finite (dom (m(k := v))) = finite (dom m)"
  by (simp add: dom_fun_upd)

lemma ambient_wf_default [simp]: "ambient_wf default_ambient"
  by (simp add: ambient_wf_def default_ambient_def)

lemma ambient_wf_status [simp]:
  "ambient_wf am \<Longrightarrow> ambient_wf (am\<lparr>statuses := (statuses am)(k := v)\<rparr>)"
  by (simp add: ambient_wf_def del: fun_upd_apply)

lemma ambient_wf_title [simp]: "ambient_wf am \<Longrightarrow> ambient_wf (am\<lparr>ambient_title := t\<rparr>)"
  by (simp add: ambient_wf_def)

lemma ambient_wf_widget_remove [simp]:
  "ambient_wf am \<Longrightarrow> ambient_wf (am\<lparr>widgets := (widgets am)(k := None)\<rparr>)"
  by (simp add: ambient_wf_def dom_fun_upd)

lemma ambient_wf_widget_insert [simp]:
  "ambient_wf am \<Longrightarrow> aw_key w = k \<Longrightarrow> aw_lines w \<noteq> [] \<Longrightarrow>
     ambient_wf (am\<lparr>widgets := (widgets am)(k := Some w)\<rparr>)"
  by (simp add: ambient_wf_def dom_fun_upd)

lemma approvals_wf_filter [simp]: "approvals_wf ps \<Longrightarrow> approvals_wf (filter P ps)"
  by (auto simp: approvals_wf_def distinct_map_filter)

lemma approvals_wf_snoc:
  "approvals_wf ps \<Longrightarrow> is_dialog_request r \<Longrightarrow>
     \<forall>p \<in> set ps. host_request_id p \<noteq> host_request_id r \<Longrightarrow> approvals_wf (ps @ [r])"
  by (auto simp: approvals_wf_def)

lemma fold_snapshot_wf: "state_wf st \<Longrightarrow> state_wf (fold_snapshot st sn ts)"
  by (auto simp: state_wf_def fold_snapshot_def split: option.splits)

lemma fold_ambient_wf: "state_wf st \<Longrightarrow> state_wf (fold_ambient_request st r)"
  by (cases r) (auto simp del: fun_upd_apply simp: state_wf_def split: option.splits list.splits)

lemma fold_host_ui_wf: "state_wf st \<Longrightarrow> state_wf (fold_host_ui st r)"
  by (auto simp: fold_host_ui_def fold_ambient_wf) (auto simp: state_wf_def approvals_wf_snoc)

lemma settle_run_bubble_wf [simp]: "bubble_wf (settle_run xs ts u a) = bubble_wf xs"
  by (rule bubble_wf_streaming_cong) simp

lemma state_wf_items:
  "state_wf st \<Longrightarrow> bubble_wf xs \<Longrightarrow> items_wf xs \<Longrightarrow> state_wf (st\<lparr>items := xs\<rparr>)"
  by (simp add: state_wf_def)

lemma fold_event_wf [fold_facts]:
  assumes "state_wf st"
  shows "state_wf (fold_event st ev)"
proof -
  have w: "bubble_wf (items st)" "items_wf (items st)" "ambient_wf (ambient st)"
    "approvals_wf (pending_approvals st)" "goal st \<noteq> Some None"
    using assms by (simp_all add: state_wf_def)
  have run: "state_wf ((fold_snapshot st sn ts)\<lparr>items :=
      settle_run (items (fold_snapshot st sn ts)) ts u a\<rparr>)" for sn ts u a
    using fold_snapshot_wf [OF assms, of sn ts] by (simp add: state_wf_def)
  show ?thesis
    using w run
    by (cases ev)
       (simp_all add: fold_snapshot_wf fold_host_ui_wf assms Let_def,
        simp_all add: state_wf_def bubble_wf_map items_wf_map)
qed

lemma fold_all_from_Nil [simp]: "fold_all_from st [] = st"
  by (simp add: fold_all_from_def)

lemma fold_all_from_Cons [simp]:
  "fold_all_from st (e # es) = fold_all_from (fold_event st e) es"
  by (simp add: fold_all_from_def)

lemma fold_all_from_append [simp]:
  "fold_all_from st (es @ fs) = fold_all_from (fold_all_from st es) fs"
  by (simp add: fold_all_from_def)

lemma fold_all_append: "fold_all (es @ fs) = fold_all_from (fold_all es) fs"
  by (simp add: fold_all_def)

lemma fold_all_from_wf: "state_wf st \<Longrightarrow> state_wf (fold_all_from st es)"
  by (induction es arbitrary: st) (simp_all add: fold_event_wf)

lemma fold_all_wf: "state_wf (fold_all es)"
  by (simp add: fold_all_def fold_all_from_wf state_wf_initial)

section \<open>Turn ends\<close>

text \<open>The events that end a turn: a failed run, a closed session, a completed run whose snapshot
  is not running.\<close>

fun ends_turn :: "session_driver_event \<Rightarrow> bool" where
  "ends_turn (E_RunFailed _ _) = True"
| "ends_turn (E_SessionClosed _ _) = True"
| "ends_turn (E_RunCompleted _ sn _ _) = (s_status sn \<noteq> Running)"
| "ends_turn _ = False"

fun is_running_tool :: "transcript_item \<Rightarrow> bool" where
  "is_running_tool (Tool t) = (ti_status t = ToolRunning)"
| "is_running_tool _ = False"

definition no_running :: "transcript_item list \<Rightarrow> bool" where
  "no_running xs \<longleftrightarrow> (\<forall>x \<in> set xs. \<not> is_running_tool x)"

lemma no_running_simps [simp]:
  "no_running []"
  "no_running (x # xs) \<longleftrightarrow> \<not> is_running_tool x \<and> no_running xs"
  "no_running (xs @ ys) \<longleftrightarrow> no_running xs \<and> no_running ys"
  by (auto simp: no_running_def)

lemma no_running_interrupt [simp]: "no_running (interrupt_running_tools xs ts)"
proof -
  have "\<not> is_running_tool (interrupt_tool ts x)" for x by (cases x) auto
  then show ?thesis by (simp add: no_running_def interrupt_running_tools_def)
qed

lemma stamp_first_running: "map is_running_tool (stamp_first k e xs) = map is_running_tool xs"
  by (induction k e xs rule: stamp_first.induct) auto

lemma no_running_map_cong:
  "map is_running_tool xs = map is_running_tool ys \<Longrightarrow> no_running xs = no_running ys"
  by (metis (no_types, lifting) imageE imageI list.set_map no_running_def)

lemma no_running_stamp [simp]: "no_running (stamp_last_entry_id xs k e) = no_running xs"
  by (rule no_running_map_cong)
     (simp add: stamp_last_entry_id_def stamp_first_running rev_map [symmetric])

lemma no_running_settle [simp]: "no_running (settle_run xs ts u a)"
  by (simp add: settle_run_def Let_def split: option.splits)

lemma no_open_streaming_cong:
  "map is_streaming xs = map is_streaming ys \<Longrightarrow> no_open xs = no_open ys"
  by (metis (no_types, lifting) imageE imageI list.set_map no_open_def)

section \<open>Transcript growth\<close>

lemma map_item_id_close [simp]: "map item_id (close_open_assistant xs d) = map item_id xs"
  by (auto simp: close_open_assistant_def Let_def open_assistant_Some map_set_last
      split: option.splits)

lemma item_id_interrupt [simp]: "item_id (interrupt_tool ts x) = item_id x"
  by (cases x) auto

lemma map_item_id_interrupt [simp]: "map item_id (interrupt_running_tools xs ts) = map item_id xs"
  by (simp add: interrupt_running_tools_def comp_def)

lemma stamp_first_ids: "map item_id (stamp_first k e xs) = map item_id xs"
  by (induction k e xs rule: stamp_first.induct) auto

lemma map_item_id_settle [simp]: "map item_id (settle_run xs ts u a) = map item_id xs"
  by (simp add: settle_run_def Let_def stamp_last_entry_id_def stamp_first_ids
      rev_map [symmetric] split: option.splits)

lemma item_id_update [simp]: "item_id (update_tool c t p x) = item_id x"
  by (cases x) auto

lemma item_id_finish [simp]: "item_id (finish_tool c s u im i ts x) = item_id x"
  by (cases x) auto

lemma item_id_append_delta [simp]: "item_id (append_delta ch s x) = item_id x"
  by (cases x) (auto split: option.splits delta_channel.splits)

lemma map_item_id_fold_delta:
  "map item_id (fold_delta xs ts s ch e) = map item_id (open_bubble xs ts e)"
proof -
  have "open_bubble xs ts e \<noteq> []"
    by (auto simp: open_bubble_def open_assistant_Some split: option.splits)
  then show ?thesis by (simp add: fold_delta_def Let_def map_set_last)
qed

text \<open>At most one new item per event, always at the end, unless the transcript is reset.\<close>

definition grows_by_one :: "transcript_item list \<Rightarrow> transcript_item list \<Rightarrow> bool" where
  "grows_by_one xs ys \<longleftrightarrow>
     map item_id ys = map item_id xs \<or> (\<exists>i. map item_id ys = map item_id xs @ [i])"

lemma grows_fold_delta: "grows_by_one xs (fold_delta xs ts s ch e)"
  by (auto simp: grows_by_one_def map_item_id_fold_delta open_bubble_def split: option.splits)

lemma grows_ambient: "grows_by_one (items st) (items (fold_ambient_request st r))"
  by (cases r) (auto simp: grows_by_one_def)

lemma grows_snapshot: "map item_id (items (fold_snapshot st sn ts)) = map item_id (items st)"
  by (simp add: fold_snapshot_def)

section \<open>Properties\<close>

text \<open>C7: Folding any sequence of driver events, in any order, yields a well-formed state: at most
  one assistant bubble is streaming and it is the last item, a tool card carries a finish time
  exactly when it is no longer running, every queued approval is a dialog with an id of its own,
  every widget is stored under its own key with at least one line, and a cleared goal is stored as
  absent.\<close>

theorem fold_all_well_formed: "state_wf (fold_all evs)"
  by (simp add: fold_all_def fold_all_from_wf state_wf_initial)

text \<open>C8: An event that ends a turn leaves nothing in flight: no bubble is streaming and no tool
  card is running.\<close>

theorem turn_end_settles:
  assumes "ends_turn ev"
  shows "no_open (items (fold_event (fold_all evs) ev)) \<and>
    no_running (items (fold_event (fold_all evs) ev))"
proof -
  have wf: "bubble_wf (items (fold_all evs))"
    using fold_all_wf [of evs] by (simp add: state_wf_def)
  then have run: "no_open (settle_run (close_open_assistant (items (fold_all evs)) d) ts u a)"
    for d ts u a
    using no_open_streaming_cong [OF settle_run_streaming] by simp
  from assms wf run show ?thesis
    by (cases "ev" rule: ends_turn.cases) (simp_all add: Let_def fold_snapshot_def)
qed

text \<open>C9: An event that is not a session reset keeps every transcript item in its place and adds at
  most one, at the end; a reset empties the transcript and nothing else.\<close>

theorem fold_event_transcript:
  "if \<exists>b. ev = E_SessionReset b then fold_event st ev = st\<lparr>items := []\<rparr>
   else grows_by_one (items st) (items (fold_event st ev))"
  by (cases ev)
     (simp_all add: grows_fold_delta grows_ambient fold_host_ui_def Let_def,
      simp_all add: grows_by_one_def grows_snapshot comp_def)

text \<open>Two concrete events for the witnesses: their base and an idle snapshot.\<close>

definition ex_base :: event_base where
  "ex_base = \<lparr>eb_session_ref = \<lparr>workspace_id_of = ''ws'', session_id_of = ''s1''\<rparr>,
              eb_timestamp = ''t'', eb_run_id = None\<rparr>"

definition ex_delta :: "string \<Rightarrow> session_driver_event" where
  "ex_delta s = E_AssistantDelta ex_base s (Some ChannelText) None"

definition ex_user :: "string \<Rightarrow> session_driver_event" where
  "ex_user s = E_UserMessage ex_base s s None None None"

lemma turn_end_settles_witness:
  "no_open (items (fold_event (fold_all [ex_delta ''x'']) (E_SessionClosed ex_base ClosedEnded))) \<and>
   no_running (items (fold_event (fold_all [ex_delta ''x'']) (E_SessionClosed ex_base ClosedEnded)))"
  by (rule turn_end_settles) simp

end
