(* ===== verification/Replay_Log.thy ===== *)
theory Replay_Log
  imports Main
begin

text \<open>
  The two contracts between the journal and the code that ships it to clients, as locales.
  \<open>coalescing\<close>: appending to a compacted prefix may merge, and never changes what the prefix folds
  to. \<open>replay_log\<close>: a log with a seed (fold it from the initial state), a watermark, and a window
  of recent entries that can be replayed to a client which has folded up to an older watermark.
  The predicate \<open>logs j base log\<close> relates a journal to the two event sequences it stands for: the
  events it was created from and the events appended since.
\<close>

locale coalescing =
  fixes step :: "'s \<Rightarrow> 'e \<Rightarrow> 's"
    and app :: "'e list \<Rightarrow> 'e \<Rightarrow> 'e list"
  assumes app_fold: "foldl step s (app c e) = step (foldl step s c) e"
begin

lemma coalesce_fold: "foldl step s (foldl app c es) = foldl step s (c @ es)"
  by (induction es arbitrary: c) (simp_all add: app_fold)

lemma coalesce_fold_Nil: "foldl step s (foldl app [] es) = foldl step s es"
  by (simp add: coalesce_fold)

end

locale replay_log =
  fixes step :: "'s \<Rightarrow> 'e \<Rightarrow> 's"
    and init :: "'s"
    and seed :: "'j \<Rightarrow> 'e list"
    and watermark :: "'j \<Rightarrow> nat"
    and append :: "'j \<Rightarrow> 'e \<Rightarrow> 'j"
    and covers :: "'j \<Rightarrow> nat \<Rightarrow> bool"
    and missed :: "'j \<Rightarrow> nat \<Rightarrow> (nat \<times> 'e) list"
    and logs :: "'j \<Rightarrow> 'e list \<Rightarrow> 'e list \<Rightarrow> bool"
  assumes seed_fold: "logs j b l \<Longrightarrow> foldl step init (seed j) = foldl step init (b @ l)"
    and watermark_logs: "logs j b l \<Longrightarrow> watermark j = length l"
    and append_logs: "logs j b l \<Longrightarrow> logs (append j e) b (l @ [e])"
    and missed_logs: "logs j b l \<Longrightarrow> covers j n \<Longrightarrow> missed j n = enumerate (Suc n) (drop n l)"
    and covers_le: "logs j b l \<Longrightarrow> covers j n \<Longrightarrow> n \<le> watermark j"
begin

lemma seed_after_append:
  assumes "logs j b l"
  shows "foldl step init (seed (append j e)) = step (foldl step init (seed j)) e"
  using seed_fold [OF assms] seed_fold [OF append_logs [OF assms], of e] by simp

lemma watermark_append: "logs j b l \<Longrightarrow> watermark (append j e) = Suc (watermark j)"
  using watermark_logs watermark_logs [OF append_logs, of j b l e] by simp

lemma missed_events: "logs j b l \<Longrightarrow> covers j n \<Longrightarrow> map snd (missed j n) = drop n l"
  by (simp add: missed_logs)

lemma missed_seqs:
  assumes "logs j b l" and "covers j n"
  shows "map fst (missed j n) = [Suc n ..< Suc (watermark j)]"
proof -
  have "n \<le> length l"
    using covers_le [OF assms] by (simp add: watermark_logs [OF assms(1)])
  then show ?thesis
    by (simp add: missed_logs [OF assms] watermark_logs [OF assms(1)] del: upt_Suc)
qed

lemma resume_equals_seed:
  assumes "logs j b l" and "covers j n"
  shows "foldl step (foldl step init (b @ take n l)) (map snd (missed j n)) =
         foldl step init (seed j)"
proof -
  have "foldl step (foldl step init (b @ take n l)) (map snd (missed j n)) =
        foldl step init ((b @ take n l) @ drop n l)"
    by (simp only: foldl_append missed_events [OF assms])
  then show ?thesis by (simp add: seed_fold [OF assms(1)] del: foldl_append)
qed

end

end
