(* ===== verification/Journal.thy ===== *)
theory Journal
  imports Fold_Facts Replay_Log
begin

text \<open>
  The per-session journal, from \<^verbatim>\<open>server-rs/pantoken-server/src/journal.rs\<close>: a compacted prefix
  that can only be folded, and a bounded ring of recent frames that can be replayed.

  What the code takes from outside the repository is the record \<open>runtime\<close>: the length of a
  serialised JSON value and of a serialised request (\<open>serde_json\<close>), the percent-encoding of a
  string (\<open>urlencoding\<close>), the Unicode tables behind \<open>str::to_lowercase\<close>, and the iteration order
  of a \<open>HashMap\<close>. \<open>runtime_ok\<close> is the documented behaviour the code relies on: iterating over a
  map visits every key once. \<open>u64\<close> and \<open>usize\<close> counters are natural numbers; the only
  subtraction (\<open>tail_bytes -= oldest.bytes\<close>) is shown never to underflow
  (\<open>append_event_ring\<close>).
\<close>

record runtime =
  value_len :: "json \<Rightarrow> nat"
  request_len :: "host_ui_request \<Rightarrow> nat option"
  url_encode :: "string \<Rightarrow> string"
  lower :: "string \<Rightarrow> string"
  string_map_order :: "(string \<rightharpoonup> string) \<Rightarrow> string list"
  widget_map_order :: "(string \<rightharpoonup> ambient_widget) \<Rightarrow> string list"

definition runtime_ok :: "runtime \<Rightarrow> bool" where
  "runtime_ok R \<longleftrightarrow>
     (\<forall>m. finite (dom m) \<longrightarrow> enumerates (string_map_order R m) m) \<and>
     (\<forall>m. finite (dom m) \<longrightarrow> enumerates (widget_map_order R m) m)"

section \<open>The structure\<close>

definition TAIL_MAX_FRAMES :: nat where "TAIL_MAX_FRAMES = 1024"
definition TAIL_MAX_BYTES :: nat where "TAIL_MAX_BYTES = 256 * 1024"

record journal_frame =
  f_seq :: nat
  f_ev :: session_driver_event
  f_bytes :: nat

record session_journal =
  j_epoch :: nat
  j_seq :: nat
  compacted :: "session_driver_event list"
  tail :: "journal_frame list"
  tail_bytes :: nat
  j_session_ref :: "session_ref option"

section \<open>Coalescing\<close>

fun try_merge :: "session_driver_event \<Rightarrow> session_driver_event \<Rightarrow> session_driver_event option" where
  "try_merge (E_AssistantDelta b txt chan entry_id) (E_AssistantDelta _ txt_b chan_b _) =
     (let chan_a = unwrap_or chan ChannelText in
      if chan_a \<noteq> unwrap_or chan_b ChannelText then None
      else Some (E_AssistantDelta b (txt @ txt_b) (Some chan_a) entry_id))"
| "try_merge (E_UsageUpdated _ _) (E_UsageUpdated b u) = Some (E_UsageUpdated b u)"
| "try_merge _ _ = None"

definition compacted_append :: "session_driver_event list \<Rightarrow> session_driver_event \<Rightarrow> session_driver_event list" where
  "compacted_append c ev =
     (if c = [] then [ev]
      else case try_merge (last c) ev of
             Some m \<Rightarrow> butlast c @ [m]
           | None \<Rightarrow> c @ [ev])"

definition coalesce_events :: "session_driver_event list \<Rightarrow> session_driver_event list" where
  "coalesce_events evs = foldl compacted_append [] evs"

section \<open>Operations\<close>

definition first_session_ref :: "session_driver_event list \<Rightarrow> session_ref option" where
  "first_session_ref seed = (case seed of [] \<Rightarrow> None | e # _ \<Rightarrow> Some (event_session_ref e))"

definition create_journal :: "nat \<Rightarrow> session_driver_event list \<Rightarrow> session_journal" where
  "create_journal epoch seed =
     \<lparr>j_epoch = epoch, j_seq = 0, compacted = coalesce_events seed, tail = [], tail_bytes = 0,
      j_session_ref = first_session_ref seed\<rparr>"

definition bump_epoch :: "session_journal \<Rightarrow> nat \<Rightarrow> session_driver_event list \<Rightarrow> session_journal" where
  "bump_epoch j epoch seed =
     j\<lparr>j_epoch := epoch, j_seq := 0, compacted := coalesce_events seed, tail := [],
       tail_bytes := 0, j_session_ref := first_session_ref seed\<rparr>"

definition opt_len :: "('a \<Rightarrow> nat) \<Rightarrow> 'a option \<Rightarrow> nat" where
  "opt_len f x = unwrap_or (map_option f x) 0"

definition OVERHEAD :: nat where "OVERHEAD = 64"

fun estimated_bytes :: "runtime \<Rightarrow> session_driver_event \<Rightarrow> nat" where
  "estimated_bytes R (E_AssistantDelta _ txt _ _) = length txt + OVERHEAD"
| "estimated_bytes R (E_UserMessage _ i txt _ _ _) = length i + length txt + OVERHEAD"
| "estimated_bytes R (E_CustomMessage _ i custom_type txt _ _) =
     length i + length custom_type + length txt + OVERHEAD"
| "estimated_bytes R (E_ToolStarted _ tool_name call_id input label description) =
     length tool_name + length call_id + opt_len (value_len R) input + opt_len length label
     + opt_len length description + OVERHEAD"
| "estimated_bytes R (E_ToolUpdated _ call_id txt _) = length call_id + opt_len length txt + OVERHEAD"
| "estimated_bytes R (E_ToolFinished _ call_id _ output _ _) =
     length call_id + opt_len (value_len R) output + OVERHEAD"
| "estimated_bytes R (E_RunFailed _ e) = length (err_message e) + OVERHEAD"
| "estimated_bytes R (E_HostUiRequest _ req) = unwrap_or (request_len R req) OVERHEAD"
| "estimated_bytes R _ = OVERHEAD"

text \<open>The eviction loop: stop when the ring is empty or within both caps.\<close>

fun evict :: "journal_frame list \<Rightarrow> nat \<Rightarrow> session_driver_event list \<Rightarrow>
    journal_frame list \<times> nat \<times> session_driver_event list" where
  "evict [] bytes c = ([], bytes, c)"
| "evict (f # fs) bytes c =
     (if length (f # fs) > TAIL_MAX_FRAMES \<or> bytes > TAIL_MAX_BYTES
      then evict fs (bytes - f_bytes f) (compacted_append c (f_ev f))
      else (f # fs, bytes, c))"

definition append_event :: "runtime \<Rightarrow> session_journal \<Rightarrow> session_driver_event \<Rightarrow> session_journal" where
  "append_event R j ev =
     (let seq = j_seq j + 1;
          bytes = estimated_bytes R ev;
          pushed = tail j @ [\<lparr>f_seq = seq, f_ev = ev, f_bytes = bytes\<rparr>];
          (tail', bytes', compacted') = evict pushed (tail_bytes j + bytes) (compacted j)
      in j\<lparr>j_seq := seq, tail := tail', tail_bytes := bytes', compacted := compacted'\<rparr>)"

definition tail_covers :: "session_journal \<Rightarrow> nat \<Rightarrow> bool" where
  "tail_covers j seq =
     (if seq > j_seq j then False
      else if seq = j_seq j then True
      else case tail j of f # _ \<Rightarrow> f_seq f \<le> seq + 1 | [] \<Rightarrow> False)"

definition build_seed :: "session_journal \<Rightarrow> nat \<times> nat \<times> session_driver_event list" where
  "build_seed j = (j_epoch j, j_seq j, coalesce_events (compacted j @ map f_ev (tail j)))"

abbreviation seed_events :: "session_journal \<Rightarrow> session_driver_event list" where
  "seed_events j \<equiv> snd (snd (build_seed j))"

text \<open>The frames a resuming client at watermark \<open>seq\<close> is sent (\<open>hub.rs\<close>, \<open>add_client\<close>).\<close>

definition missed_frames :: "session_journal \<Rightarrow> nat \<Rightarrow> (nat \<times> session_driver_event) list" where
  "missed_frames j seq = map (\<lambda>f. (f_seq f, f_ev f)) (filter (\<lambda>f. f_seq f > seq) (tail j))"

section \<open>The meta seed of a reset\<close>

definition meta_base :: "session_ref \<Rightarrow> timestamp \<Rightarrow> event_base" where
  "meta_base r ts = \<lparr>eb_session_ref = r, eb_timestamp = ts, eb_run_id = None\<rparr>"

definition meta_snapshot :: "session_state \<Rightarrow> session_ref \<Rightarrow> timestamp \<Rightarrow> session_snapshot" where
  "meta_snapshot st r ts = \<lparr>
     s_ref = r,
     s_workspace = \<lparr>ws_workspace_id = workspace_id_of r, ws_path = [], ws_display_name = None\<rparr>,
     s_title = title st, s_status = status st, s_updated_at = ts, s_archived_at = None,
     s_preview = None, s_config = Some (config st), s_usage = usage st, s_running_run_id = None,
     s_queued_messages = Some (queued st), s_facet = facet st,
     s_permission_monitor = permission_monitor st,
     s_adventurous_handoff = adventurous_handoff st,
     s_notification_autodrain = notification_autodrain st, s_active_plan = active_plan st,
     s_goal = (case goal st of Some (Some g) \<Rightarrow> Some (Some g) | _ \<Rightarrow> None),
     s_flags = Some (flags st), s_todos = Some (todos st), s_mcp_servers = Some (mcp_servers st)\<rparr>"

fun widget_placement_of :: "ambient_placement \<Rightarrow> widget_placement" where
  "widget_placement_of AboveComposer = WidgetAboveComposer"
| "widget_placement_of BelowComposer = WidgetBelowComposer"

definition meta_status :: "(string \<rightharpoonup> string) \<Rightarrow> string \<Rightarrow> host_ui_request list" where
  "meta_status m key =
     (case m key of Some txt \<Rightarrow> [H_Status (''meta-status-'' @ key) key (Some txt)] | None \<Rightarrow> [])"

definition meta_widget :: "(string \<rightharpoonup> ambient_widget) \<Rightarrow> string \<Rightarrow> host_ui_request list" where
  "meta_widget m key =
     (case m key of
        Some w \<Rightarrow> [H_Widget (''meta-widget-'' @ aw_key w) (aw_key w) (Some (aw_lines w))
                     (Some (widget_placement_of (aw_placement w)))]
      | None \<Rightarrow> [])"

definition meta_requests :: "runtime \<Rightarrow> session_state \<Rightarrow> host_ui_request list" where
  "meta_requests R st =
     concat (map (meta_status (statuses (ambient st))) (string_map_order R (statuses (ambient st))))
     @ concat (map (meta_widget (widgets (ambient st))) (widget_map_order R (widgets (ambient st))))
     @ (case ambient_title (ambient st) of Some t \<Rightarrow> [H_Title ''meta-title'' t] | None \<Rightarrow> [])
     @ pending_approvals st"

definition meta_seed_events :: "runtime \<Rightarrow> session_state \<Rightarrow> session_ref \<Rightarrow> timestamp \<Rightarrow> session_driver_event list" where
  "meta_seed_events R st sref ts =
     (let r = unwrap_or (session_ref_of st) sref in
      E_SessionOpened (meta_base r ts) (meta_snapshot st r ts)
      # map (E_HostUiRequest (meta_base r ts)) (meta_requests R st))"

section \<open>Coalescing is fold-equivalent\<close>

lemma append_delta_text:
  "append_delta c (s @ t) x = append_delta c t (append_delta c s x)"
  by (cases x) (auto split: option.splits delta_channel.splits)

lemma append_delta_channel:
  "unwrap_or c ChannelText = unwrap_or d ChannelText \<Longrightarrow> append_delta c t x = append_delta d t x"
  by (cases x; cases c; cases d) (auto split: delta_channel.splits)

lemma append_delta_streaming [simp]: "is_streaming (append_delta c t x) = is_streaming x"
  by (cases x) (auto split: option.splits delta_channel.splits)

lemma open_bubble_last: "open_bubble xs ts e \<noteq> [] \<and> is_streaming (last (open_bubble xs ts e))"
  by (auto simp: open_bubble_def open_assistant_Some split: option.splits)

lemma open_bubble_id: "xs \<noteq> [] \<Longrightarrow> is_streaming (last xs) \<Longrightarrow> open_bubble xs ts e = xs"
  by (auto simp: open_bubble_def open_assistant_None split: option.splits)

lemma fold_delta_delta:
  assumes "unwrap_or c ChannelText = unwrap_or d ChannelText"
  shows "fold_delta (fold_delta xs ts s c e) ts' t d e' = fold_delta xs ts (s @ t) c e"
proof -
  let ?ys = "open_bubble xs ts e"
  have "fold_delta xs ts s c e = butlast ?ys @ [append_delta c s (last ?ys)]"
    by (simp add: fold_delta_def Let_def set_last_def)
  moreover have "open_bubble (butlast ?ys @ [append_delta c s (last ?ys)]) ts' e' =
      butlast ?ys @ [append_delta c s (last ?ys)]"
    using open_bubble_last [of xs ts e] by (intro open_bubble_id) auto
  ultimately show ?thesis
    by (simp add: fold_delta_def Let_def set_last_def append_delta_text
        append_delta_channel [OF assms])
qed

lemma fold_delta_channel_Some:
  "fold_delta xs ts t (Some (unwrap_or c ChannelText)) e = fold_delta xs ts t c e"
  by (simp add: fold_delta_def Let_def append_delta_channel [of "Some (unwrap_or c ChannelText)" c])

lemma merge_step:
  "try_merge a b = Some m \<Longrightarrow> fold_event st m = fold_event (fold_event st a) b"
proof (cases "(a, b)" rule: try_merge.cases)
  case (1 base s1 chan eid base' s2 chan' eid')
  assume "try_merge a b = Some m"
  with 1 have c: "unwrap_or chan ChannelText = unwrap_or chan' ChannelText"
    and m: "m = E_AssistantDelta base (s1 @ s2) (Some (unwrap_or chan ChannelText)) eid"
    by (auto simp: Let_def split: if_splits)
  from 1 show ?thesis
    by (simp add: m fold_delta_delta [OF c] del: unwrap_or_simps)
       (simp only: fold_delta_channel_Some)
qed auto

lemma compacted_append_fold:
  "foldl fold_event st (compacted_append c ev) = fold_event (foldl fold_event st c) ev"
proof (cases "c = []")
  case True
  then show ?thesis by (simp add: compacted_append_def)
next
  case False
  then have "foldl fold_event st c = fold_event (foldl fold_event st (butlast c)) (last c)"
    by (metis append_butlast_last_id foldl_Cons foldl_Nil foldl_append)
  with False show ?thesis
    by (auto simp: compacted_append_def merge_step split: option.splits)
qed

interpretation compaction: coalescing fold_event compacted_append
  by unfold_locales (rule compacted_append_fold)

lemma fold_coalesce [journal_facts]:
  "foldl fold_event st (coalesce_events evs) = foldl fold_event st evs"
  by (simp add: coalesce_events_def compaction.coalesce_fold_Nil)

section \<open>The representation of a journal\<close>

text \<open>
  \<open>journal_logs j base log\<close>: the journal was created from \<open>base\<close> and \<open>log\<close> was appended since;
  \<open>evicted\<close> counts the entries of \<open>log\<close> that have left the ring.
\<close>

definition evicted :: "session_journal \<Rightarrow> session_driver_event list \<Rightarrow> nat" where
  "evicted j log = length log - length (tail j)"

definition journal_logs :: "session_journal \<Rightarrow> session_driver_event list \<Rightarrow> session_driver_event list \<Rightarrow> bool" where
  "journal_logs j base log \<longleftrightarrow>
     j_seq j = length log \<and> length (tail j) \<le> length log \<and>
     map (\<lambda>f. (f_seq f, f_ev f)) (tail j) =
       enumerate (Suc (evicted j log)) (drop (evicted j log) log) \<and>
     (\<forall>st. foldl fold_event st (compacted j) = foldl fold_event st (base @ take (evicted j log) log))"

definition ring_ok :: "session_journal \<Rightarrow> bool" where
  "ring_ok j \<longleftrightarrow> length (tail j) \<le> TAIL_MAX_FRAMES \<and> tail_bytes j \<le> TAIL_MAX_BYTES \<and>
     tail_bytes j = sum_list (map f_bytes (tail j))"

lemma evict_spec:
  assumes "evict fs bytes c = (fs', bytes', c')" and "bytes = sum_list (map f_bytes fs)"
  shows "\<exists>k \<le> length fs. fs' = drop k fs \<and> c' = foldl compacted_append c (map f_ev (take k fs)) \<and>
           bytes' = sum_list (map f_bytes fs') \<and> length fs' \<le> TAIL_MAX_FRAMES \<and>
           bytes' \<le> TAIL_MAX_BYTES"
  using assms
proof (induction fs bytes c rule: evict.induct)
  case (1 bytes c)
  then show ?case by auto
next
  case (2 f fs bytes c)
  show ?case
  proof (cases "length (f # fs) > TAIL_MAX_FRAMES \<or> bytes > TAIL_MAX_BYTES")
    case True
    with 2 obtain k where "k \<le> length fs" "fs' = drop k fs"
      "c' = foldl compacted_append (compacted_append c (f_ev f)) (map f_ev (take k fs))"
      "bytes' = sum_list (map f_bytes fs')" "length fs' \<le> TAIL_MAX_FRAMES" "bytes' \<le> TAIL_MAX_BYTES"
      by auto
    then show ?thesis by (intro exI [of _ "Suc k"]) simp
  next
    case False
    with 2 show ?thesis by (intro exI [of _ 0]) auto
  qed
qed

text \<open>What one append does to the ring: push, then move the oldest \<open>k\<close> frames to the prefix.\<close>

lemma append_event_shape:
  fixes R ev
  assumes "tail_bytes j = sum_list (map f_bytes (tail j))"
  defines "frame \<equiv> \<lparr>f_seq = j_seq j + 1, f_ev = ev, f_bytes = estimated_bytes R ev\<rparr>"
  obtains k where "k \<le> Suc (length (tail j))"
    and "tail (append_event R j ev) = drop k (tail j @ [frame])"
    and "compacted (append_event R j ev) =
           foldl compacted_append (compacted j) (map f_ev (take k (tail j @ [frame])))"
    and "ring_ok (append_event R j ev)"
    and "j_seq (append_event R j ev) = Suc (j_seq j)"
    and "j_epoch (append_event R j ev) = j_epoch j"
proof -
  obtain t b c where e: "evict (tail j @ [frame]) (tail_bytes j + estimated_bytes R ev)
      (compacted j) = (t, b, c)"
    by (metis prod_cases3)
  have "tail_bytes j + estimated_bytes R ev = sum_list (map f_bytes (tail j @ [frame]))"
    using assms by simp
  from evict_spec [OF e this] obtain k where k: "k \<le> Suc (length (tail j))"
    "t = drop k (tail j @ [frame])"
    "c = foldl compacted_append (compacted j) (map f_ev (take k (tail j @ [frame])))"
    "b = sum_list (map f_bytes t)" "length t \<le> TAIL_MAX_FRAMES" "b \<le> TAIL_MAX_BYTES"
    by auto
  have "append_event R j ev = j\<lparr>j_seq := j_seq j + 1, tail := t, tail_bytes := b, compacted := c\<rparr>"
    using e by (simp add: append_event_def Let_def frame_def)
  with k that show thesis by (simp add: ring_ok_def)
qed

lemma journal_logs_create: "journal_logs (create_journal epoch base) base []"
  by (simp add: journal_logs_def create_journal_def evicted_def fold_coalesce)

lemma ring_ok_create: "ring_ok (create_journal epoch base)"
  by (simp add: ring_ok_def create_journal_def)

lemma journal_logs_append:
  assumes j: "journal_logs j base log" and r: "ring_ok j"
  shows "journal_logs (append_event R j ev) base (log @ [ev])"
proof -
  let ?j = "append_event R j ev" and ?e = "evicted j log" and ?L = "log @ [ev]"
  let ?frame = "\<lparr>f_seq = j_seq j + 1, f_ev = ev, f_bytes = estimated_bytes R ev\<rparr>"
  let ?pair = "\<lambda>f. (f_seq f, f_ev f)"
  from r have bytes: "tail_bytes j = sum_list (map f_bytes (tail j))" by (simp add: ring_ok_def)
  obtain k where k: "k \<le> Suc (length (tail j))"
    and t: "tail ?j = drop k (tail j @ [?frame])"
    and c: "compacted ?j = foldl compacted_append (compacted j) (map f_ev (take k (tail j @ [?frame])))"
    and s: "j_seq ?j = Suc (j_seq j)"
    by (rule append_event_shape [OF bytes])
  have len: "j_seq j = length log" "length (tail j) \<le> length log"
    "length (tail j) = length log - ?e" "?e \<le> length log"
    using j by (auto simp: journal_logs_def evicted_def)
  have old: "map ?pair (tail j) = enumerate (Suc ?e) (drop ?e log)"
    using j by (simp only: journal_logs_def)
  have "enumerate (Suc ?e) (drop ?e ?L) = enumerate (Suc ?e) (drop ?e log) @ [(Suc (length log), ev)]"
    using len(4) by (simp add: enumerate_append_eq)
  then have pushed: "map ?pair (tail j @ [?frame]) = enumerate (Suc ?e) (drop ?e ?L)"
    by (simp add: old len(1))
  have k': "k \<le> Suc (length log - ?e)" using k len(3) by simp
  have "length (tail ?j) = Suc (length log - ?e) - k"
    using len(3) by (simp add: t)
  then have "evicted ?j ?L = Suc (length log) - (Suc (length log - ?e) - k)"
    by (simp add: evicted_def [of ?j ?L])
  with k' len(4) have ev': "evicted ?j ?L = ?e + k" by arith
  have "map ?pair (tail ?j) = drop k (map ?pair (tail j @ [?frame]))"
    by (simp only: t drop_map)
  also have "\<dots> = enumerate (Suc (?e + k)) (drop (?e + k) ?L)"
    by (simp only: pushed drop_enumerate drop_drop add_Suc add.commute [of k ?e])
  finally have tl: "map ?pair (tail ?j) = enumerate (Suc (?e + k)) (drop (?e + k) ?L)" .
  have "map f_ev (take k (tail j @ [?frame])) = take k (map snd (map ?pair (tail j @ [?frame])))"
    by (simp only: take_map map_map comp_def snd_conv)
  also have "\<dots> = take k (drop ?e ?L)"
    by (simp only: pushed map_snd_enumerate)
  finally have evs: "map f_ev (take k (tail j @ [?frame])) = take k (drop ?e ?L)" .
  have tk: "take (?e + k) ?L = take ?e log @ take k (drop ?e ?L)"
    using len(4) by (simp only: take_add) simp
  have fold: "foldl fold_event st (compacted ?j) = foldl fold_event st (base @ take (?e + k) ?L)" for st
  proof -
    have "foldl fold_event st (compacted ?j) =
        foldl fold_event (foldl fold_event st (compacted j)) (take k (drop ?e ?L))"
      by (simp only: c evs compaction.coalesce_fold foldl_append)
    also have "foldl fold_event st (compacted j) = foldl fold_event st (base @ take ?e log)"
      using j by (simp add: journal_logs_def)
    finally show ?thesis by (simp only: tk foldl_append)
  qed
  have "length (tail ?j) \<le> length ?L"
    using len(2) by (simp add: t)
  with s len(1) tl fold show ?thesis
    by (simp add: journal_logs_def ev' del: foldl_append)
qed

lemma ring_ok_append: "ring_ok j \<Longrightarrow> ring_ok (append_event R j ev)"
  by (rule append_event_shape [of j R ev]) (simp_all add: ring_ok_def)

lemma build_seed_simps [simp]:
  "fst (build_seed j) = j_epoch j"
  "fst (snd (build_seed j)) = j_seq j"
  by (simp_all add: build_seed_def)

lemma fold_seed_events:
  "foldl fold_event st (seed_events j) =
     foldl fold_event (foldl fold_event st (compacted j)) (map f_ev (tail j))"
  by (simp add: build_seed_def fold_coalesce)

lemma journal_logs_seed:
  assumes "journal_logs j base log"
  shows "foldl fold_event st (seed_events j) = foldl fold_event st (base @ log)"
proof -
  have "map snd (map (\<lambda>f. (f_seq f, f_ev f)) (tail j)) = drop (evicted j log) log"
    using assms by (simp add: journal_logs_def)
  then have "map f_ev (tail j) = drop (evicted j log) log"
    by (simp add: comp_def)
  moreover have "foldl fold_event st (compacted j) =
      foldl fold_event st (base @ take (evicted j log) log)"
    using assms by (simp only: journal_logs_def)
  ultimately have "foldl fold_event st (seed_events j) =
      foldl fold_event st (base @ take (evicted j log) log @ drop (evicted j log) log)"
    by (simp only: fold_seed_events foldl_append)
  then show ?thesis by (simp only: append_take_drop_id)
qed

lemma tail_covers_logs:
  assumes "journal_logs j base log"
  shows "tail_covers j n \<longleftrightarrow> n \<le> length log \<and> evicted j log \<le> n"
proof -
  have s: "j_seq j = length log" using assms by (simp add: journal_logs_def)
  have e: "evicted j log \<le> length log" by (simp add: evicted_def)
  show ?thesis
  proof (cases "tail j")
    case Nil
    then show ?thesis using s e by (auto simp: tail_covers_def evicted_def)
  next
    case (Cons f fs)
    with assms have "map (\<lambda>f. (f_seq f, f_ev f)) (f # fs) =
        enumerate (Suc (evicted j log)) (drop (evicted j log) log)"
      by (simp add: journal_logs_def)
    then have "f_seq f = Suc (evicted j log)"
      by (cases "drop (evicted j log) log") auto
    then show ?thesis using s e Cons by (auto simp: tail_covers_def)
  qed
qed

lemma missed_frames_logs:
  assumes "journal_logs j base log" and "tail_covers j n"
  shows "missed_frames j n = enumerate (Suc n) (drop n log)"
proof -
  let ?e = "evicted j log"
  have le: "n \<le> length log" "?e \<le> n"
    using assms by (simp_all add: tail_covers_logs)
  have "missed_frames j n = filter (\<lambda>(s, x). s > n) (map (\<lambda>f. (f_seq f, f_ev f)) (tail j))"
    by (simp add: missed_frames_def filter_map comp_def)
  also have "\<dots> = filter (\<lambda>(s, x). Suc ?e + (n - ?e) \<le> s) (enumerate (Suc ?e) (drop ?e log))"
    using assms(1) le by (simp add: journal_logs_def Suc_le_eq)
  also have "\<dots> = enumerate (Suc ?e + (n - ?e)) (drop (n - ?e) (drop ?e log))"
    using le by (intro filter_eq_drop_enumerate) simp
  finally show ?thesis using le by simp
qed

text \<open>The journal is a replay log.\<close>

definition journal_repr :: "session_journal \<Rightarrow> session_driver_event list \<Rightarrow> session_driver_event list \<Rightarrow> bool" where
  "journal_repr j base log \<longleftrightarrow> journal_logs j base log \<and> ring_ok j"

interpretation journal: replay_log fold_event initial_session_state seed_events j_seq
  "append_event R" tail_covers missed_frames journal_repr for R
proof unfold_locales
  fix j b l e n
  assume j: "journal_repr j b l"
  show "foldl fold_event initial_session_state (seed_events j) =
      foldl fold_event initial_session_state (b @ l)"
    using j by (simp only: journal_repr_def journal_logs_seed [of j b l])
  show "j_seq j = length l"
    using j by (simp add: journal_repr_def journal_logs_def)
  show "journal_repr (append_event R j e) b (l @ [e])"
    using j by (simp add: journal_repr_def journal_logs_append ring_ok_append)
  assume c: "tail_covers j n"
  show "missed_frames j n = enumerate (Suc n) (drop n l)"
    using j c by (simp only: journal_repr_def missed_frames_logs [of j b l n])
  show "n \<le> j_seq j"
    using j c tail_covers_logs [of j b l n] by (simp add: journal_repr_def journal_logs_def)
qed

section \<open>Runs of a journal\<close>

definition journal_run :: "runtime \<Rightarrow> nat \<Rightarrow> session_driver_event list \<Rightarrow> session_driver_event list \<Rightarrow> session_journal" where
  "journal_run R epoch seed evs = foldl (append_event R) (create_journal epoch seed) evs"

lemma journal_run_Nil [simp]: "journal_run R epoch seed [] = create_journal epoch seed"
  by (simp add: journal_run_def)

lemma journal_run_snoc [simp]:
  "journal_run R epoch seed (evs @ [ev]) = append_event R (journal_run R epoch seed evs) ev"
  by (simp add: journal_run_def)

lemma journal_run_repr [journal_facts]: "journal_repr (journal_run R epoch seed evs) seed evs"
proof (induction evs rule: rev_induct)
  case Nil
  show ?case by (simp add: journal_repr_def journal_logs_create ring_ok_create)
next
  case (snoc ev evs)
  then show ?case by (simp add: journal.append_logs)
qed

lemma journal_repr_seq: "journal_repr j base log \<Longrightarrow> j_seq j = length log"
  by (simp add: journal_repr_def journal_logs_def)

lemma journal_repr_fold: "journal_repr j base log \<Longrightarrow> fold_all (seed_events j) = fold_all (base @ log)"
  by (simp add: fold_all_def fold_all_from_def journal.seed_fold del: foldl_append)

section \<open>The meta seed\<close>

lemma fold_requests:
  "foldl fold_event st (map (E_HostUiRequest b) rs) = foldl fold_host_ui st rs"
  by (induction rs arbitrary: st) simp_all

lemma fold_meta_statuses:
  assumes "\<forall>k \<in> set ks. m k \<noteq> None"
  shows "foldl fold_host_ui st (concat (map (meta_status m) ks)) =
    st\<lparr>ambient := (ambient st)\<lparr>statuses := foldl (\<lambda>acc k. acc(k := m k)) (statuses (ambient st)) ks\<rparr>\<rparr>"
  using assms
proof (induction ks arbitrary: st)
  case Nil
  show ?case by simp
next
  case (Cons k ks)
  then obtain v where "m k = Some v" by auto
  with Cons show ?case by (simp add: meta_status_def fold_host_ui_def del: fun_upd_apply)
qed

lemma placement_roundtrip [simp]: "ambient_placement_of (widget_placement_of p) = p"
  by (cases p) auto

lemma fold_meta_widgets:
  assumes "\<forall>k \<in> set ks. \<exists>w. m k = Some w \<and> aw_key w = k \<and> aw_lines w \<noteq> []"
  shows "foldl fold_host_ui st (concat (map (meta_widget m) ks)) =
    st\<lparr>ambient := (ambient st)\<lparr>widgets := foldl (\<lambda>acc k. acc(k := m k)) (widgets (ambient st)) ks\<rparr>\<rparr>"
  using assms
proof (induction ks arbitrary: st)
  case Nil
  show ?case by simp
next
  case (Cons k ks)
  then obtain w l ls where w: "m k = Some w" "aw_key w = k" "aw_lines w = l # ls"
    by (auto simp: neq_Nil_conv)
  then have "m k = Some \<lparr>aw_key = k, aw_lines = l # ls, aw_placement = aw_placement w\<rparr>"
    by (cases w) simp
  with w Cons show ?case by (simp add: meta_widget_def fold_host_ui_def del: fun_upd_apply)
qed

lemma fold_meta_title:
  "foldl fold_host_ui st (case t of Some x \<Rightarrow> [H_Title i x] | None \<Rightarrow> []) =
    st\<lparr>ambient := (ambient st)\<lparr>ambient_title := or_else t (ambient_title (ambient st))\<rparr>\<rparr>"
  by (cases t) (simp_all add: fold_host_ui_def)

lemma fold_meta_approvals:
  "approvals_wf (pending_approvals st @ ps) \<Longrightarrow>
    foldl fold_host_ui st ps = st\<lparr>pending_approvals := pending_approvals st @ ps\<rparr>"
proof (induction ps arbitrary: st)
  case Nil
  show ?case by simp
next
  case (Cons p ps)
  have d: "is_dialog_request p"
    and "host_request_id p \<notin> host_request_id ` set (pending_approvals st)"
    using Cons.prems by (simp_all add: approvals_wf_def)
  then have "\<not> (\<exists>q \<in> set (pending_approvals st). host_request_id q = host_request_id p)"
    by (metis imageI)
  with d have "fold_host_ui st p = st\<lparr>pending_approvals := pending_approvals st @ [p]\<rparr>"
    by (simp add: fold_host_ui_def)
  with Cons show ?case by simp
qed

lemma fold_meta_snapshot:
  assumes "goal st \<noteq> Some None"
  shows "fold_snapshot initial_session_state (meta_snapshot st r ts) ts' =
    st\<lparr>session_ref_of := Some r, items := [], pending_approvals := [], ambient := default_ambient\<rparr>"
proof (rule session_state.equality)
  show "goal (fold_snapshot initial_session_state (meta_snapshot st r ts) ts') =
    goal (st\<lparr>session_ref_of := Some r, items := [], pending_approvals := [], ambient := default_ambient\<rparr>)"
    using assms
    by (simp add: fold_snapshot_def meta_snapshot_def initial_session_state_def split: option.splits)
qed (simp_all add: fold_snapshot_def meta_snapshot_def initial_session_state_def
       close_open_assistant_def open_assistant_def last_item_def)

lemma ambient_eta [simp]:
  "\<lparr>statuses = statuses am, widgets = widgets am, ambient_title = ambient_title am\<rparr> = (am :: ambient_state)"
  by simp

lemma enumerates_keys: "enumerates ks m \<Longrightarrow> k \<in> set ks \<Longrightarrow> m k \<noteq> None"
  by (auto simp: enumerates_def)

lemma meta_seed_fold [journal_facts]:
  assumes wf: "state_wf st" and R: "runtime_ok R"
  shows "foldl fold_event initial_session_state (meta_seed_events R st sref ts) =
    st\<lparr>session_ref_of := Some (unwrap_or (session_ref_of st) sref), items := []\<rparr>"
proof -
  let ?am = "ambient st" and ?r = "unwrap_or (session_ref_of st) sref"
  let ?s0 = "st\<lparr>session_ref_of := Some ?r, items := [], pending_approvals := [], ambient := default_ambient\<rparr>"
  have am: "ambient_wf ?am" and ap: "approvals_wf (pending_approvals st)" and g: "goal st \<noteq> Some None"
    using wf by (auto simp: state_wf_def)
  have sk: "enumerates (string_map_order R (statuses ?am)) (statuses ?am)"
    and wk: "enumerates (widget_map_order R (widgets ?am)) (widgets ?am)"
    using am R by (auto simp: runtime_ok_def ambient_wf_def)
  have wds: "\<forall>k \<in> set (widget_map_order R (widgets ?am)). \<exists>w. widgets ?am k = Some w \<and> aw_key w = k \<and> aw_lines w \<noteq> []"
    using am wk by (force simp: ambient_wf_def enumerates_def)
  have "foldl fold_event initial_session_state (meta_seed_events R st sref ts) =
      foldl fold_host_ui ?s0 (meta_requests R st)"
    by (simp add: meta_seed_events_def Let_def fold_requests fold_meta_snapshot [OF g])
  also have "\<dots> = foldl fold_host_ui (?s0\<lparr>ambient := ?am\<rparr>) (pending_approvals st)"
    using enumerates_keys [OF sk] wds
    by (simp add: meta_requests_def fold_meta_statuses fold_meta_widgets fold_meta_title
        foldl_insert_enumerates [OF sk] foldl_insert_enumerates [OF wk] default_ambient_def)
  also have "\<dots> = st\<lparr>session_ref_of := Some ?r, items := []\<rparr>"
    using ap by (simp add: fold_meta_approvals)
  finally show ?thesis .
qed

text \<open>A concrete runtime: maps are iterated in key order. Used by the witnesses.\<close>

definition sorted_runtime :: runtime where
  "sorted_runtime =
     \<lparr>value_len = (\<lambda>_. 0), request_len = (\<lambda>_. None),
      url_encode = (\<lambda>s. s), lower = (\<lambda>s. s),
      string_map_order = (\<lambda>m. sorted_list_of_set (dom m)),
      widget_map_order = (\<lambda>m. sorted_list_of_set (dom m))\<rparr>"

lemma sorted_runtime_ok: "runtime_ok sorted_runtime"
  by (simp add: runtime_ok_def sorted_runtime_def enumerates_sorted_list)

section \<open>Properties\<close>

text \<open>Merging two adjacent events gives one event that folds, from every state, to what the two
  fold to.\<close>

theorem try_merge_fold_equivalent:
  assumes "try_merge a b = Some m"
  shows "fold_event st m = fold_event (fold_event st a) b"
  by (rule merge_step [OF assms])

lemma try_merge_fold_equivalent_witness:
  "fold_event initial_session_state (ex_delta ''ab'') =
     fold_event (fold_event initial_session_state (ex_delta ''a'')) (ex_delta ''b'')"
  by (rule try_merge_fold_equivalent) (simp add: ex_delta_def)

text \<open>C4: The journal invariant of the module: whatever was created, appended, merged and evicted,
  folding the seed gives the state a client that received every event one by one has folded, and
  the watermark counts the appended events.\<close>

theorem journal_seed_invariant:
  "fold_all (seed_events (journal_run R epoch seed evs)) = fold_all (seed @ evs) \<and>
   j_seq (journal_run R epoch seed evs) = length evs"
  using journal_run_repr [of R epoch seed evs] by (simp add: journal_repr_fold journal_repr_seq)

text \<open>C6: The replay ring is bounded: after any number of appends it holds at most
  \<open>TAIL_MAX_FRAMES\<close> frames and \<open>TAIL_MAX_BYTES\<close> estimated bytes, and the byte count kept beside it
  is exact, so the subtraction of the eviction loop never underflows.\<close>

theorem append_event_ring:
  "length (tail (journal_run R epoch seed evs)) \<le> TAIL_MAX_FRAMES \<and>
   tail_bytes (journal_run R epoch seed evs) \<le> TAIL_MAX_BYTES \<and>
   tail_bytes (journal_run R epoch seed evs) =
     sum_list (map f_bytes (tail (journal_run R epoch seed evs)))"
  using journal_run_repr [of R epoch seed evs] by (simp add: journal_repr_def ring_ok_def)

text \<open>C5: Resuming is exact: when \<open>tail_covers\<close> accepts a watermark, the frames sent are numbered
  consecutively from the next one to the journal's own watermark, and a client that had folded the
  log up to its watermark and folds those frames ends in the state a full seed would give it.\<close>

theorem journal_resume_exact:
  assumes "tail_covers (journal_run R epoch seed evs) n"
  shows "map fst (missed_frames (journal_run R epoch seed evs) n) = [Suc n ..< Suc (length evs)] \<and>
    fold_all_from (fold_all (seed @ take n evs)) (map snd (missed_frames (journal_run R epoch seed evs) n)) =
    fold_all (seed_events (journal_run R epoch seed evs))"
  using journal.missed_seqs [OF journal_run_repr assms]
    journal.resume_equals_seed [OF journal_run_repr assms]
  by (simp add: fold_all_def fold_all_from_def journal_repr_seq [OF journal_run_repr] del: upt_Suc)

lemma journal_resume_exact_witness:
  "map fst (missed_frames (journal_run sorted_runtime 1 [] [ex_user ''a'', ex_user ''b'']) 1) =
     [Suc 1 ..< Suc (length [ex_user ''a'', ex_user ''b''])] \<and>
   fold_all_from (fold_all ([] @ take 1 [ex_user ''a'', ex_user ''b'']))
     (map snd (missed_frames (journal_run sorted_runtime 1 [] [ex_user ''a'', ex_user ''b'']) 1)) =
   fold_all (seed_events (journal_run sorted_runtime 1 [] [ex_user ''a'', ex_user ''b'']))"
  by (rule journal_resume_exact)
     (simp add: journal_run_def create_journal_def append_event_def Let_def tail_covers_def
       ex_user_def TAIL_MAX_FRAMES_def TAIL_MAX_BYTES_def OVERHEAD_def)

text \<open>\<open>tail_covers\<close> is complete: it accepts exactly the watermarks that lie in the past and
  below which nothing was evicted from the ring.\<close>

theorem tail_covers_exact:
  "tail_covers (journal_run R epoch seed evs) n \<longleftrightarrow>
     n \<le> length evs \<and> length evs - length (tail (journal_run R epoch seed evs)) \<le> n"
  using journal_run_repr [of R epoch seed evs]
    tail_covers_logs [of "journal_run R epoch seed evs" seed evs n]
  by (simp add: journal_repr_def evicted_def)

text \<open>The seed a reset restarts the journal from carries everything but the transcript: folding
  it rebuilds the title, configuration, queue, approvals and ambient widgets of the folded state,
  in whatever order the maps are iterated.\<close>

theorem meta_seed_restores:
  assumes "runtime_ok R"
  shows "fold_all (meta_seed_events R (fold_all evs) sref ts) =
    (fold_all evs)\<lparr>session_ref_of := Some (unwrap_or (session_ref_of (fold_all evs)) sref),
                   items := []\<rparr>"
  using meta_seed_fold [OF fold_all_wf assms] by (simp add: fold_all_def fold_all_from_def)

lemma meta_seed_restores_witness:
  "fold_all (meta_seed_events sorted_runtime (fold_all [ex_delta ''x'']) (eb_session_ref ex_base) ''t'') =
    (fold_all [ex_delta ''x''])\<lparr>session_ref_of :=
       Some (unwrap_or (session_ref_of (fold_all [ex_delta ''x''])) (eb_session_ref ex_base)),
       items := []\<rparr>"
  by (rule meta_seed_restores) (rule sorted_runtime_ok)

end
