(* ===== verification/Text_Clip.thy ===== *)
theory Text_Clip
  imports Prelude
begin

text \<open>
  The text helpers of \<^verbatim>\<open>server-rs/pantoken-server/src/hub.rs\<close> on UTF-8 bytes: splitting on Unicode
  white space, and \<open>clipped\<close>, which shortens a line for the sidebar and for notifications. Slicing
  a Rust string at a byte that is inside a character panics; a panic is \<open>None\<close>.
\<close>

section \<open>UTF-8 characters and white space\<close>

definition is_cont :: "char \<Rightarrow> bool" where
  "is_cont c \<longleftrightarrow> 0x80 \<le> (of_char c :: nat) \<and> (of_char c :: nat) < 0xC0"

definition is_char_boundary :: "string \<Rightarrow> nat \<Rightarrow> bool" where
  "is_char_boundary s n \<longleftrightarrow> n = 0 \<or> n = length s \<or> (n < length s \<and> \<not> is_cont (s ! n))"

definition str_prefix :: "string \<Rightarrow> nat \<Rightarrow> string option" where
  "str_prefix s n = (if is_char_boundary s n then Some (take n s) else None)"

lemma length_dropWhile_less [simp]: "length (dropWhile P xs) < Suc (length xs)"
  by (simp add: le_imp_less_Suc length_dropWhile_le)

text \<open>\<open>str::chars\<close>, each character as its bytes.\<close>

function utf8_chars :: "string \<Rightarrow> string list" where
  "utf8_chars [] = []"
| "utf8_chars (b # bs) = (b # takeWhile is_cont bs) # utf8_chars (dropWhile is_cont bs)"
  by pat_completeness auto
termination
  by (relation "measure length") simp_all

definition bytes :: "nat list \<Rightarrow> string" where
  "bytes ns = map char_of ns"

text \<open>\<open>char::is_whitespace\<close>: the code points with the Unicode property \<open>White_Space\<close>.\<close>

definition is_whitespace :: "string \<Rightarrow> bool" where
  "is_whitespace c \<longleftrightarrow> map of_char c \<in> set
     (([[0x09], [0x0A], [0x0B], [0x0C], [0x0D], [0x20], [0xC2, 0x85], [0xC2, 0xA0],
       [0xE1, 0x9A, 0x80], [0xE2, 0x80, 0xA8], [0xE2, 0x80, 0xA9], [0xE2, 0x80, 0xAF],
       [0xE2, 0x81, 0x9F], [0xE3, 0x80, 0x80]] @ map (\<lambda>i. [0xE2, 0x80, i]) [0x80 ..< 0x8B]) :: nat list list)"

function ws_words :: "string list \<Rightarrow> string list" where
  "ws_words [] = []"
| "ws_words (c # cs) =
     (if is_whitespace c then ws_words cs
      else concat (c # takeWhile (\<lambda>d. \<not> is_whitespace d) cs)
           # ws_words (dropWhile (\<lambda>d. \<not> is_whitespace d) cs))"
  by pat_completeness auto
termination
  by (relation "measure length") simp_all

definition split_whitespace :: "string \<Rightarrow> string list" where
  "split_whitespace s = ws_words (utf8_chars s)"

definition trim :: "string \<Rightarrow> string" where
  "trim s = concat (rev (dropWhile is_whitespace (rev (dropWhile is_whitespace (utf8_chars s)))))"

section \<open>Clipping\<close>

definition ellipsis :: string where
  "ellipsis = bytes [0xE2, 0x80, 0xA6]"

definition em_dash :: string where
  "em_dash = bytes [0xE2, 0x80, 0x94]"

definition quoted :: "string \<Rightarrow> string" where
  "quoted s = [CHR 0x22] @ s @ [CHR 0x22]"

definition one_line :: "string \<Rightarrow> string" where
  "one_line v = join '' '' (split_whitespace v)"

definition clipped :: "string \<Rightarrow> nat \<Rightarrow> string option" where
  "clipped v lim =
     (let line = one_line v in
      if length line > lim
      then map_option (\<lambda>p. p @ ellipsis) (str_prefix line (lim - 1))
      else Some line)"

lemma utf8_chars_concat [simp]: "concat (utf8_chars s) = s"
  by (induction s rule: utf8_chars.induct) simp_all

lemma length_ellipsis [simp]: "length ellipsis = 3"
  by (simp add: ellipsis_def bytes_def)

lemma clipped_None:
  "clipped v lim = None \<longleftrightarrow>
     lim < length (one_line v) \<and> \<not> is_char_boundary (one_line v) (lim - 1)"
  by (simp add: clipped_def Let_def str_prefix_def)

lemma set_join: "set (join sep ps) \<subseteq> set sep \<union> (\<Union>p \<in> set ps. set p)"
  by (induction sep ps rule: join.induct) auto

lemma ws_words_bytes: "p \<in> set (ws_words cs) \<Longrightarrow> set p \<subseteq> (\<Union>c \<in> set cs. set c)"
proof (induction cs rule: ws_words.induct)
  case 1
  then show ?case by simp
next
  case (2 c cs)
  show ?case
  proof (cases "is_whitespace c")
    case True
    with 2 show ?thesis by auto
  next
    case False
    have sub: "set (takeWhile Q cs) \<subseteq> set cs" "set (dropWhile Q cs) \<subseteq> set cs" for Q
      by (auto dest: set_takeWhileD set_dropWhileD)
    from False 2(3) consider "p = concat (c # takeWhile (\<lambda>d. \<not> is_whitespace d) cs)"
      | "p \<in> set (ws_words (dropWhile (\<lambda>d. \<not> is_whitespace d) cs))"
      by auto
    then show ?thesis
    proof cases
      case 1
      with sub(1) show ?thesis by auto
    next
      case 2
      from "2.IH"(2) [OF False 2] sub(2) show ?thesis by fastforce
    qed
  qed
qed

lemma one_line_bytes: "set (one_line v) \<subseteq> insert (CHR '' '') (set v)"
proof -
  have "(\<Union>c \<in> set (utf8_chars v). set c) = set v"
    using arg_cong [OF utf8_chars_concat [of v], of set] by (simp only: set_concat)
  then have "p \<in> set (split_whitespace v) \<Longrightarrow> set p \<subseteq> set v" for p
    using ws_words_bytes [of p "utf8_chars v"] by (simp add: split_whitespace_def)
  then show ?thesis
    using set_join [of "'' ''" "split_whitespace v"] by (auto simp: one_line_def)
qed

text \<open>Text without white space is its own single line.\<close>

lemma ws_words_solid:
  "cs \<noteq> [] \<Longrightarrow> \<forall>c \<in> set cs. \<not> is_whitespace c \<Longrightarrow> ws_words cs = [concat cs]"
  by (cases cs) (auto simp: takeWhile_eq_all_conv [THEN iffD2] dropWhile_eq_Nil_conv [THEN iffD2])

lemma one_line_solid:
  "v \<noteq> [] \<Longrightarrow> \<forall>c \<in> set (utf8_chars v). \<not> is_whitespace c \<Longrightarrow> one_line v = v"
proof -
  assume "v \<noteq> []" and solid: "\<forall>c \<in> set (utf8_chars v). \<not> is_whitespace c"
  then have "utf8_chars v \<noteq> []" by (cases v) simp_all
  with solid show "one_line v = v"
    by (simp add: one_line_def split_whitespace_def ws_words_solid)
qed

lemma utf8_chars_replicate:
  "\<not> is_cont c \<Longrightarrow> s = [] \<or> \<not> is_cont (hd s) \<Longrightarrow>
     utf8_chars (replicate n c @ s) = replicate n [c] @ utf8_chars s"
proof (induction n)
  case 0
  then show ?case by simp
next
  case (Suc n)
  have "\<not> is_cont (hd (replicate n c @ s)) \<or> replicate n c @ s = []"
    using Suc.prems by (cases n) auto
  then have "takeWhile is_cont (replicate n c @ s) = []" "dropWhile is_cont (replicate n c @ s) = replicate n c @ s"
    by (cases "replicate n c @ s"; simp)+
  with Suc show ?case by simp
qed

section \<open>Properties\<close>

text \<open>Clipping ASCII text never panics, and what clipping returns is at most two bytes longer
  than the limit.\<close>

theorem clipped_ascii:
  assumes "\<forall>c \<in> set v. (of_char c :: nat) < 0x80" and "0 < lim"
  shows "\<exists>r. clipped v lim = Some r \<and> length r \<le> lim + 2"
proof -
  have "\<not> is_cont c" if "c \<in> set (one_line v)" for c
  proof -
    from that one_line_bytes [of v] have "c = CHR '' '' \<or> c \<in> set v" by blast
    with assms(1) show ?thesis by (auto simp: is_cont_def)
  qed
  then have "is_char_boundary (one_line v) n" if "n < length (one_line v)" for n
    using that by (simp add: is_char_boundary_def)
  then show ?thesis
    using assms(2) by (auto simp: clipped_def Let_def str_prefix_def)
qed

lemma clipped_ascii_witness: "\<exists>r. clipped ''a b'' 2 = Some r \<and> length r \<le> 2 + 2"
  by (rule clipped_ascii) (auto simp: of_char_def)

lemma clipped_bad_text:
  "clipped (replicate 70 CHR ''a'' @ bytes [0xE2, 0x82, 0xAC, 0xE2, 0x82, 0xAC]) 72 = None"
proof -
  let ?euros = "bytes [0xE2, 0x82, 0xAC, 0xE2, 0x82, 0xAC]" and ?as = "replicate 70 CHR ''a''"
  have e: "utf8_chars ?euros = [bytes [0xE2, 0x82, 0xAC], bytes [0xE2, 0x82, 0xAC]]"
    by code_simp
  have w: "\<not> is_whitespace [CHR ''a'']" "\<not> is_whitespace (bytes [0xE2, 0x82, 0xAC])"
    by code_simp+
  have c: "\<not> is_cont CHR ''a''" "\<not> is_cont (hd ?euros)" "is_cont (?euros ! 1)" "length ?euros = 6"
    by code_simp+
  have "utf8_chars (?as @ ?euros) = replicate 70 [CHR ''a''] @ utf8_chars ?euros"
    using c by (intro utf8_chars_replicate) simp_all
  with e w have "\<forall>d \<in> set (utf8_chars (?as @ ?euros)). \<not> is_whitespace d"
    by (simp add: ball_Un)
  then have line: "one_line (?as @ ?euros) = ?as @ ?euros"
    by (intro one_line_solid) simp_all
  have "\<not> is_char_boundary (?as @ ?euros) (72 - 1)"
    using c by (simp add: is_char_boundary_def nth_append)
  with c line show ?thesis by (simp add: clipped_None)
qed

text \<open>Clipping at a byte position panics on text whose cut falls inside a character: seventy
  letters followed by two three-byte characters, at the limit of 72 the hub uses everywhere.\<close>

theorem clipped_panics_inside_character:
  "clipped (replicate 70 CHR ''a'' @ bytes [0xE2, 0x82, 0xAC, 0xE2, 0x82, 0xAC]) 72 = None"
  by (rule clipped_bad_text)

end
