(* ===== verification/Hub_Tracking.thy ===== *)
theory Hub_Tracking
  imports Journal Text_Clip "HOL-Library.Monad_Syntax"
begin

text \<open>
  The cross-session tracking of \<^verbatim>\<open>server-rs/pantoken-server/src/hub.rs\<close>: which sessions are running
  or starting, and what needs the operator's attention. Every function here is one method of
  \<open>SessionHub\<close> on the fields it reads and writes (\<open>running\<close>, \<open>initializing\<close>, \<open>attention\<close>,
  \<open>session_titles\<close>), grouped in the record \<open>tracking\<close>. A method that clips text can panic
  (\<open>Text_Clip\<close>); such a method returns an option, and \<open>None\<close> is the panic.
\<close>

datatype attention_phase = AttRunning | AttFailed | AttDone

record attention_record =
  ar_phase :: attention_phase
  ar_activity :: "string option"
  ar_updated_at :: string
  ar_pending :: "string \<rightharpoonup> string"

datatype session_attention_phase = PhaseRunning | PhaseWaiting | PhaseFailed | PhaseDone

record session_attention =
  sa_session_id :: session_id
  sa_phase :: session_attention_phase
  sa_activity :: "string option"
  sa_pending_count :: "int option"
  sa_pending_title :: "string option"
  sa_updated_at :: string

record tracking =
  running :: "session_id set"
  initializing :: "session_id set"
  attention :: "session_id \<rightharpoonup> attention_record"
  session_titles :: "session_id \<rightharpoonup> string"

definition empty_tracking :: tracking where
  "empty_tracking =
     \<lparr>running = {}, initializing = {}, attention = Map.empty, session_titles = Map.empty\<rparr>"

section \<open>Accessors\<close>

fun snapshot_status :: "session_driver_event \<Rightarrow> session_status option" where
  "snapshot_status (E_SessionOpened _ sn) = Some (s_status sn)"
| "snapshot_status (E_SessionUpdated _ sn) = Some (s_status sn)"
| "snapshot_status (E_RunCompleted _ sn _ _) = Some (s_status sn)"
| "snapshot_status _ = None"

fun snapshot_title :: "session_driver_event \<Rightarrow> string option" where
  "snapshot_title (E_SessionOpened _ sn) = Some (s_title sn)"
| "snapshot_title (E_SessionUpdated _ sn) = Some (s_title sn)"
| "snapshot_title (E_RunCompleted _ sn _ _) = Some (s_title sn)"
| "snapshot_title _ = None"

fun request_title_field :: "host_ui_request \<Rightarrow> string option" where
  "request_title_field (H_Confirm _ t _ _ _) = Some t"
| "request_title_field (H_Unknown _ t _) = Some t"
| "request_title_field (H_Input _ t _ _ _) = Some t"
| "request_title_field (H_Select _ t _ _ _) = Some t"
| "request_title_field (H_Editor _ t _) = Some t"
| "request_title_field (H_Qna _ t _ _) = t"
| "request_title_field (H_Permission _ t _ _ _ _) = Some t"
| "request_title_field (H_Plan _ t _ _ _ _ _) = Some t"
| "request_title_field (H_Title _ t) = Some t"
| "request_title_field _ = None"

fun request_message :: "host_ui_request \<Rightarrow> string option" where
  "request_message (H_Confirm _ _ m _ _) = Some m"
| "request_message (H_Unknown _ _ m) = Some m"
| "request_message (H_Notify _ m _) = Some m"
| "request_message _ = None"

fun is_qna :: "host_ui_request \<Rightarrow> bool" where
  "is_qna (H_Qna _ _ _ _) = True"
| "is_qna _ = False"

definition request_title :: "host_ui_request \<Rightarrow> string option" where
  "request_title req =
     (case request_title_field req of
        Some (c # cs) \<Rightarrow> clipped (c # cs) 72
      | _ \<Rightarrow>
        (case request_message req of
           Some (c # cs) \<Rightarrow> clipped (c # cs) 72
         | _ \<Rightarrow> Some (if is_qna req then ''Questions need answers'' else ''Waiting on you'')))"

section \<open>Running and initializing\<close>

definition set_running :: "session_id \<Rightarrow> bool \<Rightarrow> tracking \<Rightarrow> tracking" where
  "set_running sid on t =
     (if on then t\<lparr>running := insert sid (running t), initializing := initializing t - {sid}\<rparr>
      else t\<lparr>running := running t - {sid}\<rparr>)"

definition set_initializing :: "session_id \<Rightarrow> bool \<Rightarrow> tracking \<Rightarrow> tracking" where
  "set_initializing sid on t =
     (if on then t\<lparr>initializing := insert sid (initializing t), running := running t - {sid}\<rparr>
      else t\<lparr>initializing := initializing t - {sid}\<rparr>)"

definition track_snapshot :: "session_id \<Rightarrow> session_status option \<Rightarrow> tracking \<Rightarrow> tracking" where
  "track_snapshot sid st t =
     set_initializing sid (st = Some Initializing) (set_running sid (st = Some Running) t)"

fun track_running_event :: "session_id \<Rightarrow> session_driver_event \<Rightarrow> tracking \<Rightarrow> tracking" where
  "track_running_event sid (E_SessionOpened b sn) t = track_snapshot sid (Some (s_status sn)) t"
| "track_running_event sid (E_SessionUpdated b sn) t = track_snapshot sid (Some (s_status sn)) t"
| "track_running_event sid (E_RunCompleted b sn _ _) t = track_snapshot sid (Some (s_status sn)) t"
| "track_running_event sid (E_AssistantDelta _ _ _ _) t = set_running sid True t"
| "track_running_event sid (E_ToolStarted _ _ _ _ _ _) t = set_running sid True t"
| "track_running_event sid (E_ToolUpdated _ _ _ _) t = set_running sid True t"
| "track_running_event sid (E_UserMessage _ _ _ _ _ _) t = set_running sid True t"
| "track_running_event sid (E_QueuedMessageStarted _ _) t = set_running sid True t"
| "track_running_event sid (E_RunFailed _ _) t = set_initializing sid False (set_running sid False t)"
| "track_running_event sid (E_SessionClosed _ _) t = set_initializing sid False (set_running sid False t)"
| "track_running_event sid _ t = t"

definition track_running :: "session_id \<Rightarrow> session_driver_event \<Rightarrow> tracking \<Rightarrow> bool \<times> tracking" where
  "track_running sid ev t =
     (let t' = track_running_event sid ev t in
      ((sid \<in> running t') \<noteq> (sid \<in> running t) \<or> (sid \<in> initializing t') \<noteq> (sid \<in> initializing t), t'))"

section \<open>Attention\<close>

definition map_values :: "string list \<Rightarrow> (string \<rightharpoonup> 'v) \<Rightarrow> 'v list" where
  "map_values ks m = concat (map (\<lambda>k. case m k of Some v \<Rightarrow> [v] | None \<Rightarrow> []) ks)"

fun wire_phase :: "attention_phase \<Rightarrow> session_attention_phase" where
  "wire_phase AttRunning = PhaseRunning"
| "wire_phase AttFailed = PhaseFailed"
| "wire_phase AttDone = PhaseDone"

definition attention_of_record :: "runtime \<Rightarrow> session_id \<Rightarrow> attention_record \<Rightarrow> session_attention" where
  "attention_of_record R sid r =
     (case map_values (string_map_order R (ar_pending r)) (ar_pending r) of
        p # ps \<Rightarrow>
          \<lparr>sa_session_id = sid, sa_phase = PhaseWaiting, sa_activity = Some ''Waiting on you'',
           sa_pending_count = Some (int (length (p # ps))), sa_pending_title = Some p,
           sa_updated_at = ar_updated_at r\<rparr>
      | [] \<Rightarrow>
          \<lparr>sa_session_id = sid, sa_phase = wire_phase (ar_phase r), sa_activity = ar_activity r,
           sa_pending_count = None, sa_pending_title = None, sa_updated_at = ar_updated_at r\<rparr>)"

definition attention_for :: "runtime \<Rightarrow> session_id \<Rightarrow> tracking \<Rightarrow> session_attention option" where
  "attention_for R sid t = map_option (attention_of_record R sid) (attention t sid)"

definition ensure_attention :: "session_id \<Rightarrow> timestamp \<Rightarrow> tracking \<Rightarrow> tracking" where
  "ensure_attention sid ts t =
     (case attention t sid of
        Some _ \<Rightarrow> t
      | None \<Rightarrow> t\<lparr>attention := (attention t)(sid \<mapsto>
          \<lparr>ar_phase = AttRunning, ar_activity = Some ''Working'', ar_updated_at = ts,
           ar_pending = Map.empty\<rparr>)\<rparr>)"

definition update_attention :: "session_id \<Rightarrow> (attention_record \<Rightarrow> attention_record) \<Rightarrow> tracking \<Rightarrow> tracking" where
  "update_attention sid f t =
     (case attention t sid of
        Some r \<Rightarrow> t\<lparr>attention := (attention t)(sid \<mapsto> f r)\<rparr>
      | None \<Rightarrow> t)"

definition set_attention_base :: "session_id \<Rightarrow> attention_phase \<Rightarrow> string \<Rightarrow> timestamp \<Rightarrow> tracking \<Rightarrow> tracking" where
  "set_attention_base sid phase activity ts t =
     update_attention sid
       (\<lambda>r. let changed = ar_phase r \<noteq> phase \<or> ar_activity r \<noteq> Some activity;
                r1 = r\<lparr>ar_phase := phase, ar_activity := Some activity\<rparr>
            in if changed then r1\<lparr>ar_updated_at := ts\<rparr> else r1)
       (ensure_attention sid ts t)"

definition phase_running :: "session_id \<Rightarrow> tracking \<Rightarrow> bool" where
  "phase_running sid t = (case attention t sid of Some r \<Rightarrow> ar_phase r = AttRunning | None \<Rightarrow> False)"

definition stuck_running :: "session_id \<Rightarrow> tracking \<Rightarrow> bool" where
  "stuck_running sid t =
     (case attention t sid of
        Some r \<Rightarrow> ar_phase r = AttRunning \<and> ar_pending r = Map.empty
      | None \<Rightarrow> False)"

fun input_string :: "json option \<Rightarrow> string list \<Rightarrow> string option option" where
  "input_string (Some (J_Object obj)) (key # keys) =
     (case map_of obj key of
        Some (J_String s) \<Rightarrow>
          (if trim s \<noteq> [] then map_option Some (clipped (trim s) 72)
           else input_string (Some (J_Object obj)) keys)
      | _ \<Rightarrow> input_string (Some (J_Object obj)) keys)"
| "input_string _ _ = Some None"

text \<open>The sidebar text of a started tool; \<open>path\<close> is computed before the branches, as in the code.\<close>

definition tool_activity :: "runtime \<Rightarrow> string \<Rightarrow> json option \<Rightarrow> string option \<Rightarrow> string option \<Rightarrow> string option" where
  "tool_activity R tool_name input label description = do {
     let name = lower R tool_name;
     path \<leftarrow> input_string input [''path'', ''filePath'', ''file_path''];
     if contains name ''read'' then
       Some (case path of Some p \<Rightarrow> ''Reading '' @ p | None \<Rightarrow> ''Reading files'')
     else if contains name ''edit'' \<or> contains name ''write'' then
       Some (case path of Some p \<Rightarrow> ''Editing '' @ p | None \<Rightarrow> ''Editing files'')
     else if contains name ''search'' \<or> contains name ''grep'' \<or> name = ''rg'' then
       Some ''Searching the workspace''
     else if name = ''bash'' \<or> name = ''shell'' \<or> name = ''exec'' then do {
       cmd \<leftarrow> input_string input [''command'', ''cmd''];
       Some (case cmd of Some c \<Rightarrow> ''Running '' @ c | None \<Rightarrow> ''Running a command'')
     }
     else clipped (unwrap_or (or_else label description) tool_name) 72
   }"

definition insert_pending :: "string \<Rightarrow> string \<Rightarrow> timestamp \<Rightarrow> attention_record \<Rightarrow> attention_record" where
  "insert_pending rid ttl ts r =
     r\<lparr>ar_pending := (ar_pending r)(rid \<mapsto> ttl), ar_updated_at := ts\<rparr>"

definition remove_pending :: "string \<Rightarrow> timestamp \<Rightarrow> attention_record \<Rightarrow> attention_record" where
  "remove_pending rid ts r =
     (case ar_pending r rid of
        Some _ \<Rightarrow> r\<lparr>ar_pending := (ar_pending r)(rid := None), ar_updated_at := ts\<rparr>
      | None \<Rightarrow> r)"

definition set_title :: "session_id \<Rightarrow> string \<Rightarrow> tracking \<Rightarrow> tracking" where
  "set_title sid ttl t = t\<lparr>session_titles := (session_titles t)(sid \<mapsto> ttl)\<rparr>"

definition attention_snapshot :: "session_id \<Rightarrow> session_snapshot \<Rightarrow> timestamp \<Rightarrow> tracking \<Rightarrow> tracking" where
  "attention_snapshot sid sn ts t =
     (let t1 = set_title sid (s_title sn) t in
      case s_status sn of
        Running \<Rightarrow> set_attention_base sid AttRunning ''Working'' ts t1
      | Initializing \<Rightarrow> set_attention_base sid AttRunning ''Starting session'' ts t1
      | Failed \<Rightarrow> set_attention_base sid AttFailed ''Run failed'' ts t1
      | Idle \<Rightarrow> (if stuck_running sid t1 then set_attention_base sid AttDone ''Done'' ts t1 else t1))"

definition attention_request :: "session_id \<Rightarrow> host_ui_request \<Rightarrow> timestamp \<Rightarrow> tracking \<Rightarrow> tracking option" where
  "attention_request sid req ts t =
     (if is_dialog_request req then
        map_option (\<lambda>ttl. update_attention sid (insert_pending (host_request_id req) ttl ts)
                            (ensure_attention sid ts t))
          (request_title req)
      else case req of
        H_Status _ _ (Some txt) \<Rightarrow>
          (if phase_running sid t
           then map_option (\<lambda>a. set_attention_base sid AttRunning a ts t) (clipped txt 72)
           else Some t)
      | H_Title _ ttl \<Rightarrow> Some (set_title sid ttl t)
      | _ \<Rightarrow> Some t)"

fun attention_event :: "runtime \<Rightarrow> session_id \<Rightarrow> session_driver_event \<Rightarrow> tracking \<Rightarrow> tracking option" where
  "attention_event R sid (E_SessionOpened b sn) t = Some (attention_snapshot sid sn (eb_timestamp b) t)"
| "attention_event R sid (E_SessionUpdated b sn) t = Some (attention_snapshot sid sn (eb_timestamp b) t)"
| "attention_event R sid (E_UserMessage b _ _ _ _ _) t =
     Some (set_attention_base sid AttRunning ''Starting'' (eb_timestamp b) t)"
| "attention_event R sid (E_QueuedMessageStarted b _) t =
     Some (set_attention_base sid AttRunning ''Queued a follow-up'' (eb_timestamp b) t)"
| "attention_event R sid (E_AssistantDelta b _ chan _) t =
     Some (set_attention_base sid AttRunning
       (if chan = Some ChannelThinking then ''Thinking'' else ''Responding'') (eb_timestamp b) t)"
| "attention_event R sid (E_ToolStarted b tool_name _ input label description) t =
     map_option (\<lambda>a. set_attention_base sid AttRunning a (eb_timestamp b) t)
       (tool_activity R tool_name input label description)"
| "attention_event R sid (E_ToolFinished b _ _ _ _ _) t =
     Some (if phase_running sid t
           then set_attention_base sid AttRunning ''Working'' (eb_timestamp b) t else t)"
| "attention_event R sid (E_RunCompleted b sn _ _) t =
     Some (set_attention_base sid AttDone ''Done'' (eb_timestamp b) (set_title sid (s_title sn) t))"
| "attention_event R sid (E_RunFailed b e) t =
     map_option
       (\<lambda>a. set_attention_base sid AttFailed a (eb_timestamp b)
              (update_attention sid (\<lambda>r. r\<lparr>ar_pending := Map.empty\<rparr>)
                (ensure_attention sid (eb_timestamp b) t)))
       (clipped (err_message e) 72)"
| "attention_event R sid (E_HostUiRequest b req) t = attention_request sid req (eb_timestamp b) t"
| "attention_event R sid (E_HostUiResolved b rid) t =
     Some (update_attention sid (remove_pending rid (eb_timestamp b)) t)"
| "attention_event R sid (E_SessionClosed _ _) t =
     Some (t\<lparr>attention := (attention t)(sid := None), session_titles := (session_titles t)(sid := None)\<rparr>)"
| "attention_event R sid _ t = Some t"

definition track_attention :: "runtime \<Rightarrow> session_id \<Rightarrow> session_driver_event \<Rightarrow> tracking \<Rightarrow> (bool \<times> tracking) option" where
  "track_attention R sid ev t =
     map_option (\<lambda>t'. (attention_for R sid t \<noteq> attention_for R sid t', t')) (attention_event R sid ev t)"

text \<open>Both trackers on one event, as \<open>on_event\<close> and the seed folds call them.\<close>

definition track_event :: "runtime \<Rightarrow> session_driver_event \<Rightarrow> tracking \<Rightarrow> (bool \<times> tracking) option" where
  "track_event R ev t =
     (let (c1, t1) = track_running (event_sid ev) ev t in
      map_option (\<lambda>(c2, t2). (c1 \<or> c2, t2)) (track_attention R (event_sid ev) ev t1))"

section \<open>Notifications\<close>

definition needs_operator :: "attention_record \<Rightarrow> bool" where
  "needs_operator r \<longleftrightarrow> ar_pending r \<noteq> Map.empty \<or> ar_phase r = AttFailed"

definition attention_badge_count :: "tracking \<Rightarrow> nat" where
  "attention_badge_count t = card {sid. \<exists>r. attention t sid = Some r \<and> needs_operator r}"

record hub_notification =
  hn_title :: string
  hn_body :: string
  hn_tag :: "string option"
  hn_url :: "string option"
  hn_badge :: "nat option"

text \<open>\<open>maybe_notify\<close> once a notifier is installed, somebody has connected and nobody is connected now:
  \<open>None\<close> is a panic, \<open>Some None\<close> no notification.\<close>

definition notification_for :: "runtime \<Rightarrow> session_driver_event \<Rightarrow> tracking \<Rightarrow> hub_notification option option" where
  "notification_for R ev t =
     (let sid = event_sid ev;
          session = unwrap_or (session_titles t sid) sid;
          url = Some (''/?session='' @ url_encode R sid);
          badge = Some (attention_badge_count t)
      in case ev of
           E_RunCompleted _ _ _ _ \<Rightarrow>
             Some (Some \<lparr>hn_title = ''pantoken'', hn_body = session @ '' finished its turn'',
               hn_tag = Some (''pantoken-run-'' @ sid), hn_url = url, hn_badge = badge\<rparr>)
         | E_RunFailed _ e \<Rightarrow>
             map_option (\<lambda>msg. Some \<lparr>hn_title = ''pantoken'', hn_body = session @ '' failed: '' @ msg,
               hn_tag = Some (''pantoken-run-'' @ sid), hn_url = url, hn_badge = badge\<rparr>)
               (clipped (err_message e) 72)
         | E_HostUiRequest _ req \<Rightarrow>
             Some (if is_dialog_request req
               then Some \<lparr>hn_title = ''Approval needed'',
                 hn_body = session @ '': '' @ unwrap_or (request_title_field req) ''Waiting on you'',
                 hn_tag = Some (''pantoken-approval-'' @ sid), hn_url = url, hn_badge = badge\<rparr>
               else None)
         | _ \<Rightarrow> Some None)"

section \<open>Runs\<close>

fun track_all :: "runtime \<Rightarrow> session_driver_event list \<Rightarrow> tracking \<Rightarrow> tracking option" where
  "track_all R [] t = Some t"
| "track_all R (ev # evs) t =
     (case track_event R ev t of Some (_, t') \<Rightarrow> track_all R evs t' | None \<Rightarrow> None)"

section \<open>Facts about running and initializing\<close>

lemma set_running_fields [simp]:
  "running (set_running sid on t) = (if on then insert sid (running t) else running t - {sid})"
  "initializing (set_running sid on t) = (if on then initializing t - {sid} else initializing t)"
  "attention (set_running sid on t) = attention t"
  "session_titles (set_running sid on t) = session_titles t"
  by (simp_all add: set_running_def)

lemma set_initializing_fields [simp]:
  "running (set_initializing sid on t) = (if on then running t - {sid} else running t)"
  "initializing (set_initializing sid on t) =
     (if on then insert sid (initializing t) else initializing t - {sid})"
  "attention (set_initializing sid on t) = attention t"
  "session_titles (set_initializing sid on t) = session_titles t"
  by (simp_all add: set_initializing_def)

lemma track_running_attention [simp]:
  "attention (track_running_event sid ev t) = attention t"
  by (cases "(sid, ev, t)" rule: track_running_event.cases) (simp_all add: track_snapshot_def)

lemma track_running_disjoint [track_facts]:
  "running t \<inter> initializing t = {} \<Longrightarrow>
     running (track_running_event sid ev t) \<inter> initializing (track_running_event sid ev t) = {}"
  by (cases "(sid, ev, t)" rule: track_running_event.cases) (auto simp: track_snapshot_def)

lemma track_running_other [track_facts]:
  "s \<noteq> sid \<Longrightarrow>
     (s \<in> running (track_running_event sid ev t)) = (s \<in> running t) \<and>
     (s \<in> initializing (track_running_event sid ev t)) = (s \<in> initializing t)"
  by (cases "(sid, ev, t)" rule: track_running_event.cases) (auto simp: track_snapshot_def)

section \<open>Facts about attention\<close>

lemma update_attention_fields [simp]:
  "running (update_attention sid f t) = running t"
  "initializing (update_attention sid f t) = initializing t"
  "attention (update_attention sid f t) s =
     (if s = sid then map_option f (attention t sid) else attention t s)"
  by (auto simp: update_attention_def split: option.splits)

lemma ensure_attention_fields [simp]:
  "running (ensure_attention sid ts t) = running t"
  "initializing (ensure_attention sid ts t) = initializing t"
  by (auto simp: ensure_attention_def split: option.splits)

lemma ensure_attention_at:
  "attention (ensure_attention sid ts t) s =
     (if s = sid \<and> attention t sid = None
      then Some \<lparr>ar_phase = AttRunning, ar_activity = Some ''Working'', ar_updated_at = ts,
                 ar_pending = Map.empty\<rparr>
      else attention t s)"
  by (auto simp: ensure_attention_def split: option.splits)

lemma set_attention_base_fields [simp]:
  "running (set_attention_base sid ph a ts t) = running t"
  "initializing (set_attention_base sid ph a ts t) = initializing t"
  by (simp_all add: set_attention_base_def)

lemma set_title_fields [simp]:
  "running (set_title sid ttl t) = running t"
  "initializing (set_title sid ttl t) = initializing t"
  "attention (set_title sid ttl t) = attention t"
  by (simp_all add: set_title_def)

lemma stuck_running_set_title [simp]: "stuck_running sid (set_title sid' ttl t) = stuck_running sid t"
  by (simp add: stuck_running_def)

text \<open>The ids of the dialogs a session is waiting on, as the attention map has them.\<close>

definition pending_ids :: "tracking \<Rightarrow> session_id \<Rightarrow> string set" where
  "pending_ids t sid = (case attention t sid of Some r \<Rightarrow> dom (ar_pending r) | None \<Rightarrow> {})"

lemma pending_ensure [simp]: "pending_ids (ensure_attention sid ts t) s = pending_ids t s"
  by (auto simp: pending_ids_def ensure_attention_at split: option.splits)

lemma pending_base [simp]: "pending_ids (set_attention_base sid ph a ts t) s = pending_ids t s"
proof -
  have "pending_ids (set_attention_base sid ph a ts t) s = pending_ids (ensure_attention sid ts t) s"
    by (auto simp: pending_ids_def set_attention_base_def Let_def split: option.splits)
  then show ?thesis by simp
qed

lemma pending_set_title [simp]: "pending_ids (set_title sid ttl t) s = pending_ids t s"
  by (simp add: pending_ids_def)

lemma pending_snapshot [simp]: "pending_ids (attention_snapshot sid sn ts t) s = pending_ids t s"
  by (simp add: attention_snapshot_def Let_def split: session_status.splits)

lemma pending_insert:
  "pending_ids (update_attention sid (insert_pending rid ttl ts') (ensure_attention sid ts t)) s =
     (if s = sid then insert rid (pending_ids t s) else pending_ids t s)"
  by (auto simp: pending_ids_def ensure_attention_at insert_pending_def split: option.splits)

lemma pending_remove:
  "pending_ids (update_attention sid (remove_pending rid ts) t) s =
     (if s = sid then pending_ids t s - {rid} else pending_ids t s)"
  by (auto simp: pending_ids_def remove_pending_def split: option.splits)

lemma pending_request:
  assumes "attention_request sid req ts t = Some t'"
  shows "pending_ids t' sid =
    (if is_dialog_request req then insert (host_request_id req) (pending_ids t sid)
     else pending_ids t sid)"
  using assms
  by (cases req) (auto simp: attention_request_def pending_insert split: option.splits if_splits)

text \<open>What one event does to the pending dialogs of its session.\<close>

fun pending_step :: "session_driver_event \<Rightarrow> string set \<Rightarrow> string set" where
  "pending_step (E_HostUiRequest _ req) P =
     (if is_dialog_request req then insert (host_request_id req) P else P)"
| "pending_step (E_HostUiResolved _ rid) P = P - {rid}"
| "pending_step (E_RunFailed _ _) P = {}"
| "pending_step (E_SessionClosed _ _) P = {}"
| "pending_step _ P = P"

lemma pending_clear:
  "pending_ids (update_attention sid (\<lambda>r. r\<lparr>ar_pending := Map.empty\<rparr>) (ensure_attention sid ts t)) sid = {}"
  by (auto simp: pending_ids_def ensure_attention_at split: option.splits)

lemma attention_event_pending [track_facts]:
  assumes "attention_event R sid ev t = Some t'"
  shows "pending_ids t' sid = pending_step ev (pending_ids t sid)"
  using assms
  by (cases ev)
     (auto simp: pending_remove pending_clear pending_request split: if_splits,
      auto simp: pending_ids_def)

lemma track_event_pending:
  assumes "track_event R ev t = Some (c, t')"
  shows "pending_ids t' (event_sid ev) = pending_step ev (pending_ids t (event_sid ev))"
proof -
  let ?t1 = "track_running_event (event_sid ev) ev t"
  have "attention_event R (event_sid ev) ev ?t1 = Some t'"
    using assms by (auto simp: track_event_def track_running_def track_attention_def Let_def)
  from attention_event_pending [OF this] show ?thesis
    by (simp add: pending_ids_def)
qed

lemma fold_approvals_step:
  "host_request_id ` set (pending_approvals (fold_event st ev)) =
     (case ev of
        E_RunFailed _ _ \<Rightarrow> host_request_id ` set (pending_approvals st)
      | E_SessionClosed _ _ \<Rightarrow> host_request_id ` set (pending_approvals st)
      | _ \<Rightarrow> pending_step ev (host_request_id ` set (pending_approvals st)))"
proof (cases ev)
  case (E_HostUiRequest b req)
  have "pending_approvals (fold_ambient_request st req) = pending_approvals st"
    by (cases "(st, req)" rule: fold_ambient_request.cases) simp_all
  then show ?thesis
    by (auto simp: E_HostUiRequest fold_host_ui_def image_iff) metis+
qed (auto simp: fold_snapshot_def Let_def)

lemma attention_event_running:
  assumes "attention_event R sid ev t = Some t'"
  shows "running t' = running t \<and> initializing t' = initializing t"
  using assms
  by (cases ev)
     (auto simp: attention_snapshot_def attention_request_def Let_def
       split: session_status.splits if_splits host_ui_request.splits option.splits)

lemma settle_stuck:
  "stuck_running sid t \<Longrightarrow>
     attention (set_attention_base sid AttDone a ts t) = (attention t)(sid \<mapsto>
       \<lparr>ar_phase = AttDone, ar_activity = Some a, ar_updated_at = ts, ar_pending = Map.empty\<rparr>)"
  by (auto simp: stuck_running_def set_attention_base_def ensure_attention_at fun_eq_iff Let_def
      split: option.splits)

lemma update_attention_finite [simp]:
  "finite (dom (attention (update_attention sid f t))) = finite (dom (attention t))"
  by (simp add: update_attention_def split: option.splits)

lemma ensure_attention_finite [simp]:
  "finite (dom (attention (ensure_attention sid ts t))) = finite (dom (attention t))"
  by (auto simp: ensure_attention_def split: option.splits)

lemma set_attention_base_finite [simp]:
  "finite (dom (attention (set_attention_base sid ph a ts t))) = finite (dom (attention t))"
  by (simp add: set_attention_base_def)

lemma attention_event_finite:
  "attention_event R sid ev t = Some t' \<Longrightarrow> finite (dom (attention t)) \<Longrightarrow> finite (dom (attention t'))"
  by (cases ev)
     (auto simp: attention_snapshot_def attention_request_def Let_def
       split: session_status.splits if_splits host_ui_request.splits option.splits)

lemma set_base_phase:
  "\<exists>r. attention (set_attention_base sid ph a ts t) sid = Some r \<and> ar_phase r = ph"
proof -
  obtain r0 where "attention (ensure_attention sid ts t) sid = Some r0"
    by (cases "attention t sid") (simp_all add: ensure_attention_at)
  then show ?thesis
    by (cases "ar_phase r0 \<noteq> ph \<or> ar_activity r0 \<noteq> Some a") (simp_all add: set_attention_base_def Let_def)
qed

lemma trigger_needs_operator:
  assumes "attention_event R sid ev t = Some t'"
    and "(\<exists>b e. ev = E_RunFailed b e) \<or> (\<exists>b req. ev = E_HostUiRequest b req \<and> is_dialog_request req)"
  shows "\<exists>r. attention t' sid = Some r \<and> needs_operator r"
  using assms(2)
proof
  assume "\<exists>b e. ev = E_RunFailed b e"
  with assms(1) obtain a ts u where "t' = set_attention_base sid AttFailed a ts u" by auto
  with set_base_phase [of sid AttFailed a ts u] show ?thesis by (auto simp: needs_operator_def)
next
  assume "\<exists>b req. ev = E_HostUiRequest b req \<and> is_dialog_request req"
  with assms(1) show ?thesis
    by (auto simp: attention_request_def ensure_attention_at insert_pending_def needs_operator_def)
qed

definition ex_snapshot :: "session_status \<Rightarrow> session_snapshot" where
  "ex_snapshot st = \<lparr>s_ref = eb_session_ref ex_base,
     s_workspace = \<lparr>ws_workspace_id = ''ws'', ws_path = ''/w'', ws_display_name = None\<rparr>, s_title = ''T'', s_status = st, s_updated_at = ''t'',
     s_archived_at = None, s_preview = None, s_config = None, s_usage = None, s_running_run_id = None,
     s_queued_messages = None, s_facet = None, s_permission_monitor = None,
     s_adventurous_handoff = None, s_notification_autodrain = None, s_active_plan = None, s_goal = None,
     s_flags = None, s_todos = None, s_mcp_servers = None\<rparr>"

definition ex_confirm :: session_driver_event where
  "ex_confirm = E_HostUiRequest ex_base (H_Confirm ''r1'' ''Run it?'' ''rm'' None None)"

section \<open>Properties\<close>

text \<open>A session is never both running and starting, whatever events of whatever sessions are
  tracked, and in whatever order.\<close>

theorem tracking_disjoint:
  assumes "track_all R evs empty_tracking = Some t"
  shows "running t \<inter> initializing t = {}"
proof -
  have "running t0 \<inter> initializing t0 = {} \<Longrightarrow> track_all R evs t0 = Some t \<Longrightarrow>
      running t \<inter> initializing t = {}" for t0
  proof (induction evs arbitrary: t0)
    case Nil
    then show ?case by simp
  next
    case (Cons ev evs)
    from Cons.prems(2) obtain c t1 where t1: "track_event R ev t0 = Some (c, t1)"
      and rest: "track_all R evs t1 = Some t"
      by (auto split: option.splits)
    from t1 have "attention_event R (event_sid ev) ev (track_running_event (event_sid ev) ev t0) = Some t1"
      by (auto simp: track_event_def track_running_def track_attention_def Let_def)
    from attention_event_running [OF this] track_running_disjoint [OF Cons.prems(1)]
    have "running t1 \<inter> initializing t1 = {}" by simp
    then show ?case using rest by (rule Cons.IH)
  qed
  moreover have "running empty_tracking \<inter> initializing empty_tracking = {}"
    by (simp add: empty_tracking_def)
  ultimately show ?thesis using assms by blast
qed

lemma tracking_disjoint_witness:
  "running (set_attention_base ''s1'' AttRunning ''Starting'' ''t'' (set_running ''s1'' True empty_tracking))
   \<inter> initializing (set_attention_base ''s1'' AttRunning ''Starting'' ''t'' (set_running ''s1'' True empty_tracking)) = {}"
  by (rule tracking_disjoint [of sorted_runtime "[ex_user ''a'']"])
     (simp add: track_event_def track_running_def track_attention_def ex_user_def ex_base_def
       event_session_ref_def Let_def)

text \<open>A snapshot decides: after an opened, updated or completed snapshot the session counts as
  running exactly when the snapshot says so and as starting exactly when it says so, every other
  session is untouched, and the change flag is raised exactly when one of the two sets changed.\<close>

theorem snapshot_decides_tracking:
  assumes "snapshot_status ev = Some st" and "track_running sid ev t = (c, t')"
  shows "(sid \<in> running t' \<longleftrightarrow> st = Running) \<and> (sid \<in> initializing t' \<longleftrightarrow> st = Initializing) \<and>
    running t' - {sid} = running t - {sid} \<and> initializing t' - {sid} = initializing t - {sid} \<and>
    (c \<longleftrightarrow> running t' \<noteq> running t \<or> initializing t' \<noteq> initializing t)"
proof -
  have t': "t' = track_snapshot sid (Some st) t"
    using assms by (cases ev) (auto simp: track_running_def Let_def)
  have c: "c \<longleftrightarrow> (sid \<in> running t') \<noteq> (sid \<in> running t) \<or> (sid \<in> initializing t') \<noteq> (sid \<in> initializing t)"
    using assms by (auto simp: track_running_def Let_def)
  show ?thesis
    unfolding c t' by (cases st) (auto simp: track_snapshot_def)
qed

lemma snapshot_decides_tracking_witness:
  "(''s1'' \<in> running (set_running ''s1'' False empty_tracking) \<longleftrightarrow> Idle = Running) \<and>
   (''s1'' \<in> initializing (set_running ''s1'' False empty_tracking) \<longleftrightarrow> Idle = Initializing)"
  using snapshot_decides_tracking
    [of "E_SessionOpened ex_base (ex_snapshot Idle)" Idle "''s1''" empty_tracking False
        "set_running ''s1'' False empty_tracking"]
  by (simp add: ex_snapshot_def track_running_def track_snapshot_def Let_def set_running_def
      set_initializing_def empty_tracking_def)

text \<open>C12: The dialogs the sidebar waits on are always queued approvals of the folded session, and
  as long as no run failed and the session was not closed they are exactly the queued approvals.\<close>

theorem pending_matches_approvals:
  assumes "track_all R evs empty_tracking = Some t" and "\<forall>ev \<in> set evs. event_sid ev = sid"
  shows "pending_ids t sid \<subseteq> host_request_id ` set (pending_approvals (fold_all evs)) \<and>
    ((\<forall>ev \<in> set evs. (\<forall>b e. ev \<noteq> E_RunFailed b e) \<and> (\<forall>b r. ev \<noteq> E_SessionClosed b r)) \<longrightarrow>
      pending_ids t sid = host_request_id ` set (pending_approvals (fold_all evs)))"
proof -
  let ?ids = "\<lambda>st. host_request_id ` set (pending_approvals st)"
  let ?quiet = "\<lambda>evs. \<forall>ev \<in> set evs. (\<forall>b e. ev \<noteq> E_RunFailed b e) \<and> (\<forall>b r. ev \<noteq> E_SessionClosed b r)"
  have step: "pending_step ev P \<subseteq> ?ids (fold_event st ev)"
    if "P \<subseteq> ?ids st" for ev P st
    using that fold_approvals_step [of st ev] by (cases ev) auto
  have quiet: "pending_step ev (?ids st) = ?ids (fold_event st ev)" if "?quiet [ev]" for ev st
    using that fold_approvals_step [of st ev] by (cases ev) auto
  have "pending_ids t0 sid \<subseteq> ?ids st \<Longrightarrow> track_all R evs t0 = Some t \<Longrightarrow> \<forall>ev \<in> set evs. event_sid ev = sid \<Longrightarrow>
      pending_ids t sid \<subseteq> ?ids (fold_all_from st evs) \<and>
      (?quiet evs \<longrightarrow> pending_ids t0 sid = ?ids st \<longrightarrow> pending_ids t sid = ?ids (fold_all_from st evs))" for t0 st
  proof (induction evs arbitrary: t0 st)
    case Nil
    then show ?case by simp
  next
    case (Cons ev evs)
    from Cons.prems(2) obtain c t1 where t1: "track_event R ev t0 = Some (c, t1)"
      and rest: "track_all R evs t1 = Some t"
      by (auto split: option.splits)
    have p: "pending_ids t1 sid = pending_step ev (pending_ids t0 sid)"
      using track_event_pending [OF t1] Cons.prems(3) by simp
    have "pending_ids t1 sid \<subseteq> ?ids (fold_event st ev)"
      unfolding p using Cons.prems(1) by (rule step)
    from Cons.IH [OF this rest] Cons.prems(3) quiet [of ev st] p show ?case by simp
  qed
  from this [of empty_tracking initial_session_state] assms show ?thesis
    by (simp add: fold_all_def pending_ids_def empty_tracking_def initial_session_state_def)
qed

lemma pending_matches_approvals_witness:
  "host_request_id ` set (pending_approvals (fold_all [ex_confirm])) = {''r1''}"
proof -
  have c: "clipped ''Run it?'' 72 = Some ''Run it?''" by code_simp
  have t: "track_all sorted_runtime [ex_confirm] empty_tracking =
      Some (update_attention ''s1'' (insert_pending ''r1'' ''Run it?'' (eb_timestamp ex_base))
        (ensure_attention ''s1'' (eb_timestamp ex_base) empty_tracking))"
    by (simp add: track_event_def track_running_def track_attention_def ex_confirm_def ex_base_def
        event_session_ref_def attention_request_def request_title_def c Let_def)
  show ?thesis
    using pending_matches_approvals [OF t, of "''s1''"]
    by (simp add: ex_confirm_def ex_base_def event_session_ref_def pending_insert)
       (simp add: pending_ids_def empty_tracking_def)
qed

text \<open>An idle snapshot never starts tracking a session and never clobbers a failed, finished or
  waiting one: all it does to the attention map is to settle a record left in the running phase with
  no dialog open.\<close>

theorem idle_snapshot_settles_only_stuck:
  assumes "snapshot_status ev = Some Idle" and "\<forall>b sn u f. ev \<noteq> E_RunCompleted b sn u f"
    and "track_event R ev t = Some (c, t')"
  shows "attention t' =
    (if stuck_running (event_sid ev) t
     then (attention t)(event_sid ev \<mapsto>
       \<lparr>ar_phase = AttDone, ar_activity = Some ''Done'', ar_updated_at = event_timestamp ev,
        ar_pending = Map.empty\<rparr>)
     else attention t)"
proof -
  let ?sid = "event_sid ev"
  let ?t1 = "track_running_event ?sid ev t"
  have a: "attention_event R ?sid ev ?t1 = Some t'"
    using assms(3) by (auto simp: track_event_def track_running_def track_attention_def Let_def)
  obtain sn where t': "t' = attention_snapshot ?sid sn (event_timestamp ev) ?t1" and idle: "s_status sn = Idle"
    using assms(1,2) a by (cases ev) (auto simp: event_timestamp_def)
  have st: "stuck_running ?sid ?t1 = stuck_running ?sid t"
    by (simp add: stuck_running_def)
  show ?thesis
    unfolding t' using idle st
    by (auto simp: attention_snapshot_def Let_def settle_stuck)
qed

lemma idle_snapshot_settles_only_stuck_witness:
  "attention (attention_snapshot ''s1'' (ex_snapshot Idle) ''t'' (set_running ''s1'' False empty_tracking)) = Map.empty"
proof -
  have t: "track_event sorted_runtime (E_SessionOpened ex_base (ex_snapshot Idle)) empty_tracking =
      Some (False, attention_snapshot ''s1'' (ex_snapshot Idle) ''t'' (set_running ''s1'' False empty_tracking))"
    by (simp add: track_event_def track_running_def track_attention_def ex_base_def ex_snapshot_def
        event_session_ref_def track_snapshot_def set_initializing_def set_running_def empty_tracking_def
        attention_for_def attention_snapshot_def set_title_def stuck_running_def Let_def)
  show ?thesis
    using idle_snapshot_settles_only_stuck [OF _ _ t]
    by (simp add: ex_snapshot_def stuck_running_def empty_tracking_def)
qed

text \<open>The badge of a notification counts the session that triggered it: after a dialog request or
  a failed run was tracked, the notification built for it carries a badge of at least one.\<close>

theorem notification_badge_counts_trigger:
  assumes "finite (dom (attention t))" and "track_event R ev t = Some (c, t')"
    and "(\<exists>b e. ev = E_RunFailed b e) \<or> (\<exists>b req. ev = E_HostUiRequest b req \<and> is_dialog_request req)"
    and "notification_for R ev t' = Some n"
  shows "\<exists>hn k. n = Some hn \<and> hn_badge hn = Some k \<and> 0 < k"
proof -
  let ?sid = "event_sid ev"
  let ?t1 = "track_running_event ?sid ev t"
  have a: "attention_event R ?sid ev ?t1 = Some t'"
    using assms(2) by (auto simp: track_event_def track_running_def track_attention_def Let_def)
  have fin: "finite (dom (attention t'))"
    using attention_event_finite [OF a] assms(1) by simp
  have "\<exists>r. attention t' ?sid = Some r \<and> needs_operator r"
    using assms(3) trigger_needs_operator [OF a] by simp
  then have "?sid \<in> {sid. \<exists>r. attention t' sid = Some r \<and> needs_operator r}" by simp
  moreover have "finite {sid. \<exists>r. attention t' sid = Some r \<and> needs_operator r}"
    by (rule finite_subset [OF _ fin]) auto
  ultimately have "0 < attention_badge_count t'"
    by (auto simp: attention_badge_count_def card_gt_0_iff)
  then show ?thesis
    using assms(3,4) by (auto simp: notification_for_def Let_def)
qed

lemma notification_badge_counts_trigger_witness:
  "\<exists>hn k. notification_for sorted_runtime ex_confirm
      (update_attention ''s1'' (insert_pending ''r1'' ''Run it?'' ''t'')
        (ensure_attention ''s1'' ''t'' empty_tracking)) = Some (Some hn) \<and> hn_badge hn = Some k \<and> 0 < k"
proof -
  let ?t = "update_attention ''s1'' (insert_pending ''r1'' ''Run it?'' ''t'')
        (ensure_attention ''s1'' ''t'' empty_tracking)"
  have c: "clipped ''Run it?'' 72 = Some ''Run it?''" by code_simp
  obtain ch where t: "track_event sorted_runtime ex_confirm empty_tracking = Some (ch, ?t)"
    by (simp add: track_event_def track_running_def track_attention_def ex_confirm_def ex_base_def
        event_session_ref_def attention_request_def request_title_def c Let_def)
  obtain n where n: "notification_for sorted_runtime ex_confirm ?t = Some n"
    by (simp add: notification_for_def ex_confirm_def Let_def)
  have "\<exists>hn k. n = Some hn \<and> hn_badge hn = Some k \<and> 0 < k"
    by (rule notification_badge_counts_trigger [OF _ t _ n])
       (auto simp: empty_tracking_def ex_confirm_def)
  then show ?thesis using n by auto
qed

end
