(* ===== verification/Background_Model.thy ===== *)
theory Background_Model
  imports Text_Clip Journal "HOL-Library.Monad_Syntax"
begin

text \<open>
  The background-model setting (\<^verbatim>\<open>server-rs/pantoken-server/src/background_model.rs\<close>): resolve a
  \<open>model[:thinking]\<close> spec against the known models. \<open>is_alias\<close> slices the last nine bytes of a
  model id, which panics inside a character, so the functions that call it return an option and
  \<open>None\<close> is the panic. \<open>str::to_lowercase\<close> is \<open>lower\<close> of the runtime; \<open>str\<close> comparison is the
  lexicographic order of the bytes.
\<close>

record model_option =
  mo_model_id :: string
  mo_label :: string
  mo_thinking_levels :: "string list option"
  mo_default_thinking_level :: "string option"

record resolved_background_model =
  rb_model :: "model_option option"
  rb_thinking_level :: "string option"
  rb_warning :: "string option"

definition no_background_model :: resolved_background_model where
  "no_background_model = \<lparr>rb_model = None, rb_thinking_level = None, rb_warning = None\<rparr>"

definition VALID_THINKING_LEVELS :: "string list" where
  "VALID_THINKING_LEVELS = [''off'', ''minimal'', ''low'', ''medium'', ''high'', ''xhigh'']"

definition SCRIPT_PREFIX :: string where "SCRIPT_PREFIX = ''script:''"

definition is_ascii_digit :: "char \<Rightarrow> bool" where
  "is_ascii_digit c \<longleftrightarrow> 48 \<le> (of_char c :: nat) \<and> (of_char c :: nat) \<le> 57"

text \<open>\<open>&s[n..]\<close>.\<close>

definition str_suffix :: "string \<Rightarrow> nat \<Rightarrow> string option" where
  "str_suffix s n = (if is_char_boundary s n then Some (drop n s) else None)"

definition has_trailing_date :: "string \<Rightarrow> bool option" where
  "has_trailing_date i =
     (if length i < 9 then Some False
      else map_option (\<lambda>tl. tl ! 0 = CHR ''-'' \<and> list_all is_ascii_digit (drop 1 tl))
             (str_suffix i (length i - 9)))"

definition is_alias :: "string \<Rightarrow> bool option" where
  "is_alias i = (if ends_with i ''-latest'' then Some True else map_option Not (has_trailing_date i))"

definition find_exact_model_reference_match ::
    "runtime \<Rightarrow> string \<Rightarrow> model_option list \<Rightarrow> model_option option" where
  "find_exact_model_reference_match R reference models =
     (if trim reference = [] then None
      else case filter (\<lambda>m. lower R (mo_model_id m) = lower R (trim reference)) models of
             [m] \<Rightarrow> Some m
           | _ \<Rightarrow> None)"

fun filter_alias :: "bool \<Rightarrow> model_option list \<Rightarrow> model_option list option" where
  "filter_alias want [] = Some []"
| "filter_alias want (m # ms) = do {
     a \<leftarrow> is_alias (mo_model_id m);
     rest \<leftarrow> filter_alias want ms;
     Some (if a = want then m # rest else rest)
   }"

text \<open>\<open>Iterator::max_by\<close> on the id: the last of several greatest elements.\<close>

fun max_by_id :: "model_option list \<Rightarrow> model_option option" where
  "max_by_id [] = None"
| "max_by_id (m # ms) =
     Some (foldl (\<lambda>best x. if mo_model_id best \<le> mo_model_id x then x else best) m ms)"

definition try_match_model ::
    "runtime \<Rightarrow> string \<Rightarrow> model_option list \<Rightarrow> model_option option option" where
  "try_match_model R pattern models =
     (case find_exact_model_reference_match R pattern models of
        Some e \<Rightarrow> Some (Some e)
      | None \<Rightarrow>
        (let matches = filter (\<lambda>m. contains (lower R (mo_model_id m)) (lower R pattern)
                                   \<or> contains (lower R (mo_label m)) (lower R pattern)) models
         in if matches = [] then Some None
            else do {
              aliases \<leftarrow> filter_alias True matches;
              dated \<leftarrow> filter_alias False matches;
              Some (max_by_id (if aliases \<noteq> [] then aliases else dated))
            }))"

fun find_index :: "char \<Rightarrow> string \<Rightarrow> nat option" where
  "find_index c [] = None"
| "find_index c (x # xs) = (if x = c then Some 0 else map_option Suc (find_index c xs))"

fun rfind_index :: "char \<Rightarrow> string \<Rightarrow> nat option" where
  "rfind_index c [] = None"
| "rfind_index c (x # xs) =
     (case rfind_index c xs of Some n \<Rightarrow> Some (Suc n) | None \<Rightarrow> if x = c then Some 0 else None)"

lemma rfind_index_less [simp]: "rfind_index c s = Some n \<Longrightarrow> n < length s"
  by (induction s arbitrary: n) (auto split: option.splits if_splits)

definition not_found :: "string \<Rightarrow> resolved_background_model" where
  "not_found spec = no_background_model\<lparr>rb_warning := Some (''No registered model matches '' @ quoted spec
     @ ''. Check the model id, or connect the provider first.'')\<rparr>"

definition resolved :: "model_option \<Rightarrow> string option \<Rightarrow> string option \<Rightarrow> resolved_background_model" where
  "resolved m level warning = \<lparr>rb_model = Some m, rb_thinking_level = level, rb_warning = warning\<rparr>"

text \<open>The colon that separates the thinking suffix: the last one, unless the first slash is after it.\<close>

definition suffix_colon :: "string \<Rightarrow> nat option" where
  "suffix_colon spec =
     (case rfind_index (CHR '':'') spec of
        None \<Rightarrow> None
      | Some colon \<Rightarrow>
          (case find_index (CHR ''/'') spec of
             None \<Rightarrow> Some colon
           | Some s \<Rightarrow> if colon > s then Some colon else None))"

lemma suffix_colon_less: "suffix_colon spec = Some n \<Longrightarrow> n < length spec"
  by (auto simp: suffix_colon_def split: option.splits if_splits)

function parse_spec :: "runtime \<Rightarrow> string \<Rightarrow> model_option list \<Rightarrow> resolved_background_model option" where
  "parse_spec R spec models =
     (case try_match_model R spec models of
        None \<Rightarrow> None
      | Some (Some m) \<Rightarrow> Some (resolved m None None)
      | Some None \<Rightarrow>
        (case suffix_colon spec of
           None \<Rightarrow> Some (not_found spec)
         | Some colon \<Rightarrow>
           (let suffix = drop (colon + 1) spec in
            case parse_spec R (take colon spec) models of
              None \<Rightarrow> None
            | Some inner \<Rightarrow>
              if suffix \<in> set VALID_THINKING_LEVELS then
                (case rb_model inner of
                   Some m \<Rightarrow> Some (resolved m (Some suffix) None)
                 | None \<Rightarrow> Some (not_found spec))
              else
                (case rb_model inner of
                   Some m \<Rightarrow> Some (resolved m None (Some (''Invalid thinking level '' @ quoted suffix
                     @ '' in spec '' @ quoted spec @ '' '' @ em_dash @ '' dropped; valid: ''
                     @ join '', '' VALID_THINKING_LEVELS @ ''.'')))
                 | None \<Rightarrow> Some (no_background_model\<lparr>rb_warning :=
                     Some (''No registered model matches '' @ quoted spec
                     @ '' (invalid thinking level '' @ quoted suffix @ '' dropped; valid: ''
                     @ join '', '' VALID_THINKING_LEVELS @ '').'')\<rparr>)))))"
  by pat_completeness auto
termination
  by (relation "measure (\<lambda>(R, spec, models). length spec)") (auto dest: suffix_colon_less)

declare parse_spec.simps [simp del]

definition resolve_script_spec :: "string \<Rightarrow> resolved_background_model" where
  "resolve_script_spec script_path = no_background_model\<lparr>rb_warning :=
     Some (''Background-model script resolution ('' @ quoted script_path
       @ '') is not yet ported to the Rust server.'')\<rparr>"

definition resolve_background_model ::
    "runtime \<Rightarrow> string option \<Rightarrow> model_option list \<Rightarrow> resolved_background_model option" where
  "resolve_background_model R background_model models =
     (case map_option trim background_model of
        Some (c # cs) \<Rightarrow>
          (case strip_prefix (c # cs) SCRIPT_PREFIX of
             Some script \<Rightarrow> Some (resolve_script_spec (trim script))
           | None \<Rightarrow> parse_spec R (c # cs) models)
      | _ \<Rightarrow> Some no_background_model)"

section \<open>Properties\<close>

lemma resolved_fields [simp]:
  "rb_model (resolved m l w) = Some m" "rb_thinking_level (resolved m l w) = l"
  "rb_warning (resolved m l w) = w"
  by (simp_all add: resolved_def)

lemma not_found_fields [simp]:
  "rb_model (not_found s) = None" "rb_thinking_level (not_found s) = None" "\<exists>w. rb_warning (not_found s) = Some w"
  by (simp_all add: not_found_def no_background_model_def)

lemma filter_alias_subset: "filter_alias want ms = Some xs \<Longrightarrow> set xs \<subseteq> set ms"
  by (induction ms arbitrary: xs) (auto split: Option.bind_splits if_splits)

lemma foldl_best: "foldl (\<lambda>best x. if f best \<le> f x then x else best) m ms \<in> insert m (set ms)"
proof (induction ms arbitrary: m)
  case (Cons a ms)
  show ?case using Cons.IH [of "if f m \<le> f a then a else m"] by auto
qed simp

lemma max_by_id_in: "max_by_id ms = Some m \<Longrightarrow> m \<in> set ms"
  using foldl_best [of mo_model_id] by (cases ms) auto

lemma exact_match_in: "find_exact_model_reference_match R p models = Some m \<Longrightarrow> m \<in> set models"
  by (auto simp: find_exact_model_reference_match_def filter_eq_Cons_iff split: if_splits list.splits)

lemma try_match_in:
  assumes "try_match_model R p models = Some (Some m)"
  shows "m \<in> set models"
proof (cases "find_exact_model_reference_match R p models")
  case (Some e)
  with assms show ?thesis by (simp add: try_match_model_def exact_match_in)
next
  case None
  let ?ms = "filter (\<lambda>m. contains (lower R (mo_model_id m)) (lower R p)
      \<or> contains (lower R (mo_label m)) (lower R p)) models"
  from None assms obtain xs want where "max_by_id xs = Some m" and "filter_alias want ?ms = Some xs"
    by (auto simp: try_match_model_def Let_def split: if_splits Option.bind_splits)
  then have "m \<in> set xs" and "set xs \<subseteq> set ?ms"
    using max_by_id_in filter_alias_subset by blast+
  then show ?thesis by auto
qed

lemma parse_spec_sound:
  "parse_spec R spec models = Some r \<Longrightarrow>
     (\<forall>m. rb_model r = Some m \<longrightarrow> m \<in> set models) \<and>
     (\<forall>l. rb_thinking_level r = Some l \<longrightarrow> l \<in> set VALID_THINKING_LEVELS \<and> rb_model r \<noteq> None) \<and>
     (rb_model r = None \<longrightarrow> rb_warning r \<noteq> None)"
proof (induction R spec models arbitrary: r rule: parse_spec.induct)
  case (1 R spec models)
  show ?case
  proof (cases "try_match_model R spec models")
    case None
    with "1.prems" show ?thesis by (simp add: parse_spec.simps)
  next
    case (Some t)
    show ?thesis
    proof (cases t)
      case (Some m)
      with \<open>try_match_model R spec models = Some t\<close> "1.prems" show ?thesis
        by (auto simp: parse_spec.simps [of R spec models] try_match_in)
    next
      case None
      note tm = \<open>try_match_model R spec models = Some t\<close>
      show ?thesis
      proof (cases "suffix_colon spec")
        case None
        with \<open>t = None\<close> tm "1.prems" show ?thesis
          by (auto simp: parse_spec.simps [of R spec models])
      next
        case (Some colon)
        obtain inner where i: "parse_spec R (take colon spec) models = Some inner"
          using "1.prems" tm \<open>t = None\<close> Some
          by (auto simp: parse_spec.simps [of R spec models] Let_def split: option.splits)
        have "\<forall>m. rb_model inner = Some m \<longrightarrow> m \<in> set models"
          using "1.IH" [OF _ _ Some refl i] tm \<open>t = None\<close> by blast
        with "1.prems" tm \<open>t = None\<close> Some i show ?thesis
          by (auto simp: parse_spec.simps [of R spec models] Let_def no_background_model_def
              split: option.splits if_splits)
      qed
    qed
  qed
qed

text \<open>Resolving the background-model setting never invents a model or a thinking level, and never
  accepts a spec silently: the model it returns is a registered one, a thinking level is on the
  ladder and comes with a model, and a spec that resolves to no model always carries a warning.\<close>

theorem resolve_background_model_sound:
  assumes "resolve_background_model R spec models = Some r"
  shows "(\<forall>m. rb_model r = Some m \<longrightarrow> m \<in> set models) \<and>
    (\<forall>l. rb_thinking_level r = Some l \<longrightarrow> l \<in> set VALID_THINKING_LEVELS \<and> rb_model r \<noteq> None) \<and>
    (\<forall>s. spec = Some s \<longrightarrow> trim s \<noteq> [] \<longrightarrow> rb_model r = None \<longrightarrow> rb_warning r \<noteq> None)"
proof -
  consider (unset) "r = no_background_model" "\<forall>s. spec = Some s \<longrightarrow> trim s = []"
    | (script) p where "r = resolve_script_spec p"
    | (spec) s where "parse_spec R s models = Some r"
  proof (cases "map_option trim spec")
    case None
    with assms unset show thesis by (simp add: resolve_background_model_def)
  next
    case (Some u)
    show thesis
    proof (cases u)
      case Nil
      with Some assms unset show thesis by (auto simp: resolve_background_model_def)
    next
      case (Cons c cs)
      with Some assms script spec show thesis
        by (cases "strip_prefix (c # cs) SCRIPT_PREFIX") (auto simp: resolve_background_model_def)
    qed
  qed
  then show ?thesis
  proof cases
    case spec
    from parse_spec_sound [OF this] show ?thesis by auto
  qed (auto simp: resolve_script_spec_def no_background_model_def)
qed

definition ex_sonnet :: model_option where
  "ex_sonnet = \<lparr>mo_model_id = ''a/sonnet'', mo_label = ''Sonnet'', mo_thinking_levels = None,
     mo_default_thinking_level = None\<rparr>"

lemma resolve_background_model_sound_witness:
  "ex_sonnet \<in> set [ex_sonnet]"
proof -
  have t: "trim ''a/sonnet'' = ''a/sonnet''" by code_simp
  have p: "strip_prefix ''a/sonnet'' SCRIPT_PREFIX = None" by code_simp
  have "resolve_background_model sorted_runtime (Some ''a/sonnet'') [ex_sonnet]
      = Some (resolved ex_sonnet None None)"
    by (simp add: resolve_background_model_def t p parse_spec.simps try_match_model_def
        find_exact_model_reference_match_def sorted_runtime_def ex_sonnet_def)
  from resolve_background_model_sound [OF this] show ?thesis by simp
qed

end
