(* ===== verification/Wire.thy ===== *)
theory Wire
  imports Hub_Tracking Background_Model
begin

text \<open>
  The two directions of the client protocol, from
  \<^verbatim>\<open>server-rs/pantoken-protocol/src/wire.rs\<close>: one constructor per variant of \<open>ServerMessage\<close>
  (\<open>M_\<close>), \<open>ClientMessage\<close> (\<open>C_\<close>) and \<open>SessionAction\<close> (\<open>A_\<close>), fields in source order. A
  payload the hub only forwards (a session list, a file index, a directory listing, \<dots>) is its JSON
  value; the lists the hub reads (events, session ids, attention entries) are typed.
\<close>

definition PROTOCOL_VERSION :: nat where "PROTOCOL_VERSION = 5"

record pantoken_settings =
  set_login_shell :: "string option"
  set_background_model :: "string option"
  set_enabled_extensions :: "string list option"

record resume_token =
  rt_session_id :: session_id
  rt_epoch :: nat
  rt_seq :: nat

datatype server_message =
    M_Hello (hello_version: nat) string string string "string option"
  | M_Pong
  | M_Seed "session_id option" nat nat "session_driver_event list"
  | M_Event session_driver_event nat nat
  | M_SessionList json "session_id option" string
  | M_SessionStatus "session_id set" "session_id set option" "session_attention set option"
  | M_ModelList "model_option list" "json option"
  | M_CommandList json
  | M_FacetList json
  | M_JobsList json
  | M_FileIndex json bool
  | M_FileList string json "bool option"
  | M_AtRefs json
  | M_DirListing json nat
  | M_PathStat json nat
  | M_BranchList json nat
  | M_ModelDefaults json
  | M_PantokenSettings pantoken_settings json bool "string option"
  | M_UpdateStatus bool "string option" bool "bool option"
  | M_EditorPrefill string
  | M_PromptResult string bool "session_id option" "string option"
  | M_QueueRestored "string list" "string list"
  | M_WorktreeRetained string string
  | M_AbortResult "string option" bool "string option"
  | M_Error string "string option"

datatype mcp_action = McpEnable | McpDisable | McpDisconnect | McpReconnect

datatype session_action =
    A_ToggleAdventurousHandoff
  | A_SetNotificationAutodrain bool
  | A_Compact
  | A_ClearContext
  | A_SetMcpServer string mcp_action
  | A_SetModel string "string option"
  | A_SetThinking string
  | A_SetFacet string
  | A_SetPermissionMonitor permission_monitor_mode
  | A_ResetShell
  | A_DaemonReload
  | A_GoalSet string
  | A_GoalPause
  | A_GoalResume
  | A_GoalClear
  | A_SetTitle string

record new_session_opts =
  ns_cwd :: "string option"
  ns_worktree :: "bool option"
  ns_base_branch :: "string option"
  ns_model :: "string option"
  ns_thinking :: "string option"
  ns_facet :: "string option"
  ns_permission_monitor :: "permission_monitor_mode option"

text \<open>\<open>C_NewSession\<close> carries the options, then \<open>prompt\<close>, \<open>promptId\<close> and \<open>images\<close>.\<close>

datatype client_message =
    C_Hello "string option" "resume_token option"
  | C_Prompt "string option" string "image_content list option" "delivery_mode option" "session_id option"
  | C_Abort "string option" "session_id option"
  | C_RestoreQueue "session_id option"
  | C_RespondUi host_ui_response "session_id option"
  | C_SessionAction session_action "session_id option"
  | C_SetLoginShell "string option"
  | C_SetBackgroundModel "string option"
  | C_OpenSession string
  | C_ReloadSession string
  | C_Branch string "bool option" "session_id option"
  | C_NewSession new_session_opts "string option" "string option" "image_content list option"
  | C_ListSessions
  | C_SetArchived string bool
  | C_RenameSession string string
  | C_CleanupWorktree string "bool option"
  | C_DetachSession string
  | C_ListCommands
  | C_ListFacets
  | C_FetchJobs
  | C_DeleteTodo int
  | C_QueryFiles string "string option" "bool option"
  | C_QueryDir "string option" nat
  | C_StatPath string nat
  | C_ListBranches string nat
  | C_TrustResponse string "int option"
  | C_ApplyUpdate
  | C_ForceUpdate
  | C_RequestSeed "session_id option"
  | C_Mock string
  | C_OpenDataDir
  | C_Ping

end
