(* ===== verification/Hub.thy ===== *)
theory Hub
  imports Wire
begin

text \<open>
  \<open>SessionHub\<close> of \<^verbatim>\<open>server-rs/pantoken-server/src/hub.rs\<close>: its state and the operations that run
  to completion under its lock. Operations that wait for the driver are queued as values of
  \<open>hub_op\<close> and run in \<open>Hub_Ops\<close>. A function that can panic returns an option (\<open>None\<close> is the panic).

  The driver trait (\<open>PantokenDriver\<close>, \<^verbatim>\<open>driver.rs\<close>) is a record of functions, one per method the hub
  calls; every step takes the record that answers during that step, so a driver may answer
  differently each time. \<open>Err\<close> is \<open>Inl\<close>, \<open>Ok\<close> is \<open>Inr\<close>. The calls that change the driver are logged in
  the ghost field \<open>driver_calls\<close>. Counters (\<open>u64\<close>) are naturals: 2^64 increments do not happen.
\<close>

section \<open>The driver\<close>

datatype todo_delete_error =
    NotFound
  | DependentsExist "string list"
  | TurnInFlight
  | TodoOther string

record driver =
  d_default_seed :: "session_driver_event list option"
  d_prompt :: "string \<Rightarrow> delivery_mode option \<Rightarrow> session_id option \<Rightarrow> image_content list \<Rightarrow> string option \<Rightarrow> string + unit"
  d_abort :: "session_id option \<Rightarrow> string + unit"
  d_clear_queue :: "session_id option \<Rightarrow> string list \<times> string list"
  d_list_sessions :: json
  d_cleanup_worktree :: "string \<Rightarrow> bool \<Rightarrow> bool \<times> string option"
  d_set_archived :: "string \<Rightarrow> bool \<Rightarrow> (string \<times> string) option"
  d_login_env_status :: json
  d_open_session :: "string \<Rightarrow> string + session_driver_event list"
  d_reload_session :: "string \<Rightarrow> string + session_driver_event list"
  d_detach_session :: "string \<Rightarrow> string + unit"
  d_new_session :: "new_session_opts \<Rightarrow> string + session_driver_event list"
  d_branch_from :: "string \<Rightarrow> bool \<Rightarrow> session_id option \<Rightarrow> session_driver_event list \<times> string option"
  d_get_usage :: "session_id option \<Rightarrow> session_usage option"
  d_list_models :: "model_option list"
  d_model_catalog_diagnostic :: "json option"
  d_list_commands :: "session_id option \<Rightarrow> json"
  d_list_facets :: "session_id option \<Rightarrow> json"
  d_list_file_index :: "session_id option \<Rightarrow> json \<times> bool"
  d_list_at_refs :: "session_id option \<Rightarrow> json"
  d_list_files :: "string \<Rightarrow> session_id option \<Rightarrow> string option \<Rightarrow> bool \<Rightarrow> json"
  d_list_dir :: "string option \<Rightarrow> json"
  d_stat_path :: "string \<Rightarrow> json"
  d_list_branches :: "string \<Rightarrow> json"
  d_list_jobs :: "session_id option \<Rightarrow> json"
  d_delete_todo :: "session_id option \<Rightarrow> int \<Rightarrow> todo_delete_error + unit"
  d_get_model_defaults :: json
  d_home :: string
  d_open_in_file_manager :: "string \<Rightarrow> string + unit"

datatype driver_call =
    Call_Prompt string "delivery_mode option" "session_id option" "image_content list" "string option"
  | Call_RespondUi host_ui_response "session_id option"
  | Call_RunScript string
  | Call_Reset bool
  | Call_SessionAction session_action "session_id option"
  | Call_RenameSession string string

section \<open>State\<close>

datatype swap =
    S_Open string
  | S_Reload string
  | S_NewSession new_session_opts
  | S_Branch string bool "session_id option"

record pending_switch_req =
  ps_swap :: swap
  ps_reseed :: bool
  ps_retry_on_raced_events :: bool

record client_conn =
  send_queue :: "server_message list"
  focused_id :: "session_id option"
  switch_in_flight :: bool
  pending_switch :: "pending_switch_req option"

text \<open>One constructor per closure that the hub enqueues, with the variables it captures.\<close>

datatype hub_op =
    Op_DeltaFlush session_id
  | Op_FetchJobsOnUpdate session_id
  | Op_Prompt nat string "delivery_mode option" "session_id option" "image_content list" "string option"
  | Op_SessionAction session_action "session_id option"
  | Op_BroadcastSessionList
  | Op_Switch nat swap bool bool
  | Op_RestoreQueue nat "session_id option"
  | Op_NewSession nat new_session_opts "string option" "image_content list" bool "string option"
  | Op_SetArchived nat string bool
  | Op_RenameSession string string
  | Op_CleanupWorktree nat string bool
  | Op_DetachSession nat string
  | Op_ListCommands nat "session_id option"
  | Op_ListFacets nat "session_id option"
  | Op_FetchJobs nat "session_id option"
  | Op_DeleteTodo nat "session_id option" int
  | Op_QueryFiles nat string "session_id option" "string option" bool
  | Op_QueryDir nat "string option" nat
  | Op_StatPath nat string nat
  | Op_ListBranches nat string nat
  | Op_ConnectSessionList nat "session_id option"
  | Op_ConnectModelList
  | Op_FileIndex nat "session_id option"
  | Op_AtRefs nat "session_id option"
  | Op_ModelDefaults
  | Op_LiveRefresh bool bool

text \<open>What the caller of a switch does once the switch is over.\<close>

datatype switch_cont =
    K_Done
  | K_Prefill "string option"
  | K_FirstPrompt "string option" "image_content list" bool "string option"
  | K_Chain "session_id option" switch_cont

text \<open>Where the sole op applier is: between ops, inside a switch whose swap is running, waiting for
  somebody else's switch, or waiting for a driver call in the middle of an op.\<close>

datatype applier =
    A_Idle
  | A_Switch nat swap bool bool switch_cont
  | A_Await nat switch_cont
  | A_FirstPrompt nat session_id "string option" "image_content list" "string option"
  | A_Relist
  | A_Refresh bool

record hub =
  server_id :: string
  server_label :: string
  data_dir :: "string option"
  build_sha :: string
  delta_flush_ms :: nat
  notify_installed :: bool
  journals :: "session_id \<rightharpoonup> session_journal"
  pending_deltas :: "session_id \<rightharpoonup> session_driver_event"
  swap_buffer :: "session_id \<rightharpoonup> (nat \<times> session_driver_event) list"
  swaps_in_flight :: nat
  tracked :: tracking
  default_focus_id :: "session_id option"
  ever_connected :: bool
  session_list_dirty :: bool
  last_usage_emitted :: "session_id \<rightharpoonup> session_usage"
  update_sha :: "string option"
  applying :: bool
  desktop_stale :: bool
  force_requested :: bool
  available_models :: "model_option list"
  prompt_results :: "string \<rightharpoonup> server_message"
  prompt_result_order :: "string list"
  clients :: "nat \<rightharpoonup> client_conn"
  next_client_key :: nat
  epoch_counter :: nat
  hub_ops :: "hub_op list"
  applier :: applier
  abort_tasks :: "(nat \<times> string option \<times> session_id option) list"
  settings_file :: pantoken_settings
  driver_calls :: "driver_call list"
  notifications :: "hub_notification list"

definition default_settings :: pantoken_settings where
  "default_settings =
     \<lparr>set_login_shell = None, set_background_model = None, set_enabled_extensions = None\<rparr>"

definition enqueue :: "hub_op \<Rightarrow> hub \<Rightarrow> hub" where
  "enqueue op h = h\<lparr>hub_ops := hub_ops h @ [op]\<rparr>"

definition log_call :: "driver_call \<Rightarrow> hub \<Rightarrow> hub" where
  "log_call c h = h\<lparr>driver_calls := driver_calls h @ [c]\<rparr>"

section \<open>Sending\<close>

text \<open>The per-client channel holds 128 messages; every send is a \<open>try_send\<close> whose error is ignored,
  so a message for a full channel is lost.\<close>

definition CLIENT_QUEUE :: nat where "CLIENT_QUEUE = 128"

definition try_send :: "server_message \<Rightarrow> client_conn \<Rightarrow> client_conn" where
  "try_send m c =
     (if length (send_queue c) < CLIENT_QUEUE then c\<lparr>send_queue := send_queue c @ [m]\<rparr> else c)"

definition send_where :: "(nat \<Rightarrow> client_conn \<Rightarrow> bool) \<Rightarrow> server_message \<Rightarrow> hub \<Rightarrow> hub" where
  "send_where P m h =
     h\<lparr>clients := \<lambda>ck. map_option (\<lambda>c. if P ck c then try_send m c else c) (clients h ck)\<rparr>"

definition broadcast :: "server_message \<Rightarrow> hub \<Rightarrow> hub" where
  "broadcast m h = send_where (\<lambda>_ _. True) m h"

definition send_to_client :: "nat \<Rightarrow> server_message \<Rightarrow> hub \<Rightarrow> hub" where
  "send_to_client ck m h = send_where (\<lambda>k _. k = ck) m h"

definition send_focused :: "session_id \<Rightarrow> server_message \<Rightarrow> hub \<Rightarrow> hub" where
  "send_focused sid m h = send_where (\<lambda>_ c. focused_id c = Some sid) m h"

definition has_viewer :: "session_id \<Rightarrow> hub \<Rightarrow> bool" where
  "has_viewer sid h \<longleftrightarrow> (\<exists>ck c. clients h ck = Some c \<and> focused_id c = Some sid)"

definition set_client_focus :: "nat \<Rightarrow> session_id \<Rightarrow> hub \<Rightarrow> hub" where
  "set_client_focus ck sid h =
     h\<lparr>clients := (clients h)(ck := map_option (\<lambda>c. c\<lparr>focused_id := Some sid\<rparr>) (clients h ck))\<rparr>"

section \<open>Seeds and epochs\<close>

definition next_epoch :: "hub \<Rightarrow> nat \<times> hub" where
  "next_epoch h = (let e = epoch_counter h + 1 in (e, h\<lparr>epoch_counter := e\<rparr>))"

definition seed_of :: "session_id option \<Rightarrow> hub \<Rightarrow> (nat \<times> nat \<times> session_driver_event list) option" where
  "seed_of sid h = map_option build_seed (Option.bind sid (journals h))"

definition folded_state :: "session_id option \<Rightarrow> hub \<Rightarrow> session_state option" where
  "folded_state sid h = map_option (\<lambda>(_, _, evs). fold_all evs) (seed_of sid h)"

definition seed_msg :: "session_id option \<Rightarrow> hub \<Rightarrow> server_message" where
  "seed_msg sid h =
     (case seed_of sid h of
        Some (epoch, seq, evs) \<Rightarrow> M_Seed sid epoch seq evs
      | None \<Rightarrow> M_Seed sid 0 0 [])"

definition set_journal :: "session_id \<Rightarrow> session_journal \<Rightarrow> hub \<Rightarrow> hub" where
  "set_journal sid j h = h\<lparr>journals := (journals h)(sid \<mapsto> j)\<rparr>"

definition has_journal :: "session_id \<Rightarrow> hub \<Rightarrow> bool" where
  "has_journal sid h \<longleftrightarrow> journals h sid \<noteq> None"

section \<open>Ingesting events\<close>

fun is_session_reset :: "session_driver_event \<Rightarrow> bool" where
  "is_session_reset (E_SessionReset _) = True"
| "is_session_reset _ = False"

fun is_assistant_delta :: "session_driver_event \<Rightarrow> bool" where
  "is_assistant_delta (E_AssistantDelta _ _ _ _) = True"
| "is_assistant_delta _ = False"

fun is_session_closed :: "session_driver_event \<Rightarrow> bool" where
  "is_session_closed (E_SessionClosed _ _) = True"
| "is_session_closed _ = False"

definition ingest_now :: "runtime \<Rightarrow> session_driver_event \<Rightarrow> hub \<Rightarrow> hub" where
  "ingest_now R ev h =
     (let sid = event_sid ev in
      case journals h sid of
        None \<Rightarrow> h
      | Some j \<Rightarrow>
          if is_session_reset ev then
            (let st = fold_event (fold_all (seed_events j)) ev;
                 meta = meta_seed_events R st (event_session_ref ev) (event_timestamp ev);
                 (epoch, h1) = next_epoch h;
                 h2 = set_journal sid (bump_epoch j epoch meta) h1
             in send_focused sid (seed_msg (Some sid) h2) h2)
          else
            (let j' = append_event R j ev;
                 h1 = set_journal sid j' h
             in send_focused sid (M_Event ev (j_epoch j') (j_seq j')) h1))"

definition flush_pending :: "runtime \<Rightarrow> session_id \<Rightarrow> hub \<Rightarrow> hub" where
  "flush_pending R sid h =
     (case pending_deltas h sid of
        Some ev \<Rightarrow> ingest_now R ev (h\<lparr>pending_deltas := (pending_deltas h)(sid := None)\<rparr>)
      | None \<Rightarrow> h)"

definition drop_pending :: "session_id \<Rightarrow> hub \<Rightarrow> hub" where
  "drop_pending sid h = h\<lparr>pending_deltas := (pending_deltas h)(sid := None)\<rparr>"

text \<open>\<open>rt\<close>: the caller runs inside an async runtime, so a flush timer can be armed. The timer is the
  op \<open>Op_DeltaFlush\<close>, which any later step may enqueue while a delta is held.\<close>

definition hold_delta :: "runtime \<Rightarrow> bool \<Rightarrow> session_driver_event \<Rightarrow> hub \<Rightarrow> hub" where
  "hold_delta R rt ev h =
     (if rt then h\<lparr>pending_deltas := (pending_deltas h)(event_sid ev \<mapsto> ev)\<rparr> else ingest_now R ev h)"

definition ingest :: "runtime \<Rightarrow> bool \<Rightarrow> session_driver_event \<Rightarrow> hub \<Rightarrow> hub" where
  "ingest R rt ev h =
     (let sid = event_sid ev in
      if delta_flush_ms h = 0 \<or> \<not> has_journal sid h then ingest_now R ev h
      else if \<not> is_assistant_delta ev then ingest_now R ev (flush_pending R sid h)
      else case pending_deltas h sid of
             Some held \<Rightarrow>
               (case try_merge held ev of
                  Some merged \<Rightarrow> h\<lparr>pending_deltas := (pending_deltas h)(sid \<mapsto> merged)\<rparr>
                | None \<Rightarrow> hold_delta R rt ev (flush_pending R sid h))
           | None \<Rightarrow> hold_delta R rt ev h)"

section \<open>Status and notifications\<close>

definition session_status_msg :: "runtime \<Rightarrow> hub \<Rightarrow> server_message" where
  "session_status_msg R h =
     M_SessionStatus (running (tracked h)) (Some (initializing (tracked h)))
       (Some (ran (\<lambda>sid. attention_for R sid (tracked h))))"

definition broadcast_session_status :: "runtime \<Rightarrow> hub \<Rightarrow> hub" where
  "broadcast_session_status R h = broadcast (session_status_msg R h) h"

definition client_count :: "hub \<Rightarrow> nat" where
  "client_count h = card (dom (clients h))"

definition maybe_notify :: "runtime \<Rightarrow> session_driver_event \<Rightarrow> hub \<Rightarrow> hub option" where
  "maybe_notify R ev h =
     (if notify_installed h \<and> ever_connected h \<and> clients h = Map.empty
      then map_option
             (\<lambda>n. case n of Some x \<Rightarrow> h\<lparr>notifications := notifications h @ [x]\<rparr> | None \<Rightarrow> h)
             (notification_for R ev (tracked h))
      else Some h)"

section \<open>The event path\<close>

definition SWAP_BUFFER_CAP :: nat where "SWAP_BUFFER_CAP = 256"
definition SWAP_BUFFER_TTL_MS :: nat where "SWAP_BUFFER_TTL_MS = 5000"

text \<open>\<open>now - at > TTL\<close> on \<open>u128\<close>: a clock that went back wraps to a huge age.\<close>

definition swap_stale :: "nat \<Rightarrow> nat \<times> session_driver_event \<Rightarrow> bool" where
  "swap_stale now f \<longleftrightarrow> now < fst f \<or> now - fst f > SWAP_BUFFER_TTL_MS"

definition buffer_swap_event :: "nat \<Rightarrow> session_id \<Rightarrow> session_driver_event \<Rightarrow> hub \<Rightarrow> hub" where
  "buffer_swap_event now sid ev h =
     (let kept = (\<lambda>k. case swap_buffer h k of
                        Some l \<Rightarrow> if list_all (swap_stale now) l then None else Some l
                      | None \<Rightarrow> None);
          l = unwrap_or (kept sid) []
      in h\<lparr>swap_buffer := kept(sid \<mapsto>
             if length l < SWAP_BUFFER_CAP then l @ [(now, ev)] else l)\<rparr>)"

fun dirties_session_list :: "session_driver_event \<Rightarrow> bool" where
  "dirties_session_list (E_UserMessage _ _ _ _ _ _) = True"
| "dirties_session_list (E_RunCompleted _ _ _ _) = True"
| "dirties_session_list (E_RunFailed _ _) = True"
| "dirties_session_list (E_SessionOpened _ _) = True"
| "dirties_session_list (E_SessionClosed _ _) = True"
| "dirties_session_list (E_SessionUpdated _ _) = True"
| "dirties_session_list _ = False"

fun refreshes_jobs :: "session_driver_event \<Rightarrow> bool" where
  "refreshes_jobs (E_SessionUpdated _ _) = True"
| "refreshes_jobs (E_RunCompleted _ _ _ _) = True"
| "refreshes_jobs _ = False"

definition track_step :: "runtime \<Rightarrow> session_driver_event \<Rightarrow> hub \<Rightarrow> hub option" where
  "track_step R ev h =
     map_option (\<lambda>(changed, t). let h1 = h\<lparr>tracked := t\<rparr> in
                   if changed then broadcast_session_status R h1 else h1)
       (track_event R ev (tracked h))"

definition close_journal :: "session_driver_event \<Rightarrow> hub \<Rightarrow> hub" where
  "close_journal ev h =
     (let sid = event_sid ev in
      if is_session_closed ev \<and> default_focus_id h \<noteq> Some sid \<and> \<not> has_viewer sid h
      then let h1 = drop_pending sid h in h1\<lparr>journals := (journals h1)(sid := None)\<rparr>
      else h)"

definition on_event :: "runtime \<Rightarrow> bool \<Rightarrow> nat \<Rightarrow> session_driver_event \<Rightarrow> hub \<Rightarrow> hub option" where
  "on_event R rt now ev h = do {
     let sid = event_sid ev;
     h1 \<leftarrow> track_step R ev h;
     let h2 = (if dirties_session_list ev then h1\<lparr>session_list_dirty := True\<rparr> else h1);
     let h3 = (if swaps_in_flight h2 > 0 \<and> \<not> has_journal sid h2
               then buffer_swap_event now sid ev h2 else h2);
     let h4 = ingest R rt ev h3;
     let h5 = close_journal ev h4;
     let h6 = (if refreshes_jobs ev then enqueue (Op_FetchJobsOnUpdate sid) h5 else h5);
     maybe_notify R ev h6
   }"

end
