(* ===== verification/Hub_Clients.thy ===== *)
theory Hub_Clients
  imports Hub
begin

text \<open>
  The client side of \<open>SessionHub\<close>: connecting (fresh or resuming), disconnecting, the update and
  settings messages, the prompt ledger, the periodic refresh, \<open>reset\<close>, and \<open>handle_client\<close>, the
  dispatch of every \<open>ClientMessage\<close>. The dispatch never waits: driver work is enqueued.
\<close>

section \<open>Messages built from the hub\<close>

definition update_status_msg :: "hub \<Rightarrow> server_message" where
  "update_status_msg h =
     M_UpdateStatus (update_sha h \<noteq> None) (update_sha h) (applying h) (Some (desktop_stale h))"

text \<open>The settings file is read back on every use; without a data directory the defaults stand.\<close>

definition read_settings :: "hub \<Rightarrow> pantoken_settings" where
  "read_settings h = (case data_dir h of Some _ \<Rightarrow> settings_file h | None \<Rightarrow> default_settings)"

definition pantoken_settings_msg :: "runtime \<Rightarrow> driver \<Rightarrow> hub \<Rightarrow> server_message option" where
  "pantoken_settings_msg R D h =
     map_option (\<lambda>r. M_PantokenSettings (read_settings h) (d_login_env_status D) False (rb_warning r))
       (resolve_background_model R (set_background_model (read_settings h)) (available_models h))"

text \<open>\<open>write_pantoken_settings\<close>: the outer option says whether the patch has the field.\<close>

definition write_settings ::
    "string option option \<Rightarrow> string option option \<Rightarrow> string list option option \<Rightarrow> hub \<Rightarrow> hub" where
  "write_settings shell model exts h =
     (case data_dir h of
        None \<Rightarrow> h
      | Some _ \<Rightarrow>
          h\<lparr>settings_file :=
             \<lparr>set_login_shell = unwrap_or shell (set_login_shell (settings_file h)),
              set_background_model = unwrap_or model (set_background_model (settings_file h)),
              set_enabled_extensions = unwrap_or exts (set_enabled_extensions (settings_file h))\<rparr>\<rparr>)"

section \<open>Start and reset\<close>

definition seed_default :: "runtime \<Rightarrow> driver \<Rightarrow> hub \<Rightarrow> hub option" where
  "seed_default R D h =
     (case d_default_seed D of
        Some (e # es) \<Rightarrow>
          map_option
            (\<lambda>t. let sid = event_sid e;
                     (epoch, h1) = next_epoch (h\<lparr>tracked := t\<rparr>)
                 in (set_journal sid (create_journal epoch (e # es)) h1)\<lparr>default_focus_id := Some sid\<rparr>)
            (track_all R (e # es) (tracked h))
      | _ \<Rightarrow> Some h)"

definition hub_init :: "nat \<Rightarrow> nat \<Rightarrow> string option \<Rightarrow> bool \<Rightarrow> string \<Rightarrow> string \<Rightarrow> string \<Rightarrow> pantoken_settings \<Rightarrow> hub" where
  "hub_init now flush_ms dir notify sid label sha settings =
     \<lparr>server_id = sid, server_label = label, data_dir = dir, build_sha = sha,
      delta_flush_ms = flush_ms, notify_installed = notify, journals = Map.empty,
      pending_deltas = Map.empty, swap_buffer = Map.empty, swaps_in_flight = 0,
      tracked = empty_tracking, default_focus_id = None, ever_connected = False,
      session_list_dirty = True, last_usage_emitted = Map.empty, update_sha = None,
      applying = False, desktop_stale = False, force_requested = False, available_models = [],
      prompt_results = Map.empty, prompt_result_order = [], clients = Map.empty,
      next_client_key = 0, epoch_counter = now, hub_ops = [], applier = A_Idle, abort_tasks = [],
      settings_file = settings, driver_calls = [], notifications = []\<rparr>"

text \<open>\<open>SessionHub::new\<close>: the empty hub, then the landing session.\<close>

definition hub_new :: "runtime \<Rightarrow> driver \<Rightarrow> nat \<Rightarrow> nat \<Rightarrow> string option \<Rightarrow> bool \<Rightarrow> string \<Rightarrow> string \<Rightarrow> string
    \<Rightarrow> pantoken_settings \<Rightarrow> hub option" where
  "hub_new R D now flush_ms dir notify sid label sha settings =
     seed_default R D (hub_init now flush_ms dir notify sid label sha settings)"

definition reseed_clients :: "hub \<Rightarrow> hub" where
  "reseed_clients h =
     (let h1 = h\<lparr>clients := \<lambda>ck. map_option (\<lambda>c. c\<lparr>focused_id := default_focus_id h\<rparr>) (clients h ck)\<rparr>
      in broadcast (seed_msg (default_focus_id h) h1) h1)"

text \<open>\<open>reset\<close>; \<open>D\<close> answers after the driver's own reset.\<close>

definition reset :: "runtime \<Rightarrow> driver \<Rightarrow> bool \<Rightarrow> hub \<Rightarrow> hub option" where
  "reset R D bootstrap h =
     (let h1 = h\<lparr>journals := Map.empty, pending_deltas := Map.empty, swap_buffer := Map.empty,
                 tracked := empty_tracking, last_usage_emitted := Map.empty, default_focus_id := None,
                 session_list_dirty := True, swaps_in_flight := 0, prompt_results := Map.empty,
                 prompt_result_order := []\<rparr>;
          h2 = log_call (Call_Reset bootstrap) (write_settings (Some None) (Some None) None h1)
      in map_option
           (\<lambda>h3. enqueue Op_BroadcastSessionList (broadcast_session_status R (reseed_clients h3)))
           (if bootstrap then seed_default R D h2 else Some h2))"

section \<open>Connecting and disconnecting\<close>

text \<open>\<open>resume_covered\<close>: the journal can replay everything this token has missed.\<close>

definition resume_covered :: "resume_token \<Rightarrow> hub \<Rightarrow> bool" where
  "resume_covered r h =
     (case journals h (rt_session_id r) of
        Some j \<Rightarrow> j_epoch j = rt_epoch r \<and> tail_covers j (rt_seq r)
      | None \<Rightarrow> False)"

definition connect_focus :: "resume_token option \<Rightarrow> hub \<Rightarrow> session_id option" where
  "connect_focus resume h =
     (case resume of
        Some r \<Rightarrow> if resume_covered r h then Some (rt_session_id r) else default_focus_id h
      | None \<Rightarrow> default_focus_id h)"

definition connect_messages :: "resume_token option \<Rightarrow> hub \<Rightarrow> server_message list" where
  "connect_messages resume h =
     (case resume of
        None \<Rightarrow> [seed_msg (connect_focus resume h) h]
      | Some r \<Rightarrow>
          (case journals h (rt_session_id r) of
             None \<Rightarrow> [seed_msg (connect_focus resume h) h]
           | Some j \<Rightarrow>
               if resume_covered r h
               then map (\<lambda>(seq, ev). M_Event ev (j_epoch j) seq) (missed_frames j (rt_seq r))
               else [seed_msg (Some (rt_session_id r)) h]))"

definition hello_msg :: "hub \<Rightarrow> server_message" where
  "hello_msg h = M_Hello PROTOCOL_VERSION (server_id h) (server_label h)
     (unwrap_or (data_dir h) []) (Some (build_sha h))"

definition add_client :: "runtime \<Rightarrow> driver \<Rightarrow> resume_token option \<Rightarrow> hub \<Rightarrow> (nat \<times> hub) option" where
  "add_client R D resume h =
     map_option
       (\<lambda>settings.
          let ck = next_client_key h;
              conn = \<lparr>send_queue = [], focused_id = connect_focus resume h, switch_in_flight = False,
                      pending_switch = None\<rparr>;
              msgs = [hello_msg h] @ connect_messages resume h
                     @ [session_status_msg R h, update_status_msg h, settings]
          in (ck, h\<lparr>next_client_key := ck + 1,
                    clients := (clients h)(ck \<mapsto> foldl (\<lambda>c m. try_send m c) conn msgs),
                    ever_connected := True\<rparr>))
       (pantoken_settings_msg R D h)"

text \<open>\<open>spawn_connect_lists\<close>: the follow-up lists, queued in the order the client expects them.\<close>

definition spawn_connect_lists :: "nat \<Rightarrow> hub \<Rightarrow> hub" where
  "spawn_connect_lists ck h =
     (let focused = Option.bind (clients h ck) focused_id in
      h\<lparr>hub_ops := hub_ops h @
        [Op_ConnectSessionList ck focused, Op_ConnectModelList, Op_ListCommands ck focused,
         Op_ListFacets ck focused, Op_FileIndex ck focused, Op_AtRefs ck focused, Op_ModelDefaults]\<rparr>)"

text \<open>Dropping a connection resolves its queued switch with \<open>None\<close>, which unblocks the op that waits
  for it.\<close>

definition remove_client :: "nat \<Rightarrow> hub \<Rightarrow> hub" where
  "remove_client ck h = h\<lparr>clients := (clients h)(ck := None)\<rparr>"

section \<open>Desktop updates\<close>

definition report_update ::
    "string option \<Rightarrow> bool \<Rightarrow> bool option \<Rightarrow> hub \<Rightarrow> (bool \<times> bool) \<times> hub" where
  "report_update sha apply_failed stale h =
     (let changed1 = (sha \<noteq> update_sha h);
          h1 = (if changed1
                then (let h' = h\<lparr>update_sha := sha\<rparr> in if sha = None then h'\<lparr>applying := False\<rparr> else h')
                else h);
          changed2 = (apply_failed \<and> applying h1);
          h2 = (if changed2 then h1\<lparr>applying := False\<rparr> else h1);
          h3 = (if apply_failed then h2\<lparr>force_requested := False\<rparr> else h2);
          h4 = (case stale of Some s \<Rightarrow> h3\<lparr>desktop_stale := s\<rparr> | None \<Rightarrow> h3);
          h5 = (if changed1 \<or> changed2 then broadcast (update_status_msg h4) h4 else h4)
      in ((applying h5, force_requested h5), h5\<lparr>force_requested := False\<rparr>))"

definition apply_update :: "hub \<Rightarrow> hub" where
  "apply_update h =
     (if update_sha h \<noteq> None \<and> \<not> applying h
      then (let h1 = h\<lparr>applying := True\<rparr> in broadcast (update_status_msg h1) h1)
      else h)"

section \<open>The prompt ledger\<close>

definition PROMPT_RESULT_CAP :: nat where "PROMPT_RESULT_CAP = 2048"

definition check_prompt_idempotency :: "string option \<Rightarrow> hub \<Rightarrow> server_message option" where
  "check_prompt_idempotency pid h = Option.bind pid (prompt_results h)"

fun evict_results :: "string list \<Rightarrow> (string \<rightharpoonup> 'm) \<Rightarrow> string list \<times> (string \<rightharpoonup> 'm)" where
  "evict_results [] m = ([], m)"
| "evict_results (p # ps) m =
     (if length (p # ps) > PROMPT_RESULT_CAP then evict_results ps (m(p := None)) else (p # ps, m))"

definition ledger_insert ::
    "string \<Rightarrow> 'm \<Rightarrow> string list \<times> (string \<rightharpoonup> 'm) \<Rightarrow> string list \<times> (string \<rightharpoonup> 'm)" where
  "ledger_insert pid v = (\<lambda>(order, m).
     let order1 = (if m pid \<noteq> None then filter (\<lambda>p. p \<noteq> pid) order else order)
     in evict_results (order1 @ [pid]) (m(pid \<mapsto> v)))"

definition cache_prompt_result :: "string \<Rightarrow> server_message \<Rightarrow> hub \<Rightarrow> hub" where
  "cache_prompt_result pid v h =
     (let (order, m) = ledger_insert pid v (prompt_result_order h, prompt_results h)
      in h\<lparr>prompt_results := m, prompt_result_order := order\<rparr>)"

section \<open>The live refresh\<close>

definition needs_live_refresh :: "hub \<Rightarrow> bool" where
  "needs_live_refresh h \<longleftrightarrow> running (tracked h) \<noteq> {} \<and> clients h \<noteq> Map.empty"

definition enqueue_live_refresh :: "hub \<Rightarrow> hub" where
  "enqueue_live_refresh h =
     (if \<not> session_list_dirty h \<and> \<not> needs_live_refresh h then h
      else enqueue (Op_LiveRefresh (session_list_dirty h) (needs_live_refresh h)) h)"

definition refresh_session :: "runtime \<Rightarrow> bool \<Rightarrow> driver \<Rightarrow> timestamp \<Rightarrow> session_id \<Rightarrow> hub \<Rightarrow> hub" where
  "refresh_session R rt D now_iso sid h =
     (case d_get_usage D (Some sid) of
        None \<Rightarrow> h
      | Some u \<Rightarrow>
          if last_usage_emitted h sid = Some u then h
          else
            (let h1 = h\<lparr>last_usage_emitted := (last_usage_emitted h)(sid \<mapsto> u)\<rparr>;
                 ref = unwrap_or (Option.bind (journals h1 sid) j_session_ref)
                         \<lparr>workspace_id_of = sid, session_id_of = sid\<rparr>
             in ingest R rt (E_UsageUpdated (meta_base ref now_iso) u) h1))"

text \<open>\<open>sids\<close> is the order in which the journal map is iterated.\<close>

definition refresh_usage :: "runtime \<Rightarrow> bool \<Rightarrow> driver \<Rightarrow> timestamp \<Rightarrow> session_id list \<Rightarrow> hub \<Rightarrow> hub" where
  "refresh_usage R rt D now_iso sids h =
     foldl (\<lambda>h sid. refresh_session R rt D now_iso sid h) h
       (filter (\<lambda>sid. sid \<in> running (tracked h)) sids)"

section \<open>Client messages\<close>

fun response_request_id :: "host_ui_response \<Rightarrow> string" where
  "response_request_id (R_Value rid _) = rid"
| "response_request_id (R_Confirmed rid _) = rid"
| "response_request_id (R_Answers rid _) = rid"
| "response_request_id (R_Cancelled rid _) = rid"

definition nonblank :: "string option \<Rightarrow> string option" where
  "nonblank s = (case map_option trim s of Some (c # cs) \<Rightarrow> Some (c # cs) | _ \<Rightarrow> None)"

definition respond_ui :: "host_ui_response \<Rightarrow> session_id option \<Rightarrow> hub \<Rightarrow> hub" where
  "respond_ui response sid h =
     (case folded_state sid h of
        Some st \<Rightarrow>
          if \<exists>p \<in> set (pending_approvals st). host_request_id p = response_request_id response
          then log_call (Call_RespondUi response sid) h else h
      | None \<Rightarrow> h)"

definition turn_running :: "session_id option \<Rightarrow> hub \<Rightarrow> bool" where
  "turn_running sid h =
     (case folded_state sid h of
        Some st \<Rightarrow> status st = Running \<or> status st = Initializing
      | None \<Rightarrow> False)"

definition client_focus :: "nat \<Rightarrow> hub \<Rightarrow> session_id option" where
  "client_focus ck h = Option.bind (clients h ck) focused_id"

definition broadcast_settings :: "runtime \<Rightarrow> driver \<Rightarrow> hub \<Rightarrow> hub option" where
  "broadcast_settings R D h = map_option (\<lambda>m. broadcast m h) (pantoken_settings_msg R D h)"

fun handle_client :: "runtime \<Rightarrow> driver \<Rightarrow> nat \<Rightarrow> client_message \<Rightarrow> hub \<Rightarrow> hub option" where
  "handle_client R D ck (C_Hello _ _) h = Some h"
| "handle_client R D ck C_Ping h = Some (send_to_client ck M_Pong h)"
| "handle_client R D ck (C_Prompt pid txt images deliver sid) h =
     Some (case check_prompt_idempotency pid h of
             Some cached \<Rightarrow> send_to_client ck cached h
           | None \<Rightarrow> enqueue (Op_Prompt ck txt deliver (or_else sid (client_focus ck h))
                              (unwrap_or images []) pid) h)"
| "handle_client R D ck (C_Abort rid sid) h =
     Some (if clients h ck \<noteq> None
           then h\<lparr>abort_tasks := abort_tasks h @ [(ck, rid, or_else sid (client_focus ck h))]\<rparr> else h)"
| "handle_client R D ck (C_SessionAction action sid) h =
     Some (enqueue (Op_SessionAction action (or_else sid (client_focus ck h))) h)"
| "handle_client R D ck C_ListSessions h = Some (enqueue Op_BroadcastSessionList h)"
| "handle_client R D ck (C_RequestSeed sid) h =
     Some (send_to_client ck (seed_msg (or_else sid (client_focus ck h)) h) h)"
| "handle_client R D ck (C_Mock script) h = Some (log_call (Call_RunScript script) h)"
| "handle_client R D ck (C_OpenSession p) h = Some (enqueue (Op_Switch ck (S_Open p) False True) h)"
| "handle_client R D ck (C_ReloadSession p) h = Some (enqueue (Op_Switch ck (S_Reload p) True True) h)"
| "handle_client R D ck (C_RespondUi response sid) h =
     Some (respond_ui response (or_else sid (client_focus ck h)) h)"
| "handle_client R D ck (C_RestoreQueue sid) h =
     Some (enqueue (Op_RestoreQueue ck (or_else sid (client_focus ck h))) h)"
| "handle_client R D ck (C_Branch entry summarize sid) h =
     Some (if turn_running (or_else sid (client_focus ck h)) h
           then send_to_client ck
                  (M_Error (''Can'' @ [CHR 0x27] @ ''t branch while a turn is running '' @ em_dash
                    @ '' stop it first.'') None) h
           else enqueue (Op_Switch ck (S_Branch entry (unwrap_or summarize False)
                  (or_else sid (client_focus ck h))) True False) h)"
| "handle_client R D ck (C_NewSession opts prompt pid images) h =
     Some (case check_prompt_idempotency pid h of
             Some cached \<Rightarrow> send_to_client ck cached h
           | None \<Rightarrow>
               (let first = nonblank prompt;
                    has_first = (first \<noteq> None \<or> unwrap_or images [] \<noteq> [])
                in enqueue (Op_NewSession ck opts first (unwrap_or images []) has_first pid) h))"
| "handle_client R D ck (C_SetArchived p archived) h = Some (enqueue (Op_SetArchived ck p archived) h)"
| "handle_client R D ck (C_RenameSession p name) h =
     Some (if trim name = [] then h else enqueue (Op_RenameSession p (trim name)) h)"
| "handle_client R D ck (C_CleanupWorktree p force) h =
     Some (enqueue (Op_CleanupWorktree ck p (unwrap_or force False)) h)"
| "handle_client R D ck (C_DetachSession p) h = Some (enqueue (Op_DetachSession ck p) h)"
| "handle_client R D ck C_ListCommands h = Some (enqueue (Op_ListCommands ck (client_focus ck h)) h)"
| "handle_client R D ck C_ListFacets h = Some (enqueue (Op_ListFacets ck (client_focus ck h)) h)"
| "handle_client R D ck C_FetchJobs h = Some (enqueue (Op_FetchJobs ck (client_focus ck h)) h)"
| "handle_client R D ck (C_DeleteTodo i) h = Some (enqueue (Op_DeleteTodo ck (client_focus ck h) i) h)"
| "handle_client R D ck (C_QueryFiles q cwd ign) h =
     Some (enqueue (Op_QueryFiles ck q (client_focus ck h) cwd (unwrap_or ign False)) h)"
| "handle_client R D ck (C_QueryDir p rid) h = Some (enqueue (Op_QueryDir ck p rid) h)"
| "handle_client R D ck (C_StatPath p rid) h = Some (enqueue (Op_StatPath ck p rid) h)"
| "handle_client R D ck (C_ListBranches p rid) h = Some (enqueue (Op_ListBranches ck p rid) h)"
| "handle_client R D ck (C_SetLoginShell p) h =
     broadcast_settings R D (write_settings (Some (nonblank p)) None None h)"
| "handle_client R D ck (C_SetBackgroundModel spec) h =
     broadcast_settings R D (write_settings None (Some (nonblank spec)) None h)"
| "handle_client R D ck C_ApplyUpdate h = Some (apply_update h)"
| "handle_client R D ck C_ForceUpdate h = Some (apply_update (h\<lparr>force_requested := True\<rparr>))"
| "handle_client R D ck C_OpenDataDir h =
     Some (case data_dir h of
             None \<Rightarrow> send_to_client ck (M_Error ''data directory is not configured on this server'' None) h
           | Some dir \<Rightarrow>
               (case d_open_in_file_manager D dir of
                  Inl e \<Rightarrow> send_to_client ck
                    (M_Error (''couldn'' @ [CHR 0x27] @ ''t open the data directory: '' @ e) None) h
                | Inr _ \<Rightarrow> h))"
| "handle_client R D ck (C_TrustResponse _ _) h = Some h"

end
