(* ===== verification/Hub_Ops.thy ===== *)
theory Hub_Ops
  imports Hub_Clients
begin

text \<open>
  The op queue and its sole applier (\<open>run_hub_op_applier\<close>), and the session switch
  (\<open>switch_to\<close>, \<open>finish_switch\<close>) of \<^verbatim>\<open>server-rs/pantoken-server/src/hub.rs\<close>.

  An op is a future: it calls the driver, waits, then takes the hub lock. While it waits, events and
  client messages run. An op that only looks at the hub after its driver call is one step
  (\<open>run_op\<close>), at the moment it takes the lock; an op that touches the hub before or between its
  waits is split there, and \<open>applier\<close> holds the rest. The applier starts the next op when the current
  one is over, or when it panicked: the panic is caught and what the op already did stays.
\<close>

section \<open>Error classification\<close>

definition apostrophe :: string where "apostrophe = [CHR 0x27]"

definition contains_any :: "string \<Rightarrow> string list \<Rightarrow> bool" where
  "contains_any s ps \<longleftrightarrow> list_ex (contains s) ps"

text \<open>\<open>str::split_once\<close> on a pattern string.\<close>

fun split_once_str :: "string \<Rightarrow> string \<Rightarrow> (string \<times> string) option" where
  "split_once_str p [] = (if p = [] then Some ([], []) else None)"
| "split_once_str p (x # xs) =
     (case strip_prefix (x # xs) p of
        Some rest \<Rightarrow> Some ([], rest)
      | None \<Rightarrow> map_option (\<lambda>(a, b). (x # a, b)) (split_once_str p xs))"

definition first_line :: "string \<Rightarrow> string" where
  "first_line s = takeWhile (\<lambda>c. c \<noteq> CHR 0x0A \<and> c \<noteq> CHR 0x0D) s"

definition classify_switch_error :: "string \<Rightarrow> string \<times> string option" where
  "classify_switch_error raw =
     (let switch = Some ''session-switch''; couldnt = ''Couldn'' @ apostrophe @ ''t '' in
      case split_once_str ''session directory no longer exists:'' raw of
        Some (_, rest) \<Rightarrow>
          (couldnt @ ''restore this session '' @ em_dash @ '' its directory no longer exists ('' @ trim rest
           @ ''). Move the project back to that path, or archive this session.'', switch)
      | None \<Rightarrow>
      (case split_once_str ''polytoken daemon failed to start:'' raw of
        Some (_, rest) \<Rightarrow>
          (couldnt @ ''open this session '' @ em_dash @ '' the daemon failed to start ('' @ trim (first_line (trim rest))
           @ ''). Try again, or open it in the TUI to diagnose.'', switch)
      | None \<Rightarrow>
        if contains raw ''polytoken daemon exited early'' then
          (couldnt @ ''open this session '' @ em_dash
           @ '' the daemon exited immediately. Try again, or open it in the TUI to diagnose.'', switch)
        else if contains_any raw [''did not become ready within'', ''did not become healthy within''] then
          (couldnt @ ''open this session '' @ em_dash @ '' the daemon took too long to start. Try again.'', switch)
        else if contains_any raw [''another TUI is attached'', ''lease claim failed (409)''] then
          (if contains raw ''another TUI is attached'' then raw
           else ''This session is open in the TUI. Detach it there (/detach) or wait ~30s for its lease to lapse.'',
           switch)
        else if contains_any raw [''lease claim failed (0)'', ''request timed out'', ''fetch failed'',
            ''ECONNREFUSED'', ''daemon health probe failed''] then
          (couldnt @ ''reach the session daemon. Try again '' @ em_dash
           @ '' if it persists, the daemon may be wedged.'', switch)
        else if contains_any raw [''lease claim failed (401)'', ''unauthorized''] then
          (couldnt @ ''authenticate to the session daemon. The daemon may be a different version than expected.'',
           switch)
        else if contains raw ''could not resolve session id from path'' then
          (couldnt @ ''open this session '' @ em_dash @ '' its path wasn'' @ apostrophe @ ''t recognized.'', switch)
        else (''session switch failed: '' @ raw, None)))"

section \<open>Folding the seed of a swap\<close>

text \<open>What \<open>track_running\<close> and \<open>track_attention\<close> have already written when the latter panics.\<close>

fun interrupted_tracking :: "session_driver_event \<Rightarrow> tracking \<Rightarrow> tracking" where
  "interrupted_tracking (E_RunFailed b e) t =
     (let sid = session_id_of (eb_session_ref b) in
      update_attention sid (\<lambda>r. r\<lparr>ar_pending := Map.empty\<rparr>)
        (ensure_attention sid (eb_timestamp b) (track_running_event sid (E_RunFailed b e) t)))"
| "interrupted_tracking ev t = track_running_event (event_sid ev) ev t"

text \<open>\<open>Inr (changed, t)\<close>, or \<open>Inl t\<close>: the tracking a panic leaves behind.\<close>

fun track_seed :: "runtime \<Rightarrow> session_driver_event list \<Rightarrow> bool \<Rightarrow> tracking \<Rightarrow> tracking + bool \<times> tracking" where
  "track_seed R [] changed t = Inr (changed, t)"
| "track_seed R (ev # evs) changed t =
     (case track_event R ev t of
        Some (c, t') \<Rightarrow> track_seed R evs (c \<or> changed) t'
      | None \<Rightarrow> Inl (interrupted_tracking ev t))"

definition seed_session :: "session_driver_event list \<Rightarrow> session_id option" where
  "seed_session seed =
     or_else (map_option session_id_of (session_ref_of (fold_all seed)))
             (case seed of [] \<Rightarrow> None | e # _ \<Rightarrow> Some (event_sid e))"

section \<open>Switching sessions\<close>

definition set_conn :: "nat \<Rightarrow> (client_conn \<Rightarrow> client_conn) \<Rightarrow> hub \<Rightarrow> hub" where
  "set_conn ck f h = h\<lparr>clients := (clients h)(ck := map_option f (clients h ck))\<rparr>"

definition queued_switch :: "nat \<Rightarrow> hub \<Rightarrow> pending_switch_req option" where
  "queued_switch ck h = Option.bind (clients h ck) pending_switch"

text \<open>The first half of \<open>switch_to\<close>: the single-flight check, then the swap starts.\<close>

definition start_switch :: "nat \<Rightarrow> swap \<Rightarrow> bool \<Rightarrow> bool \<Rightarrow> switch_cont \<Rightarrow> hub \<Rightarrow> hub" where
  "start_switch ck sw reseed retry K h =
     (let in_flight = (case clients h ck of Some c \<Rightarrow> switch_in_flight c | None \<Rightarrow> False) in
      if in_flight then
        (set_conn ck (\<lambda>c. c\<lparr>pending_switch := Some \<lparr>ps_swap = sw, ps_reseed = reseed,
                               ps_retry_on_raced_events = retry\<rparr>\<rparr>) h)\<lparr>applier := A_Await ck K\<rparr>
      else
        (let h1 = set_conn ck (\<lambda>c. c\<lparr>switch_in_flight := True\<rparr>) h
         in h1\<lparr>swaps_in_flight := swaps_in_flight h1 + 1, applier := A_Switch ck sw reseed retry K\<rparr>))"

definition run_swap :: "driver \<Rightarrow> swap \<Rightarrow> (string + session_driver_event list) \<times> string option" where
  "run_swap D sw =
     (case sw of
        S_Open p \<Rightarrow> (d_open_session D p, None)
      | S_Reload p \<Rightarrow> (d_reload_session D p, None)
      | S_NewSession opts \<Rightarrow> (d_new_session D opts, None)
      | S_Branch entry summarize sid \<Rightarrow>
          (let (seed, txt) = d_branch_from D entry summarize sid in (Inr seed, txt)))"

fun set_prefill :: "string option \<Rightarrow> switch_cont \<Rightarrow> switch_cont" where
  "set_prefill (Some txt) (K_Prefill _) = K_Prefill (Some txt)"
| "set_prefill _ K = K"

definition send_coviewers :: "nat \<Rightarrow> session_id \<Rightarrow> server_message \<Rightarrow> hub \<Rightarrow> hub" where
  "send_coviewers ck sid m h = send_where (\<lambda>k c. k \<noteq> ck \<and> focused_id c = Some sid) m h"

definition no_session_error :: server_message where
  "no_session_error = M_Error ''session switch returned no session'' None"

definition switch_refreshes :: "nat \<Rightarrow> session_id \<Rightarrow> hub_op list" where
  "switch_refreshes ck sid =
     [Op_BroadcastSessionList, Op_ListCommands ck (Some sid), Op_ListFacets ck (Some sid),
      Op_FileIndex ck (Some sid), Op_AtRefs ck (Some sid), Op_ModelDefaults]"

text \<open>\<open>finish_switch\<close> once the seed is folded to \<open>sid\<close>.\<close>

definition restart_journal :: "runtime \<Rightarrow> session_driver_event list \<Rightarrow> bool \<Rightarrow> bool \<Rightarrow> session_id \<Rightarrow> hub \<Rightarrow> hub" where
  "restart_journal R seed reseed meta_changed sid h =
     (if reseed \<or> \<not> has_journal sid h
      then (let (epoch, h1) = next_epoch (drop_pending sid h);
                h2 = set_journal sid (create_journal epoch seed) h1
            in if meta_changed then broadcast_session_status R h2 else h2)
      else h)"

definition show_session :: "nat \<Rightarrow> session_id \<Rightarrow> bool \<Rightarrow> hub \<Rightarrow> hub" where
  "show_session ck sid reseed h =
     (let h1 = set_client_focus ck sid h;
          h2 = send_to_client ck (seed_msg (Some sid) h1) h1;
          h3 = (if reseed then send_coviewers ck sid (seed_msg (Some sid) h2) h2 else h2)
      in h3\<lparr>hub_ops := hub_ops h3 @ switch_refreshes ck sid\<rparr>)"

definition install_seed :: "runtime \<Rightarrow> nat \<Rightarrow> session_driver_event list \<Rightarrow> bool \<Rightarrow> bool \<Rightarrow> session_id \<Rightarrow> hub \<Rightarrow> hub" where
  "install_seed R ck seed reseed meta_changed sid h =
     (let h1 = restart_journal R seed reseed meta_changed sid h
      in if queued_switch ck h1 \<noteq> None then h1 else show_session ck sid reseed h1)"

text \<open>\<open>Inl\<close>: the op panicked and left this hub.\<close>

definition finish_switch :: "runtime \<Rightarrow> nat \<Rightarrow> session_driver_event list \<Rightarrow> bool \<Rightarrow> hub \<Rightarrow>
    hub + hub \<times> session_id option" where
  "finish_switch R ck seed reseed h =
     (if seed = [] then Inr (send_to_client ck no_session_error h, None)
      else case track_seed R seed False (tracked h) of
             Inl t \<Rightarrow> Inl (h\<lparr>tracked := t\<rparr>)
           | Inr (meta_changed, t) \<Rightarrow>
               (let h1 = h\<lparr>tracked := t\<rparr> in
                case seed_session seed of
                  None \<Rightarrow> Inr (send_to_client ck no_session_error h1, None)
                | Some sid \<Rightarrow> Inr (install_seed R ck seed reseed meta_changed sid h1, Some sid)))"

text \<open>What the op does with the outcome of its switch.\<close>

definition create_failed :: string where
  "create_failed = ''Could not create the new session''"

definition cache_and_send :: "nat \<Rightarrow> string option \<Rightarrow> server_message \<Rightarrow> hub \<Rightarrow> hub" where
  "cache_and_send ck pid m h =
     send_to_client ck m (case pid of Some p \<Rightarrow> cache_prompt_result p m h | None \<Rightarrow> h)"

fun continue :: "nat \<Rightarrow> session_id option \<Rightarrow> switch_cont \<Rightarrow> hub \<Rightarrow> hub" where
  "continue ck sid K_Done h = h\<lparr>applier := A_Idle\<rparr>"
| "continue ck sid (K_Prefill txt) h =
     (case (sid, txt) of
        (Some _, Some t) \<Rightarrow> (send_to_client ck (M_EditorPrefill t) h)\<lparr>applier := A_Idle\<rparr>
      | _ \<Rightarrow> h\<lparr>applier := A_Idle\<rparr>)"
| "continue ck sid (K_FirstPrompt txt images has_first pid) h =
     (case sid of
        Some s \<Rightarrow> h\<lparr>applier := (if has_first then A_FirstPrompt ck s txt images pid else A_Idle)\<rparr>
      | None \<Rightarrow>
          (if has_first
           then cache_and_send ck pid (M_PromptResult (unwrap_or pid []) False None (Some create_failed)) h
           else send_to_client ck (M_Error create_failed None) h)\<lparr>applier := A_Idle\<rparr>)"
| "continue ck sid (K_Chain first K) h = continue ck first K h"

text \<open>The end of \<open>switch_to\<close>: clear the flag, run a queued switch, hand the outcome to the op.\<close>

definition end_switch :: "nat \<Rightarrow> session_id option \<Rightarrow> switch_cont \<Rightarrow> hub \<Rightarrow> hub" where
  "end_switch ck sid K h =
     (let h1 = set_conn ck (\<lambda>c. c\<lparr>switch_in_flight := False, pending_switch := None\<rparr>) h in
      case queued_switch ck h of
        Some ps \<Rightarrow>
          start_switch ck (ps_swap ps) (ps_reseed ps) (ps_retry_on_raced_events ps) (K_Chain sid K) h1
      | None \<Rightarrow> continue ck sid K h1)"

definition finish_swap :: "runtime \<Rightarrow> driver \<Rightarrow> nat \<Rightarrow> swap \<Rightarrow> bool \<Rightarrow> switch_cont \<Rightarrow> hub \<Rightarrow> hub" where
  "finish_swap R D ck sw reseed K h =
     (let (result, prefill) = run_swap D sw;
          K' = set_prefill prefill K;
          h1 = h\<lparr>swaps_in_flight := swaps_in_flight h - 1\<rparr>
      in case result of
           Inl raw \<Rightarrow>
             (let (message, kind) = classify_switch_error raw;
                  h2 = (if queued_switch ck h1 = None
                        then send_to_client ck (M_Error message kind) h1 else h1)
              in end_switch ck None K' h2)
         | Inr seed \<Rightarrow>
             (case finish_switch R ck seed reseed h1 of
                Inl h2 \<Rightarrow> h2\<lparr>applier := A_Idle\<rparr>
              | Inr (h2, sid) \<Rightarrow> end_switch ck sid K' h2))"

section \<open>The applier\<close>

definition broadcast_session_list_with :: "driver \<Rightarrow> hub \<Rightarrow> hub" where
  "broadcast_session_list_with D h =
     h\<lparr>clients := \<lambda>ck. map_option
         (\<lambda>c. try_send (M_SessionList (d_list_sessions D) (focused_id c) (d_home D)) c) (clients h ck),
       session_list_dirty := False\<rparr>"

fun todo_error_message :: "int \<Rightarrow> todo_delete_error \<Rightarrow> string" where
  "todo_error_message i NotFound = ''Todo #'' @ show_int i @ '' not found''"
| "todo_error_message i (DependentsExist titles) =
     ''Cannot delete todo #'' @ show_int i @ '': '' @ digits_of (length titles)
     @ '' todo(s) depend on it ('' @ join '', '' titles @ '')''"
| "todo_error_message i TurnInFlight = ''Cannot delete todo #'' @ show_int i @ '': a turn is in flight''"
| "todo_error_message i (TodoOther m) = m"

definition prompt_result :: "string option \<Rightarrow> session_id option \<Rightarrow> string + unit \<Rightarrow> server_message" where
  "prompt_result pid target outcome =
     (case outcome of
        Inr _ \<Rightarrow> M_PromptResult (unwrap_or pid []) True target None
      | Inl e \<Rightarrow> M_PromptResult (unwrap_or pid []) False None (Some e))"

text \<open>One op, taken from the queue. \<open>D\<close> answers the driver calls of this step; \<open>sids\<close> is the iteration
  order of the journals and \<open>now_iso\<close> the clock, for the usage refresh.\<close>

fun run_op :: "runtime \<Rightarrow> driver \<Rightarrow> timestamp \<Rightarrow> session_id list \<Rightarrow> hub_op \<Rightarrow> hub \<Rightarrow> hub" where
  "run_op R D now_iso sids (Op_DeltaFlush sid) h = flush_pending R sid h"
| "run_op R D now_iso sids (Op_FetchJobsOnUpdate sid) h =
     send_focused sid (M_JobsList (d_list_jobs D (Some sid))) h"
| "run_op R D now_iso sids (Op_Prompt ck txt deliver target images pid) h =
     cache_and_send ck pid (prompt_result pid target (d_prompt D txt deliver target images pid))
       (log_call (Call_Prompt txt deliver target images pid) h)"
| "run_op R D now_iso sids (Op_SessionAction action target) h =
     log_call (Call_SessionAction action target) h"
| "run_op R D now_iso sids Op_BroadcastSessionList h = broadcast_session_list_with D h"
| "run_op R D now_iso sids (Op_Switch ck sw reseed retry) h =
     start_switch ck sw reseed retry (case sw of S_Branch _ _ _ \<Rightarrow> K_Prefill None | _ \<Rightarrow> K_Done) h"
| "run_op R D now_iso sids (Op_RestoreQueue ck target) h =
     (let (steering, follow_up) = d_clear_queue D target
      in send_to_client ck (M_QueueRestored steering follow_up) h)"
| "run_op R D now_iso sids (Op_NewSession ck opts txt images has_first pid) h =
     start_switch ck (S_NewSession opts) False False (K_FirstPrompt txt images has_first pid) h"
| "run_op R D now_iso sids (Op_SetArchived ck p archived) h =
     (case d_set_archived D p archived of
        Some (wp, reason) \<Rightarrow> send_to_client ck (M_WorktreeRetained wp reason) h
      | None \<Rightarrow> broadcast_session_list_with D h)"
| "run_op R D now_iso sids (Op_RenameSession p name) h =
     broadcast_session_list_with D (log_call (Call_RenameSession p name) h)"
| "run_op R D now_iso sids (Op_CleanupWorktree ck p force) h =
     (case d_cleanup_worktree D p force of
        (True, _) \<Rightarrow> h\<lparr>applier := A_Relist\<rparr>
      | (False, reason) \<Rightarrow>
          (send_to_client ck (M_Error (''worktree not removed: '' @ unwrap_or reason ''unknown reason'') None) h)
            \<lparr>applier := A_Relist\<rparr>)"
| "run_op R D now_iso sids (Op_DetachSession ck p) h =
     (case d_detach_session D p of
        Inl m \<Rightarrow> send_to_client ck (M_Error m None) h
      | Inr _ \<Rightarrow> broadcast_session_list_with D h)"
| "run_op R D now_iso sids (Op_ListCommands ck sid) h = send_to_client ck (M_CommandList (d_list_commands D sid)) h"
| "run_op R D now_iso sids (Op_ListFacets ck sid) h = send_to_client ck (M_FacetList (d_list_facets D sid)) h"
| "run_op R D now_iso sids (Op_FetchJobs ck sid) h = send_to_client ck (M_JobsList (d_list_jobs D sid)) h"
| "run_op R D now_iso sids (Op_DeleteTodo ck sid i) h =
     (case d_delete_todo D sid i of
        Inr _ \<Rightarrow> h
      | Inl e \<Rightarrow> send_to_client ck (M_Error (todo_error_message i e) None) h)"
| "run_op R D now_iso sids (Op_QueryFiles ck q sid cwd ign) h =
     send_to_client ck (M_FileList q (d_list_files D q sid cwd ign) (Some ign)) h"
| "run_op R D now_iso sids (Op_QueryDir ck p rid) h = send_to_client ck (M_DirListing (d_list_dir D p) rid) h"
| "run_op R D now_iso sids (Op_StatPath ck p rid) h = send_to_client ck (M_PathStat (d_stat_path D p) rid) h"
| "run_op R D now_iso sids (Op_ListBranches ck p rid) h = send_to_client ck (M_BranchList (d_list_branches D p) rid) h"
| "run_op R D now_iso sids (Op_ConnectSessionList ck active) h =
     send_to_client ck (M_SessionList (d_list_sessions D) active (d_home D)) h"
| "run_op R D now_iso sids Op_ConnectModelList h =
     broadcast (M_ModelList (d_list_models D) (d_model_catalog_diagnostic D))
       (h\<lparr>available_models := d_list_models D\<rparr>)"
| "run_op R D now_iso sids (Op_FileIndex ck sid) h =
     (let (files, truncated) = d_list_file_index D sid in send_to_client ck (M_FileIndex files truncated) h)"
| "run_op R D now_iso sids (Op_AtRefs ck sid) h = send_to_client ck (M_AtRefs (d_list_at_refs D sid)) h"
| "run_op R D now_iso sids Op_ModelDefaults h = broadcast (M_ModelDefaults (d_get_model_defaults D)) h"
| "run_op R D now_iso sids (Op_LiveRefresh dirty refresh) h =
     (let h1 = (if dirty then broadcast_session_list_with D h else h)
      in h1\<lparr>applier := (if refresh then A_Refresh True else A_Idle)\<rparr>)"

text \<open>One move of the applier: take the next op, or go on with the one that was waiting.\<close>

definition applier_step :: "runtime \<Rightarrow> driver \<Rightarrow> timestamp \<Rightarrow> session_id list \<Rightarrow> hub \<Rightarrow> hub" where
  "applier_step R D now_iso sids h =
     (case applier h of
        A_Idle \<Rightarrow>
          (case hub_ops h of
             [] \<Rightarrow> h
           | op # ops \<Rightarrow> run_op R D now_iso sids op (h\<lparr>hub_ops := ops\<rparr>))
      | A_Switch ck sw reseed retry K \<Rightarrow> finish_swap R D ck sw reseed K h
      | A_Await ck K \<Rightarrow>
          (if queued_switch ck h = None then continue ck None K h else h)
      | A_FirstPrompt ck sid txt images pid \<Rightarrow>
          (cache_and_send ck pid
             (prompt_result pid (Some sid) (d_prompt D (unwrap_or txt []) None (Some sid) images pid))
             (log_call (Call_Prompt (unwrap_or txt []) None (Some sid) images pid) h))\<lparr>applier := A_Idle\<rparr>
      | A_Relist \<Rightarrow> (broadcast_session_list_with D h)\<lparr>applier := A_Idle\<rparr>
      | A_Refresh _ \<Rightarrow> (refresh_usage R True D now_iso sids h)\<lparr>applier := A_Idle\<rparr>)"

text \<open>A spawned abort sends its result with a waiting \<open>send\<close>: it lands when the channel has room.\<close>

definition finish_abort :: "driver \<Rightarrow> nat \<Rightarrow> hub \<Rightarrow> hub" where
  "finish_abort D i h =
     (if i < length (abort_tasks h) then
        (let (ck, rid, target) = abort_tasks h ! i;
             m = (case d_abort D target of
                    Inr _ \<Rightarrow> M_AbortResult rid True None
                  | Inl e \<Rightarrow> M_AbortResult rid False (Some e));
             done = h\<lparr>abort_tasks := take i (abort_tasks h) @ drop (Suc i) (abort_tasks h)\<rparr>
         in case clients h ck of
              None \<Rightarrow> done
            | Some c \<Rightarrow> (if length (send_queue c) < CLIENT_QUEUE then send_to_client ck m done else h))
      else h)"

end
