(* ===== verification/Hub_Sync.thy ===== *)
theory Hub_Sync
  imports Hub_Ops
begin

text \<open>
  What the hub ships to its clients. \<open>history\<close> is a specification-only record of every journal epoch
  that ever existed: the session it belongs to, the events it was created from and the events
  appended since. \<open>sync_ok\<close> relates it to the hub: each journal represents the history of its epoch,
  epochs are never reused, and every message in a client's queue is authentic, that is, it is a piece
  of that history. Every operation of the hub extends the history and keeps \<open>sync_ok\<close>.
\<close>

type_synonym history = "nat \<rightharpoonup> session_id \<times> session_driver_event list \<times> session_driver_event list"

named_theorems sync_intros "operations that keep the hub in step with the history"

definition extends :: "history \<Rightarrow> history \<Rightarrow> bool" where
  "extends H H' \<longleftrightarrow>
     (\<forall>e sid base log. H e = Some (sid, base, log) \<longrightarrow> (\<exists>evs. H' e = Some (sid, base, log @ evs)))"

fun authentic :: "history \<Rightarrow> server_message \<Rightarrow> bool" where
  "authentic H (M_Event ev e s) =
     (0 < e \<and> (\<exists>sid base log. H e = Some (sid, base, log) \<and> 0 < s \<and> s \<le> length log \<and> log ! (s - 1) = ev))"
| "authentic H (M_Seed sid e s evs) =
     (if e = 0 then s = 0 \<and> evs = []
      else \<exists>sid' base log. H e = Some (sid', base, log) \<and> sid = Some sid' \<and> s \<le> length log \<and>
             fold_all evs = fold_all (base @ take s log))"
| "authentic H _ = True"

definition journals_ok :: "history \<Rightarrow> (session_id \<rightharpoonup> session_journal) \<Rightarrow> nat \<Rightarrow> bool" where
  "journals_ok H J n \<longleftrightarrow>
     (\<forall>sid j. J sid = Some j \<longrightarrow>
        (\<exists>base log. H (j_epoch j) = Some (sid, base, log) \<and> journal_repr j base log)) \<and>
     (\<forall>e. H e \<noteq> None \<longrightarrow> 0 < e \<and> e \<le> n)"

definition queues_ok :: "history \<Rightarrow> (nat \<rightharpoonup> client_conn) \<Rightarrow> bool" where
  "queues_ok H C \<longleftrightarrow> (\<forall>ck c. C ck = Some c \<longrightarrow> (\<forall>m \<in> set (send_queue c). authentic H m))"

text \<open>The prompt ledger only ever holds prompt results, so replaying one is harmless.\<close>

definition ledger_ok :: "(string \<rightharpoonup> server_message) \<Rightarrow> bool" where
  "ledger_ok M \<longleftrightarrow> (\<forall>p m. M p = Some m \<longrightarrow>
     (\<exists>pid accepted sid err. m = M_PromptResult pid accepted sid err))"

abbreviation sync_ok :: "history \<Rightarrow> hub \<Rightarrow> bool" where
  "sync_ok H h \<equiv> journals_ok H (journals h) (epoch_counter h) \<and> queues_ok H (clients h)
     \<and> ledger_ok (prompt_results h)"

text \<open>An operation that led to \<open>h\<close> is sound when the history can be extended to fit \<open>h\<close>.\<close>

definition sync_from :: "history \<Rightarrow> hub \<Rightarrow> bool" where
  "sync_from H h \<longleftrightarrow> (\<exists>H'. extends H H' \<and> sync_ok H' h)"

section \<open>Extension\<close>

lemma extends_refl [simp]: "extends H H"
  by (auto simp: extends_def)

lemma extendsE:
  assumes "extends H H'" and "H e = Some (sid, base, log)"
  obtains evs where "H' e = Some (sid, base, log @ evs)"
  using assms unfolding extends_def by blast

lemma journals_okE:
  assumes "journals_ok H J n" and "J sid = Some j"
  obtains base log where "H (j_epoch j) = Some (sid, base, log)" and "journal_repr j base log"
    and "0 < j_epoch j" and "j_epoch j \<le> n"
  using assms unfolding journals_ok_def by blast

lemma journals_ok_epoch: "journals_ok H J n \<Longrightarrow> H e \<noteq> None \<Longrightarrow> 0 < e \<and> e \<le> n"
  unfolding journals_ok_def by blast

lemma extends_trans: "extends H H' \<Longrightarrow> extends H' H'' \<Longrightarrow> extends H H''"
  by (fastforce simp: extends_def)

lemma extends_dom: "extends H H' \<Longrightarrow> H e \<noteq> None \<Longrightarrow> H' e \<noteq> None"
  by (fastforce simp: extends_def)

lemma authentic_extends: "extends H H' \<Longrightarrow> authentic H m \<Longrightarrow> authentic H' m"
proof (cases m)
  case (M_Event ev e s)
  assume x: "extends H H'" and "authentic H m"
  with M_Event obtain sid base log where "H e = Some (sid, base, log)" "0 < s" "s \<le> length log"
    "log ! (s - 1) = ev" "0 < e"
    by auto
  moreover from this x obtain evs where "H' e = Some (sid, base, log @ evs)"
    by (auto elim: extendsE)
  ultimately show ?thesis by (auto simp: M_Event nth_append)
next
  case (M_Seed sid e s evs)
  assume x: "extends H H'" and a: "authentic H m"
  show ?thesis
  proof (cases "e = 0")
    case True
    with a M_Seed show ?thesis by simp
  next
    case False
    with a M_Seed obtain sid' base log where h: "H e = Some (sid', base, log)" "sid = Some sid'"
      "s \<le> length log" "fold_all evs = fold_all (base @ take s log)"
      by auto
    moreover from x h(1) obtain more_evs where "H' e = Some (sid', base, log @ more_evs)"
      by (rule extendsE)
    ultimately show ?thesis using False by (auto simp: M_Seed)
  qed
qed auto

lemma queues_ok_extends: "extends H H' \<Longrightarrow> queues_ok H C \<Longrightarrow> queues_ok H' C"
  by (auto simp: queues_ok_def intro: authentic_extends)

lemma sync_from_refl: "sync_ok H h \<Longrightarrow> sync_from H h"
  unfolding sync_from_def by (blast intro: extends_refl)

lemma sync_from_bind:
  assumes "sync_from H h" and "\<And>H'. sync_ok H' h \<Longrightarrow> sync_from H' h'"
  shows "sync_from H h'"
  using assms by (meson extends_trans sync_from_def)

section \<open>Journals and history\<close>

lemma journals_ok_epoch_less:
  assumes "journals_ok H J n" and "n < e"
  shows "H e = None"
  using journals_ok_epoch [OF assms(1), of e] assms(2) by fastforce

lemma extends_new: "H e = None \<Longrightarrow> extends H (H(e \<mapsto> x))"
  by (auto simp: extends_def)

lemma extends_append:
  "H e = Some (sid, base, log) \<Longrightarrow> extends H (H(e \<mapsto> (sid, base, log @ evs)))"
  by (auto simp: extends_def)

lemma journal_repr_create: "journal_repr (create_journal e base) base []"
  using journal_run_repr [of _ e base "[]"] by simp

lemma journal_repr_bump: "journal_repr (bump_epoch j e base) base []"
  using journal_repr_create [of e base]
  by (simp add: journal_repr_def journal_logs_def ring_ok_def evicted_def bump_epoch_def create_journal_def)

lemma append_event_epoch_seq [simp]:
  "j_epoch (append_event R j ev) = j_epoch j" "j_seq (append_event R j ev) = Suc (j_seq j)"
  by (simp_all add: append_event_def Let_def split_beta)

text \<open>A journal created under a fresh epoch.\<close>

lemma sync_new_epoch:
  assumes j: "journals_ok H J n" and q: "queues_ok H C"
    and r: "journal_repr jn base []" and e: "j_epoch jn = Suc n"
  shows "\<exists>H'. extends H H' \<and> H' (Suc n) = Some (sid, base, []) \<and>
    journals_ok H' (J(sid \<mapsto> jn)) (Suc n) \<and> queues_ok H' C"
proof (intro exI conjI)
  let ?H = "H(Suc n \<mapsto> (sid, base, []))"
  have none: "H (Suc n) = None" using j by (rule journals_ok_epoch_less) simp
  then show x: "extends H ?H" by (rule extends_new)
  show "?H (Suc n) = Some (sid, base, [])" by simp
  show "queues_ok ?H C" using x q by (rule queues_ok_extends)
  show "journals_ok ?H (J(sid \<mapsto> jn)) (Suc n)"
    unfolding journals_ok_def
  proof (intro conjI allI impI)
    fix sid' j'
    assume s: "(J(sid \<mapsto> jn)) sid' = Some j'"
    show "\<exists>base log. ?H (j_epoch j') = Some (sid', base, log) \<and> journal_repr j' base log"
    proof (cases "sid' = sid")
      case True
      with s r e show ?thesis by auto
    next
      case False
      with s have "J sid' = Some j'" by simp
      with j obtain b l where "H (j_epoch j') = Some (sid', b, l)" "journal_repr j' b l"
        "j_epoch j' \<le> n"
        by (rule journals_okE)
      then show ?thesis by auto
    qed
  next
    fix e'
    assume "?H e' \<noteq> None"
    then show "0 < e'" "e' \<le> Suc n"
      using journals_ok_epoch [OF j, of e'] by (auto split: if_splits)
  qed
qed

text \<open>An event appended to the journal of its session.\<close>

lemma sync_append:
  assumes j: "journals_ok H J n" and q: "queues_ok H C" and sj: "J sid = Some jo"
  shows "\<exists>H' base log. extends H H' \<and> H' (j_epoch jo) = Some (sid, base, log @ [ev]) \<and>
    Suc (j_seq jo) = length (log @ [ev]) \<and>
    journals_ok H' (J(sid \<mapsto> append_event R jo ev)) n \<and> queues_ok H' C"
proof -
  obtain base log where h: "H (j_epoch jo) = Some (sid, base, log)" and r: "journal_repr jo base log"
    using j sj by (rule journals_okE)
  let ?H = "H(j_epoch jo \<mapsto> (sid, base, log @ [ev]))"
  have x: "extends H ?H" using h by (rule extends_append)
  have r': "journal_repr (append_event R jo ev) base (log @ [ev])" using r by (rule journal.append_logs)
  have ep: "j_epoch (append_event R jo ev) = j_epoch jo"
    using r append_event_shape [of jo R ev] by (metis journal_repr_def ring_ok_def)
  have other: "j_epoch j' \<noteq> j_epoch jo" if "J sid' = Some j'" "sid' \<noteq> sid" for sid' j'
    using journals_okE [OF j that(1)] that(2) h by (metis option.inject prod.inject)
  have "journals_ok ?H (J(sid \<mapsto> append_event R jo ev)) n"
    unfolding journals_ok_def
  proof (intro conjI allI impI)
    fix sid' j'
    assume s: "(J(sid \<mapsto> append_event R jo ev)) sid' = Some j'"
    show "\<exists>base log. ?H (j_epoch j') = Some (sid', base, log) \<and> journal_repr j' base log"
    proof (cases "sid' = sid")
      case True
      with s r' ep show ?thesis by auto
    next
      case False
      with s have s': "J sid' = Some j'" by simp
      with j obtain b l where "H (j_epoch j') = Some (sid', b, l)" "journal_repr j' b l"
        by (rule journals_okE)
      with other [OF s' False] show ?thesis by auto
    qed
  next
    fix e
    assume "?H e \<noteq> None"
    then have "H e \<noteq> None" using h by (auto split: if_splits)
    with j show "0 < e" "e \<le> n" by (auto dest: journals_ok_epoch)
  qed
  then show ?thesis
    using x queues_ok_extends [OF x q] journal_repr_seq [OF r] by (intro exI [of _ ?H]) auto
qed

lemma authentic_seed:
  assumes "journals_ok H (journals h) n"
  shows "authentic H (seed_msg sid h)"
proof (cases "Option.bind sid (journals h)")
  case None
  then show ?thesis by (simp add: seed_msg_def seed_of_def)
next
  case (Some j)
  then obtain s where s: "sid = Some s" and js: "journals h s = Some j" by (auto simp: bind_eq_Some_conv)
  obtain base log where h: "H (j_epoch j) = Some (s, base, log)" and r: "journal_repr j base log"
    and pos: "0 < j_epoch j"
    by (rule journals_okE [OF assms js])
  obtain evs where b: "build_seed j = (j_epoch j, j_seq j, evs)"
    by (simp add: build_seed_def)
  have "fold_all evs = fold_all (base @ log)"
    using journal_repr_fold [OF r] b by simp
  with Some s h pos b journal_repr_seq [OF r] show ?thesis
    by (simp add: seed_msg_def seed_of_def)
qed

lemma authentic_missed:
  assumes "journals_ok H (journals h) n" and "journals h sid = Some j" and "tail_covers j k"
    and "(s, ev) \<in> set (missed_frames j k)"
  shows "authentic H (M_Event ev (j_epoch j) s)"
proof -
  obtain base log where h: "H (j_epoch j) = Some (sid, base, log)" and r: "journal_repr j base log"
    and pos: "0 < j_epoch j"
    using assms(1,2) by (rule journals_okE)
  have "(s, ev) \<in> set (enumerate (Suc k) (drop k log))"
    using journal.missed_logs [OF r assms(3)] assms(4) by simp
  then have "Suc k \<le> s" "s < Suc k + length (drop k log)" "ev = drop k log ! (s - Suc k)"
    by (auto simp: in_set_enumerate_eq)
  with h pos show ?thesis by (auto simp: less_diff_conv2 add.commute)
qed

section \<open>Sending keeps the queues authentic\<close>

lemma try_send_set: "set (send_queue (try_send m c)) \<subseteq> insert m (set (send_queue c))"
  by (auto simp: try_send_def)

lemma send_where_fields [simp]:
  "journals (send_where P m h) = journals h"
  "epoch_counter (send_where P m h) = epoch_counter h"
  "prompt_results (send_where P m h) = prompt_results h"
  by (simp_all add: send_where_def)

lemma queues_ok_send_where:
  assumes "queues_ok H (clients h)" and "authentic H m"
  shows "queues_ok H (clients (send_where P m h))"
  using assms try_send_set [of m]
  by (fastforce simp: queues_ok_def send_where_def split: if_splits)

lemma queues_ok_try_sends:
  assumes "\<forall>m \<in> set ms. authentic H m" and "\<forall>m \<in> set (send_queue c). authentic H m"
  shows "\<forall>m \<in> set (send_queue (foldl (\<lambda>c m. try_send m c) c ms)). authentic H m"
  using assms
proof (induction ms arbitrary: c)
  case (Cons m ms)
  have "\<forall>x \<in> set (send_queue (try_send m c)). authentic H x"
    using Cons.prems try_send_set [of m c] by auto
  with Cons show ?case by simp
qed simp

lemma queues_ok_map:
  assumes "queues_ok H C" and "\<And>ck c. send_queue (f ck c) = send_queue c"
  shows "queues_ok H (\<lambda>ck. map_option (f ck) (C ck))"
  using assms by (auto simp: queues_ok_def)

lemma queues_ok_upd:
  assumes "queues_ok H C" and "\<And>c. send_queue (f c) = send_queue c"
  shows "queues_ok H (C(ck := map_option f (C ck)))"
  using assms by (auto simp: queues_ok_def)

lemma sync_send_where:
  "sync_ok H h \<Longrightarrow> authentic H m \<Longrightarrow> sync_ok H (send_where P m h)"
  by (simp add: queues_ok_send_where)

lemmas send_defs = broadcast_def send_to_client_def send_focused_def send_coviewers_def

lemma send_fields [simp]:
  "journals (broadcast m h) = journals h" "epoch_counter (broadcast m h) = epoch_counter h"
  "journals (send_to_client ck m h) = journals h" "epoch_counter (send_to_client ck m h) = epoch_counter h"
  "journals (send_focused sid m h) = journals h" "epoch_counter (send_focused sid m h) = epoch_counter h"
  "journals (send_coviewers ck sid m h) = journals h"
  "epoch_counter (send_coviewers ck sid m h) = epoch_counter h"
  "prompt_results (broadcast m h) = prompt_results h"
  "prompt_results (send_to_client ck m h) = prompt_results h"
  "prompt_results (send_focused sid m h) = prompt_results h"
  "prompt_results (send_coviewers ck sid m h) = prompt_results h"
  by (simp_all add: send_defs)

lemma queues_sends [simp, sync_intros]:
  assumes "queues_ok H (clients h)" and "authentic H m"
  shows "queues_ok H (clients (broadcast m h))" "queues_ok H (clients (send_to_client ck m h))"
    "queues_ok H (clients (send_focused sid m h))" "queues_ok H (clients (send_coviewers ck sid m h))"
  using queues_ok_send_where [OF assms] by (simp_all add: send_defs)

lemma neutral_messages [simp]:
  "authentic H (session_status_msg R h)" "authentic H (update_status_msg h)" "authentic H (hello_msg h)"
  "authentic H no_session_error" "authentic H (prompt_result pid target outcome)"
  by (simp_all add: session_status_msg_def update_status_msg_def hello_msg_def no_session_error_def
      prompt_result_def split: sum.splits)

lemma pantoken_settings_neutral: "pantoken_settings_msg R D h = Some m \<Longrightarrow> authentic H m"
  by (auto simp: pantoken_settings_msg_def)

section \<open>The event path keeps the history\<close>

lemma sync_from_cong:
  assumes "sync_from H h" and "journals h' = journals h" and "epoch_counter h' = epoch_counter h"
    and "clients h' = clients h" and "prompt_results h' = prompt_results h"
  shows "sync_from H h'"
  using assms by (simp add: sync_from_def)

lemma sync_ingest_now [sync_intros]:
  assumes "sync_ok H h"
  shows "sync_from H (ingest_now R ev h)"
proof (cases "journals h (event_sid ev)")
  case None
  with assms show ?thesis by (simp add: ingest_now_def sync_from_refl)
next
  case (Some j)
  let ?sid = "event_sid ev"
  show ?thesis
  proof (cases "is_session_reset ev")
    case True
    define meta where "meta = meta_seed_events R (fold_event (fold_all (seed_events j)) ev)
        (event_session_ref ev) (event_timestamp ev)"
    define h2 where "h2 = set_journal ?sid (bump_epoch j (Suc (epoch_counter h)) meta) (snd (next_epoch h))"
    have e: "ingest_now R ev h = send_focused ?sid (seed_msg (Some ?sid) h2) h2"
      using True Some by (simp add: ingest_now_def Let_def h2_def meta_def next_epoch_def split_beta)
    have b: "j_epoch (bump_epoch j (Suc (epoch_counter h)) meta) = Suc (epoch_counter h)"
      by (simp add: bump_epoch_def)
    from sync_new_epoch [OF conjunct1 [OF assms] conjunct1 [OF conjunct2 [OF assms]] journal_repr_bump b]
    obtain H' where "extends H H'"
      and "journals_ok H' ((journals h)(?sid \<mapsto> bump_epoch j (Suc (epoch_counter h)) meta)) (Suc (epoch_counter h))"
      and "queues_ok H' (clients h)"
      by blast
    then have "extends H H'" and "sync_ok H' h2" using assms
      by (simp_all add: h2_def set_journal_def next_epoch_def Let_def)
    with authentic_seed [of H' h2] show ?thesis
      unfolding e sync_from_def by (intro exI [of _ H']) auto
  next
    case False
    define h1 where "h1 = set_journal ?sid (append_event R j ev) h"
    let ?m = "M_Event ev (j_epoch (append_event R j ev)) (j_seq (append_event R j ev))"
    have e: "ingest_now R ev h = send_focused ?sid ?m h1"
      using False Some by (simp add: ingest_now_def Let_def h1_def)
    from sync_append [of H "journals h" "epoch_counter h" "clients h" ?sid j ev R] assms Some
    obtain H' base log where x: "extends H H'"
      and l: "H' (j_epoch j) = Some (?sid, base, log @ [ev])" "Suc (j_seq j) = length (log @ [ev])"
      and s: "journals_ok H' ((journals h)(?sid \<mapsto> append_event R j ev)) (epoch_counter h)"
        "queues_ok H' (clients h)"
      by blast
    from s assms have s': "sync_ok H' h1" by (simp add: h1_def set_journal_def)
    have "j_epoch (append_event R j ev) = j_epoch j \<and> j_seq (append_event R j ev) = Suc (j_seq j)"
      by (simp add: append_event_epoch_seq)
    moreover have "0 < j_epoch j" using assms Some by (auto elim: journals_okE)
    ultimately have "authentic H' ?m" using l by auto
    with x s' show ?thesis
      unfolding e sync_from_def by (intro exI [of _ H']) auto
  qed
qed

lemma sync_flush_pending [sync_intros]: "sync_ok H h \<Longrightarrow> sync_from H (flush_pending R sid h)"
  by (auto simp: flush_pending_def sync_from_refl intro!: sync_ingest_now split: option.splits)

lemma sync_hold_delta: "sync_ok H h \<Longrightarrow> sync_from H (hold_delta R rt ev h)"
  by (simp add: hold_delta_def sync_ingest_now sync_from_refl)

lemma sync_ingest [sync_intros]:
  assumes "sync_ok H h"
  shows "sync_from H (ingest R rt ev h)"
proof -
  have "sync_from H (ingest_now R ev (flush_pending R (event_sid ev) h))"
    "sync_from H (hold_delta R rt ev (flush_pending R (event_sid ev) h))"
    using sync_from_bind [OF sync_flush_pending [OF assms]] sync_ingest_now sync_hold_delta by blast+
  then show ?thesis
    using assms sync_ingest_now [OF assms] sync_hold_delta [OF assms]
    by (simp add: ingest_def Let_def sync_from_refl split: option.splits)
qed

lemma journals_ok_remove: "journals_ok H J n \<Longrightarrow> journals_ok H (J(sid := None)) n"
  by (simp add: journals_ok_def)

lemma sync_close_journal: "sync_ok H h \<Longrightarrow> sync_ok H (close_journal ev h)"
  by (simp add: close_journal_def drop_pending_def Let_def journals_ok_remove)

lemma sync_track_step:
  "sync_ok H h \<Longrightarrow> track_step R ev h = Some h' \<Longrightarrow> sync_ok H h'"
  by (auto simp: track_step_def broadcast_session_status_def Let_def split: if_splits)

lemma sync_maybe_notify:
  "sync_ok H h \<Longrightarrow> maybe_notify R ev h = Some h' \<Longrightarrow> sync_ok H h'"
  by (auto simp: maybe_notify_def split: if_splits option.splits)

lemma sync_on_event [sync_intros]:
  assumes "sync_ok H h" and "on_event R rt now ev h = Some h'"
  shows "sync_from H h'"
proof -
  obtain h1 where h1: "track_step R ev h = Some h1"
    and rest: "maybe_notify R ev
      (let h2 = (if dirties_session_list ev then h1\<lparr>session_list_dirty := True\<rparr> else h1);
           h3 = (if swaps_in_flight h2 > 0 \<and> \<not> has_journal (event_sid ev) h2
                 then buffer_swap_event now (event_sid ev) ev h2 else h2);
           h5 = close_journal ev (ingest R rt ev h3)
       in if refreshes_jobs ev then enqueue (Op_FetchJobsOnUpdate (event_sid ev)) h5 else h5) = Some h'"
    using assms(2) by (auto simp: on_event_def Let_def split: Option.bind_splits)
  let ?h2 = "if dirties_session_list ev then h1\<lparr>session_list_dirty := True\<rparr> else h1"
  let ?h3 = "if swaps_in_flight ?h2 > 0 \<and> \<not> has_journal (event_sid ev) ?h2
      then buffer_swap_event now (event_sid ev) ev ?h2 else ?h2"
  have "sync_ok H h1" by (rule sync_track_step [OF assms(1) h1])
  then have "sync_ok H ?h3" by (simp add: buffer_swap_event_def Let_def)
  then have "sync_from H (ingest R rt ev ?h3)" by (rule sync_ingest)
  then show ?thesis
  proof (rule sync_from_bind)
    fix H'
    assume "sync_ok H' (ingest R rt ev ?h3)"
    then have "sync_ok H' (close_journal ev (ingest R rt ev ?h3))" by (rule sync_close_journal)
    then have "sync_ok H' h'"
      by (intro sync_maybe_notify [OF _ rest]) (simp add: Let_def enqueue_def)
    then show "sync_from H' h'" by (rule sync_from_refl)
  qed
qed

section \<open>The client operations keep the history\<close>

lemma sync_create_journal:
  assumes "sync_ok H h" and "journals h' = (journals h)(sid \<mapsto> create_journal (Suc (epoch_counter h)) base)"
    and "epoch_counter h' = Suc (epoch_counter h)" and "clients h' = clients h"
    and "prompt_results h' = prompt_results h"
  shows "sync_from H h'"
proof -
  have "j_epoch (create_journal (Suc (epoch_counter h)) base) = Suc (epoch_counter h)"
    by (simp add: create_journal_def)
  from sync_new_epoch [OF conjunct1 [OF assms(1)] conjunct1 [OF conjunct2 [OF assms(1)]] journal_repr_create this]
  show ?thesis using assms unfolding sync_from_def by (simp only:) blast
qed

lemma sync_seed_default:
  assumes "sync_ok H h" and "seed_default R D h = Some h'"
  shows "sync_from H h'"
proof (cases "d_default_seed D")
  case None
  with assms show ?thesis by (simp add: seed_default_def sync_from_refl)
next
  case (Some seed)
  show ?thesis
  proof (cases seed)
    case Nil
    with Some assms show ?thesis by (simp add: seed_default_def sync_from_refl)
  next
    case (Cons e es)
    with Some assms(2) obtain t where
      "h' = (set_journal (event_sid e) (create_journal (Suc (epoch_counter h)) (e # es))
         (snd (next_epoch (h\<lparr>tracked := t\<rparr>))))\<lparr>default_focus_id := Some (event_sid e)\<rparr>"
      by (auto simp: seed_default_def next_epoch_def Let_def)
    with assms(1) show ?thesis
      by (intro sync_create_journal [of H h _ "event_sid e" "e # es"])
         (simp_all add: set_journal_def next_epoch_def Let_def)
  qed
qed

lemma write_settings_fields [simp]:
  "journals (write_settings a b c h) = journals h" "epoch_counter (write_settings a b c h) = epoch_counter h"
  "clients (write_settings a b c h) = clients h"
  "prompt_results (write_settings a b c h) = prompt_results h"
  by (simp_all add: write_settings_def split: option.splits)

lemma simple_fields [simp]:
  "journals (enqueue op h) = journals h" "epoch_counter (enqueue op h) = epoch_counter h"
  "clients (enqueue op h) = clients h" "journals (log_call c h) = journals h"
  "epoch_counter (log_call c h) = epoch_counter h" "clients (log_call c h) = clients h"
  "prompt_results (log_call c h) = prompt_results h" "prompt_results (enqueue op h) = prompt_results h"
  by (simp_all add: enqueue_def log_call_def)

lemma sync_reseed_clients:
  assumes "sync_ok H h"
  shows "sync_ok H (reseed_clients h)"
proof -
  let ?h1 = "h\<lparr>clients := \<lambda>ck. map_option (\<lambda>c. c\<lparr>focused_id := default_focus_id h\<rparr>) (clients h ck)\<rparr>"
  have "authentic H (seed_msg (default_focus_id h) ?h1)"
    using assms by (intro authentic_seed [of H _ "epoch_counter h"]) simp
  with assms show ?thesis
    by (simp add: reseed_clients_def Let_def queues_ok_map)
qed

lemma journals_ok_empty: "journals_ok H J n \<Longrightarrow> journals_ok H Map.empty n"
  by (simp add: journals_ok_def)

lemma sync_reset [sync_intros]:
  assumes "sync_ok H h" and "reset R D bootstrap h = Some h'"
  shows "sync_from H h'"
proof -
  define h2 where "h2 = log_call (Call_Reset bootstrap) (write_settings (Some None) (Some None) None
      (h\<lparr>journals := Map.empty, pending_deltas := Map.empty, swap_buffer := Map.empty,
         tracked := empty_tracking, last_usage_emitted := Map.empty, default_focus_id := None,
         session_list_dirty := True, swaps_in_flight := 0, prompt_results := Map.empty,
         prompt_result_order := []\<rparr>))"
  have h2: "sync_ok H h2"
    using assms(1) journals_ok_empty [of H "journals h" "epoch_counter h"]
    by (simp add: h2_def ledger_ok_def)
  obtain h3 where h3: "(if bootstrap then seed_default R D h2 else Some h2) = Some h3"
    and h': "h' = enqueue Op_BroadcastSessionList (broadcast_session_status R (reseed_clients h3))"
    using assms(2) unfolding reset_def Let_def h2_def [symmetric] map_option_eq_Some by blast
  from h2 h3 have "sync_from H h3"
    by (cases bootstrap) (auto intro: sync_seed_default sync_from_refl)
  then show ?thesis
  proof (rule sync_from_bind)
    fix H'
    assume "sync_ok H' h3"
    then have "sync_ok H' (reseed_clients h3)" by (rule sync_reseed_clients)
    then show "sync_from H' h'"
      by (intro sync_from_refl) (simp add: h' broadcast_session_status_def)
  qed
qed

lemma connect_messages_authentic:
  assumes "journals_ok H (journals h) n"
  shows "\<forall>m \<in> set (connect_messages resume h). authentic H m"
proof (cases resume)
  case None
  then show ?thesis using assms by (simp add: connect_messages_def authentic_seed)
next
  case (Some r)
  show ?thesis
  proof (cases "journals h (rt_session_id r)")
    case None
    with Some assms show ?thesis by (simp add: connect_messages_def authentic_seed)
  next
    case j: (Some j)
    have "authentic H (M_Event ev (j_epoch j) s)"
      if "resume_covered r h" "(s, ev) \<in> set (missed_frames j (rt_seq r))" for s ev
      using that j by (intro authentic_missed [OF assms j]) (auto simp: resume_covered_def)
    with Some j assms show ?thesis
      by (auto simp: connect_messages_def authentic_seed)
  qed
qed

lemma sync_add_client [sync_intros]:
  assumes "sync_ok H h" and "add_client R D resume h = Some (ck, h')"
  shows "sync_ok H h'"
proof -
  obtain m where m: "pantoken_settings_msg R D h = Some m"
    using assms(2) by (auto simp: add_client_def Let_def)
  define msgs where "msgs = [hello_msg h] @ connect_messages resume h
      @ [session_status_msg R h, update_status_msg h, m]"
  let ?c = "\<lparr>send_queue = [], focused_id = connect_focus resume h, switch_in_flight = False,
      pending_switch = None\<rparr> :: client_conn"
  have h': "journals h' = journals h" "epoch_counter h' = epoch_counter h"
    "clients h' = (clients h)(ck \<mapsto> foldl (\<lambda>c m. try_send m c) ?c msgs)"
    "prompt_results h' = prompt_results h"
    using assms(2) m by (auto simp: add_client_def Let_def msgs_def)
  have "\<forall>x \<in> set msgs. authentic H x"
    using connect_messages_authentic [of H h "epoch_counter h" resume] assms(1) pantoken_settings_neutral [OF m]
    by (auto simp: msgs_def)
  then have "\<forall>x \<in> set (send_queue (foldl (\<lambda>c m. try_send m c) ?c msgs)). authentic H x"
    by (rule queues_ok_try_sends) simp
  with assms(1) show ?thesis by (simp add: h' queues_ok_def)
qed

lemma sync_remove_client: "sync_ok H h \<Longrightarrow> sync_ok H (remove_client ck h)"
  by (simp add: remove_client_def queues_ok_def)

lemma sync_spawn_connect_lists: "sync_ok H h \<Longrightarrow> sync_ok H (spawn_connect_lists ck h)"
  by (simp add: spawn_connect_lists_def Let_def)

lemma apply_update_results [simp]: "prompt_results (apply_update h) = prompt_results h"
  by (simp add: apply_update_def Let_def)

lemma sync_apply_update: "sync_ok H h \<Longrightarrow> sync_ok H (apply_update h)"
  by (simp add: apply_update_def Let_def)

lemma sync_report_update [sync_intros]: "sync_ok H h \<Longrightarrow> sync_ok H (snd (report_update sha failed stale h))"
  by (auto simp: report_update_def Let_def split: option.splits)

lemma sync_refresh_session: "sync_ok H h \<Longrightarrow> sync_from H (refresh_session R rt D ts sid h)"
  unfolding refresh_session_def Let_def
  by (auto split: option.splits intro: sync_from_refl intro!: sync_ingest)

lemma sync_refresh_usage: "sync_ok H h \<Longrightarrow> sync_from H (refresh_usage R rt D ts sids h)"
proof -
  have "sync_ok H h \<Longrightarrow> sync_from H (foldl (\<lambda>h sid. refresh_session R rt D ts sid h) h xs)" for xs H h
  proof (induction xs arbitrary: H h)
    case (Cons x xs)
    have "sync_from H (refresh_session R rt D ts x h)" using Cons.prems by (rule sync_refresh_session)
    then show ?case using Cons.IH by (simp add: sync_from_bind)
  qed (simp add: sync_from_refl)
  then show "sync_ok H h \<Longrightarrow> sync_from H (refresh_usage R rt D ts sids h)"
    by (simp add: refresh_usage_def)
qed

lemma cached_authentic:
  "ledger_ok (prompt_results h) \<Longrightarrow> check_prompt_idempotency pid h = Some m \<Longrightarrow> authentic H m"
  by (cases pid) (fastforce simp: check_prompt_idempotency_def ledger_ok_def)+

lemma sync_send_seed: "sync_ok H h \<Longrightarrow> sync_ok H (send_to_client ck (seed_msg sid h) h)"
  using authentic_seed [of H h "epoch_counter h" sid] by simp

lemma sync_respond_ui: "sync_ok H h \<Longrightarrow> sync_ok H (respond_ui r sid h)"
  by (simp add: respond_ui_def split: option.splits)

lemma sync_broadcast_settings:
  "sync_ok H h \<Longrightarrow> broadcast_settings R D h = Some h' \<Longrightarrow> sync_ok H h'"
  by (auto simp: broadcast_settings_def pantoken_settings_neutral)

lemma sync_prompt_or_replay:
  "sync_ok H h \<Longrightarrow>
     sync_ok H (case check_prompt_idempotency pid h of
                  Some cached \<Rightarrow> send_to_client ck cached h | None \<Rightarrow> enqueue op h)"
  by (auto simp: cached_authentic split: option.splits)

lemma sync_handle_client [sync_intros]:
  assumes "sync_ok H h" and "handle_client R D ck msg h = Some h'"
  shows "sync_ok H h'"
proof (cases msg)
  case (C_SetLoginShell p)
  with assms(2) have b: "broadcast_settings R D (write_settings (Some (nonblank p)) None None h) = Some h'" by simp
  have "sync_ok H (write_settings (Some (nonblank p)) None None h)" using assms(1) by simp
  then show ?thesis using b by (rule sync_broadcast_settings)
next
  case (C_SetBackgroundModel p)
  with assms(2) have b: "broadcast_settings R D (write_settings None (Some (nonblank p)) None h) = Some h'" by simp
  have "sync_ok H (write_settings None (Some (nonblank p)) None h)" using assms(1) by simp
  then show ?thesis using b by (rule sync_broadcast_settings)
next
  case C_OpenDataDir
  show ?thesis
  proof (cases "data_dir h")
    case None
    with C_OpenDataDir assms show ?thesis by (auto simp del: append_Cons)
  next
    case (Some dir)
    with C_OpenDataDir assms show ?thesis by (cases "d_open_in_file_manager D dir") auto
  qed
next
  case (C_Prompt pid tx images deliver sid)
  with assms(2) have "h' = (case check_prompt_idempotency pid h of
      Some cached \<Rightarrow> send_to_client ck cached h
    | None \<Rightarrow> enqueue (Op_Prompt ck tx deliver (or_else sid (client_focus ck h)) (unwrap_or images []) pid) h)"
    by simp
  then show ?thesis by (simp only: sync_prompt_or_replay [OF assms(1)])
next
  case (C_NewSession opts pr pid images)
  with assms(2) have "h' = (case check_prompt_idempotency pid h of
      Some cached \<Rightarrow> send_to_client ck cached h
    | None \<Rightarrow> enqueue (Op_NewSession ck opts (nonblank pr) (unwrap_or images [])
        (nonblank pr \<noteq> None \<or> unwrap_or images [] \<noteq> []) pid) h)"
    by (simp add: Let_def split: option.splits)
  then show ?thesis by (simp only: sync_prompt_or_replay [OF assms(1)])
next
  case (C_RequestSeed sid)
  with assms(2) have "h' = send_to_client ck (seed_msg (or_else sid (client_focus ck h)) h) h" by simp
  then show ?thesis by (simp only: sync_send_seed [OF assms(1)])
next
  case (C_RespondUi r sid)
  with assms(2) have "h' = respond_ui r (or_else sid (client_focus ck h)) h" by simp
  then show ?thesis by (simp only: sync_respond_ui [OF assms(1)])
next
  case C_ApplyUpdate
  with assms(2) have "h' = apply_update h" by simp
  then show ?thesis by (simp only: sync_apply_update [OF assms(1)])
next
  case C_ForceUpdate
  with assms(2) have "h' = apply_update (h\<lparr>force_requested := True\<rparr>)" by simp
  moreover have "sync_ok H (h\<lparr>force_requested := True\<rparr>)" using assms(1) by simp
  ultimately show ?thesis using sync_apply_update by blast
next
  case (C_Abort rid sid)
  with assms show ?thesis by (cases "clients h ck") auto
next
  case (C_Branch entry summarize sid)
  with assms show ?thesis by (cases "turn_running (or_else sid (client_focus ck h)) h") auto
next
  case (C_RenameSession p name)
  with assms show ?thesis by (cases "trim name = []") auto
qed (use assms in \<open>auto simp del: append.simps\<close>)

section \<open>The applier keeps the history\<close>

lemma set_conn_fields [simp]:
  "journals (set_conn ck f h) = journals h" "epoch_counter (set_conn ck f h) = epoch_counter h"
  "prompt_results (set_conn ck f h) = prompt_results h"
  by (simp_all add: set_conn_def)

lemma queues_ok_set_conn [simp]:
  assumes "queues_ok H (clients h)" and "\<And>c. send_queue (f c) = send_queue c"
  shows "queues_ok H (clients (set_conn ck f h))"
  using queues_ok_upd [of H "clients h" f ck] assms by (simp add: set_conn_def)

lemma sync_start_switch: "sync_ok H h \<Longrightarrow> sync_ok H (start_switch ck sw reseed retry K h)"
  by (simp add: start_switch_def Let_def)

lemma ledger_ok_evict: "ledger_ok m \<Longrightarrow> ledger_ok (snd (evict_results ps m))"
proof (induction ps m rule: evict_results.induct)
  case (2 p ps m)
  have l: "ledger_ok (m(p := None))" using "2.prems" by (simp add: ledger_ok_def)
  show ?case using "2.IH" [OF _ l] "2.prems" by (simp del: fun_upd_apply)
qed simp

lemma cache_fields [simp]:
  "journals (cache_prompt_result p m h) = journals h"
  "epoch_counter (cache_prompt_result p m h) = epoch_counter h"
  "clients (cache_prompt_result p m h) = clients h"
  by (simp_all add: cache_prompt_result_def split_beta)

lemma ledger_ok_cache:
  assumes "ledger_ok (prompt_results h)"
  shows "ledger_ok (prompt_results (cache_prompt_result p (M_PromptResult pid a sid e) h))"
proof -
  have "ledger_ok ((prompt_results h)(p \<mapsto> M_PromptResult pid a sid e))"
    using assms by (simp add: ledger_ok_def)
  then show ?thesis
    by (simp add: cache_prompt_result_def ledger_insert_def Let_def split_beta ledger_ok_evict)
qed

lemma ledger_cache_and_send [simp]:
  "ledger_ok (prompt_results h) \<Longrightarrow>
     ledger_ok (prompt_results (cache_and_send ck pid (M_PromptResult p a sid e) h))"
  by (cases pid) (simp_all add: cache_and_send_def ledger_ok_cache)

lemma start_switch_results [simp]: "prompt_results (start_switch ck sw reseed retry K h) = prompt_results h"
  by (simp add: start_switch_def Let_def)

lemma sync_cache_and_send:
  "sync_ok H h \<Longrightarrow> sync_ok H (cache_and_send ck pid (M_PromptResult p a sid e) h)"
  by (cases pid) (simp_all add: cache_and_send_def ledger_ok_cache)

lemma sync_cache_outcome:
  "sync_ok H h \<Longrightarrow> sync_ok H (cache_and_send ck pid (prompt_result p target outcome) h)"
  by (cases outcome) (simp_all add: prompt_result_def sync_cache_and_send)

lemma sync_continue: "sync_ok H h \<Longrightarrow> sync_ok H (continue ck sid K h)"
proof (induction ck sid K h rule: continue.induct)
  case (2 ck sid tx h)
  then show ?case by (cases sid; cases tx) simp_all
next
  case (3 ck sid tx images has_first pid h)
  then show ?case by (cases sid) (simp_all add: sync_cache_and_send)
qed simp_all

lemma ledger_continue [simp]:
  "ledger_ok (prompt_results h) \<Longrightarrow> ledger_ok (prompt_results (continue ck sid K h))"
proof (induction ck sid K h rule: continue.induct)
  case (2 ck sid tx h)
  then show ?case by (cases sid; cases tx) simp_all
next
  case (3 ck sid tx images has_first pid h)
  then show ?case by (cases sid) simp_all
qed simp_all

lemma sync_end_switch: "sync_ok H h \<Longrightarrow> sync_ok H (end_switch ck sid K h)"
  by (simp add: end_switch_def Let_def sync_start_switch sync_continue split: option.splits)

lemma set_focus_fields [simp]:
  "journals (set_client_focus ck sid h) = journals h"
  "epoch_counter (set_client_focus ck sid h) = epoch_counter h"
  "prompt_results (set_client_focus ck sid h) = prompt_results h"
  by (simp_all add: set_client_focus_def)

lemma sync_show_session:
  assumes "sync_ok H h"
  shows "sync_ok H (show_session ck sid reseed h)"
proof -
  let ?h1 = "set_client_focus ck sid h"
  have h1: "sync_ok H ?h1"
    using assms queues_ok_upd [of H "clients h" _ ck] by (simp add: set_client_focus_def)
  then have h2: "sync_ok H (send_to_client ck (seed_msg (Some sid) ?h1) ?h1)"
    by (rule sync_send_seed)
  with authentic_seed [OF conjunct1 [OF h2], of "Some sid"] show ?thesis
    by (simp add: show_session_def Let_def)
qed

lemma sync_restart_journal:
  assumes "sync_ok H h"
  shows "sync_from H (restart_journal R seed reseed meta_changed sid h)"
proof (cases "reseed \<or> \<not> has_journal sid h")
  case True
  let ?h2 = "set_journal sid (create_journal (Suc (epoch_counter h)) seed) (snd (next_epoch (drop_pending sid h)))"
  have fields: "journals ?h2 = (journals h)(sid \<mapsto> create_journal (Suc (epoch_counter h)) seed)"
    "epoch_counter ?h2 = Suc (epoch_counter h)" "clients ?h2 = clients h" "prompt_results ?h2 = prompt_results h"
    by (simp_all add: set_journal_def next_epoch_def drop_pending_def Let_def)
  have "sync_from H ?h2" by (rule sync_create_journal [OF assms fields])
  then have "sync_from H (if meta_changed then broadcast_session_status R ?h2 else ?h2)"
    by (rule sync_from_bind) (simp add: broadcast_session_status_def sync_from_refl)
  moreover have "restart_journal R seed reseed meta_changed sid h =
      (if meta_changed then broadcast_session_status R ?h2 else ?h2)"
    using True by (simp add: restart_journal_def next_epoch_def drop_pending_def Let_def)
  ultimately show ?thesis by simp
next
  case False
  then show ?thesis using assms by (simp add: restart_journal_def sync_from_refl)
qed

lemma sync_install_seed:
  assumes "sync_ok H h"
  shows "sync_from H (install_seed R ck seed reseed meta_changed sid h)"
  using sync_restart_journal [OF assms]
proof (rule sync_from_bind)
  fix H'
  assume "sync_ok H' (restart_journal R seed reseed meta_changed sid h)"
  then show "sync_from H' (install_seed R ck seed reseed meta_changed sid h)"
    by (auto simp: install_seed_def Let_def sync_show_session intro: sync_from_refl)
qed

lemma sync_from_send:
  "sync_from H h \<Longrightarrow> (\<And>H'. authentic H' m) \<Longrightarrow> sync_from H (send_to_client ck m h)"
  by (erule sync_from_bind) (simp add: sync_from_refl)

lemma sync_finish_switch:
  assumes "sync_ok H h"
  shows "case finish_switch R ck seed reseed h of Inl h' \<Rightarrow> sync_from H h' | Inr (h', _) \<Rightarrow> sync_from H h'"
proof -
  have t: "sync_ok H (h\<lparr>tracked := t\<rparr>)" for t using assms by simp
  show ?thesis
    using assms t
    by (auto simp: finish_switch_def Let_def sync_from_refl sync_install_seed
        split: sum.splits option.splits)
qed

lemma sync_finish_swap:
  assumes "sync_ok H h"
  shows "sync_from H (finish_swap R D ck sw reseed K h)"
proof -
  obtain result prefill where r: "run_swap D sw = (result, prefill)" by fastforce
  let ?h1 = "h\<lparr>swaps_in_flight := swaps_in_flight h - 1\<rparr>"
  have h1: "sync_ok H ?h1" using assms by simp
  show ?thesis
  proof (cases result)
    case (Inl raw)
    define h2 where "h2 = (if queued_switch ck ?h1 = None
        then send_to_client ck (M_Error (fst (classify_switch_error raw)) (snd (classify_switch_error raw))) ?h1
        else ?h1)"
    have "sync_ok H h2" using h1 by (simp add: h2_def)
    then have "sync_from H (end_switch ck None (set_prefill prefill K) h2)"
      by (intro sync_from_refl sync_end_switch)
    moreover have "finish_swap R D ck sw reseed K h = end_switch ck None (set_prefill prefill K) h2"
      using Inl r by (simp add: finish_swap_def Let_def split_beta h2_def)
    ultimately show ?thesis by simp
  next
    case (Inr seed)
    note f = sync_finish_switch [OF h1, of R ck seed reseed]
    show ?thesis
    proof (cases "finish_switch R ck seed reseed ?h1")
      case (Inl h2)
      with f have "sync_from H h2" by simp
      then have "sync_from H (h2\<lparr>applier := A_Idle\<rparr>)" by (rule sync_from_cong) simp_all
      with Inl Inr r show ?thesis by (simp add: finish_swap_def Let_def)
    next
      case (Inr p)
      obtain h2 sid where p: "p = (h2, sid)" by fastforce
      with f Inr have "sync_from H h2" by simp
      then have "sync_from H (end_switch ck sid (set_prefill prefill K) h2)"
        by (rule sync_from_bind) (intro sync_from_refl sync_end_switch)
      with Inr p r \<open>result = Inr seed\<close> show ?thesis by (simp add: finish_swap_def Let_def)
    qed
  qed
qed

lemma sync_broadcast_list: "sync_ok H h \<Longrightarrow> sync_ok H (broadcast_session_list_with D h)"
  using try_send_set
  by (fastforce simp: broadcast_session_list_with_def queues_ok_def)

lemma sync_run_op:
  assumes "sync_ok H h"
  shows "sync_from H (run_op R D ts sids op h)"
proof (cases op)
  case (Op_DeltaFlush sid)
  with assms show ?thesis by (simp add: sync_flush_pending)
next
  case (Op_Switch ck sw reseed retry)
  with assms show ?thesis by (simp add: sync_start_switch sync_from_refl)
next
  case (Op_CleanupWorktree ck p force)
  obtain ok reason where "d_cleanup_worktree D p force = (ok, reason)" by fastforce
  with Op_CleanupWorktree assms show ?thesis by (cases ok) (simp_all add: sync_from_refl)
qed (use assms in \<open>auto intro!: sync_from_refl simp: sync_cache_outcome sync_broadcast_list sync_start_switch
      Let_def split_beta split: option.split sum.split\<close>)

lemma sync_applier_step [sync_intros]:
  assumes "sync_ok H h"
  shows "sync_from H (applier_step R D ts sids h)"
proof (cases "applier h")
  case A_Idle
  show ?thesis
  proof (cases "hub_ops h")
    case Nil
    with A_Idle assms show ?thesis by (simp add: applier_step_def sync_from_refl)
  next
    case (Cons op ops)
    have "sync_ok H (h\<lparr>hub_ops := ops\<rparr>)" using assms by simp
    from sync_run_op [OF this] Cons A_Idle show ?thesis by (simp add: applier_step_def)
  qed
next
  case (A_Switch ck sw reseed retry K)
  with sync_finish_swap [OF assms] show ?thesis by (simp add: applier_step_def)
next
  case (A_Await ck K)
  with assms show ?thesis by (simp add: applier_step_def sync_continue sync_from_refl)
next
  case (A_FirstPrompt ck sid tx images pid)
  with sync_cache_outcome [of H "log_call (Call_Prompt (unwrap_or tx []) None (Some sid) images pid) h"] assms
  show ?thesis by (simp add: applier_step_def sync_from_refl)
next
  case A_Relist
  with sync_broadcast_list [OF assms] show ?thesis by (simp add: applier_step_def sync_from_refl)
next
  case (A_Refresh b)
  have "sync_from H (refresh_usage R True D ts sids h)" by (rule sync_refresh_usage [OF assms])
  then have "sync_from H ((refresh_usage R True D ts sids h)\<lparr>applier := A_Idle\<rparr>)"
    by (rule sync_from_cong) simp_all
  with A_Refresh show ?thesis by (simp add: applier_step_def)
qed

lemma sync_finish_abort [sync_intros]: "sync_ok H h \<Longrightarrow> sync_ok H (finish_abort D i h)"
  by (auto simp: finish_abort_def Let_def split_beta split: option.splits sum.splits)

end
