(* ===== verification/Client_Sync.thy ===== *)
theory Client_Sync
  imports Hub_Sync
begin

text \<open>
  The client end of the protocol and the whole system. \<open>client_recv\<close> is the gate of the web client's
  store (\<^verbatim>\<open>client/src/lib/store.svelte.ts\<close>, \<open>onServer\<close>): a seed replaces the state, an event folds only
  when it carries the client's epoch and the next sequence number, a gap asks for a new seed.
  \<open>sys_step\<close> interleaves the hub's operations with deliveries, losses and reconnects.
\<close>

section \<open>The contract of a follower\<close>

text \<open>A follower holds a copy of something that only grows. If a message is authentic, receiving it
  keeps the copy consistent; then any part of an authentic stream, with any losses, does.\<close>

locale follower =
  fixes grows :: "'h \<Rightarrow> 'h \<Rightarrow> bool"
    and genuine :: "'h \<Rightarrow> 'm \<Rightarrow> bool"
    and copy_ok :: "'h \<Rightarrow> 'v \<Rightarrow> bool"
    and recv :: "'m \<Rightarrow> 'v \<Rightarrow> 'v"
  assumes genuine_mono: "grows h h' \<Longrightarrow> genuine h m \<Longrightarrow> genuine h' m"
    and copy_mono: "grows h h' \<Longrightarrow> copy_ok h v \<Longrightarrow> copy_ok h' v"
    and recv_ok: "copy_ok h v \<Longrightarrow> genuine h m \<Longrightarrow> copy_ok h (recv m v)"
begin

lemma recv_many: "copy_ok h v \<Longrightarrow> \<forall>m \<in> set ms. genuine h m \<Longrightarrow> copy_ok h (foldl (\<lambda>v m. recv m v) v ms)"
  by (induction ms arbitrary: v) (auto intro: recv_ok)

lemma recv_lossy:
  assumes "copy_ok h v" and "\<forall>m \<in> set ms. genuine h m" and "subseq ms' ms"
  shows "copy_ok h (foldl (\<lambda>v m. recv m v) v ms')"
proof (rule recv_many [OF assms(1)])
  show "\<forall>m \<in> set ms'. genuine h m"
    using assms(2,3) by (auto elim: list_emb_set)
qed

lemma recv_later: "copy_ok h v \<Longrightarrow> grows h h' \<Longrightarrow> genuine h' m \<Longrightarrow> copy_ok h' (recv m v)"
  by (blast intro: recv_ok copy_mono)

end

section \<open>The client's gate\<close>

record client_view =
  seed_session_id :: "session_id option"
  seed_epoch :: nat
  seed_seq :: nat
  session :: session_state
  seed_requested :: bool

definition fresh_view :: client_view where
  "fresh_view = \<lparr>seed_session_id = None, seed_epoch = 0, seed_seq = 0, session = initial_session_state,
     seed_requested = False\<rparr>"

fun client_recv :: "server_message \<Rightarrow> client_view \<Rightarrow> client_view" where
  "client_recv (M_Seed sid epoch seq evs) v =
     \<lparr>seed_session_id = sid, seed_epoch = epoch, seed_seq = seq, session = fold_all evs,
      seed_requested = False\<rparr>"
| "client_recv (M_Event ev epoch seq) v =
     (if epoch \<noteq> seed_epoch v then v
      else if seq \<noteq> seed_seq v + 1 then v\<lparr>seed_requested := True\<rparr>
      else v\<lparr>seed_seq := seq, session := fold_event (session v) ev, seed_requested := False\<rparr>)"
| "client_recv _ v = v"

text \<open>Whether receiving a message makes the client send \<open>requestSeed\<close>: once per gap.\<close>

fun asks_seed :: "server_message \<Rightarrow> client_view \<Rightarrow> bool" where
  "asks_seed (M_Event ev epoch seq) v \<longleftrightarrow>
     epoch = seed_epoch v \<and> seq \<noteq> seed_seq v + 1 \<and> \<not> seed_requested v"
| "asks_seed _ v \<longleftrightarrow> False"

definition resume_of :: "client_view \<Rightarrow> resume_token option" where
  "resume_of v =
     (case seed_session_id v of
        Some (c # cs) \<Rightarrow>
          if seed_epoch v > 0
          then Some \<lparr>rt_session_id = c # cs, rt_epoch = seed_epoch v, rt_seq = seed_seq v\<rparr> else None
      | _ \<Rightarrow> None)"

text \<open>A client's state is the fold of a prefix of the history of its epoch.\<close>

definition view_ok :: "history \<Rightarrow> client_view \<Rightarrow> bool" where
  "view_ok H v \<longleftrightarrow>
     (if seed_epoch v = 0 then seed_seq v = 0 \<and> session v = initial_session_state
      else \<exists>sid base log. H (seed_epoch v) = Some (sid, base, log) \<and> seed_session_id v = Some sid \<and>
             seed_seq v \<le> length log \<and> session v = fold_all (base @ take (seed_seq v) log))"

lemma view_ok_fresh [simp]: "view_ok H fresh_view"
  by (simp add: view_ok_def fresh_view_def)

lemma view_ok_extends: "extends H H' \<Longrightarrow> view_ok H v \<Longrightarrow> view_ok H' v"
proof -
  assume x: "extends H H'" and v: "view_ok H v"
  show ?thesis
  proof (cases "seed_epoch v = 0")
    case True
    with v show ?thesis by (simp add: view_ok_def)
  next
    case False
    with v obtain sid base log where h: "H (seed_epoch v) = Some (sid, base, log)"
      "seed_session_id v = Some sid" "seed_seq v \<le> length log"
      "session v = fold_all (base @ take (seed_seq v) log)"
      by (auto simp: view_ok_def)
    moreover from x h(1) obtain evs where "H' (seed_epoch v) = Some (sid, base, log @ evs)"
      by (rule extendsE)
    ultimately show ?thesis using False by (simp add: view_ok_def)
  qed
qed

lemma fold_all_snoc: "fold_all (xs @ [e]) = fold_event (fold_all xs) e"
  by (simp add: fold_all_def fold_all_from_def)

lemma client_recv_ok:
  assumes v: "view_ok H v" and m: "authentic H m"
  shows "view_ok H (client_recv m v)"
proof (cases m)
  case (M_Seed sid e s evs)
  with m show ?thesis
    by (cases "e = 0") (auto simp: view_ok_def fold_all_def fold_all_from_def)
next
  case (M_Event ev e s)
  show ?thesis
  proof (cases "e = seed_epoch v \<and> s = seed_seq v + 1")
    case False
    then have "client_recv m v = v \<or> client_recv m v = v\<lparr>seed_requested := True\<rparr>"
      by (auto simp: M_Event)
    with v show ?thesis by (auto simp: view_ok_def)
  next
    case True
    from m M_Event True obtain sid base log where h: "H (seed_epoch v) = Some (sid, base, log)"
      "seed_seq v < length log" "log ! seed_seq v = ev" and pos: "0 < seed_epoch v"
      by auto
    then have "session v = fold_all (base @ take (seed_seq v) log) \<and> seed_session_id v = Some sid"
      using v by (simp add: view_ok_def)
    moreover have "take (Suc (seed_seq v)) log = take (seed_seq v) log @ [ev]"
      using h by (simp add: take_Suc_conv_app_nth)
    ultimately show ?thesis
      using True h pos fold_all_snoc [of "base @ take (seed_seq v) log" ev]
      by (auto simp: M_Event view_ok_def)
  qed
qed (use v in auto)

interpretation client: follower extends authentic view_ok client_recv
  by unfold_locales (auto intro: authentic_extends view_ok_extends client_recv_ok)

section \<open>The system\<close>

text \<open>The moves of the hub. \<open>allow\<close> says whether an op may panic.\<close>

definition op_panics :: "runtime \<Rightarrow> driver \<Rightarrow> hub \<Rightarrow> bool" where
  "op_panics R D h =
     (case applier h of
        A_Switch ck sw reseed retry K \<Rightarrow>
          (case fst (run_swap D sw) of
             Inr seed \<Rightarrow>
               (case finish_switch R ck seed reseed (h\<lparr>swaps_in_flight := swaps_in_flight h - 1\<rparr>) of
                  Inl _ \<Rightarrow> True | Inr _ \<Rightarrow> False)
           | Inl _ \<Rightarrow> False)
      | _ \<Rightarrow> False)"

inductive hub_step :: "runtime \<Rightarrow> bool \<Rightarrow> hub \<Rightarrow> hub \<Rightarrow> bool" for R allow where
  Event: "on_event R rt now ev h = Some h' \<Longrightarrow> hub_step R allow h h'"
| Connect_Lists: "hub_step R allow h (spawn_connect_lists ck h)"
| Message: "handle_client R D ck msg h = Some h' \<Longrightarrow> hub_step R allow h h'"
| Timer: "hub_step R allow h (enqueue (Op_DeltaFlush sid) h)"
| Apply: "allow \<or> \<not> op_panics R D h \<Longrightarrow> hub_step R allow h (applier_step R D ts sids h)"
| Abort_Done: "hub_step R allow h (finish_abort D i h)"
| Tick: "hub_step R allow h (enqueue_live_refresh h)"
| Update: "hub_step R allow h (snd (report_update sha failed stale h))"
| Reset: "reset R D bootstrap h = Some h' \<Longrightarrow> hub_step R allow h h'"

text \<open>The hub, the views of the connected clients, and the views of disconnected ones, which may come
  back with the watermark they had.\<close>

record system =
  the_hub :: hub
  views :: "nat \<rightharpoonup> client_view"
  parked :: "client_view set"

definition pop_message :: "nat \<Rightarrow> hub \<Rightarrow> hub" where
  "pop_message ck h = set_conn ck (\<lambda>c. c\<lparr>send_queue := drop 1 (send_queue c)\<rparr>) h"

inductive sys_step :: "runtime \<Rightarrow> bool \<Rightarrow> system \<Rightarrow> system \<Rightarrow> bool" for R allow where
  Server: "hub_step R allow (the_hub s) h' \<Longrightarrow> sys_step R allow s (s\<lparr>the_hub := h'\<rparr>)"
| Connect: "add_client R D None (the_hub s) = Some (ck, h') \<Longrightarrow>
    sys_step R allow s (s\<lparr>the_hub := h', views := (views s)(ck \<mapsto> fresh_view)\<rparr>)"
| Reconnect: "v \<in> parked s \<Longrightarrow> add_client R D (resume_of v) (the_hub s) = Some (ck, h') \<Longrightarrow>
    sys_step R allow s (s\<lparr>the_hub := h', views := (views s)(ck \<mapsto> v)\<rparr>)"
| Disconnect: "views s ck = Some v \<Longrightarrow>
    sys_step R allow s (s\<lparr>the_hub := remove_client ck (the_hub s), views := (views s)(ck := None),
                        parked := insert v (parked s)\<rparr>)"
| Receive: "clients (the_hub s) ck = Some c \<Longrightarrow> send_queue c = m # ms \<Longrightarrow> views s ck = Some v \<Longrightarrow>
    sys_step R allow s (s\<lparr>the_hub := pop_message ck (the_hub s), views := (views s)(ck \<mapsto> client_recv m v)\<rparr>)"
| Lose: "clients (the_hub s) ck = Some c \<Longrightarrow> send_queue c = m # ms \<Longrightarrow>
    sys_step R allow s (s\<lparr>the_hub := pop_message ck (the_hub s)\<rparr>)"

inductive_cases hub_stepE: "hub_step R allow h h'"
inductive_cases sys_stepE: "sys_step R allow s s'"

inductive sys_reach :: "runtime \<Rightarrow> bool \<Rightarrow> system \<Rightarrow> bool" for R allow where
  Start: "hub_new R D now flush dir notify sid label sha settings = Some h \<Longrightarrow>
    sys_reach R allow \<lparr>the_hub = h, views = Map.empty, parked = {}\<rparr>"
| Step: "sys_reach R allow s \<Longrightarrow> sys_step R allow s s' \<Longrightarrow> sys_reach R allow s'"

section \<open>The invariant of the system\<close>

definition sys_ok :: "history \<Rightarrow> system \<Rightarrow> bool" where
  "sys_ok H s \<longleftrightarrow> sync_ok H (the_hub s) \<and> (\<forall>ck v. views s ck = Some v \<longrightarrow> view_ok H v) \<and>
     (\<forall>v \<in> parked s. view_ok H v)"

lemma sync_enqueue_live_refresh: "sync_ok H h \<Longrightarrow> sync_ok H (enqueue_live_refresh h)"
  by (simp add: enqueue_live_refresh_def)

lemma sync_hub_step:
  assumes "hub_step R allow h h'" and "sync_ok H h"
  shows "sync_from H h'"
  using assms
proof (cases rule: hub_step.cases)
  case (Event rt now ev)
  then show ?thesis using sync_on_event [OF assms(2)] by blast
next
  case (Connect_Lists ck)
  then show ?thesis using sync_from_refl [OF sync_spawn_connect_lists [OF assms(2)]] by simp
next
  case (Message D ck msg)
  then show ?thesis using sync_from_refl [OF sync_handle_client [OF assms(2)]] by blast
next
  case (Timer sid)
  then show ?thesis using assms(2) by (simp add: sync_from_refl)
next
  case (Apply D ts sids)
  then show ?thesis using sync_applier_step [OF assms(2)] by simp
next
  case (Abort_Done D i)
  then show ?thesis using sync_from_refl [OF sync_finish_abort [OF assms(2)]] by simp
next
  case Tick
  then show ?thesis using sync_from_refl [OF sync_enqueue_live_refresh [OF assms(2)]] by simp
next
  case (Update sha failed stale)
  then show ?thesis using sync_from_refl [OF sync_report_update [OF assms(2)]] by simp
next
  case (Reset D bootstrap)
  then show ?thesis using sync_reset [OF assms(2)] by blast
qed

lemma sync_pop: "sync_ok H h \<Longrightarrow> sync_ok H (pop_message ck h)"
proof -
  assume a: "sync_ok H h"
  have "queues_ok H (clients (pop_message ck h))"
    using a by (fastforce simp: pop_message_def set_conn_def queues_ok_def dest: in_set_dropD)
  with a show ?thesis by (simp add: pop_message_def)
qed

lemma sys_ok_step:
  assumes ok: "sys_ok H s" and st: "sys_step R allow s s'"
  shows "\<exists>H'. sys_ok H' s'"
  using st
proof (cases rule: sys_step.cases)
  case (Server h')
  have "sync_ok H (the_hub s)" using ok by (simp add: sys_ok_def)
  moreover have "hub_step R allow (the_hub s) h'" using Server by simp
  ultimately obtain H' where x: "extends H H'" and h: "sync_ok H' h'"
    using sync_hub_step unfolding sync_from_def by blast
  have "sys_ok H' s'"
    using ok h view_ok_extends [OF x] Server unfolding sys_ok_def by auto
  then show ?thesis by blast
next
  case (Connect D ck h')
  have "sync_ok H (the_hub s)" using ok by (simp add: sys_ok_def)
  then have "sync_ok H h'" using Connect(2) by (rule sync_add_client)
  with ok have "sys_ok H s'" unfolding Connect(1) sys_ok_def by simp
  then show ?thesis by blast
next
  case (Reconnect v D ck h')
  have "sync_ok H (the_hub s)" using ok by (simp add: sys_ok_def)
  then have "sync_ok H h'" using Reconnect(3) by (rule sync_add_client)
  with ok Reconnect(2) have "sys_ok H s'" unfolding Reconnect(1) sys_ok_def by simp
  then show ?thesis by blast
next
  case (Disconnect ck v)
  have "sync_ok H (the_hub s)" using ok by (simp add: sys_ok_def)
  then have "sync_ok H (remove_client ck (the_hub s))" by (rule sync_remove_client)
  with ok Disconnect(2) have "sys_ok H s'" unfolding Disconnect(1) sys_ok_def by simp
  then show ?thesis by blast
next
  case (Receive ck c m ms v)
  have "sync_ok H (the_hub s)" using ok by (simp add: sys_ok_def)
  then have "sync_ok H (pop_message ck (the_hub s))" by (rule sync_pop)
  moreover have "view_ok H (client_recv m v)"
  proof (rule client_recv_ok)
    show "view_ok H v" using ok Receive(4) by (simp add: sys_ok_def)
    have "queues_ok H (clients (the_hub s))" using ok by (simp add: sys_ok_def)
    with Receive(2,3) show "authentic H m" unfolding queues_ok_def by fastforce
  qed
  ultimately have "sys_ok H s'" using ok unfolding Receive(1) sys_ok_def by simp
  then show ?thesis by blast
next
  case (Lose ck c m ms)
  have "sync_ok H (the_hub s)" using ok by (simp add: sys_ok_def)
  then have "sync_ok H (pop_message ck (the_hub s))" by (rule sync_pop)
  with ok have "sys_ok H s'" unfolding Lose(1) sys_ok_def by simp
  then show ?thesis by blast
qed

lemma sync_hub_init: "sync_ok Map.empty (hub_init now flush dir notify sid label sha settings)"
  by (simp add: hub_init_def journals_ok_def queues_ok_def ledger_ok_def)

lemma sys_reach_ok: "sys_reach R allow s \<Longrightarrow> \<exists>H. sys_ok H s"
proof (induction rule: sys_reach.induct)
  case (Start D now flush dir notify sid label sha settings h)
  then have "sync_from Map.empty h"
    unfolding hub_new_def by (rule sync_seed_default [OF sync_hub_init])
  then show ?case by (auto simp: sys_ok_def sync_from_def)
next
  case (Step s s')
  then show ?case using sys_ok_step by blast
qed

lemma view_behind_journal:
  assumes "view_ok H v" and "journals_ok H J n" and "J sid = Some j" and "seed_epoch v = j_epoch j"
  obtains base log where "journal_repr j base log" and "seed_session_id v = Some sid"
    and "seed_seq v \<le> length log" and "session v = fold_all (base @ take (seed_seq v) log)"
proof -
  from assms(2,3) obtain base log where h: "H (j_epoch j) = Some (sid, base, log)"
    and r: "journal_repr j base log" and pos: "0 < j_epoch j"
    by (rule journals_okE)
  with assms(1,4) show thesis by (intro that [OF r]) (auto simp: view_ok_def)
qed

lemma fold_all_app: "fold_all (xs @ ys) = foldl fold_event (fold_all xs) ys"
  by (simp add: fold_all_def fold_all_from_def)

lemma view_catch_up:
  assumes "journal_repr j base log" and "seed_seq v \<le> length log"
    and "session v = fold_all (base @ take (seed_seq v) log)"
  shows "foldl fold_event (session v) (drop (seed_seq v) log) = fold_all (seed_events j)"
proof -
  have "foldl fold_event (session v) (drop (seed_seq v) log) =
      fold_all ((base @ take (seed_seq v) log) @ drop (seed_seq v) log)"
    by (simp only: assms(3) fold_all_app)
  then show ?thesis by (simp add: journal_repr_fold [OF assms(1)])
qed

section \<open>Properties\<close>


section \<open>Receiving a resume\<close>

definition recv_all :: "server_message list \<Rightarrow> client_view \<Rightarrow> client_view" where
  "recv_all ms v = foldl (\<lambda>v m. client_recv m v) v ms"

lemma recv_all_simps [simp]:
  "recv_all [] v = v" "recv_all (m # ms) v = recv_all ms (client_recv m v)"
  "recv_all (ms @ ms') v = recv_all ms' (recv_all ms v)"
  by (simp_all add: recv_all_def)

text \<open>The frames of a resume, in order, take a client from its watermark to the end of the log.\<close>

lemma recv_frames:
  "session (recv_all (map (\<lambda>(n, ev). M_Event ev (seed_epoch v) n) (enumerate (Suc (seed_seq v)) evs)) v) =
     foldl fold_event (session v) evs \<and>
   seed_seq (recv_all (map (\<lambda>(n, ev). M_Event ev (seed_epoch v) n) (enumerate (Suc (seed_seq v)) evs)) v) =
     seed_seq v + length evs"
proof (induction evs arbitrary: v)
  case (Cons ev evs)
  let ?v = "client_recv (M_Event ev (seed_epoch v) (Suc (seed_seq v))) v"
  have "seed_epoch ?v = seed_epoch v" "seed_seq ?v = Suc (seed_seq v)"
    "session ?v = fold_event (session v) ev"
    by simp_all
  with Cons.IH [of ?v] show ?case by simp
qed simp

lemma take_enumerate: "take k (enumerate n xs) = enumerate n (take k xs)"
proof (induction xs arbitrary: k n)
  case (Cons x xs)
  then show ?case by (cases k) simp_all
qed simp

lemma try_sends_queue:
  "send_queue (foldl (\<lambda>c m. try_send m c) c ms) =
     send_queue c @ take (CLIENT_QUEUE - length (send_queue c)) ms"
proof (induction ms arbitrary: c)
  case (Cons m ms)
  then show ?case
    by (cases "length (send_queue c) < CLIENT_QUEUE") (simp_all add: try_send_def Suc_diff_Suc take_Cons')
qed simp

lemma add_client_queue:
  assumes "add_client R D resume h = Some (ck, h')"
  shows "\<exists>m c. pantoken_settings_msg R D h = Some m \<and> clients h' ck = Some c \<and>
    focused_id c = connect_focus resume h \<and> journals h' = journals h \<and>
    send_queue c = take CLIENT_QUEUE ([hello_msg h] @ connect_messages resume h
      @ [session_status_msg R h, update_status_msg h, m])"
proof -
  obtain m where m: "pantoken_settings_msg R D h = Some m"
    using assms by (auto simp: add_client_def Let_def)
  have f: "focused_id (foldl (\<lambda>c m. try_send m c) c ms) = focused_id c" for c and ms :: "server_message list"
    by (induction ms arbitrary: c) (simp_all add: try_send_def)
  show ?thesis
    using assms m by (auto simp: add_client_def Let_def try_sends_queue f simp del: foldl_Cons foldl_append)
qed

lemma neutral_recv [simp]:
  "client_recv (hello_msg h) v = v" "client_recv (session_status_msg R h) v = v"
  "client_recv (update_status_msg h) v = v"
  by (simp_all add: hello_msg_def session_status_msg_def update_status_msg_def)

lemma settings_recv: "pantoken_settings_msg R D h = Some m \<Longrightarrow> client_recv m v = v"
  by (auto simp: pantoken_settings_msg_def)

lemma resume_of_Some:
  "resume_of v = Some r \<Longrightarrow>
     seed_session_id v = Some (rt_session_id r) \<and> seed_epoch v = rt_epoch r \<and> seed_seq v = rt_seq r"
  by (auto simp: resume_of_def split: option.splits list.splits if_splits)

text \<open>Everything a covered resume needs, from the invariant of the system.\<close>

lemma resume_frames:
  assumes "sys_reach R allow s" and "v \<in> parked s" and "resume_of v = Some r" and "resume_covered r (the_hub s)"
  obtains j base log where "journals (the_hub s) (rt_session_id r) = Some j" and "journal_repr j base log"
    and "seed_seq v \<le> length log" and "session v = fold_all (base @ take (seed_seq v) log)"
    and "connect_messages (Some r) (the_hub s) =
      map (\<lambda>(n, ev). M_Event ev (seed_epoch v) n) (enumerate (Suc (seed_seq v)) (drop (seed_seq v) log))"
proof -
  from assms(4) obtain j where j: "journals (the_hub s) (rt_session_id r) = Some j"
    and e: "j_epoch j = rt_epoch r" and c: "tail_covers j (rt_seq r)"
    by (auto simp: resume_covered_def split: option.splits)
  from sys_reach_ok [OF assms(1)] obtain H where H: "sys_ok H s" ..
  with assms(2) have v: "view_ok H v" by (simp add: sys_ok_def)
  from H have J: "journals_ok H (journals (the_hub s)) (epoch_counter (the_hub s))"
    by (simp add: sys_ok_def)
  have ve: "seed_epoch v = j_epoch j" using resume_of_Some [OF assms(3)] e by simp
  from v J j ve obtain base log where r: "journal_repr j base log"
    and le: "seed_seq v \<le> length log" and st: "session v = fold_all (base @ take (seed_seq v) log)"
    by (rule view_behind_journal)
  have "connect_messages (Some r) (the_hub s) =
      map (\<lambda>(n, ev). M_Event ev (j_epoch j) n) (missed_frames j (rt_seq r))"
    using j assms(4) by (simp add: connect_messages_def)
  also have "missed_frames j (rt_seq r) = enumerate (Suc (seed_seq v)) (drop (seed_seq v) log)"
    using journal.missed_logs [OF r c] resume_of_Some [OF assms(3)] by simp
  finally show thesis using that [OF j r le st] ve by simp
qed


text \<open>When a client missed more than fits, the excess is lost without a trace: the client receives the
  hello and the first 127 missed events, ends 127 events after its watermark and behind the hub, and
  gets none of the session status, update status and settings messages.\<close>

theorem resume_overflow_loses_tail:
  assumes "sys_reach R allow s" and "v \<in> parked s" and "resume_of v = Some r"
    and "resume_covered r (the_hub s)" and "add_client R D (Some r) (the_hub s) = Some (ck, h')"
    and "journals (the_hub s) (rt_session_id r) = Some j" and "127 < j_seq j - seed_seq v"
  shows "\<exists>c. clients h' ck = Some c \<and> length (send_queue c) = 128 \<and>
    seed_seq (recv_all (send_queue c) v) = seed_seq v + 127 \<and>
    seed_seq (recv_all (send_queue c) v) < j_seq j \<and>
    (\<forall>m \<in> set (send_queue c). (\<exists>v1 i l d b. m = M_Hello v1 i l d b) \<or> (\<exists>ev e n. m = M_Event ev e n))"
proof -
  from assms(1-4) obtain j' base log where j': "journals (the_hub s) (rt_session_id r) = Some j'"
    and r: "journal_repr j' base log" and le: "seed_seq v \<le> length log"
    and st: "session v = fold_all (base @ take (seed_seq v) log)"
    and ms: "connect_messages (Some r) (the_hub s) =
      map (\<lambda>(n, ev). M_Event ev (seed_epoch v) n) (enumerate (Suc (seed_seq v)) (drop (seed_seq v) log))"
    by (rule resume_frames)
  have j: "j' = j" using j' assms(6) by simp
  obtain m c where c: "clients h' ck = Some c"
    and q: "send_queue c = take CLIENT_QUEUE ([hello_msg (the_hub s)] @ connect_messages (Some r) (the_hub s)
      @ [session_status_msg R (the_hub s), update_status_msg (the_hub s), m])"
    using add_client_queue [OF assms(5)] by blast
  have len: "j_seq j = length log" using journal_repr_seq [OF r] j by simp
  define evs where "evs = take 127 (drop (seed_seq v) log)"
  have evs: "length evs = 127" using assms(7) len by (simp add: evs_def)
  have "take 127 (connect_messages (Some r) (the_hub s)) =
      map (\<lambda>(n, ev). M_Event ev (seed_epoch v) n) (enumerate (Suc (seed_seq v)) evs)"
    by (simp add: ms take_map take_enumerate evs_def)
  moreover have "send_queue c = hello_msg (the_hub s) # take 127 (connect_messages (Some r) (the_hub s))"
    using assms(7) len by (simp add: q ms CLIENT_QUEUE_def take_Cons')
  ultimately have q': "send_queue c = hello_msg (the_hub s) #
      map (\<lambda>(n, ev). M_Event ev (seed_epoch v) n) (enumerate (Suc (seed_seq v)) evs)"
    by simp
  have "\<forall>m \<in> set (send_queue c). (\<exists>v1 i l d b. m = M_Hello v1 i l d b) \<or> (\<exists>ev e n. m = M_Event ev e n)"
    by (auto simp: q' hello_msg_def)
  moreover have "seed_seq (recv_all (send_queue c) v) = seed_seq v + 127"
    using recv_frames [of v evs] evs by (simp add: q')
  ultimately show ?thesis
    using c assms(7) evs by (simp add: q')
qed


text \<open>A resume the journal no longer covers points the client at two sessions at once: it is sent a
  seed of the session it asked for while the hub focuses it on the landing session, so the next
  event of the session it shows is not sent to it.\<close>

theorem stale_resume_splits_focus:
  assumes "add_client R D (Some r) h = Some (ck, h')" and "journals h (rt_session_id r) = Some j"
    and "\<not> resume_covered r h" and "default_focus_id h \<noteq> Some (rt_session_id r)"
    and "event_sid ev = rt_session_id r"
  shows "\<exists>c. clients h' ck = Some c \<and> focused_id c = default_focus_id h \<and>
    seed_msg (Some (rt_session_id r)) h \<in> set (send_queue c) \<and>
    clients (ingest_now R ev h') ck = Some c"
proof -
  obtain m c where c: "clients h' ck = Some c"
    and f: "focused_id c = connect_focus (Some r) h"
    and q: "send_queue c = take CLIENT_QUEUE ([hello_msg h] @ connect_messages (Some r) h
      @ [session_status_msg R h, update_status_msg h, m])"
    using add_client_queue [OF assms(1)] by blast
  have f': "focused_id c = default_focus_id h" using f assms(3) by (simp add: connect_focus_def)
  have "connect_messages (Some r) h = [seed_msg (Some (rt_session_id r)) h]"
    using assms(2,3) by (simp add: connect_messages_def)
  then have "seed_msg (Some (rt_session_id r)) h \<in> set (send_queue c)"
    by (simp add: q CLIENT_QUEUE_def)
  moreover have "clients (ingest_now R ev h') ck = Some c"
    using c f' assms(4,5)
    by (auto simp: ingest_now_def Let_def send_focused_def send_where_def set_journal_def next_epoch_def
        split: option.splits)
  ultimately show ?thesis using c f' by blast
qed

end
