(* ===== verification/Hub_Flight.thy ===== *)
theory Hub_Flight
  imports Client_Sync
begin

text \<open>
  Control properties of the hub: at most one session switch per connection, the desktop update flags,
  prompts and their ledger, and answers to dialogs.
\<close>

section \<open>What most operations leave alone\<close>

definition flights :: "hub \<Rightarrow> nat \<rightharpoonup> bool \<times> pending_switch_req option" where
  "flights h = (\<lambda>ck. map_option (\<lambda>c. (switch_in_flight c, pending_switch c)) (clients h ck))"

definition control :: "hub \<Rightarrow> (nat \<rightharpoonup> bool \<times> pending_switch_req option) \<times> applier \<times> bool \<times> string option" where
  "control h = (flights h, applier h, applying h, update_sha h)"

named_theorems control_simps "operations that leave the control state alone"

lemma control_cong:
  assumes "clients h' = clients h" and "applier h' = applier h" and "applying h' = applying h"
    and "update_sha h' = update_sha h"
  shows "control h' = control h"
  using assms by (simp add: control_def flights_def)

lemma control_updates [control_simps]:
  "control (h\<lparr>pending_deltas := pd\<rparr>) = control h" "control (h\<lparr>journals := j\<rparr>) = control h"
  "control (h\<lparr>notifications := n\<rparr>) = control h" "control (h\<lparr>session_list_dirty := b\<rparr>) = control h"
  "control (h\<lparr>tracked := t\<rparr>) = control h" "control (h\<lparr>last_usage_emitted := u\<rparr>) = control h"
  "control (h\<lparr>default_focus_id := f\<rparr>) = control h" "control (h\<lparr>hub_ops := ops\<rparr>) = control h"
  "control (h\<lparr>force_requested := b\<rparr>) = control h" "control (h\<lparr>available_models := am\<rparr>) = control h"
  "control (h\<lparr>swaps_in_flight := k\<rparr>) = control h" "control (h\<lparr>abort_tasks := ts\<rparr>) = control h"
  by (simp_all add: control_def flights_def)

lemma try_send_flight [simp]:
  "switch_in_flight (try_send m c) = switch_in_flight c" "pending_switch (try_send m c) = pending_switch c"
  by (simp_all add: try_send_def)

lemma control_send_where: "control (send_where P m h) = control h"
proof -
  have "flights (send_where P m h) ck = flights h ck" for ck
    by (cases "clients h ck") (simp_all add: flights_def send_where_def)
  then have "flights (send_where P m h) = flights h" by (rule ext)
  then show ?thesis by (simp add: control_def send_where_def)
qed

lemma control_sends [control_simps]:
  "control (broadcast m h) = control h" "control (send_to_client ck m h) = control h"
  "control (send_focused sid m h) = control h" "control (send_coviewers ck sid m h) = control h"
  by (simp_all add: send_defs control_send_where)

lemma control_small [control_simps]:
  "control (set_journal sid j h) = control h" "control (enqueue op h) = control h"
  "control (log_call c h) = control h" "control (drop_pending sid h) = control h"
  "control (write_settings a b x h) = control h" "control (snd (next_epoch h)) = control h"
  "control (spawn_connect_lists ck h) = control h" "control (enqueue_live_refresh h) = control h"
  "control (cache_prompt_result p m h) = control h" "control (buffer_swap_event now sid ev h) = control h"
  by (rule control_cong; simp add: set_journal_def enqueue_def log_call_def drop_pending_def
      write_settings_def next_epoch_def spawn_connect_lists_def enqueue_live_refresh_def
      cache_prompt_result_def buffer_swap_event_def Let_def split_beta split: option.splits)+

lemma control_focus [control_simps]: "control (set_client_focus ck sid h) = control h"
proof -
  have "flights (set_client_focus ck sid h) k = flights h k" for k
    by (cases "k = ck"; cases "clients h k") (simp_all add: flights_def set_client_focus_def)
  then have "flights (set_client_focus ck sid h) = flights h" by (rule ext)
  then show ?thesis by (simp add: control_def set_client_focus_def)
qed

lemma control_ingest_now [control_simps]: "control (ingest_now R ev h) = control h"
proof (cases "journals h (event_sid ev)")
  case None
  then show ?thesis by (simp add: ingest_now_def)
next
  case (Some j)
  then show ?thesis by (simp add: ingest_now_def Let_def split_beta control_simps)
qed

lemma control_flush [control_simps]: "control (flush_pending R sid h) = control h"
  by (auto simp: flush_pending_def control_simps split: option.splits)

lemma control_ingest [control_simps]: "control (ingest R rt ev h) = control h"
  by (auto simp: ingest_def hold_delta_def Let_def control_simps split: option.splits)

lemma control_status [control_simps]: "control (broadcast_session_status R h) = control h"
  by (simp add: broadcast_session_status_def control_simps)

lemma control_on_event:
  assumes "on_event R rt now ev h = Some h'"
  shows "control h' = control h"
proof -
  have track: "control h1 = control h" if "track_step R ev h = Some h1" for h1
  proof -
    from that obtain c t where h1: "h1 = (if c then broadcast_session_status R (h\<lparr>tracked := t\<rparr>) else h\<lparr>tracked := t\<rparr>)"
      by (auto simp: track_step_def Let_def)
    with h1 show ?thesis by (simp add: control_simps)
  qed
  have notify: "control h1 = control h0" if "maybe_notify R ev h0 = Some h1" for h0 h1
    using that by (auto simp: maybe_notify_def control_simps split: if_splits option.splits)
  have close: "control (close_journal ev h0) = control h0" for h0
    by (simp add: close_journal_def drop_pending_def Let_def control_simps)
  show ?thesis
    using assms
    by (auto simp: on_event_def Let_def close control_simps dest!: notify track
        split: Option.bind_splits if_splits)
qed

lemma control_seed_default:
  assumes "seed_default R D h = Some h'"
  shows "control h' = control h"
  using assms
  by (auto simp: seed_default_def Let_def split_beta control_simps split: option.splits list.splits)

lemma control_reset:
  assumes "reset R D bootstrap h = Some h'"
  shows "control h' = control h"
proof -
  define h1 where "h1 = h\<lparr>journals := Map.empty, pending_deltas := Map.empty, swap_buffer := Map.empty,
         tracked := empty_tracking, last_usage_emitted := Map.empty, default_focus_id := None,
         session_list_dirty := True, swaps_in_flight := 0, prompt_results := Map.empty,
         prompt_result_order := []\<rparr>"
  have c1: "control h1 = control h" by (rule control_cong) (simp_all add: h1_def)
  let ?h2 = "log_call (Call_Reset bootstrap) (write_settings (Some None) (Some None) None h1)"
  obtain h3 where h3: "(if bootstrap then seed_default R D ?h2 else Some ?h2) = Some h3"
    and h': "h' = enqueue Op_BroadcastSessionList (broadcast_session_status R (reseed_clients h3))"
    using assms unfolding reset_def Let_def h1_def [symmetric] map_option_eq_Some by blast
  have "control h3 = control h"
    using h3 c1 control_seed_default [of R D ?h2 h3] by (cases bootstrap) (auto simp: control_simps)
  moreover have "control (reseed_clients h3) = control h3"
  proof -
    have "flights (h3\<lparr>clients := \<lambda>ck. map_option (focused_id_update (\<lambda>_. default_focus_id h3)) (clients h3 ck)\<rparr>) = flights h3"
      by (auto simp: flights_def fun_eq_iff option.map_comp comp_def)
    then have "control (h3\<lparr>clients := \<lambda>ck. map_option (focused_id_update (\<lambda>_. default_focus_id h3)) (clients h3 ck)\<rparr>) = control h3"
      by (simp add: control_def)
    then show ?thesis by (simp add: reseed_clients_def Let_def control_simps)
  qed
  ultimately show ?thesis by (simp add: h' control_simps)
qed

lemma control_refresh_usage [control_simps]: "control (refresh_usage R rt D ts sids h) = control h"
proof -
  have "control (refresh_session R rt D ts sid h) = control h" for sid h
    by (auto simp: refresh_session_def Let_def control_simps split: option.splits)
  then have "control (foldl (\<lambda>h sid. refresh_session R rt D ts sid h) h xs) = control h" for xs h
    by (induction xs arbitrary: h) simp_all
  then show ?thesis by (simp add: refresh_usage_def)
qed

lemma control_broadcast_list [control_simps]: "control (broadcast_session_list_with D h) = control h"
proof -
  have "flights (broadcast_session_list_with D h) ck = flights h ck" for ck
    by (cases "clients h ck") (simp_all add: flights_def broadcast_session_list_with_def)
  then have "flights (broadcast_session_list_with D h) = flights h" by (rule ext)
  then show ?thesis by (simp add: control_def broadcast_session_list_with_def)
qed

lemma control_cache_and_send [control_simps]: "control (cache_and_send ck pid m h) = control h"
  by (cases pid) (simp_all add: cache_and_send_def control_simps)

lemma control_respond_ui [control_simps]: "control (respond_ui r sid h) = control h"
  by (auto simp: respond_ui_def control_simps split: option.splits)

section \<open>The control invariant\<close>

text \<open>No switch is queued, nobody waits for a queued switch, a connection is marked in flight only while
  the applier is inside its switch, and an update is applied only while one is available.\<close>

definition flight_ok :: "hub \<Rightarrow> bool" where
  "flight_ok h \<longleftrightarrow>
     (\<forall>ck f p. flights h ck = Some (f, p) \<longrightarrow>
        p = None \<and> (f \<longrightarrow> (\<exists>sw r t K. applier h = A_Switch ck sw r t K))) \<and>
     (\<forall>ck K. applier h \<noteq> A_Await ck K)"

definition update_ok :: "hub \<Rightarrow> bool" where
  "update_ok h \<longleftrightarrow> (applying h \<longrightarrow> update_sha h \<noteq> None)"

lemma control_D:
  assumes "control h' = control h"
  shows "flight_ok h' = flight_ok h" "update_ok h' = update_ok h" "applier h' = applier h"
    "flights h' = flights h"
  using assms by (simp_all add: control_def flight_ok_def update_ok_def)

lemma flights_set_conn:
  "flights (set_conn ck f h) =
     (flights h)(ck := map_option (\<lambda>c. (switch_in_flight (f c), pending_switch (f c))) (clients h ck))"
  by (auto simp: flights_def set_conn_def option.map_comp comp_def)

lemma set_conn_control [simp]:
  "applier (set_conn ck f h) = applier h" "applying (set_conn ck f h) = applying h"
  "update_sha (set_conn ck f h) = update_sha h"
  by (simp_all add: set_conn_def)

lemma queued_flight: "queued_switch ck h = Option.bind (flights h ck) snd"
  by (cases "clients h ck") (simp_all add: queued_switch_def flights_def)

lemma flight_ok_queued: "flight_ok h \<Longrightarrow> queued_switch ck h = None"
  by (cases "flights h ck") (auto simp: queued_flight flight_ok_def)

lemma apply_update_flight: "flights (apply_update h) = flights h" "applier (apply_update h) = applier h"
  "update_ok h \<Longrightarrow> update_ok (apply_update h)"
proof -
  have "control (broadcast m (h\<lparr>applying := True\<rparr>)) = control (h\<lparr>applying := True\<rparr>)" for m
    by (simp add: control_simps)
  then show "flights (apply_update h) = flights h" "applier (apply_update h) = applier h"
    "update_ok h \<Longrightarrow> update_ok (apply_update h)"
    by (simp_all add: apply_update_def Let_def control_def flights_def update_ok_def)
qed

lemma handle_client_control:
  assumes "handle_client R D ck msg h = Some h'"
  shows "control h' = control h \<or> h' = apply_update h \<or> h' = apply_update (h\<lparr>force_requested := True\<rparr>)"
proof -
  have settings: "control h1 = control h0" if "broadcast_settings R D h0 = Some h1" for h0 h1
    using that by (auto simp: broadcast_settings_def control_simps)
  have replay: "control (case check_prompt_idempotency pid h of Some cached \<Rightarrow> send_to_client ck cached h
      | None \<Rightarrow> enqueue op h) = control h" for pid op
    by (simp add: control_simps split: option.split)
  show ?thesis
  proof (cases msg)
    case (C_SetLoginShell p)
    with assms have "broadcast_settings R D (write_settings (Some (nonblank p)) None None h) = Some h'" by simp
    from settings [OF this] show ?thesis by (simp add: control_simps)
  next
    case (C_SetBackgroundModel p)
    with assms have "broadcast_settings R D (write_settings None (Some (nonblank p)) None h) = Some h'" by simp
    from settings [OF this] show ?thesis by (simp add: control_simps)
  next
    case C_OpenDataDir
    with assms have "h' = h \<or> (\<exists>m. h' = send_to_client ck m h)"
      by (cases "data_dir h"; cases "d_open_in_file_manager D (the (data_dir h))") auto
    then show ?thesis by (auto simp: control_simps)
  next
    case (C_Prompt pid tx images deliver sid)
    with assms replay show ?thesis by auto
  next
    case (C_NewSession opts pr pid images)
    with assms have "h' = (case check_prompt_idempotency pid h of Some cached \<Rightarrow> send_to_client ck cached h
      | None \<Rightarrow> enqueue (Op_NewSession ck opts (nonblank pr) (unwrap_or images [])
          (nonblank pr \<noteq> None \<or> unwrap_or images [] \<noteq> []) pid) h)"
      by (simp add: Let_def split: option.splits)
    with replay show ?thesis by simp
  next
    case (C_Branch entry summarize sid)
    with assms show ?thesis
      by (cases "turn_running (or_else sid (client_focus ck h)) h") (auto simp: control_simps)
  next
    case (C_Abort rid sid)
    with assms show ?thesis by (cases "clients h ck") (auto simp: control_simps)
  next
    case (C_RenameSession p name)
    with assms show ?thesis by (cases "trim name = []") (auto simp: control_simps)
  qed (use assms in \<open>auto simp: control_simps simp del: append.simps\<close>)
qed

section \<open>Switches keep the control invariant\<close>

lemma flight_ok_start_switch:
  assumes "flight_ok h" and "\<And>k sw r t K. applier h \<noteq> A_Switch k sw r t K"
  shows "flight_ok (start_switch ck sw reseed retry K h)"
proof -
  have idle: "\<not> f \<and> p = None" if "flights h k = Some (f, p)" for k f p
    using assms that unfolding flight_ok_def by blast
  have nf: "\<not> (case clients h ck of Some c \<Rightarrow> switch_in_flight c | None \<Rightarrow> False)"
    using idle [of ck] by (auto simp: flights_def split: option.splits)
  have p: "pending_switch c = None" if "clients h ck = Some c" for c
    using idle [of ck] that by (simp add: flights_def)
  let ?h1 = "set_conn ck (\<lambda>c. c\<lparr>switch_in_flight := True\<rparr>) h"
  let ?h2 = "?h1\<lparr>swaps_in_flight := swaps_in_flight ?h1 + 1, applier := A_Switch ck sw reseed retry K\<rparr>"
  have "start_switch ck sw reseed retry K h = ?h2"
    using nf by (simp add: start_switch_def Let_def)
  moreover have "flights ?h2 = flights ?h1" by (simp add: flights_def)
  moreover have "\<exists>sw r t K. applier ?h2 = A_Switch k sw r t K \<and> p = None"
    if "flights ?h1 k = Some (f, p)" "f" for k f p
    using that idle [of k] p by (auto simp: flights_set_conn split: if_splits)
  moreover have "p = None" if "flights ?h1 k = Some (f, p)" for k f p
    using that idle [of k] p by (auto simp: flights_set_conn split: if_splits)
  ultimately show ?thesis by (auto simp: flight_ok_def)
qed

lemma control_continue: "flights (continue ck sid K h) = flights h \<and>
  (applier (continue ck sid K h) = A_Idle \<or> (\<exists>c s x i p. applier (continue ck sid K h) = A_FirstPrompt c s x i p)) \<and>
  applying (continue ck sid K h) = applying h \<and> update_sha (continue ck sid K h) = update_sha h"
proof -
  have f: "flights (h\<lparr>applier := a\<rparr>) = flights h" for h a by (simp add: flights_def)
  have c: "flights (send_to_client ck m h) = flights h" "flights (cache_and_send ck pid m h) = flights h"
    "applying (send_to_client ck m h) = applying h" "applying (cache_and_send ck pid m h) = applying h"
    "update_sha (send_to_client ck m h) = update_sha h" "update_sha (cache_and_send ck pid m h) = update_sha h"
    for ck m pid h
    using control_sends(2) [of ck m h] control_cache_and_send [of ck pid m h] by (simp_all add: control_def)
  show ?thesis
  proof (induction ck sid K h rule: continue.induct)
    case (2 ck sid tx h)
    then show ?case by (cases sid; cases tx) (simp_all add: f c)
  next
    case (3 ck sid tx images has_first pid h)
    then show ?case by (cases sid) (simp_all add: f c)
  qed (simp_all add: f)
qed

lemma flight_ok_settled:
  assumes "\<And>k f p. flights h k = Some (f, p) \<Longrightarrow> \<not> f \<and> p = None"
    and "applier h = A_Idle \<or> (\<exists>c s x i p. applier h = A_FirstPrompt c s x i p)"
  shows "flight_ok h"
  unfolding flight_ok_def using assms by fastforce

lemma flight_ok_end_switch:
  assumes "flight_ok h" and "applier h = A_Switch ck sw r t K0"
  shows "flight_ok (end_switch ck sid K h)"
proof -
  let ?h1 = "set_conn ck (\<lambda>c. c\<lparr>switch_in_flight := False, pending_switch := None\<rparr>) h"
  have e: "end_switch ck sid K h = continue ck sid K ?h1"
    by (simp add: end_switch_def Let_def flight_ok_queued [OF assms(1)])
  have "\<not> f \<and> p = None" if "flights ?h1 k = Some (f, p)" for k f p
    using that assms unfolding flight_ok_def by (fastforce simp: flights_set_conn split: if_splits)
  with control_continue [of ck sid K ?h1] show ?thesis
    unfolding e by (intro flight_ok_settled) auto
qed

lemma control_show_session: "control (show_session ck sid reseed h) = control h"
  by (simp add: show_session_def Let_def control_simps)

lemma control_restart_journal: "control (restart_journal R seed reseed m sid h) = control h"
proof -
  have "control (snd (next_epoch (drop_pending sid h))) = control h" by (simp only: control_simps)
  then show ?thesis
    by (simp add: restart_journal_def Let_def split_beta control_simps)
qed

lemma control_finish_switch:
  "case finish_switch R ck seed reseed h of Inl h' \<Rightarrow> control h' = control h | Inr (h', _) \<Rightarrow> control h' = control h"
proof -
  have "control (install_seed R ck seed reseed m sid h0) = control h0" for m sid h0
    by (simp add: install_seed_def Let_def control_show_session control_restart_journal)
  then show ?thesis
    by (auto simp: finish_switch_def Let_def control_simps split: sum.splits option.splits)
qed

lemma flight_ok_applier:
  assumes "flight_ok h" and "\<And>k sw r t K. applier h \<noteq> A_Switch k sw r t K" and "\<And>k K. a \<noteq> A_Await k K"
  shows "flight_ok (h\<lparr>applier := a\<rparr>)"
  using assms unfolding flight_ok_def by (fastforce simp: flights_def)

lemma flight_ok_finish_swap:
  assumes ok: "flight_ok h" and a: "applier h = A_Switch ck sw reseed retry K" and np: "\<not> op_panics R D h"
  shows "flight_ok (finish_swap R D ck sw reseed K h)"
proof -
  obtain result prefill where r: "run_swap D sw = (result, prefill)" by fastforce
  let ?h1 = "h\<lparr>swaps_in_flight := swaps_in_flight h - 1\<rparr>"
  have c1: "control ?h1 = control h" by (simp add: control_simps)
  note ok1 = control_D(1) [OF c1, THEN iffD2, OF ok] and a1 = control_D(3) [OF c1]
  show ?thesis
  proof (cases result)
    case (Inl raw)
    let ?h2 = "send_to_client ck (M_Error (fst (classify_switch_error raw)) (snd (classify_switch_error raw))) ?h1"
    have c2: "control ?h2 = control ?h1" by (simp add: control_simps)
    have "finish_swap R D ck sw reseed K h = end_switch ck None (set_prefill prefill K) ?h2"
      using Inl r flight_ok_queued [OF ok1] by (simp add: finish_swap_def Let_def split_beta)
    with flight_ok_end_switch [of ?h2 ck sw reseed retry K] control_D [OF c2] ok1 a1 a show ?thesis by simp
  next
    case (Inr seed)
    with np r a obtain h2 sid where f: "finish_switch R ck seed reseed ?h1 = Inr (h2, sid)"
      by (auto simp: op_panics_def split: sum.splits)
    have c2: "control h2 = control ?h1" using control_finish_switch [where R = R and ck = ck and seed = seed and reseed = reseed and h = ?h1] f by simp
    have "finish_swap R D ck sw reseed K h = end_switch ck sid (set_prefill prefill K) h2"
      using Inr r f by (simp add: finish_swap_def Let_def)
    with flight_ok_end_switch [of h2 ck sw reseed retry K] control_D [OF c2] ok1 a1 a show ?thesis by simp
  qed
qed

lemma run_op_control:
  "control (run_op R D ts sids op h) = control h \<or>
   (\<exists>ck sw r t K. run_op R D ts sids op h = start_switch ck sw r t K h) \<or>
   (\<exists>h1 a. control h1 = control h \<and> run_op R D ts sids op h = h1\<lparr>applier := a\<rparr> \<and>
      (a = A_Relist \<or> a = A_Idle \<or> (\<exists>b. a = A_Refresh b)))"
proof (cases op)
  case (Op_CleanupWorktree ck p force)
  obtain okay reason where "d_cleanup_worktree D p force = (okay, reason)" by fastforce
  define h1 where "h1 = (if okay then h else send_to_client ck
      (M_Error (''worktree not removed: '' @ unwrap_or reason ''unknown reason'') None) h)"
  have "control h1 = control h" by (simp add: h1_def control_simps)
  moreover have "run_op R D ts sids op h = h1\<lparr>applier := A_Relist\<rparr>"
    using Op_CleanupWorktree \<open>d_cleanup_worktree D p force = (okay, reason)\<close> by (cases okay) (simp_all add: h1_def)
  ultimately show ?thesis by blast
next
  case (Op_LiveRefresh dirty refresh)
  let ?h1 = "if dirty then broadcast_session_list_with D h else h"
  have "control ?h1 = control h" by (simp add: control_simps)
  moreover define a where "a = (if refresh then A_Refresh True else A_Idle)"
  have "run_op R D ts sids op h = ?h1\<lparr>applier := a\<rparr>"
    by (simp add: Op_LiveRefresh Let_def a_def)
  moreover have "a = A_Relist \<or> a = A_Idle \<or> (\<exists>b. a = A_Refresh b)" by (cases refresh) (auto simp: a_def)
  ultimately show ?thesis by blast
next
  case (Op_Switch ck sw reseed retry)
  then have "run_op R D ts sids op h = start_switch ck sw reseed retry
      (case sw of S_Branch _ _ _ \<Rightarrow> K_Prefill None | _ \<Rightarrow> K_Done) h" by simp
  then show ?thesis by blast
next
  case (Op_NewSession ck opts tx images has_first pid)
  then have "run_op R D ts sids op h =
      start_switch ck (S_NewSession opts) False False (K_FirstPrompt tx images has_first pid) h" by simp
  then show ?thesis by blast
next
  case (Op_SetArchived ck p archived)
  then show ?thesis by (simp add: control_simps split: option.split)
next
  case (Op_DetachSession ck p)
  then show ?thesis by (simp add: control_simps split: sum.split)
next
  case (Op_DeleteTodo ck sid i)
  then show ?thesis by (simp add: control_simps split: sum.split)
qed (simp_all add: control_simps Let_def split_beta)

lemma flight_ok_run_op:
  assumes "flight_ok h" and "applier h = A_Idle"
  shows "flight_ok (run_op R D ts sids op h)"
proof -
  consider (same) "control (run_op R D ts sids op h) = control h"
    | (switch) ck sw r t K where "run_op R D ts sids op h = start_switch ck sw r t K h"
    | (rest) h1 a where "control h1 = control h" "run_op R D ts sids op h = h1\<lparr>applier := a\<rparr>"
        "a = A_Relist \<or> a = A_Idle \<or> (\<exists>b. a = A_Refresh b)"
    using run_op_control [of R D ts sids op h] by blast
  then show ?thesis
  proof cases
    case same
    from control_D(1) [OF this] show ?thesis using assms(1) by simp
  next
    case (switch ck sw r t K)
    with flight_ok_start_switch [OF assms(1), of ck sw r t K] assms(2) show ?thesis by simp
  next
    case (rest h1 a)
    have "flight_ok h1" "applier h1 = A_Idle" using assms control_D(1,3) [OF rest(1)] by simp_all
    then show ?thesis
      unfolding rest(2) using rest(3) by (intro flight_ok_applier) auto
  qed
qed

lemma flight_ok_applier_step:
  assumes ok: "flight_ok h" and np: "\<not> op_panics R D h"
  shows "flight_ok (applier_step R D ts sids h)"
proof (cases "applier h")
  case A_Idle
  show ?thesis
  proof (cases "hub_ops h")
    case Nil
    with A_Idle ok show ?thesis by (simp add: applier_step_def)
  next
    case (Cons op ops)
    have "control (h\<lparr>hub_ops := ops\<rparr>) = control h" by (simp add: control_simps)
    from control_D(1,3) [OF this] have "flight_ok (h\<lparr>hub_ops := ops\<rparr>)" "applier (h\<lparr>hub_ops := ops\<rparr>) = A_Idle"
      using ok A_Idle by simp_all
    from flight_ok_run_op [OF this] Cons A_Idle show ?thesis by (simp add: applier_step_def)
  qed
next
  case (A_Switch ck sw reseed retry K)
  with flight_ok_finish_swap [OF ok A_Switch np] show ?thesis by (simp add: applier_step_def)
next
  case (A_Await ck K)
  with ok show ?thesis by (simp add: flight_ok_def)
next
  case (A_FirstPrompt ck sid tx images pid)
  have c: "control (cache_and_send ck pid m (log_call cl h)) = control h" for m cl by (simp add: control_simps)
  have "flight_ok (cache_and_send ck pid m (log_call cl h))" "applier (cache_and_send ck pid m (log_call cl h)) = applier h" for m cl
    using control_D [OF c] ok by simp_all
  with A_FirstPrompt show ?thesis by (auto simp: applier_step_def intro: flight_ok_applier)
next
  case A_Relist
  have c: "control (broadcast_session_list_with D h) = control h" by (simp add: control_simps)
  from A_Relist control_D [OF c] ok show ?thesis by (auto simp: applier_step_def intro: flight_ok_applier)
next
  case (A_Refresh b)
  have c: "control (refresh_usage R True D ts sids h) = control h" by (simp add: control_simps)
  from A_Refresh control_D [OF c] ok show ?thesis by (auto simp: applier_step_def intro: flight_ok_applier)
qed

lemma report_update_flight: "flights (snd (report_update sha failed stale h)) = flights h"
  "applier (snd (report_update sha failed stale h)) = applier h"
  "update_ok h \<Longrightarrow> update_ok (snd (report_update sha failed stale h))"
proof -
  have b: "flights (broadcast m h) = flights h" "applier (broadcast m h) = applier h"
    "applying (broadcast m h) = applying h" "update_sha (broadcast m h) = update_sha h" for m h
    using control_sends(1) [of m h] by (simp_all add: control_def)
  have f: "flights (h\<lparr>update_sha := x\<rparr>) = flights h" "flights (h\<lparr>applying := y\<rparr>) = flights h"
    "flights (h\<lparr>force_requested := y\<rparr>) = flights h" "flights (h\<lparr>desktop_stale := y\<rparr>) = flights h" for h x y
    by (simp_all add: flights_def)
  show "flights (snd (report_update sha failed stale h)) = flights h"
    by (cases stale) (simp_all add: report_update_def Let_def b f)
  show "applier (snd (report_update sha failed stale h)) = applier h"
    by (cases stale) (simp_all add: report_update_def Let_def b)
  show "update_ok h \<Longrightarrow> update_ok (snd (report_update sha failed stale h))"
    by (cases stale) (auto simp: report_update_def Let_def b update_ok_def)
qed

lemma control_finish_abort: "control (finish_abort D i h) = control h"
  by (auto simp: finish_abort_def Let_def split_beta control_simps split: option.splits)

end
