(* ===== verification/Sync_Examples.thy ===== *)
theory Sync_Examples
  imports Client_Sync
begin

text \<open>
  A concrete run of the system, used to show that the hypotheses of the synchronisation theorems can
  be met: a hub with a landing session, a client that connects and folds its seed, leaves, and comes
  back after \<open>n\<close> text deltas.
\<close>

definition ex_driver :: driver where
  "ex_driver = \<lparr>d_default_seed = Some [E_SessionOpened ex_base (ex_snapshot Idle)],
     d_prompt = \<lambda>_ _ _ _ _. Inr (), d_abort = \<lambda>_. Inr (), d_clear_queue = \<lambda>_. ([], []),
     d_list_sessions = J_Array [], d_cleanup_worktree = \<lambda>_ _. (True, None), d_set_archived = \<lambda>_ _. None,
     d_login_env_status = J_Null, d_open_session = \<lambda>_. Inl ''offline'', d_reload_session = \<lambda>_. Inl ''offline'',
     d_detach_session = \<lambda>_. Inr (), d_new_session = \<lambda>_. Inl ''offline'', d_branch_from = \<lambda>_ _ _. ([], None),
     d_get_usage = \<lambda>_. None, d_list_models = [], d_model_catalog_diagnostic = None,
     d_list_commands = \<lambda>_. J_Array [], d_list_facets = \<lambda>_. J_Array [], d_list_file_index = \<lambda>_. (J_Array [], False),
     d_list_at_refs = \<lambda>_. J_Null, d_list_files = \<lambda>_ _ _ _. J_Array [], d_list_dir = \<lambda>_. J_Null,
     d_stat_path = \<lambda>_. J_Null, d_list_branches = \<lambda>_. J_Null, d_list_jobs = \<lambda>_. J_Array [],
     d_delete_todo = \<lambda>_ _. Inr (), d_get_model_defaults = J_Null, d_home = ''/home'',
     d_open_in_file_manager = \<lambda>_. Inr ()\<rparr>"

definition ex_opened :: session_driver_event where
  "ex_opened = E_SessionOpened ex_base (ex_snapshot Idle)"

definition ex_init :: hub where
  "ex_init = hub_init 1 0 None False ''srv'' ''label'' ''sha'' default_settings"

text \<open>What the run keeps fixed: no settings, no coalescing, no notifier.\<close>

definition ex_hub_ok :: "nat \<Rightarrow> hub \<Rightarrow> bool" where
  "ex_hub_ok n h \<longleftrightarrow> data_dir h = None \<and> delta_flush_ms h = 0 \<and> \<not> notify_installed h \<and>
     journals h ''s1'' = Some (journal_run sorted_runtime 2 [ex_opened] (replicate n (ex_delta ''x'')))"

lemma ex_sid [simp]: "event_sid ex_opened = ''s1''" "event_sid (ex_delta s) = ''s1''"
  by (simp_all add: ex_opened_def ex_delta_def ex_base_def event_session_ref_def)

lemma ex_default_seed: "d_default_seed ex_driver = Some [ex_opened]"
  by (simp add: ex_driver_def ex_opened_def)

lemma ex_start: "\<exists>h. hub_new sorted_runtime ex_driver 1 0 None False ''srv'' ''label'' ''sha'' default_settings = Some h \<and>
    ex_hub_ok 0 h \<and> default_focus_id h = Some ''s1'' \<and> next_client_key h = 0"
proof -
  obtain t where t: "track_all sorted_runtime [ex_opened] empty_tracking = Some t"
    by (simp add: track_event_def track_running_def track_attention_def ex_opened_def Let_def)
  have e: "tracked ex_init = empty_tracking" "epoch_counter ex_init = 1"
    by (simp_all add: ex_init_def hub_init_def)
  let ?h = "(set_journal ''s1'' (create_journal 2 [ex_opened])
      (snd (next_epoch (ex_init\<lparr>tracked := t\<rparr>))))\<lparr>default_focus_id := Some ''s1''\<rparr>"
  have "hub_new sorted_runtime ex_driver 1 0 None False ''srv'' ''label'' ''sha'' default_settings = Some ?h"
    by (simp only: hub_new_def ex_init_def [symmetric] seed_default_def ex_default_seed option.case list.case
        e t option.map Let_def next_epoch_def prod.case snd_conv ex_sid)
       (simp add: e numeral_2_eq_2)
  moreover have "ex_hub_ok 0 ?h"
    by (simp add: ex_hub_ok_def set_journal_def next_epoch_def Let_def ex_init_def hub_init_def)
  moreover have "default_focus_id ?h = Some ''s1''" "next_client_key ?h = 0"
    by (simp_all add: set_journal_def next_epoch_def Let_def ex_init_def hub_init_def)
  ultimately show ?thesis by blast
qed

lemma add_client_total:
  assumes "set_background_model (read_settings h) = None"
  shows "\<exists>ck h'. add_client R D resume h = Some (ck, h')"
  using assms by (simp add: add_client_def pantoken_settings_msg_def resolve_background_model_def)

lemma ex_hub_settings: "ex_hub_ok n h \<Longrightarrow> set_background_model (read_settings h) = None"
  by (simp add: ex_hub_ok_def read_settings_def default_settings_def)

lemma add_client_keeps:
  "add_client R D resume h = Some (ck, h') \<Longrightarrow> ex_hub_ok n h \<Longrightarrow> ex_hub_ok n h'"
  by (auto simp: add_client_def ex_hub_ok_def Let_def)

lemma pop_message_keeps: "ex_hub_ok n h \<Longrightarrow> ex_hub_ok n (pop_message ck h)"
  by (simp add: pop_message_def set_conn_def ex_hub_ok_def)

lemma remove_client_keeps: "ex_hub_ok n h \<Longrightarrow> ex_hub_ok n (remove_client ck h)"
  by (simp add: remove_client_def ex_hub_ok_def)

text \<open>One more delta.\<close>

lemma ex_event:
  assumes "ex_hub_ok n h"
  shows "\<exists>h'. on_event sorted_runtime True 0 (ex_delta ''x'') h = Some h' \<and> ex_hub_ok (Suc n) h'"
proof -
  let ?ev = "ex_delta ''x''"
  obtain c t where t: "track_event sorted_runtime ?ev (tracked h) = Some (c, t)"
    by (auto simp: track_event_def track_running_def track_attention_def ex_delta_def Let_def)
  define h1 where "h1 = (if c then broadcast_session_status sorted_runtime (h\<lparr>tracked := t\<rparr>) else h\<lparr>tracked := t\<rparr>)"
  have h1: "track_step sorted_runtime ?ev h = Some h1"
    by (simp add: track_step_def t h1_def Let_def)
  have ok1: "ex_hub_ok n h1"
    using assms by (simp add: ex_hub_ok_def h1_def broadcast_session_status_def broadcast_def send_where_def)
  have j: "has_journal ''s1'' h1" using ok1 by (simp add: ex_hub_ok_def has_journal_def)
  have r: "replicate (Suc n) ?ev = replicate n ?ev @ [?ev]" by (simp add: replicate_append_same)
  have d: "\<not> is_session_reset ?ev" "\<not> dirties_session_list ?ev" "\<not> is_session_closed ?ev" "\<not> refreshes_jobs ?ev"
    by (simp_all add: ex_delta_def)
  have "ingest sorted_runtime True ?ev h1 = ingest_now sorted_runtime ?ev h1"
    using ok1 by (simp add: ingest_def ex_hub_ok_def Let_def)
  moreover have "ex_hub_ok (Suc n) (ingest_now sorted_runtime ?ev h1)"
    using ok1 unfolding ex_hub_ok_def r journal_run_snoc
    by (simp add: ingest_now_def d Let_def send_focused_def send_where_def set_journal_def)
  ultimately show ?thesis
    using h1 j d by (simp add: on_event_def close_journal_def maybe_notify_def Let_def ex_hub_ok_def)
qed

lemma ex_events:
  fixes allow :: bool
  assumes "sys_reach sorted_runtime allow s" and "ex_hub_ok 0 (the_hub s)"
  shows "\<exists>s'. sys_reach sorted_runtime allow s' \<and> ex_hub_ok n (the_hub s') \<and> parked s' = parked s"
proof (induction n)
  case 0
  then show ?case using assms by blast
next
  case (Suc n)
  then obtain s' where s': "sys_reach sorted_runtime allow s'" "ex_hub_ok n (the_hub s')" "parked s' = parked s"
    by blast
  from ex_event [OF s'(2)] obtain h' where h': "on_event sorted_runtime True 0 (ex_delta ''x'') (the_hub s') = Some h'"
    "ex_hub_ok (Suc n) h'"
    by blast
  have "sys_reach sorted_runtime allow (s'\<lparr>the_hub := h'\<rparr>)"
    by (rule sys_reach.Step [OF s'(1) sys_step.Server [OF hub_step.Event [OF h'(1)]]])
  with h'(2) s'(3) show ?case by (intro exI [of _ "s'\<lparr>the_hub := h'\<rparr>"]) simp
qed

definition ex_view :: client_view where
  "ex_view = client_recv (M_Seed (Some ''s1'') 2 0 [ex_opened]) fresh_view"

lemma ex_seed:
  assumes "ex_hub_ok 0 h"
  shows "seed_msg (Some ''s1'') h = M_Seed (Some ''s1'') 2 0 [ex_opened]"
  using assms
  by (simp add: seed_msg_def seed_of_def ex_hub_ok_def build_seed_def create_journal_def coalesce_events_def
      compacted_append_def)

text \<open>The client has folded the landing seed.\<close>

lemma ex_connected:
  "\<exists>s. sys_reach sorted_runtime allow s \<and> ex_hub_ok 0 (the_hub s) \<and> views s 0 = Some ex_view"
proof -
  obtain h where h: "hub_new sorted_runtime ex_driver 1 0 None False ''srv'' ''label'' ''sha'' default_settings = Some h"
    and ok: "ex_hub_ok 0 h" and f: "default_focus_id h = Some ''s1''" and k: "next_client_key h = 0"
    using ex_start by blast
  let ?s0 = "\<lparr>the_hub = h, views = Map.empty, parked = {}\<rparr>"
  have s0: "sys_reach sorted_runtime allow ?s0" by (rule sys_reach.Start [OF h])
  from add_client_total [OF ex_hub_settings [OF ok]] obtain ck h1
    where a: "add_client sorted_runtime ex_driver None h = Some (ck, h1)" by blast
  let ?s1 = "?s0\<lparr>the_hub := h1, views := (views ?s0)(ck \<mapsto> fresh_view)\<rparr>"
  have s1: "sys_reach sorted_runtime allow ?s1"
    using a by (intro sys_reach.Step [OF s0 sys_step.Connect]) simp
  obtain m c where c: "clients h1 ck = Some c"
    and q: "send_queue c = take CLIENT_QUEUE ([hello_msg h] @ connect_messages None h
      @ [session_status_msg sorted_runtime h, update_status_msg h, m])"
    using add_client_queue [OF a] by blast
  have q': "send_queue c = [hello_msg h, M_Seed (Some ''s1'') 2 0 [ex_opened],
      session_status_msg sorted_runtime h, update_status_msg h, m]"
    by (simp add: q connect_messages_def connect_focus_def f ex_seed [OF ok] CLIENT_QUEUE_def)
  let ?s2 = "?s1\<lparr>the_hub := pop_message ck (the_hub ?s1), views := (views ?s1)(ck \<mapsto> client_recv (hello_msg h) fresh_view)\<rparr>"
  have s2: "sys_reach sorted_runtime allow ?s2"
    by (rule sys_reach.Step [OF s1 sys_step.Receive]) (use c q' in simp_all)
  have c2: "clients (the_hub ?s2) ck = Some (c\<lparr>send_queue := tl (send_queue c)\<rparr>)"
    by (simp add: pop_message_def set_conn_def c drop_Suc)
  let ?s3 = "?s2\<lparr>the_hub := pop_message ck (the_hub ?s2),
      views := (views ?s2)(ck \<mapsto> client_recv (M_Seed (Some ''s1'') 2 0 [ex_opened]) fresh_view)\<rparr>"
  have s3: "sys_reach sorted_runtime allow ?s3"
    by (rule sys_reach.Step [OF s2 sys_step.Receive [OF c2]]) (simp_all add: q')
  have "ck = 0"
    using a k by (auto simp: add_client_def Let_def)
  moreover have "ex_hub_ok 0 (the_hub ?s3)"
    using add_client_keeps [OF a ok] by (simp add: pop_message_keeps)
  ultimately show ?thesis
    using s3 by (intro exI [of _ ?s3]) (simp add: ex_view_def)
qed

lemma ex_parked:
  "\<exists>s. sys_reach sorted_runtime allow s \<and> ex_hub_ok n (the_hub s) \<and> ex_view \<in> parked s"
proof -
  obtain s where s: "sys_reach sorted_runtime allow s" "ex_hub_ok 0 (the_hub s)" "views s 0 = Some ex_view"
    using ex_connected by blast
  let ?s1 = "s\<lparr>the_hub := remove_client 0 (the_hub s), views := (views s)(0 := None), parked := insert ex_view (parked s)\<rparr>"
  have "sys_reach sorted_runtime allow ?s1" by (rule sys_reach.Step [OF s(1) sys_step.Disconnect [OF s(3)]])
  moreover have "ex_hub_ok 0 (the_hub ?s1)" using s(2) by (simp add: remove_client_keeps)
  ultimately obtain s' where "sys_reach sorted_runtime allow s'" "ex_hub_ok n (the_hub s')" "parked s' = parked ?s1"
    using ex_events by blast
  then show ?thesis by auto
qed

lemma ex_view_fields [simp]:
  "seed_session_id ex_view = Some ''s1''" "seed_epoch ex_view = 2" "seed_seq ex_view = 0"
  "resume_of ex_view = Some \<lparr>rt_session_id = ''s1'', rt_epoch = 2, rt_seq = 0\<rparr>"
  by (simp_all add: ex_view_def resume_of_def)

text \<open>The ring holds all of a short run of small events.\<close>

lemma evict_none: "length fs \<le> TAIL_MAX_FRAMES \<Longrightarrow> b \<le> TAIL_MAX_BYTES \<Longrightarrow> evict fs b c = (fs, b, c)"
  by (cases fs) simp_all

lemma ex_run_tail:
  "n \<le> 1000 \<Longrightarrow>
     length (tail (journal_run sorted_runtime 2 [ex_opened] (replicate n (ex_delta ''x'')))) = n \<and>
     tail_bytes (journal_run sorted_runtime 2 [ex_opened] (replicate n (ex_delta ''x''))) = 65 * n"
proof (induction n)
  case 0
  then show ?case by (simp add: create_journal_def)
next
  case (Suc n)
  have r: "replicate (Suc n) (ex_delta ''x'') = replicate n (ex_delta ''x'') @ [ex_delta ''x'']"
    by (simp add: replicate_append_same)
  have b: "estimated_bytes sorted_runtime (ex_delta ''x'') = 65"
    by (simp add: ex_delta_def OVERHEAD_def)
  show ?case
    unfolding r journal_run_snoc using Suc
    by (simp add: append_event_def b evict_none TAIL_MAX_FRAMES_def TAIL_MAX_BYTES_def Let_def)
qed

lemma ex_covered:
  assumes "ex_hub_ok n h" and "n \<le> 1000"
  shows "resume_covered \<lparr>rt_session_id = ''s1'', rt_epoch = 2, rt_seq = 0\<rparr> h"
proof -
  let ?j = "journal_run sorted_runtime 2 [ex_opened] (replicate n (ex_delta ''x''))"
  have r: "journal_repr ?j [ex_opened] (replicate n (ex_delta ''x''))" by (rule journal_run_repr)
  have "evicted ?j (replicate n (ex_delta ''x'')) = 0"
    using ex_run_tail [OF assms(2)] by (simp add: evicted_def)
  then have "tail_covers ?j 0"
    using r tail_covers_logs [of ?j "[ex_opened]" "replicate n (ex_delta ''x'')" 0] by (simp add: journal_repr_def)
  moreover have "j_epoch ?j = 2"
  proof -
    have "j_epoch (foldl (append_event sorted_runtime) j evs) = j_epoch j" for j evs
      by (induction evs arbitrary: j) simp_all
    then show ?thesis by (simp add: journal_run_def create_journal_def)
  qed
  ultimately show ?thesis using assms(1) by (simp add: resume_covered_def ex_hub_ok_def)
qed

lemma ex_seq: "j_seq (journal_run sorted_runtime 2 [ex_opened] (replicate n (ex_delta ''x''))) = n"
  using journal_repr_seq [OF journal_run_repr [of sorted_runtime 2 "[ex_opened]" "replicate n (ex_delta ''x'')"]]
  by simp

section \<open>Witnesses\<close>



lemma resume_overflow_loses_tail_witness:
  "\<exists>(h' :: hub) ck c. clients h' ck = Some c \<and> length (send_queue c) = 128 \<and>
     seed_seq (recv_all (send_queue c) ex_view) = 127"
proof -
  obtain s where s: "sys_reach sorted_runtime allow s" "ex_hub_ok 200 (the_hub s)" "ex_view \<in> parked s"
    using ex_parked by blast
  let ?r = "\<lparr>rt_session_id = ''s1'', rt_epoch = 2, rt_seq = 0\<rparr>"
  obtain ck h' where a: "add_client sorted_runtime ex_driver (Some ?r) (the_hub s) = Some (ck, h')"
    using add_client_total [OF ex_hub_settings [OF s(2)]] by blast
  let ?j = "journal_run sorted_runtime 2 [ex_opened] (replicate 200 (ex_delta ''x''))"
  have j: "journals (the_hub s) (rt_session_id ?r) = Some ?j" using s(2) by (simp add: ex_hub_ok_def)
  have "127 < j_seq ?j - seed_seq ex_view" unfolding ex_seq by simp
  from resume_overflow_loses_tail [OF s(1,3) _ ex_covered [OF s(2)] a j this]
  obtain c where "clients h' ck = Some c" "length (send_queue c) = 128"
    "seed_seq (recv_all (send_queue c) ex_view) = 127"
    by auto
  then show ?thesis by blast
qed

definition ex_conn :: client_conn where
  "ex_conn = \<lparr>send_queue = [], focused_id = Some ''s1'', switch_in_flight = False, pending_switch = None\<rparr>"

definition ex_lone_hub :: hub where
  "ex_lone_hub = ex_init\<lparr>journals := [''s1'' \<mapsto> create_journal 2 [ex_opened]], clients := [0 \<mapsto> ex_conn]\<rparr>"


lemma stale_resume_splits_focus_witness:
  "\<exists>(h' :: hub) ck c. clients h' ck = Some c \<and> focused_id c = None \<and>
     seed_msg (Some ''s1'') ex_lone_hub \<in> set (send_queue c) \<and>
     clients (ingest_now sorted_runtime (ex_delta ''x'') h') ck = Some c"
proof -
  let ?r = "\<lparr>rt_session_id = ''s1'', rt_epoch = 1, rt_seq = 0\<rparr>"
  have "set_background_model (read_settings ex_lone_hub) = None"
    by (simp add: ex_lone_hub_def ex_init_def hub_init_def read_settings_def default_settings_def)
  then obtain ck h' where a: "add_client sorted_runtime ex_driver (Some ?r) ex_lone_hub = Some (ck, h')"
    using add_client_total by blast
  have j: "journals ex_lone_hub (rt_session_id ?r) = Some (create_journal 2 [ex_opened])"
    by (simp add: ex_lone_hub_def)
  have "\<not> resume_covered ?r ex_lone_hub" by (simp add: resume_covered_def ex_lone_hub_def create_journal_def)
  moreover have d: "default_focus_id ex_lone_hub = None" by (simp add: ex_lone_hub_def ex_init_def hub_init_def)
  ultimately show ?thesis
    using stale_resume_splits_focus [OF a j, of "ex_delta ''x''"] by auto
qed

end
