(* ===== verification/Hub_Control.thy ===== *)
theory Hub_Control
  imports Hub_Flight Sync_Examples
begin

text \<open>
  The control properties of the hub over its reachable states and their witnesses: single flight of
  session switches and what a panic does to it, the update flags, the prompt ledger, and the
  first-responder rule for dialogs.
\<close>

section \<open>The control invariant over runs\<close>

abbreviation flags :: "hub \<Rightarrow> bool \<times> string option" where
  "flags h \<equiv> (applying h, update_sha h)"

lemma flags_control: "control h' = control h \<Longrightarrow> flags h' = flags h"
  by (simp add: control_def)

lemma flags_start_switch: "flags (start_switch ck sw reseed retry K h) = flags h"
  by (simp add: start_switch_def Let_def)

lemma flags_end_switch: "flags (end_switch ck sid K h) = flags h"
  using control_continue [of ck sid K] flags_start_switch
  by (auto simp: end_switch_def Let_def split: option.split)

lemma flags_finish_swap: "flags (finish_swap R D ck sw reseed K h) = flags h"
proof -
  obtain result prefill where r: "run_swap D sw = (result, prefill)" by fastforce
  let ?h1 = "h\<lparr>swaps_in_flight := swaps_in_flight h - 1\<rparr>"
  show ?thesis
  proof (cases result)
    case (Inl raw)
    have c: "flags (send_to_client ck m h0) = flags h0" for m h0
      by (rule flags_control) (simp add: control_simps)
    show ?thesis
      using Inl r c flags_end_switch by (simp add: finish_swap_def Let_def split_beta)
  next
    case (Inr seed)
    show ?thesis
    proof (cases "finish_switch R ck seed reseed ?h1")
      case (Inl h2)
      then have "control h2 = control ?h1"
        using control_finish_switch [where R = R and ck = ck and seed = seed and reseed = reseed and h = ?h1] by simp
      from flags_control [OF this] Inl Inr r show ?thesis by (simp add: finish_swap_def Let_def)
    next
      case (Inr p)
      obtain h2 sid where p: "p = (h2, sid)" by fastforce
      have "control h2 = control ?h1" using p Inr
        control_finish_switch [where R = R and ck = ck and seed = seed and reseed = reseed and h = ?h1] by simp
      from flags_control [OF this] p Inr \<open>result = Inr seed\<close> r flags_end_switch [of ck sid "set_prefill prefill K" h2]
      show ?thesis by (simp add: finish_swap_def Let_def)
    qed
  qed
qed

lemma flags_run_op: "flags (run_op R D ts sids op h) = flags h"
proof -
  consider "control (run_op R D ts sids op h) = control h"
    | ck sw r t K where "run_op R D ts sids op h = start_switch ck sw r t K h"
    | h1 a where "control h1 = control h" "run_op R D ts sids op h = h1\<lparr>applier := a\<rparr>"
    using run_op_control [of R D ts sids op h] by blast
  then show ?thesis
  proof cases
    case 1
    then show ?thesis by (rule flags_control)
  next
    case 2
    then show ?thesis using flags_start_switch by simp
  next
    case 3
    then show ?thesis using flags_control [OF 3(1)] by simp
  qed
qed

lemma flags_applier_step: "flags (applier_step R D ts sids h) = flags h"
proof -
  have f: "flags (f h) = flags h" if "control (f h) = control h" for f :: "hub \<Rightarrow> hub"
    using that by (rule flags_control)
  show ?thesis
  proof (cases "applier h")
    case A_Idle
    have "flags (run_op R D ts sids op (h\<lparr>hub_ops := ops\<rparr>)) = flags h" for op ops
      by (simp only: flags_run_op) simp
    with A_Idle show ?thesis by (simp add: applier_step_def split: list.split)
  next
    case (A_Switch ck sw reseed retry K)
    then show ?thesis using flags_finish_swap by (simp add: applier_step_def)
  next
    case (A_Await ck K)
    then show ?thesis using control_continue [of ck None K h] by (simp add: applier_step_def)
  next
    case (A_FirstPrompt ck sid tx images pid)
    have "flags (cache_and_send ck pid m (log_call c h)) = flags h" for m c
      by (rule flags_control) (simp add: control_simps)
    with A_FirstPrompt show ?thesis by (simp add: applier_step_def)
  next
    case A_Relist
    have "flags (broadcast_session_list_with D h) = flags h" by (rule flags_control) (simp add: control_simps)
    with A_Relist show ?thesis by (simp add: applier_step_def)
  next
    case (A_Refresh b)
    have "flags (refresh_usage R True D ts sids h) = flags h" by (rule flags_control) (simp add: control_simps)
    with A_Refresh show ?thesis by (simp add: applier_step_def)
  qed
qed

lemma control_hub_step:
  assumes "hub_step R allow h h'"
  shows "(flight_ok h \<longrightarrow> \<not> allow \<longrightarrow> flight_ok h') \<and> (update_ok h \<longrightarrow> update_ok h')"
  using assms
proof (cases rule: hub_step.cases)
  case (Event rt now ev)
  from control_D(1,2) [OF control_on_event [OF this]] show ?thesis by simp
next
  case (Connect_Lists ck)
  have "control h' = control h" unfolding Connect_Lists by (simp only: control_simps)
  from control_D(1,2) [OF this] show ?thesis by simp
next
  case (Message D ck msg)
  have force: "control (h\<lparr>force_requested := True\<rparr>) = control h" by (simp add: control_simps)
  have au: "flight_ok (apply_update h0) = flight_ok h0" for h0
    by (simp add: flight_ok_def apply_update_flight)
  from handle_client_control [OF Message] consider "control h' = control h" | "h' = apply_update h"
    | "h' = apply_update (h\<lparr>force_requested := True\<rparr>)" by blast
  then show ?thesis
    using control_D(1,2) [of h' h] control_D(1,2) [OF force] apply_update_flight(3) au by cases metis+
next
  case (Timer sid)
  have "control h' = control h" unfolding Timer by (simp only: control_simps)
  from control_D(1,2) [OF this] show ?thesis by simp
next
  case (Apply D ts sids)
  have "update_ok h' = update_ok h"
    using flags_applier_step [of R D ts sids h] unfolding Apply update_ok_def by simp
  moreover have "flight_ok h \<longrightarrow> \<not> allow \<longrightarrow> flight_ok h'"
    using flight_ok_applier_step Apply by blast
  ultimately show ?thesis by simp
next
  case (Abort_Done D i)
  have "control h' = control h" unfolding Abort_Done by (rule control_finish_abort)
  from control_D(1,2) [OF this] show ?thesis by simp
next
  case Tick
  have "control h' = control h" unfolding Tick by (simp only: control_simps)
  from control_D(1,2) [OF this] show ?thesis by simp
next
  case (Update sha failed stale)
  have "flight_ok h' = flight_ok h" unfolding Update by (simp add: flight_ok_def report_update_flight)
  then show ?thesis using report_update_flight(3) Update by simp
next
  case (Reset D bootstrap)
  from control_D(1,2) [OF control_reset [OF this]] show ?thesis by simp
qed

lemma add_client_control:
  assumes "add_client R D resume h = Some (ck, h')"
  shows "flights h' = (flights h)(ck \<mapsto> (False, None)) \<and> applier h' = applier h \<and> flags h' = flags h"
proof -
  have f: "switch_in_flight (foldl (\<lambda>c m. try_send m c) c ms) = switch_in_flight c \<and>
      pending_switch (foldl (\<lambda>c m. try_send m c) c ms) = pending_switch c" for c and ms :: "server_message list"
    by (induction ms arbitrary: c) simp_all
  show ?thesis
    using assms by (auto simp: add_client_def Let_def flights_def f fun_eq_iff simp del: foldl_Cons foldl_append)
qed

lemma flight_ok_restrict:
  "flight_ok h \<Longrightarrow> applier h' = applier h \<Longrightarrow>
     (\<And>k f p. flights h' k = Some (f, p) \<Longrightarrow> flights h k = Some (f, p) \<or> (\<not> f \<and> p = None)) \<Longrightarrow> flight_ok h'"
  unfolding flight_ok_def by metis

lemma control_sys_step:
  assumes st: "sys_step R allow s s'"
  shows "(flight_ok (the_hub s) \<longrightarrow> \<not> allow \<longrightarrow> flight_ok (the_hub s')) \<and>
    (update_ok (the_hub s) \<longrightarrow> update_ok (the_hub s'))"
proof -
  have connect: "(flight_ok h \<longrightarrow> flight_ok h') \<and> (update_ok h \<longrightarrow> update_ok h')"
    if "add_client R D resume h = Some (ck, h')" for D resume h ck h'
    using add_client_control [OF that] by (auto simp: update_ok_def intro: flight_ok_restrict split: if_splits)
  have pop: "flights (pop_message ck h) = flights h" for ck h
    unfolding pop_message_def flights_set_conn by (rule ext) (simp add: flights_def)
  have pop': "control (pop_message ck h) = control h" for ck h
    using pop [of ck h] by (simp add: control_def) (simp add: pop_message_def)
  have gone: "(flight_ok h \<longrightarrow> flight_ok (remove_client ck h)) \<and> (update_ok h \<longrightarrow> update_ok (remove_client ck h))" for ck h
    by (auto simp: remove_client_def flights_def update_ok_def intro!: flight_ok_restrict [of h] split: if_splits)
  show ?thesis
    using st
  proof (cases rule: sys_step.cases)
    case (Server h')
    then show ?thesis using control_hub_step [OF Server(2)] by simp
  next
    case (Connect D ck h')
    then show ?thesis using connect [OF Connect(2)] by simp
  next
    case (Reconnect v D ck h')
    then show ?thesis using connect [OF Reconnect(3)] by simp
  next
    case (Disconnect ck v)
    then show ?thesis using gone [of "the_hub s" ck] by simp
  next
    case (Receive ck c m ms v)
    from control_D(1,2) [OF pop' [of ck "the_hub s"]] show ?thesis by (simp add: Receive(1))
  next
    case (Lose ck c m ms)
    from control_D(1,2) [OF pop' [of ck "the_hub s"]] show ?thesis by (simp add: Lose(1))
  qed
qed

lemma sys_reach_control:
  "sys_reach R allow s \<Longrightarrow> (\<not> allow \<longrightarrow> flight_ok (the_hub s)) \<and> update_ok (the_hub s)"
proof (induction rule: sys_reach.induct)
  case (Start D now flush dir notify sid label sha settings h)
  have "control h = control (hub_init now flush dir notify sid label sha settings)"
    using Start unfolding hub_new_def by (rule control_seed_default)
  from control_D(1,2) [OF this] show ?case
    by (simp add: flight_ok_def update_ok_def flights_def hub_init_def)
next
  case (Step s s')
  with control_sys_step [OF Step(2)] show ?case by blast
qed

section \<open>Properties\<close>

text \<open>C11: Under the single applier, the queued-switch machinery is dormant, as the comment in
  \<open>switch_to\<close> claims: as long as no op panics, no reachable hub has a switch queued behind another one
  and no op ever waits for somebody else's switch; a connection is marked in flight only while the
  applier is inside the switch of that connection.\<close>

theorem pending_switch_is_dormant:
  assumes "sys_reach R False s"
  shows "(\<forall>ck c. clients (the_hub s) ck = Some c \<longrightarrow> pending_switch c = None \<and>
      (switch_in_flight c \<longrightarrow> (\<exists>sw r t K. applier (the_hub s) = A_Switch ck sw r t K))) \<and>
    (\<forall>ck K. applier (the_hub s) \<noteq> A_Await ck K)"
proof -
  have "flight_ok (the_hub s)" using sys_reach_control [OF assms] by simp
  then show ?thesis unfolding flight_ok_def flights_def by auto
qed

lemma pending_switch_is_dormant_witness:
  "\<exists>s :: system. views s 0 = Some ex_view \<and> (\<forall>ck K. applier (the_hub s) \<noteq> A_Await ck K)"
proof -
  obtain s where s: "sys_reach sorted_runtime False s" "views s 0 = Some ex_view"
    using ex_connected by blast
  from pending_switch_is_dormant [OF s(1)] s(2) show ?thesis by blast
qed

text \<open>A panic breaks that: when folding a swap's seed panics, the connection stays marked in flight,
  and its next switch parks the only applier on a switch that nobody runs: from then on no step of
  the applier changes anything, whatever the driver answers, until that connection is dropped.\<close>

theorem panicked_switch_wedges_applier:
  assumes "applier h = A_Switch ck sw reseed retry K" and "op_panics R D h"
    and "clients h ck = Some c" and "switch_in_flight c" and "hub_ops h = Op_Switch ck sw2 reseed2 retry2 # ops"
  shows "\<exists>K2. let h1 = applier_step R D ts sids h; h2 = applier_step R D2 ts2 sids2 h1 in
    applier h1 = A_Idle \<and> applier h2 = A_Await ck K2 \<and> (\<forall>R D ts sids. applier_step R D ts sids h2 = h2)"
proof -
  let ?h0 = "h\<lparr>swaps_in_flight := swaps_in_flight h - 1\<rparr>"
  obtain seed prefill where r: "run_swap D sw = (Inr seed, prefill)"
    using assms(1,2) by (cases "run_swap D sw") (auto simp: op_panics_def split: sum.splits)
  then obtain hp where p: "finish_switch R ck seed reseed ?h0 = Inl hp"
    using assms(1,2) by (auto simp: op_panics_def split: sum.splits)
  then obtain t where hp: "hp = ?h0\<lparr>tracked := t\<rparr>"
    by (auto simp: finish_switch_def Let_def split: if_splits sum.splits option.splits)
  define h1 where "h1 = hp\<lparr>applier := A_Idle\<rparr>"
  have s1: "applier_step R D ts sids h = h1"
    using assms(1) r p by (simp add: applier_step_def finish_swap_def Let_def h1_def)
  have f1: "applier h1 = A_Idle" "clients h1 ck = Some c" "hub_ops h1 = Op_Switch ck sw2 reseed2 retry2 # ops"
    by (simp_all add: h1_def hp assms)
  define K2 where "K2 = (case sw2 of S_Branch _ _ _ \<Rightarrow> K_Prefill None | _ \<Rightarrow> K_Done)"
  define h2 where "h2 = start_switch ck sw2 reseed2 retry2 K2 (h1\<lparr>hub_ops := ops\<rparr>)"
  have s2: "applier_step R D2 ts2 sids2 h1 = h2"
    by (simp add: applier_step_def f1 h2_def K2_def)
  have a2: "applier h2 = A_Await ck K2" and q2: "queued_switch ck h2 \<noteq> None"
    using f1(2) assms(4) by (simp_all add: h2_def start_switch_def set_conn_def queued_switch_def)
  then have "applier_step R D ts sids h2 = h2" for R D ts sids
    by (auto simp: applier_step_def)
  with s1 s2 f1(1) a2 show ?thesis by auto
qed

definition ex_panic_text :: string where
  "ex_panic_text = replicate 70 CHR ''a'' @ bytes [0xE2, 0x82, 0xAC, 0xE2, 0x82, 0xAC]"

definition ex_panic_driver :: driver where
  "ex_panic_driver = ex_driver\<lparr>d_open_session := \<lambda>_. Inr
     [E_HostUiRequest ex_base (H_Confirm ''r1'' ex_panic_text ''m'' None None)]\<rparr>"

definition ex_switching :: hub where
  "ex_switching = ex_init\<lparr>clients := [0 \<mapsto> ex_conn\<lparr>switch_in_flight := True\<rparr>],
     applier := A_Switch 0 (S_Open ''a'') False True K_Done, hub_ops := [Op_Switch 0 (S_Open ''b'') False True]\<rparr>"

lemma ex_panic_title: "request_title (H_Confirm ''r1'' ex_panic_text ''m'' None None) = None"
proof -
  have "ex_panic_text \<noteq> []" and "clipped ex_panic_text 72 = None"
    using clipped_bad_text by (simp_all add: ex_panic_text_def)
  then obtain c cs where e: "ex_panic_text = c # cs" and n: "clipped (c # cs) 72 = None"
    by (metis neq_Nil_conv)
  show ?thesis unfolding e by (simp add: request_title_def n)
qed

lemma ex_panics: "op_panics sorted_runtime ex_panic_driver ex_switching"
  by (simp add: op_panics_def ex_switching_def run_swap_def ex_panic_driver_def finish_switch_def
      track_event_def track_running_def track_attention_def attention_request_def ex_panic_title Let_def)

lemma panicked_switch_wedges_applier_witness:
  "\<exists>K2 h2. applier h2 = A_Await 0 K2 \<and> (\<forall>R D ts sids. applier_step R D ts sids h2 = (h2 :: hub))"
proof -
  have "\<exists>K2. let h1 = applier_step sorted_runtime ex_panic_driver ''t'' [] ex_switching;
        h2 = applier_step sorted_runtime ex_driver ''t'' [] h1 in
      applier h1 = A_Idle \<and> applier h2 = A_Await 0 K2 \<and> (\<forall>R D ts sids. applier_step R D ts sids h2 = h2)"
    by (rule panicked_switch_wedges_applier [where sw = "S_Open ''a''" and reseed = False and retry = True
          and K = K_Done and c = "ex_conn\<lparr>switch_in_flight := True\<rparr>" and ?sw2.0 = "S_Open ''b''"
          and ?reseed2.0 = False and ?retry2.0 = True and ops = "[]", OF _ ex_panics])
       (simp_all add: ex_switching_def)
  then show ?thesis unfolding Let_def by blast
qed

text \<open>An update is marked as being applied only while one is available, in every reachable state.\<close>

theorem applying_needs_update:
  assumes "sys_reach R allow s" and "applying (the_hub s)"
  shows "update_sha (the_hub s) \<noteq> None"
  using sys_reach_control [OF assms(1)] assms(2) by (simp add: update_ok_def)

lemma applying_needs_update_witness:
  "\<exists>s. sys_reach sorted_runtime True s \<and> applying (the_hub s) \<and> update_sha (the_hub s) \<noteq> None"
proof -
  obtain s where s: "sys_reach sorted_runtime True s"
    using ex_connected by blast
  let ?s1 = "s\<lparr>the_hub := snd (report_update (Some ''abc'') False None (the_hub s))\<rparr>"
  have s1: "sys_reach sorted_runtime True ?s1"
    by (rule sys_reach.Step [OF s sys_step.Server [OF hub_step.Update]])
  let ?s2 = "?s1\<lparr>the_hub := apply_update (the_hub ?s1)\<rparr>"
  have "handle_client sorted_runtime ex_driver 0 C_ApplyUpdate (the_hub ?s1) = Some (apply_update (the_hub ?s1))"
    by simp
  from sys_reach.Step [OF s1 sys_step.Server [OF hub_step.Message [OF this]]]
  have s2: "sys_reach sorted_runtime True ?s2" .
  have b: "update_sha (broadcast m h) = update_sha h" "applying (broadcast m h) = applying h" for m h
    by (simp_all add: broadcast_def send_where_def)
  have a: "applying (apply_update h)" if "update_sha h \<noteq> None" for h
    using that by (simp add: apply_update_def Let_def b)
  have "update_sha (the_hub ?s1) \<noteq> None" by (auto simp: report_update_def Let_def b dest!: sym [of "Some _"])
  from a [OF this] have "applying (the_hub ?s2)" by simp
  with s2 applying_needs_update [OF s2] show ?thesis by blast
qed

text \<open>A forced update is handed out exactly once: after a client forces an update, the next report of
  a shell whose apply did not fail is told to force, the one after it is not, and a report of a
  failed apply cancels the force.\<close>

theorem force_is_read_once:
  assumes "handle_client R D ck C_ForceUpdate h = Some h1"
  shows "snd (fst (report_update sha False stale h1)) \<and>
    \<not> snd (fst (report_update sha2 failed2 stale2 (snd (report_update sha failed stale h1)))) \<and>
    \<not> snd (fst (report_update sha True stale h1))"
proof -
  have f: "force_requested (broadcast m h) = force_requested h" for m h
    by (simp add: broadcast_def send_where_def)
  have "force_requested h1" using assms by (auto simp: apply_update_def Let_def f)
  moreover have "\<not> force_requested (snd (report_update sha failed stale h1))"
    by (simp add: report_update_def Let_def)
  moreover have "snd (fst (report_update s F st h0)) = (\<not> F \<and> force_requested h0)" for s F st h0
    by (cases st) (simp_all add: report_update_def Let_def f)
  ultimately show ?thesis by simp
qed

lemma force_is_read_once_witness:
  "snd (fst (report_update None False None (apply_update (ex_init\<lparr>force_requested := True\<rparr>))))"
  using force_is_read_once [of sorted_runtime ex_driver 0 ex_init] by simp

end
