(* ===== verification/Prompts.thy ===== *)
theory Prompts
  imports Sync_Examples
begin

text \<open>
  Prompt delivery and dialog answers: the idempotency ledger of \<open>SessionHub\<close> (a bounded cache of
  prompt results), the retry of a prompt, and the first-responder rule of \<open>RespondUi\<close>.
\<close>

section \<open>The contract of a result cache\<close>

text \<open>A cache may forget, but never answers with anything but the latest value put in, and never
  forgets the entry just put in.\<close>

locale result_cache =
  fixes put :: "'k \<Rightarrow> 'v \<Rightarrow> 's \<Rightarrow> 's"
    and get :: "'s \<Rightarrow> 'k \<Rightarrow> 'v option"
    and empty :: 's
    and ok :: "'s \<Rightarrow> bool"
  assumes empty_ok: "ok empty"
    and get_empty: "get empty k = None"
    and put_ok: "ok s \<Longrightarrow> ok (put k v s)"
    and get_put_same: "ok s \<Longrightarrow> get (put k v s) k = Some v"
    and get_put_other: "ok s \<Longrightarrow> k' \<noteq> k \<Longrightarrow> get (put k v s) k' = Some w \<Longrightarrow> get s k' = Some w"
begin

definition run :: "('k \<times> 'v) list \<Rightarrow> 's" where
  "run kvs = foldl (\<lambda>s (k, v). put k v s) empty kvs"

lemma run_snoc: "run (kvs @ [(k, v)]) = put k v (run kvs)"
  by (simp add: run_def)

lemma run_ok: "ok (run kvs)"
proof (induction kvs rule: rev_induct)
  case Nil
  show ?case by (simp add: run_def empty_ok)
next
  case (snoc kv kvs)
  then show ?case by (cases kv) (simp add: run_snoc put_ok)
qed

lemma get_run: "get (run kvs) k = Some v \<Longrightarrow> map_of (rev kvs) k = Some v"
proof (induction kvs rule: rev_induct)
  case Nil
  then show ?case by (simp add: run_def get_empty)
next
  case (snoc kv kvs)
  obtain k' v' where kv: "kv = (k', v')" by fastforce
  show ?case
  proof (cases "k' = k")
    case True
    with snoc.prems kv get_put_same [OF run_ok] show ?thesis by (simp add: run_snoc)
  next
    case False
    with snoc kv get_put_other [OF run_ok, of k k' v' kvs v] show ?thesis by (simp add: run_snoc)
  qed
qed

lemma get_run_latest: "get (run (kvs @ [(k, v)])) k = Some v"
  by (simp add: run_snoc get_put_same run_ok)

end

section \<open>The ledger\<close>

text \<open>Eviction drops the oldest ids until the ledger fits.\<close>

lemma evict_results_drop:
  "evict_results ps m =
     (drop (length ps - PROMPT_RESULT_CAP) ps,
      \<lambda>p. if p \<in> set (take (length ps - PROMPT_RESULT_CAP) ps) then None else m p)"
proof (induction ps arbitrary: m)
  case (Cons p ps)
  show ?case
  proof (cases "length (p # ps) > PROMPT_RESULT_CAP")
    case True
    then have n: "Suc (length ps) - PROMPT_RESULT_CAP = Suc (length ps - PROMPT_RESULT_CAP)" by simp
    show ?thesis
      using True by (simp add: n Cons.IH [of "m(p := None)"] fun_eq_iff)
  qed simp
qed simp

type_synonym 'm ledger = "string list \<times> (string \<rightharpoonup> 'm)"

definition ledger_inv :: "'m ledger \<Rightarrow> bool" where
  "ledger_inv L \<longleftrightarrow> distinct (fst L) \<and> set (fst L) = dom (snd L) \<and> length (fst L) \<le> PROMPT_RESULT_CAP"

lemma evict_restricts:
  assumes "distinct ids" and "set ids = dom m"
  shows "evict_results ids m =
    (drop (length ids - PROMPT_RESULT_CAP) ids, m |` set (drop (length ids - PROMPT_RESULT_CAP) ids))"
proof -
  let ?n = "length ids - PROMPT_RESULT_CAP"
  have "distinct (take ?n ids @ drop ?n ids)" using assms(1) by simp
  then have disj: "set (take ?n ids) \<inter> set (drop ?n ids) = {}" by (simp only: distinct_append)
  have all: "set (take ?n ids) \<union> set (drop ?n ids) = dom m"
    using assms(2) by (metis append_take_drop_id set_append)
  have "(if q \<in> set (take ?n ids) then None else m q) = (m |` set (drop ?n ids)) q" for q
  proof (cases "m q")
    case None
    then show ?thesis by (simp add: restrict_map_def)
  next
    case (Some w)
    then have "q \<in> set (take ?n ids) \<union> set (drop ?n ids)" using all by auto
    with disj show ?thesis by (auto simp: restrict_map_def)
  qed
  then show ?thesis by (simp add: evict_results_drop fun_eq_iff)
qed

text \<open>One insertion: forget the id, append it, and drop the oldest when the ledger was full.\<close>

lemma ledger_insert_shape:
  assumes "ledger_inv (order, m)"
  shows "ledger_insert p v (order, m) =
    (let ids = filter (\<lambda>q. q \<noteq> p) order @ [p]; n = length ids - PROMPT_RESULT_CAP
     in (drop n ids, (m(p \<mapsto> v)) |` set (drop n ids)))"
proof -
  let ?ids = "filter (\<lambda>q. q \<noteq> p) order @ [p]"
  have "filter (\<lambda>q. q \<noteq> p) order = order" if "m p = None"
    using that assms by (auto simp: ledger_inv_def filter_id_conv)
  then have "ledger_insert p v (order, m) = evict_results ?ids (m(p \<mapsto> v))"
    by (auto simp: ledger_insert_def Let_def)
  moreover have "distinct ?ids" and "set ?ids = dom (m(p \<mapsto> v))"
    using assms by (auto simp: ledger_inv_def)
  ultimately show ?thesis by (simp only: evict_restricts Let_def)
qed

lemma ledger_insert_cases:
  assumes "ledger_inv (order, m)"
  obtains ids n where "ledger_insert p v (order, m) = (drop n ids, (m(p \<mapsto> v)) |` set (drop n ids))"
    and "distinct (drop n ids)" and "p \<in> set (drop n ids)" and "set (drop n ids) \<subseteq> insert p (dom m)"
    and "length (drop n ids) \<le> PROMPT_RESULT_CAP"
proof -
  define ids where "ids = filter (\<lambda>q. q \<noteq> p) order @ [p]"
  define n where "n = length ids - PROMPT_RESULT_CAP"
  have d: "distinct ids" and s: "set ids = insert p (dom m)" and l: "ids \<noteq> []" "last ids = p"
    using assms by (auto simp: ids_def ledger_inv_def)
  have "n < length ids" using l by (simp add: n_def PROMPT_RESULT_CAP_def)
  then have "drop n ids \<noteq> []" "last (drop n ids) = p" using l by simp_all
  then have "p \<in> set (drop n ids)" using last_in_set [of "drop n ids"] by simp
  moreover have "ledger_insert p v (order, m) = (drop n ids, (m(p \<mapsto> v)) |` set (drop n ids))"
    using ledger_insert_shape [OF assms, of p v] unfolding Let_def n_def ids_def .
  moreover have "set (drop n ids) \<subseteq> insert p (dom m)" using s set_drop_subset [of n ids] by blast
  ultimately show thesis using d by (intro that [of n ids]) (simp_all add: n_def)
qed

interpretation ledger: result_cache ledger_insert snd "([], Map.empty)" ledger_inv
proof unfold_locales
  show "ledger_inv ([], Map.empty)" by (simp add: ledger_inv_def)
  show "snd ([], Map.empty) k = None" for k :: string by simp
  fix L :: "'a ledger" and k v
  assume L: "ledger_inv L"
  obtain order m where Lm: "L = (order, m)" by fastforce
  from L obtain ids n where e: "ledger_insert k v L = (drop n ids, (m(k \<mapsto> v)) |` set (drop n ids))"
    and ids: "distinct (drop n ids)" "k \<in> set (drop n ids)" "set (drop n ids) \<subseteq> insert k (dom m)"
      "length (drop n ids) \<le> PROMPT_RESULT_CAP"
    unfolding Lm by (rule ledger_insert_cases)
  show "ledger_inv (ledger_insert k v L)"
    using ids unfolding e ledger_inv_def by (auto simp: restrict_map_def dom_def split: if_splits)
  show "snd (ledger_insert k v L) k = Some v" using ids by (simp add: e)
  show "snd L k' = Some w" if "k' \<noteq> k" and "snd (ledger_insert k v L) k' = Some w" for k' w
    using that(1) that(2) [unfolded e] by (auto simp: Lm restrict_map_def split: if_splits)
qed

lemma remdups_snoc: "remdups (xs @ [x]) = filter (\<lambda>y. y \<noteq> x) (remdups xs) @ [x]"
  by (induction xs) auto

lemma length_filter_distinct:
  "distinct xs \<Longrightarrow> length xs \<le> Suc (length (filter (\<lambda>y. y \<noteq> x) xs))"
proof (induction xs)
  case (Cons a xs)
  have "filter (\<lambda>y. y \<noteq> x) xs = xs" if "a = x" using that Cons.prems by (auto simp: filter_id_conv)
  with Cons show ?case by (cases "a = x") auto
qed simp

text \<open>Trimming to the last \<open>c\<close> entries commutes with moving one entry to the end.\<close>

lemma drop_move_to_end:
  assumes "distinct L" and "0 < c"
  defines "order \<equiv> drop (length L - c) L"
  shows "drop (length (filter (\<lambda>y. y \<noteq> x) order @ [x]) - c) (filter (\<lambda>y. y \<noteq> x) order @ [x]) =
    drop (length (filter (\<lambda>y. y \<noteq> x) L @ [x]) - c) (filter (\<lambda>y. y \<noteq> x) L @ [x])"
proof -
  define A where "A = filter (\<lambda>y. y \<noteq> x) (take (length L - c) L)"
  define B where "B = filter (\<lambda>y. y \<noteq> x) order @ [x]"
  have "L = take (length L - c) L @ order" by (simp add: order_def)
  then have L: "filter (\<lambda>y. y \<noteq> x) L @ [x] = A @ B"
    unfolding A_def B_def by (metis append.assoc filter_append)
  have "A = [] \<or> c \<le> length B"
  proof (cases "length L \<le> c")
    case True
    then show ?thesis by (simp add: A_def)
  next
    case False
    then have "length order = c" by (simp add: order_def)
    moreover have "distinct order" using assms(1) by (simp add: order_def)
    ultimately show ?thesis using length_filter_distinct [of order x] by (simp add: B_def)
  qed
  then show ?thesis unfolding L B_def [symmetric] by auto
qed

section \<open>Properties\<close>

abbreviation ledger_run :: "(string \<times> 'm) list \<Rightarrow> 'm ledger" where
  "ledger_run kvs \<equiv> foldl (\<lambda>L (p, v). ledger_insert p v L) ([], Map.empty) kvs"

text \<open>The prompt ledger is exact. After any sequence of cached results, it holds precisely the 2048
  ids cached most recently, oldest first and each once, and for each of them the last result cached.\<close>

theorem ledger_keeps_latest:
  "ledger_run kvs =
    (let ids = remdups (map fst kvs); order = drop (length ids - 2048) ids
     in (order, map_of (rev kvs) |` set order))"
proof (induction kvs rule: rev_induct)
  case Nil
  show ?case by (simp add: fun_eq_iff restrict_map_def)
next
  case (snoc kv kvs)
  obtain p v where kv: "kv = (p, v)" by fastforce
  define L where "L = remdups (map fst kvs)"
  define order where "order = drop (length L - 2048) L"
  have IH: "ledger_run kvs = (order, map_of (rev kvs) |` set order)"
    using snoc unfolding Let_def L_def order_def .
  have inv: "ledger_inv (order, map_of (rev kvs) |` set order)"
    using ledger.run_ok [of kvs] unfolding ledger.run_def IH .
  have L': "remdups (map fst (kvs @ [kv])) = filter (\<lambda>y. y \<noteq> p) L @ [p]"
    by (simp add: kv remdups_snoc L_def)
  define ids where "ids = filter (\<lambda>q. q \<noteq> p) order @ [p]"
  have ids: "drop (length ids - 2048) ids = drop (length (filter (\<lambda>y. y \<noteq> p) L @ [p]) - 2048) (filter (\<lambda>y. y \<noteq> p) L @ [p])"
    unfolding ids_def order_def by (rule drop_move_to_end) (simp_all add: L_def)
  have sub: "set (drop (length ids - 2048) ids) \<subseteq> insert p (set order)"
    using set_drop_subset [of "length ids - 2048" ids] by (auto simp: ids_def)
  have "ledger_run (kvs @ [kv]) = ledger_insert p v (order, map_of (rev kvs) |` set order)"
    by (simp add: kv IH)
  also have "\<dots> = (drop (length ids - 2048) ids,
      ((map_of (rev kvs) |` set order)(p \<mapsto> v)) |` set (drop (length ids - 2048) ids))"
    unfolding ledger_insert_shape [OF inv] Let_def ids_def PROMPT_RESULT_CAP_def ..
  also have "((map_of (rev kvs) |` set order)(p \<mapsto> v)) |` set (drop (length ids - 2048) ids) =
      map_of (rev (kvs @ [kv])) |` set (drop (length ids - 2048) ids)"
    using sub by (auto simp: kv restrict_map_def fun_eq_iff)
  finally show ?case unfolding L' Let_def ids .
qed

text \<open>A retry after completion is answered from the ledger: once a prompt with an id has run, another
  prompt with that id gets the same result and neither runs nor is queued again.\<close>

theorem retry_after_completion_replays:
  assumes "ledger_inv (prompt_result_order h, prompt_results h)"
  shows "let h1 = run_op R D ts sids (Op_Prompt ck tx deliver target images (Some pid)) h in
    handle_client R D2 ck2 (C_Prompt (Some pid) tx2 images2 deliver2 sid2) h1 =
      Some (send_to_client ck2 (prompt_result (Some pid) target (d_prompt D tx deliver target images (Some pid))) h1)"
proof -
  let ?m = "prompt_result (Some pid) target (d_prompt D tx deliver target images (Some pid))"
  have "snd (ledger_insert pid ?m (prompt_result_order h, prompt_results h)) pid = Some ?m"
    by (rule ledger.get_put_same [OF assms])
  then show ?thesis
    by (simp add: Let_def cache_and_send_def check_prompt_idempotency_def cache_prompt_result_def log_call_def split_beta)
qed

lemma retry_after_completion_replays_witness:
  "handle_client sorted_runtime ex_driver 0 (C_Prompt (Some ''p'') ''again'' None None None)
     (run_op sorted_runtime ex_driver ''t'' [] (Op_Prompt 0 ''hi'' None None [] (Some ''p'')) ex_init) =
   Some (send_to_client 0 (M_PromptResult ''p'' True None None)
     (run_op sorted_runtime ex_driver ''t'' [] (Op_Prompt 0 ''hi'' None None [] (Some ''p'')) ex_init))"
proof -
  have "ledger_inv (prompt_result_order ex_init, prompt_results ex_init)"
    by (simp add: ex_init_def hub_init_def ledger_inv_def)
  from retry_after_completion_replays [OF this, of sorted_runtime ex_driver "''t''" "[]" 0 "''hi''" None None "[]" "''p''"
      ex_driver 0 "''again''" None None None]
  show ?thesis by (simp add: Let_def prompt_result_def ex_driver_def del: run_op.simps handle_client.simps)
qed

text \<open>A retry before completion is not recognised: two prompts with one id, both received while the
  first is still queued, are both run, so the driver is prompted twice.\<close>

theorem queued_retry_runs_twice:
  assumes "applier h = A_Idle" and "hub_ops h = []" and "prompt_results h pid = None"
    and "handle_client R D ck (C_Prompt (Some pid) tx images deliver sid) h = Some h1"
    and "handle_client R D ck (C_Prompt (Some pid) tx images deliver sid) h1 = Some h2"
  shows "driver_calls (applier_step R D ts sids (applier_step R D ts sids h2)) = driver_calls h @
    (let c = Call_Prompt tx deliver (or_else sid (client_focus ck h)) (unwrap_or images []) (Some pid) in [c, c])"
proof -
  let ?op = "Op_Prompt ck tx deliver (or_else sid (client_focus ck h)) (unwrap_or images []) (Some pid)"
  have h1: "h1 = enqueue ?op h" using assms(3,4) by (simp add: check_prompt_idempotency_def)
  have h2: "h2 = enqueue ?op (enqueue ?op h)"
    using assms(3,5) by (simp add: h1 check_prompt_idempotency_def client_focus_def enqueue_def)
  have s: "driver_calls (send_to_client ck m h) = driver_calls h" "applier (send_to_client ck m h) = applier h"
    "hub_ops (send_to_client ck m h) = hub_ops h" for ck m h
    by (simp_all add: send_to_client_def send_where_def)
  have c: "driver_calls (cache_prompt_result p m h) = driver_calls h" "applier (cache_prompt_result p m h) = applier h"
    "hub_ops (cache_prompt_result p m h) = hub_ops h" for p m h
    by (simp_all add: cache_prompt_result_def split_beta)
  show ?thesis
    using assms(1,2)
    by (simp add: h2 applier_step_def enqueue_def cache_and_send_def log_call_def s c Let_def)
qed

lemma queued_retry_runs_twice_witness:
  "\<exists>h2. driver_calls (applier_step sorted_runtime ex_driver ''t'' [] (applier_step sorted_runtime ex_driver ''t'' [] h2)) =
     [Call_Prompt ''hi'' None None [] (Some ''p''), Call_Prompt ''hi'' None None [] (Some ''p'')]"
proof -
  let ?msg = "C_Prompt (Some ''p'') ''hi'' None None None"
  have e: "applier ex_init = A_Idle" "hub_ops ex_init = []" "prompt_results ex_init ''p'' = None"
    "driver_calls ex_init = []" "clients ex_init = Map.empty"
    by (simp_all add: ex_init_def hub_init_def)
  obtain h1 where h1: "handle_client sorted_runtime ex_driver 0 ?msg ex_init = Some h1" by simp
  obtain h2 where h2: "handle_client sorted_runtime ex_driver 0 ?msg h1 = Some h2" by simp
  from queued_retry_runs_twice [OF e(1-3) h1 h2] show ?thesis
    by (auto simp: e client_focus_def Let_def)
qed

section \<open>First responder wins\<close>

lemma journal_ingest_now_present:
  "journals h sid \<noteq> None \<Longrightarrow> journals (ingest_now R ev h) sid \<noteq> None"
  by (auto simp: ingest_now_def set_journal_def next_epoch_def Let_def split: option.splits)

lemma journal_flush_present: "journals h sid \<noteq> None \<Longrightarrow> journals (flush_pending R s h) sid \<noteq> None"
  by (cases "pending_deltas h s") (simp_all add: flush_pending_def journal_ingest_now_present del: not_None_eq)

text \<open>Ingesting a non-reset event folds it into the hub's state of its session.\<close>

lemma folded_ingest_now:
  assumes "sync_ok H h" and "journals h (event_sid ev) \<noteq> None" and "\<not> is_session_reset ev"
  shows "\<exists>st. folded_state (Some (event_sid ev)) (ingest_now R ev h) = Some (fold_event st ev)"
proof -
  obtain j where j: "journals h (event_sid ev) = Some j" using assms(2) by blast
  obtain base log where r: "journal_repr j base log"
    by (rule journals_okE [OF conjunct1 [OF assms(1)] j])
  have "fold_all (seed_events (append_event R j ev)) = fold_event (fold_all (seed_events j)) ev"
    unfolding fold_all_def fold_all_from_def by (rule journal.seed_after_append [OF r])
  with j assms(3) show ?thesis
    by (auto simp: folded_state_def seed_of_def ingest_now_def set_journal_def Let_def split_beta)
qed

lemma folded_ingest:
  assumes "sync_ok H h" and "journals h (event_sid ev) \<noteq> None"
    and "\<not> is_session_reset ev" and "\<not> is_assistant_delta ev"
  shows "\<exists>st. folded_state (Some (event_sid ev)) (ingest R rt ev h) = Some (fold_event st ev)"
proof -
  have i: "ingest R rt ev h = ingest_now R ev h \<or> ingest R rt ev h = ingest_now R ev (flush_pending R (event_sid ev) h)"
    using assms(4) by (simp add: ingest_def Let_def)
  obtain H' where "sync_ok H' (flush_pending R (event_sid ev) h)"
    using sync_flush_pending [OF assms(1)] unfolding sync_from_def by blast
  from folded_ingest_now [OF this journal_flush_present [OF assms(2)] assms(3)]
    folded_ingest_now [OF assms(1-3)] i show ?thesis by auto
qed



end
