(* ===== verification/Frame.thy ===== *)
theory Frame
  imports Prelude "HOL-Library.Word"
begin

text \<open>
  The length-prefixed codec of the stdio transport, \<^verbatim>\<open>server-rs/pantoken-protocol/src/frame.rs\<close>. A
  byte is an \<open>8 word\<close>, the length prefix a \<open>32 word\<close> in big-endian order. JSON is serde's: \<open>ser\<close> and
  \<open>parse\<close> are parameters. The decoder's \<open>loop\<close> is \<open>drain_frames\<close>, on the buffer.
\<close>

unbundle bit_operations_syntax

type_synonym u8 = "8 word"
type_synonym u32 = "32 word"

definition MAX_FRAME_BYTES :: nat where "MAX_FRAME_BYTES = 16 * 1024 * 1024"

datatype frame_error =
    Oversized (declared: u32) (limit: nat)
  | JsonTooLarge
  | InvalidUtf8
  | Truncated
  | MalformedJson
  | Empty

section \<open>The prefix\<close>

definition to_be_bytes :: "u32 \<Rightarrow> u8 list" where
  "to_be_bytes w = [ucast (drop_bit 24 w), ucast (drop_bit 16 w), ucast (drop_bit 8 w), ucast w]"

definition from_be_bytes :: "u8 \<Rightarrow> u8 \<Rightarrow> u8 \<Rightarrow> u8 \<Rightarrow> u32" where
  "from_be_bytes a b c d =
     push_bit 24 (ucast a) OR push_bit 16 (ucast b) OR push_bit 8 (ucast c) OR ucast d"

lemma from_to_be_bytes:
  "from_be_bytes (ucast (drop_bit 24 w)) (ucast (drop_bit 16 w)) (ucast (drop_bit 8 w)) (ucast w) = w"
proof (rule bit_word_eqI)
  fix n assume "n < LENGTH(32)"
  then show "bit (from_be_bytes (ucast (drop_bit 24 w)) (ucast (drop_bit 16 w)) (ucast (drop_bit 8 w)) (ucast w)) n
      \<longleftrightarrow> bit w n"
    by (cases "n < 8"; cases "n < 16"; cases "n < 24") (auto simp: from_be_bytes_def bit_simps)
qed

section \<open>Encoding\<close>

definition encode_json :: "u8 list \<Rightarrow> frame_error + u8 list" where
  "encode_json json =
     (if MAX_FRAME_BYTES < length json then Inl JsonTooLarge
      else Inr (to_be_bytes (word_of_nat (length json)) @ json))"

definition encode :: "('m \<Rightarrow> u8 list option) \<Rightarrow> 'm \<Rightarrow> frame_error + u8 list" where
  "encode ser m = (case ser m of None \<Rightarrow> Inl MalformedJson | Some json \<Rightarrow> encode_json json)"

section \<open>Decoding a body\<close>

text \<open>\<open>str::from_utf8\<close>: the well-formed sequences of one to four bytes.\<close>

definition in_range :: "nat \<Rightarrow> nat \<Rightarrow> u8 \<Rightarrow> bool" where
  "in_range lo hi b \<longleftrightarrow> lo \<le> unat b \<and> unat b \<le> hi"

abbreviation continuation :: "u8 \<Rightarrow> bool" where "continuation \<equiv> in_range 0x80 0xBF"

definition three_bytes :: "u8 \<Rightarrow> u8 \<Rightarrow> u8 \<Rightarrow> bool" where
  "three_bytes a b c \<longleftrightarrow>
     (in_range 0xE0 0xE0 a \<and> in_range 0xA0 0xBF b \<or>
      (in_range 0xE1 0xEC a \<or> in_range 0xEE 0xEF a) \<and> continuation b \<or>
      in_range 0xED 0xED a \<and> in_range 0x80 0x9F b) \<and> continuation c"

definition four_bytes :: "u8 \<Rightarrow> u8 \<Rightarrow> u8 \<Rightarrow> u8 \<Rightarrow> bool" where
  "four_bytes a b c d \<longleftrightarrow>
     (in_range 0xF0 0xF0 a \<and> in_range 0x90 0xBF b \<or>
      in_range 0xF1 0xF3 a \<and> continuation b \<or>
      in_range 0xF4 0xF4 a \<and> in_range 0x80 0x8F b) \<and> continuation c \<and> continuation d"

fun valid_utf8 :: "u8 list \<Rightarrow> bool" where
  "valid_utf8 [] \<longleftrightarrow> True"
| "valid_utf8 (a # xs) \<longleftrightarrow>
     (if in_range 0 0x7F a then valid_utf8 xs
      else case xs of
        [] \<Rightarrow> False
      | b # ys \<Rightarrow>
          (if in_range 0xC2 0xDF a then continuation b \<and> valid_utf8 ys
           else case ys of
             [] \<Rightarrow> False
           | c # zs \<Rightarrow>
               (if three_bytes a b c then valid_utf8 zs
                else case zs of
                  [] \<Rightarrow> False
                | d # ws \<Rightarrow> four_bytes a b c d \<and> valid_utf8 ws)))"

definition decode_envelope :: "(u8 list \<Rightarrow> 'm option) \<Rightarrow> u8 list \<Rightarrow> frame_error + 'm" where
  "decode_envelope parse body =
     (if body = [] then Inl Empty
      else if \<not> valid_utf8 body then Inl InvalidUtf8
      else case parse body of None \<Rightarrow> Inl MalformedJson | Some m \<Rightarrow> Inr m)"

section \<open>The incremental decoder\<close>

record frame_decoder =
  buf :: "u8 list"

function drain_frames :: "u8 list \<Rightarrow> (frame_error + u8 list) list \<times> u8 list" where
  "drain_frames bs =
     (case bs of
        a # b # c # d # rest \<Rightarrow>
          (let declared = from_be_bytes a b c d; body_len = unat declared in
           if MAX_FRAME_BYTES < body_len then ([Inl (Oversized declared MAX_FRAME_BYTES)], [])
           else if length rest < body_len then ([], bs)
           else
             (let body = take body_len rest;
                  (results, bs') = drain_frames (drop body_len rest)
              in ((if body = [] then Inl Empty else Inr body) # results, bs')))
      | _ \<Rightarrow> ([], bs))"
  by auto
termination by (relation "measure length") auto

declare drain_frames.simps [simp del]

definition push :: "frame_decoder \<Rightarrow> u8 list \<Rightarrow> (frame_error + u8 list) list \<times> frame_decoder" where
  "push d bytes = (let (results, bs) = drain_frames (buf d @ bytes) in (results, d\<lparr>buf := bs\<rparr>))"

definition finish :: "frame_decoder \<Rightarrow> frame_error option" where
  "finish d = (if buf d = [] then None else Some Truncated)"

section \<open>Fragmentation\<close>

text \<open>
  A decoder that is fed piece by piece. \<open>good\<close> describes the states and inputs for which the cut
  does not matter; then feeding the pieces gives what feeding the whole gives.
\<close>

locale incremental =
  fixes feed :: "'s \<Rightarrow> 'b list \<Rightarrow> 'r list \<times> 's" and good :: "'s \<Rightarrow> 'b list \<Rightarrow> bool"
  assumes good_prefix: "good s (xs @ ys) \<Longrightarrow> good s xs"
    and good_suffix: "good s (xs @ ys) \<Longrightarrow> good (snd (feed s xs)) ys"
    and feed_append: "good s (xs @ ys) \<Longrightarrow> feed s (xs @ ys) =
      (fst (feed s xs) @ fst (feed (snd (feed s xs)) ys), snd (feed (snd (feed s xs)) ys))"
    and feed_nil: "good s [] \<Longrightarrow> feed s [] = ([], s)"
begin

fun feed_all :: "'s \<Rightarrow> 'b list list \<Rightarrow> 'r list \<times> 's" where
  "feed_all s [] = ([], s)"
| "feed_all s (xs # xss) =
     (let (rs, s1) = feed s xs; (rs', s2) = feed_all s1 xss in (rs @ rs', s2))"

lemma feed_all_concat: "good s (concat xss) \<Longrightarrow> feed_all s xss = feed s (concat xss)"
proof (induction xss arbitrary: s)
  case Nil
  then show ?case by (simp add: feed_nil)
next
  case (Cons xs xss)
  then have "good s (xs @ concat xss)" by simp
  from Cons.IH [OF good_suffix [OF this]] feed_append [OF this] show ?case
    by (simp add: Let_def split_beta)
qed

end

subsection \<open>The decoder, fed piece by piece\<close>

fun push_all :: "frame_decoder \<Rightarrow> u8 list list \<Rightarrow> (frame_error + u8 list) list \<times> frame_decoder" where
  "push_all d [] = ([], d)"
| "push_all d (bs # bss) =
     (let (rs, d1) = push d bs; (rs', d2) = push_all d1 bss in (rs @ rs', d2))"

fun is_oversized :: "frame_error + u8 list \<Rightarrow> bool" where
  "is_oversized (Inl (Oversized _ _)) \<longleftrightarrow> True"
| "is_oversized _ \<longleftrightarrow> False"

text \<open>A buffer the loop is done with holds less than one frame.\<close>

definition settled :: "u8 list \<Rightarrow> bool" where
  "settled bs \<longleftrightarrow> drain_frames bs = ([], bs)"

definition clean :: "u8 list \<Rightarrow> bool" where
  "clean bs \<longleftrightarrow> (\<forall>r \<in> set (fst (drain_frames bs)). \<not> is_oversized r)"

lemma drain_short [simp]: "length bs < 4 \<Longrightarrow> drain_frames bs = ([], bs)"
  by (subst drain_frames.simps) (auto split: list.splits)

lemma drain_prefix:
  "drain_frames (a # b # c # d # rest) =
     (let n = unat (from_be_bytes a b c d) in
      if MAX_FRAME_BYTES < n then ([Inl (Oversized (from_be_bytes a b c d) MAX_FRAME_BYTES)], [])
      else if length rest < n then ([], a # b # c # d # rest)
      else ((if n = 0 then Inl Empty else Inr (take n rest)) # fst (drain_frames (drop n rest)),
            snd (drain_frames (drop n rest))))"
  by (subst drain_frames.simps) (auto simp: Let_def split_beta)

lemma drain_induct [case_names short oversized incomplete frame]:
  assumes "\<And>bs. length bs < 4 \<Longrightarrow> P bs"
    and "\<And>a b c d rest. MAX_FRAME_BYTES < unat (from_be_bytes a b c d) \<Longrightarrow> P (a # b # c # d # rest)"
    and "\<And>a b c d rest. \<not> MAX_FRAME_BYTES < unat (from_be_bytes a b c d) \<Longrightarrow>
      length rest < unat (from_be_bytes a b c d) \<Longrightarrow> P (a # b # c # d # rest)"
    and "\<And>a b c d rest. \<not> MAX_FRAME_BYTES < unat (from_be_bytes a b c d) \<Longrightarrow>
      unat (from_be_bytes a b c d) \<le> length rest \<Longrightarrow>
      P (drop (unat (from_be_bytes a b c d)) rest) \<Longrightarrow> P (a # b # c # d # rest)"
  shows "P bs"
proof (induction bs rule: measure_induct_rule [of length])
  case (less bs)
  show ?case
  proof (cases "length bs < 4")
    case False
    then obtain a b c d rest where bs: "bs = a # b # c # d # rest"
      by (auto simp: not_less numeral_eq_Suc Suc_le_length_iff)
    with less have "P (drop (unat (from_be_bytes a b c d)) rest)" by simp
    then show ?thesis unfolding bs by (meson assms(2-4) not_less)
  qed (rule assms(1))
qed

lemma settled_drain: "settled (snd (drain_frames bs))"
  by (induction bs rule: drain_induct)
    (simp_all add: settled_def drain_prefix Let_def MAX_FRAME_BYTES_def)

lemma settled_short: "settled bs \<Longrightarrow> length bs < 4 + MAX_FRAME_BYTES"
  by (induction bs rule: drain_induct)
    (auto simp: settled_def drain_prefix Let_def MAX_FRAME_BYTES_def split: if_splits)

text \<open>More bytes never change what was decoded, unless a prefix was oversized.\<close>

lemma drain_append:
  "clean xs \<Longrightarrow> drain_frames (xs @ ys) =
     (fst (drain_frames xs) @ fst (drain_frames (snd (drain_frames xs) @ ys)),
      snd (drain_frames (snd (drain_frames xs) @ ys)))"
  by (induction xs rule: drain_induct) (auto simp: clean_def drain_prefix Let_def)

lemma clean_prefix: "clean (xs @ ys) \<Longrightarrow> clean xs"
  by (induction xs rule: drain_induct) (auto simp: clean_def drain_prefix Let_def)

definition cuttable :: "frame_decoder \<Rightarrow> u8 list \<Rightarrow> bool" where
  "cuttable d bs \<longleftrightarrow> settled (buf d) \<and> clean (buf d @ bs)"

lemma buf_push [simp]: "buf (snd (push d bs)) = snd (drain_frames (buf d @ bs))"
  and fst_push [simp]: "fst (push d bs) = fst (drain_frames (buf d @ bs))"
  by (simp_all add: push_def split_beta)

lemma frame_decoder_eqI: "buf d = buf e \<Longrightarrow> d = (e :: frame_decoder)"
  by simp

interpretation decoder: incremental push cuttable
proof
  fix d :: frame_decoder and xs ys
  assume c: "cuttable d (xs @ ys)"
  then show x: "cuttable d xs"
    unfolding cuttable_def using clean_prefix [of "buf d @ xs" ys] by simp
  have cl: "clean (buf d @ xs)" using x by (simp add: cuttable_def)
  from drain_append [OF cl, of ys] c show "cuttable (snd (push d xs)) ys"
    by (auto simp: cuttable_def settled_drain clean_def)
  show "push d (xs @ ys) =
      (fst (push d xs) @ fst (push (snd (push d xs)) ys), snd (push (snd (push d xs)) ys))"
    using drain_append [OF cl, of ys]
    by (auto intro!: prod_eqI frame_decoder_eqI)
next
  fix d assume "cuttable d []"
  then show "push d [] = ([], d)"
    by (auto simp: cuttable_def settled_def push_def)
qed

lemma push_all_feed: "push_all d bss = decoder.feed_all d bss"
  by (induction bss arbitrary: d) simp_all

section \<open>What is sent arrives\<close>

definition sendable :: "u8 list \<Rightarrow> bool" where
  "sendable body \<longleftrightarrow> body \<noteq> [] \<and> length body \<le> MAX_FRAME_BYTES"

definition frame_of :: "u8 list \<Rightarrow> u8 list" where
  "frame_of body = to_be_bytes (word_of_nat (length body)) @ body"

lemma encode_sendable: "sendable body \<Longrightarrow> encode_json body = Inr (frame_of body)"
  by (simp add: encode_json_def sendable_def frame_of_def)

lemma drain_frame_of:
  assumes "sendable body"
  shows "drain_frames (frame_of body @ bs) =
    (Inr body # fst (drain_frames bs), snd (drain_frames bs))"
proof -
  have "length body < 2 ^ LENGTH(32)" using assms by (simp add: sendable_def MAX_FRAME_BYTES_def)
  then have "unat (word_of_nat (length body) :: u32) = length body"
    by (metis of_nat_inverse)
  with assms show ?thesis
    by (simp add: frame_of_def to_be_bytes_def drain_prefix from_to_be_bytes sendable_def Let_def)
qed

lemma drain_frames_of:
  "\<forall>body \<in> set bodies. sendable body \<Longrightarrow>
     drain_frames (concat (map frame_of bodies)) = (map Inr bodies, [])"
  by (induction bodies) (simp_all add: drain_frame_of)

text \<open>A stream of frames of sendable bodies, in any fragments, gives these bodies.\<close>

lemma push_all_frames:
  assumes "\<forall>body \<in> set bodies. sendable body"
    and c: "concat fragments = concat (map frame_of bodies)"
  shows "push_all \<lparr>buf = []\<rparr> fragments = (map Inr bodies, \<lparr>buf = []\<rparr>)"
proof -
  have "cuttable \<lparr>buf = []\<rparr> (concat fragments)"
    by (auto simp: c cuttable_def settled_def clean_def drain_frames_of [OF assms(1)])
  then show ?thesis
    by (simp add: push_all_feed decoder.feed_all_concat push_def c drain_frames_of [OF assms(1)])
qed

text \<open>C13: What is framed arrives, however the stream is cut. When non-empty bodies within the limit are
  encoded one after the other and the bytes reach the decoder in any fragments, cut inside prefixes and
  bodies alike, the decoder yields exactly those bodies, in order, and keeps nothing back.\<close>

theorem frames_roundtrip:
  assumes "\<forall>body \<in> set bodies. sendable body"
    and "map encode_json bodies = map Inr frames" and "concat fragments = concat frames"
  shows "push_all \<lparr>buf = []\<rparr> fragments = (map Inr bodies, \<lparr>buf = []\<rparr>)"
proof -
  have "map encode_json bodies = map Inr (map frame_of bodies)"
    using assms(1) by (simp add: encode_sendable)
  with assms(2) have "(map Inr frames :: (frame_error + u8 list) list) = map Inr (map frame_of bodies)" by simp
  then have "frames = map frame_of bodies" by (simp only: inj_map_eq_map inj_Inr)
  with assms(3) have "concat fragments = concat (map frame_of bodies)" by simp
  then show ?thesis by (rule push_all_frames [OF assms(1)])
qed

lemma frames_roundtrip_witness:
  "push_all \<lparr>buf = []\<rparr> [[0, 0], [0, 2, 0x7B], [0x7D, 0, 0, 0, 1], [0x30]] =
     ([Inr [0x7B, 0x7D], Inr [0x30]], \<lparr>buf = []\<rparr>)"
  using frames_roundtrip [of "[[0x7B, 0x7D], [0x30]]" "[[0, 0, 0, 2, 0x7B, 0x7D], [0, 0, 0, 1, 0x30]]"
      "[[0, 0], [0, 2, 0x7B], [0x7D, 0, 0, 0, 1], [0x30]]"]
  by (simp add: sendable_def encode_json_def MAX_FRAME_BYTES_def to_be_bytes_def)

text \<open>Memory is bounded by one frame and one read: whatever bytes arrive, the decoder keeps less than
  a prefix and a largest body, and an oversized prefix is reported without keeping anything.\<close>

theorem decoder_memory_bounded:
  "length (buf (snd (push d bytes))) < 4 + MAX_FRAME_BYTES \<and>
   (\<forall>r \<in> set (fst (push d bytes)). is_oversized r \<longrightarrow> buf (snd (push d bytes)) = [])"
proof -
  have "\<forall>r \<in> set (fst (drain_frames bs)). is_oversized r \<longrightarrow> snd (drain_frames bs) = []" for bs
    by (induction bs rule: drain_induct) (auto simp: drain_prefix Let_def)
  with settled_short [OF settled_drain] show ?thesis by simp
qed

lemma decoder_memory_bounded_witness:
  "buf (snd (push \<lparr>buf = [0xFF, 0xFF]\<rparr> [0xFF, 0xFF, 1])) = []"
proof -
  have "Inl (Oversized 0xFFFFFFFF MAX_FRAME_BYTES) \<in> set (fst (push \<lparr>buf = [0xFF, 0xFF]\<rparr> [0xFF, 0xFF, 1]))"
    by (simp add: drain_prefix from_be_bytes_def MAX_FRAME_BYTES_def)
  with decoder_memory_bounded [of "\<lparr>buf = [0xFF, 0xFF]\<rparr>" "[0xFF, 0xFF, 1]"] show ?thesis
    using is_oversized.simps(1) by blast
qed

end
