(* ===== verification/Connection.thy ===== *)
theory Connection
  imports Wire Frame "HOL-Library.Monad_Syntax"
begin

text \<open>
  One client connection: \<^verbatim>\<open>server-rs/pantoken-server/src/connection/mod.rs\<close> (the session),
  \<^verbatim>\<open>stdio.rs\<close> and \<^verbatim>\<open>ws.rs\<close> (the transports). A transport is the list of what its reads return until
  it ends; \<open>parse\<close> is serde's decoding of one client message. The outbound pump copies the client's
  channel to the transport and is not modelled beyond that.
\<close>

section \<open>The transports\<close>

text \<open>A WebSocket yields frames; the stream ends after the last one.\<close>

datatype ws_frame = WsText string | WsBinary | WsClose | WsError | WsControl

fun ws_recv :: "(string \<Rightarrow> 'm option) \<Rightarrow> ws_frame list \<Rightarrow> 'm option \<times> ws_frame list" where
  "ws_recv parse [] = (None, [])"
| "ws_recv parse (WsText t # fs) =
     (case parse t of Some m \<Rightarrow> (Some m, fs) | None \<Rightarrow> ws_recv parse fs)"
| "ws_recv parse (WsBinary # fs) = ws_recv parse fs"
| "ws_recv parse (WsClose # fs) = (None, fs)"
| "ws_recv parse (WsError # fs) = (None, fs)"
| "ws_recv parse (WsControl # fs) = ws_recv parse fs"

text \<open>Standard input yields chunks; an empty chunk is the end of the stream.\<close>

datatype stdio_read = Chunk "u8 list" | ReadFailed

text \<open>The inner \<open>for\<close> loop returns from \<open>recv\<close> with the first body that decodes; the results after it
  are dropped with the vector that holds them.\<close>

fun first_message :: "(u8 list \<Rightarrow> 'm option) \<Rightarrow> (frame_error + u8 list) list \<Rightarrow> 'm option" where
  "first_message parse [] = None"
| "first_message parse (Inr body # rs) =
     (case decode_envelope parse body of Inr m \<Rightarrow> Some m | Inl _ \<Rightarrow> first_message parse rs)"
| "first_message parse (Inl _ # rs) = first_message parse rs"

fun reader_recv :: "(u8 list \<Rightarrow> 'm option) \<Rightarrow> frame_decoder \<times> stdio_read list \<Rightarrow>
    'm option \<times> frame_decoder \<times> stdio_read list" where
  "reader_recv parse (d, []) = (None, d, [])"
| "reader_recv parse (d, ReadFailed # rs) = (None, d, rs)"
| "reader_recv parse (d, Chunk bs # rs) =
     (if bs = [] then (None, d, rs)
      else let (results, d1) = push d bs
           in case first_message parse results of
                Some m \<Rightarrow> (Some m, d1, rs)
              | None \<Rightarrow> reader_recv parse (d1, rs))"

text \<open>Before the split, \<open>recv\<close> makes a decoder of its own and drops it when it returns; \<open>split\<close> makes
  the reader's.\<close>

definition adapter_recv :: "(u8 list \<Rightarrow> 'm option) \<Rightarrow> stdio_read list \<Rightarrow> 'm option \<times> stdio_read list" where
  "adapter_recv parse reads =
     (let (m, _, rs) = reader_recv parse (\<lparr>buf = []\<rparr>, reads) in (m, rs))"

definition stdio_split :: "stdio_read list \<Rightarrow> frame_decoder \<times> stdio_read list" where
  "stdio_split reads = (\<lparr>buf = []\<rparr>, reads)"

section \<open>The session\<close>

text \<open>What the session does to the hub, in order.\<close>

datatype session_call =
    Register "resume_token option"
  | Dispatch client_message
  | Unregister

text \<open>\<open>while let Some(msg) = reader.recv()\<close>: \<open>None\<close> if the transport never ends.\<close>

partial_function (option) drain :: "('s \<Rightarrow> 'm option \<times> 's) \<Rightarrow> 's \<Rightarrow> 'm list option" where
  "drain recv s =
     (case recv s of
        (None, _) \<Rightarrow> Some []
      | (Some m, s1) \<Rightarrow> do { ms \<leftarrow> drain recv s1; Some (m # ms) })"

definition token_ok :: "string option \<Rightarrow> string option \<Rightarrow> bool" where
  "token_ok provided token \<longleftrightarrow> token = None \<or> provided = token"

fun is_hello :: "client_message \<Rightarrow> bool" where
  "is_hello (C_Hello _ _) \<longleftrightarrow> True"
| "is_hello _ \<longleftrightarrow> False"

definition run_session ::
    "('t \<Rightarrow> client_message option \<times> 't) \<Rightarrow> ('t \<Rightarrow> 'r) \<Rightarrow> ('r \<Rightarrow> client_message option \<times> 'r) \<Rightarrow>
     string option \<Rightarrow> 't \<Rightarrow> session_call list option" where
  "run_session recv split reader token t =
     (case recv t of
        (Some (C_Hello auth resume), t1) \<Rightarrow>
          (if \<not> token_ok auth token then Some []
           else do {
             ms \<leftarrow> drain reader (split t1);
             Some (Register resume # map Dispatch (filter (\<lambda>m. \<not> is_hello m) ms) @ [Unregister]) })
      | _ \<Rightarrow> Some [])"

definition ws_session :: "(string \<Rightarrow> client_message option) \<Rightarrow> string option \<Rightarrow> ws_frame list \<Rightarrow>
    session_call list option" where
  "ws_session parse token = run_session (ws_recv parse) (\<lambda>fs. fs) (ws_recv parse) token"

definition stdio_session :: "(u8 list \<Rightarrow> client_message option) \<Rightarrow> string option \<Rightarrow> stdio_read list \<Rightarrow>
    session_call list option" where
  "stdio_session parse token =
     run_session (adapter_recv parse) stdio_split (reader_recv parse) token"

section \<open>Message sources\<close>

text \<open>The contract of a transport: \<open>msgs\<close> is what is still to come, and \<open>recv\<close> takes its head. The
  reading loop then ends, with exactly these messages.\<close>

locale message_source =
  fixes recv :: "'s \<Rightarrow> 'm option \<times> 's" and msgs :: "'s \<Rightarrow> 'm list"
  assumes recv_end: "msgs s = [] \<Longrightarrow> fst (recv s) = None"
    and recv_head: "msgs s = m # ms \<Longrightarrow> \<exists>s1. recv s = (Some m, s1) \<and> msgs s1 = ms"
begin

lemma drain_msgs: "drain recv s = Some (msgs s)"
proof (induction "msgs s" arbitrary: s)
  case Nil
  then have "fst (recv s) = None" by (simp add: recv_end)
  with Nil show ?case by (subst drain.simps) (cases "recv s"; simp)
next
  case (Cons m ms)
  from recv_head [OF Cons.hyps(2) [symmetric]]
  obtain s1 where "recv s = (Some m, s1)" "msgs s1 = ms" by blast
  with Cons show ?case by (subst drain.simps) simp
qed

end

text \<open>The specification of a session over the messages \<open>ms\<close>.\<close>

fun session_spec :: "string option \<Rightarrow> client_message list \<Rightarrow> session_call list" where
  "session_spec token (C_Hello auth resume # ms) =
     (if token_ok auth token
      then Register resume # map Dispatch (filter (\<lambda>m. \<not> is_hello m) ms) @ [Unregister] else [])"
| "session_spec token _ = []"

subsection \<open>WebSocket\<close>

text \<open>The messages on a WebSocket: the text frames that parse, up to a close or an error.\<close>

fun ws_msgs :: "(string \<Rightarrow> 'm option) \<Rightarrow> ws_frame list \<Rightarrow> 'm list" where
  "ws_msgs parse [] = []"
| "ws_msgs parse (WsText t # fs) =
     (case parse t of Some m \<Rightarrow> m # ws_msgs parse fs | None \<Rightarrow> ws_msgs parse fs)"
| "ws_msgs parse (f # fs) = (if f = WsClose \<or> f = WsError then [] else ws_msgs parse fs)"

interpretation ws: message_source "ws_recv parse" "ws_msgs parse" for parse
proof
  show "ws_msgs parse fs = [] \<Longrightarrow> fst (ws_recv parse fs) = None" for fs
    by (induction parse fs rule: ws_msgs.induct) (auto split: option.splits if_splits)
  show "ws_msgs parse fs = m # ms \<Longrightarrow> \<exists>fs1. ws_recv parse fs = (Some m, fs1) \<and> ws_msgs parse fs1 = ms"
    for fs m ms
    by (induction parse fs rule: ws_msgs.induct) (auto split: option.splits if_splits)
qed

text \<open>C14: A session over a WebSocket loses nothing and lets nobody in: it touches the hub exactly when
  the first message is a hello with the configured token, and then registers with the resume token of
  that hello, dispatches every later message except repeated hellos, in order, and unregisters.\<close>

theorem ws_session_exact: "ws_session parse token fs = Some (session_spec token (ws_msgs parse fs))"
proof (cases "ws_msgs parse fs")
  case Nil
  with ws.recv_end [OF Nil] show ?thesis
    by (auto simp: ws_session_def run_session_def split: prod.splits)
next
  case (Cons m ms)
  from ws.recv_head [OF this] obtain fs1 where
    "ws_recv parse fs = (Some m, fs1)" "ws_msgs parse fs1 = ms" by blast
  with Cons show ?thesis
    by (cases m) (simp_all add: ws_session_def run_session_def ws.drain_msgs)
qed

subsection \<open>Standard input\<close>

text \<open>The messages the stdio reader hands out: of each chunk, the first that decodes.\<close>

fun reader_msgs :: "(u8 list \<Rightarrow> 'm option) \<Rightarrow> frame_decoder \<times> stdio_read list \<Rightarrow> 'm list" where
  "reader_msgs parse (d, []) = []"
| "reader_msgs parse (d, ReadFailed # rs) = []"
| "reader_msgs parse (d, Chunk bs # rs) =
     (if bs = [] then []
      else case first_message parse (fst (push d bs)) of
             Some m \<Rightarrow> m # reader_msgs parse (snd (push d bs), rs)
           | None \<Rightarrow> reader_msgs parse (snd (push d bs), rs))"

lemma reader_recv_chunk:
  "bs \<noteq> [] \<Longrightarrow> reader_recv parse (d, Chunk bs # rs) =
     (case first_message parse (fst (push d bs)) of
        Some m \<Rightarrow> (Some m, snd (push d bs), rs)
      | None \<Rightarrow> reader_recv parse (snd (push d bs), rs))"
  by (simp add: split_beta)

lemma reader_recv_end [simp]: "reader_recv parse (d, Chunk [] # rs) = (None, d, rs)"
  by simp

interpretation stdio: message_source "reader_recv parse" "reader_msgs parse" for parse
proof
  show "reader_msgs parse s = [] \<Longrightarrow> fst (reader_recv parse s) = None" for s
    by (induction parse s rule: reader_msgs.induct)
      (auto simp: reader_recv_chunk simp del: reader_recv.simps(3) buf_push fst_push
        split: option.splits if_splits)
  show "reader_msgs parse s = m # ms \<Longrightarrow> \<exists>s1. reader_recv parse s = (Some m, s1) \<and> reader_msgs parse s1 = ms"
    for s m ms
    by (induction parse s rule: reader_msgs.induct)
      (auto simp: reader_recv_chunk simp del: reader_recv.simps(3) buf_push fst_push
        split: option.splits if_splits)
qed

text \<open>The reader, read by read: a read that completes several messages hands out the first one only.\<close>

lemma reader_msgs_frames:
  assumes "sendable b" and "valid_utf8 b" and "parse b = Some m" and "\<forall>x \<in> set bodies. sendable x"
  shows "reader_msgs parse (\<lparr>buf = []\<rparr>, Chunk (frame_of b @ concat (map frame_of bodies)) # rs) =
    m # reader_msgs parse (\<lparr>buf = []\<rparr>, rs)"
proof -
  have "b \<noteq> []" using assms(1) by (simp add: sendable_def)
  moreover have "frame_of b @ concat (map frame_of bodies) \<noteq> []" by (simp add: frame_of_def to_be_bytes_def)
  ultimately show ?thesis
    using assms by (simp add: push_def drain_frame_of drain_frames_of decode_envelope_def)
qed

lemma adapter_recv_frames:
  assumes "sendable b" and "valid_utf8 b" and "parse b = Some m" and "\<forall>x \<in> set bodies. sendable x"
  shows "adapter_recv parse (Chunk (frame_of b @ concat (map frame_of bodies)) # rs) = (Some m, rs)"
proof -
  have "b \<noteq> []" using assms(1) by (simp add: sendable_def)
  moreover have "frame_of b @ concat (map frame_of bodies) \<noteq> []" by (simp add: frame_of_def to_be_bytes_def)
  ultimately show ?thesis
    using assms by (simp add: adapter_recv_def push_def drain_frame_of drain_frames_of decode_envelope_def)
qed

text \<open>What a client sends for the message \<open>m\<close>: a body within the limit that decodes to it.\<close>

definition body_for :: "(u8 list \<Rightarrow> client_message option) \<Rightarrow> client_message \<Rightarrow> u8 list \<Rightarrow> bool" where
  "body_for parse m b \<longleftrightarrow> sendable b \<and> valid_utf8 b \<and> parse b = Some m"

lemma reader_msgs_separate:
  "list_all2 (body_for parse) ms bodies \<Longrightarrow>
     reader_msgs parse (\<lparr>buf = []\<rparr>, map (\<lambda>b. Chunk (frame_of b)) bodies) = ms"
proof (induction rule: list_all2_induct)
  case (Cons m ms b bodies)
  with reader_msgs_frames [of b parse m "[]"] show ?case by (simp add: body_for_def)
qed simp

lemma stdio_session_hello:
  assumes "body_for parse (C_Hello auth resume) h" and "token_ok auth token" and "\<forall>x \<in> set bodies. sendable x"
  shows "stdio_session parse token (Chunk (frame_of h @ concat (map frame_of bodies)) # rs) =
    Some (session_spec token (C_Hello auth resume # reader_msgs parse (\<lparr>buf = []\<rparr>, rs)))"
  using assms by (simp add: stdio_session_def run_session_def adapter_recv_frames body_for_def
      stdio_split_def stdio.drain_msgs)

text \<open>Over standard input, messages arrive when every read completes one frame: then the session
  registers, dispatches all of them in order and unregisters.\<close>

theorem stdio_session_separate_reads:
  assumes "body_for parse (C_Hello auth resume) h" and "token_ok auth token"
    and "list_all2 (body_for parse) ms bodies"
  shows "stdio_session parse token (map (\<lambda>b. Chunk (frame_of b)) (h # bodies)) =
    Some (session_spec token (C_Hello auth resume # ms))"
  using stdio_session_hello [OF assms(1,2), of "[]"] reader_msgs_separate [OF assms(3)] by simp

text \<open>When one read completes several frames, all but the first message is lost: a client that sends
  its messages in one burst after the hello has only the first one dispatched, and whatever it sent
  together with the hello is dropped with the decoder of the hello.\<close>

theorem stdio_session_loses_burst:
  assumes "body_for parse (C_Hello auth resume) h" and "token_ok auth token"
    and "body_for parse m b" and "\<not> is_hello m" and "\<forall>x \<in> set burst1 \<union> set burst2. sendable x"
  shows "stdio_session parse token
      [Chunk (concat (map frame_of (h # burst1))), Chunk (concat (map frame_of (b # burst2)))] =
    Some [Register resume, Dispatch m, Unregister]"
  using stdio_session_hello [OF assms(1,2), of burst1] reader_msgs_frames [of b parse m burst2] assms(2-5)
  by (simp add: body_for_def)

text \<open>A parser of two bodies, for the examples.\<close>

definition ex_parse :: "u8 list \<Rightarrow> client_message option" where
  "ex_parse b = (if b = [0x68] then Some (C_Hello None None) else if b = [0x70] then Some C_Ping else None)"

lemma ex_bodies: "body_for ex_parse (C_Hello None None) [0x68]" "body_for ex_parse C_Ping [0x70]"
  by (simp_all add: body_for_def ex_parse_def sendable_def MAX_FRAME_BYTES_def in_range_def)

lemma stdio_session_separate_reads_witness:
  "stdio_session ex_parse None (map (\<lambda>b. Chunk (frame_of b)) [[0x68], [0x70], [0x70]]) =
     Some [Register None, Dispatch C_Ping, Dispatch C_Ping, Unregister]"
  using stdio_session_separate_reads [OF ex_bodies(1), of None "[C_Ping, C_Ping]" "[[0x70], [0x70]]"]
  by (simp add: ex_bodies token_ok_def)

lemma stdio_session_loses_burst_witness:
  "stdio_session ex_parse None
     [Chunk (concat (map frame_of [[0x68]])), Chunk (concat (map frame_of [[0x70], [0x70]]))] =
     Some [Register None, Dispatch C_Ping, Unregister]"
  by (rule stdio_session_loses_burst [OF ex_bodies(1) _ ex_bodies(2)])
    (simp_all add: token_ok_def sendable_def MAX_FRAME_BYTES_def)

end
