(* ===== verification/Versions.thy ===== *)
theory Versions
  imports Prelude "HOL-Library.Monad_Syntax"
begin

text \<open>
  Version numbers: \<^verbatim>\<open>server-rs/pantoken-remote-layout/src/semver.rs\<close>, and the compatibility check of
  the desktop shell that uses them, \<^verbatim>\<open>desktop/src/provisioning/polytoken_compat.rs\<close>. \<open>u64::from_str\<close>
  fails at 2^64.
\<close>

section \<open>Three-way comparison\<close>

datatype ordering = Less | Equal | Greater

fun reverse :: "ordering \<Rightarrow> ordering" where
  "reverse Less = Greater"
| "reverse Equal = Equal"
| "reverse Greater = Less"

fun then_cmp :: "ordering \<Rightarrow> ordering \<Rightarrow> ordering" where
  "then_cmp Equal b = b"
| "then_cmp a _ = a"

lemma reverse_reverse [simp]: "reverse (reverse x) = x"
  by (cases x) simp_all

lemma then_cmp_Equal [simp]: "then_cmp x y = Equal \<longleftrightarrow> x = Equal \<and> y = Equal"
  by (cases x) simp_all

lemma reverse_fixed: "x = reverse x \<longleftrightarrow> x = Equal"
  by (cases x) simp_all

lemma reverse_then [simp]: "reverse (then_cmp x y) = then_cmp (reverse x) (reverse y)"
  by (cases x) simp_all

definition cmp :: "'a::linorder \<Rightarrow> 'a \<Rightarrow> ordering" where
  "cmp a b = (if a < b then Less else if a = b then Equal else Greater)"

text \<open>What a comparison function promises to sorting and to range checks.\<close>

locale comparison =
  fixes compare :: "'a \<Rightarrow> 'a \<Rightarrow> ordering"
  assumes compare_reverse: "compare b a = reverse (compare a b)"
    and compare_equal: "compare a b = Equal \<Longrightarrow> compare a c = compare b c"
    and compare_less: "compare a b = Less \<Longrightarrow> compare b c = Less \<Longrightarrow> compare a c = Less"
begin

lemma compare_self [simp]: "compare a a = Equal"
  using compare_reverse [of a a] unfolding reverse_fixed .

lemma equal_right:
  assumes "compare b c = Equal"
  shows "compare a c = compare a b"
  by (simp only: compare_reverse [of a b] compare_reverse [of a c] compare_equal [OF assms, of a])

lemma at_most_trans:
  assumes "compare a b \<noteq> Greater" and "compare b c \<noteq> Greater"
  shows "compare a c \<noteq> Greater"
proof (cases "compare a b")
  case Less
  then show ?thesis
    using assms(2) compare_less [OF Less, of c] equal_right [of b c a]
    by (cases "compare b c") simp_all
next
  case Equal
  from compare_equal [OF this, of c] assms(2) show ?thesis by simp
qed (use assms(1) in simp)

lemma then_equal:
  "then_cmp (compare a b) x = Equal \<Longrightarrow> then_cmp (compare a c) z = then_cmp (compare b c) z"
  using compare_equal [of a b c] by (cases "compare a b") simp_all

lemma then_less:
  assumes "then_cmp (compare a b) x = Less" and "then_cmp (compare b c) y = Less"
    and "x = Less \<Longrightarrow> y = Less \<Longrightarrow> z = Less"
  shows "then_cmp (compare a c) z = Less"
proof (cases "compare a b")
  case Less
  then show ?thesis
    using assms(2) compare_less [OF Less, of c] equal_right [of b c a]
    by (cases "compare b c") simp_all
next
  case Equal
  from compare_equal [OF this, of c] Equal assms show ?thesis
    by (cases "compare b c") simp_all
qed (use assms(1) in simp)

end

lemma comparison_cmp: "comparison cmp"
  by unfold_locales (auto simp: cmp_def split: if_splits)

interpretation cmp: comparison cmp by (rule comparison_cmp)

text \<open>Comparing by a key, and by one comparison and then another.\<close>

lemma comparison_on:
  assumes "comparison c"
  shows "comparison (\<lambda>a b. c (f a) (f b))"
  by (rule comparison.intro)
    (rule comparison.compare_reverse [OF assms], erule comparison.compare_equal [OF assms],
      erule comparison.compare_less [OF assms])

lemma comparison_then:
  assumes c: "comparison c" and d: "comparison d"
  shows "comparison (\<lambda>a b. then_cmp (c a b) (d a b))"
proof (rule comparison.intro)
  show "then_cmp (c y x) (d y x) = reverse (then_cmp (c x y) (d x y))" for x y
    by (simp only: comparison.compare_reverse [OF c, of y x] comparison.compare_reverse [OF d, of y x] reverse_then)
  show "then_cmp (c x y) (d x y) = Equal \<Longrightarrow> then_cmp (c x z) (d x z) = then_cmp (c y z) (d y z)" for x y z
    using comparison.compare_equal [OF c, of x y z] comparison.compare_equal [OF d, of x y z]
    by (cases "c x y") simp_all
  show "then_cmp (c x y) (d x y) = Less \<Longrightarrow> then_cmp (c y z) (d y z) = Less \<Longrightarrow>
      then_cmp (c x z) (d x z) = Less" for x y z
    by (rule comparison.then_less [OF c, of x y "d x y" z "d y z"])
      (auto intro: comparison.compare_less [OF d])
qed

section \<open>Versions\<close>

record version =
  major :: nat
  minor :: nat
  patch :: nat
  prerelease :: "string option"

definition is_digit :: "char \<Rightarrow> bool" where
  "is_digit c \<longleftrightarrow> (0x30::nat) \<le> of_char c \<and> of_char c \<le> (0x39::nat)"

definition is_alphanumeric :: "char \<Rightarrow> bool" where
  "is_alphanumeric c \<longleftrightarrow> is_digit c \<or>
     (0x41::nat) \<le> of_char c \<and> of_char c \<le> (0x5A::nat) \<or>
     (0x61::nat) \<le> of_char c \<and> of_char c \<le> (0x7A::nat)"

definition decimal :: "string \<Rightarrow> nat" where
  "decimal s = foldl (\<lambda>n c. 10 * n + (of_char c - 0x30)) 0 s"

text \<open>\<open>str::parse::<u64>\<close> on a string of digits.\<close>

definition parse_u64 :: "string \<Rightarrow> nat option" where
  "parse_u64 s = (if s = [] \<or> 2 ^ 64 \<le> decimal s then None else Some (decimal s))"

definition parse_component :: "string \<Rightarrow> nat option" where
  "parse_component part =
     (if part = [] then None
      else if part = ''0'' then Some 0
      else if \<not> list_all is_digit part then None
      else if starts_with part ''0'' then None
      else parse_u64 part)"

definition prerelease_ok :: "string \<Rightarrow> bool" where
  "prerelease_ok pre \<longleftrightarrow> pre \<noteq> [] \<and>
     list_all (\<lambda>seg. seg \<noteq> [] \<and> list_all (\<lambda>c. is_alphanumeric c \<or> c = CHR ''-'') seg)
       (split_on CHR ''.'' pre)"

definition parse_version :: "string \<Rightarrow> version option" where
  "parse_version s =
     (let (core, pre) = (case split_once CHR ''-'' s of
                           Some (c, p) \<Rightarrow> (c, Some p) | None \<Rightarrow> (s, None))
      in case split_on CHR ''.'' core of
           [a, b, c] \<Rightarrow>
             do { x \<leftarrow> parse_component a; y \<leftarrow> parse_component b; z \<leftarrow> parse_component c;
                  if case pre of Some p \<Rightarrow> \<not> prerelease_ok p | None \<Rightarrow> False then None
                  else Some \<lparr>major = x, minor = y, patch = z, prerelease = pre\<rparr> }
         | _ \<Rightarrow> None)"

definition parse_semver :: "string \<Rightarrow> bool" where
  "parse_semver s \<longleftrightarrow> parse_version s \<noteq> None"

section \<open>Comparing versions\<close>

definition numeric :: "string \<Rightarrow> bool" where
  "numeric s \<longleftrightarrow> list_all is_digit s \<and> s \<noteq> []"

definition compare_prerelease_segment :: "string \<Rightarrow> string \<Rightarrow> ordering" where
  "compare_prerelease_segment a b =
     (if numeric a \<and> numeric b then cmp (unwrap_or (parse_u64 a) 0) (unwrap_or (parse_u64 b) 0)
      else if numeric a then Less
      else if numeric b then Greater
      else cmp a b)"

text \<open>The loop over the zipped segments, then the lengths.\<close>

fun compare_segments :: "string list \<Rightarrow> string list \<Rightarrow> ordering" where
  "compare_segments (a # as) (b # bs) =
     then_cmp (compare_prerelease_segment a b) (compare_segments as bs)"
| "compare_segments as bs = cmp (length as) (length bs)"

definition compare_prerelease :: "string \<Rightarrow> string \<Rightarrow> ordering" where
  "compare_prerelease a b = compare_segments (split_on CHR ''.'' a) (split_on CHR ''.'' b)"

fun compare_optional :: "string option \<Rightarrow> string option \<Rightarrow> ordering" where
  "compare_optional None None = Equal"
| "compare_optional None (Some _) = Greater"
| "compare_optional (Some _) None = Less"
| "compare_optional (Some a) (Some b) = compare_prerelease a b"

definition compare_versions :: "version \<Rightarrow> version \<Rightarrow> ordering" where
  "compare_versions a b =
     then_cmp (cmp (major a) (major b)) (then_cmp (cmp (minor a) (minor b))
       (then_cmp (cmp (patch a) (patch b)) (compare_optional (prerelease a) (prerelease b))))"

definition compare_semver :: "string \<Rightarrow> string \<Rightarrow> ordering" where
  "compare_semver a b =
     (case (parse_version a, parse_version b) of
        (Some va, Some vb) \<Rightarrow> compare_versions va vb
      | (Some _, None) \<Rightarrow> Greater
      | (None, Some _) \<Rightarrow> Less
      | (None, None) \<Rightarrow> Equal)"

section \<open>Laws\<close>

lemma comparison_segment: "comparison compare_prerelease_segment"
proof -
  have key: "compare_prerelease_segment a b =
      then_cmp (cmp (if numeric a then 0 else 1 :: nat) (if numeric b then 0 else 1))
        (then_cmp (cmp (if numeric a then unwrap_or (parse_u64 a) 0 else 0)
                       (if numeric b then unwrap_or (parse_u64 b) 0 else 0))
          (cmp (if numeric a then [] else a) (if numeric b then [] else b)))" for a b
    unfolding compare_prerelease_segment_def
    by (cases "numeric a"; cases "numeric b") (auto simp: cmp_def)
  show ?thesis
    unfolding key
    by (rule comparison_then [OF comparison_on [OF comparison_cmp]
          comparison_then [OF comparison_on [OF comparison_cmp] comparison_on [OF comparison_cmp]]])
qed

interpretation segment: comparison compare_prerelease_segment by (rule comparison_segment)

lemma shorter: "compare_segments as bs = Less \<Longrightarrow> compare_segments [] bs = Less"
  by (cases as; cases bs) (simp_all add: cmp_def)

interpretation segments: comparison compare_segments
proof
  show "compare_segments bs as = reverse (compare_segments as bs)" for as bs
  proof (induction as bs rule: compare_segments.induct)
    case (1 a as b bs)
    then show ?case by (simp only: compare_segments.simps segment.compare_reverse [of b a] reverse_then)
  qed (simp_all add: cmp_def)
  show "compare_segments as bs = Equal \<Longrightarrow> compare_segments as cs = compare_segments bs cs" for as bs cs
  proof (induction as bs arbitrary: cs rule: compare_segments.induct)
    case (1 a as b bs)
    then have "compare_prerelease_segment a b = Equal" by simp
    with 1 segment.compare_equal [OF this] show ?case by (cases cs) (simp_all add: cmp_def)
  qed (auto simp: cmp_def split: if_splits)
  show "compare_segments as bs = Less \<Longrightarrow> compare_segments bs cs = Less \<Longrightarrow>
      compare_segments as cs = Less" for as bs cs
  proof (induction as bs arbitrary: cs rule: compare_segments.induct)
    case (1 a as b bs)
    show ?case
    proof (cases cs)
      case Nil
      with 1 show ?thesis by (simp add: cmp_def)
    next
      case (Cons c cs')
      with 1 show ?thesis
        using segment.then_less [of a b "compare_segments as bs" c "compare_segments bs cs'"] by simp
    qed
  next
    case "2_1"
    then show ?case using shorter by metis
  qed (auto simp: cmp_def split: if_splits)
qed

interpretation optional: comparison compare_optional
proof
  show "compare_optional b a = reverse (compare_optional a b)" for a b
    using segments.compare_reverse [of "split_on CHR ''.'' (the b)" "split_on CHR ''.'' (the a)"]
    by (cases a; cases b) (simp_all add: compare_prerelease_def)
  show "compare_optional a b = Equal \<Longrightarrow> compare_optional a c = compare_optional b c" for a b c
    by (cases a; cases b; cases c) (auto simp: compare_prerelease_def intro: segments.compare_equal)
  show "compare_optional a b = Less \<Longrightarrow> compare_optional b c = Less \<Longrightarrow> compare_optional a c = Less" for a b c
    by (cases a; cases b; cases c) (auto simp: compare_prerelease_def intro: segments.compare_less)
qed

interpretation versions: comparison compare_versions
  unfolding compare_versions_def
  by (rule comparison_then [OF comparison_on [OF comparison_cmp] comparison_then [OF comparison_on [OF comparison_cmp]
        comparison_then [OF comparison_on [OF comparison_cmp] comparison_on [OF optional.comparison_axioms]]]])

interpretation semver: comparison compare_semver
proof
  show "compare_semver b a = reverse (compare_semver a b)" for a b
    using versions.compare_reverse [of "the (parse_version b)" "the (parse_version a)"]
    by (cases "parse_version a"; cases "parse_version b") (simp_all add: compare_semver_def)
  show "compare_semver a b = Equal \<Longrightarrow> compare_semver a c = compare_semver b c" for a b c
    using versions.compare_equal [of "the (parse_version a)" "the (parse_version b)" "the (parse_version c)"]
    by (auto simp: compare_semver_def split: option.splits)
  show "compare_semver a b = Less \<Longrightarrow> compare_semver b c = Less \<Longrightarrow> compare_semver a c = Less" for a b c
    using versions.compare_less [of "the (parse_version a)" "the (parse_version b)" "the (parse_version c)"]
    by (auto simp: compare_semver_def split: option.splits)
qed

lemmas version_eval =
  is_digit_def is_alphanumeric_def decimal_def parse_u64_def parse_component_def prerelease_ok_def
  parse_version_def parse_semver_def numeric_def compare_prerelease_segment_def compare_prerelease_def
  compare_versions_def compare_semver_def starts_with_def cmp_def unwrap_or_def

text \<open>Comparing version strings is a total preorder on all strings, parseable or not: every string equals
  itself, swapping the arguments swaps the answer, and at most is transitive, so sorting by it and
  range checks with it are sound.\<close>

theorem semver_total_preorder:
  "compare_semver a a = Equal \<and> compare_semver b a = reverse (compare_semver a b) \<and>
   (compare_semver a b \<noteq> Greater \<longrightarrow> compare_semver b c \<noteq> Greater \<longrightarrow> compare_semver a c \<noteq> Greater)"
  by (intro conjI impI) (simp, rule semver.compare_reverse, rule semver.at_most_trans)

lemma semver_total_preorder_witness:
  "compare_semver ''0.5.0-unstable.9'' ''0.6.0'' \<noteq> Greater"
proof -
  have "compare_semver ''0.5.0-unstable.9'' ''0.5.0'' = Less" "compare_semver ''0.5.0'' ''0.6.0'' = Less"
    by (simp_all add: version_eval)
  then show ?thesis using semver_total_preorder [of "''0.5.0-unstable.9''" "''0.5.0''" "''0.6.0''"] by simp
qed

text \<open>A numeric segment that does not fit into 64 bits counts as zero, so versions that differ compare
  equal.\<close>

lemma huge_segment_is_zero: "compare_semver ''1.0.0-18446744073709551616'' ''1.0.0-0'' = Equal"
  by (simp add: version_eval)

section \<open>The compatibility check\<close>

text \<open>\<^verbatim>\<open>desktop/src/provisioning/polytoken_compat.rs\<close>. \<open>scan_prefix\<close> is the loop of \<open>parse_semver_prefix\<close>
  with its index, its end, its dots and its flag.\<close>

fun scan_prefix :: "nat \<Rightarrow> nat \<Rightarrow> nat \<Rightarrow> bool \<Rightarrow> string \<Rightarrow> (nat \<times> nat) option" where
  "scan_prefix i end_at dots in_pre [] = Some (dots, end_at)"
| "scan_prefix i end_at dots in_pre (c # cs) =
     (if c = CHR ''.'' then scan_prefix (i + 1) (i + 1) (dots + 1) in_pre cs
      else if c = CHR ''-'' \<and> dots = 2 then scan_prefix (i + 1) (i + 1) dots True cs
      else if is_alphanumeric c \<or> in_pre \<and> c = CHR ''.'' then scan_prefix (i + 1) (i + 1) dots in_pre cs
      else if i = 0 then None
      else Some (dots, end_at))"

definition parse_semver_prefix :: "string \<Rightarrow> string option" where
  "parse_semver_prefix s =
     (case scan_prefix 0 0 0 False s of
        None \<Rightarrow> None
      | Some (dots, end_at) \<Rightarrow>
          if dots < 2 then None
          else if parse_semver (take end_at s) then Some (take end_at s) else None)"

fun extract_semver_from_line :: "string \<Rightarrow> string option" where
  "extract_semver_from_line [] = None"
| "extract_semver_from_line (c # cs) =
     (if is_digit c then
        case parse_semver_prefix (c # cs) of Some v \<Rightarrow> Some v | None \<Rightarrow> extract_semver_from_line cs
      else extract_semver_from_line cs)"

record command_output =
  stdout :: string
  stderr :: string
  exit_code :: "int option"

definition is_success :: "command_output \<Rightarrow> bool" where
  "is_success out \<longleftrightarrow> exit_code out = Some 0"

text \<open>\<open>str::lines().next()\<close>.\<close>

definition first_output_line :: "string \<Rightarrow> string option" where
  "first_output_line s =
     (if s = [] then None
      else let line = hd (split_on (CHR 0x0A) s)
           in Some (if line \<noteq> [] \<and> last line = CHR 0x0D \<and> contains s [CHR 0x0A] then butlast line else line))"

definition extract_version_string :: "command_output \<Rightarrow> string option" where
  "extract_version_string out =
     (if \<not> is_success out then None else Option.bind (first_output_line (stdout out)) extract_semver_from_line)"

datatype polytoken_compat =
    Missing
  | TooOld string string
  | Compatible string string bool
  | Unparseable string

definition classify_compat :: "string option \<Rightarrow> string \<Rightarrow> polytoken_compat" where
  "classify_compat found target =
     (case found of
        None \<Rightarrow> Missing
      | Some v \<Rightarrow>
          if \<not> parse_semver v then Unparseable v
          else case compare_semver v target of
            Less \<Rightarrow> TooOld v target
          | Equal \<Rightarrow> Compatible v target False
          | Greater \<Rightarrow> Compatible v target True)"

text \<open>\<open>run\<close> is the outcome of the remote command; \<open>target\<close> is the version the daemon types were generated
  from.\<close>

definition check_compatibility ::
    "string option \<Rightarrow> 'e + command_output \<Rightarrow> string \<Rightarrow> 'e + polytoken_compat" where
  "check_compatibility probe run target =
     (case probe of
        Some v \<Rightarrow> Inr (classify_compat (if v = [] then None else Some v) target)
      | None \<Rightarrow>
          (case run of
             Inl e \<Rightarrow> Inl e
           | Inr out \<Rightarrow> Inr (classify_compat (extract_version_string out) target)))"

lemma parse_semver_prefix_sound:
  "parse_semver_prefix s = Some v \<Longrightarrow> parse_semver v \<and> (\<exists>n. v = take n s)"
  by (auto simp: parse_semver_prefix_def split: option.splits if_splits)

lemma extract_sound: "extract_semver_from_line line = Some v \<Longrightarrow> parse_semver v \<and> (\<exists>a b. line = a @ v @ b)"
proof (induction line)
  case (Cons c cs)
  show ?case
  proof (cases "extract_semver_from_line cs = Some v")
    case True
    from Cons.IH [OF this] show ?thesis by (metis append_Cons)
  next
    case False
    with Cons.prems have "parse_semver_prefix (c # cs) = Some v" by (auto split: if_splits option.splits)
    from parse_semver_prefix_sound [OF this] show ?thesis by (metis append_Nil append_take_drop_id)
  qed
qed simp

text \<open>The scan stops at a hyphen that follows a dot of the prerelease.\<close>

lemma extraction_truncates:
  "extract_semver_from_line ''polytoken 0.5.0-rc.1-fix'' = Some ''0.5.0-rc.1''"
  by (simp add: version_eval parse_semver_prefix_def)

text \<open>Upgrading the daemon never breaks compatibility: when the version found on a host is compatible
  with the target, every parseable version at least as high is compatible too, and the flag tells
  exactly whether it is newer than the target.\<close>

theorem upgrade_stays_compatible:
  assumes "classify_compat (Some v) target = Compatible v target newer"
    and "compare_semver v w \<noteq> Greater" and "parse_semver w"
  shows "classify_compat (Some w) target = Compatible w target (compare_semver w target = Greater)"
proof -
  have "compare_semver v target \<noteq> Less"
    using assms(1) by (auto simp: classify_compat_def split: if_splits)
  then have "compare_semver target v \<noteq> Greater"
    using semver.compare_reverse [of target v] by (cases "compare_semver v target") simp_all
  then have "compare_semver target w \<noteq> Greater" using assms(2) by (rule semver.at_most_trans)
  then have "compare_semver w target \<noteq> Less"
    using semver.compare_reverse [of target w] by (cases "compare_semver w target") simp_all
  with assms(3) show ?thesis by (cases "compare_semver w target") (simp_all add: classify_compat_def)
qed

lemma upgrade_stays_compatible_witness:
  "classify_compat (Some ''0.5.1'') ''0.5.0'' = Compatible ''0.5.1'' ''0.5.0'' True"
proof -
  have "classify_compat (Some ''0.5.0'') ''0.5.0'' = Compatible ''0.5.0'' ''0.5.0'' False"
    "compare_semver ''0.5.0'' ''0.5.1'' = Less" "parse_semver ''0.5.1''"
    "compare_semver ''0.5.1'' ''0.5.0'' = Greater"
    by (simp_all add: version_eval classify_compat_def)
  with upgrade_stays_compatible [of "''0.5.0''" "''0.5.0''" False "''0.5.1''"] show ?thesis by simp
qed

end
