(* ===== verification/Archive.thy ===== *)
theory Archive
  imports Prelude "HOL-Library.Word"
begin

text \<open>
  The validator of release archives, \<^verbatim>\<open>server-rs/pantoken-tar-validate/src/lib.rs\<close>. Decompression
  and tar parsing are third-party: an archive is what the tar reader yields, entry by entry, \<open>None\<close>
  where it reports an error.
\<close>

unbundle bit_operations_syntax

section \<open>Entries\<close>

datatype entry_type =
    Regular | Link | Symlink | CharDevice | BlockDevice | Directory | Fifo | Continuous
  | GNULongName | GNULongLink | GNUSparse | XGlobalHeader | XHeader | OtherType "8 word"

record tar_entry =
  te_path :: "string option"
  te_type :: entry_type
  te_mode :: "32 word option"

datatype tar_error = Malformed | Unsafe string

definition REQUIRED :: "string list" where
  "REQUIRED = [''VERSION'', ''BUILD_SHA'', ''bin/pantoken-server'', ''bin/pantoken-tar-validate'',
     ''run.sh'', ''update.sh'', ''client-dist/index.html'']"

definition CANONICAL_PREFIXES :: "string list" where
  "CANONICAL_PREFIXES = [''VERSION'', ''BUILD_SHA'', ''run.sh'', ''update.sh'', ''bin/pantoken-server'',
     ''bin/pantoken-tar-validate'', ''client-dist/index.html'']"

definition ASSET_PREFIX :: string where "ASSET_PREFIX = ''client-dist/assets/''"

section \<open>Paths\<close>

definition dot_dot :: string where "dot_dot = [CHR ''.'', CHR ''.'']"

fun kept_components :: "string list \<Rightarrow> string list option" where
  "kept_components [] = Some []"
| "kept_components (c # cs) =
     (if c = [] \<or> c = ''.'' then kept_components cs
      else if c = dot_dot then None
      else map_option ((#) c) (kept_components cs))"

definition normalise_path :: "string \<Rightarrow> string option" where
  "normalise_path name =
     (if name = [] then Some []
      else if starts_with name ''/'' then None
      else case kept_components (split_on CHR ''/'' name) of
             None \<Rightarrow> None
           | Some [] \<Rightarrow> Some []
           | Some parts \<Rightarrow> Some (join ''/'' parts))"

section \<open>Checks of one entry\<close>

definition is_member_safe :: "tar_entry \<Rightarrow> string + unit" where
  "is_member_safe e =
     (if te_type e = Symlink \<or> te_type e = Link then Inl ''symlink or hardlink''
      else if te_type e = BlockDevice \<or> te_type e = CharDevice \<or> te_type e = XGlobalHeader \<or> te_type e = XHeader
      then Inl ''device file''
      else Inr ())"

fun octal :: "nat \<Rightarrow> string" where
  "octal n = (if n < 8 then [char_of (48 + n)] else octal (n div 8) @ [char_of (48 + n mod 8)])"

declare octal.simps [simp del]

text \<open>\<open>0o022\<close> is \<open>0x12\<close>.\<close>

definition check_owner_mode :: "tar_entry \<Rightarrow> string + unit" where
  "check_owner_mode e =
     (let mode = unwrap_or (te_mode e) 0 in
      if mode AND 0x12 \<noteq> 0
      then Inl (''unsafe mode '' @ octal (unat mode) @ '': group-write or other-write bits set'')
      else Inr ())"

definition prefix_allowed :: "string \<Rightarrow> bool" where
  "prefix_allowed p \<longleftrightarrow>
     p \<in> set CANONICAL_PREFIXES \<or>
     p \<in> {''bin'', ''client-dist'', ''client-dist/assets''} \<or>
     starts_with p ASSET_PREFIX \<or>
     (case strip_prefix p ''client-dist/'' of
        Some name \<Rightarrow> CHR ''/'' \<notin> set name \<and>
          (name = ''index.html'' \<or> starts_with name ''apple-touch-icon'' \<or> starts_with name ''icon'' \<or>
           starts_with name ''favicon'' \<or> starts_with name ''manifest'' \<or> starts_with name ''sw'' \<or>
           starts_with name ''registerSW'')
      | None \<Rightarrow> False)"

definition check_no_forbidden :: "string \<Rightarrow> string + unit" where
  "check_no_forbidden p =
     (if contains p ''node_modules'' then Inl ''node_modules''
      else if contains p ''/.git/'' \<or> starts_with p ''.git/'' \<or> p = ''.git'' then Inl ''.git''
      else if p = ''Cargo.toml'' \<or> p = ''Cargo.lock'' then Inl ''Cargo.toml/Cargo.lock''
      else Inr ())"

section \<open>The archive\<close>

text \<open>The checks of one entry in the order of the loop body; \<open>Inr None\<close> is the \<open>continue\<close> on the root entry.\<close>

definition refuse :: "string \<Rightarrow> string \<Rightarrow> tar_error" where
  "refuse raw reason = Unsafe (raw @ '': '' @ reason)"

definition check_entry :: "tar_entry \<Rightarrow> string set \<Rightarrow> tar_error + string option" where
  "check_entry e seen =
     (case te_path e of
        None \<Rightarrow> Inl Malformed
      | Some raw \<Rightarrow>
          (case normalise_path raw of
             None \<Rightarrow> Inl (Unsafe raw)
           | Some norm \<Rightarrow>
               (if norm = [] then Inr None
                else case is_member_safe e of
                  Inl reason \<Rightarrow> Inl (refuse raw reason)
                | Inr _ \<Rightarrow>
                    (case check_owner_mode e of
                       Inl reason \<Rightarrow> Inl (refuse raw reason)
                     | Inr _ \<Rightarrow>
                         (case check_no_forbidden norm of
                            Inl reason \<Rightarrow> Inl (refuse raw reason)
                          | Inr _ \<Rightarrow>
                              (if \<not> prefix_allowed norm then Inl (refuse raw ''not in canonical schema'')
                               else if norm \<in> seen then Inl (refuse raw ''duplicate normalised path'')
                               else Inr (Some norm)))))))"

text \<open>The loop, with the names found so far; the set of names seen is the set of that list.\<close>

fun walk_entries :: "tar_entry option list \<Rightarrow> string list \<Rightarrow> tar_error + string list" where
  "walk_entries [] names = Inr names"
| "walk_entries (None # es) names = Inl Malformed"
| "walk_entries (Some e # es) names =
     (case check_entry e (set names) of
        Inl err \<Rightarrow> Inl err
      | Inr None \<Rightarrow> walk_entries es names
      | Inr (Some norm) \<Rightarrow> walk_entries es (names @ [norm]))"

fun check_required :: "string list \<Rightarrow> string list \<Rightarrow> tar_error + string list" where
  "check_required [] found = Inr found"
| "check_required (r # rs) found =
     (if r \<in> set found then check_required rs found
      else Inl (Unsafe (''missing required member: '' @ r)))"

definition check_required_members :: "string list \<Rightarrow> tar_error + string list" where
  "check_required_members found = check_required REQUIRED found"

text \<open>\<open>None\<close>: the reader cannot list the entries at all.\<close>

definition validate_tar :: "tar_entry option list option \<Rightarrow> tar_error + string list" where
  "validate_tar archive =
     (case archive of
        None \<Rightarrow> Inl Malformed
      | Some es \<Rightarrow>
          (case walk_entries es [] of
             Inl err \<Rightarrow> Inl err
           | Inr names \<Rightarrow> check_required_members names))"

section \<open>What is accepted is safe\<close>

text \<open>A path that stays below the directory it is unpacked in: its components are proper names.\<close>

definition confined :: "string \<Rightarrow> bool" where
  "confined p \<longleftrightarrow> (\<forall>c \<in> set (split_on CHR ''/'' p). c \<noteq> [] \<and> c \<noteq> ''.'' \<and> c \<noteq> dot_dot)"

lemma kept_components_Some:
  "kept_components cs = Some ps \<Longrightarrow>
     ps = filter (\<lambda>c. c \<noteq> [] \<and> c \<noteq> ''.'') cs \<and> dot_dot \<notin> set ps"
  by (induction cs arbitrary: ps) (auto simp: dot_dot_def split: if_splits)

lemma normalise_confined:
  assumes "normalise_path name = Some p" and "p \<noteq> []"
  shows "confined p"
proof -
  from assms obtain ps where ps: "kept_components (split_on CHR ''/'' name) = Some ps" "ps \<noteq> []" "p = join ''/'' ps"
    by (auto simp: normalise_path_def split: if_splits option.splits list.splits)
  note k = kept_components_Some [OF ps(1)]
  then have "split_on CHR ''/'' (join ''/'' ps) = ps"
    by (intro split_on_join) (auto simp: ps(2) dest: split_on_no_sep)
  with k show ?thesis by (auto simp: confined_def ps(3))
qed

lemma kept_components_fixed:
  "\<forall>c \<in> set cs. c \<noteq> [] \<and> c \<noteq> ''.'' \<and> c \<noteq> dot_dot \<Longrightarrow> kept_components cs = Some cs"
  by (induction cs) auto

text \<open>Normalising is idempotent: confined paths are its fixed points.\<close>

lemma normalise_fixed: "confined p \<Longrightarrow> normalise_path p = Some p"
proof (cases p)
  case (Cons c cs)
  assume c: "confined p"
  have "c \<noteq> CHR ''/''" using c Cons by (auto simp: confined_def)
  with Cons have "\<not> starts_with p ''/''" by (simp add: starts_with_def)
  moreover have "kept_components (split_on CHR ''/'' p) = Some (split_on CHR ''/'' p)"
    using c by (intro kept_components_fixed) (simp add: confined_def)
  ultimately show ?thesis
    using Cons join_split_on [of "CHR ''/''" p] by (auto simp: normalise_path_def split: list.splits)
qed (simp add: normalise_path_def)

definition entry_safe :: "tar_entry \<Rightarrow> bool" where
  "entry_safe e \<longleftrightarrow>
     te_type e \<notin> {Symlink, Link, BlockDevice, CharDevice, XGlobalHeader, XHeader} \<and>
     unwrap_or (te_mode e) 0 AND 0x12 = 0"

definition member_ok :: "string \<Rightarrow> bool" where
  "member_ok p \<longleftrightarrow> confined p \<and> prefix_allowed p \<and> check_no_forbidden p = Inr ()"

lemma check_entry_Some:
  "check_entry e seen = Inr (Some p) \<Longrightarrow>
     entry_safe e \<and> member_ok p \<and> p \<notin> seen \<and> (\<exists>raw. te_path e = Some raw \<and> normalise_path raw = Some p)"
  by (auto simp: check_entry_def entry_safe_def member_ok_def is_member_safe_def check_owner_mode_def Let_def
      normalise_confined split: option.splits if_splits sum.splits)

lemma check_entry_None:
  "check_entry e seen = Inr None \<Longrightarrow> \<exists>raw. te_path e = Some raw \<and> normalise_path raw = Some []"
  by (auto simp: check_entry_def split: option.splits if_splits sum.splits)

text \<open>What an entry adds to a validated archive.\<close>

fun adds :: "tar_entry option \<Rightarrow> string list" where
  "adds None = []"
| "adds (Some e) = (case Option.bind (te_path e) normalise_path of Some (c # cs) \<Rightarrow> [c # cs] | _ \<Rightarrow> [])"

definition names_ok :: "string list \<Rightarrow> bool" where
  "names_ok ps \<longleftrightarrow> distinct ps \<and> (\<forall>p \<in> set ps. member_ok p)"

lemma names_ok_snoc: "names_ok ps \<Longrightarrow> member_ok p \<Longrightarrow> p \<notin> set ps \<Longrightarrow> names_ok (ps @ [p])"
  by (simp add: names_ok_def)

lemma walk_entries_ok:
  assumes "walk_entries es names = Inr found" and "names_ok names"
  shows "found = names @ concat (map adds es) \<and> names_ok found \<and>
    (\<forall>e \<in> set es. \<exists>d. e = Some d \<and> (adds e \<noteq> [] \<longrightarrow> entry_safe d))"
  using assms
proof (induction es names rule: walk_entries.induct)
  case (3 e es names)
  show ?case
  proof (cases "check_entry e (set names)")
    case (Inr r)
    show ?thesis
    proof (cases r)
      case None
      with Inr have c: "check_entry e (set names) = Inr None" by simp
      from check_entry_None [OF this] have "adds (Some e) = []" by auto
      with 3 c show ?thesis by (auto simp del: adds.simps)
    next
      case (Some p)
      with Inr have c: "check_entry e (set names) = Inr (Some p)" by simp
      note ok = check_entry_Some [OF c]
      then have "p \<noteq> []" by (auto simp: member_ok_def confined_def)
      with ok have "adds (Some e) = [p]" by (auto split: list.splits)
      with 3 c ok show ?thesis by (auto simp: names_ok_snoc simp del: adds.simps)
    qed
  qed (use 3 in simp)
qed auto

lemma check_required_Inr: "check_required rs found = Inr r \<longleftrightarrow> r = found \<and> set rs \<subseteq> set found"
  by (induction rs) auto

text \<open>C15: An accepted archive is safe to unpack. The paths returned are those of its entries, normalised,
  with the root entries left out; they are distinct, stay below the target directory, belong to the
  canonical schema, hold none of the forbidden trees and include every required member; and no entry
  that adds a path is a link, a device or writable by group or others.\<close>

theorem validated_archive_safe:
  assumes "validate_tar (Some es) = Inr found"
  shows "found = concat (map adds es) \<and> distinct found \<and> set REQUIRED \<subseteq> set found \<and>
    (\<forall>p \<in> set found. confined p \<and> prefix_allowed p \<and> check_no_forbidden p = Inr ()) \<and>
    (\<forall>e \<in> set es. \<exists>d. e = Some d \<and> (adds e \<noteq> [] \<longrightarrow> entry_safe d))"
proof -
  from assms obtain names where w: "walk_entries es [] = Inr names" and r: "check_required REQUIRED names = Inr found"
    by (auto simp: validate_tar_def check_required_members_def split: sum.splits)
  from r have "found = names" "set REQUIRED \<subseteq> set found" by (simp_all add: check_required_Inr)
  with walk_entries_ok [OF w] show ?thesis by (auto simp: names_ok_def member_ok_def)
qed

definition ex_entry :: "string \<Rightarrow> tar_entry option" where
  "ex_entry p = Some \<lparr>te_path = Some p, te_type = Regular, te_mode = Some 0x1ED\<rparr>"

lemma ex_archive: "validate_tar (Some (ex_entry ''./'' # map ex_entry REQUIRED)) = Inr REQUIRED"
  by (simp add: validate_tar_def ex_entry_def REQUIRED_def check_entry_def normalise_path_def starts_with_def
      dot_dot_def is_member_safe_def check_owner_mode_def check_no_forbidden_def prefix_allowed_def
      CANONICAL_PREFIXES_def unwrap_or_def check_required_members_def Let_def)

lemma validated_archive_safe_witness: "list_all confined REQUIRED \<and> distinct REQUIRED"
  using validated_archive_safe [OF ex_archive] unfolding list_all_iff by blast

text \<open>The root entry is skipped before its type is looked at: a symbolic link named \<open>.\<close> is accepted.\<close>

lemma root_symlink_accepted:
  "check_entry \<lparr>te_path = Some ''./'', te_type = Symlink, te_mode = Some 0x1FF\<rparr> seen = Inr None"
  by (simp add: check_entry_def normalise_path_def starts_with_def dot_dot_def)

end
