(* ===== verification/Daemon_Types.thy ===== *)
theory Daemon_Types
  imports Session_Types
begin

text \<open>
  The daemon's side of the wire, \<^verbatim>\<open>server-rs/pantoken-daemon-types/src/lib.rs\<close>: the events of its
  stream and the payloads the translation reads. The file is committed; its types are generated from
  the daemon's schema. A payload type that nothing in the modelled code looks into is a \<open>json\<close> value.
  Arguments follow the order of the fields; in every event that has one, the subagent handle comes
  first. A variant of \<open>DaemonEvent\<close> carries \<open>D_\<close>.
\<close>

type_synonym prompt_id = string

section \<open>Payloads\<close>

datatype ask_mode = SingleSelect | MultiSelect | FreeText

record ask_option =
  ao_description :: string
  ao_id :: string
  ao_justification :: "string option"
  ao_label :: string
  ao_preview :: "string option"

record ask_question =
  aq_allow_free_text :: "bool option"
  aq_context :: "string option"
  aq_id :: string
  aq_mode :: ask_mode
  aq_options :: "ask_option list option"
  aq_question :: string

record ask_reply =
  free_text :: "string option"
  question_id :: string
  selected_option_ids :: "string list option"

datatype block_delta =
    TextDelta string
  | ToolUseInput string
  | ThinkingDelta string
  | SignatureDelta string
  | RedactedThinkingDelta string
  | ReasoningOpaqueDelta string string
  | ReasoningSummary string

datatype content_block_kind =
    TextBlock
  | ToolUseBlock (cb_id: string) (cb_name: string)
  | ThinkingBlock
  | RedactedThinkingBlock
  | ReasoningOpaqueBlock

record clarification_option =
  co_key :: string
  co_label :: string

record context_usage =
  limit_tokens :: int
  used_tokens :: int

record current_goal =
  cg_activated_at :: string
  cg_blocked_at :: "string option"
  cg_completed_at :: "string option"
  cg_continuation_count :: int
  cg_created_at :: string
  cg_file :: json
  cg_id :: string
  cg_last_reiterated_at :: "string option"
  cg_lifecycle :: string
  cg_source :: string
  cg_summary :: string
  cg_terminal_reason :: "json option"
  cg_updated_at :: string

record goal_proposal_context =
  gp_action_labels :: json
  gp_proposed_file_path :: "string option"
  gp_proposed_summary :: string
  gp_title :: string

datatype hook_outcome = HookAllowed | HookBlocked | HookSuppressed | HookError

datatype interrogative_type =
    IT_Permission | IT_Confirmation | IT_Clarification | IT_Capability | IT_PlanHandoff | IT_GoalProposal

datatype persistence_target = T_Session | T_ProjectLocal | T_Project | T_UserLocal | T_User

datatype interrogative_response =
    A_Cancel
  | A_Permission bool "persistence_target option"
  | A_Confirmation bool
  | A_ClarificationChoice string
  | A_ClarificationText string
  | A_Capability bool
  | A_PlanHandoff json
  | A_GoalProposal bool
  | A_AskUserQuestion "ask_reply list"

datatype subagent_result_kind = SubagentSuccess | SubagentFailure | SubagentCancelled

record subagent_outcome =
  so_kind :: subagent_result_kind
  so_message :: "string option"

datatype notification_type =
    JobComplete "int option"
  | HookResult
  | SubagentComplete string subagent_outcome
  | ExtensionMessage string
  | UnknownNotification

record daemon_notification =
  dn_id :: string
  dn_type :: notification_type
  dn_source :: string
  dn_summary :: string
  dn_timestamp :: string

record pending_turn_item =
  pti_admission_prompt_id :: prompt_id
  pti_content :: string
  pti_id :: string

record pending_turn_snapshot =
  pts_items :: "pending_turn_item list"
  pts_queue_revision :: int

record candidate_rule_context =
  cr_raw :: string
  cr_resolved_today :: string
  cr_default_target :: persistence_target
  cr_floor_context :: json
  cr_keep_targets :: "persistence_target list"

datatype permission_monitor =
    MonitorStandard
  | MonitorBypass
  | MonitorBypassPlus
  | MonitorAutonomous "json option" "string option" "int option"

record tool_call_context =
  tc_input :: json
  tc_tool_name :: string
  tc_tool_use_id :: string

record plan_action_labels =
  pl_cancel :: string
  pl_implement_current_context :: string
  pl_implement_new_context :: string
  pl_refuse :: "string option"

record plan_handoff_context =
  ph_action_labels :: plan_action_labels
  ph_display_path :: string
  ph_plan_path :: string
  ph_plan_text :: string
  ph_target_facet :: string
  ph_title :: string

datatype provider_error =
    RateLimited "int option"
  | AuthFailed
  | LoginRequired string
  | ModelNotFound
  | ContextTooLarge "json option"
  | Transport string "string option"
  | ProtocolMalformed string
  | Canceled
  | OtherError string string

record prompt_reference =
  pr_file_kind :: "string option"
  pr_kind :: string
  pr_name :: string

datatype reminder_reason =
    SessionStart
  | SessionResumed
  | PostCompaction string
  | PostContextCleared
  | HookAdditionalContext string
  | SkillReference string "prompt_id option"
  | FileReference string "prompt_id option"
  | SubagentReference string "prompt_id option"
  | ForcedToolCall string
  | ContextPressure
  | TaskTrackingNudge
  | TodoStatusNudge
  | GoalReminder
  | PlanModeReinforcement
  | PlanReviewRequired
  | PlanVerification
  | CwdChanged
  | WorkingDirectoryDeleted
  | ReminderMcpDisabled string
  | ReminderMcpEnabled string
  | PermissionRuleMessage string
  | EmptyResponseNudge
  | NotificationDrain
  | PlanReentryTodoCleanup

datatype exposure_reason =
    ModelChanged
  | FacetChanged
  | ReloadAffectedToolLoading
  | CompactionReset
  | EagerFallbackActivated
  | EditFormatRelocked string string

section \<open>Events\<close>

datatype (plugins only: size) daemon_event =
    D_Heartbeat "string option" string
  | D_ContentBlockStart "string option" int content_block_kind prompt_id
  | D_ContentBlockDelta "string option" int block_delta prompt_id
  | D_ContentBlockStop "string option" int prompt_id
  | D_MessageStart "string option" prompt_id
  | D_MessageComplete "string option" prompt_id
  | D_PendingTurnInputQueued "string option" prompt_id string string int
  | D_PendingTurnInputDequeued "string option" string int
  | D_PendingTurnInputDrained "string option" "prompt_id list" string prompt_id "string list" int int
      "prompt_reference list option"
  | D_PendingTurnInputDiscarded "string option" "prompt_id list option" "string option" "string list"
      "prompt_reference list option" int string "string option"
  | D_TurnCancelled "string option" prompt_id json
  | D_ModelError "string option" provider_error prompt_id
  | D_StreamDiscontinuity "string option" int
  | D_ToolCall "string option" string "json option" string prompt_id
  | D_ToolResult "string option" string "string option" "json option" "bool option" prompt_id
  | D_JobPromoted "string option" string
  | D_JobCompleted "string option" int string
  | D_JobExpiring "string option" string
  | D_JobCancelled "string option" string
  | D_JobUpdated "string option" string
  | D_SessionRewound "string option" int "prompt_id option"
  | D_SessionStateChanged "string option" "string list"
  | D_SessionTitleChanged "string option" json string
  | D_FacetSwitch "string option" string string
  | D_ContextCleared "string option" string "string option"
  | D_ModelSwitch "string option" string "string option" string "string option"
  | D_PermissionMonitorSwitch "string option" permission_monitor permission_monitor
  | D_Interrogative "string option" "clarification_option list option" "json option"
      "goal_proposal_context option" string interrogative_type "candidate_rule_context option"
      "tool_call_context option" "plan_handoff_context option" prompt_id string
  | D_AskUserQuestion "string option" string "ask_question list" prompt_id
  | D_HookFired "string option" string string hook_outcome
  | D_ContextLoaded "string option" string string
  | D_CompactionStarted "string option" string json
  | D_CompactionComplete "string option" string int int int
  | D_CompactionCancelled "string option" string json
  | D_CompactionFailed "string option" string json
  | D_SubagentCompactionNotice "string option" string string string
  | D_NotificationQueued "string option" daemon_notification
  | D_NotificationsDrained "string option" int
  | D_NotificationAutodrainSwitch bool
  | D_SystemReminder "string option" string string string reminder_reason string
  | D_ToolReveal "string option" prompt_id json "string list"
  | D_ToolExposureChanged "string option" "int option" int json exposure_reason int
  | D_GoalDriverUpdate "string option" "current_goal option" "string option" string
  | D_ClassifierDecision "string option" string json prompt_id "string option" string
  | D_ExtensionRegistered "string option" string
  | D_SubagentStarted string string string
  | D_SubagentCompleted string subagent_outcome string
  | D_McpServerConnected int string int json
  | D_McpServerDisconnected string string json
  | D_McpServerReconnecting int int string json
  | D_McpServerDisabled string string json
  | D_ImageReferenceResolved "string option" int string string prompt_id
  | D_UsageThrottle "string option" json "prompt_id option" string json
  | D_RetryWait "string option" int int string string int prompt_id
  | D_AgentBlockViolation "string option" string "prompt_id option" string

section \<open>The state snapshot\<close>

datatype daemon_flag_mode = FlagIncluded | FlagReferenced

record flag_entry =
  fe_mode :: daemon_flag_mode
  fe_path :: string

datatype daemon_todo_status = TodoPending | TodoInProgress | TodoDone | TodoBlocked

record todo_snapshot =
  ts_dependencies :: "int list"
  ts_description :: string
  ts_emitted_at :: "string option"
  ts_id :: int
  ts_status :: daemon_todo_status
  ts_title :: string

datatype daemon_mcp_status = McpConnected | McpDisconnected | McpReconnecting | McpDisabled

record mcp_status_entry =
  me_server_name :: string
  me_status :: daemon_mcp_status
  me_tool_count :: int

text \<open>The fields of \<open>SessionStateSnapshot\<close> that the modelled code reads; the others (environment,
  available models and skills, source control and the like) are left out.\<close>

record state_snapshot =
  active_facet :: string
  active_model :: "string option"
  st_active_plan :: "string option"
  active_reasoning_effort :: "string option"
  adventurous_handoff_active :: "bool option"
  st_context_usage :: "context_usage option"
  st_current_goal :: "current_goal option"
  st_flags :: "flag_entry list"
  st_mcp_servers :: "mcp_status_entry list option"
  session_title :: "string option"
  st_todos :: "todo_snapshot list"
  turn_in_flight :: "bool option"
  state_cwd :: "string option"
  project_cwd :: "string option"
  available_skills :: "string list option"
  available_subagents :: "string list option"

end
