(* ===== verification/Ui_Bridge.thy ===== *)
theory Ui_Bridge
  imports Daemon_Types "HOL-Library.Monad_Syntax"
begin

text \<open>
  Answers of the operator, translated back for the daemon:
  \<^verbatim>\<open>server-rs/pantoken-server/src/polytoken/ui_bridge.rs\<close>. A pending interrogative holds what the
  forward translation (theory \<open>Event_Map\<close>) captured; \<open>None\<close> is an answer whose shape does not fit it.
\<close>

section \<open>Pending interrogatives\<close>

datatype pending_type =
    P_Permission | P_Confirmation | P_Clarification | P_Capability | P_PlanHandoff | P_GoalProposal
  | P_AskUserQuestion | P_Unknown

fun pending_type_from :: "interrogative_type \<Rightarrow> pending_type" where
  "pending_type_from IT_Permission = P_Permission"
| "pending_type_from IT_Confirmation = P_Confirmation"
| "pending_type_from IT_Clarification = P_Clarification"
| "pending_type_from IT_Capability = P_Capability"
| "pending_type_from IT_PlanHandoff = P_PlanHandoff"
| "pending_type_from IT_GoalProposal = P_GoalProposal"

record pending_question =
  pq_question_id :: string
  option_ids :: "string list"
  option_labels :: "string list option"

record approval_choice =
  granted :: bool
  persistence_target :: "persistence_target option"

record pending_interrogative =
  interrogative_id :: string
  interrogative_type :: pending_type
  clarification_labels :: "string list option"
  clarification_option_keys :: "string list option"
  plan_handoff_labels :: "string list option"
  questions :: "pending_question list option"
  permission_choices :: "approval_choice list option"

section \<open>Approval choices\<close>

definition PERMISSION_APPROVAL_CHOICES :: "approval_choice list" where
  "PERMISSION_APPROVAL_CHOICES =
     [\<lparr>granted = False, persistence_target = None\<rparr>,
      \<lparr>granted = True, persistence_target = None\<rparr>,
      \<lparr>granted = True, persistence_target = Some T_Session\<rparr>,
      \<lparr>granted = True, persistence_target = Some T_ProjectLocal\<rparr>,
      \<lparr>granted = True, persistence_target = Some T_Project\<rparr>,
      \<lparr>granted = True, persistence_target = Some T_UserLocal\<rparr>,
      \<lparr>granted = True, persistence_target = Some T_User\<rparr>]"

definition PERMISSION_APPROVAL_LABELS :: "string list" where
  "PERMISSION_APPROVAL_LABELS =
     [''Deny'', ''Allow once'', ''Allow for session'', ''Allow for project (local)'',
      ''Allow for project'', ''Allow for user (local)'', ''Allow for user'']"

definition PLAN_HANDOFF_DECISIONS :: "string list" where
  "PLAN_HANDOFF_DECISIONS = [''implement_new_context'', ''implement_current_context'', ''cancel'']"

text \<open>\<open>iter().position(|x| x == v)\<close> and \<open>get(i)\<close>.\<close>

fun position :: "'a \<Rightarrow> 'a list \<Rightarrow> nat option" where
  "position v [] = None"
| "position v (x # xs) = (if x = v then Some 0 else map_option Suc (position v xs))"

definition get :: "'a list \<Rightarrow> nat \<Rightarrow> 'a option" where
  "get xs i = (if i < length xs then Some (xs ! i) else None)"

definition approval_from_index :: "nat \<Rightarrow> approval_choice option" where
  "approval_from_index idx = get PERMISSION_APPROVAL_CHOICES idx"

definition prune_approval_options :: "persistence_target list option \<Rightarrow> approval_choice list" where
  "prune_approval_options keep_targets =
     (case keep_targets of
        None \<Rightarrow> PERMISSION_APPROVAL_CHOICES
      | Some targets \<Rightarrow>
          (if targets = [] then PERMISSION_APPROVAL_CHOICES
           else filter (\<lambda>choice. case persistence_target choice of
                          None \<Rightarrow> True | Some t \<Rightarrow> t \<in> set targets) PERMISSION_APPROVAL_CHOICES))"

section \<open>The response\<close>

definition build_ask_user_question_reply ::
    "nat \<Rightarrow> qna_answer \<Rightarrow> pending_question list \<Rightarrow> ask_reply" where
  "build_ask_user_question_reply i ans qs =
     (let q = get qs i;
          ids = (case q of Some q \<Rightarrow> option_ids q | None \<Rightarrow> []);
          selected = List.map_filter
            (\<lambda>idx. if 0 \<le> idx then get ids (nat idx) else None) (selected_option_indices ans)
      in \<lparr>free_text = (if custom_text ans = [] then None else Some (custom_text ans)),
          question_id = (case q of Some q \<Rightarrow> pq_question_id q | None \<Rightarrow> []),
          selected_option_ids = Some selected\<rparr>)"

definition clarification_response :: "pending_interrogative \<Rightarrow> string \<Rightarrow> interrogative_response option" where
  "clarification_response p value =
     (case (clarification_labels p, clarification_option_keys p) of
        (Some labels, Some keys) \<Rightarrow>
          (if labels = [] then Some (A_ClarificationText value)
           else do {
             idx \<leftarrow> position value labels;
             key \<leftarrow> get keys idx;
             Some (A_ClarificationChoice key) })
      | _ \<Rightarrow> Some (A_ClarificationText value))"

definition plan_handoff_response :: "pending_interrogative \<Rightarrow> string \<Rightarrow> interrogative_response option" where
  "plan_handoff_response p value = do {
     labels \<leftarrow> plan_handoff_labels p;
     idx \<leftarrow> position value labels;
     decision \<leftarrow> get PLAN_HANDOFF_DECISIONS idx;
     Some (A_PlanHandoff (J_String decision)) }"

definition permission_response :: "pending_interrogative \<Rightarrow> string \<Rightarrow> interrogative_response option" where
  "permission_response p value = do {
     idx \<leftarrow> position value PERMISSION_APPROVAL_LABELS;
     choice \<leftarrow> approval_from_index idx;
     if (\<exists>choices. permission_choices p = Some choices \<and> choice \<notin> set choices) then None
     else Some (A_Permission (granted choice) (persistence_target choice)) }"

fun response_for :: "pending_type \<Rightarrow> pending_interrogative \<Rightarrow> host_ui_response \<Rightarrow>
    interrogative_response option" where
  "response_for P_Confirmation p (R_Confirmed _ confirmed) = Some (A_Confirmation confirmed)"
| "response_for P_Clarification p (R_Value _ value) = clarification_response p value"
| "response_for P_Clarification p (R_Answers _ answers) =
     Some (A_ClarificationText (case answers of [] \<Rightarrow> [] | a # _ \<Rightarrow> custom_text a))"
| "response_for P_Capability p (R_Confirmed _ confirmed) = Some (A_Capability confirmed)"
| "response_for P_PlanHandoff p (R_Value _ value) = plan_handoff_response p value"
| "response_for P_Permission p (R_Value _ value) = permission_response p value"
| "response_for P_AskUserQuestion p (R_Answers _ answers) =
     Some (A_AskUserQuestion
       (map (\<lambda>(i, ans). build_ask_user_question_reply i ans (unwrap_or (questions p) []))
         (enumerate 0 answers)))"
| "response_for P_GoalProposal p (R_Confirmed _ confirmed) = Some (A_GoalProposal confirmed)"
| "response_for P_Unknown p _ = Some A_Cancel"
| "response_for _ p _ = None"

fun build_interrogative_response ::
    "pending_interrogative \<Rightarrow> host_ui_response \<Rightarrow> interrogative_response option" where
  "build_interrogative_response p (R_Cancelled _ _) = Some A_Cancel"
| "build_interrogative_response p response = response_for (interrogative_type p) p response"

section \<open>Lemmas\<close>

lemma position_Some: "position v xs = Some i \<Longrightarrow> i < length xs \<and> xs ! i = v"
  by (induction xs arbitrary: i) (auto split: if_splits)

lemma position_None [simp]: "position v xs = None \<longleftrightarrow> v \<notin> set xs"
  by (induction xs) auto

lemma position_nth [simp]: "distinct xs \<Longrightarrow> i < length xs \<Longrightarrow> position (xs ! i) xs = Some i"
proof (induction xs arbitrary: i)
  case (Cons x xs)
  then show ?case by (cases i) auto
qed simp

lemma get_nth [simp]: "i < length xs \<Longrightarrow> get xs i = Some (xs ! i)"
  by (simp add: get_def)

lemma get_Some: "get xs i = Some x \<longleftrightarrow> i < length xs \<and> xs ! i = x"
  by (auto simp: get_def)

lemma approval_lengths: "length PERMISSION_APPROVAL_CHOICES = 7" "length PERMISSION_APPROVAL_LABELS = 7"
  by (simp_all add: PERMISSION_APPROVAL_CHOICES_def PERMISSION_APPROVAL_LABELS_def)

lemma distinct_approvals: "distinct PERMISSION_APPROVAL_CHOICES" "distinct PERMISSION_APPROVAL_LABELS"
  by (simp_all add: PERMISSION_APPROVAL_CHOICES_def PERMISSION_APPROVAL_LABELS_def)

lemma prune_subset: "set (prune_approval_options keep) \<subseteq> set PERMISSION_APPROVAL_CHOICES"
  by (auto simp: prune_approval_options_def split: option.splits)

lemma distinct_prune: "distinct (prune_approval_options keep)"
  by (simp add: prune_approval_options_def distinct_approvals split: option.split)

text \<open>What pruning keeps: both choices without a target, and the targets the rule names, if any.\<close>

lemma in_prune:
  "c \<in> set (prune_approval_options keep) \<longleftrightarrow> c \<in> set PERMISSION_APPROVAL_CHOICES \<and>
     (case (keep, persistence_target c) of
        (Some (t # ts), Some x) \<Rightarrow> x \<in> set (t # ts) | _ \<Rightarrow> True)"
  by (auto simp: prune_approval_options_def split: option.splits list.splits)

end
