(* ===== verification/Usage.thy ===== *)
theory Usage
  imports Daemon_Types Complex_Main "HOL-Library.Log_Nat"
begin

text \<open>
  The context meter of \<^verbatim>\<open>server-rs/pantoken-server/src/polytoken/event_map.rs\<close>: the percentage is
  computed in \<open>f64\<close>. A double in the range that occurs here (no overflow, no subnormal numbers) is a
  rational; every operation rounds its exact result to 53 bits, ties to even. The value that is sent
  is an integer, and \<open>f64_of_int\<close> is its bit pattern.
\<close>

section \<open>Doubles\<close>

definition round_even :: "rat \<Rightarrow> int" where
  "round_even x = (let f = \<lfloor>x\<rfloor>; d = x - of_int f in
     if d < 1/2 then f else if 1/2 < d then f + 1 else if even f then f else f + 1)"

text \<open>The binary exponent of a positive rational.\<close>

definition exponent :: "rat \<Rightarrow> int" where
  "exponent x = (let (n, d) = quotient_of x; k = bitlen n - bitlen d
     in if 2 powi k \<le> x then k else k - 1)"

definition double :: "rat \<Rightarrow> rat" where
  "double x = (if x = 0 then 0
     else let ulp = 2 powi (exponent \<bar>x\<bar> - 52) in of_int (round_even (x / ulp)) * ulp)"

text \<open>\<open>f64::round\<close>: half away from zero. Its result keeps the sign of its argument, so the
  argument's sign comes with it.\<close>

definition round_away :: "rat \<Rightarrow> bool \<times> int" where
  "round_away x = (x < 0, \<lfloor>\<bar>x\<bar> + 1/2\<rfloor>)"

definition f64_of_int :: "bool \<times> int \<Rightarrow> f64" where
  "f64_of_int v = (case v of (negative, n) \<Rightarrow>
     word_of_int ((if negative then 2 ^ 63 else 0) +
       (if n = 0 then 0
        else let e = nat (bitlen n - 1) in (int e + 1023) * 2 ^ 52 + (n * 2 ^ (52 - e) - 2 ^ 52))))"

section \<open>The usage\<close>

definition percent_of :: "int \<Rightarrow> int \<Rightarrow> bool \<times> int" where
  "percent_of used limit = round_away (double (double (of_int used / of_int limit) * 100))"

definition usage_from_state :: "state_snapshot option \<Rightarrow> session_usage option" where
  "usage_from_state st = (case st of
     None \<Rightarrow> None
   | Some s \<Rightarrow> map_option (\<lambda>cu.
       \<lparr>tokens = Some (used_tokens cu), context_window = limit_tokens cu,
        percent = (if 0 < limit_tokens cu
                   then Some (f64_of_int (percent_of (used_tokens cu) (limit_tokens cu))) else None)\<rparr>)
       (st_context_usage s))"

section \<open>Rounding keeps bounds\<close>

lemma round_even_mono_int: "x \<le> of_int n \<Longrightarrow> round_even x \<le> n"
  and round_even_nonneg: "0 \<le> x \<Longrightarrow> 0 \<le> round_even x"
proof -
  show "round_even x \<le> n" if "x \<le> of_int n"
  proof (cases "x = of_int n")
    case True
    then show ?thesis by (simp add: round_even_def)
  next
    case False
    with that have "x < of_int n" by simp
    then have "\<lfloor>x\<rfloor> < n" by (simp add: floor_less_iff)
    then show ?thesis by (simp add: round_even_def Let_def)
  qed
  show "0 \<le> x \<Longrightarrow> 0 \<le> round_even x"
    by (simp add: round_even_def Let_def)
qed


lemma bitlen_between:
  assumes "0 < n"
  shows "2 powi (bitlen n - 1) \<le> (of_int n :: rat)" and "of_int n < (2 powi bitlen n :: rat)"
proof -
  have "0 < bitlen n" using assms using bitlen_bounds [OF assms] by (cases "bitlen n = 0") (use assms bitlen_nonneg [of n] in auto)
  then obtain k where k: "bitlen n = int (Suc k)" by (metis zero_less_imp_eq_int gr0_implies_Suc)
  from bitlen_bounds [OF assms] have b: "2 ^ k \<le> n" "n < 2 ^ Suc k" by (simp_all add: k nat_add_distrib)
  have "of_int (2 ^ k) \<le> (of_int n :: rat)" "(of_int n :: rat) < of_int (2 ^ Suc k)"
    using b by (simp_all only: of_int_le_iff of_int_less_iff)
  then show "2 powi (bitlen n - 1) \<le> (of_int n :: rat)" "of_int n < (2 powi bitlen n :: rat)"
    by (simp_all add: k power_int_def nat_add_distrib)
qed

lemma exponent_between:
  assumes "0 < x"
  shows "2 powi exponent x \<le> x" and "x < 2 powi (exponent x + 1)"
proof -
  obtain n d where q: "quotient_of x = (n, d)" by fastforce
  from q have d: "0 < d" and x: "x = of_int n / of_int d"
    by (simp_all add: quotient_of_denom_pos quotient_of_div)
  from assms d x have n: "0 < n" by (simp add: zero_less_divide_iff)
  note bn = bitlen_between [OF n] and bd = bitlen_between [OF d]
  have d': "(0::rat) < of_int d" using d by simp
  have "2 powi (bitlen n - bitlen d - 1) * of_int d \<le> 2 powi (bitlen n - bitlen d - 1) * (2 powi bitlen d :: rat)"
    using bd(2) by (intro mult_left_mono) auto
  also have "\<dots> = 2 powi (bitlen n - 1)" by (simp add: power_int_add [symmetric])
  also note bn(1)
  finally have lo: "2 powi (bitlen n - bitlen d - 1) \<le> x" using d' by (simp add: x pos_le_divide_eq)
  have "of_int n < (2 powi bitlen n :: rat)" by (rule bn(2))
  also have "\<dots> = 2 powi (bitlen n - bitlen d + 1) * 2 powi (bitlen d - 1)" by (simp add: power_int_add [symmetric])
  also have "\<dots> \<le> 2 powi (bitlen n - bitlen d + 1) * of_int d"
    using bd(1) by (intro mult_left_mono) auto
  finally have hi: "x < 2 powi (bitlen n - bitlen d + 1)" using d' by (simp add: x pos_divide_less_eq)
  show "2 powi exponent x \<le> x" using lo by (simp add: exponent_def q Let_def)
  show "x < 2 powi (exponent x + 1)" using hi by (simp add: exponent_def q Let_def)
qed

lemma double_nonneg: "0 \<le> x \<Longrightarrow> 0 \<le> double x"
  by (simp add: double_def Let_def round_even_nonneg)

text \<open>Rounding does not pass an integer below \<open>2 ^ 53\<close>: integers are doubles.\<close>

lemma double_le_int:
  assumes "0 \<le> x" and "x \<le> of_nat c" and "c < 2 ^ 53"
  shows "double x \<le> of_nat c"
proof (cases "x = 0")
  case False
  with assms(1) have x: "0 < x" by simp
  have "2 powi exponent x \<le> x" by (rule exponent_between [OF x])
  also have "x < 2 powi 53"
  proof -
    have "(of_nat c :: rat) < of_nat (2 ^ 53)" using assms(3) by (simp only: of_nat_less_iff)
    with assms(2) show ?thesis by simp
  qed
  finally have "exponent x < 53" using power_int_increasing [of 53 "exponent x" "2 :: rat"] by force
  then have "0 \<le> 52 - exponent x" by simp
  then obtain k where "52 - exponent x = int k" by (rule nonneg_int_cases)
  then have k: "exponent x - 52 = - int k" by simp
  have "x / 2 powi (- int k) \<le> of_int (int c * 2 ^ k)"
    using assms(2) by (simp add: power_int_minus divide_inverse)
  then have "round_even (x / 2 powi (- int k)) \<le> int c * 2 ^ k" by (rule round_even_mono_int)
  then have "(of_int (round_even (x / 2 powi (- int k))) :: rat) \<le> of_int (int c * 2 ^ k)"
    by (simp only: of_int_le_iff)
  then have "of_int (round_even (x / 2 powi (- int k))) * 2 powi (- int k) \<le> (of_int (int c * 2 ^ k) * 2 powi (- int k) :: rat)"
    by (intro mult_right_mono) auto
  also have "\<dots> = of_nat c" by (simp add: power_int_minus)
  finally show ?thesis using x by (simp add: double_def k Let_def)
qed (simp add: double_def)

text \<open>The context meter stays on its scale: for a positive limit and a use between zero and the
  limit, the percentage that is sent is the double of a whole number from 0 to 100, in spite of the
  two roundings on the way.\<close>

theorem usage_percent_bounded:
  assumes "st_context_usage st = Some cu"
    and "0 < limit_tokens cu" and "0 \<le> used_tokens cu" and "used_tokens cu \<le> limit_tokens cu"
  shows "\<exists>k. 0 \<le> k \<and> k \<le> 100 \<and> usage_from_state (Some st) =
    Some \<lparr>tokens = Some (used_tokens cu), context_window = limit_tokens cu, percent = Some (f64_of_int (False, k))\<rparr>"
proof -
  let ?q = "of_int (used_tokens cu) / of_int (limit_tokens cu) :: rat"
  have q: "0 \<le> ?q" "?q \<le> of_nat 1" using assms by (simp_all add: divide_le_eq)
  have d: "0 \<le> double ?q" "double ?q \<le> 1" using double_nonneg [OF q(1)] double_le_int [OF q] by simp_all
  define p where "p = double (double ?q * 100)"
  have p: "0 \<le> p" "p \<le> 100"
    using double_nonneg [of "double ?q * 100"] double_le_int [of "double ?q * 100" 100] d by (simp_all add: p_def)
  then have "\<lfloor>p + 1/2\<rfloor> < 101" by (simp add: floor_less_iff)
  then have "\<lfloor>p + 1/2\<rfloor> \<le> 100" by linarith
  with p show ?thesis
    using assms by (intro exI [of _ "\<lfloor>p + 1/2\<rfloor>"])
      (simp add: usage_from_state_def percent_of_def round_away_def p_def [symmetric])
qed

definition ex_daemon_state :: "int \<Rightarrow> int \<Rightarrow> state_snapshot" where
  "ex_daemon_state used limit =
     \<lparr>active_facet = ''code'', active_model = None, st_active_plan = None, active_reasoning_effort = None,
      adventurous_handoff_active = None,
      st_context_usage = Some \<lparr>limit_tokens = limit, used_tokens = used\<rparr>, st_current_goal = None,
      st_flags = [], st_mcp_servers = None, session_title = None, st_todos = [], turn_in_flight = None,
      state_cwd = None, project_cwd = None, available_skills = None, available_subagents = None\<rparr>"

lemma usage_percent_bounded_witness:
  "\<exists>k. 0 \<le> k \<and> k \<le> 100 \<and> usage_from_state (Some (ex_daemon_state 150 200)) =
     Some \<lparr>tokens = Some 150, context_window = 200, percent = Some (f64_of_int (False, k))\<rparr>"
  using usage_percent_bounded [of "ex_daemon_state 150 200" "\<lparr>limit_tokens = 200, used_tokens = 150\<rparr>"]
  by (simp add: ex_daemon_state_def)

lemma percent_example: "percent_of 150 200 = (False, 75)" and percent_bits: "f64_of_int (False, 75) = 0x4052C00000000000"
  by code_simp+

end
