(* ===== verification/Event_Map.thy ===== *)
theory Event_Map
  imports Ui_Bridge Usage Text_Clip
begin

text \<open>
  The translation of daemon events into session events:
  \<^verbatim>\<open>server-rs/pantoken-server/src/polytoken/event_map.rs\<close>. The accumulator is threaded through; the
  context is what the driver offers for the duration of one event, its clock included. Parsing and
  printing of JSON is serde's and comes in \<open>serde\<close>. Only the preview of a permission card can panic
  (it slices a string at a byte); \<open>None\<close> is that panic.
\<close>

section \<open>Accumulator, context, effects\<close>

datatype block_kind = BK_Text | BK_ToolUse | BK_Thinking | BK_RedactedThinking | BK_ReasoningOpaque

record tool_use_meta =
  tu_id :: string
  tu_name :: string

record turn_failure =
  tf_message :: string

record fold_accumulator =
  block_kind :: "block_kind option"
  tool_input_buffer :: string
  tool_use_block :: "tool_use_meta option"
  turn_error :: "turn_failure option"

definition create_accumulator :: fold_accumulator where
  "create_accumulator =
     \<lparr>block_kind = None, tool_input_buffer = [], tool_use_block = None, turn_error = None\<rparr>"

definition reset_accumulator :: "fold_accumulator \<Rightarrow> fold_accumulator" where
  "reset_accumulator acc =
     acc\<lparr>block_kind := None, tool_input_buffer := [], tool_use_block := None, turn_error := None\<rparr>"

record map_ctx =
  ctx_ref :: session_ref
  ctx_workspace :: workspace_ref
  ctx_now :: timestamp
  ctx_snapshot :: "session_status \<Rightarrow> session_snapshot"
  ctx_live_status :: session_status

record serde =
  from_str :: "string \<Rightarrow> json option"
  to_string_pretty :: "json \<Rightarrow> string option"
  value_to_string :: "json \<Rightarrow> string"

datatype fetch_emit = EmitRunCompleted | EmitSessionUpdated

datatype daemon_effect =
    FetchState fetch_emit "prompt_id option"
  | Reseed
  | RefetchQueue
  | SetMonitorMode permission_monitor_mode
  | SetAutodrainEnabled bool
  | RegisterInterrogative pending_interrogative

record fold_outcome =
  events :: "session_driver_event list"
  effects :: "daemon_effect list"

definition fold_result :: "session_driver_event list \<Rightarrow> daemon_effect list \<Rightarrow> fold_outcome" where
  "fold_result evs effs = \<lparr>events = evs, effects = effs\<rparr>"

abbreviation nothing :: fold_outcome where "nothing \<equiv> fold_result [] []"

definition event_meta :: "map_ctx \<Rightarrow> event_base" where
  "event_meta ctx = \<lparr>eb_session_ref = ctx_ref ctx, eb_timestamp = ctx_now ctx, eb_run_id = None\<rparr>"

definition notify :: "event_base \<Rightarrow> string \<Rightarrow> string \<Rightarrow> notify_level \<Rightarrow> session_driver_event" where
  "notify base request_id message level = E_HostUiRequest base (H_Notify request_id message (Some level))"

section \<open>Messages\<close>

definition notification_message :: "daemon_notification \<Rightarrow> string" where
  "notification_message n =
     (case dn_type n of
        JobComplete (Some code) \<Rightarrow> ''Job completed (exit '' @ show_int code @ '')''
      | JobComplete None \<Rightarrow> ''Job completed''
      | SubagentComplete handle outcome \<Rightarrow>
          ''Subagent '' @ handle @ '' '' @
            (case so_kind outcome of SubagentSuccess \<Rightarrow> ''Success'' | SubagentFailure \<Rightarrow> ''Failure''
             | SubagentCancelled \<Rightarrow> ''Cancelled'')
      | HookResult \<Rightarrow> dn_summary n
      | ExtensionMessage _ \<Rightarrow> dn_summary n
      | UnknownNotification \<Rightarrow> dn_summary n)"

fun plan_review_label :: "reminder_reason \<Rightarrow> string option" where
  "plan_review_label PlanReviewRequired = Some ''Plan review required''"
| "plan_review_label PlanModeReinforcement = Some ''Plan mode reminder''"
| "plan_review_label PlanVerification = Some ''Plan verification''"
| "plan_review_label _ = None"

fun provider_error_message :: "provider_error \<Rightarrow> string" where
  "provider_error_message (RateLimited (Some secs)) = ''Rate limited (retry in '' @ show_int secs @ ''s)''"
| "provider_error_message (RateLimited None) = ''Rate limited''"
| "provider_error_message AuthFailed = ''Authentication failed''"
| "provider_error_message (LoginRequired profile) = ''Login required ('' @ profile @ '')''"
| "provider_error_message ModelNotFound = ''Model not found''"
| "provider_error_message (ContextTooLarge _) = ''Context too large''"
| "provider_error_message (Transport message _) = ''Transport error: '' @ message"
| "provider_error_message (ProtocolMalformed detail) = ''Protocol error: '' @ detail"
| "provider_error_message Canceled = ''Request canceled''"
| "provider_error_message (OtherError code message) = code @ '': '' @ message"

section \<open>Snapshots\<close>

fun project_goal :: "current_goal option option \<Rightarrow> goal_info option option" where
  "project_goal (Some (Some g)) = Some (Some \<lparr>summary = cg_summary g, lifecycle = cg_lifecycle g\<rparr>)"
| "project_goal (Some None) = Some None"
| "project_goal None = None"

fun flag_mode :: "daemon_flag_mode \<Rightarrow> flagged_file_mode" where
  "flag_mode FlagIncluded = Included"
| "flag_mode FlagReferenced = Referenced"

fun project_todo_status :: "daemon_todo_status \<Rightarrow> todo_status" where
  "project_todo_status TodoPending = Pending"
| "project_todo_status TodoInProgress = InProgress"
| "project_todo_status TodoDone = Done"
| "project_todo_status TodoBlocked = Blocked"

fun project_mcp_status :: "daemon_mcp_status \<Rightarrow> mcp_server_status" where
  "project_mcp_status McpConnected = Connected"
| "project_mcp_status McpDisconnected = Disconnected"
| "project_mcp_status McpReconnecting = Reconnecting"
| "project_mcp_status McpDisabled = Disabled"

definition project_todo :: "todo_snapshot \<Rightarrow> todo_item" where
  "project_todo t =
     \<lparr>todo_id = ts_id t, todo_title = ts_title t, todo_description = ts_description t,
      todo_item_status = project_todo_status (ts_status t), todo_dependencies = ts_dependencies t,
      todo_created_at = ts_emitted_at t\<rparr>"

definition project_mcp :: "mcp_status_entry \<Rightarrow> mcp_server_info" where
  "project_mcp s =
     \<lparr>server_name = me_server_name s, mcp_status = project_mcp_status (me_status s),
      tool_count = me_tool_count s\<rparr>"

definition snapshot_from_state ::
    "state_snapshot option \<Rightarrow> session_ref \<Rightarrow> workspace_ref \<Rightarrow> session_status \<Rightarrow> timestamp \<Rightarrow>
     permission_monitor_mode option \<Rightarrow> bool option \<Rightarrow> session_snapshot" where
  "snapshot_from_state st sref ws status now monitor_mode autodrain =
     \<lparr>s_ref = sref, s_workspace = ws,
      s_title = unwrap_or (Option.bind st session_title) (session_id_of sref),
      s_status = status, s_updated_at = now, s_archived_at = None, s_preview = None,
      s_config = map_option
        (\<lambda>m. \<lparr>model_id = Some m, thinking_level = Option.bind st active_reasoning_effort,
              available_thinking_levels = None\<rparr>) (Option.bind st active_model),
      s_usage = usage_from_state st, s_running_run_id = None, s_queued_messages = None,
      s_facet = map_option active_facet st, s_permission_monitor = monitor_mode,
      s_adventurous_handoff =
        (case or_else (Option.bind st adventurous_handoff_active) (Some False) of
           Some v \<Rightarrow> (if v then Some v else None) | None \<Rightarrow> None),
      s_notification_autodrain = autodrain, s_active_plan = Option.bind st st_active_plan,
      s_goal = project_goal (map_option st_current_goal st),
      s_flags = map_option
        (\<lambda>s. map (\<lambda>f. \<lparr>ff_path = fe_path f, ff_mode = flag_mode (fe_mode f)\<rparr>) (st_flags s)) st,
      s_todos = map_option (\<lambda>s. map project_todo (st_todos s)) st,
      s_mcp_servers = map_option (map project_mcp) (Option.bind st st_mcp_servers)\<rparr>"

section \<open>Tool input and results\<close>

definition parse_tool_input :: "serde \<Rightarrow> string \<Rightarrow> json option" where
  "parse_tool_input js buffer =
     (if buffer = [] then None
      else case from_str js buffer of Some v \<Rightarrow> Some v | None \<Rightarrow> Some (J_String buffer))"

fun as_object :: "json \<Rightarrow> (string \<times> json) list option" where
  "as_object (J_Object members) = Some members"
| "as_object _ = None"

fun as_array :: "json \<Rightarrow> json list option" where
  "as_array (J_Array xs) = Some xs"
| "as_array _ = None"

fun as_str :: "json \<Rightarrow> string option" where
  "as_str (J_String s) = Some s"
| "as_str _ = None"

definition field :: "json \<Rightarrow> string \<Rightarrow> json option" where
  "field v k = do { members \<leftarrow> as_object v; map_of members k }"

definition field_str :: "json \<Rightarrow> string \<Rightarrow> string option" where
  "field_str v k = do { x \<leftarrow> field v k; as_str x }"

record tool_result_extract =
  tr_output :: "json option"
  tr_images :: "image_content list option"

definition text_output :: "string \<Rightarrow> string option \<Rightarrow> tool_result_extract" where
  "text_output text content =
     \<lparr>tr_output = Some (J_String (if text = [] then unwrap_or content [] else text)), tr_images = None\<rparr>"

definition image_variant :: "json \<Rightarrow> string option \<Rightarrow> tool_result_extract option" where
  "image_variant cf content = do {
     img \<leftarrow> field cf ''image'';
     data \<leftarrow> field_str img ''data'';
     media_type \<leftarrow> field_str img ''media_type'';
     Some \<lparr>tr_output = Some (J_String (unwrap_or (or_else
              (case field_str img ''text_fallback'' of
                 Some t \<Rightarrow> (if t = [] then None else Some t) | None \<Rightarrow> None) content) [])),
           tr_images = Some [Image data media_type]\<rparr> }"

definition block_text :: "json \<Rightarrow> string option" where
  "block_text b = (if field_str b ''type'' = Some ''text'' then field_str b ''text'' else None)"

definition rich_variant :: "json \<Rightarrow> string option \<Rightarrow> tool_result_extract option" where
  "rich_variant cf content =
     (case image_variant cf content of
        Some r \<Rightarrow> Some r
      | None \<Rightarrow>
          (case field_str cf ''text'' of
             Some text \<Rightarrow> Some (text_output text content)
           | None \<Rightarrow>
               (case Option.bind (field cf ''blocks'') as_array of
                  Some blocks \<Rightarrow> Some (text_output (concat (List.map_filter block_text blocks)) content)
                | None \<Rightarrow>
                    (case Option.bind (field cf ''diff_preview'') as_object of
                       Some dp \<Rightarrow>
                         Some (text_output
                           (unwrap_or (Option.bind (map_of dp ''summary'') as_str) []) content)
                     | None \<Rightarrow> None))))"

definition extract_tool_result :: "string option \<Rightarrow> json option \<Rightarrow> tool_result_extract" where
  "extract_tool_result content content_full =
     (let short = \<lparr>tr_output = map_option J_String content, tr_images = None\<rparr> in
      case content_full of
        None \<Rightarrow> short
      | Some cf \<Rightarrow>
          (case rich_variant cf content of
             Some r \<Rightarrow> r
           | None \<Rightarrow>
               (if cf \<noteq> J_Null \<and> cf \<noteq> J_Object [] then \<lparr>tr_output = Some cf, tr_images = None\<rparr>
                else short)))"

section \<open>The queue\<close>

definition map_resolved_references :: "prompt_reference list \<Rightarrow> resolved_ref list" where
  "map_resolved_references refs =
     map (\<lambda>r. \<lparr>rr_kind = pr_kind r, rr_name = pr_name r, rr_file_kind = pr_file_kind r\<rparr>) refs"

definition drained_queue_message ::
    "string \<Rightarrow> string option \<Rightarrow> timestamp \<Rightarrow> prompt_reference list option \<Rightarrow> queued_message" where
  "drained_queue_message text item_id now refs =
     \<lparr>qm_id = (case item_id of Some i \<Rightarrow> i | None \<Rightarrow> ''drain-'' @ now), qm_mode = Steer, qm_text = text,
      qm_created_at = now, qm_updated_at = now, qm_references = map_option map_resolved_references refs\<rparr>"

definition format_missing_references_message :: "(string \<times> string) list \<Rightarrow> string" where
  "format_missing_references_message refs =
     ''Queued message dropped '' @ em_dash @ '' missing references: '' @
       join '', '' (map (\<lambda>(kind, name). kind @ '' '' @ quoted name) refs)"

definition queue_message_from_item :: "pending_turn_item \<Rightarrow> timestamp \<Rightarrow> queued_message" where
  "queue_message_from_item item now =
     \<lparr>qm_id = pti_id item, qm_mode = Steer, qm_text = pti_content item, qm_created_at = now,
      qm_updated_at = now, qm_references = None\<rparr>"

definition queue_messages_from_snapshot :: "pending_turn_snapshot \<Rightarrow> timestamp \<Rightarrow> queued_message list" where
  "queue_messages_from_snapshot snapshot now =
     map (\<lambda>item. queue_message_from_item item now) (pts_items snapshot)"

section \<open>Interrogatives\<close>

definition safe_stringify :: "serde \<Rightarrow> json \<Rightarrow> string" where
  "safe_stringify js v = unwrap_or (to_string_pretty js v) (value_to_string js v)"

definition new_pending :: "string \<Rightarrow> pending_type \<Rightarrow> pending_interrogative" where
  "new_pending i t =
     \<lparr>interrogative_id = i, interrogative_type = t, clarification_labels = None,
      clarification_option_keys = None, plan_handoff_labels = None, questions = None,
      permission_choices = None\<rparr>"

text \<open>\<open>&json[..499]\<close> on a text of more than 500 bytes.\<close>

definition tool_input_preview :: "string \<Rightarrow> string option" where
  "tool_input_preview s =
     (if 500 < length s then map_option (\<lambda>p. p @ ellipsis) (str_prefix s 499) else Some s)"

definition approval_labels_of :: "approval_choice list \<Rightarrow> string list" where
  "approval_labels_of choices =
     List.map_filter
       (\<lambda>c. do { i \<leftarrow> position c PERMISSION_APPROVAL_CHOICES; get PERMISSION_APPROVAL_LABELS i }) choices"

definition build_permission_request ::
    "serde \<Rightarrow> string \<Rightarrow> string \<Rightarrow> candidate_rule_context option \<Rightarrow> tool_call_context option \<Rightarrow>
     event_base \<Rightarrow> (session_driver_event \<times> pending_interrogative) option" where
  "build_permission_request js i quest rule tc base = do {
     tool_input \<leftarrow> (case tc of
         None \<Rightarrow> Some None
       | Some t \<Rightarrow> map_option Some (tool_input_preview (safe_stringify js (tc_input t))));
     let choices = prune_approval_options (map_option cr_keep_targets rule);
     Some (E_HostUiRequest base
             (H_Permission i (if quest = [] then ''Approve?'' else quest) (map_option tc_tool_name tc)
                tool_input (approval_labels_of choices) None),
           (new_pending i P_Permission)\<lparr>permission_choices := Some choices\<rparr>) }"

fun build_interrogative_mapping ::
    "interrogative_type \<Rightarrow> serde \<Rightarrow> string \<Rightarrow> string \<Rightarrow> clarification_option list option \<Rightarrow>
     plan_handoff_context option \<Rightarrow> goal_proposal_context option \<Rightarrow> candidate_rule_context option \<Rightarrow>
     tool_call_context option \<Rightarrow> event_base \<Rightarrow> (session_driver_event \<times> pending_interrogative) option" where
  "build_interrogative_mapping IT_Confirmation js i quest opts ph gp rule tc base =
     Some (E_HostUiRequest base (H_Confirm i ''Confirm'' quest None None), new_pending i P_Confirmation)"
| "build_interrogative_mapping IT_Clarification js i quest opts ph gp rule tc base =
     (let options = unwrap_or opts []; labels = map co_label options in
      Some (E_HostUiRequest base (H_Select i quest labels None None),
            (new_pending i P_Clarification)\<lparr>clarification_labels := Some labels,
               clarification_option_keys := Some (map co_key options)\<rparr>))"
| "build_interrogative_mapping IT_Capability js i quest opts ph gp rule tc base =
     Some (E_HostUiRequest base (H_Confirm i ''Grant capability?'' quest None None),
           new_pending i P_Capability)"
| "build_interrogative_mapping IT_PlanHandoff js i quest opts ph gp rule tc base =
     (let (a, b, c) = (case ph of
            Some p \<Rightarrow> (pl_implement_new_context (ph_action_labels p),
                       pl_implement_current_context (ph_action_labels p), pl_cancel (ph_action_labels p))
          | None \<Rightarrow> (''Implement (new context)'', ''Implement (current context)'', ''Cancel''))
      in Some (E_HostUiRequest base
                 (H_Plan i (case ph of Some p \<Rightarrow> ph_title p | None \<Rightarrow> ''Plan handoff'')
                    (case ph of Some p \<Rightarrow> ph_plan_text p | None \<Rightarrow> []) (map_option ph_display_path ph)
                    (map_option ph_target_facet ph) (a, b, c) None),
               (new_pending i P_PlanHandoff)\<lparr>plan_handoff_labels := Some [a, b, c]\<rparr>))"
| "build_interrogative_mapping IT_Permission js i quest opts ph gp rule tc base =
     build_permission_request js i quest rule tc base"
| "build_interrogative_mapping IT_GoalProposal js i quest opts ph gp rule tc base =
     (let title = (case gp of Some g \<Rightarrow> gp_title g | None \<Rightarrow> ''Goal proposal'');
          proposed = (case gp of Some g \<Rightarrow> gp_proposed_summary g | None \<Rightarrow> [])
      in Some (E_HostUiRequest base
                 (H_Confirm i title (if proposed = [] then title else proposed) None None),
               new_pending i P_GoalProposal))"

definition pending_question_of :: "ask_question \<Rightarrow> pending_question" where
  "pending_question_of q =
     \<lparr>pq_question_id = aq_id q, option_ids = map ao_id (unwrap_or (aq_options q) []),
      option_labels = Some (map ao_label (unwrap_or (aq_options q) []))\<rparr>"

definition qna_question_of :: "ask_question \<Rightarrow> qna_question" where
  "qna_question_of q =
     \<lparr>question = aq_question q, question_context = aq_context q,
      question_options = map_option (map (\<lambda>opt. \<lparr>qo_label = ao_label opt,
        qo_description = (if ao_description opt = [] then None else Some (ao_description opt))\<rparr>)) (aq_options q),
      multi_select = Some (aq_mode q = MultiSelect)\<rparr>"

definition build_ask_user_question_mapping ::
    "string \<Rightarrow> ask_question list \<Rightarrow> event_base \<Rightarrow> session_driver_event \<times> pending_interrogative" where
  "build_ask_user_question_mapping i qs base =
     (E_HostUiRequest base (H_Qna i None (map qna_question_of qs) None),
      (new_pending i P_AskUserQuestion)\<lparr>questions := Some (map pending_question_of qs)\<rparr>)"

section \<open>After a fetch\<close>

fun build_post_fetch_event :: "fetch_emit \<Rightarrow> map_ctx \<Rightarrow> prompt_id option \<Rightarrow> session_driver_event" where
  "build_post_fetch_event EmitRunCompleted ctx prompt_id =
     E_RunCompleted (event_meta ctx) (ctx_snapshot ctx Idle) prompt_id prompt_id"
| "build_post_fetch_event EmitSessionUpdated ctx prompt_id =
     E_SessionUpdated (event_meta ctx) (ctx_snapshot ctx (ctx_live_status ctx))"

fun monitor_to_mode :: "permission_monitor \<Rightarrow> permission_monitor_mode" where
  "monitor_to_mode MonitorStandard = Standard"
| "monitor_to_mode MonitorBypass = Bypass"
| "monitor_to_mode MonitorBypassPlus = BypassPlus"
| "monitor_to_mode (MonitorAutonomous _ _ _) = Autonomous"

fun block_kind_from_content :: "content_block_kind \<Rightarrow> block_kind" where
  "block_kind_from_content TextBlock = BK_Text"
| "block_kind_from_content (ToolUseBlock _ _) = BK_ToolUse"
| "block_kind_from_content ThinkingBlock = BK_Thinking"
| "block_kind_from_content RedactedThinkingBlock = BK_RedactedThinking"
| "block_kind_from_content ReasoningOpaqueBlock = BK_ReasoningOpaque"

section \<open>The translation\<close>

primrec subagent_handle :: "daemon_event \<Rightarrow> string option" where
  "subagent_handle (D_Heartbeat h _) = h"
| "subagent_handle (D_ContentBlockStart h _ _ _) = h"
| "subagent_handle (D_ContentBlockDelta h _ _ _) = h"
| "subagent_handle (D_ContentBlockStop h _ _) = h"
| "subagent_handle (D_MessageStart h _) = h"
| "subagent_handle (D_MessageComplete h _) = h"
| "subagent_handle (D_PendingTurnInputQueued h _ _ _ _) = h"
| "subagent_handle (D_PendingTurnInputDequeued h _ _) = h"
| "subagent_handle (D_PendingTurnInputDrained h _ _ _ _ _ _ _) = h"
| "subagent_handle (D_PendingTurnInputDiscarded h _ _ _ _ _ _ _) = h"
| "subagent_handle (D_TurnCancelled h _ _) = h"
| "subagent_handle (D_ModelError h _ _) = h"
| "subagent_handle (D_StreamDiscontinuity h _) = h"
| "subagent_handle (D_ToolCall h _ _ _ _) = h"
| "subagent_handle (D_ToolResult h _ _ _ _ _) = h"
| "subagent_handle (D_JobPromoted h _) = h"
| "subagent_handle (D_JobCompleted h _ _) = h"
| "subagent_handle (D_JobExpiring h _) = h"
| "subagent_handle (D_JobCancelled h _) = h"
| "subagent_handle (D_JobUpdated h _) = h"
| "subagent_handle (D_SessionRewound h _ _) = h"
| "subagent_handle (D_SessionStateChanged h _) = h"
| "subagent_handle (D_SessionTitleChanged h _ _) = h"
| "subagent_handle (D_FacetSwitch h _ _) = h"
| "subagent_handle (D_ContextCleared h _ _) = h"
| "subagent_handle (D_ModelSwitch h _ _ _ _) = h"
| "subagent_handle (D_PermissionMonitorSwitch h _ _) = h"
| "subagent_handle (D_Interrogative h _ _ _ _ _ _ _ _ _ _) = h"
| "subagent_handle (D_AskUserQuestion h _ _ _) = h"
| "subagent_handle (D_HookFired h _ _ _) = h"
| "subagent_handle (D_ContextLoaded h _ _) = h"
| "subagent_handle (D_CompactionStarted h _ _) = h"
| "subagent_handle (D_CompactionComplete h _ _ _ _) = h"
| "subagent_handle (D_CompactionCancelled h _ _) = h"
| "subagent_handle (D_CompactionFailed h _ _) = h"
| "subagent_handle (D_SubagentCompactionNotice h _ _ _) = h"
| "subagent_handle (D_NotificationQueued h _) = h"
| "subagent_handle (D_NotificationsDrained h _) = h"
| "subagent_handle (D_NotificationAutodrainSwitch _) = None"
| "subagent_handle (D_SystemReminder h _ _ _ _ _) = h"
| "subagent_handle (D_ToolReveal h _ _ _) = h"
| "subagent_handle (D_ToolExposureChanged h _ _ _ _ _) = h"
| "subagent_handle (D_GoalDriverUpdate h _ _ _) = h"
| "subagent_handle (D_ClassifierDecision h _ _ _ _ _) = h"
| "subagent_handle (D_ExtensionRegistered h _) = h"
| "subagent_handle (D_SubagentStarted _ _ _) = None"
| "subagent_handle (D_SubagentCompleted _ _ _) = None"
| "subagent_handle (D_McpServerConnected _ _ _ _) = None"
| "subagent_handle (D_McpServerDisconnected _ _ _) = None"
| "subagent_handle (D_McpServerReconnecting _ _ _ _) = None"
| "subagent_handle (D_McpServerDisabled _ _ _) = None"
| "subagent_handle (D_ImageReferenceResolved h _ _ _ _) = h"
| "subagent_handle (D_UsageThrottle h _ _ _ _) = h"
| "subagent_handle (D_RetryWait h _ _ _ _ _ _) = h"
| "subagent_handle (D_AgentBlockViolation h _ _ _) = h"

text \<open>Short forms for the arms: what an arm emits, a notice whose id ends with the timestamp, a
  snapshot at the live status, a fetch of the state, and an arm that leaves the accumulator alone.\<close>

definition stamped_notice :: "map_ctx \<Rightarrow> string \<Rightarrow> string \<Rightarrow> notify_level \<Rightarrow> session_driver_event" where
  "stamped_notice ctx tag message level =
     notify (event_meta ctx) (tag @ ctx_now ctx) message level"

definition updated :: "map_ctx \<Rightarrow> (session_snapshot \<Rightarrow> session_snapshot) \<Rightarrow> session_driver_event" where
  "updated ctx f = E_SessionUpdated (event_meta ctx) (f (ctx_snapshot ctx (ctx_live_status ctx)))"

abbreviation fetch_update :: daemon_effect where "fetch_update \<equiv> FetchState EmitSessionUpdated None"

type_synonym arm_result = "(fold_outcome \<times> fold_accumulator) option"

fun delta_event :: "block_delta \<Rightarrow> block_kind option \<Rightarrow> map_ctx \<Rightarrow> session_driver_event list" where
  "delta_event (TextDelta t) (Some BK_Text) ctx =
     [E_AssistantDelta (event_meta ctx) t (Some ChannelText) None]"
| "delta_event (ThinkingDelta t) (Some BK_Thinking) ctx =
     [E_AssistantDelta (event_meta ctx) t (Some ChannelThinking) None]"
| "delta_event (RedactedThinkingDelta d) (Some BK_RedactedThinking) ctx =
     [E_AssistantDelta (event_meta ctx) d (Some ChannelThinking) None]"
| "delta_event (ReasoningOpaqueDelta d _) (Some BK_ReasoningOpaque) ctx =
     [E_AssistantDelta (event_meta ctx) d (Some ChannelThinking) None]"
| "delta_event _ _ ctx = []"

fun delta_acc :: "block_delta \<Rightarrow> fold_accumulator \<Rightarrow> fold_accumulator" where
  "delta_acc (ToolUseInput s) acc =
     (if block_kind acc = Some BK_ToolUse
      then acc\<lparr>tool_input_buffer := tool_input_buffer acc @ s\<rparr> else acc)"
| "delta_acc _ acc = acc"

definition start_block :: "content_block_kind \<Rightarrow> fold_accumulator \<Rightarrow> fold_accumulator" where
  "start_block k acc =
     acc\<lparr>block_kind := Some (block_kind_from_content k), tool_input_buffer := [],
         tool_use_block := (case k of ToolUseBlock i n \<Rightarrow> Some \<lparr>tu_id = i, tu_name = n\<rparr> | _ \<Rightarrow> None)\<rparr>"

definition tool_started ::
    "serde \<Rightarrow> string \<Rightarrow> json option \<Rightarrow> string \<Rightarrow> fold_accumulator \<Rightarrow> map_ctx \<Rightarrow> session_driver_event" where
  "tool_started js call_id input name acc ctx =
     E_ToolStarted (event_meta ctx)
       (if name \<noteq> [] then name
        else case tool_use_block acc of Some b \<Rightarrow> tu_name b | None \<Rightarrow> ''unknown'')
       (if call_id \<noteq> [] then call_id
        else case tool_use_block acc of Some b \<Rightarrow> tu_id b | None \<Rightarrow> [])
       (or_else input (parse_tool_input js (tool_input_buffer acc))) None None"

definition tool_finished ::
    "string \<Rightarrow> string option \<Rightarrow> json option \<Rightarrow> bool option \<Rightarrow> map_ctx \<Rightarrow> session_driver_event" where
  "tool_finished call_id content content_full is_error ctx =
     (let x = extract_tool_result content content_full
      in E_ToolFinished (event_meta ctx) call_id (\<not> unwrap_or is_error False) (tr_output x) (tr_images x) None)"

definition queue_drained ::
    "string \<Rightarrow> string list \<Rightarrow> prompt_reference list option \<Rightarrow> map_ctx \<Rightarrow> fold_outcome" where
  "queue_drained content item_ids refs ctx =
     (let item_id = (case item_ids of [] \<Rightarrow> None | i # _ \<Rightarrow> Some i);
          started = E_QueuedMessageStarted (event_meta ctx)
            (drained_queue_message content item_id (ctx_now ctx) refs)
      in if length item_ids \<le> 1
         then fold_result [started, E_QueueUpdated (event_meta ctx) []] []
         else fold_result [started] [RefetchQueue])"

definition queue_discarded :: "prompt_reference list option \<Rightarrow> map_ctx \<Rightarrow> fold_outcome" where
  "queue_discarded missing ctx =
     (case missing of
        Some (r # rs) \<Rightarrow>
          fold_result
            [stamped_notice ctx ''discard-missing-refs-''
               (format_missing_references_message (map (\<lambda>r. (pr_kind r, pr_name r)) (r # rs))) NotifyWarning]
            [RefetchQueue]
      | _ \<Rightarrow> fold_result [] [RefetchQueue])"

definition system_reminder :: "string \<Rightarrow> reminder_reason \<Rightarrow> string \<Rightarrow> map_ctx \<Rightarrow> session_driver_event" where
  "system_reminder body reason slug ctx =
     E_CustomMessage (event_meta ctx) (''reminder-'' @ slug @ ''-'' @ ctx_now ctx)
       (case plan_review_label reason of Some label \<Rightarrow> label | None \<Rightarrow> slug) body
       (plan_review_label reason \<noteq> None) (reason = GoalReminder)"

definition stop_hook_redirect :: "map_ctx \<Rightarrow> session_driver_event list" where
  "stop_hook_redirect ctx =
     [E_RunCompleted (event_meta ctx) (ctx_snapshot ctx Idle) None None,
      E_CustomMessage (event_meta ctx) (''stop-hook-redirect-'' @ ctx_now ctx) ''stop_hook_redirect''
        (''Stop hook redirected '' @ em_dash @ '' continuing.'') False True]"

definition goal_driver_update :: "current_goal option \<Rightarrow> string \<Rightarrow> map_ctx \<Rightarrow> fold_outcome" where
  "goal_driver_update goal transition ctx =
     (case goal of
        Some g \<Rightarrow> fold_result [updated ctx (s_goal_update (\<lambda>_. project_goal (Some (Some g))))] [fetch_update]
      | None \<Rightarrow>
          (if transition = ''cleared''
           then fold_result [updated ctx (s_goal_update (\<lambda>_. Some None))] [fetch_update]
           else fold_result [] [fetch_update]))"

primrec map_arm :: "daemon_event \<Rightarrow> serde \<Rightarrow> fold_accumulator \<Rightarrow> map_ctx \<Rightarrow> arm_result" where
  "map_arm (D_MessageStart _ _) js acc ctx =
     Some (fold_result [E_SessionUpdated (event_meta ctx) (ctx_snapshot ctx Running)] [],
           acc\<lparr>turn_error := None\<rparr>)"
| "map_arm (D_MessageComplete _ prompt_id) js acc ctx =
     (case turn_error acc of
        Some e \<Rightarrow>
          Some (fold_result [E_RunFailed (event_meta ctx)
                  \<lparr>err_message = tf_message e, err_code = None, err_details = None\<rparr>] [],
                acc\<lparr>turn_error := None\<rparr>)
      | None \<Rightarrow> Some (fold_result [] [FetchState EmitRunCompleted (Some prompt_id)], acc))"
| "map_arm (D_TurnCancelled _ _ _) js acc ctx = Some (fold_result [] [fetch_update], acc)"
| "map_arm (D_ContentBlockStart _ _ block_type _) js acc ctx = Some (nothing, start_block block_type acc)"
| "map_arm (D_ContentBlockDelta _ _ delta _) js acc ctx =
     Some (fold_result (delta_event delta (block_kind acc) ctx) [], delta_acc delta acc)"
| "map_arm (D_ContentBlockStop _ _ _) js acc ctx = Some (nothing, acc\<lparr>block_kind := None\<rparr>)"
| "map_arm (D_ToolCall _ call_id input name _) js acc ctx =
     Some (fold_result [tool_started js call_id input name acc ctx] [], acc)"
| "map_arm (D_ToolResult _ call_id content content_full is_error _) js acc ctx =
     Some (fold_result [tool_finished call_id content content_full is_error ctx] [], acc)"
| "map_arm (D_PendingTurnInputQueued _ _ _ _ _) js acc ctx = Some (fold_result [] [RefetchQueue], acc)"
| "map_arm (D_PendingTurnInputDequeued _ _ _) js acc ctx = Some (fold_result [] [RefetchQueue], acc)"
| "map_arm (D_PendingTurnInputDiscarded _ _ _ _ missing _ _ _) js acc ctx =
     Some (queue_discarded missing ctx, acc)"
| "map_arm (D_PendingTurnInputDrained _ _ content _ item_ids _ _ refs) js acc ctx =
     Some (queue_drained content item_ids refs ctx, acc)"
| "map_arm (D_ModelError _ error _) js acc ctx =
     (let message = provider_error_message error in
      Some (fold_result [stamped_notice ctx ''model-error-'' message NotifyWarning] [],
            acc\<lparr>turn_error := Some \<lparr>tf_message = message\<rparr>\<rparr>))"
| "map_arm (D_RetryWait _ attempt _ error_summary _ max_retries _) js acc ctx =
     Some (fold_result [stamped_notice ctx ''retry-''
       (''Retrying (attempt '' @ show_int attempt @ ''/'' @ show_int max_retries @ ''): '' @ error_summary)
       NotifyWarning] [], acc)"
| "map_arm (D_StreamDiscontinuity _ _) js acc ctx = Some (fold_result [] [Reseed], acc)"
| "map_arm (D_SessionTitleChanged _ _ title) js acc ctx =
     Some (fold_result [updated ctx (s_title_update (\<lambda>_. title))] [], acc)"
| "map_arm (D_SessionStateChanged _ _) js acc ctx = Some (fold_result [] [fetch_update], acc)"
| "map_arm (D_ModelSwitch _ _ _ to_model to_effort) js acc ctx =
     Some (fold_result [updated ctx (s_config_update (\<lambda>_. Some
       \<lparr>model_id = Some to_model, thinking_level = to_effort, available_thinking_levels = None\<rparr>))] [], acc)"
| "map_arm (D_AgentBlockViolation _ _ _ tool) js acc ctx =
     Some (fold_result [stamped_notice ctx ''block-violation-''
       (''Blocked: the agent tried to use '' @ tool @ '', which is blocked by a constraint'') NotifyWarning] [], acc)"
| "map_arm (D_ToolExposureChanged _ _ _ _ reason _) js acc ctx =
     (if reason = EagerFallbackActivated
      then Some (fold_result [stamped_notice ctx ''fallback-''
             (''Auto-switched to a fallback model '' @ em_dash @ '' the primary may be down or rate-limited'')
             NotifyWarning] [], acc)
      else Some (nothing, acc))"
| "map_arm (D_SessionRewound _ _ _) js acc ctx = Some (fold_result [] [Reseed], acc)"
| "map_arm (D_ContextCleared _ _ _) js acc ctx = Some (fold_result [] [Reseed], acc)"
| "map_arm (D_FacetSwitch _ _ _) js acc ctx = Some (fold_result [] [fetch_update], acc)"
| "map_arm (D_CompactionStarted _ _ _) js acc ctx =
     Some (fold_result [stamped_notice ctx ''compact-'' (''Compacting context'' @ ellipsis) NotifyInfo] [], acc)"
| "map_arm (D_CompactionComplete _ _ _ _ _) js acc ctx =
     Some (fold_result [stamped_notice ctx ''compact-done-'' ''Context compacted'' NotifyInfo] [fetch_update], acc)"
| "map_arm (D_CompactionCancelled _ _ _) js acc ctx =
     Some (fold_result [stamped_notice ctx ''compact-cancelled-'' ''Compaction cancelled'' NotifyWarning] [], acc)"
| "map_arm (D_CompactionFailed _ _ _) js acc ctx =
     Some (fold_result [stamped_notice ctx ''compact-failed-'' ''Compaction failed'' NotifyError] [], acc)"
| "map_arm (D_SubagentCompactionNotice _ _ _ text) js acc ctx =
     Some (fold_result [stamped_notice ctx ''subagent-compact-'' text NotifyInfo] [], acc)"
| "map_arm (D_NotificationQueued _ n) js acc ctx =
     Some (fold_result [notify (event_meta ctx) (''notif-'' @ dn_id n) (notification_message n) NotifyInfo] [], acc)"
| "map_arm (D_SystemReminder _ body _ _ reason slug) js acc ctx =
     Some (fold_result [system_reminder body reason slug ctx] [], acc)"
| "map_arm (D_Interrogative _ opts _ gp i t rule tc ph _ quest) js acc ctx = do {
     (card, pending) \<leftarrow> build_interrogative_mapping t js i quest opts ph gp rule tc (event_meta ctx);
     Some (fold_result [card] [RegisterInterrogative pending], acc) }"
| "map_arm (D_AskUserQuestion _ i qs _) js acc ctx =
     (let (card, pending) = build_ask_user_question_mapping i qs (event_meta ctx)
      in Some (fold_result [card] [RegisterInterrogative pending], acc))"
| "map_arm (D_PermissionMonitorSwitch _ _ to_monitor) js acc ctx =
     (let mode = monitor_to_mode to_monitor in
      Some (fold_result [updated ctx (s_permission_monitor_update (\<lambda>_. Some mode))] [SetMonitorMode mode], acc))"
| "map_arm (D_GoalDriverUpdate _ goal _ transition) js acc ctx = Some (goal_driver_update goal transition ctx, acc)"
| "map_arm (D_NotificationAutodrainSwitch enabled) js acc ctx =
     Some (fold_result [updated ctx (s_notification_autodrain_update (\<lambda>_. Some enabled))]
             [SetAutodrainEnabled enabled], acc)"
| "map_arm (D_HookFired _ event_type _ outcome) js acc ctx =
     (if event_type = ''stop'' \<and> outcome = HookBlocked
      then Some (fold_result (stop_hook_redirect ctx) [], acc) else Some (nothing, acc))"
| "map_arm (D_Heartbeat _ _) js acc ctx = Some (nothing, acc)"
| "map_arm (D_NotificationsDrained _ _) js acc ctx = Some (nothing, acc)"
| "map_arm (D_ContextLoaded _ _ _) js acc ctx = Some (nothing, acc)"
| "map_arm (D_ToolReveal _ _ _ _) js acc ctx = Some (nothing, acc)"
| "map_arm (D_ClassifierDecision _ _ _ _ _ _) js acc ctx = Some (nothing, acc)"
| "map_arm (D_ExtensionRegistered _ _) js acc ctx = Some (nothing, acc)"
| "map_arm (D_ImageReferenceResolved _ _ _ _ _) js acc ctx = Some (nothing, acc)"
| "map_arm (D_JobPromoted _ _) js acc ctx = Some (nothing, acc)"
| "map_arm (D_JobCompleted _ _ _) js acc ctx = Some (nothing, acc)"
| "map_arm (D_JobExpiring _ _) js acc ctx = Some (nothing, acc)"
| "map_arm (D_JobCancelled _ _) js acc ctx = Some (nothing, acc)"
| "map_arm (D_JobUpdated _ _) js acc ctx = Some (nothing, acc)"
| "map_arm (D_UsageThrottle _ _ _ _ _) js acc ctx = Some (nothing, acc)"
| "map_arm (D_SubagentStarted _ _ _) js acc ctx = Some (fold_result [] [fetch_update], acc)"
| "map_arm (D_SubagentCompleted _ _ _) js acc ctx = Some (fold_result [] [fetch_update], acc)"
| "map_arm (D_McpServerConnected _ server _ _) js acc ctx =
     Some (fold_result [stamped_notice ctx ''mcp-conn-'' (''MCP server '' @ server @ '' connected'') NotifyInfo] [], acc)"
| "map_arm (D_McpServerDisconnected reason server _) js acc ctx =
     Some (fold_result [stamped_notice ctx ''mcp-disc-''
       (''MCP server '' @ server @ '' disconnected ('' @ reason @ '')'') NotifyWarning] [], acc)"
| "map_arm (D_McpServerReconnecting attempt _ server _) js acc ctx =
     Some (fold_result [stamped_notice ctx ''mcp-reconn-''
       (''MCP server '' @ server @ '' reconnecting (attempt '' @ show_int attempt @ '')'' @ ellipsis) NotifyInfo] [], acc)"
| "map_arm (D_McpServerDisabled reason server _) js acc ctx =
     Some (fold_result [stamped_notice ctx ''mcp-disabled-''
       (''MCP server '' @ server @ '' disabled ('' @ reason @ '')'') NotifyWarning] [], acc)"

definition map_daemon_event :: "serde \<Rightarrow> daemon_event \<Rightarrow> fold_accumulator \<Rightarrow> map_ctx \<Rightarrow> arm_result" where
  "map_daemon_event js ev acc ctx =
     (if subagent_handle ev \<noteq> None then Some (nothing, acc) else map_arm ev js acc ctx)"

end
