(* ===== verification/Event_Facts.thy ===== *)
theory Event_Facts
  imports Event_Map Journal
begin

text \<open>
  What the translation of daemon events guarantees: whose events it emits, how a failed turn ends, that
  a streamed block folds to its text, and that the options on a card are the answers it accepts.
\<close>

section \<open>Runs of the translation\<close>

text \<open>A run pairs every event with the context the driver had for it.\<close>

fun map_events :: "serde \<Rightarrow> (daemon_event \<times> map_ctx) list \<Rightarrow> fold_accumulator \<Rightarrow>
    (session_driver_event list \<times> daemon_effect list \<times> fold_accumulator) option" where
  "map_events js [] acc = Some ([], [], acc)"
| "map_events js ((ev, ctx) # evs) acc = do {
     (out, acc1) \<leftarrow> map_daemon_event js ev acc ctx;
     (es, fs, acc2) \<leftarrow> map_events js evs acc1;
     Some (events out @ es, effects out @ fs, acc2) }"

lemma map_events_append:
  "map_events js (xs @ ys) acc = do {
     (es, fs, acc1) \<leftarrow> map_events js xs acc;
     (es', fs', acc2) \<leftarrow> map_events js ys acc1;
     Some (es @ es', fs @ fs', acc2) }"
  by (induction xs arbitrary: acc) (auto split: Option.bind_splits)

lemma fold_result_sel [simp]: "events (fold_result es fs) = es" "effects (fold_result es fs) = fs"
  by (simp_all add: fold_result_def)

lemma subagent_ignored [simp]:
  "subagent_handle ev = Some h \<Longrightarrow> map_daemon_event js ev acc ctx = Some (nothing, acc)"
  by (simp add: map_daemon_event_def)

lemma top_level [simp]: "subagent_handle ev = None \<Longrightarrow> map_daemon_event js ev acc ctx = map_arm ev js acc ctx"
  by (simp add: map_daemon_event_def)

section \<open>A failed turn\<close>

text \<open>Top-level events that set the error of the turn, and those that clear it.\<close>

fun error_of :: "daemon_event \<Rightarrow> string option" where
  "error_of (D_ModelError None err _) = Some (provider_error_message err)"
| "error_of _ = None"

fun clears_error :: "daemon_event \<Rightarrow> bool" where
  "clears_error (D_MessageStart None _) \<longleftrightarrow> True"
| "clears_error (D_MessageComplete None _) \<longleftrightarrow> True"
| "clears_error _ \<longleftrightarrow> False"

lemma delta_acc_turn_error [simp]: "turn_error (delta_acc d acc) = turn_error acc"
  by (cases d) simp_all

lemma turn_error_step:
  assumes "map_daemon_event js ev acc ctx = Some (out, acc1)"
  shows "turn_error acc1 =
    (case error_of ev of Some m \<Rightarrow> Some \<lparr>tf_message = m\<rparr>
     | None \<Rightarrow> if clears_error ev then None else turn_error acc)"
proof (cases "subagent_handle ev")
  case None
  with assms show ?thesis
    by (cases ev) (auto simp: start_block_def Let_def split: if_splits option.splits Option.bind_splits prod.splits)
next
  case (Some h)
  with assms show ?thesis by (cases ev) auto
qed

text \<open>The error that is open after the events \<open>evs\<close>: the last one, if no message started or completed
  since.\<close>

definition open_error :: "daemon_event list \<Rightarrow> string \<Rightarrow> bool" where
  "open_error evs m \<longleftrightarrow> (\<exists>pre ev post. evs = pre @ ev # post \<and> error_of ev = Some m \<and>
     (\<forall>e \<in> set post. error_of e = None \<and> \<not> clears_error e))"

lemma open_error_snoc:
  "open_error (evs @ [ev]) m \<longleftrightarrow>
     error_of ev = Some m \<or> error_of ev = None \<and> \<not> clears_error ev \<and> open_error evs m"
proof
  assume "open_error (evs @ [ev]) m"
  then obtain pre e post where s: "evs @ [ev] = pre @ e # post" "error_of e = Some m"
    "\<forall>x \<in> set post. error_of x = None \<and> \<not> clears_error x" by (auto simp: open_error_def)
  show "error_of ev = Some m \<or> error_of ev = None \<and> \<not> clears_error ev \<and> open_error evs m"
  proof (cases post rule: rev_cases)
    case Nil
    with s show ?thesis by simp
  next
    case (snoc post' x)
    with s have "evs = pre @ e # post'" "x = ev" by simp_all
    with s snoc show ?thesis by (auto simp: open_error_def)
  qed
next
  assume r: "error_of ev = Some m \<or> error_of ev = None \<and> \<not> clears_error ev \<and> open_error evs m"
  show "open_error (evs @ [ev]) m"
  proof (cases "error_of ev = Some m")
    case True
    then show ?thesis unfolding open_error_def by (intro exI [of _ evs] exI [of _ ev] exI [of _ "[]"]) simp
  next
    case False
    with r obtain pre e post where "evs = pre @ e # post" "error_of e = Some m"
      "\<forall>x \<in> set post. error_of x = None \<and> \<not> clears_error x" by (auto simp: open_error_def)
    with r False show ?thesis unfolding open_error_def
      by (intro exI [of _ pre] exI [of _ e] exI [of _ "post @ [ev]"]) auto
  qed
qed

lemma turn_error_run:
  "map_events js evs create_accumulator = Some (es, fs, acc) \<Longrightarrow>
     turn_error acc = Some e \<longleftrightarrow> open_error (map fst evs) (tf_message e)"
proof (induction evs arbitrary: es fs acc e rule: rev_induct)
  case Nil
  then show ?case by (auto simp: create_accumulator_def open_error_def)
next
  case (snoc x evs)
  obtain ev ctx where x: "x = (ev, ctx)" by fastforce
  from snoc.prems obtain es1 fs1 acc1 out where
    run: "map_events js evs create_accumulator = Some (es1, fs1, acc1)"
    and step: "map_daemon_event js ev acc1 ctx = Some (out, acc)"
    by (auto simp: map_events_append x split: Option.bind_splits prod.splits)
  from turn_error_step [OF step] snoc.IH [OF run, of e] show ?case
    by (cases e) (auto simp: x open_error_snoc split: option.splits)
qed


section \<open>A streamed block\<close>

fun delta_of :: "content_block_kind \<Rightarrow> string \<Rightarrow> block_delta" where
  "delta_of TextBlock t = TextDelta t"
| "delta_of (ToolUseBlock _ _) t = ToolUseInput t"
| "delta_of ThinkingBlock t = ThinkingDelta t"
| "delta_of RedactedThinkingBlock t = RedactedThinkingDelta t"
| "delta_of ReasoningOpaqueBlock t = ReasoningOpaqueDelta t []"

fun channel_of :: "content_block_kind \<Rightarrow> delta_channel" where
  "channel_of TextBlock = ChannelText"
| "channel_of _ = ChannelThinking"

lemma delta_event_of:
  "\<nexists>i n. k = ToolUseBlock i n \<Longrightarrow> delta_event (delta_of k t) (Some (block_kind_from_content k)) ctx =
     [E_AssistantDelta (event_meta ctx) t (Some (channel_of k)) None]"
  and delta_acc_of: "\<nexists>i n. k = ToolUseBlock i n \<Longrightarrow> delta_acc (delta_of k t) acc = acc"
  by (cases k; simp)+

definition block_deltas :: "content_block_kind \<Rightarrow> int \<Rightarrow> prompt_id \<Rightarrow> (string \<times> map_ctx) list \<Rightarrow>
    (daemon_event \<times> map_ctx) list" where
  "block_deltas k n pid ts = map (\<lambda>(t, ctx). (D_ContentBlockDelta None n (delta_of k t) pid, ctx)) ts"

lemma map_block_deltas:
  assumes "\<nexists>i n. k = ToolUseBlock i n" and "block_kind acc = Some (block_kind_from_content k)"
  shows "map_events js (block_deltas k n pid ts) acc = Some
    (map (\<lambda>(t, ctx). E_AssistantDelta (event_meta ctx) t (Some (channel_of k)) None) ts, [], acc)"
  using assms
  by (induction ts) (auto simp: block_deltas_def delta_event_of delta_acc_of)

lemma fold_deltas:
  "foldl fold_event st (map (\<lambda>(t, ctx). E_AssistantDelta (event_meta ctx) t c e) ((t, ctx) # ts)) =
     fold_event st (E_AssistantDelta (event_meta ctx) (concat (map fst ((t, ctx) # ts))) c e)"
proof (induction ts arbitrary: t)
  case (Cons x ts)
  obtain u ctx' where x: "x = (u, ctx')" by fastforce
  have "fold_event (fold_event st (E_AssistantDelta (event_meta ctx) t c e))
      (E_AssistantDelta (event_meta ctx') u c e) = fold_event st (E_AssistantDelta (event_meta ctx) (t @ u) c e)"
    by (simp add: fold_delta_delta)
  with Cons [of "t @ u"] show ?case by (simp add: x)
qed simp

text \<open>How the daemon cuts a block into deltas does not show. The events of a text, thinking or
  reasoning block, from its start to its stop and however it is cut, fold to what one delta with the
  whole text folds to, stamped with the time of the first; nothing else is asked of the driver, and the
  accumulator is closed again.\<close>

theorem block_streaming_exact:
  assumes "\<nexists>i n. k = ToolUseBlock i n"
  shows "\<exists>es acc1. map_events js
      ((D_ContentBlockStart None n k pid, ctx0) # block_deltas k n pid ((t, ctx) # ts) @
       [(D_ContentBlockStop None n pid, ctx1)]) acc = Some (es, [], acc1) \<and>
    fold_all_from st es = fold_event st
      (E_AssistantDelta (event_meta ctx) (concat (map fst ((t, ctx) # ts))) (Some (channel_of k)) None) \<and>
    block_kind acc1 = None \<and> turn_error acc1 = turn_error acc"
proof -
  have k: "block_kind (start_block k acc) = Some (block_kind_from_content k)"
    and e: "turn_error (start_block k acc) = turn_error acc"
    by (simp_all add: start_block_def)
  show ?thesis
    using fold_deltas [of st "Some (channel_of k)" None t ctx ts] e
    by (simp add: map_events_append map_block_deltas [OF assms k] fold_all_from_def)
qed

section \<open>Flags that stay\<close>

lemma handoff_reported:
  "s_adventurous_handoff (snapshot_from_state ds sref ws s now mode auto) \<noteq> Some False"
  by (auto simp: snapshot_from_state_def or_else_def split: option.splits)

text \<open>Adventurous handoff cannot be switched off. A snapshot reports it as on or not at all, never as
  off, and the fold keeps what it knows when nothing is reported: once a session's folded state says
  that handoff is on, it says so after every later snapshot, although the daemon's state says that it
  is off.\<close>

theorem adventurous_handoff_sticks:
  assumes "adventurous_handoff st = Some True" and "adventurous_handoff_active ds = Some False"
    and "sn = snapshot_from_state (Some ds) sref ws s now mode auto"
  shows "adventurous_handoff (fold_event st (E_SessionUpdated b sn)) = Some True \<and>
    adventurous_handoff (fold_event st (E_RunCompleted b sn u a)) = Some True"
  using assms handoff_reported [of "Some ds" sref ws s now mode auto]
  by (auto simp: fold_snapshot_def or_else_def Let_def split: option.splits)

section \<open>Cards\<close>

lemma approval_label:
  assumes "c \<in> set PERMISSION_APPROVAL_CHOICES"
  obtains i where "position c PERMISSION_APPROVAL_CHOICES = Some i" and "i < 7"
    and "PERMISSION_APPROVAL_CHOICES ! i = c"
    and "position (PERMISSION_APPROVAL_LABELS ! i) PERMISSION_APPROVAL_LABELS = Some i"
proof -
  from assms obtain i where "i < 7" "PERMISSION_APPROVAL_CHOICES ! i = c"
    by (metis in_set_conv_nth approval_lengths(1))
  with distinct_approvals show thesis
    by (intro that [of i]) (auto simp: approval_lengths)
qed

definition label_of :: "approval_choice \<Rightarrow> string" where
  "label_of c = (case position c PERMISSION_APPROVAL_CHOICES of
     Some i \<Rightarrow> PERMISSION_APPROVAL_LABELS ! i | None \<Rightarrow> [])"

lemma approval_labels_of_map:
  "set cs \<subseteq> set PERMISSION_APPROVAL_CHOICES \<Longrightarrow> approval_labels_of cs = map label_of cs"
proof (induction cs)
  case (Cons c cs)
  then have "c \<in> set PERMISSION_APPROVAL_CHOICES" by simp
  then obtain i where "position c PERMISSION_APPROVAL_CHOICES = Some i" "i < 7" by (rule approval_label)
  with Cons show ?case
    by (simp add: approval_labels_of_def label_of_def approval_lengths List.map_filter_simps)
qed (simp add: approval_labels_of_def)

lemma permission_response_label:
  assumes "c \<in> set PERMISSION_APPROVAL_CHOICES" and "permission_choices p = Some cs"
  shows "permission_response p (label_of c) =
    (if c \<in> set cs then Some (A_Permission (granted c) (persistence_target c)) else None)"
proof -
  obtain i where "position c PERMISSION_APPROVAL_CHOICES = Some i" "i < 7"
    "PERMISSION_APPROVAL_CHOICES ! i = c" "position (PERMISSION_APPROVAL_LABELS ! i) PERMISSION_APPROVAL_LABELS = Some i"
    using assms(1) by (rule approval_label)
  with assms(2) show ?thesis
    by (simp add: permission_response_def label_of_def approval_from_index_def approval_lengths)
qed

lemma permission_response_unknown:
  assumes "permission_choices p = Some cs" and "set cs \<subseteq> set PERMISSION_APPROVAL_CHOICES"
    and "permission_response p v = Some r"
  shows "v \<in> label_of ` set cs"
proof -
  from assms(1,3) obtain i c where i: "position v PERMISSION_APPROVAL_LABELS = Some i"
    and c: "approval_from_index i = Some c" "c \<in> set cs"
    by (auto simp: permission_response_def split: Option.bind_splits if_splits)
  from position_Some [OF i] c(1) distinct_approvals(1)
  have "v = label_of c" by (auto simp: label_of_def approval_from_index_def get_Some)
  with c(2) show ?thesis by blast
qed

text \<open>C17: A permission card offers what it will accept. Choosing an option of the card sends the daemon
  the grant and target of the choice behind it, in the order of the choices that the candidate rule
  leaves; an answer that is not on the card is not sent at all; and refusing and allowing once are on
  every card.\<close>

theorem permission_card_roundtrip:
  assumes "build_permission_request js i quest rule tc base =
    Some (E_HostUiRequest base (H_Permission i t n inp options tmo), p)"
  shows "map (\<lambda>l. build_interrogative_response p (R_Value i l)) options =
      map (\<lambda>c. Some (A_Permission (granted c) (persistence_target c)))
        (prune_approval_options (map_option cr_keep_targets rule)) \<and>
    (\<forall>v. v \<notin> set options \<longrightarrow> build_interrogative_response p (R_Value i v) = None) \<and>
    {''Deny'', ''Allow once''} \<subseteq> set options"
proof -
  let ?cs = "prune_approval_options (map_option cr_keep_targets rule)"
  from assms have o: "options = approval_labels_of ?cs" and pc: "permission_choices p = Some ?cs"
    and ty: "interrogative_type p = P_Permission"
    by (auto simp: build_permission_request_def new_pending_def Let_def split: Option.bind_splits option.splits)
  have om: "options = map label_of ?cs" using o approval_labels_of_map [OF prune_subset] by simp
  have "permission_response p (label_of c) = Some (A_Permission (granted c) (persistence_target c))"
    if "c \<in> set ?cs" for c
    using permission_response_label [OF _ pc, of c] that prune_subset by auto
  moreover have "permission_response p v = None" if "v \<notin> set options" for v
    using permission_response_unknown [OF pc prune_subset, of v] that by (cases "permission_response p v") (auto simp: om)
  moreover have "label_of \<lparr>granted = False, persistence_target = None\<rparr> = ''Deny''"
    "label_of \<lparr>granted = True, persistence_target = None\<rparr> = ''Allow once''"
    by (simp_all add: label_of_def PERMISSION_APPROVAL_CHOICES_def PERMISSION_APPROVAL_LABELS_def)
  moreover have "{\<lparr>granted = False, persistence_target = None\<rparr>, \<lparr>granted = True, persistence_target = None\<rparr>} \<subseteq> set ?cs"
    by (auto simp: in_prune PERMISSION_APPROVAL_CHOICES_def split: option.splits list.splits)
  ultimately show ?thesis
    using ty by (force simp: om)
qed

text \<open>The other cards with options. Labels must differ: of two options with one label, the answer picks
  the first.\<close>

lemma clarification_roundtrip:
  assumes "build_interrogative_mapping IT_Clarification js i quest (Some opts) ph gp rule tc base = Some (ev, p)"
    and "distinct (map co_label opts)" and "k < length opts"
  shows "build_interrogative_response p (R_Value i (co_label (opts ! k))) =
    Some (A_ClarificationChoice (co_key (opts ! k)))"
proof -
  have "position (co_label (opts ! k)) (map co_label opts) = Some k"
    using position_nth [OF assms(2), of k] assms(3) by simp
  moreover have "opts \<noteq> []" using assms(3) by auto
  ultimately show ?thesis
    using assms(1,3) by (auto simp: new_pending_def clarification_response_def Let_def)
qed

lemma duplicate_label_takes_first:
  assumes "build_interrogative_mapping IT_Clarification js i quest (Some [a, b]) ph gp rule tc base = Some (ev, p)"
    and "co_label a = co_label b"
  shows "build_interrogative_response p (R_Value i (co_label b)) = Some (A_ClarificationChoice (co_key a))"
  using assms by (auto simp: new_pending_def clarification_response_def Let_def)

lemma plan_handoff_roundtrip:
  assumes "build_interrogative_mapping IT_PlanHandoff js i quest opts ph gp rule tc base =
      Some (E_HostUiRequest base (H_Plan i t pt dp tf (a, b, c) tmo), p)"
    and "distinct [a, b, c]"
  shows "map (\<lambda>l. build_interrogative_response p (R_Value i l)) [a, b, c] =
    map (Some \<circ> A_PlanHandoff \<circ> J_String) PLAN_HANDOFF_DECISIONS"
  using assms
  by (auto simp: new_pending_def plan_handoff_response_def PLAN_HANDOFF_DECISIONS_def Let_def get_def split: prod.splits)

text \<open>The preview of a permission card can panic. When the daemon asks for permission to run a tool
  whose input prints to more than 500 bytes and the 500th byte lies inside a character, the translation
  panics: no card is shown, and the daemon waits for an answer.\<close>

theorem permission_preview_panics:
  assumes "500 < length (safe_stringify js (tc_input tool))" and "is_cont (safe_stringify js (tc_input tool) ! 499)"
  shows "map_daemon_event js
    (D_Interrogative None opts ext gp i IT_Permission rule (Some tool) ph pid quest) acc ctx = None"
  using assms
  by (simp add: build_permission_request_def tool_input_preview_def str_prefix_def is_char_boundary_def)

section \<open>Examples\<close>

definition ex_serde :: serde where
  "ex_serde = \<lparr>from_str = (\<lambda>_. None), to_string_pretty = (\<lambda>v. as_str v), value_to_string = (\<lambda>_. [])\<rparr>"

definition ex_ctx :: map_ctx where
  "ex_ctx =
     (let sref = \<lparr>workspace_id_of = ''w'', session_id_of = ''s''\<rparr>;
          ws = \<lparr>ws_workspace_id = ''w'', ws_path = ''/w'', ws_display_name = None\<rparr>
      in \<lparr>ctx_ref = sref, ctx_workspace = ws, ctx_now = ''t'',
          ctx_snapshot = (\<lambda>s. snapshot_from_state None sref ws s ''t'' None None), ctx_live_status = Idle\<rparr>)"


lemma block_streaming_exact_witness:
  "\<exists>es acc1. map_events ex_serde
      [(D_ContentBlockStart None 0 TextBlock ''p'', ex_ctx), (D_ContentBlockDelta None 0 (TextDelta ''He'') ''p'', ex_ctx),
       (D_ContentBlockDelta None 0 (TextDelta ''llo'') ''p'', ex_ctx), (D_ContentBlockStop None 0 ''p'', ex_ctx)]
      create_accumulator = Some (es, [], acc1) \<and>
    fold_all_from initial_session_state es =
      fold_event initial_session_state (E_AssistantDelta (event_meta ex_ctx) ''Hello'' (Some ChannelText) None)"
  using block_streaming_exact [of TextBlock ex_serde 0 "''p''" ex_ctx "''He''" ex_ctx "[(''llo'', ex_ctx)]" ex_ctx
      create_accumulator initial_session_state]
  unfolding block_deltas_def by fastforce

lemma adventurous_handoff_sticks_witness:
  "adventurous_handoff (fold_event (initial_session_state\<lparr>adventurous_handoff := Some True\<rparr>)
     (E_SessionUpdated (event_meta ex_ctx)
        (snapshot_from_state (Some ((ex_daemon_state 0 0)\<lparr>adventurous_handoff_active := Some False\<rparr>))
           (ctx_ref ex_ctx) (ctx_workspace ex_ctx) Idle ''t'' None None))) = Some True"
  by (rule adventurous_handoff_sticks [THEN conjunct1, OF _ _ refl]) simp_all

definition ex_tool :: "string \<Rightarrow> tool_call_context" where
  "ex_tool s = \<lparr>tc_input = J_String s, tc_tool_name = ''bash'', tc_tool_use_id = ''u''\<rparr>"

definition ex_rule :: "persistence_target list \<Rightarrow> candidate_rule_context" where
  "ex_rule keep = \<lparr>cr_raw = [], cr_resolved_today = [], cr_default_target = T_Session, cr_floor_context = J_Null,
     cr_keep_targets = keep\<rparr>"

lemma permission_card_roundtrip_witness:
  "\<exists>p. build_permission_request ex_serde ''i'' ''Run?'' (Some (ex_rule [T_Project])) (Some (ex_tool ''ls'')) (event_meta ex_ctx) =
      Some (E_HostUiRequest (event_meta ex_ctx) (H_Permission ''i'' ''Run?'' (Some ''bash'') (Some ''ls'')
        [''Deny'', ''Allow once'', ''Allow for project''] None), p) \<and>
    build_interrogative_response p (R_Value ''i'' ''Allow for project'') = Some (A_Permission True (Some T_Project)) \<and>
    build_interrogative_response p (R_Value ''i'' ''Allow for user'') = None"
proof -
  let ?p = "(new_pending ''i'' P_Permission)\<lparr>permission_choices := Some
    (prune_approval_options (map_option cr_keep_targets (Some (ex_rule [T_Project]))))\<rparr>"
  have b: "build_permission_request ex_serde ''i'' ''Run?'' (Some (ex_rule [T_Project])) (Some (ex_tool ''ls'')) (event_meta ex_ctx) =
      Some (E_HostUiRequest (event_meta ex_ctx) (H_Permission ''i'' ''Run?'' (Some ''bash'') (Some ''ls'')
        [''Deny'', ''Allow once'', ''Allow for project''] None), ?p)"
    by (simp add: build_permission_request_def ex_serde_def ex_tool_def ex_rule_def safe_stringify_def
        tool_input_preview_def prune_approval_options_def approval_labels_of_def List.map_filter_simps
        PERMISSION_APPROVAL_CHOICES_def PERMISSION_APPROVAL_LABELS_def get_def)
  from permission_card_roundtrip [OF b] b show ?thesis
    by (auto simp: prune_approval_options_def PERMISSION_APPROVAL_CHOICES_def ex_rule_def)
qed

definition ex_wide :: string where
  "ex_wide = replicate 498 CHR ''a'' @ bytes [0xE2, 0x80, 0xA6]"

lemma permission_preview_panics_witness:
  "map_daemon_event ex_serde (D_Interrogative None None None None ''i'' IT_Permission None (Some (ex_tool ex_wide)) None ''p'' [])
     create_accumulator ex_ctx = None"
  by (rule permission_preview_panics)
    (simp_all add: ex_serde_def ex_tool_def ex_wide_def safe_stringify_def nth_append bytes_def is_cont_def)

end
