(* ===== verification/Calendar.thy ===== *)
theory Calendar
  imports Prelude
begin

text \<open>
  The synthetic timestamps of \<^verbatim>\<open>server-rs/pantoken-server/src/polytoken/history_seed.rs\<close>: days since 1970
  become a Gregorian date. Every intermediate value is non-negative and far from the limits of \<open>i64\<close> and
  \<open>u64\<close> (a day count is below 2^64 / 86400000), so the numbers are integers. Rust's division rounds
  towards zero; on non-negative numbers that is \<open>div\<close>.
\<close>

definition civil_from_days :: "int \<Rightarrow> int \<times> int \<times> int" where
  "civil_from_days days =
     (let z = days + 719468;
          era = (if 0 \<le> z then z else z - 146096) div 146097;
          doe = z - era * 146097;
          yoe = (doe - doe div 1460 + doe div 36524 - doe div 146096) div 365;
          y = yoe + era * 400;
          doy = doe - (365 * yoe + yoe div 4 - yoe div 100);
          mp = (5 * doy + 2) div 153;
          d = doy - (153 * mp + 2) div 5 + 1;
          m = (if mp < 10 then mp + 3 else mp - 9)
      in (if m \<le> 2 then y + 1 else y, m, d))"

definition pad :: "nat \<Rightarrow> int \<Rightarrow> string" where
  "pad w n = (let s = show_int n in replicate (w - length s) CHR ''0'' @ s)"

definition format_synthetic_iso :: "int \<Rightarrow> string" where
  "format_synthetic_iso ms =
     (let total_secs = ms div 1000; millis = ms mod 1000;
          days = total_secs div 86400; rem = total_secs mod 86400;
          hour = rem div 3600; minute = rem mod 3600 div 60; second = rem mod 60;
          (year, month, day) = civil_from_days days
      in pad 4 year @ ''-'' @ pad 2 month @ ''-'' @ pad 2 day @ ''T'' @ pad 2 hour @ '':'' @
         pad 2 minute @ '':'' @ pad 2 second @ [CHR ''.''] @ pad 3 millis @ ''Z'')"

section \<open>The calendar\<close>

definition leap :: "int \<Rightarrow> bool" where
  "leap y \<longleftrightarrow> 4 dvd y \<and> (\<not> 100 dvd y \<or> 400 dvd y)"

definition days_in_month :: "int \<Rightarrow> int \<Rightarrow> int" where
  "days_in_month y m =
     (if m = 2 then (if leap y then 29 else 28) else if m \<in> {4, 6, 9, 11} then 30 else 31)"

fun next_day :: "int \<times> int \<times> int \<Rightarrow> int \<times> int \<times> int" where
  "next_day (y, m, d) =
     (if d < days_in_month y m then (y, m, d + 1)
      else if m < 12 then (y, m + 1, 1) else (y + 1, 1, 1))"

section \<open>Years\<close>

text \<open>Years are counted from March; \<open>start Y\<close> is the first day of year \<open>Y\<close> of an era of 400 years.\<close>

definition start :: "int \<Rightarrow> int" where
  "start Y = 365 * Y + Y div 4 - Y div 100 + Y div 400"

definition year_of :: "int \<Rightarrow> int" where
  "year_of doe = (doe - doe div 1460 + doe div 36524 - doe div 146096) div 365"

lemma year_of_mono: "x \<le> y \<Longrightarrow> year_of x \<le> year_of y"
proof (induction y rule: int_ge_induct)
  case (step y)
  let ?a = "y div 36524" and ?b = "(y + 1) div 36524"
  have e: "y div 146096 = ?a div 4" "(y + 1) div 146096 = ?b div 4"
    by (simp_all flip: zdiv_zmult2_eq)
  have "?b = ?a \<or> ?b = ?a + 1" by linarith
  then have "?b div 4 - ?a div 4 \<le> ?b - ?a" by (auto; linarith)
  moreover have "(y + 1) div 1460 \<le> y div 1460 + 1" by linarith
  ultimately have "year_of y \<le> year_of (y + 1)"
    unfolding year_of_def e by (intro zdiv_mono1) auto
  with step show ?case by simp
qed simp

lemma list_all_upto: "list_all P [a..b] \<Longrightarrow> a \<le> x \<Longrightarrow> x \<le> b \<Longrightarrow> P x"
  by (simp only: list_all_iff set_upto) simp

text \<open>The ends of each of the 400 years of an era.\<close>

lemma year_of_ends:
  "list_all (\<lambda>Y. year_of (start Y) = Y \<and> year_of (start (Y + 1) - 1) = Y) [0..399]"
  by code_simp

lemma year_of_start:
  assumes "0 \<le> Y" and "Y < 400" and "start Y \<le> doe" and "doe < start (Y + 1)"
  shows "year_of doe = Y"
proof -
  have "year_of (start Y) = Y" "year_of (start (Y + 1) - 1) = Y"
    using list_all_upto [OF year_of_ends, of Y] assms(1,2) by simp_all
  with year_of_mono [of "start Y" doe] year_of_mono [of doe "start (Y + 1) - 1"] assms(3,4)
  show ?thesis by simp
qed

lemma start_year_of:
  assumes "0 \<le> doe" and "doe < 146097"
  shows "0 \<le> year_of doe" and "year_of doe < 400" and "start (year_of doe) \<le> doe"
    and "doe < start (year_of doe + 1)"
proof -
  have "\<exists>Y. 0 \<le> Y \<and> Y < 400 \<and> start Y \<le> doe \<and> doe < start (Y + 1)"
  proof -
    define Y where "Y = Max {Y \<in> {0..399}. start Y \<le> doe}"
    have f: "finite {Y \<in> {0..399}. start Y \<le> doe}"
      by (rule finite_subset [of _ "{0..399}"]) auto
    have "0 \<in> {Y \<in> {0..399}. start Y \<le> doe}" using assms(1) by (simp add: start_def)
    then have "{Y \<in> {0..399}. start Y \<le> doe} \<noteq> {}" by blast
    from Max_in [OF f this] have "Y \<in> {Y \<in> {0..399}. start Y \<le> doe}" unfolding Y_def .
    moreover have "doe < start (Y + 1)"
    proof (rule ccontr)
      assume n: "\<not> doe < start (Y + 1)"
      show False
      proof (cases "Y = 399")
        case True
        with n assms(2) show False by (simp add: start_def)
      next
        case False
        with n \<open>Y \<in> _\<close> have "Y + 1 \<in> {Y \<in> {0..399}. start Y \<le> doe}" by simp
        from Max_ge [OF f this] show False by (simp add: Y_def)
      qed
    qed
    ultimately show ?thesis by auto
  qed
  then obtain Y where "0 \<le> Y" "Y < 400" "start Y \<le> doe" "doe < start (Y + 1)" by blast
  with year_of_start [OF this]
  show "0 \<le> year_of doe" and "year_of doe < 400" and "start (year_of doe) \<le> doe"
    and "doe < start (year_of doe + 1)" by simp_all
qed

section \<open>Days of a year\<close>

definition month_day :: "int \<Rightarrow> int \<times> int" where
  "month_day doy =
     (let mp = (5 * doy + 2) div 153
      in (if mp < 10 then mp + 3 else mp - 9, doy - (153 * mp + 2) div 5 + 1))"

text \<open>From one day to the next within a year; February ends the year, so its length only matters at the
  two last days.\<close>

lemma month_day_step:
  "list_all (\<lambda>doy. case (month_day doy, month_day (doy + 1)) of ((m, d), (m', d')) \<Rightarrow>
     1 \<le> m \<and> m \<le> 12 \<and> (if m = 2 then d < 29 \<and> m' = 2 \<and> d' = d + 1 \<and> d = doy - 336
       else if d < (if m \<in> {4, 6, 9, 11} then 30 else 31) then m' = m \<and> d' = d + 1
       else d' = 1 \<and> m' = (if m < 12 then m + 1 else 1))) [0..364]"
  by code_simp

lemma month_day_next:
  assumes "0 \<le> doy" and "doy \<le> 364" and "month_day doy = (m, d)" and "month_day (doy + 1) = (m', d')"
  shows "1 \<le> m \<and> m \<le> 12 \<and> (if m = 2 then d < 29 \<and> m' = 2 \<and> d' = d + 1 \<and> d = doy - 336
       else if d < (if m \<in> {4, 6, 9, 11} then 30 else 31) then m' = m \<and> d' = d + 1
       else d' = 1 \<and> m' = (if m < 12 then m + 1 else 1))"
  using list_all_upto [OF month_day_step assms(1,2)] unfolding assms(3,4) prod.case .

section \<open>Dates\<close>

text \<open>The date of day \<open>doe\<close> of era \<open>era\<close>.\<close>

definition date :: "int \<Rightarrow> int \<Rightarrow> int \<times> int \<times> int" where
  "date era doe =
     (let Y = year_of doe; (m, d) = month_day (doe - start Y)
      in (if m \<le> 2 then Y + era * 400 + 1 else Y + era * 400, m, d))"

lemma civil_date:
  assumes "0 \<le> n"
  shows "civil_from_days n = date ((n + 719468) div 146097) ((n + 719468) mod 146097)"
proof -
  let ?doe = "(n + 719468) mod 146097"
  have d: "n + 719468 - (n + 719468) div 146097 * 146097 = ?doe"
    by (simp add: minus_div_mult_eq_mod)
  have "0 \<le> year_of ?doe" "year_of ?doe < 400"
    using start_year_of [of ?doe] by simp_all
  then have "year_of ?doe div 400 = 0" by simp
  then have doy: "?doe - (365 * year_of ?doe + year_of ?doe div 4 - year_of ?doe div 100) = ?doe - start (year_of ?doe)"
    unfolding start_def by linarith
  have era: "(if 0 \<le> n + 719468 then n + 719468 else n + 719468 - 146096) div 146097 = (n + 719468) div 146097"
    using assms by simp
  show ?thesis
    unfolding civil_from_days_def Let_def era d date_def month_day_def prod.case
    by (simp only: year_of_def [symmetric] doy split: if_split)
qed

lemma div_step:
  fixes k :: int
  assumes "0 < k"
  shows "(Y + 1) div k = Y div k + (if k dvd Y + 1 then 1 else 0)"
proof (cases "Y mod k = k - 1")
  case True
  have "Y + 1 = (Y div k + 1) * k" using div_mult_mod_eq [of Y k] True by (simp add: algebra_simps)
  with assms show ?thesis by (metis dvd_triv_right less_irrefl nonzero_mult_div_cancel_right)
next
  case False
  then have r: "0 \<le> Y mod k + 1" "Y mod k + 1 < k"
    using pos_mod_sign [OF assms, of Y] pos_mod_bound [OF assms, of Y] by linarith+
  have e: "Y + 1 = k * (Y div k) + (Y mod k + 1)" by simp
  have "(Y + 1) mod k = Y mod k + 1" using int_mod_pos_eq [OF e r] .
  then have "\<not> k dvd Y + 1" using pos_mod_sign [OF assms, of Y] by (auto simp: dvd_eq_mod_eq_0)
  with int_div_pos_eq [OF e r] show ?thesis by simp
qed

lemma year_length:
  "start (Y + 1) - start Y = (if leap (Y + e * 400 + 1) then 366 else 365)"
proof -
  have era: "k dvd Y + 1 + e * 400 \<longleftrightarrow> k dvd Y + 1" if "k dvd 400" for k
    using that by (simp add: dvd_add_left_iff)
  have "4 dvd Y + 1 + e * 400 \<longleftrightarrow> 4 dvd Y + 1" "100 dvd Y + 1 + e * 400 \<longleftrightarrow> 100 dvd Y + 1"
    "400 dvd Y + 1 + e * 400 \<longleftrightarrow> 400 dvd Y + 1"
    by (rule era; simp)+
  moreover have "Y + e * 400 + 1 = Y + 1 + e * 400" by simp
  ultimately have l: "leap (Y + e * 400 + 1) \<longleftrightarrow> 4 dvd Y + 1 \<and> (\<not> 100 dvd Y + 1 \<or> 400 dvd Y + 1)"
    by (simp only: leap_def)
  have sub: "100 dvd Y + 1 \<longrightarrow> 4 dvd Y + 1" "400 dvd Y + 1 \<longrightarrow> 100 dvd Y + 1"
    by (intro impI, rule dvd_trans [rotated], assumption, simp)+
  have sum: "365 * (Y + 1) + (A + (if a then 1 else 0)) - (B + (if b then 1 else 0)) + (C + (if c then 1 else 0)) -
      (365 * Y + A - B + C) = (if a \<and> (\<not> b \<or> c) then 366 else 365)"
    if "b \<longrightarrow> a" "c \<longrightarrow> b" for a b c and A B C :: int
    using that by (cases a; cases b; cases c) simp_all
  have "(Y + 1) div 4 = Y div 4 + (if 4 dvd Y + 1 then 1 else 0)"
    "(Y + 1) div 100 = Y div 100 + (if 100 dvd Y + 1 then 1 else 0)"
    "(Y + 1) div 400 = Y div 400 + (if 400 dvd Y + 1 then 1 else 0)"
    by (rule div_step; simp)+
  note steps = this
  show ?thesis unfolding l start_def steps by (rule sum [OF sub])
qed

lemma date_next:
  assumes "0 \<le> doe" and "doe + 1 < start (year_of doe + 1)" and "doe < 146097"
  shows "date era (doe + 1) = next_day (date era doe)"
proof -
  let ?Y = "year_of doe" let ?doy = "doe - start ?Y"
  note b = start_year_of [OF assms(1,3)]
  have Y: "year_of (doe + 1) = ?Y" by (rule year_of_start [OF b(1,2)]) (use b(3) assms(2) in linarith)+
  have len: "start (?Y + 1) - start ?Y = (if leap (?Y + era * 400 + 1) then 366 else 365)" by (rule year_length)
  obtain m d where md: "month_day ?doy = (m, d)" by fastforce
  obtain m' d' where md': "month_day (?doy + 1) = (m', d')" by fastforce
  have le: "?doy \<le> 364" using len assms(2) by (auto split: if_splits)
  have "0 \<le> ?doy" using b(3) by simp
  note n = month_day_next [OF this le md md']
  have r: "doe + 1 - start ?Y = ?doy + 1" by simp
  have e: "date era (doe + 1) = (if m' \<le> 2 then ?Y + era * 400 + 1 else ?Y + era * 400, m', d')"
    unfolding date_def Y Let_def r md' prod.case ..
  have f: "date era doe = (if m \<le> 2 then ?Y + era * 400 + 1 else ?Y + era * 400, m, d)"
    using md by (simp add: date_def)
  show ?thesis
  proof (cases "m = 2")
    case True
    with n len assms(2) show ?thesis unfolding e f by (auto simp: days_in_month_def split: if_splits)
  next
    case False
    with n show ?thesis unfolding e f by (auto simp: days_in_month_def split: if_splits)
  qed
qed

lemma date_next_year:
  assumes "0 \<le> doe" and "doe + 1 = start (year_of doe + 1)" and "doe < 146097"
    and "date era' doe' = (year_of doe + era * 400 + 1, 3, 1)"
  shows "date era' doe' = next_day (date era doe)"
proof -
  let ?Y = "year_of doe"
  have len: "start (?Y + 1) - start ?Y = (if leap (?Y + era * 400 + 1) then 366 else 365)" by (rule year_length)
  have m: "month_day 364 = (2, 28)" "month_day 365 = (2, 29)" by (simp_all add: month_day_def)
  show ?thesis
  proof (cases "leap (?Y + era * 400 + 1)")
    case True
    with len assms(2) have "doe - start ?Y = 365" by simp
    with True m assms(4) show ?thesis by (simp add: date_def days_in_month_def)
  next
    case False
    with len assms(2) have "doe - start ?Y = 364" by simp
    with False m assms(4) show ?thesis by (simp add: date_def days_in_month_def)
  qed
qed

lemma date_start:
  assumes "0 \<le> Y" and "Y < 400"
  shows "date era (start Y) = (Y + era * 400, 3, 1)"
proof -
  have "start Y < start (Y + 1)" using year_length [of Y 0] by (auto split: if_splits)
  with year_of_start [OF assms order_refl] show ?thesis
    by (simp add: date_def month_day_def)
qed

lemma civil_step:
  assumes "0 \<le> n"
  shows "civil_from_days (n + 1) = next_day (civil_from_days n)"
proof -
  let ?z = "n + 719468"
  define era where "era = ?z div 146097"
  define doe where "doe = ?z mod 146097"
  have doe: "0 \<le> doe" "doe < 146097" and z: "?z = era * 146097 + doe" by (simp_all add: era_def doe_def)
  note b = start_year_of [OF doe]
  have now: "civil_from_days n = date era doe" using civil_date [OF assms] by (simp add: era_def doe_def)
  have s400: "start 400 = 146097" by (simp add: start_def)
  show ?thesis
  proof (cases "doe = 146096")
    case True
    have Y: "year_of doe = 399" by (simp add: True year_of_def)
    have e: "n + 1 + 719468 = (era + 1) * 146097" using z True by simp
    have "(n + 1 + 719468) div 146097 = era + 1" "(n + 1 + 719468) mod 146097 = 0"
      unfolding e by simp_all
    then have "civil_from_days (n + 1) = date (era + 1) 0" using civil_date [of "n + 1"] assms by (simp only:)
    also have "\<dots> = next_day (date era doe)"
    proof (rule date_next_year [OF doe(1) _ doe(2)])
      show "doe + 1 = start (year_of doe + 1)" unfolding Y by (simp add: True start_def)
      show "date (era + 1) 0 = (year_of doe + era * 400 + 1, 3, 1)"
        using date_start [of 0 "era + 1"] unfolding Y by (simp add: start_def)
    qed
    finally show ?thesis by (simp add: now)
  next
    case False
    with doe have l: "doe + 1 < 146097" by simp
    have e: "n + 1 + 719468 = 146097 * era + (doe + 1)" using z by simp
    have "0 \<le> doe + 1" using doe(1) by simp
    note q = int_div_pos_eq [OF e this l] int_mod_pos_eq [OF e this l]
    have "civil_from_days (n + 1) = date era (doe + 1)" using civil_date [of "n + 1"] assms unfolding q by simp
    also have "\<dots> = next_day (date era doe)"
    proof (cases "doe + 1 = start (year_of doe + 1)")
      case True
      have "year_of doe + 1 < 400"
      proof (rule ccontr)
        assume "\<not> year_of doe + 1 < 400"
        with b(2) have "year_of doe + 1 = 400" by simp
        with True s400 l show False by simp
      qed
      with date_start [of "year_of doe + 1" era] b(1) show ?thesis
        by (intro date_next_year [OF doe(1) True doe(2)]) (simp add: True)
    next
      case False
      with b(4) show ?thesis by (intro date_next [OF doe(1) _ doe(2)]) simp
    qed
    finally show ?thesis by (simp add: now)
  qed
qed

text \<open>The conversion of days to dates is the Gregorian calendar: day number \<open>n\<close> is the date reached from
  the first of January 1970 by going \<open>n\<close> times to the next day, leap years included.\<close>

theorem civil_from_days_calendar: "civil_from_days (int n) = (next_day ^^ n) (1970, 1, 1)"
proof (induction n)
  case 0
  have "civil_from_days 0 = (1970, 1, 1)" by code_simp
  then show ?case by simp
next
  case (Suc n)
  have "civil_from_days (int (Suc n)) = civil_from_days (int n + 1)" by (simp add: add.commute)
  also have "\<dots> = next_day (civil_from_days (int n))" by (rule civil_step) simp
  finally show ?case by (simp add: Suc.IH)
qed

lemma synthetic_stamp: "format_synthetic_iso 951782401005 = ''2000-02-29T00:00:01.005Z''"
  by code_simp

end
