(* ===== verification/History_Seed.thy ===== *)
theory History_Seed
  imports Event_Map Calendar Fold_Facts
begin

text \<open>
  Replay of a session's history: \<^verbatim>\<open>server-rs/pantoken-server/src/polytoken/history_seed.rs\<close>. A history
  item is an untyped JSON value, read field by field. The two call-id lists and the counter of synthetic
  ids are the record \<open>replay\<close>, threaded through the loop.
\<close>

section \<open>Reading items\<close>

fun reason_label :: "string \<Rightarrow> string option" where
  "reason_label r =
     (if r = ''plan_review_required'' then Some ''Plan review required''
      else if r = ''plan_mode_reinforcement'' then Some ''Plan mode reminder''
      else if r = ''plan_verification'' then Some ''Plan verification'' else None)"

fun as_bool :: "json \<Rightarrow> bool option" where
  "as_bool (J_Bool b) = Some b"
| "as_bool _ = None"

record lifted_result =
  lr_output :: "json option"
  lr_images :: "image_content list option"
  lr_success :: bool

definition lift_image :: "json \<Rightarrow> (string \<times> image_content list) option" where
  "lift_image content = do {
     img \<leftarrow> field content ''image'';
     data \<leftarrow> field_str img ''data'';
     media_type \<leftarrow> field_str img ''media_type'';
     Some (unwrap_or (field_str img ''text_fallback'') [], [Image data media_type]) }"

definition lift_tool_result :: "json option \<Rightarrow> bool option \<Rightarrow> lifted_result" where
  "lift_tool_result content is_error =
     (let success = (\<not> unwrap_or is_error False);
          result = (\<lambda>out imgs. \<lparr>lr_output = out, lr_images = imgs, lr_success = success\<rparr>)
      in case content of
        None \<Rightarrow> result None None
      | Some c \<Rightarrow>
          (case as_object c of
             None \<Rightarrow> result None None
           | Some members \<Rightarrow>
               (case lift_image c of
                  Some (text, imgs) \<Rightarrow> result (Some (J_String text)) (Some imgs)
                | None \<Rightarrow>
                    (case field_str c ''text'' of
                       Some text \<Rightarrow> result (Some (J_String text)) None
                     | None \<Rightarrow>
                         (case Option.bind (field c ''blocks'') as_array of
                            Some blocks \<Rightarrow>
                              result (Some (J_String (concat (List.map_filter block_text blocks)))) None
                          | None \<Rightarrow> result (if members = [] then None else Some c) None)))))"

text \<open>The stamp of item \<open>i\<close>; the product is \<open>u64::saturating_mul\<close>.\<close>

definition item_stamp :: "json \<Rightarrow> nat \<Rightarrow> timestamp" where
  "item_stamp item i =
     (case field_str item ''emitted_at'' of
        Some emitted \<Rightarrow> emitted
      | None \<Rightarrow> format_synthetic_iso (min (int i * 1000) (2 ^ 64 - 1)))"

definition stamped :: "session_ref \<Rightarrow> timestamp \<Rightarrow> event_base" where
  "stamped sref ts = \<lparr>eb_session_ref = sref, eb_timestamp = ts, eb_run_id = None\<rparr>"

section \<open>One item\<close>

record replay =
  seq :: nat
  started_call_ids :: "string list"
  finished_call_ids :: "string list"

type_synonym item_step = "session_driver_event list \<times> replay"

definition seed_user :: "session_ref \<Rightarrow> timestamp \<Rightarrow> json \<Rightarrow> replay \<Rightarrow> item_step" where
  "seed_user sref ts item r =
     (let text = unwrap_or (field_str item ''content'') [] in
      case field_str item ''prompt_id'' of
        Some pid \<Rightarrow> ([E_UserMessage (stamped sref ts) pid text None (Some pid) None], r)
      | None \<Rightarrow> ([E_UserMessage (stamped sref ts) (''u-'' @ digits_of (seq r)) text None None None],
                 r\<lparr>seq := seq r + 1\<rparr>))"

definition seed_block :: "session_ref \<Rightarrow> timestamp \<Rightarrow> string option \<Rightarrow> json \<Rightarrow> session_driver_event list \<times> string list" where
  "seed_block sref ts pid b =
     (let text = unwrap_or (field_str b ''text'') [] in
      case field_str b ''type'' of
        None \<Rightarrow> ([], [])
      | Some t \<Rightarrow>
          (if t = ''text'' then ([E_AssistantDelta (stamped sref ts) text (Some ChannelText) pid], [])
           else if t = ''thinking'' then ([E_AssistantDelta (stamped sref ts) text (Some ChannelThinking) pid], [])
           else if t = ''tool_use''
           then (let i = unwrap_or (field_str b ''id'') []; name = unwrap_or (field_str b ''name'') []
                 in ([E_ToolStarted (stamped sref ts) name i (field b ''input'') None None], [i]))
           else ([], [])))"

definition seed_assistant :: "session_ref \<Rightarrow> timestamp \<Rightarrow> json \<Rightarrow> replay \<Rightarrow> item_step" where
  "seed_assistant sref ts item r =
     (case Option.bind (field item ''blocks'') as_array of
        None \<Rightarrow> ([], r)
      | Some blocks \<Rightarrow>
          (let parts = map (seed_block sref ts (field_str item ''prompt_id'')) blocks
           in (concat (map fst parts),
               r\<lparr>started_call_ids := started_call_ids r @ concat (map snd parts)\<rparr>)))"

definition seed_tool_result :: "session_ref \<Rightarrow> timestamp \<Rightarrow> json \<Rightarrow> replay \<Rightarrow> item_step" where
  "seed_tool_result sref ts item r =
     (let call_id = unwrap_or (field_str item ''call_id'') [];
          lifted = lift_tool_result (field item ''content'') (Option.bind (field item ''is_error'') as_bool)
      in ([E_ToolFinished (stamped sref ts) call_id (lr_success lifted) (lr_output lifted) (lr_images lifted) None],
          r\<lparr>finished_call_ids := finished_call_ids r @ [call_id]\<rparr>))"

definition seed_reminder :: "session_ref \<Rightarrow> timestamp \<Rightarrow> json \<Rightarrow> nat \<Rightarrow> session_driver_event" where
  "seed_reminder sref ts item i =
     (let reason_type = Option.bind (field item ''reason'') (\<lambda>x. field_str x ''type'');
          label = Option.bind reason_type reason_label;
          slug = unwrap_or (field_str item ''slug'') ''reminder''
      in E_CustomMessage (stamped sref ts) (''reminder-'' @ slug @ ''-'' @ digits_of i)
           (unwrap_or label slug) (unwrap_or (field_str item ''body'') [])
           (label \<noteq> None) (reason_type = Some ''goal_reminder''))"

definition switch_snapshot ::
    "session_ref \<Rightarrow> timestamp \<Rightarrow> session_config option \<Rightarrow> string option \<Rightarrow> session_snapshot" where
  "switch_snapshot sref ts conf fct =
     \<lparr>s_ref = sref,
      s_workspace = \<lparr>ws_workspace_id = workspace_id_of sref, ws_path = [], ws_display_name = None\<rparr>,
      s_title = [], s_status = Idle, s_updated_at = ts, s_archived_at = None, s_preview = None,
      s_config = conf, s_usage = None, s_running_run_id = None, s_queued_messages = None, s_facet = fct,
      s_permission_monitor = None, s_adventurous_handoff = None, s_notification_autodrain = None,
      s_active_plan = None, s_goal = None, s_flags = None, s_todos = None, s_mcp_servers = None\<rparr>"

definition seed_model_switch :: "session_ref \<Rightarrow> timestamp \<Rightarrow> json \<Rightarrow> session_driver_event list" where
  "seed_model_switch sref ts item =
     (case field_str item ''to_model'' of
        None \<Rightarrow> []
      | Some m \<Rightarrow>
          [E_SessionUpdated (stamped sref ts) (switch_snapshot sref ts
             (Some \<lparr>model_id = Some m, thinking_level = field_str item ''to_reasoning_effort'',
                    available_thinking_levels = None\<rparr>) None)])"

definition seed_facet_switch :: "session_ref \<Rightarrow> timestamp \<Rightarrow> json \<Rightarrow> session_driver_event list" where
  "seed_facet_switch sref ts item =
     (case field_str item ''to_facet'' of
        None \<Rightarrow> []
      | Some f \<Rightarrow> [E_SessionUpdated (stamped sref ts) (switch_snapshot sref ts None (Some f))])"

definition seed_compaction :: "session_ref \<Rightarrow> timestamp \<Rightarrow> json \<Rightarrow> nat \<Rightarrow> replay \<Rightarrow> item_step" where
  "seed_compaction sref ts item i r =
     (let text = unwrap_or (field_str item ''summary'') ''Context compacted'';
          marker = (\<lambda>suffix. E_CustomMessage (stamped sref ts)
            (''compaction-'' @ suffix @ ''-'' @ digits_of i) ''compaction'' text True False)
      in case field_str item ''compaction_id'' of
           Some cid \<Rightarrow> ([marker cid], r)
         | None \<Rightarrow> ([marker (digits_of (seq r))], r\<lparr>seq := seq r + 1\<rparr>))"

definition seed_item :: "session_ref \<Rightarrow> nat \<Rightarrow> json \<Rightarrow> replay \<Rightarrow> item_step" where
  "seed_item sref i item r =
     (let ts = item_stamp item i in
      case field_str item ''type'' of
        None \<Rightarrow> ([], r)
      | Some t \<Rightarrow>
          (if t = ''user'' then seed_user sref ts item r
           else if t = ''assistant'' then seed_assistant sref ts item r
           else if t = ''tool_result'' then seed_tool_result sref ts item r
           else if t = ''system_reminder'' then ([seed_reminder sref ts item i], r)
           else if t = ''model_switch'' then (seed_model_switch sref ts item, r)
           else if t = ''facet_switch'' then (seed_facet_switch sref ts item, r)
           else if t = ''compaction_fencepost'' then seed_compaction sref ts item i r
           else if t = ''context_cleared''
           then ([E_CustomMessage (stamped sref ts) (''context-cleared-'' @ digits_of i) ''context-cleared''
                    ''Context cleared'' True False], r)
           else if t = ''session_lifecycle''
           then ([E_CustomMessage (stamped sref ts) (''lifecycle-'' @ digits_of i) ''lifecycle''
                    (unwrap_or (field_str item ''text'') []) False False], r)
           else ([], r)))"

section \<open>The history\<close>

fun seed_items :: "session_ref \<Rightarrow> nat \<Rightarrow> json list \<Rightarrow> replay \<Rightarrow> item_step" where
  "seed_items sref i [] r = ([], r)"
| "seed_items sref i (item # its) r =
     (let (evs, r1) = seed_item sref i item r; (evs', r2) = seed_items sref (Suc i) its r1
      in (evs @ evs', r2))"

definition settle_orphans :: "session_ref \<Rightarrow> timestamp \<Rightarrow> replay \<Rightarrow> session_driver_event list" where
  "settle_orphans sref ts r =
     map (\<lambda>c. E_ToolFinished (stamped sref ts) c False None None (Some True))
       (filter (\<lambda>c. c \<notin> set (finished_call_ids r)) (started_call_ids r))"

definition fresh_replay :: replay where
  "fresh_replay = \<lparr>seq = 0, started_call_ids = [], finished_call_ids = []\<rparr>"

definition history_to_seed_events :: "json list \<Rightarrow> session_ref \<Rightarrow> session_driver_event list" where
  "history_to_seed_events its sref =
     (if its = [] then []
      else let (evs, r) = seed_items sref 0 its fresh_replay
           in evs @ settle_orphans sref (item_stamp (last its) (length its)) r)"

section \<open>What an item contributes\<close>

definition item_kind :: "json \<Rightarrow> string option" where
  "item_kind item = field_str item ''type''"

text \<open>The tool calls an item starts, and the ones it finishes.\<close>

definition block_calls :: "json \<Rightarrow> string list" where
  "block_calls b = (if field_str b ''type'' = Some ''tool_use'' then [unwrap_or (field_str b ''id'') []] else [])"

definition started_by :: "json \<Rightarrow> string list" where
  "started_by item =
     (if item_kind item = Some ''assistant''
      then (case Option.bind (field item ''blocks'') as_array of
              Some blocks \<Rightarrow> concat (map block_calls blocks) | None \<Rightarrow> []) else [])"

definition finished_by :: "json \<Rightarrow> string list" where
  "finished_by item =
     (if item_kind item = Some ''tool_result'' then [unwrap_or (field_str item ''call_id'') []] else [])"

lemma seed_block_calls: "snd (seed_block sref ts pid b) = block_calls b"
  by (simp add: seed_block_def block_calls_def Let_def split: option.split)

lemma seed_item_calls:
  "started_call_ids (snd (seed_item sref i item r)) = started_call_ids r @ started_by item"
  "finished_call_ids (snd (seed_item sref i item r)) = finished_call_ids r @ finished_by item"
  by (auto simp: seed_item_def started_by_def finished_by_def item_kind_def seed_user_def seed_assistant_def
      seed_tool_result_def seed_compaction_def Let_def o_def seed_block_calls split: option.split)

lemma seed_items_calls:
  "started_call_ids (snd (seed_items sref i its r)) = started_call_ids r @ concat (map started_by its)"
  "finished_call_ids (snd (seed_items sref i its r)) = finished_call_ids r @ concat (map finished_by its)"
  by (induction its arbitrary: i r) (simp_all add: split_beta seed_item_calls)

section \<open>Running tool cards\<close>

definition running_ids :: "transcript_item list \<Rightarrow> string set" where
  "running_ids xs = item_id ` {x \<in> set xs. is_running_tool x}"

lemma no_running_ids: "no_running xs \<longleftrightarrow> running_ids xs = {}"
  by (auto simp: no_running_def running_ids_def)

lemma running_ids_simps [simp]:
  "running_ids [] = {}" "running_ids (xs @ ys) = running_ids xs \<union> running_ids ys"
  "running_ids (x # xs) = (if is_running_tool x then {item_id x} else {}) \<union> running_ids xs"
  by (auto simp: running_ids_def)

lemma running_ids_cong:
  "map (\<lambda>x. (is_running_tool x, item_id x)) xs = map (\<lambda>x. (is_running_tool x, item_id x)) ys \<Longrightarrow>
     running_ids xs = running_ids ys"
proof -
  have "running_ids zs = snd ` {p \<in> set (map (\<lambda>x. (is_running_tool x, item_id x)) zs). fst p}" for zs
    by (force simp: running_ids_def)
  moreover assume "map (\<lambda>x. (is_running_tool x, item_id x)) xs = map (\<lambda>x. (is_running_tool x, item_id x)) ys"
  ultimately show ?thesis by (simp only:)
qed

lemma running_ids_close [simp]: "running_ids (close_open_assistant xs d) = running_ids xs"
  by (rule running_ids_cong)
    (auto simp: close_open_assistant_def Let_def open_assistant_Some map_set_last split: option.splits)

lemma running_ids_delta [simp]: "running_ids (fold_delta xs ts s ch e) = running_ids xs"
proof -
  let ?ys = "open_bubble xs ts e"
  have ne: "?ys \<noteq> []" by (auto simp: open_bubble_def open_assistant_Some split: option.splits)
  have "(is_running_tool (append_delta ch s x), item_id (append_delta ch s x)) = (is_running_tool x, item_id x)" for x
    by (cases x) (auto split: option.splits delta_channel.splits)
  with ne have "running_ids (fold_delta xs ts s ch e) = running_ids ?ys"
    by (intro running_ids_cong) (simp add: fold_delta_def Let_def map_set_last)
  also have "\<dots> = running_ids xs" by (auto simp: open_bubble_def split: option.splits)
  finally show ?thesis .
qed

lemma running_ids_finish: "running_ids (map (finish_tool c s out im i ts) xs) = running_ids xs - {c}"
proof (induction xs)
  case (Cons x xs)
  then show ?case by (cases x) auto
qed simp

text \<open>The events a replay consists of, and what each does to the set of running tool calls.\<close>

fun replay_event :: "session_driver_event \<Rightarrow> bool" where
  "replay_event (E_UserMessage _ _ _ _ _ _) \<longleftrightarrow> True"
| "replay_event (E_AssistantDelta _ _ _ _) \<longleftrightarrow> True"
| "replay_event (E_ToolStarted _ _ _ _ _ _) \<longleftrightarrow> True"
| "replay_event (E_ToolFinished _ _ _ _ _ _) \<longleftrightarrow> True"
| "replay_event (E_CustomMessage _ _ _ _ _ _) \<longleftrightarrow> True"
| "replay_event (E_SessionUpdated _ sn) \<longleftrightarrow> s_status sn = Idle"
| "replay_event _ \<longleftrightarrow> False"

fun run_effect :: "session_driver_event \<Rightarrow> string set \<Rightarrow> string set" where
  "run_effect (E_ToolStarted _ _ c _ _ _) R = insert c R"
| "run_effect (E_ToolFinished _ c _ _ _ _) R = R - {c}"
| "run_effect _ R = R"

lemma running_fold:
  "replay_event ev \<Longrightarrow> running_ids (items (fold_event st ev)) = run_effect ev (running_ids (items st))"
  by (cases ev) (auto simp: fold_snapshot_def running_ids_finish)

lemma running_fold_all:
  "list_all replay_event evs \<Longrightarrow> running_ids (items (foldl fold_event st evs)) = fold run_effect evs (running_ids (items st))"
  by (induction evs arbitrary: st) (simp_all add: running_fold)

text \<open>The transcript of a replay depends on the transcript it starts from only.\<close>

lemma replay_items:
  "replay_event ev \<Longrightarrow> items st = items st' \<Longrightarrow> items (fold_event st ev) = items (fold_event st' ev)"
  by (cases ev) (auto simp: fold_snapshot_def)

lemma replay_items_all:
  "list_all replay_event evs \<Longrightarrow> items st = items st' \<Longrightarrow>
     items (foldl fold_event st evs) = items (foldl fold_event st' evs)"
proof (induction evs arbitrary: st st')
  case (Cons ev evs)
  then have "items (fold_event st ev) = items (fold_event st' ev)" by (intro replay_items) simp_all
  from Cons.IH [OF _ this] Cons.prems(1) show ?case by simp
qed simp

section \<open>Replays settle\<close>

lemma seed_block_effect:
  "list_all replay_event (fst (seed_block sref ts pid b))"
  "fold run_effect (fst (seed_block sref ts pid b)) R = R \<union> set (block_calls b)"
  by (auto simp: seed_block_def block_calls_def Let_def split: option.split)

lemma seed_blocks_effect:
  "list_all replay_event (concat (map (fst \<circ> seed_block sref ts pid) bs))"
  "fold run_effect (concat (map (fst \<circ> seed_block sref ts pid) bs)) R = R \<union> set (concat (map block_calls bs))"
  by (induction bs arbitrary: R) (auto simp: seed_block_effect)

lemma seed_item_effect:
  "list_all replay_event (fst (seed_item sref i item r))"
  "fold run_effect (fst (seed_item sref i item r)) R = (R - set (finished_by item)) \<union> set (started_by item)"
proof -
  note defs = seed_item_def item_kind_def started_by_def finished_by_def seed_user_def seed_tool_result_def
    seed_reminder_def seed_model_switch_def seed_facet_switch_def switch_snapshot_def seed_compaction_def Let_def
  have a: "list_all replay_event (fst (seed_assistant sref ts item r))"
    "fold run_effect (fst (seed_assistant sref ts item r)) R =
       R \<union> set (case Option.bind (field item ''blocks'') as_array of Some bs \<Rightarrow> concat (map block_calls bs) | None \<Rightarrow> [])" for ts
    by (simp_all add: seed_assistant_def Let_def seed_blocks_effect del: set_concat split: option.split)
  show "list_all replay_event (fst (seed_item sref i item r))"
    using a(1) by (auto simp: defs split: option.split)
  consider (none) "field_str item ''type'' = None" | (assistant) "field_str item ''type'' = Some ''assistant''"
    | (result) "field_str item ''type'' = Some ''tool_result''"
    | (other) t where "field_str item ''type'' = Some t" "t \<noteq> ''assistant''" "t \<noteq> ''tool_result''"
    by (cases "field_str item ''type''") auto
  then show "fold run_effect (fst (seed_item sref i item r)) R = (R - set (finished_by item)) \<union> set (started_by item)"
  proof cases
    case other
    then show ?thesis by (simp add: defs split: option.split)
  qed (simp_all add: defs a(2))
qed

lemma seed_items_effect:
  "list_all replay_event (fst (seed_items sref i its r))"
  "c \<in> fold run_effect (fst (seed_items sref i its r)) R \<Longrightarrow>
     c \<in> R \<and> (\<forall>x \<in> set its. c \<notin> set (finished_by x)) \<or>
     (\<exists>pre x post. its = pre @ x # post \<and> c \<in> set (started_by x) \<and> (\<forall>y \<in> set post. c \<notin> set (finished_by y)))"
proof -
  show "list_all replay_event (fst (seed_items sref i its r))"
    by (induction its arbitrary: i r) (simp_all add: split_beta seed_item_effect)
  show "c \<in> fold run_effect (fst (seed_items sref i its r)) R \<Longrightarrow>
     c \<in> R \<and> (\<forall>x \<in> set its. c \<notin> set (finished_by x)) \<or>
     (\<exists>pre x post. its = pre @ x # post \<and> c \<in> set (started_by x) \<and> (\<forall>y \<in> set post. c \<notin> set (finished_by y)))"
  proof (induction its arbitrary: i r R)
    case (Cons x its)
    then have "c \<in> fold run_effect (fst (seed_items sref (Suc i) its (snd (seed_item sref i x r))))
        ((R - set (finished_by x)) \<union> set (started_by x))"
      by (simp add: split_beta seed_item_effect)
    from Cons.IH [OF this] show ?case
    proof (elim disjE conjE exE)
      assume "c \<in> R - set (finished_by x) \<union> set (started_by x)" "\<forall>y \<in> set its. c \<notin> set (finished_by y)"
      then show ?thesis by (metis Cons_eq_appendI DiffE UnE append_Nil insertE list.set(2))
    next
      fix pre y post
      assume "its = pre @ y # post" "c \<in> set (started_by y)" "\<forall>z \<in> set post. c \<notin> set (finished_by z)"
      then show ?thesis by (metis append_Cons)
    qed
  qed simp
qed

text \<open>In a history whose call ids are not reused, the result of a call comes after the call.\<close>

definition results_follow :: "json list \<Rightarrow> bool" where
  "results_follow its \<longleftrightarrow> (\<forall>pre x post c. its = pre @ x # post \<longrightarrow> c \<in> set (started_by x) \<longrightarrow>
     (\<exists>y \<in> set its. c \<in> set (finished_by y)) \<longrightarrow> (\<exists>y \<in> set post. c \<in> set (finished_by y)))"

lemma orphans_effect:
  "list_all replay_event (settle_orphans sref ts r)"
  "fold run_effect (settle_orphans sref ts r) R = R - (set (started_call_ids r) - set (finished_call_ids r))"
proof -
  show "list_all replay_event (settle_orphans sref ts r)"
    by (auto simp: settle_orphans_def list_all_iff)
  have "fold run_effect (map (\<lambda>c. E_ToolFinished (stamped sref ts) c False None None (Some True)) cs) R = R - set cs" for cs
    by (induction cs arbitrary: R) auto
  then show "fold run_effect (settle_orphans sref ts r) R = R - (set (started_call_ids r) - set (finished_call_ids r))"
    by (auto simp: settle_orphans_def)
qed

lemma history_replay_events: "list_all replay_event (history_to_seed_events its sref)"
  by (simp add: history_to_seed_events_def split_beta seed_items_effect(1) orphans_effect(1))

lemma replay_settles:
  assumes "results_follow its" and "no_running (items st)"
  shows "no_running (items (fold_all_from st (history_to_seed_events its sref)))"
proof (cases "its = []")
  case True
  with assms(2) show ?thesis by (simp add: history_to_seed_events_def fold_all_from_def)
next
  case False
  let ?r = "snd (seed_items sref 0 its fresh_replay)"
  let ?R = "fold run_effect (fst (seed_items sref 0 its fresh_replay)) {}"
  have calls: "set (started_call_ids ?r) = (\<Union>x \<in> set its. set (started_by x))"
    "set (finished_call_ids ?r) = (\<Union>x \<in> set its. set (finished_by x))"
    by (simp_all add: seed_items_calls fresh_replay_def)
  have "?R \<subseteq> set (started_call_ids ?r) - set (finished_call_ids ?r)"
  proof
    fix c assume "c \<in> ?R"
    from seed_items_effect(2) [OF this] obtain pre x post where
      s: "its = pre @ x # post" "c \<in> set (started_by x)" "\<forall>y \<in> set post. c \<notin> set (finished_by y)" by auto
    with assms(1) have "\<forall>y \<in> set its. c \<notin> set (finished_by y)" unfolding results_follow_def by blast
    with s(1,2) show "c \<in> set (started_call_ids ?r) - set (finished_call_ids ?r)" unfolding calls by auto
  qed
  then have "fold run_effect (history_to_seed_events its sref) {} = {}"
    using False by (auto simp: history_to_seed_events_def split_beta orphans_effect)
  with assms(2) running_fold_all [OF history_replay_events] show ?thesis
    by (simp add: no_running_ids fold_all_from_def)
qed

text \<open>A replayed history leaves no tool card running. When results come after their calls, every call
  that has a result is settled by it and every call that lost its result is marked as interrupted, so
  that folding the replay onto a transcript without running cards leaves none.\<close>

theorem history_settles_tools:
  assumes "results_follow its" and "no_running (items st)"
  shows "no_running (items (fold_all_from st (history_to_seed_events its sref)))"
  using assms by (rule replay_settles)

text \<open>Without that order a card can stay: a call id that is used again after its result is not an orphan.\<close>

definition ex_ref :: session_ref where
  "ex_ref = \<lparr>workspace_id_of = ''w'', session_id_of = ''s''\<rparr>"

definition ex_call :: "string \<Rightarrow> json" where
  "ex_call c = J_Object [(''type'', J_String ''assistant''),
     (''blocks'', J_Array [J_Object [(''type'', J_String ''tool_use''), (''id'', J_String c)]])]"

definition ex_result :: "string \<Rightarrow> json" where
  "ex_result c = J_Object [(''type'', J_String ''tool_result''), (''call_id'', J_String c)]"

lemma ex_calls [simp]:
  "started_by (ex_call c) = [c]" "finished_by (ex_call c) = []"
  "started_by (ex_result c) = []" "finished_by (ex_result c) = [c]"
  by (simp_all add: started_by_def finished_by_def item_kind_def ex_call_def ex_result_def field_str_def field_def
      block_calls_def)

lemma reused_call_id_stays_running:
  "\<not> no_running (items (fold_all (history_to_seed_events [ex_call ''x'', ex_result ''x'', ex_call ''x''] ex_ref)))"
proof -
  have "fold run_effect (history_to_seed_events [ex_call ''x'', ex_result ''x'', ex_call ''x''] ex_ref) {} = {''x''}"
    by (simp add: history_to_seed_events_def split_beta orphans_effect seed_item_effect seed_item_calls fresh_replay_def)
  with running_fold_all [OF history_replay_events, of initial_session_state] show ?thesis
    by (simp add: no_running_ids fold_all_def fold_all_from_def initial_session_state_def)
qed

lemma history_settles_tools_witness:
  "no_running (items (fold_all_from initial_session_state
     (history_to_seed_events [ex_call ''x'', ex_call ''y'', ex_result ''x''] ex_ref)))"
proof (rule history_settles_tools)
  show "results_follow [ex_call ''x'', ex_call ''y'', ex_result ''x'']"
    unfolding results_follow_def by (auto simp: Cons_eq_append_conv)
qed (simp add: initial_session_state_def)

end
