(* ===== verification/Live_Session.thy ===== *)
theory Live_Session
  imports Event_Facts History_Seed
begin

text \<open>
  One warm session of the driver, \<^verbatim>\<open>server-rs/pantoken-server/src/polytoken/driver.rs\<close>: the cached state
  around the translation of daemon events, the effects it asks for, and the answers to dialogs. The
  daemon's replies during a step are the record \<open>daemon\<close>; sockets, processes and leases are left out.
  Emitted events are returned in order. \<open>now\<close> is the clock of the step. \<open>None\<close> is a panic, which ends
  the session's consumer task.
\<close>

section \<open>State\<close>

record warm_session =
  accumulator :: fold_accumulator
  last_state :: "state_snapshot option"
  warm_ref :: session_ref
  warm_workspace :: workspace_ref
  pending_interrogatives :: "string \<rightharpoonup> pending_interrogative"
  monitor_mode :: "permission_monitor_mode option"
  autodrain_enabled :: "bool option"

definition new_warm :: "session_ref \<Rightarrow> workspace_ref \<Rightarrow> state_snapshot option \<Rightarrow> warm_session" where
  "new_warm sref wsp st =
     \<lparr>accumulator = create_accumulator, last_state = st, warm_ref = sref, warm_workspace = wsp,
      pending_interrogatives = Map.empty, monitor_mode = None, autodrain_enabled = None\<rparr>"

record daemon =
  get_state :: "state_snapshot option"
  get_history :: "json list option"
  get_turn_input :: "pending_turn_snapshot option"
  post_response :: "string \<Rightarrow> interrogative_response \<Rightarrow> string option"

section \<open>The context\<close>

definition live_status :: "state_snapshot option \<Rightarrow> session_status" where
  "live_status st = (case st of
     Some s \<Rightarrow> if unwrap_or (turn_in_flight s) False then Running else Idle | None \<Rightarrow> Idle)"

definition driver_ctx :: "timestamp \<Rightarrow> warm_session \<Rightarrow> map_ctx" where
  "driver_ctx now ws =
     \<lparr>ctx_ref = warm_ref ws, ctx_workspace = warm_workspace ws, ctx_now = now,
      ctx_snapshot = (\<lambda>s. snapshot_from_state (last_state ws) (warm_ref ws) (warm_workspace ws) s now
        (monitor_mode ws) (autodrain_enabled ws)),
      ctx_live_status = live_status (last_state ws)\<rparr>"

definition live_snapshot :: "map_ctx \<Rightarrow> session_snapshot" where
  "live_snapshot ctx = ctx_snapshot ctx (ctx_live_status ctx)"

section \<open>Seeds\<close>

definition build_branch_seed :: "timestamp \<Rightarrow> session_snapshot \<Rightarrow> json list \<Rightarrow> session_ref \<Rightarrow> session_driver_event list" where
  "build_branch_seed now snapshot its sref =
     (let hist = history_to_seed_events its sref
      in E_SessionOpened (stamped sref now) snapshot # hist @
         (if hist \<noteq> [] then [E_SessionUpdated (stamped sref now) snapshot] else []))"

definition build_reseed_events :: "timestamp \<Rightarrow> session_snapshot \<Rightarrow> json list \<Rightarrow> session_ref \<Rightarrow> session_driver_event list" where
  "build_reseed_events now snapshot its sref =
     E_SessionReset (stamped sref now) # history_to_seed_events its sref @
     [E_SessionUpdated (stamped sref now) snapshot]"

section \<open>Effects\<close>

definition refresh_state :: "daemon \<Rightarrow> warm_session \<Rightarrow> warm_session" where
  "refresh_state d ws = (case get_state d of Some s \<Rightarrow> ws\<lparr>last_state := Some s\<rparr> | None \<Rightarrow> ws)"

fun execute_effect :: "daemon \<Rightarrow> timestamp \<Rightarrow> daemon_effect \<Rightarrow> warm_session \<Rightarrow>
    session_driver_event list \<times> warm_session" where
  "execute_effect d now (FetchState emit pid) ws =
     (let ws1 = refresh_state d ws in ([build_post_fetch_event emit (driver_ctx now ws1) pid], ws1))"
| "execute_effect d now Reseed ws =
     (let ws1 = refresh_state d (ws\<lparr>accumulator := reset_accumulator (accumulator ws)\<rparr>)
      in case get_history d of
           None \<Rightarrow> ([], ws1)
         | Some its \<Rightarrow> (build_reseed_events now (live_snapshot (driver_ctx now ws1)) its (warm_ref ws1), ws1))"
| "execute_effect d now RefetchQueue ws =
     (case get_turn_input d of
        None \<Rightarrow> ([], ws)
      | Some s \<Rightarrow>
          ([E_QueueUpdated (event_meta (driver_ctx now ws)) (queue_messages_from_snapshot s now)], ws))"
| "execute_effect d now (SetMonitorMode mode) ws = ([], ws\<lparr>monitor_mode := Some mode\<rparr>)"
| "execute_effect d now (SetAutodrainEnabled enabled) ws = ([], ws\<lparr>autodrain_enabled := Some enabled\<rparr>)"
| "execute_effect d now (RegisterInterrogative p) ws =
     ([], ws\<lparr>pending_interrogatives := (pending_interrogatives ws)(interrogative_id p \<mapsto> p)\<rparr>)"

fun execute_effects :: "daemon \<Rightarrow> timestamp \<Rightarrow> daemon_effect list \<Rightarrow> warm_session \<Rightarrow>
    session_driver_event list \<times> warm_session" where
  "execute_effects d now [] ws = ([], ws)"
| "execute_effects d now (e # es) ws =
     (let (evs, ws1) = execute_effect d now e ws; (evs', ws2) = execute_effects d now es ws1
      in (evs @ evs', ws2))"

text \<open>The title is patched into the cache before the event is translated.\<close>

definition patch_title :: "daemon_event \<Rightarrow> warm_session \<Rightarrow> warm_session" where
  "patch_title ev ws =
     (case ev of
        D_SessionTitleChanged _ _ t \<Rightarrow>
          ws\<lparr>last_state := map_option (\<lambda>s. s\<lparr>session_title := Some t\<rparr>) (last_state ws)\<rparr>
      | _ \<Rightarrow> ws)"

definition handle_sse_event :: "serde \<Rightarrow> daemon \<Rightarrow> timestamp \<Rightarrow> daemon_event \<Rightarrow> warm_session \<Rightarrow>
    (session_driver_event list \<times> warm_session) option" where
  "handle_sse_event js d now ev ws = do {
     let ws1 = patch_title ev ws;
     (out, acc) \<leftarrow> map_daemon_event js ev (accumulator ws1) (driver_ctx now ws1);
     let (evs, ws2) = execute_effects d now (effects out) (ws1\<lparr>accumulator := acc\<rparr>);
     Some (events out @ evs, ws2) }"

section \<open>Answers\<close>

fun request_of :: "host_ui_response \<Rightarrow> string" where
  "request_of (R_Value i _) = i"
| "request_of (R_Confirmed i _) = i"
| "request_of (R_Answers i _) = i"
| "request_of (R_Cancelled i _) = i"

text \<open>The emitted events, the request to the daemon, if any, and the session. The event about a failed
  request is emitted by the task that sends it.\<close>

definition answer_dialog :: "daemon \<Rightarrow> timestamp \<Rightarrow> host_ui_response \<Rightarrow> warm_session \<Rightarrow>
    session_driver_event list \<times> (string \<times> interrogative_response) option \<times> warm_session" where
  "answer_dialog d now response ws =
     (let rid = request_of response;
          base = stamped (warm_ref ws) now;
          resolved = E_HostUiResolved base rid;
          ws1 = ws\<lparr>pending_interrogatives := (pending_interrogatives ws)(rid := None)\<rparr>
      in case pending_interrogatives ws rid of
           None \<Rightarrow> ([resolved], None, ws1)
         | Some p \<Rightarrow>
             (case build_interrogative_response p response of
                None \<Rightarrow> ([resolved], None, ws1)
              | Some resp \<Rightarrow>
                  (resolved #
                     (case post_response d (interrogative_id p) resp of
                        None \<Rightarrow> []
                      | Some e \<Rightarrow>
                          [notify base (''respond-error-'' @ interrogative_id p)
                             (''Failed to send response to daemon: '' @ e) NotifyError]),
                   Some (interrogative_id p, resp), ws1)))"

section \<open>Whose events\<close>

text \<open>The session an event is about, and the session of a snapshot in it.\<close>

fun names_session :: "session_ref \<Rightarrow> session_driver_event \<Rightarrow> bool" where
  "names_session r (E_SessionOpened b sn) \<longleftrightarrow> eb_session_ref b = r \<and> s_ref sn = r"
| "names_session r (E_SessionUpdated b sn) \<longleftrightarrow> eb_session_ref b = r \<and> s_ref sn = r"
| "names_session r (E_RunCompleted b sn _ _) \<longleftrightarrow> eb_session_ref b = r \<and> s_ref sn = r"
| "names_session r ev \<longleftrightarrow> event_session_ref ev = r"

definition ctx_names :: "map_ctx \<Rightarrow> bool" where
  "ctx_names ctx \<longleftrightarrow> (\<forall>s. s_ref (ctx_snapshot ctx s) = ctx_ref ctx)"

lemma snapshot_ref [simp]: "s_ref (snapshot_from_state st sref wsp s now mode auto) = sref"
  by (simp add: snapshot_from_state_def)

lemma ctx_names_driver [simp]: "ctx_names (driver_ctx now ws)"
  and ctx_ref_driver [simp]: "ctx_ref (driver_ctx now ws) = warm_ref ws"
  by (simp_all add: ctx_names_def driver_ctx_def)

lemma names_stamped [simp]: "eb_session_ref (stamped r ts) = r"
  and names_meta [simp]: "eb_session_ref (event_meta ctx) = ctx_ref ctx"
  by (simp_all add: stamped_def event_meta_def)

lemma delta_names: "list_all (names_session (ctx_ref ctx)) (delta_event d k ctx)"
  by (cases "(d, k, ctx)" rule: delta_event.cases) (simp_all add: event_session_ref_def)

lemma mapping_names:
  "build_interrogative_mapping t js i quest opts ph gp rule tc base = Some (ev, p) \<Longrightarrow>
     names_session (eb_session_ref base) ev"
  by (cases t) (auto simp: build_permission_request_def Let_def event_session_ref_def
      split: Option.bind_splits option.splits prod.splits)

lemma mapping_names_ctx:
  "build_interrogative_mapping t js i quest opts ph gp rule tc (event_meta ctx) = Some (ev, p) \<Longrightarrow>
     names_session (ctx_ref ctx) ev"
  using mapping_names [of t js i quest opts ph gp rule tc "event_meta ctx"] by simp

lemma goal_names: "ctx_names ctx \<Longrightarrow> list_all (names_session (ctx_ref ctx)) (events (goal_driver_update g tr ctx))"
  by (simp add: goal_driver_update_def updated_def ctx_names_def split: option.split)

lemma map_arm_names:
  assumes "ctx_names ctx" and "map_arm ev js acc ctx = Some (out, acc1)"
  shows "list_all (names_session (ctx_ref ctx)) (events out)"
proof -
  note defs = stamped_notice_def notify_def updated_def event_session_ref_def tool_started_def tool_finished_def
    queue_drained_def queue_discarded_def system_reminder_def stop_hook_redirect_def
    build_ask_user_question_mapping_def Let_def
  have s: "s_ref (ctx_snapshot ctx s) = ctx_ref ctx" for s using assms(1) by (simp add: ctx_names_def)
  show ?thesis
    using assms(2) goal_names [OF assms(1)]
    by (cases ev) (auto simp: s defs delta_names dest: mapping_names_ctx
        split: if_splits option.splits list.splits Option.bind_splits)
qed

lemma post_fetch_names: "ctx_names ctx \<Longrightarrow> names_session (ctx_ref ctx) (build_post_fetch_event e ctx pid)"
  by (cases e) (simp_all add: ctx_names_def)

lemma history_names: "list_all (names_session sref) (history_to_seed_events its sref)"
proof -
  have b: "list_all (names_session sref) (fst (seed_block sref ts pid b))" for ts pid b
    by (simp add: seed_block_def event_session_ref_def Let_def split: option.split)
  have a: "list_all (names_session sref) (fst (seed_assistant sref ts item r))" for ts item r
    using b by (auto simp: seed_assistant_def Let_def list_all_iff split: option.split)
  have parts: "list_all (names_session sref) (fst (seed_user sref ts item r))"
    "list_all (names_session sref) (fst (seed_tool_result sref ts item r))"
    "names_session sref (seed_reminder sref ts item i)"
    "list_all (names_session sref) (seed_model_switch sref ts item)"
    "list_all (names_session sref) (seed_facet_switch sref ts item)"
    "list_all (names_session sref) (fst (seed_compaction sref ts item i r))" for ts item i r
    by (simp_all add: seed_user_def seed_tool_result_def seed_reminder_def seed_model_switch_def
        seed_facet_switch_def switch_snapshot_def seed_compaction_def event_session_ref_def Let_def
        split: option.split)
  have i: "list_all (names_session sref) (fst (seed_item sref i item r))" for i item r
    using parts a by (simp add: seed_item_def Let_def event_session_ref_def split: option.split)
  have "list_all (names_session sref) (fst (seed_items sref n xs r))" for n xs r
    by (induction xs arbitrary: n r) (simp_all add: split_beta i)
  then show ?thesis
    by (auto simp: history_to_seed_events_def split_beta settle_orphans_def event_session_ref_def list_all_iff)
qed

lemma warm_ref_refresh [simp]: "warm_ref (refresh_state d ws) = warm_ref ws"
  by (simp add: refresh_state_def split: option.split)

lemma execute_effect_names:
  "list_all (names_session (warm_ref ws)) (fst (execute_effect d now e ws)) \<and>
   warm_ref (snd (execute_effect d now e ws)) = warm_ref ws"
proof (cases e)
  case (FetchState emit pid)
  then show ?thesis using post_fetch_names [of "driver_ctx now (refresh_state d ws)" emit pid] by (simp add: Let_def)
next
  case Reseed
  have "s_ref (live_snapshot (driver_ctx now ws')) = warm_ref ws'" for ws'
    by (simp add: live_snapshot_def driver_ctx_def)
  with Reseed show ?thesis
    by (simp add: Let_def build_reseed_events_def history_names event_session_ref_def split: option.split)
next
  case RefetchQueue
  then show ?thesis by (simp add: event_session_ref_def split: option.split)
qed simp_all

lemma execute_effects_names:
  "list_all (names_session (warm_ref ws)) (fst (execute_effects d now es ws)) \<and>
   warm_ref (snd (execute_effects d now es ws)) = warm_ref ws"
proof (induction es arbitrary: ws)
  case (Cons e es)
  with execute_effect_names [of ws d now e] Cons [of "snd (execute_effect d now e ws)"] show ?case
    by (simp add: split_beta)
qed simp

lemma warm_ref_patch [simp]: "warm_ref (patch_title ev ws) = warm_ref ws"
  by (cases ev) (simp_all add: patch_title_def)

lemma handle_sse_eventE:
  assumes "handle_sse_event js d now ev ws = Some (evs, ws1)"
  obtains out acc where "map_daemon_event js ev (accumulator ws) (driver_ctx now (patch_title ev ws)) = Some (out, acc)"
    and "evs = events out @ fst (execute_effects d now (effects out) ((patch_title ev ws)\<lparr>accumulator := acc\<rparr>))"
    and "ws1 = snd (execute_effects d now (effects out) ((patch_title ev ws)\<lparr>accumulator := acc\<rparr>))"
proof -
  have "accumulator (patch_title ev ws) = accumulator ws" by (cases ev) (simp_all add: patch_title_def)
  with assms that show thesis
    by (fastforce simp: handle_sse_event_def Let_def split_beta split: Option.bind_splits)
qed

text \<open>C18: A session's stream speaks for that session only. Whatever the daemon sends and replies, every
  event that handling its stream emits names this session, every snapshot in such an event is one of
  this session, and so for answers to its dialogs; no step changes which session it is.\<close>

theorem session_events_typed:
  assumes "handle_sse_event js d now ev ws = Some (evs, ws1)"
  shows "list_all (names_session (warm_ref ws)) evs \<and> warm_ref ws1 = warm_ref ws \<and>
    list_all (names_session (warm_ref ws)) (fst (answer_dialog d now response ws)) \<and>
    warm_ref (snd (snd (answer_dialog d now response ws))) = warm_ref ws"
proof -
  from assms obtain out acc where
    m: "map_daemon_event js ev (accumulator ws) (driver_ctx now (patch_title ev ws)) = Some (out, acc)"
    and e: "evs = events out @ fst (execute_effects d now (effects out) ((patch_title ev ws)\<lparr>accumulator := acc\<rparr>))"
      "ws1 = snd (execute_effects d now (effects out) ((patch_title ev ws)\<lparr>accumulator := acc\<rparr>))"
    by (rule handle_sse_eventE)
  have "list_all (names_session (warm_ref ws)) (events out)"
    using m map_arm_names [of "driver_ctx now (patch_title ev ws)" ev js "accumulator ws" out acc]
    by (auto simp: map_daemon_event_def split: if_splits)
  moreover have "list_all (names_session (warm_ref ws)) (fst (answer_dialog d now response ws)) \<and>
      warm_ref (snd (snd (answer_dialog d now response ws))) = warm_ref ws"
    by (simp add: answer_dialog_def Let_def notify_def event_session_ref_def split: option.split)
  ultimately show ?thesis
    using execute_effects_names [of "(patch_title ev ws)\<lparr>accumulator := acc\<rparr>" d now "effects out"] by (simp add: e)
qed

section \<open>Reseeding\<close>

text \<open>The events after which the transcript is rebuilt from the history.\<close>

fun reseeds :: "daemon_event \<Rightarrow> bool" where
  "reseeds (D_StreamDiscontinuity None _) \<longleftrightarrow> True"
| "reseeds (D_SessionRewound None _ _) \<longleftrightarrow> True"
| "reseeds (D_ContextCleared None _ _) \<longleftrightarrow> True"
| "reseeds _ \<longleftrightarrow> False"

lemma handle_reseed:
  assumes "reseeds ev" and "get_state d = Some s" and "get_history d = Some its"
  obtains ws1 where "handle_sse_event js d now ev ws =
      Some (build_reseed_events now (live_snapshot (driver_ctx now ws1)) its (warm_ref ws), ws1)"
    and "last_state ws1 = Some s" and "accumulator ws1 = create_accumulator"
    and "warm_ref ws1 = warm_ref ws"
proof (rule that)
  let ?ws1 = "ws\<lparr>accumulator := create_accumulator, last_state := Some s\<rparr>"
  have r: "reset_accumulator acc = create_accumulator" for acc
    by (simp add: reset_accumulator_def create_accumulator_def)
  from assms(1) have "patch_title ev ws = ws"
    and "map_daemon_event js ev acc ctx = Some (fold_result [] [Reseed], acc)" for acc ctx
    by (cases ev rule: reseeds.cases; simp add: patch_title_def)+
  with assms(2,3) show "handle_sse_event js d now ev ws =
      Some (build_reseed_events now (live_snapshot (driver_ctx now ?ws1)) its (warm_ref ws), ?ws1)"
    by (simp add: handle_sse_event_def refresh_state_def r Let_def)
qed simp_all

lemma replay_approvals:
  "list_all replay_event evs \<Longrightarrow> pending_approvals (foldl fold_event st evs) = pending_approvals st"
proof (induction evs arbitrary: st)
  case (Cons ev evs)
  then have "pending_approvals (fold_event st ev) = pending_approvals st"
    by (cases ev) (simp_all add: fold_snapshot_def)
  with Cons show ?case by simp
qed simp

lemma fold_reseed:
  "fold_all_from st (build_reseed_events now sn its sref) =
     fold_snapshot (fold_all_from (st\<lparr>items := []\<rparr>) (history_to_seed_events its sref)) sn now"
  by (simp add: build_reseed_events_def fold_all_from_def stamped_def)

lemma history_items_from_empty:
  "items (fold_all_from (st\<lparr>items := []\<rparr>) (history_to_seed_events its sref)) =
     items (fold_all (history_to_seed_events its sref))"
  unfolding fold_all_def fold_all_from_def
  by (rule replay_items_all [OF history_replay_events]) (simp add: initial_session_state_def)

text \<open>C19: A reseed rebuilds the transcript from the history alone and settles it. When the stream lost
  events, the session was rewound or its context cleared, the emitted events fold to the same transcript
  from whatever was folded before; if the daemon then reports no turn in flight and results follow their
  calls, nothing is left streaming or running and the session is idle; and the accumulator starts
  afresh, so that no error of the lost part of the stream fails the next turn.\<close>

theorem reseed_rebuilds:
  assumes "reseeds ev" and "get_state d = Some s" and "get_history d = Some its"
  shows "\<exists>evs ws1. handle_sse_event js d now ev ws = Some (evs, ws1) \<and>
    items (fold_all_from st evs) = items (fold_all_from st' evs) \<and>
    pending_approvals (fold_all_from st evs) = pending_approvals st \<and>
    (turn_in_flight s \<noteq> Some True \<and> results_follow its \<longrightarrow>
      no_open (items (fold_all_from st evs)) \<and> no_running (items (fold_all_from st evs)) \<and>
      status (fold_all_from st evs) = Idle) \<and>
    accumulator ws1 = create_accumulator"
proof -
  obtain ws1 where h: "handle_sse_event js d now ev ws =
      Some (build_reseed_events now (live_snapshot (driver_ctx now ws1)) its (warm_ref ws), ws1)"
    and w: "last_state ws1 = Some s" "accumulator ws1 = create_accumulator"
    by (rule handle_reseed [OF assms])
  let ?sn = "live_snapshot (driver_ctx now ws1)" and ?H = "history_to_seed_events its (warm_ref ws)"
  have it: "items (fold_all_from x (build_reseed_events now ?sn its (warm_ref ws))) =
      (if s_status ?sn \<noteq> Running then close_open_assistant (items (fold_all ?H)) (Some now) else items (fold_all ?H))" for x
    by (simp add: fold_reseed fold_snapshot_def history_items_from_empty)
  have p: "pending_approvals (fold_all_from st (build_reseed_events now ?sn its (warm_ref ws))) = pending_approvals st"
    unfolding fold_reseed
    using replay_approvals [OF history_replay_events, of "st\<lparr>items := []\<rparr>" its "warm_ref ws"]
    by (simp add: fold_snapshot_def fold_all_from_def)
  have "no_open (items (fold_all_from st (build_reseed_events now ?sn its (warm_ref ws)))) \<and>
      no_running (items (fold_all_from st (build_reseed_events now ?sn its (warm_ref ws)))) \<and>
      status (fold_all_from st (build_reseed_events now ?sn its (warm_ref ws))) = Idle"
    if "turn_in_flight s \<noteq> Some True" "results_follow its"
  proof -
    have idle: "s_status ?sn = Idle"
      using that(1) w(1)
      by (auto simp: live_snapshot_def driver_ctx_def live_status_def snapshot_from_state_def unwrap_or_def split: option.splits)
    have "no_running (items (fold_all ?H))"
      unfolding fold_all_def by (rule replay_settles [OF that(2)]) (simp add: initial_session_state_def)
    then have "no_running (close_open_assistant (items (fold_all ?H)) (Some now))" by (simp add: no_running_ids)
    moreover have "bubble_wf (items (fold_all ?H))" using fold_all_wf [of ?H] by (simp add: state_wf_def)
    then have "no_open (close_open_assistant (items (fold_all ?H)) (Some now))" by simp
    moreover have "status (fold_all_from st (build_reseed_events now ?sn its (warm_ref ws))) = Idle"
      using idle by (simp add: fold_reseed fold_snapshot_def)
    ultimately show ?thesis using idle by (simp add: it)
  qed
  with h w(2) p it show ?thesis by auto
qed

section \<open>Cards and their answers\<close>

fun is_card :: "session_driver_event \<Rightarrow> bool" where
  "is_card (E_HostUiRequest _ req) \<longleftrightarrow> is_dialog_request req"
| "is_card _ \<longleftrightarrow> False"

lemma mapping_registers:
  "build_interrogative_mapping t js i quest opts ph gp rule tc base = Some (ev, p) \<Longrightarrow>
     interrogative_id p = i \<and> (\<exists>req. ev = E_HostUiRequest base req \<and> host_request_id req = i)"
  by (cases t) (auto simp: build_permission_request_def new_pending_def Let_def
      split: Option.bind_splits option.splits prod.splits)

lemma delta_no_card: "\<not> list_ex is_card (delta_event d k ctx)"
  by (cases "(d, k, ctx)" rule: delta_event.cases) simp_all

lemma goal_no_card: "\<not> list_ex is_card (events (goal_driver_update g tr ctx))"
  by (simp add: goal_driver_update_def updated_def split: option.split)

lemma map_arm_card:
  assumes "map_arm ev js acc ctx = Some (out, acc1)" and "E_HostUiRequest b req \<in> set (events out)"
    and "is_dialog_request req"
  obtains p where "effects out = [RegisterInterrogative p]" and "interrogative_id p = host_request_id req"
proof -
  note defs = stamped_notice_def notify_def updated_def tool_started_def tool_finished_def
    queue_drained_def queue_discarded_def system_reminder_def stop_hook_redirect_def
    build_ask_user_question_mapping_def Let_def
  have "list_ex is_card (events out)" using assms(2,3) by (auto simp: list_ex_iff intro!: bexI)
  with assms have "\<exists>p. effects out = [RegisterInterrogative p] \<and> interrogative_id p = host_request_id req"
    using delta_no_card goal_no_card
    by (cases ev) (auto simp: defs new_pending_def dest: mapping_registers
        split: if_splits option.splits list.splits Option.bind_splits)
  with that show thesis by blast
qed

lemma post_fetch_no_card: "\<not> is_card (build_post_fetch_event e ctx pid)"
  by (cases e) simp_all

lemma seed_no_card: "\<not> list_ex is_card (build_reseed_events now sn its sref)"
proof -
  have "replay_event ev \<Longrightarrow> \<not> is_card ev" for ev by (cases ev) simp_all
  then show ?thesis using history_replay_events [of its sref]
    by (auto simp: build_reseed_events_def list_ex_iff list_all_iff)
qed

lemma execute_effects_no_card: "\<not> list_ex is_card (fst (execute_effects d now es ws))"
proof (induction es arbitrary: ws)
  case (Cons e es)
  have "\<not> list_ex is_card (fst (execute_effect d now e ws))"
    by (cases e) (simp_all add: Let_def post_fetch_no_card seed_no_card split: option.split)
  with Cons show ?case by (simp add: split_beta)
qed simp

text \<open>C20: Every card can be answered. When handling the stream emits a dialog card, the session remembers
  it under the card's id when it is done, and cancelling the card, in whatever session state follows from
  that step alone, sends the daemon one cancellation for that question.\<close>

theorem cards_are_answerable:
  assumes "handle_sse_event js d now ev ws = Some (evs, ws1)" and "E_HostUiRequest b req \<in> set evs"
    and "is_dialog_request req"
  shows "(\<exists>p. pending_interrogatives ws1 (host_request_id req) = Some p \<and> interrogative_id p = host_request_id req) \<and>
    fst (snd (answer_dialog d' now' (R_Cancelled (host_request_id req) x) ws1)) = Some (host_request_id req, A_Cancel)"
proof -
  from assms(1) obtain out acc where
    m: "map_daemon_event js ev (accumulator ws) (driver_ctx now (patch_title ev ws)) = Some (out, acc)"
    and e: "evs = events out @ fst (execute_effects d now (effects out) ((patch_title ev ws)\<lparr>accumulator := acc\<rparr>))"
      "ws1 = snd (execute_effects d now (effects out) ((patch_title ev ws)\<lparr>accumulator := acc\<rparr>))"
    by (rule handle_sse_eventE)
  have c: "E_HostUiRequest b req \<in> set (events out)"
    using assms(2,3) execute_effects_no_card by (fastforce simp: e(1) list_ex_iff)
  with m have "map_arm ev js (accumulator ws) (driver_ctx now (patch_title ev ws)) = Some (out, acc)"
    by (auto simp: map_daemon_event_def split: if_splits)
  then obtain p where p: "effects out = [RegisterInterrogative p]" "interrogative_id p = host_request_id req"
    using c assms(3) by (rule map_arm_card)
  then have "pending_interrogatives ws1 (host_request_id req) = Some p" by (simp add: e(2))
  with p(2) show ?thesis by (simp add: answer_dialog_def Let_def)
qed

text \<open>An answer that does not fit its question is lost. The card closes and the question is forgotten,
  nothing is sent, and no later answer to it is sent either, not even a cancellation, so the daemon
  keeps waiting. A clarification with options answered by a text that is not one of them is such an answer.\<close>

theorem answer_lost:
  assumes "pending_interrogatives ws (request_of response) = Some p"
    and "build_interrogative_response p response = None" and "request_of later = request_of response"
  shows "answer_dialog d now response ws =
      ([E_HostUiResolved (stamped (warm_ref ws) now) (request_of response)], None,
       ws\<lparr>pending_interrogatives := (pending_interrogatives ws)(request_of response := None)\<rparr>) \<and>
    fst (snd (answer_dialog d' now' later (snd (snd (answer_dialog d now response ws))))) = None"
  using assms by (simp add: answer_dialog_def Let_def)

section \<open>Examples\<close>

definition ex_warm :: warm_session where
  "ex_warm = new_warm (ctx_ref ex_ctx) (ctx_workspace ex_ctx) None"

definition ex_daemon :: daemon where
  "ex_daemon = \<lparr>get_state = Some (ex_daemon_state 0 0), get_history = Some [ex_call ''x''],
     get_turn_input = None, post_response = (\<lambda>_ _. None)\<rparr>"

lemma session_events_typed_witness:
  "\<exists>evs ws1. handle_sse_event ex_serde ex_daemon ''t'' (D_MessageComplete None ''p'') ex_warm = Some (evs, ws1) \<and>
     length evs = 1 \<and> list_all (names_session (ctx_ref ex_ctx)) evs"
proof -
  obtain evs ws1 where h: "handle_sse_event ex_serde ex_daemon ''t'' (D_MessageComplete None ''p'') ex_warm = Some (evs, ws1)"
    and "length evs = 1"
    by (simp add: handle_sse_event_def patch_title_def map_daemon_event_def ex_warm_def new_warm_def
        create_accumulator_def Let_def)
  with session_events_typed [OF h, of "R_Confirmed ''i'' True"] show ?thesis
    by (auto simp: ex_warm_def new_warm_def)
qed

lemma reseed_rebuilds_witness:
  "\<exists>evs ws1. handle_sse_event ex_serde ex_daemon ''t'' (D_StreamDiscontinuity None 3) ex_warm = Some (evs, ws1) \<and>
    no_running (items (fold_all_from initial_session_state evs)) \<and>
    status (fold_all_from initial_session_state evs) = Idle"
proof -
  have "results_follow [ex_call ''x'']"
    unfolding results_follow_def by (auto simp: Cons_eq_append_conv)
  moreover have "turn_in_flight (ex_daemon_state 0 0) \<noteq> Some True" by (simp add: ex_daemon_state_def)
  ultimately show ?thesis
    using reseed_rebuilds [of "D_StreamDiscontinuity None 3" ex_daemon "ex_daemon_state 0 0" "[ex_call ''x'']"
        ex_serde "''t''" ex_warm initial_session_state initial_session_state]
    unfolding ex_daemon_def by fastforce
qed

lemma cards_are_answerable_witness:
  "\<exists>evs ws1. handle_sse_event ex_serde ex_daemon ''t'' (D_AskUserQuestion None ''q'' [] ''p'') ex_warm = Some (evs, ws1) \<and>
     fst (snd (answer_dialog ex_daemon ''u'' (R_Cancelled ''q'' True) ws1)) = Some (''q'', A_Cancel)"
proof -
  obtain evs ws1 where h: "handle_sse_event ex_serde ex_daemon ''t'' (D_AskUserQuestion None ''q'' [] ''p'') ex_warm = Some (evs, ws1)"
    and c: "E_HostUiRequest (event_meta (driver_ctx ''t'' ex_warm)) (H_Qna ''q'' None [] None) \<in> set evs"
    by (simp add: handle_sse_event_def patch_title_def map_daemon_event_def build_ask_user_question_mapping_def Let_def)
  from cards_are_answerable [OF h c, of ex_daemon "''u''" True] h show ?thesis by simp
qed

lemma answer_lost_witness:
  "\<exists>ws1. answer_dialog ex_daemon ''t'' (R_Value ''i'' ''Neither'')
      (ex_warm\<lparr>pending_interrogatives := [''i'' \<mapsto> (new_pending ''i'' P_Clarification)
         \<lparr>clarification_labels := Some [''Yes'', ''No''], clarification_option_keys := Some [''y'', ''n'']\<rparr>]\<rparr>) =
      ([E_HostUiResolved (stamped (ctx_ref ex_ctx) ''t'') ''i''], None, ws1) \<and>
    fst (snd (answer_dialog ex_daemon ''u'' (R_Cancelled ''i'' True) ws1)) = None"
  using answer_lost [of "ex_warm\<lparr>pending_interrogatives := [''i'' \<mapsto> (new_pending ''i'' P_Clarification)
         \<lparr>clarification_labels := Some [''Yes'', ''No''], clarification_option_keys := Some [''y'', ''n'']\<rparr>]\<rparr>"
      "R_Value ''i'' ''Neither''" _ "R_Cancelled ''i'' True" ex_daemon "''t''" ex_daemon "''u''"]
  by (auto simp: new_pending_def clarification_response_def ex_warm_def new_warm_def)

end
