(* ===== verification/Warm_Pool.thy ===== *)
theory Warm_Pool
  imports Live_Session
begin

text \<open>
  The driver's pool of warm sessions, \<^verbatim>\<open>driver.rs\<close> (\<^verbatim>\<open>install_warm\<close>, \<^verbatim>\<open>focus\<close>, \<^verbatim>\<open>open_session\<close>,
  \<^verbatim>\<open>reload_session\<close>, \<^verbatim>\<open>detach_session\<close>, \<^verbatim>\<open>dispose_idle_warm\<close>, \<^verbatim>\<open>shutdown\<close>) and the eviction policy
  \<^verbatim>\<open>shared/warm_cap.rs\<close>. An operation returns the events it emits itself; \<^verbatim>\<open>open_session\<close> also
  returns the seed it hands to the hub. The daemons that can be reached or started are the record
  \<open>host\<close>. Each operation is one step; the await points inside are not interleaved.
\<close>

section \<open>Eviction policy\<close>

fun eviction_loop :: "nat \<Rightarrow> 'a option \<Rightarrow> ('a \<Rightarrow> bool) \<Rightarrow> 'a list \<Rightarrow> 'a list \<Rightarrow> 'a list" where
  "eviction_loop need protected_id evictable victims [] = victims"
| "eviction_loop need protected_id evictable victims (i # ids) =
     (if length victims \<ge> need then victims
      else if Some i = protected_id \<or> \<not> evictable i
      then eviction_loop need protected_id evictable victims ids
      else eviction_loop need protected_id evictable (victims @ [i]) ids)"

definition eviction_plan :: "'a list \<Rightarrow> 'a option \<Rightarrow> int \<Rightarrow> ('a \<Rightarrow> bool) \<Rightarrow> 'a list" where
  "eviction_plan ids protected_id cap evictable =
     (if cap \<le> 0 \<or> int (length ids) \<le> cap then []
      else eviction_loop (nat (int (length ids) - cap)) protected_id evictable [] ids)"

section \<open>The pool\<close>

record pool =
  warm :: "string \<rightharpoonup> warm_session"
  order :: "string list"
  warm_cap :: int

record daemon_link =
  link_state :: "state_snapshot option"
  link_monitor :: "permission_monitor option"
  link_history :: "json list option"
  link_history_retry :: "json list option"

text \<open>A link holds a daemon's replies: its state, its monitor, its history, and its history when asked for a
  second time. \<open>attach\<close> is \<open>None\<close> when no port is known or the daemon on it does not take the lease; \<open>resume\<close> and
  \<open>spawn\<close> start a daemon.\<close>

record host =
  attach :: "string \<Rightarrow> daemon_link option"
  resume :: "string \<Rightarrow> string + daemon_link"
  spawn :: "string \<Rightarrow> string + string \<times> daemon_link"
  session_cwd :: "string \<Rightarrow> string"
  is_dir :: "string \<Rightarrow> bool"

definition focus :: "string \<Rightarrow> pool \<Rightarrow> pool" where
  "focus i p = p\<lparr>order := filter (\<lambda>x. x \<noteq> i) (order p) @ [i]\<rparr>"

definition active_warm :: "pool \<Rightarrow> warm_session option" where
  "active_warm p = (if order p = [] then None else warm p (last (order p)))"

definition busy_session :: "warm_session \<Rightarrow> bool" where
  "busy_session ws = (case last_state ws of Some s \<Rightarrow> unwrap_or (turn_in_flight s) False | None \<Rightarrow> False)"

definition in_flight :: "pool \<Rightarrow> string \<Rightarrow> bool" where
  "in_flight p i = (case warm p i of Some ws \<Rightarrow> busy_session ws | None \<Rightarrow> False)"

definition session_closed :: "timestamp \<Rightarrow> session_closed_reason \<Rightarrow> warm_session \<Rightarrow> session_driver_event" where
  "session_closed now reason ws = E_SessionClosed (stamped (warm_ref ws) now) reason"

fun evict_victims :: "timestamp \<Rightarrow> string list \<Rightarrow> pool \<Rightarrow> session_driver_event list \<times> pool" where
  "evict_victims now [] p = ([], p)"
| "evict_victims now (v # vs) p =
     (case warm p v of
        None \<Rightarrow> evict_victims now vs p
      | Some ws \<Rightarrow>
          (let (evs, p1) = evict_victims now vs
             (p\<lparr>warm := (warm p)(v := None), order := filter (\<lambda>x. x \<noteq> v) (order p)\<rparr>)
           in (session_closed now ClosedEnded ws # evs, p1)))"

definition install_warm ::
    "timestamp \<Rightarrow> string \<Rightarrow> session_ref \<Rightarrow> workspace_ref \<Rightarrow> daemon_link \<Rightarrow> pool \<Rightarrow>
     session_driver_event list \<times> warm_session \<times> pool" where
  "install_warm now sid sref wsp link p =
     (let ws = (new_warm sref wsp (link_state link))
            \<lparr>monitor_mode := map_option monitor_to_mode (link_monitor link)\<rparr>;
          p1 = focus sid (p\<lparr>warm := (warm p)(sid \<mapsto> ws)\<rparr>);
          (evs, p2) = evict_victims now
            (eviction_plan (order p1) (Some sid) (warm_cap p1) (\<lambda>i. \<not> in_flight p1 i)) p1
      in (evs, ws, p2))"

section \<open>Operations\<close>

definition session_id_from_path :: "string \<Rightarrow> string option" where
  "session_id_from_path path =
     (let parts = filter (\<lambda>s. s \<noteq> []) (split_on CHR ''/'' (map (\<lambda>c. if c = CHR 0x5C then CHR ''/'' else c) path))
      in if length parts \<ge> 2 \<and> last parts = ''session.json'' then Some (parts ! (length parts - 2)) else None)"

definition warm_seed :: "timestamp \<Rightarrow> warm_session \<Rightarrow> json list \<Rightarrow> session_driver_event list" where
  "warm_seed now ws its = build_branch_seed now (live_snapshot (driver_ctx now ws)) its (warm_ref ws)"

definition session_at :: "string \<Rightarrow> session_ref" where
  "session_at sid = \<lparr>workspace_id_of = [], session_id_of = sid\<rparr>"

definition workspace_at :: "string \<Rightarrow> workspace_ref" where
  "workspace_at cwd = \<lparr>ws_workspace_id = [], ws_path = cwd, ws_display_name = None\<rparr>"

text \<open>The three ways to warm a session, each a no-op when it is warm.\<close>

definition warm_session_attach ::
    "host \<Rightarrow> timestamp \<Rightarrow> string \<Rightarrow> pool \<Rightarrow>
     session_driver_event list \<times> (warm_session \<times> json list option) option \<times> pool" where
  "warm_session_attach h now sid p =
     (case attach h sid of
        None \<Rightarrow> ([], None, p)
      | Some link \<Rightarrow>
          (let (evs, ws, p1) = install_warm now sid (session_at sid) (workspace_at (session_cwd h sid)) link p
           in (evs, Some (ws, link_history link), p1)))"

definition warm_session_resume ::
    "host \<Rightarrow> timestamp \<Rightarrow> string \<Rightarrow> daemon_link option \<Rightarrow> pool \<Rightarrow>
     session_driver_event list \<times> (string + warm_session \<times> json list option) \<times> pool" where
  "warm_session_resume h now sid attached p =
     (case warm p sid of
        Some ws \<Rightarrow> ([], Inr (ws, Option.bind attached link_history_retry), p)
      | None \<Rightarrow>
          (case resume h sid of
             Inl e \<Rightarrow> ([], Inl e, p)
           | Inr link \<Rightarrow>
               (let (evs, ws, p1) = install_warm now sid (session_at sid) (workspace_at (session_cwd h sid)) link p
                in (evs, Inr (ws, link_history link), p1))))"

definition cold_start ::
    "host \<Rightarrow> timestamp \<Rightarrow> string \<Rightarrow> daemon_link option \<Rightarrow> pool \<Rightarrow>
     session_driver_event list \<times> (string + session_driver_event list) \<times> pool" where
  "cold_start h now sid attached p =
     (if \<not> is_dir h (session_cwd h sid)
      then ([], Inl (''session directory no longer exists: '' @ session_cwd h sid), p)
      else case warm_session_resume h now sid attached p of
             (evs, Inl e, p1) \<Rightarrow> (evs, Inl e, p1)
           | (evs, Inr (ws, None), p1) \<Rightarrow> (evs, Inr [], focus sid p1)
           | (evs, Inr (ws, Some its), p1) \<Rightarrow> (evs, Inr (warm_seed now ws its), focus sid p1))"

definition open_session ::
    "host \<Rightarrow> timestamp \<Rightarrow> string \<Rightarrow> pool \<Rightarrow>
     session_driver_event list \<times> (string + session_driver_event list) \<times> pool" where
  "open_session h now path p =
     (case session_id_from_path path of
        None \<Rightarrow> ([], Inl (''could not resolve session id from path: '' @ path), p)
      | Some sid \<Rightarrow>
          (case warm p sid of
             Some ws \<Rightarrow> ([], Inr (warm_seed now ws []), focus sid p)
           | None \<Rightarrow>
               (case warm_session_attach h now sid p of
                  (evs, Some (ws, Some its), p1) \<Rightarrow> (evs, Inr (warm_seed now ws its), focus sid p1)
                | (evs, Some (ws, None), p1) \<Rightarrow>
                    (let (evs', r, p2) = cold_start h now sid (attach h sid) (focus sid p1)
                     in (evs @ evs', r, p2))
                | (evs, None, p1) \<Rightarrow> cold_start h now sid None p1)))"

definition reload_session ::
    "host \<Rightarrow> timestamp \<Rightarrow> string \<Rightarrow> pool \<Rightarrow>
     session_driver_event list \<times> (string + session_driver_event list) \<times> pool" where
  "reload_session h now path p =
     (case session_id_from_path path of
        None \<Rightarrow> ([], Inl (''could not resolve session id from path: '' @ path), p)
      | Some sid \<Rightarrow> open_session h now path (p\<lparr>warm := (warm p)(sid := None)\<rparr>))"

definition detach_session ::
    "timestamp \<Rightarrow> string \<Rightarrow> pool \<Rightarrow> session_driver_event list \<times> (string + unit) \<times> pool" where
  "detach_session now path p =
     (case session_id_from_path path of
        None \<Rightarrow> ([], Inl (''could not resolve session id from path: '' @ path), p)
      | Some sid \<Rightarrow>
          (case warm p sid of
             None \<Rightarrow> ([], Inr (), p)
           | Some ws \<Rightarrow> ([session_closed now ClosedManual ws], Inr (), p\<lparr>warm := (warm p)(sid := None)\<rparr>)))"

text \<open>\<^verbatim>\<open>warm_session\<close>, which starts the daemon of a new session; the id comes from the daemon.\<close>

definition warm_new ::
    "host \<Rightarrow> timestamp \<Rightarrow> string \<Rightarrow> string \<Rightarrow> pool \<Rightarrow>
     session_driver_event list \<times> (string + warm_session) \<times> pool" where
  "warm_new h now provisional cwd p =
     (case warm p provisional of
        Some ws \<Rightarrow> ([], Inr ws, p)
      | None \<Rightarrow>
          (case spawn h cwd of
             Inl e \<Rightarrow> ([], Inl e, p)
           | Inr (sid, link) \<Rightarrow>
               (let (evs, ws, p1) = install_warm now sid (session_at sid) (workspace_at cwd) link p
                in (evs, Inr ws, p1))))"

definition dispose_idle_warm :: "pool \<Rightarrow> pool" where
  "dispose_idle_warm p = p\<lparr>warm := (\<lambda>i. case warm p i of Some ws \<Rightarrow> if busy_session ws then Some ws else None | None \<Rightarrow> None)\<rparr>"

definition shutdown :: "pool \<Rightarrow> pool" where
  "shutdown p = p\<lparr>warm := Map.empty\<rparr>"

section \<open>What eviction removes\<close>

lemma eviction_loop_take:
  "eviction_loop need pid ok victims ids =
     victims @ take (need - length victims) (filter (\<lambda>i. Some i \<noteq> pid \<and> ok i) ids)"
  by (induction ids arbitrary: victims) (auto simp: take_Cons' Suc_diff_Suc)

lemma eviction_plan_take:
  "eviction_plan ids pid cap ok =
     (if cap \<le> 0 then [] else take (nat (int (length ids) - cap)) (filter (\<lambda>i. Some i \<noteq> pid \<and> ok i) ids))"
  by (simp add: eviction_plan_def eviction_loop_take)

text \<open>The victims are the candidates of a prefix.\<close>

lemma take_filter_prefix:
  obtains old recent where "xs = old @ recent" and "take n (filter P xs) = filter P old"
proof (induction xs arbitrary: n thesis)
  case (Cons x xs)
  show ?case
  proof (cases "P x")
    case True
    show ?thesis
    proof (cases n)
      case 0
      then show ?thesis using Cons.prems [of "[]" "x # xs"] by simp
    next
      case (Suc m)
      from Cons.IH [of m] obtain old recent where "xs = old @ recent" "take m (filter P xs) = filter P old" .
      with Cons.prems [of "x # old" recent] True Suc show ?thesis by simp
    qed
  next
    case False
    from Cons.IH [of n] obtain old recent where "xs = old @ recent" "take n (filter P xs) = filter P old" .
    with Cons.prems [of "x # old" recent] False show ?thesis by simp
  qed
qed simp

lemma evict_victims_warm:
  "warm (snd (evict_victims now vs p)) = (warm p) |` (- set vs)"
  "warm_cap (snd (evict_victims now vs p)) = warm_cap p"
  "distinct vs \<Longrightarrow> order (snd (evict_victims now vs p)) = filter (\<lambda>x. x \<notin> set vs \<or> warm p x = None) (order p)"
  "distinct vs \<Longrightarrow> fst (evict_victims now vs p) =
     map (\<lambda>v. session_closed now ClosedEnded (the (warm p v))) (filter (\<lambda>v. warm p v \<noteq> None) vs)"
proof -
  show "warm (snd (evict_victims now vs p)) = (warm p) |` (- set vs)"
    and "warm_cap (snd (evict_victims now vs p)) = warm_cap p"
    by (induction now vs p rule: evict_victims.induct)
      (auto simp: Let_def split_beta restrict_map_def fun_eq_iff split: option.split)
  show "order (snd (evict_victims now vs p)) = filter (\<lambda>x. x \<notin> set vs \<or> warm p x = None) (order p)" if "distinct vs"
    using that by (induction now vs p rule: evict_victims.induct)
      (auto simp: Let_def split_beta split: option.split intro!: filter_cong)
  show "fst (evict_victims now vs p) =
     map (\<lambda>v. session_closed now ClosedEnded (the (warm p v))) (filter (\<lambda>v. warm p v \<noteq> None) vs)" if "distinct vs"
    using that by (induction now vs p rule: evict_victims.induct)
      (auto simp: Let_def split_beta split: option.split intro!: map_cong filter_cong)
qed

section \<open>The pool in every run\<close>

text \<open>Every warm session is in the recency order, once, under its own id. The order may name more.\<close>

definition pool_wf :: "pool \<Rightarrow> bool" where
  "pool_wf p \<longleftrightarrow> distinct (order p) \<and> dom (warm p) \<subseteq> set (order p) \<and>
     (\<forall>i ws. warm p i = Some ws \<longrightarrow> session_id_of (warm_ref ws) = i)"

inductive pool_run :: "int \<Rightarrow> pool \<Rightarrow> bool" for cap where
  pool_start: "pool_run cap \<lparr>warm = Map.empty, order = [], warm_cap = cap\<rparr>"
| pool_open: "pool_run cap p \<Longrightarrow> pool_run cap (snd (snd (open_session h now path p)))"
| pool_reload: "pool_run cap p \<Longrightarrow> pool_run cap (snd (snd (reload_session h now path p)))"
| pool_new: "pool_run cap p \<Longrightarrow> pool_run cap (snd (snd (warm_new h now provisional cwd p)))"
| pool_detach: "pool_run cap p \<Longrightarrow> pool_run cap (snd (snd (detach_session now path p)))"
| pool_dispose: "pool_run cap p \<Longrightarrow> pool_run cap (dispose_idle_warm p)"
| pool_shutdown: "pool_run cap p \<Longrightarrow> pool_run cap (shutdown p)"
| pool_stream: "pool_run cap p \<Longrightarrow> warm p i = Some ws \<Longrightarrow> handle_sse_event js d now ev ws = Some (evs, ws1) \<Longrightarrow>
    pool_run cap (p\<lparr>warm := (warm p)(i \<mapsto> ws1)\<rparr>)"
| pool_answer: "pool_run cap p \<Longrightarrow> warm p i = Some ws \<Longrightarrow>
    pool_run cap (p\<lparr>warm := (warm p)(i \<mapsto> snd (snd (answer_dialog d now response ws)))\<rparr>)"

lemma focus_wf: "pool_wf p \<Longrightarrow> pool_wf (focus i p)"
  by (auto simp: pool_wf_def focus_def)

lemma focus_simps [simp]: "warm (focus i p) = warm p" "warm_cap (focus i p) = warm_cap p"
  by (simp_all add: focus_def)

lemma drop_wf: "pool_wf p \<Longrightarrow> pool_wf (p\<lparr>warm := (warm p)(i := None)\<rparr>)"
  by (auto simp: pool_wf_def)

lemma distinct_plan: "distinct ids \<Longrightarrow> distinct (eviction_plan ids pid cap ok)"
  by (simp add: eviction_plan_take)

lemma evict_wf: "pool_wf p \<Longrightarrow> distinct vs \<Longrightarrow> pool_wf (snd (evict_victims now vs p))"
  by (auto simp: pool_wf_def evict_victims_warm restrict_map_def split: if_splits)

lemma install_wf:
  assumes "pool_wf p" and "session_id_of sref = sid" and "install_warm now sid sref wsp link p = (evs, ws, p1)"
  shows "pool_wf p1" and "warm_cap p1 = warm_cap p"
proof -
  let ?ws = "(new_warm sref wsp (link_state link))\<lparr>monitor_mode := map_option monitor_to_mode (link_monitor link)\<rparr>"
  let ?p = "focus sid (p\<lparr>warm := (warm p)(sid \<mapsto> ?ws)\<rparr>)"
  have w: "pool_wf ?p" using assms(1,2) by (auto simp: pool_wf_def focus_def new_warm_def)
  from assms(3) have e: "p1 = snd (evict_victims now
      (eviction_plan (order ?p) (Some sid) (warm_cap ?p) (\<lambda>i. \<not> in_flight ?p i)) ?p)"
    by (auto simp: install_warm_def Let_def split_beta)
  have "distinct (order ?p)" using w by (simp add: pool_wf_def)
  then show "pool_wf p1" unfolding e by (intro evict_wf w distinct_plan)
  show "warm_cap p1 = warm_cap p" by (simp add: e evict_victims_warm)
qed

lemma warm_new_wf:
  assumes "pool_wf p"
  shows "pool_wf (snd (snd (warm_new h now i cwd p))) \<and> warm_cap (snd (snd (warm_new h now i cwd p))) = warm_cap p"
  using assms install_wf [OF assms, of "session_at sid" sid for sid]
  by (auto simp: warm_new_def session_at_def split: option.split sum.split prod.split)

lemma warm_attach_wf:
  assumes "pool_wf p" and "warm_session_attach h now sid p = (evs, r, p1)"
  shows "pool_wf p1 \<and> warm_cap p1 = warm_cap p"
  using assms install_wf [OF assms(1), of "session_at sid" sid]
  by (auto simp: warm_session_attach_def session_at_def split: option.splits prod.splits)

lemma warm_resume_wf:
  assumes "pool_wf p" and "warm_session_resume h now sid a p = (evs, r, p1)"
  shows "pool_wf p1 \<and> warm_cap p1 = warm_cap p"
  using assms install_wf [OF assms(1), of "session_at sid" sid]
  by (auto simp: warm_session_resume_def session_at_def split: option.splits sum.splits prod.splits)

lemma cold_start_wf:
  assumes "pool_wf p"
  shows "pool_wf (snd (snd (cold_start h now sid a p))) \<and> warm_cap (snd (snd (cold_start h now sid a p))) = warm_cap p"
  using assms by (auto simp: cold_start_def focus_wf split: option.split sum.split prod.split dest: warm_resume_wf [OF assms])

lemma open_session_wf:
  assumes "pool_wf p"
  shows "pool_wf (snd (snd (open_session h now path p))) \<and> warm_cap (snd (snd (open_session h now path p))) = warm_cap p"
proof (cases "session_id_from_path path")
  case (Some sid)
  show ?thesis
  proof (cases "warm p sid")
    case None
    obtain evs r p1 where a: "warm_session_attach h now sid p = (evs, r, p1)" by (metis prod_cases3)
    from warm_attach_wf [OF assms a] have "pool_wf p1" "warm_cap p1 = warm_cap p" by simp_all
    with Some None a show ?thesis
      using cold_start_wf [of p1 h now sid None] cold_start_wf [of "focus sid p1" h now sid "attach h sid"]
      by (auto simp: open_session_def focus_wf Let_def split_beta split: option.split)
  qed (use Some assms in \<open>simp add: open_session_def focus_wf\<close>)
qed (use assms in \<open>simp add: open_session_def\<close>)

lemma answer_ref: "warm_ref (snd (snd (answer_dialog d now response ws))) = warm_ref ws"
  by (simp add: answer_dialog_def Let_def split: option.split)

lemma stream_ref:
  assumes "handle_sse_event js d now ev ws = Some (evs, ws1)"
  shows "warm_ref ws1 = warm_ref ws"
  using assms by (rule handle_sse_eventE) (simp add: execute_effects_names)

lemma update_wf:
  "pool_wf p \<Longrightarrow> warm p i = Some ws \<Longrightarrow> warm_ref ws1 = warm_ref ws \<Longrightarrow> pool_wf (p\<lparr>warm := (warm p)(i \<mapsto> ws1)\<rparr>)"
  by (auto simp: pool_wf_def)

lemma drop_all_wf:
  "pool_wf \<lparr>warm = Map.empty, order = [], warm_cap = cap\<rparr>"
  "pool_wf p \<Longrightarrow> pool_wf (dispose_idle_warm p) \<and> warm_cap (dispose_idle_warm p) = warm_cap p"
  "pool_wf p \<Longrightarrow> pool_wf (shutdown p) \<and> warm_cap (shutdown p) = warm_cap p"
  "pool_wf p \<Longrightarrow> pool_wf (snd (snd (detach_session now path p))) \<and>
     warm_cap (snd (snd (detach_session now path p))) = warm_cap p"
  by (auto simp: pool_wf_def dispose_idle_warm_def shutdown_def detach_session_def split: option.splits if_splits)

lemma pool_run_wf: "pool_run cap p \<Longrightarrow> pool_wf p \<and> warm_cap p = cap"
proof (induction rule: pool_run.induct)
  case (pool_reload p h now path)
  then show ?case
    using open_session_wf [OF drop_wf] by (auto simp: reload_session_def split: option.split)
qed (auto simp: open_session_wf warm_new_wf drop_all_wf update_wf answer_ref stream_ref)

section \<open>Eviction is safe\<close>

definition idle_except :: "string \<Rightarrow> pool \<Rightarrow> string \<Rightarrow> bool" where
  "idle_except sid p i \<longleftrightarrow> i \<noteq> sid \<and> \<not> in_flight p i"

lemma install_victims:
  assumes "pool_wf p" and "install_warm now sid sref wsp link p = (evs, ws, p1)"
    and "vs = (if warm_cap p \<le> 0 then []
               else take (nat (int (length (filter (\<lambda>i. i \<noteq> sid) (order p))) + 1 - warm_cap p))
                 (filter (idle_except sid p) (filter (\<lambda>i. i \<noteq> sid) (order p))))"
  shows "warm p1 = ((warm p)(sid \<mapsto> ws)) |` (- set vs)"
    and "evs = map (\<lambda>v. session_closed now ClosedEnded (the (warm p v))) (filter (\<lambda>v. warm p v \<noteq> None) vs)"
proof -
  let ?rest = "filter (\<lambda>i. i \<noteq> sid) (order p)"
  let ?p = "focus sid (p\<lparr>warm := (warm p)(sid \<mapsto> ws)\<rparr>)"
  let ?vs = "eviction_plan (order ?p) (Some sid) (warm_cap ?p) (\<lambda>i. \<not> in_flight ?p i)"
  have "filter (\<lambda>i. Some i \<noteq> Some sid \<and> \<not> in_flight ?p i) (order ?p) = filter (idle_except sid p) ?rest"
    by (auto simp: focus_def idle_except_def in_flight_def intro!: filter_cong)
  moreover have "length (order ?p) = Suc (length ?rest)" by (simp add: focus_def)
  ultimately have vs: "?vs = vs" unfolding eviction_plan_take assms(3) by (simp add: algebra_simps)
  have d: "distinct vs" using assms(1) by (simp add: assms(3) pool_wf_def)
  have sid: "v \<in> set vs \<Longrightarrow> v \<noteq> sid" for v by (auto simp: assms(3) dest!: in_set_takeD split: if_splits)
  have e: "evs = fst (evict_victims now vs ?p)" "p1 = snd (evict_victims now vs ?p)"
    using assms(2) vs by (auto simp: install_warm_def Let_def split_beta)
  show "warm p1 = ((warm p)(sid \<mapsto> ws)) |` (- set vs)" by (simp add: e evict_victims_warm)
  have "evs = map (\<lambda>v. session_closed now ClosedEnded (the (warm ?p v))) (filter (\<lambda>v. warm ?p v \<noteq> None) vs)"
    using e(1) evict_victims_warm(4) [OF d] by simp
  then show "evs = map (\<lambda>v. session_closed now ClosedEnded (the (warm p v))) (filter (\<lambda>v. warm p v \<noteq> None) vs)"
    using sid by (auto intro!: map_cong filter_cong)
qed


text \<open>Detached sessions keep counting. Detaching a session leaves it in the recency order, so in a full
  pool the next session that is opened closes the least recently focused one if it is idle, although the
  sessions now warm and the new one together fit the cap.\<close>

theorem detached_counts_against_cap:
  assumes "pool_run cap p" and "order p = a # xs" and "int (length (order p)) = cap"
    and "warm p a = Some v" and "\<not> in_flight p a"
    and "session_id_from_path path = Some t" and "t \<in> set xs" and "warm p t \<noteq> None"
    and "sid \<notin> set (order p)"
    and "install_warm now sid sref wsp link (snd (snd (detach_session now path p))) = (evs, ws, p1)"
  shows "int (card (dom (warm (snd (snd (detach_session now path p)))))) + 1 \<le> cap \<and>
    session_closed now ClosedEnded v \<in> set evs \<and> warm p1 a = None"
proof -
  let ?q = "snd (snd (detach_session now path p))"
  from assms(6,8) have q: "?q = p\<lparr>warm := (warm p)(t := None)\<rparr>" by (auto simp: detach_session_def)
  from assms(1) have wf: "pool_wf p" and cap: "warm_cap p = cap" by (simp_all add: pool_run_wf)
  then have d: "distinct (a # xs)" "dom (warm p) \<subseteq> set (order p)" by (simp_all add: pool_wf_def assms(2))
  have "t \<noteq> a" "sid \<noteq> a" "filter (\<lambda>i. i \<noteq> sid) (order ?q) = a # xs" "0 < cap"
    using assms d by (auto simp: q filter_id_conv)
  moreover have "idle_except sid ?q a" using assms(5) calculation by (simp add: idle_except_def in_flight_def q)
  ultimately have vs: "(if warm_cap ?q \<le> 0 then [] else take (nat (int (length (filter (\<lambda>i. i \<noteq> sid) (order ?q))) + 1 - warm_cap ?q))
                 (filter (idle_except sid ?q) (filter (\<lambda>i. i \<noteq> sid) (order ?q)))) = [a]"
    using cap assms(2,3) by (simp add: q)
  have "pool_wf ?q" unfolding q by (rule drop_wf [OF wf])
  note inst = install_victims [OF this assms(10) vs [symmetric]]
  have "card (dom (warm ?q)) \<le> card (set (order p) - {t})"
    using d(2) by (intro card_mono) (auto simp: q)
  also have "\<dots> = length (order p) - 1" using d(1) assms(2,7) by (simp add: distinct_card)
  finally have "int (card (dom (warm ?q))) + 1 \<le> cap" using assms(2,3) by simp
  with inst \<open>t \<noteq> a\<close> assms(4) show ?thesis by (simp add: q)
qed

section \<open>Examples\<close>

definition ex_link :: daemon_link where
  "ex_link = \<lparr>link_state = Some (ex_daemon_state 0 0), link_monitor = Some MonitorStandard, link_history = None,
     link_history_retry = None\<rparr>"

text \<open>A host that starts the session named by the directory.\<close>

definition ex_host :: host where
  "ex_host = \<lparr>attach = (\<lambda>_. None), resume = (\<lambda>_. Inl ''gone''), spawn = (\<lambda>cwd. Inr (cwd, ex_link)),
     session_cwd = (\<lambda>s. s), is_dir = (\<lambda>_. True)\<rparr>"

definition ex_session :: "string \<Rightarrow> warm_session" where
  "ex_session i = (new_warm (session_at i) (workspace_at i) (Some (ex_daemon_state 0 0)))\<lparr>monitor_mode := Some Standard\<rparr>"

definition ex_pool :: "string list \<Rightarrow> int \<Rightarrow> pool" where
  "ex_pool ids cap = \<lparr>warm = map_of (map (\<lambda>i. (i, ex_session i)) ids), order = ids, warm_cap = cap\<rparr>"

lemma ex_pool_idle: "\<not> in_flight (ex_pool ids cap) i"
  by (auto simp: in_flight_def ex_pool_def ex_session_def new_warm_def busy_session_def ex_daemon_state_def
      unwrap_or_def split: option.split dest!: map_of_SomeD)

lemma ex_pool_run: "pool_run 2 (ex_pool [''a'', ''b''] 2)"
proof -
  have add: "pool_run 2 (ex_pool (ids @ [i]) 2)"
    if "pool_run 2 (ex_pool ids 2)" "i \<notin> set ids" "[] \<notin> set ids" "length ids < 2" for ids i
  proof -
    have n: "map_of (map (\<lambda>i. (i, ex_session i)) ids) j = None" if "j \<notin> set ids" for j
      using that by (simp add: map_of_eq_None_iff image_image)
    have "(map_of (map (\<lambda>i. (i, ex_session i)) ids))(i \<mapsto> ex_session i) = map_of (map (\<lambda>i. (i, ex_session i)) (ids @ [i]))"
      using n [OF that(2)] by (auto simp: fun_eq_iff map_add_def split: option.split)
    moreover have "filter (\<lambda>x. x \<noteq> i) ids = ids" using that(2) by (auto simp: filter_id_conv)
    ultimately have "snd (snd (warm_new ex_host ''t'' [] i (ex_pool ids 2))) = ex_pool (ids @ [i]) 2"
      using that(4) n [OF that(3)]
      by (simp add: warm_new_def ex_host_def install_warm_def Let_def focus_def eviction_plan_def ex_pool_def
          ex_session_def ex_link_def)
    then show ?thesis using pool_new [OF that(1), of ex_host "''t''" "[]" i] by simp
  qed
  have "pool_run 2 (ex_pool [] 2)" using pool_start [of 2] by (simp add: ex_pool_def)
  from add [OF add [OF this, of "''a''"], of "''b''"] show ?thesis by simp
qed


lemma detached_counts_against_cap_witness:
  "\<exists>evs ws p1. install_warm ''t'' ''c'' (session_at ''c'') (workspace_at ''c'') ex_link
       (snd (snd (detach_session ''t'' ''/s/b/session.json'' (ex_pool [''a'', ''b''] 2)))) = (evs, ws, p1) \<and>
     session_closed ''t'' ClosedEnded (ex_session ''a'') \<in> set evs"
proof -
  obtain evs ws p1 where
    i: "install_warm ''t'' ''c'' (session_at ''c'') (workspace_at ''c'') ex_link
       (snd (snd (detach_session ''t'' ''/s/b/session.json'' (ex_pool [''a'', ''b''] 2)))) = (evs, ws, p1)"
    by (metis prod_cases3)
  have "session_id_from_path ''/s/b/session.json'' = Some ''b''" by code_simp
  from detached_counts_against_cap [OF ex_pool_run, of "''a''" "[''b'']" "ex_session ''a''", OF _ _ _ ex_pool_idle this _ _ _ i]
  have "session_closed ''t'' ClosedEnded (ex_session ''a'') \<in> set evs" by (simp add: ex_pool_def)
  with i show ?thesis by blast
qed

end
