(* ===== verification/Shell_Words.thy ===== *)
theory Shell_Words
  imports Text_Clip
begin

text \<open>
  The commands the desktop shell sends over ssh: \<^verbatim>\<open>desktop/src/bridge.rs\<close> (\<open>ssh_command\<close>, \<open>argv\<close>,
  \<open>remote_command\<close>, \<open>shell_quote\<close>) and \<^verbatim>\<open>desktop/src/docker_target.rs\<close> (\<open>posix_quote\<close>, \<open>shell_join\<close>, the
  words of \<^verbatim>\<open>docker exec\<close>). \<open>sh_words\<close> is what a POSIX shell reads: the words of a line made of letters,
  quotes, backslashes and blanks, each character with whether it was quoted; \<open>None\<close> for anything else,
  which a shell may interpret.
\<close>

section \<open>What the shell reads\<close>

definition alphanumeric :: "char \<Rightarrow> bool" where
  "alphanumeric c \<longleftrightarrow> (CHR ''a'' \<le> c \<and> c \<le> CHR ''z'') \<or> (CHR ''A'' \<le> c \<and> c \<le> CHR ''Z'')
     \<or> (CHR ''0'' \<le> c \<and> c \<le> CHR ''9'')"

definition literal :: "char \<Rightarrow> bool" where
  "literal c \<longleftrightarrow> alphanumeric c \<or> c \<in> set ''/.-_~:=''"

type_synonym shell_word = "(char \<times> bool) list"

abbreviation apostrophe :: char where "apostrophe \<equiv> CHR 0x27"
abbreviation backslash :: char where "backslash \<equiv> CHR 0x5C"

fun pending :: "shell_word option \<Rightarrow> shell_word list" where
  "pending None = []"
| "pending (Some w) = [w]"

definition grow :: "shell_word option \<Rightarrow> shell_word \<Rightarrow> shell_word option" where
  "grow w cs = Some (unwrap_or w [] @ cs)"

fun sh_read :: "bool \<Rightarrow> shell_word option \<Rightarrow> string \<Rightarrow> shell_word list option" where
  "sh_read True w [] = None"
| "sh_read False w [] = Some (pending w)"
| "sh_read True w (c # s) =
     (if c = apostrophe then sh_read False w s else sh_read True (grow w [(c, True)]) s)"
| "sh_read False w (c # s) =
     (if c = CHR '' '' then map_option ((@) (pending w)) (sh_read False None s)
      else if c = apostrophe then sh_read True (grow w []) s
      else if c = backslash then
        (case s of
           [] \<Rightarrow> None
         | d # s' \<Rightarrow> (if d = CHR 0x0A then None else sh_read False (grow w [(d, True)]) s'))
      else if literal c then sh_read False (grow w [(c, False)]) s
      else None)"

definition sh_words :: "string \<Rightarrow> shell_word list option" where
  "sh_words s = sh_read False None s"

text \<open>The shell replaces an unquoted tilde at the start of a word by a home directory.\<close>

fun tilde_expands :: "shell_word \<Rightarrow> bool" where
  "tilde_expands ((c, q) # _) \<longleftrightarrow> c = CHR ''~'' \<and> \<not> q"
| "tilde_expands [] \<longleftrightarrow> False"

section \<open>Quoting\<close>

definition escape_quotes :: "string \<Rightarrow> string" where
  "escape_quotes w = concat (map (\<lambda>c. if c = apostrophe then [apostrophe, backslash, apostrophe, apostrophe] else [c]) w)"

definition single_quoted :: "string \<Rightarrow> string" where
  "single_quoted w = [apostrophe] @ escape_quotes w @ [apostrophe]"

definition ssh_safe :: "char \<Rightarrow> bool" where
  "ssh_safe c \<longleftrightarrow> alphanumeric c \<or> c \<in> set ''/.-_~''"

definition shell_quote :: "string \<Rightarrow> string" where
  "shell_quote word = (if word \<noteq> [] \<and> list_all ssh_safe word then word else single_quoted word)"

definition posix_safe :: "char \<Rightarrow> bool" where
  "posix_safe c \<longleftrightarrow> alphanumeric c \<or> c \<in> set ''/.-_~:=''"

definition posix_quote :: "string \<Rightarrow> string" where
  "posix_quote word = (if word \<noteq> [] \<and> list_all posix_safe word then word else single_quoted word)"

definition shell_join :: "string list \<Rightarrow> string" where
  "shell_join ws = join '' '' (map posix_quote ws)"

section \<open>The ssh command\<close>

record ssh_command =
  dest_host :: string
  dest_port :: "nat option"
  remote_root :: string
  server_path :: string
  extra_env :: "(string \<times> string) list"
  raw_remote_command :: "string option"

definition remote_command :: "ssh_command \<Rightarrow> string" where
  "remote_command c = (case raw_remote_command c of
     Some command \<Rightarrow> command
   | None \<Rightarrow> ''PANTOKEN_SERVE_MODE=stdio-proxy PANTOKEN_REMOTE_ROOT='' @ shell_quote (remote_root c) @ '' ''
       @ concat (map (\<lambda>(k, v). k @ ''='' @ shell_quote v @ '' '') (extra_env c))
       @ ''exec '' @ shell_quote (server_path c))"

definition ssh_options :: "string list" where
  "ssh_options = [''-T'', ''-o'', ''BatchMode=yes'', ''-o'', ''ServerAliveInterval=30'']"

definition argv :: "ssh_command \<Rightarrow> string list" where
  "argv c = ssh_options @ (case dest_port c of Some p \<Rightarrow> [''-p'', show_int (int p)] | None \<Rightarrow> [])
     @ [dest_host c, remote_command c]"

definition redacted_debug :: "ssh_command \<Rightarrow> string" where
  "redacted_debug c = ''ssh '' @ join '' '' (ssh_options @ (if dest_port c \<noteq> None then [''-p'', ''<port>''] else [])
     @ [''<redacted>'', remote_command c])"

section \<open>The docker command\<close>

record docker_target =
  configured_name :: string
  container_id :: string
  docker_user :: string
  workdir :: "string option"
  pantoken_root :: string
  docker_env :: "(string \<times> string) list"

definition exec_prefix :: "docker_target \<Rightarrow> string list" where
  "exec_prefix t = [''docker'', ''exec'', ''-i'', ''--user'', docker_user t]
     @ (case workdir t of Some d \<Rightarrow> [''--workdir'', d] | None \<Rightarrow> [])
     @ concat (map (\<lambda>(k, v). [''--env'', k @ ''='' @ v]) (docker_env t)) @ [container_id t]"

definition command_words :: "docker_target \<Rightarrow> string \<Rightarrow> string list" where
  "command_words t script = exec_prefix t @ [''sh'', ''-c'', script]"

text \<open>A path of bytes; \<open>is_control\<close> holds of the control characters, in ASCII and beyond.\<close>

definition is_control :: "string \<Rightarrow> bool" where
  "is_control ch \<longleftrightarrow> (case ch of
     [c] \<Rightarrow> of_char c < (0x20 :: nat) \<or> of_char c = (0x7F :: nat)
   | [a, b] \<Rightarrow> a = CHR 0xC2 \<and> of_char b < (0xA0 :: nat)
   | _ \<Rightarrow> False)"

fun normal_parts :: "string list \<Rightarrow> string list option" where
  "normal_parts [] = Some []"
| "normal_parts (p # ps) =
     (if p = ''..'' then None
      else if p = [] \<or> p = ''.'' then normal_parts ps
      else map_option ((#) p) (normal_parts ps))"

definition normalize_absolute_path :: "string \<Rightarrow> string option" where
  "normalize_absolute_path value =
     (if value = [] \<or> list_ex is_control (utf8_chars value) \<or> \<not> starts_with value ''/'' then None
      else map_option (\<lambda>parts. if parts = [] then ''/'' else ''/'' @ join ''/'' parts)
        (normal_parts (split_on CHR ''/'' value)))"

definition upload_words :: "docker_target \<Rightarrow> string \<Rightarrow> string list option" where
  "upload_words t dest = map_option (\<lambda>d. exec_prefix t @ [''sh'', ''-c'', ''cat > \"$1\"'', ''sh'', d])
     (normalize_absolute_path dest)"

definition proxy_words :: "docker_target \<Rightarrow> string \<Rightarrow> string list option" where
  "proxy_words t server = map_option (\<lambda>s. exec_prefix t @ [s]) (normalize_absolute_path server)"

section \<open>Quoted words are read back\<close>

definition mark :: "(char \<Rightarrow> bool) \<Rightarrow> string \<Rightarrow> shell_word" where
  "mark safe w = map (\<lambda>c. (c, \<not> (w \<noteq> [] \<and> list_all safe w))) w"

lemma map_fst_mark [simp]: "map fst (mark safe w) = w"
  by (simp add: mark_def comp_def)

lemma literal_plain:
  "literal c \<Longrightarrow> c \<noteq> CHR '' '' \<and> c \<noteq> apostrophe \<and> c \<noteq> backslash"
  by (auto simp: literal_def alphanumeric_def less_eq_char_def)

lemma map_append_Nil [simp]: "map_option ((@) []) x = x"
  by (cases x) simp_all

lemma grow_simps [simp]: "grow (Some u) cs = Some (u @ cs)" "grow None cs = Some cs"
  "grow (grow cur cs) ds = grow cur (cs @ ds)"
  by (simp_all add: grow_def)

lemma read_literal:
  "list_all literal w \<Longrightarrow> w \<noteq> [] \<Longrightarrow>
     sh_read False cur (w @ s) = sh_read False (grow cur (map (\<lambda>c. (c, False)) w)) s"
proof (induction w arbitrary: cur)
  case (Cons c w)
  then have "sh_read False cur ((c # w) @ s) = sh_read False (grow cur [(c, False)]) (w @ s)"
    using literal_plain [of c] by simp
  with Cons show ?case by (cases "w = []") simp_all
qed simp

lemma read_escaped:
  "sh_read True (Some u) (escape_quotes w @ apostrophe # s) = sh_read False (Some (u @ map (\<lambda>c. (c, True)) w)) s"
  by (induction w arbitrary: u) (simp_all add: escape_quotes_def)

lemma read_single_quoted:
  "sh_read False cur (single_quoted w @ s) = sh_read False (grow cur (map (\<lambda>c. (c, True)) w)) s"
  using read_escaped [of "unwrap_or cur []" w s] by (simp add: single_quoted_def grow_def)

text \<open>A quoting function that leaves words of safe characters alone.\<close>

locale quoting =
  fixes quote :: "string \<Rightarrow> string" and safe :: "char \<Rightarrow> bool"
  assumes quote_eq: "quote w = (if w \<noteq> [] \<and> list_all safe w then w else single_quoted w)"
    and safe_literal: "safe c \<Longrightarrow> literal c"
begin

lemma read_quote: "sh_read False cur (quote w @ s) = sh_read False (grow cur (mark safe w)) s"
proof (cases "w \<noteq> [] \<and> list_all safe w")
  case True
  then have "list_all literal w" using safe_literal by (auto simp: list_all_iff)
  with True show ?thesis using read_literal [of w cur s] by (simp add: quote_eq mark_def)
next
  case False
  then have "mark safe w = map (\<lambda>c. (c, True)) w" by (auto simp: mark_def)
  moreover have "quote w = single_quoted w" unfolding quote_eq using False by (rule if_not_P)
  ultimately show ?thesis by (simp only: read_single_quoted)
qed

lemma read_join: "sh_words (join '' '' (map quote ws)) = Some (map (mark safe) ws)"
proof (induction ws rule: induct_list012)
  case (2 w)
  then show ?case using read_quote [of None w "[]"] by (simp add: sh_words_def)
next
  case (3 w v ws)
  then show ?case using read_quote [of None w "CHR '' '' # join '' '' (map quote (v # ws))"]
    by (simp add: sh_words_def)
qed (simp add: sh_words_def)

lemma tilde_read:
  "tilde_expands (mark safe w) \<longleftrightarrow> starts_with w ''~'' \<and> list_all safe w"
  by (cases w) (auto simp: mark_def starts_with_def)

end

interpretation posix: quoting posix_quote posix_safe
  by unfold_locales (simp_all add: posix_quote_def posix_safe_def literal_def)

interpretation ssh: quoting shell_quote ssh_safe
  by unfold_locales (auto simp: shell_quote_def ssh_safe_def literal_def)

text \<open>A joined command is read as it was written. Whatever the words contain, a shell that is given
  the joined line reads exactly these words, and nothing in them is special to it, except a tilde that
  starts a word of safe characters, which it expands.\<close>

theorem shell_join_roundtrip:
  "\<exists>read. sh_words (shell_join ws) = Some read \<and> map (map fst) read = ws \<and>
     map tilde_expands read = map (\<lambda>w. starts_with w ''~'' \<and> list_all posix_safe w) ws"
  using posix.read_join [of ws] by (auto simp: shell_join_def posix.tilde_read comp_def)

text \<open>The variables of the command are read one word each.\<close>

lemma read_env:
  "list_all (\<lambda>(k, v). list_all literal k) env \<Longrightarrow>
   \<exists>read. sh_read False None (concat (map (\<lambda>(k, v). k @ ''='' @ shell_quote v @ '' '') env) @ s) =
      map_option ((@) read) (sh_read False None s) \<and> map (map fst) read = map (\<lambda>(k, v). k @ ''='' @ v) env"
proof (induction env)
  case (Cons kv env)
  obtain k v where kv: "kv = (k, v)" by fastforce
  from Cons obtain read where
    r: "sh_read False None (concat (map (\<lambda>(k, v). k @ ''='' @ shell_quote v @ '' '') env) @ s) =
      map_option ((@) read) (sh_read False None s)" "map (map fst) read = map (\<lambda>(k, v). k @ ''='' @ v) env"
    by auto
  have "literal CHR ''=''" by (simp add: literal_def)
  with Cons.prems have "list_all literal (k @ ''='')" by (simp add: kv)
  from read_literal [OF this, of None] have "sh_read False None ((k @ ''='') @ shell_quote v @ '' '' @ t) =
      map_option ((@) [map (\<lambda>c. (c, False)) (k @ ''='') @ mark ssh_safe v]) (sh_read False None t)" for t
    by (simp add: ssh.read_quote)
  from this [of "concat (map (\<lambda>(k, v). k @ ''='' @ shell_quote v @ '' '') env) @ s"] r show ?case
    by (intro exI [of _ "(map (\<lambda>c. (c, False)) (k @ ''='') @ mark ssh_safe v) # read"])
      (simp add: kv option.map_comp comp_def)
qed (auto intro: exI [of _ "[]"])

text \<open>C22: The ssh command cannot be broken out of. For a command that is built from the profile, the
  remote shell reads the two settings, one assignment per variable, and \<open>exec\<close> with the server's path,
  each as one word with the profile's value in it, whatever the values contain.\<close>

theorem remote_command_words:
  assumes "raw_remote_command c = None" and "list_all (\<lambda>(k, v). list_all literal k) (extra_env c)"
  shows "\<exists>read. sh_words (remote_command c) = Some read \<and>
    map (map fst) read =
      [''PANTOKEN_SERVE_MODE=stdio-proxy'', ''PANTOKEN_REMOTE_ROOT='' @ remote_root c]
      @ map (\<lambda>(k, v). k @ ''='' @ v) (extra_env c) @ [''exec'', server_path c]"
proof -
  have head: "sh_read False None (''PANTOKEN_SERVE_MODE=stdio-proxy PANTOKEN_REMOTE_ROOT='' @ shell_quote r @ '' '' @ t) =
      map_option ((@) (map (map (\<lambda>c. (c, False))) [''PANTOKEN_SERVE_MODE=stdio-proxy''] @
        [map (\<lambda>c. (c, False)) ''PANTOKEN_REMOTE_ROOT='' @ mark ssh_safe r])) (sh_read False None t)" for r t
    by (cases "sh_read False None t") (simp_all add: ssh.read_quote literal_def alphanumeric_def less_eq_char_def)
  have tail: "sh_read False None (''exec '' @ shell_quote p) =
      Some [map (\<lambda>c. (c, False)) ''exec'', mark ssh_safe p]" for p
    using ssh.read_quote [of None p "[]"]
    by (simp add: literal_def alphanumeric_def less_eq_char_def)
  obtain read where r: "sh_read False None (concat (map (\<lambda>(k, v). k @ ''='' @ shell_quote v @ '' '') (extra_env c)) @
        ''exec '' @ shell_quote (server_path c)) =
      map_option ((@) read) (sh_read False None (''exec '' @ shell_quote (server_path c)))"
    "map (map fst) read = map (\<lambda>(k, v). k @ ''='' @ v) (extra_env c)"
    using read_env [OF assms(2)] by blast
  then have "sh_words (remote_command c) =
      Some (map (map (\<lambda>c. (c, False))) [''PANTOKEN_SERVE_MODE=stdio-proxy''] @
        [map (\<lambda>c. (c, False)) ''PANTOKEN_REMOTE_ROOT='' @ mark ssh_safe (remote_root c)] @
        read @ [map (\<lambda>c. (c, False)) ''exec'', mark ssh_safe (server_path c)])"
    unfolding remote_command_def assms(1) option.case sh_words_def append_assoc [symmetric]
    unfolding append_assoc head tail by simp
  then show ?thesis using r(2) by (simp add: comp_def)
qed

definition ex_ssh :: ssh_command where
  "ex_ssh = \<lparr>dest_host = ''dev'', dest_port = Some 22, remote_root = ''/srv/it's $HOME'', server_path = ''pantoken-server'',
     extra_env = [(''XDG_DATA_HOME'', ''/srv/a b'')], raw_remote_command = None\<rparr>"

lemma remote_command_words_witness:
  "\<exists>read. sh_words (remote_command ex_ssh) = Some read \<and> map (map fst) read =
     [''PANTOKEN_SERVE_MODE=stdio-proxy'', ''PANTOKEN_REMOTE_ROOT=/srv/it's $HOME'', ''XDG_DATA_HOME=/srv/a b'',
      ''exec'', ''pantoken-server'']"
  using remote_command_words [of ex_ssh]
  by (simp add: ex_ssh_def literal_def alphanumeric_def less_eq_char_def)

text \<open>A tilde is only expanded when the whole path is safe: with a blank in the path it is taken literally.\<close>

lemma tilde_path_with_blank:
  "\<not> tilde_expands (mark ssh_safe ''~/my root'')" "tilde_expands (mark ssh_safe ''~/.local/share/pantoken'')"
  by code_simp+

text \<open>The log line does not depend on the destination.\<close>

lemma redacted_debug_hides: "redacted_debug (c\<lparr>dest_host := d\<rparr>) = redacted_debug c"
  by (simp add: redacted_debug_def remote_command_def split: option.split)

section \<open>Docker targets\<close>

lemma normal_parts_Some:
  "normal_parts ps = Some qs \<Longrightarrow> qs = filter (\<lambda>p. p \<noteq> [] \<and> p \<noteq> ''.'') ps \<and> ''..'' \<notin> set ps"
  by (induction ps arbitrary: qs) (auto split: if_splits)

lemma normalize_absolute:
  assumes "normalize_absolute_path value = Some p"
  shows "starts_with p ''/'' \<and> (p = ''/'' \<or>
    (\<exists>parts. p = ''/'' @ join ''/'' parts \<and> list_all (\<lambda>q. q \<notin> {[], ''.'', ''..''} \<and> CHR ''/'' \<notin> set q) parts))"
  using assms split_on_no_sep [of _ "CHR ''/''" "value"]
  by (auto simp: normalize_absolute_path_def starts_with_def list_all_iff split: if_splits dest!: normal_parts_Some)

end
