(* ===== verification/Numbers.thy ===== *)
theory Numbers
  imports Versions
begin

text \<open>
  Decimal numbers: what \<open>str::parse\<close> accepts for an integer type, what \<open>as\<close> makes of a number that does not
  fit, and that printing and parsing are inverse.
\<close>

section \<open>Digits\<close>

lemma digits_of_digit: "c \<in> set (digits_of n) \<Longrightarrow> is_digit c"
proof (induction n arbitrary: c rule: digits_of.induct)
  case (1 n)
  show ?case
  proof (cases "n < 10")
    case True
    then have "c = char_of (48 + n)" using "1.prems" by (simp add: digits_of.simps [of n])
    with True have "(of_char c :: nat) = 48 + n" by (simp only: of_char_of) (rule mod_less, linarith)
    with True show ?thesis by (simp add: is_digit_def)
  next
    case False
    then consider "c \<in> set (digits_of (n div 10))" | "c = char_of (48 + n mod 10)"
      using "1.prems" by (auto simp: digits_of.simps [of n])
    then show ?thesis
    proof cases
      case 1
      with False show ?thesis by (rule "1.IH")
    next
      case 2
      have "n mod 10 < 10" by simp
      then have "(of_char c :: nat) = 48 + n mod 10"
        unfolding 2 of_char_of by (intro mod_less) linarith
      with \<open>n mod 10 < 10\<close> show ?thesis by (simp add: is_digit_def)
    qed
  qed
qed

lemma decimal_snoc: "decimal (s @ [c]) = 10 * decimal s + (of_char c - 0x30)"
  by (simp add: decimal_def)

lemma decimal_digits [simp]: "decimal (digits_of n) = n"
proof (induction n rule: digits_of.induct)
  case (1 n)
  show ?case
  proof (cases "n < 10")
    case True
    then show ?thesis by (simp add: digits_of.simps [of n] decimal_def)
  next
    case False
    have "n mod 10 < 10" by simp
    with False 1 show ?thesis by (simp add: digits_of.simps [of n] decimal_snoc)
  qed
qed

lemma digits_of_nonempty [simp]: "digits_of n \<noteq> []"
  by (subst digits_of.simps) simp

section \<open>Parsing\<close>

text \<open>\<open>str::parse\<close> for an unsigned type with numbers below \<open>bound\<close>: a plus is allowed, a minus is not.\<close>

definition digits :: "string \<Rightarrow> nat option" where
  "digits s = (if s \<noteq> [] \<and> list_all is_digit s then Some (decimal s) else None)"

definition parse_unsigned :: "nat \<Rightarrow> string \<Rightarrow> nat option" where
  "parse_unsigned bound s =
     (case digits (unwrap_or (strip_prefix s ''+'') s) of
        Some n \<Rightarrow> if n < bound then Some n else None
      | None \<Rightarrow> None)"

abbreviation "parse_u16 \<equiv> parse_unsigned (2 ^ 16)"
abbreviation "parse_u32 \<equiv> parse_unsigned (2 ^ 32)"

text \<open>The same for a signed type of \<open>w\<close> bits.\<close>

definition parse_signed :: "nat \<Rightarrow> string \<Rightarrow> int option" where
  "parse_signed w s =
     (case strip_prefix s ''-'' of
        Some t \<Rightarrow>
          (case digits t of Some n \<Rightarrow> if n \<le> 2 ^ (w - 1) then Some (- int n) else None | None \<Rightarrow> None)
      | None \<Rightarrow> map_option int (parse_unsigned (2 ^ (w - 1)) s))"

abbreviation "parse_i32 \<equiv> parse_signed 32"
abbreviation "parse_i64 \<equiv> parse_signed 64"

text \<open>\<open>as i32\<close>, \<open>as i64\<close> and \<open>as u128\<close>.\<close>

definition to_signed :: "nat \<Rightarrow> int \<Rightarrow> int" where
  "to_signed w n = (n + 2 ^ (w - 1)) mod 2 ^ w - 2 ^ (w - 1)"

lemma to_signed_id: "- (2 ^ (w - 1)) \<le> n \<Longrightarrow> n < 2 ^ (w - 1) \<Longrightarrow> 0 < w \<Longrightarrow> to_signed w n = n"
  by (cases w) (simp_all add: to_signed_def)

section \<open>Parsing what was printed\<close>

lemma digit_no_sign: "is_digit c \<Longrightarrow> c \<noteq> CHR ''+'' \<and> c \<noteq> CHR ''-''"
  by (auto simp: is_digit_def)

lemma digits_no_sign:
  assumes "list_all is_digit s"
  shows "strip_prefix s ''+'' = None" and "strip_prefix s ''-'' = None"
  using assms digit_no_sign by (cases s; force simp: strip_prefix_def starts_with_def)+

lemma digits_zeros: "decimal (replicate k CHR ''0'' @ s) = decimal s"
  by (induction k) (simp_all add: decimal_def)

lemma digits_padded: "digits (replicate k CHR ''0'' @ digits_of n) = Some n"
proof -
  have "list_all is_digit (replicate k CHR ''0'' @ digits_of n)"
    using digits_of_digit by (auto simp: list_all_iff is_digit_def)
  then show ?thesis by (simp add: digits_def digits_zeros)
qed

lemma padded_all_digits: "list_all is_digit (replicate k CHR ''0'' @ digits_of n)"
  using digits_of_digit by (auto simp: list_all_iff is_digit_def)

lemma parse_unsigned_padded: "n < bound \<Longrightarrow> parse_unsigned bound (replicate k CHR ''0'' @ digits_of n) = Some n"
  by (simp add: parse_unsigned_def digits_no_sign [OF padded_all_digits] digits_padded)

lemma parse_signed_padded:
  "n < 2 ^ (w - 1) \<Longrightarrow> parse_signed w (replicate k CHR ''0'' @ digits_of n) = Some (int n)"
  by (simp add: parse_signed_def digits_no_sign [OF padded_all_digits] parse_unsigned_padded)

end
