(* ===== verification/Remote_Profile.thy ===== *)
theory Remote_Profile
  imports Shell_Words Numbers
begin

text \<open>
  The saved profile of a remote host: \<^verbatim>\<open>desktop/src/remote_profile.rs\<close> (the profile, its validation and
  the fingerprints of acknowledged risks), the paths of
  \<^verbatim>\<open>server-rs/pantoken-remote-layout/src/layout.rs\<close>, and the ssh command built from a profile
  (\<^verbatim>\<open>desktop/src/bridge.rs\<close>). SHA-256, as lower-case hexadecimal digits, is the parameter \<open>sha256\<close>.
\<close>

section \<open>The layout below a root\<close>

definition has_parent_component :: "string \<Rightarrow> bool" where
  "has_parent_component p \<longleftrightarrow> ''..'' \<in> set (split_on CHR ''/'' p)"

definition sanitize_or_err :: "string \<Rightarrow> string option" where
  "sanitize_or_err s = (if has_parent_component s then None else Some s)"

definition releases_dir :: "string \<Rightarrow> string" where
  "releases_dir root = path_join root ''releases''"

definition release_artifact :: "string \<Rightarrow> string \<Rightarrow> string \<Rightarrow> string option" where
  "release_artifact root ver target =
     do { v \<leftarrow> sanitize_or_err ver; t \<leftarrow> sanitize_or_err target;
          Some (path_join (path_join (path_join (releases_dir root) v) t) ''pantoken-server'') }"

definition tools_dir :: "string \<Rightarrow> string" where
  "tools_dir root = path_join root ''tools''"

definition polytoken_binary :: "string \<Rightarrow> string \<Rightarrow> string \<Rightarrow> string option" where
  "polytoken_binary root ver target =
     do { v \<leftarrow> sanitize_or_err ver; t \<leftarrow> sanitize_or_err target;
          Some (path_join (path_join (path_join (path_join (tools_dir root) ''polytoken'') v) t) ''polytoken'') }"

definition install_metadata :: "string \<Rightarrow> string" where
  "install_metadata root = path_join root ''install.json''"

definition polytoken_xdg :: "string \<Rightarrow> string \<Rightarrow> string" where
  "polytoken_xdg root dir = path_join (path_join (path_join (tools_dir root) ''polytoken'') ''xdg'') dir"

datatype layout_error = EmptyRoot | RelativeRoot | TraversalInRoot

definition validate_layout :: "string \<Rightarrow> layout_error + unit" where
  "validate_layout root =
     (if root = [] then Inl EmptyRoot
      else if \<not> starts_with root ''/'' then Inl RelativeRoot
      else if has_parent_component root then Inl TraversalInRoot
      else Inr ())"

section \<open>Profiles\<close>

record docker_profile =
  container_name :: string
  container_user :: string
  container_workdir :: "string option"
  container_root :: string

datatype execution_target = Host | DockerContainer docker_profile

record risk_acknowledgements =
  root_fingerprint :: "string option"
  ephemeral_fingerprint :: "string option"

datatype polytoken_policy = RequireExisting | OfferInstall
datatype xdg_mode = Isolated | Shared

record remote_profile =
  profile_id :: string
  profile_label :: string
  ssh_destination :: string
  ssh_port :: "nat option"
  install_policy :: polytoken_policy
  remote_root_override :: "string option"
  server_path_override :: "string option"
  xdg_setting :: xdg_mode
  exec_target :: execution_target
  acknowledged :: risk_acknowledgements

datatype profile_error =
    EmptyId
  | EmptyLabel
  | EmptyDestination
  | InvalidPort nat
  | EmptyContainerName
  | InvalidContainerUser
  | InvalidPath string
  | InvalidFingerprint string

definition valid_docker_user :: "string \<Rightarrow> bool" where
  "valid_docker_user s \<longleftrightarrow>
     s \<noteq> [] \<and> \<not> list_ex (\<lambda>c. is_control c \<or> is_whitespace c \<or> c = ''/'') (utf8_chars s) \<and>
     (list_all is_digit s \<or>
      (case split_once CHR '':'' s of
         Some (u, g) \<Rightarrow> u \<noteq> [] \<and> g \<noteq> [] \<and> list_all is_digit u \<and> list_all is_digit g
       | None \<Rightarrow> list_all (\<lambda>c. alphanumeric c \<or> c \<in> set ''._-'') s))"

definition validate_absolute_path :: "string \<Rightarrow> profile_error + unit" where
  "validate_absolute_path path =
     (if \<not> starts_with path ''/'' \<or> path = [] \<or> list_ex is_control (utf8_chars path) \<or> has_parent_component path
      then Inl (InvalidPath path) else Inr ())"

definition lower_hex :: "char \<Rightarrow> bool" where
  "lower_hex c \<longleftrightarrow> is_digit c \<or> (CHR ''a'' \<le> c \<and> c \<le> CHR ''f'')"

definition valid_fingerprint :: "string \<Rightarrow> bool" where
  "valid_fingerprint s \<longleftrightarrow> length s = 64 \<and> list_all lower_hex s"

fun validate_target :: "execution_target \<Rightarrow> profile_error + unit" where
  "validate_target Host = Inr ()"
| "validate_target (DockerContainer d) =
     (if trim (container_name d) = [] then Inl EmptyContainerName
      else if \<not> valid_docker_user (container_user d) then Inl InvalidContainerUser
      else case validate_absolute_path (container_root d) of
        Inl e \<Rightarrow> Inl e
      | Inr _ \<Rightarrow> (case container_workdir d of
          Some path \<Rightarrow> validate_absolute_path path
        | None \<Rightarrow> Inr ()))"

definition invalid_fingerprint :: "risk_acknowledgements \<Rightarrow> string option" where
  "invalid_fingerprint a =
     find (\<lambda>s. \<not> valid_fingerprint s) (List.map_filter id [root_fingerprint a, ephemeral_fingerprint a])"

definition validate :: "remote_profile \<Rightarrow> profile_error + unit" where
  "validate p =
     (if trim (profile_id p) = [] then Inl EmptyId
      else if trim (profile_label p) = [] then Inl EmptyLabel
      else if trim (ssh_destination p) = [] then Inl EmptyDestination
      else if ssh_port p = Some 0 then Inl (InvalidPort 0)
      else case validate_target (exec_target p) of
        Inl e \<Rightarrow> Inl e
      | Inr _ \<Rightarrow>
          (case invalid_fingerprint (acknowledged p) of
             Some a \<Rightarrow> Inl (InvalidFingerprint a)
           | None \<Rightarrow> Inr ()))"

definition non_empty_or :: "string option \<Rightarrow> string \<Rightarrow> string" where
  "non_empty_or s d = (case s of Some x \<Rightarrow> if x \<noteq> [] then x else d | None \<Rightarrow> d)"

definition effective_root :: "remote_profile \<Rightarrow> string" where
  "effective_root p = non_empty_or (remote_root_override p) ''~/.local/share/pantoken''"

definition effective_server :: "remote_profile \<Rightarrow> string" where
  "effective_server p = non_empty_or (server_path_override p) ''pantoken-server''"

text \<open>\<open>SshCommand::from\<close>.\<close>

definition ssh_command_of :: "remote_profile \<Rightarrow> ssh_command" where
  "ssh_command_of p =
     \<lparr>dest_host = ssh_destination p, dest_port = ssh_port p, remote_root = effective_root p,
      server_path = effective_server p,
      extra_env = (if xdg_setting p = Isolated then
          [(''XDG_CONFIG_HOME'', polytoken_xdg (effective_root p) ''config''),
           (''XDG_DATA_HOME'', polytoken_xdg (effective_root p) ''data''),
           (''XDG_CACHE_HOME'', polytoken_xdg (effective_root p) ''cache'')] else []),
      raw_remote_command = None\<rparr>"

section \<open>Fingerprints\<close>

definition encode_field :: "string \<Rightarrow> string" where
  "encode_field v = show_int (int (length v)) @ '':'' @ v"

definition encode_fields :: "string list \<Rightarrow> string" where
  "encode_fields fs = concat (map encode_field fs)"

definition fingerprint :: "(string \<Rightarrow> string) \<Rightarrow> string list \<Rightarrow> string" where
  "fingerprint sha256 fs = sha256 (encode_fields fs)"

definition root_risk_fingerprint ::
    "(string \<Rightarrow> string) \<Rightarrow> nat \<Rightarrow> string \<Rightarrow> string \<Rightarrow> string \<Rightarrow> string \<Rightarrow> nat \<Rightarrow> nat \<Rightarrow> string" where
  "root_risk_fingerprint sha256 schema pid container cid user uid gid =
     fingerprint sha256 [show_int (int schema), pid, container, cid, user, show_int (int uid), show_int (int gid)]"

definition ephemeral_risk_fingerprint where
  "ephemeral_risk_fingerprint sha256 schema pid container cid root classification mount_dest mount_kind rw backing =
     fingerprint sha256
       [show_int (int schema), pid, container, cid, root, classification, mount_dest, mount_kind, rw, backing]"

text \<open>Decimal numbers are their digits, and a colon ends them.\<close>

lemma digits_before_colon:
  assumes "digits_of m @ '':'' @ a = digits_of n @ '':'' @ b"
  shows "m = n \<and> a = b"
proof -
  have "CHR '':'' \<notin> set (digits_of k)" for k
    using digits_of_digit [of "CHR '':''" k] by (auto simp: is_digit_def)
  then have once: "split_once CHR '':'' (digits_of k @ '':'' @ c) = Some (digits_of k, c)" for k c
    by (simp add: split_once_append)
  have "Some (digits_of m, a) = Some (digits_of n, b)"
    unfolding once [symmetric] using assms by (rule arg_cong)
  then have "decimal (digits_of m) = decimal (digits_of n)" "a = b" by simp_all
  then show ?thesis by (simp only: decimal_digits)
qed

lemma encode_field_digits: "encode_field v = digits_of (length v) @ '':'' @ v"
  by (simp add: encode_field_def show_int_def)

lemma encode_field_cancel:
  assumes "encode_field v @ a = encode_field w @ b"
  shows "v = w \<and> a = b"
  using digits_before_colon [of "length v" "v @ a" "length w" "w @ b"] assms
  by (auto simp: encode_field_digits)

lemma encode_fields_inj: "encode_fields fs = encode_fields gs \<Longrightarrow> fs = gs"
proof (induction fs arbitrary: gs)
  case Nil
  then show ?case by (cases gs) (simp_all add: encode_fields_def encode_field_def)
next
  case (Cons f fs)
  then obtain g gs' where gs: "gs = g # gs'" by (cases gs) (simp_all add: encode_fields_def encode_field_def)
  with Cons.prems have "encode_field f @ encode_fields fs = encode_field g @ encode_fields gs'"
    by (simp add: encode_fields_def)
  from encode_field_cancel [OF this] Cons.IH gs show ?case by simp
qed

text \<open>Two fingerprints agree when all fields agree, or when SHA-256 maps two messages to one digest.\<close>

lemma fingerprint_eq:
  "fingerprint sha256 fs = fingerprint sha256 gs \<longleftrightarrow>
     fs = gs \<or> (encode_fields fs \<noteq> encode_fields gs \<and> sha256 (encode_fields fs) = sha256 (encode_fields gs))"
  using encode_fields_inj by (auto simp: fingerprint_def)

section \<open>What validation accepts\<close>

lemma fingerprints_ok:
  "invalid_fingerprint a = None \<longleftrightarrow>
     pred_option valid_fingerprint (root_fingerprint a) \<and> pred_option valid_fingerprint (ephemeral_fingerprint a)"
  by (cases "root_fingerprint a"; cases "ephemeral_fingerprint a")
    (simp_all add: invalid_fingerprint_def List.map_filter_def)

lemma validate_ok:
  "validate p = Inr () \<longleftrightarrow>
     trim (profile_id p) \<noteq> [] \<and> trim (profile_label p) \<noteq> [] \<and> trim (ssh_destination p) \<noteq> [] \<and>
     ssh_port p \<noteq> Some 0 \<and> validate_target (exec_target p) = Inr () \<and>
     pred_option valid_fingerprint (root_fingerprint (acknowledged p)) \<and>
     pred_option valid_fingerprint (ephemeral_fingerprint (acknowledged p))"
  unfolding fingerprints_ok [symmetric]
  by (cases "validate_target (exec_target p)"; cases "invalid_fingerprint (acknowledged p)") (simp_all add: validate_def)

text \<open>A name or user that a container accepts has no blank and no slash, so it is one word.\<close>

lemma digit_alphanumeric: "is_digit c \<Longrightarrow> alphanumeric c"
  by (auto simp: is_digit_def alphanumeric_def less_eq_char_def)

lemma valid_docker_user_literal: "valid_docker_user s \<Longrightarrow> s \<noteq> [] \<and> list_all posix_safe s"
  by (auto simp: valid_docker_user_def posix_safe_def list_all_iff digit_alphanumeric
      dest!: split_once_Some split: option.splits)

text \<open>A destination that starts with a hyphen is valid, and ssh takes it as an option.\<close>

definition ex_option_profile :: remote_profile where
  "ex_option_profile = \<lparr>profile_id = ''a'', profile_label = ''b'', ssh_destination = ''-oProxyCommand=touch x'',
     ssh_port = None, install_policy = RequireExisting, remote_root_override = None, server_path_override = None,
     xdg_setting = Shared, exec_target = Host, acknowledged = \<lparr>root_fingerprint = None, ephemeral_fingerprint = None\<rparr>\<rparr>"

lemma destination_may_be_option:
  "validate ex_option_profile = Inr () \<and> argv (ssh_command_of ex_option_profile) =
     ssh_options @ [''-oProxyCommand=touch x'', ''PANTOKEN_SERVE_MODE=stdio-proxy PANTOKEN_REMOTE_ROOT=~/.local/share/pantoken exec pantoken-server'']"
  by code_simp

text \<open>An absolute version replaces the root.\<close>

lemma absolute_version_escapes: "release_artifact ''/srv'' ''/etc'' ''t'' = Some ''/etc/t/pantoken-server''"
  by code_simp

end
