(* ===== verification/Remote_Connection.thy ===== *)
theory Remote_Connection
  imports Remote_Profile
begin

text \<open>
  The connection of one remote host as the window sees it,
  \<^verbatim>\<open>desktop/src/remote_connection.rs\<close>: the state, its labels and the snapshot. The record
  \<open>remote_connection\<close> is the interior of the mutex of \<open>RemoteConnection\<close>; the bridge and the
  provisioning write it through \<open>on_state\<close>.
\<close>

datatype preflight_phase =
    CheckingDockerAccess
  | LocatingContainer
  | InspectingIdentity
  | CheckingUserPermissions
  | CheckingPersistence

datatype risk_kind = RootExecution | EphemeralData

record pending_risk =
  risk_id :: string
  risk_kind :: risk_kind
  risk_fingerprint :: string
  risk_title :: string
  risk_explanation :: string
  risk_consequences :: string
  continue_label :: string

datatype failure_kind =
    SshAuthFailed | HostKeyUnknown | SshUnreachable | ProtocolMismatch | ProxyStartFailed
  | StartupFailed | ProvisioningFailed

datatype connection_state =
    Disconnected
  | TestingSsh
  | Preflight preflight_phase
  | AwaitingAcknowledgement preflight_phase "pending_risk list"
  | Connecting
  | Starting
  | Ready
  | Reconnecting
  | Provisioning
  | ConnectionFailed failure_kind string

fun is_terminal :: "connection_state \<Rightarrow> bool" where
  "is_terminal (ConnectionFailed _ _) = True"
| "is_terminal Disconnected = True"
| "is_terminal _ = False"

definition is_ready :: "connection_state \<Rightarrow> bool" where
  "is_ready s \<longleftrightarrow> s = Ready"

fun failure_label :: "failure_kind \<Rightarrow> string" where
  "failure_label SshAuthFailed = ''SSH authentication failed''"
| "failure_label HostKeyUnknown = ''Host key unknown''"
| "failure_label SshUnreachable = ''Can't reach the host''"
| "failure_label ProtocolMismatch = ''Protocol mismatch''"
| "failure_label ProxyStartFailed = ''Couldn't start the bridge''"
| "failure_label StartupFailed = ''Remote runtime didn't start''"
| "failure_label ProvisioningFailed = ''Provisioning failed''"

fun suggested_action :: "failure_kind \<Rightarrow> string" where
  "suggested_action SshAuthFailed =
     ''Check your SSH key is loaded in the agent, or that the key/passphrase is correct.''"
| "suggested_action HostKeyUnknown = ''Connect to the host via SSH manually first to accept its host key.''"
| "suggested_action SshUnreachable = ''Check the host is up and reachable, and the port is correct.''"
| "suggested_action ProtocolMismatch =
     ''The remote runtime is incompatible '' @ em_dash @ '' upgrade it to match this app.''"
| "suggested_action ProxyStartFailed = ''Check for a port conflict on loopback, or that ssh is on PATH.''"
| "suggested_action StartupFailed =
     ''Check the remote runtime's logs '' @ em_dash @ '' it exited during startup.''"
| "suggested_action ProvisioningFailed =
     ''Provisioning failed '' @ em_dash @ '' see the remote runtime's install logs.''"

fun overlay_label :: "connection_state \<Rightarrow> string" where
  "overlay_label Disconnected = ''Disconnected''"
| "overlay_label TestingSsh = ''Testing SSH'' @ ellipsis"
| "overlay_label (Preflight _) = ''Checking Docker target'' @ ellipsis"
| "overlay_label (AwaitingAcknowledgement _ _) = ''Awaiting acknowledgement''"
| "overlay_label Connecting = ''Connecting'' @ ellipsis"
| "overlay_label Starting = ''Starting runtime'' @ ellipsis"
| "overlay_label Ready = ''Ready''"
| "overlay_label Reconnecting = ''Reconnecting'' @ ellipsis"
| "overlay_label Provisioning = ''Provisioning'' @ ellipsis"
| "overlay_label (ConnectionFailed _ _) = ''Connection failed''"

record remote_connection =
  conn_state :: connection_state
  conn_profile :: "remote_profile option"

definition new_connection :: remote_connection where
  "new_connection = \<lparr>conn_state = Disconnected, conn_profile = None\<rparr>"

definition begin_connection :: "remote_profile \<Rightarrow> remote_connection \<Rightarrow> remote_connection" where
  "begin_connection p c = c\<lparr>conn_profile := Some p, conn_state := TestingSsh\<rparr>"

definition disconnect_connection :: "remote_connection \<Rightarrow> remote_connection" where
  "disconnect_connection c = c\<lparr>conn_profile := None, conn_state := Disconnected\<rparr>"

definition on_state :: "connection_state \<Rightarrow> remote_connection \<Rightarrow> remote_connection" where
  "on_state s c = c\<lparr>conn_state := s\<rparr>"

fun preflight_metadata :: "connection_state \<Rightarrow> preflight_phase option \<times> pending_risk list option" where
  "preflight_metadata (Preflight phase) = (Some phase, None)"
| "preflight_metadata (AwaitingAcknowledgement phase risks) = (Some phase, Some risks)"
| "preflight_metadata _ = (None, None)"

record connection_info =
  info_state :: string
  info_profile_label :: "string option"
  info_failed :: bool
  info_failure_label :: "string option"
  info_failure_action :: "string option"
  info_failure_detail :: "string option"
  info_preflight_phase :: "preflight_phase option"
  info_pending_risks :: "pending_risk list option"

definition connection_snapshot :: "remote_connection \<Rightarrow> connection_info" where
  "connection_snapshot c =
     (let failure = (case conn_state c of
            ConnectionFailed k d \<Rightarrow> (True, Some (failure_label k), Some (suggested_action k), Some d)
          | _ \<Rightarrow> (False, None, None, None));
          meta = preflight_metadata (conn_state c)
      in \<lparr>info_state = overlay_label (conn_state c), info_profile_label = map_option profile_label (conn_profile c),
          info_failed = fst failure, info_failure_label = fst (snd failure),
          info_failure_action = fst (snd (snd failure)), info_failure_detail = snd (snd (snd failure)),
          info_preflight_phase = fst meta, info_pending_risks = snd meta\<rparr>)"

end
