(* ===== verification/Bridge.thy ===== *)
theory Bridge
  imports Usage Frame Remote_Connection
begin

text \<open>
  The desktop's bridge between a browser's WebSocket and the server behind ssh,
  \<^verbatim>\<open>desktop/src/bridge.rs\<close>: classification of an ssh exit, the backoff, both directions of the relay as
  functions of what is read, and the relay loop \<open>run_ws_relay\<close>. A \<open>round\<close> of the loop is what happens to
  one ssh process: how the race of \<open>select!\<close> ends and what happens during the backoff. The upgrade of the
  browser's connection is not modelled. A jitter is the rational of its double.
\<close>

section \<open>Exits\<close>

datatype exit_class = AuthFailedExit | HostKeyExit | UnreachableExit | CleanExit | UnknownErrorExit

record exit_info =
  info_code :: "int option"
  info_signal :: "int option"
  info_stderr :: string

definition classify_exit :: "exit_info \<Rightarrow> exit_class" where
  "classify_exit x =
     (let code = unwrap_or (info_code x) (-1); err = ascii_lower (info_stderr x)
      in if code = 255 then
           (if contains err ''permission denied'' then AuthFailedExit
            else if contains err ''host key verification failed'' \<or> contains err ''host key for''
            then HostKeyExit
            else if contains err ''connection refused'' \<or> contains err ''timed out''
              \<or> contains err ''unreachable'' \<or> contains err ''could not resolve hostname''
            then UnreachableExit
            else if contains err ''refused'' then HostKeyExit
            else UnknownErrorExit)
         else if code = 0 then CleanExit else UnknownErrorExit)"

fun is_retryable :: "exit_class \<Rightarrow> bool" where
  "is_retryable UnreachableExit = True"
| "is_retryable UnknownErrorExit = True"
| "is_retryable _ = False"

fun to_failure_state :: "exit_class \<Rightarrow> failure_kind option" where
  "to_failure_state AuthFailedExit = Some SshAuthFailed"
| "to_failure_state HostKeyExit = Some HostKeyUnknown"
| "to_failure_state UnreachableExit = Some SshUnreachable"
| "to_failure_state CleanExit = None"
| "to_failure_state UnknownErrorExit = Some StartupFailed"

section \<open>Backoff\<close>

record reconnect_policy =
  base_ms :: nat
  max_ms :: nat
  max_attempts :: nat
  attempt :: nat

definition new_policy :: reconnect_policy where
  "new_policy = \<lparr>base_ms = 500, max_ms = 15000, max_attempts = 5, attempt = 0\<rparr>"

definition is_exhausted :: "reconnect_policy \<Rightarrow> bool" where
  "is_exhausted p \<longleftrightarrow> max_attempts p \<le> attempt p"

text \<open>The product and the power saturate at \<open>u64::MAX\<close>, the cast to \<open>u64\<close> at both ends.\<close>

definition U64_MAX :: nat where "U64_MAX = 2 ^ 64 - 1"

definition saturating :: "nat \<Rightarrow> nat" where "saturating n = min n U64_MAX"

definition capped_ms :: "reconnect_policy \<Rightarrow> nat" where
  "capped_ms p = min (saturating (base_ms p * saturating (2 ^ attempt p))) (max_ms p)"

definition next_delay :: "rat \<Rightarrow> reconnect_policy \<Rightarrow> nat option \<times> reconnect_policy" where
  "next_delay jitter p =
     (if is_exhausted p then (None, p)
      else let j = double (jitter - 1/2);
               jitter_factor = double (j * (1/2));
               (negative, ms) = round_away (double (double (of_nat (capped_ms p)) * double (1 + jitter_factor)));
               delay_ms = (if negative then 0 else saturating (nat ms))
           in (Some (max delay_ms 1), p\<lparr>attempt := attempt p + 1\<rparr>))"

section \<open>The relay loop\<close>

text \<open>The race: the token is cancelled, the exit future is ready, or one direction of the relay ends.\<close>

datatype race = RaceCancelled | RaceExit exit_info | RaceRelayEnd

datatype backoff_end = BackoffCancelled | BackoffOver | BrowserGone

record round =
  proxy :: "string option"
  race_end :: race
  jitter :: rat
  backoff :: backoff_end

text \<open>\<open>proxy\<close> is the error of \<open>spawn_proxy\<close>, if it fails. The loop ends by returning or by a panic, or it
  is still running when the rounds are used up.\<close>

datatype relay_end = Returned | Panicked | Running

text \<open>After the race was won by the exit future, the loop awaits this future once more. What that gives
  depends on the future and is the argument \<open>repoll\<close>: \<open>None\<close> is a panic.\<close>

fun run_ws_relay ::
    "(exit_info \<Rightarrow> exit_info option) \<Rightarrow> reconnect_policy \<Rightarrow> round list \<Rightarrow> connection_state list \<times> relay_end" where
  "run_ws_relay repoll policy [] = ([], Running)"
| "run_ws_relay repoll policy (r # rs) =
     (case proxy r of
        Some e \<Rightarrow> ([Starting, ConnectionFailed ProxyStartFailed (''could not start SSH proxy: '' @ e)], Returned)
      | None \<Rightarrow>
          (case race_end r of
             RaceExit first \<Rightarrow>
               (case repoll first of
                  None \<Rightarrow> ([Starting, Ready], Panicked)
                | Some info \<Rightarrow>
                    (let c = classify_exit info in
                     if \<not> is_retryable c then
                       (Starting # Ready # (case to_failure_state c of
                          Some k \<Rightarrow> [ConnectionFailed k (info_stderr info)] | None \<Rightarrow> []), Returned)
                     else case next_delay (jitter r) policy of
                       (None, _) \<Rightarrow>
                         ([Starting, Ready, ConnectionFailed SshUnreachable ''reconnect backoff exhausted''], Returned)
                     | (Some _, policy') \<Rightarrow>
                         (if backoff r = BackoffOver then
                            (let (states, fin) = run_ws_relay repoll policy' rs
                             in (Starting # Ready # Reconnecting # states, fin))
                          else ([Starting, Ready, Reconnecting], Returned))))
           | _ \<Rightarrow> ([Starting, Ready], Returned)))"

text \<open>The exit future of \<open>SystemSshTransport\<close> is a boxed \<open>async\<close> block: once it has returned its value,
  polling it again panics.\<close>

definition system_repoll :: "exit_info \<Rightarrow> exit_info option" where
  "system_repoll x = None"

definition handle_browser_connection ::
    "(exit_info \<Rightarrow> exit_info option) \<Rightarrow> round list \<Rightarrow> connection_state list \<times> relay_end" where
  "handle_browser_connection repoll rs =
     (let (states, fin) = run_ws_relay repoll new_policy rs in (Connecting # states, fin))"

section \<open>What is relayed\<close>

text \<open>From ssh to the browser: the bytes of each read go through the decoder, errors are dropped, and the
  message of every envelope is sent as text. \<open>from_slice\<close> parses an envelope to the JSON text of its
  message.\<close>

fun ssh_to_browser :: "(u8 list \<Rightarrow> string option) \<Rightarrow> frame_decoder \<Rightarrow> u8 list list \<Rightarrow> string list" where
  "ssh_to_browser from_slice d [] = []"
| "ssh_to_browser from_slice d (chunk # reads) =
     (let (results, d') = push d chunk
      in List.map_filter (\<lambda>r. case r of Inr body \<Rightarrow> from_slice body | Inl _ \<Rightarrow> None) results @
         ssh_to_browser from_slice d' reads)"

datatype ws_message = WsText string | WsBinary string | WsPing string | WsPong string | WsClose | WsFrame | WsError

text \<open>From the browser to ssh: the frames written, and whether the direction has ended. \<open>reframe\<close> parses
  the text and prints its envelope.\<close>

fun browser_to_ssh :: "(string \<Rightarrow> u8 list option) \<Rightarrow> ws_message list \<Rightarrow> u8 list list \<times> bool" where
  "browser_to_ssh reframe [] = ([], False)"
| "browser_to_ssh reframe (m # ms) =
     (case m of
        WsText t \<Rightarrow>
          (let (out, ended) = browser_to_ssh reframe ms
           in (if t = [] then out
               else case reframe t of
                 None \<Rightarrow> out
               | Some json \<Rightarrow> (case encode_json json of Inr frame \<Rightarrow> frame # out | Inl _ \<Rightarrow> out), ended))
      | WsClose \<Rightarrow> ([], True)
      | WsError \<Rightarrow> ([], True)
      | _ \<Rightarrow> browser_to_ssh reframe ms)"

section \<open>Exact arithmetic\<close>

text \<open>A multiple of a power of two with at most 53 bits is a double.\<close>

lemma round_even_int: "round_even (of_int n) = n"
  by (simp add: round_even_def)

lemma double_dyadic:
  assumes "\<bar>k\<bar> < 2 ^ 53"
  shows "double (of_int k / 2 ^ n) = of_int k / 2 ^ n"
proof (cases "k = 0")
  case False
  let ?x = "of_int k / 2 ^ n :: rat"
  have pos: "0 < \<bar>?x\<bar>" using False by simp
  define e where "e = exponent \<bar>?x\<bar>"
  have "2 powi e \<le> \<bar>?x\<bar>" unfolding e_def by (rule exponent_between [OF pos])
  also have "\<bar>?x\<bar> < 2 powi (53 - int n)"
  proof -
    have "of_int \<bar>k\<bar> < (of_int (2 ^ 53) :: rat)" using assms by (simp only: of_int_less_iff)
    then have "\<bar>?x\<bar> < 2 ^ 53 / 2 ^ n" by (simp add: divide_strict_right_mono)
    also have "\<dots> = 2 powi (53 - int n)" by (simp add: power_int_diff)
    finally show ?thesis .
  qed
  finally have "e < 53 - int n" using power_int_increasing [of "53 - int n" e "2 :: rat"] by force
  then have "0 \<le> 52 - int n - e" by simp
  then obtain i where i: "52 - int n - e = int i" by (rule nonneg_int_cases)
  have "?x / 2 powi (e - 52) = of_int (k * 2 ^ i)"
  proof -
    have "e - 52 + int i = - int n" using i by linarith
    then have "2 powi (e - 52) * 2 ^ i = (2 powi (- int n) :: rat)"
      by (simp add: power_int_add [symmetric] flip: power_int_of_nat)
    then show ?thesis by (simp add: field_simps power_int_minus)
  qed
  moreover have "double ?x = of_int (round_even (?x / 2 powi (e - 52))) * 2 powi (e - 52)"
    using False unfolding double_def Let_def e_def by simp
  ultimately have "double ?x = of_int (k * 2 ^ i) * 2 powi (e - 52)" by (simp only: round_even_int)
  also have "\<dots> = ?x" using \<open>?x / 2 powi (e - 52) = of_int (k * 2 ^ i)\<close> by (metis nonzero_eq_divide_eq power_int_not_zero zero_neq_numeral)
  finally show ?thesis .
qed (simp add: double_def)

lemma double_quarter_scale:
  assumes "m < 2 ^ 24"
  shows "double (1 + double (double (of_nat m / 2 ^ 24 - 1/2) * (1/2))) = of_nat (3 * 2 ^ 23 + m) / 2 ^ 25"
proof -
  let ?k = "int m - 2 ^ 23" and ?l = "int (3 * 2 ^ 23 + m)"
  have 1: "of_nat m / 2 ^ 24 - 1/2 = (of_int ?k / 2 ^ 24 :: rat)" by (simp add: field_simps)
  have 2: "double (of_int ?k / 2 ^ 24) = of_int ?k / 2 ^ 24" using assms by (intro double_dyadic) simp
  have 3: "of_int ?k / 2 ^ 24 * (1/2) = (of_int ?k / 2 ^ 25 :: rat)" by simp
  have 4: "double (of_int ?k / 2 ^ 25) = of_int ?k / 2 ^ 25" using assms by (intro double_dyadic) simp
  have 5: "1 + of_int ?k / 2 ^ 25 = (of_int ?l / 2 ^ 25 :: rat)" by (simp add: field_simps)
  have 6: "double (of_int ?l / 2 ^ 25) = of_int ?l / 2 ^ 25" using assms by (intro double_dyadic) simp
  show ?thesis unfolding 1 2 3 4 5 6 by (simp only: of_int_of_nat_eq)
qed

text \<open>Each delay is the doubled base of its attempt, give or take a quarter; the maximum of 15 seconds is
  never reached by five attempts.\<close>

lemma backoff_bounds:
  assumes "m < 2 ^ 24" and "a < 5"
  shows "\<exists>d. next_delay (of_nat m / 2 ^ 24) (new_policy\<lparr>attempt := a\<rparr>) = (Some d, new_policy\<lparr>attempt := a + 1\<rparr>) \<and>
    375 * 2 ^ a \<le> d \<and> d \<le> 625 * 2 ^ a"
proof -
  let ?p = "new_policy\<lparr>attempt := a\<rparr>"
  have c: "capped_ms ?p = 500 * 2 ^ a"
  proof -
    have "a = 0 \<or> a = 1 \<or> a = 2 \<or> a = 3 \<or> a = 4" using assms(2) by linarith
    then show ?thesis by (elim disjE) (simp_all add: capped_ms_def new_policy_def saturating_def U64_MAX_def)
  qed
  have small: "(2::nat) ^ a \<le> 16" using assms(2) power_increasing [of a 4 "2::nat"] by simp
  define x :: rat where "x = of_nat (500 * 2 ^ a * (3 * 2 ^ 23 + m)) / 2 ^ 25"
  have "double (of_nat (500 * 2 ^ a)) = (of_nat (500 * 2 ^ a) :: rat)"
  proof -
    have "int (500 * 2 ^ a) \<le> int 8000" using small by (simp only: of_nat_le_iff)
    then have "\<bar>int (500 * 2 ^ a)\<bar> < 2 ^ 53" by (simp del: of_nat_mult of_nat_power)
    from double_dyadic [OF this, of 0] show ?thesis by simp
  qed
  moreover have "double (of_nat (500 * 2 ^ a) * (of_nat (3 * 2 ^ 23 + m) / 2 ^ 25)) = x"
  proof -
    have "500 * 2 ^ a * (3 * 2 ^ 23 + m) \<le> 500 * 16 * (3 * 2 ^ 23 + 2 ^ 24)"
      using small assms(1) by (intro mult_le_mono) simp_all
    then have "int (500 * 2 ^ a * (3 * 2 ^ 23 + m)) \<le> int (500 * 16 * (3 * 2 ^ 23 + 2 ^ 24))"
      by (simp only: of_nat_le_iff)
    then have "\<bar>int (500 * 2 ^ a * (3 * 2 ^ 23 + m))\<bar> < 2 ^ 53" by (simp del: of_nat_mult of_nat_power of_nat_add)
    from double_dyadic [OF this, of 25] show ?thesis by (simp add: x_def)
  qed
  ultimately have x: "double (double (of_nat (capped_ms ?p)) * double (1 + double (double (of_nat m / 2 ^ 24 - 1/2) * (1/2)))) = x"
    by (simp only: c double_quarter_scale [OF assms(1)])
  have "0 \<le> x" by (simp add: x_def)
  have lo: "of_nat (375 * 2 ^ a) \<le> x" by (simp add: x_def field_simps)
  have hi: "x \<le> of_nat (625 * 2 ^ a)" using assms(1) by (simp add: x_def field_simps)
  define n where "n = \<lfloor>x + 1/2\<rfloor>"
  have "int (375 * 2 ^ a) \<le> n" using lo by (simp add: n_def le_floor_iff)
  moreover have "n \<le> int (625 * 2 ^ a)" using hi by (simp add: n_def floor_le_iff)
  ultimately have N: "375 * 2 ^ a \<le> nat n" "nat n \<le> 625 * 2 ^ a" by linarith+
  have "1 \<le> (2 :: nat) ^ a" by simp
  with N(1) have "1 \<le> nat n" by linarith
  moreover have "nat n \<le> 10000" using N(2) small by linarith
  ultimately have "max (saturating (nat n)) 1 = nat n" by (simp add: saturating_def U64_MAX_def)
  moreover have "round_away x = (False, n)" using \<open>0 \<le> x\<close> by (simp add: round_away_def n_def)
  moreover have "\<not> is_exhausted ?p" using assms(2) by (simp add: is_exhausted_def new_policy_def)
  ultimately have "next_delay (of_nat m / 2 ^ 24) ?p = (Some (nat n), ?p\<lparr>attempt := a + 1\<rparr>)"
    unfolding next_delay_def Let_def x by simp
  with N show ?thesis by simp
qed

section \<open>The relay loop ends\<close>

text \<open>The bridge never reconnects. With the exit future of the system's ssh transport, one connection
  of the browser starts one ssh process at most: when the process exits first, whatever its exit code
  and output, the task panics with the state still \<open>Ready\<close>; otherwise the connection is closed without
  looking at the exit. The exit is never classified, no failure other than that of the start is
  reported, and \<open>Reconnecting\<close> is never reached.\<close>

theorem bridge_never_reconnects:
  "handle_browser_connection system_repoll (r # rs) =
     (case proxy r of
        Some e \<Rightarrow> ([Connecting, Starting, ConnectionFailed ProxyStartFailed (''could not start SSH proxy: '' @ e)], Returned)
      | None \<Rightarrow> ([Connecting, Starting, Ready],
          case race_end r of RaceExit info \<Rightarrow> Panicked | _ \<Rightarrow> Returned))"
  by (simp add: handle_browser_connection_def system_repoll_def Let_def split: option.split race.split)

text \<open>What the loop does with an exit future that can be asked again.\<close>

lemma next_delay_attempt:
  "next_delay j p = (d, p') \<Longrightarrow>
     (d = None \<longleftrightarrow> max_attempts p \<le> attempt p) \<and>
     (d \<noteq> None \<longrightarrow> p' = p\<lparr>attempt := attempt p + 1\<rparr>)"
  by (auto simp: next_delay_def is_exhausted_def Let_def split: if_splits prod.splits)

lemma relay_ends:
  assumes "max_attempts p - attempt p < length rs"
  shows "snd (run_ws_relay Some p rs) = Returned \<and>
    length (filter ((=) Starting) (fst (run_ws_relay Some p rs))) \<le> Suc (max_attempts p - attempt p)"
  using assms
proof (induction rs arbitrary: p)
  case (Cons r rs)
  show ?case
  proof (cases "proxy r")
    case None
    show ?thesis
    proof (cases "race_end r")
      case (RaceExit info)
      obtain d p' where n: "next_delay (jitter r) p = (d, p')" by fastforce
      note a = next_delay_attempt [OF n]
      show ?thesis
      proof (cases "is_retryable (classify_exit info) \<and> d \<noteq> None \<and> backoff r = BackoffOver")
        case True
        with a have "p' = p\<lparr>attempt := attempt p + 1\<rparr>" "attempt p < max_attempts p" by auto
        with Cons.prems have "max_attempts p' - attempt p' < length rs"
          and "Suc (max_attempts p' - attempt p') = max_attempts p - attempt p" by auto
        with Cons.IH [of p'] True None RaceExit n show ?thesis by (auto simp: Let_def split_beta)
      next
        case False
        with None RaceExit n show ?thesis by (auto simp: Let_def split: option.split)
      qed
    qed (use None in simp_all)
  qed simp
qed simp

lemma classify_fatal:
  "classify_exit info \<in> {AuthFailedExit, HostKeyExit, CleanExit} \<Longrightarrow> \<not> is_retryable (classify_exit info)"
  by auto

text \<open>With an exit future that may be awaited twice, the loop would give up: it returns after six ssh
  processes at most, whatever happens to them, and a failed authentication, an unknown host key or a
  clean exit ends it at once, without another process.\<close>

theorem bridge_gives_up:
  assumes "5 < length rs"
  shows "snd (handle_browser_connection Some rs) = Returned \<and>
    length (filter ((=) Starting) (fst (handle_browser_connection Some rs))) \<le> 6 \<and>
    (proxy (hd rs) = None \<and> race_end (hd rs) = RaceExit info \<and> \<not> is_retryable (classify_exit info) \<longrightarrow>
      fst (handle_browser_connection Some rs) = [Connecting, Starting, Ready] @
        (case to_failure_state (classify_exit info) of Some k \<Rightarrow> [ConnectionFailed k (info_stderr info)] | None \<Rightarrow> []))"
proof -
  obtain r rs' where rs: "rs = r # rs'" using assms by (cases rs) auto
  show ?thesis
    using relay_ends [of new_policy rs] assms
    by (auto simp: handle_browser_connection_def split_beta new_policy_def rs split: option.split)
qed

section \<open>What is relayed arrives\<close>

definition decoded :: "(u8 list \<Rightarrow> string option) \<Rightarrow> frame_error + u8 list \<Rightarrow> string option" where
  "decoded from_slice r = (case r of Inr body \<Rightarrow> from_slice body | Inl _ \<Rightarrow> None)"

lemma map_filter_append: "List.map_filter f (xs @ ys) = List.map_filter f xs @ List.map_filter f ys"
  by (simp add: List.map_filter_def)

lemma ssh_to_browser_push:
  "ssh_to_browser from_slice d chunks = List.map_filter (decoded from_slice) (fst (push_all d chunks))"
  by (induction chunks arbitrary: d)
    (simp_all add: map_filter_append split_beta decoded_def [abs_def] List.map_filter_def)

lemma decoded_bodies: "List.map_filter (decoded from_slice) (map Inr bodies) = List.map_filter from_slice bodies"
  by (induction bodies) (simp_all add: decoded_def List.map_filter_def)

text \<open>The texts the browser sends before it closes.\<close>

fun texts_of :: "ws_message list \<Rightarrow> string list" where
  "texts_of [] = []"
| "texts_of (m # ms) =
     (case m of
        WsText t \<Rightarrow> (if t = [] then texts_of ms else t # texts_of ms)
      | WsClose \<Rightarrow> []
      | WsError \<Rightarrow> []
      | _ \<Rightarrow> texts_of ms)"

lemma browser_to_ssh_texts:
  "\<forall>t \<in> set (texts_of ms). reframe t = Some (envelope t) \<and> sendable (envelope t) \<Longrightarrow>
     fst (browser_to_ssh reframe ms) = map (\<lambda>t. frame_of (envelope t)) (texts_of ms)"
  by (induction ms) (auto simp: encode_sendable split_beta split: ws_message.split)


section \<open>Concrete runs\<close>


text \<open>A refused key; ssh's exit code 255 with another host key; the same exit at the end of six processes.\<close>

definition ex_exit :: exit_info where
  "ex_exit = \<lparr>info_code = Some 255, info_signal = None, info_stderr = ''dev: Permission denied (publickey).''\<rparr>"

definition ex_round :: round where
  "ex_round = \<lparr>proxy = None, race_end = RaceExit ex_exit, jitter = 1/2, backoff = BackoffOver\<rparr>"

lemma ex_exit_class: "classify_exit ex_exit = AuthFailedExit"
  by code_simp

lemma bridge_gives_up_witness:
  "handle_browser_connection Some (replicate 6 ex_round) =
     ([Connecting, Starting, Ready, ConnectionFailed SshAuthFailed ''dev: Permission denied (publickey).''], Returned)"
  using bridge_gives_up [of "replicate 6 ex_round" ex_exit] ex_exit_class
  by (simp add: prod_eq_iff ex_round_def) (simp add: ex_exit_def)

end
