(* ===== verification/Release_Manifest.thy ===== *)
theory Release_Manifest
  imports Remote_Profile
begin

text \<open>
  The release manifest, \<^verbatim>\<open>server-rs/pantoken-remote-layout/src/manifest.rs\<close>: the targets a release ships and
  the validation of a manifest. The wire protocol's version (\<^verbatim>\<open>pantoken-protocol/src/wire.rs\<close>) is an argument.
\<close>

datatype archive_format = TarGz | Zip

record release_target =
  target_triple_of :: string
  artifact_url :: string
  artifact_sha256 :: string
  artifact_format :: archive_format

record release_manifest =
  release_version :: string
  protocol_version :: nat
  build_sha :: "string option"
  targets :: "release_target list"

definition supported_target_triples :: "string list" where
  "supported_target_triples = [''aarch64-apple-darwin'', ''x86_64-unknown-linux-gnu'']"

datatype manifest_error =
    NoTargets
  | DuplicateTargets "string list"
  | InvalidSha256 string string
  | ProtocolVersionMismatch nat nat
  | InvalidReleaseVersion string
  | IncompleteTargetMatrix "string list"

text \<open>The loop with its set of triples seen and its list of duplicates.\<close>

fun duplicate_triples :: "string set \<Rightarrow> string list \<Rightarrow> string list \<Rightarrow> string list" where
  "duplicate_triples seen dups [] = dups"
| "duplicate_triples seen dups (t # ts) =
     duplicate_triples (insert t seen) (if t \<in> seen \<and> t \<notin> set dups then dups @ [t] else dups) ts"

definition is_valid_sha256 :: "string \<Rightarrow> bool" where
  "is_valid_sha256 s \<longleftrightarrow> length s = 64 \<and> list_all (\<lambda>c. is_digit c \<or> (CHR ''a'' \<le> c \<and> c \<le> CHR ''f'')) s"

definition validate_manifest_fields :: "nat \<Rightarrow> release_manifest \<Rightarrow> manifest_error + unit" where
  "validate_manifest_fields protocol m =
     (if targets m = [] then Inl NoTargets
      else let dups = duplicate_triples {} [] (map target_triple_of (targets m))
      in if dups \<noteq> [] then Inl (DuplicateTargets dups)
      else case find (\<lambda>t. \<not> is_valid_sha256 (artifact_sha256 t)) (targets m) of
        Some t \<Rightarrow> Inl (InvalidSha256 (target_triple_of t) (artifact_sha256 t))
      | None \<Rightarrow>
          if protocol_version m \<noteq> protocol then Inl (ProtocolVersionMismatch protocol (protocol_version m))
          else if \<not> parse_semver (release_version m) then Inl (InvalidReleaseVersion (release_version m))
          else Inr ())"

definition validate_target_matrix :: "release_manifest \<Rightarrow> manifest_error + unit" where
  "validate_target_matrix m =
     (let missing = filter (\<lambda>t. t \<notin> set (map target_triple_of (targets m))) supported_target_triples
      in if missing = [] then Inr () else Inl (IncompleteTargetMatrix missing))"

definition validate_manifest :: "nat \<Rightarrow> release_manifest \<Rightarrow> manifest_error + unit" where
  "validate_manifest protocol m =
     (case validate_manifest_fields protocol m of Inl e \<Rightarrow> Inl e | Inr _ \<Rightarrow> validate_target_matrix m)"

section \<open>What a valid manifest promises\<close>

lemma duplicate_triples_set:
  "set (duplicate_triples seen dups ts) = set dups \<union> {t \<in> set ts. t \<in> seen \<or> 2 \<le> count_list ts t}"
proof (induction ts arbitrary: seen dups)
  case (Cons t ts)
  have "2 \<le> Suc (count_list ts t) \<longleftrightarrow> t \<in> set ts" using count_list_0_iff [of ts t] by auto
  with Cons show ?case by (auto simp: count_list_0_iff)
qed simp

lemma no_duplicates: "duplicate_triples {} [] ts = [] \<longleftrightarrow> distinct ts"
proof -
  have "duplicate_triples {} [] ts = [] \<longleftrightarrow> (\<forall>t \<in> set ts. count_list ts t < 2)"
    using duplicate_triples_set [of "{}" "[]" ts] by (metis (mono_tags, lifting) Collect_empty_eq Un_empty_left
      empty_iff linorder_not_less set_empty list.set(1))
  also have "\<dots> \<longleftrightarrow> distinct ts"
  proof (induction ts)
    case (Cons t ts)
    have "(\<forall>u \<in> set (t # ts). count_list (t # ts) u < 2) \<longleftrightarrow> t \<notin> set ts \<and> (\<forall>u \<in> set ts. count_list ts u < 2)"
      using count_list_0_iff [of ts t] by (auto split: if_splits)
    with Cons show ?case by simp
  qed simp
  finally show ?thesis .
qed

lemma validate_fields_ok:
  "validate_manifest_fields protocol m = Inr () \<longleftrightarrow>
     targets m \<noteq> [] \<and> distinct (map target_triple_of (targets m)) \<and>
     (\<forall>t \<in> set (targets m). is_valid_sha256 (artifact_sha256 t)) \<and>
     protocol_version m = protocol \<and> parse_semver (release_version m)"
proof -
  have "(find (\<lambda>t. \<not> is_valid_sha256 (artifact_sha256 t)) (targets m) = None) \<longleftrightarrow>
      (\<forall>t \<in> set (targets m). is_valid_sha256 (artifact_sha256 t))"
    by (auto simp: find_None_iff)
  then show ?thesis
    unfolding validate_manifest_fields_def Let_def
    by (cases "find (\<lambda>t. \<not> is_valid_sha256 (artifact_sha256 t)) (targets m)")
      (simp_all add: no_duplicates)
qed

end
