(* ===== verification/Docker_Target.thy ===== *)
theory Docker_Target
  imports Remote_Profile
begin

text \<open>
  Discovery of a container and of the storage behind its root, \<^verbatim>\<open>desktop/src/docker_target.rs\<close>.
  Docker's JSON is parsed by the parameters \<open>from_str\<close>. A mount governs a path when the components of
  its destination start those of the path; the reference definition is \<open>governs\<close>.
\<close>

section \<open>Containers\<close>

datatype docker_error =
    UnsafePath
  | MalformedList
  | ContainerNotFound
  | AmbiguousContainer
  | ContainerUnavailable string
  | MalformedInspect
  | ReadOnlyMount

record container_record =
  list_id :: string
  list_names :: string
  list_image :: string
  list_state :: string
  list_status :: string

fun parse_records :: "(string \<Rightarrow> container_record option) \<Rightarrow> string list \<Rightarrow> docker_error + container_record list" where
  "parse_records from_str [] = Inr []"
| "parse_records from_str (l # ls) =
     (case from_str l of
        None \<Rightarrow> Inl MalformedList
      | Some r \<Rightarrow> (case parse_records from_str ls of Inl e \<Rightarrow> Inl e | Inr rs \<Rightarrow> Inr (r # rs)))"

definition parse_container_list ::
    "(string \<Rightarrow> container_record option) \<Rightarrow> string \<Rightarrow> docker_error + container_record list" where
  "parse_container_list from_str out = parse_records from_str (filter (\<lambda>l. trim l \<noteq> []) (str_lines out))"

definition resolve_exact_running :: "container_record list \<Rightarrow> string \<Rightarrow> docker_error + container_record" where
  "resolve_exact_running records exact_name =
     (case filter (\<lambda>r. list_names r = exact_name) records of
        [] \<Rightarrow> Inl ContainerNotFound
      | [r] \<Rightarrow> (if ascii_lower (list_state r) \<noteq> ''running'' then Inl (ContainerUnavailable (list_state r)) else Inr r)
      | _ \<Rightarrow> Inl AmbiguousContainer)"

record docker_mount =
  mount_kind :: string
  mount_name :: "string option"
  mount_source :: string
  mount_dest :: string
  mount_mode :: string
  mount_rw :: bool

record inspect_state =
  is_running :: bool
  is_paused :: bool
  is_restarting :: bool
  is_dead :: bool

record docker_inspect =
  inspect_id :: string
  inspect_state :: inspect_state
  inspect_mounts :: "docker_mount list"

definition parse_inspect :: "(string \<Rightarrow> docker_inspect list option) \<Rightarrow> string \<Rightarrow> docker_error + docker_inspect" where
  "parse_inspect from_str out = (case from_str out of Some [r] \<Rightarrow> Inr r | _ \<Rightarrow> Inl MalformedInspect)"

section \<open>The mount behind a path\<close>

definition path_covers :: "string \<Rightarrow> string \<Rightarrow> bool" where
  "path_covers dest path \<longleftrightarrow>
     dest = ''/'' \<or> path = dest \<or>
     (case strip_prefix path dest of Some rest \<Rightarrow> starts_with rest ''/'' | None \<Rightarrow> False)"

definition trim_slashes :: "string \<Rightarrow> string" where
  "trim_slashes s = rev (dropWhile ((=) CHR ''/'') (rev s))"

text \<open>\<open>Iterator::max_by_key\<close>: the last of the largest.\<close>

fun max_by_key :: "('a \<Rightarrow> nat) \<Rightarrow> 'a list \<Rightarrow> 'a option" where
  "max_by_key f [] = None"
| "max_by_key f (x # xs) =
     (case max_by_key f xs of None \<Rightarrow> Some x | Some y \<Rightarrow> Some (if f x \<le> f y then y else x))"

definition deepest_covering_mount :: "string \<Rightarrow> docker_mount list \<Rightarrow> docker_mount option" where
  "deepest_covering_mount path mounts =
     max_by_key (\<lambda>m. length (mount_dest m)) (filter (\<lambda>m. path_covers (trim_slashes (mount_dest m)) path) mounts)"

datatype persistence = PersistentBind | PersistentVolume | EphemeralTmpfs | EphemeralWritableLayer

record persistence_facts =
  classification :: persistence
  facts_dest :: string
  facts_kind :: string
  facts_rw :: string
  backing_hash :: string

definition classify_mount :: "docker_mount \<Rightarrow> persistence" where
  "classify_mount m =
     (if mount_kind m = ''bind'' then PersistentBind
      else if mount_kind m = ''volume'' then PersistentVolume
      else if mount_kind m = ''tmpfs'' then EphemeralTmpfs
      else EphemeralWritableLayer)"

definition persistence_facts_of ::
    "(string \<Rightarrow> string) \<Rightarrow> string \<Rightarrow> docker_mount list \<Rightarrow> docker_error + persistence_facts" where
  "persistence_facts_of sha256 root mounts =
     (case normalize_absolute_path root of
        None \<Rightarrow> Inl UnsafePath
      | Some root \<Rightarrow>
          (case deepest_covering_mount root mounts of
             None \<Rightarrow> Inr \<lparr>classification = EphemeralWritableLayer, facts_dest = ''<no-covering-mount>'',
               facts_kind = ''writableLayer'', facts_rw = ''readWrite'', backing_hash = ''<writable-layer>''\<rparr>
           | Some m \<Rightarrow>
               if \<not> mount_rw m then Inl ReadOnlyMount
               else let backing = (case classify_mount m of
                        EphemeralTmpfs \<Rightarrow> ''<tmpfs>''
                      | EphemeralWritableLayer \<Rightarrow> ''<writable-layer>''
                      | PersistentVolume \<Rightarrow> sha256 (unwrap_or (mount_name m) (mount_source m))
                      | PersistentBind \<Rightarrow> sha256 (mount_source m))
                    in (case normalize_absolute_path (mount_dest m) of
                          None \<Rightarrow> Inl UnsafePath
                        | Some dest \<Rightarrow> Inr \<lparr>classification = classify_mount m, facts_dest = dest,
                            facts_kind = mount_kind m, facts_rw = ''readWrite'', backing_hash = backing\<rparr>)))"

section \<open>The deepest mount governs\<close>

text \<open>The components of an absolute path, and its printed form.\<close>

definition path_parts :: "string \<Rightarrow> string list" where
  "path_parts p = filter (\<lambda>q. q \<noteq> [] \<and> q \<noteq> ''.'') (split_on CHR ''/'' p)"

definition plain_part :: "string \<Rightarrow> bool" where
  "plain_part q \<longleftrightarrow> q \<notin> {[], ''.'', ''..''} \<and> CHR ''/'' \<notin> set q"

definition absolute :: "string list \<Rightarrow> string" where
  "absolute qs = (if qs = [] then ''/'' else ''/'' @ join ''/'' qs)"

definition governs :: "docker_mount \<Rightarrow> string \<Rightarrow> bool" where
  "governs m path \<longleftrightarrow> prefix (path_parts (mount_dest m)) (path_parts path)"

definition normal_path :: "string \<Rightarrow> bool" where
  "normal_path p \<longleftrightarrow> p = absolute (path_parts p) \<and> list_all plain_part (path_parts p)"

lemma normalize_absolute_parts:
  assumes "normalize_absolute_path v = Some p"
  shows "p = absolute (path_parts v) \<and> list_all plain_part (path_parts v)"
  using assms split_on_no_sep [of _ "CHR ''/''" v]
  by (auto simp: normalize_absolute_path_def absolute_def path_parts_def plain_part_def list_all_iff
      split: if_splits dest!: normal_parts_Some)

lemma split_absolute: "list_all plain_part qs \<Longrightarrow> path_parts (absolute qs) = qs"
proof (cases "qs = []")
  case False
  assume plain: "list_all plain_part qs"
  with False have "split_on CHR ''/'' (join ''/'' qs) = qs"
    by (intro split_on_join) (auto simp: plain_part_def list_all_iff)
  moreover have "filter (\<lambda>q. q \<noteq> [] \<and> q \<noteq> ''.'') qs = qs"
    using plain by (auto simp: plain_part_def list_all_iff filter_id_conv)
  ultimately show ?thesis using False by (simp add: absolute_def path_parts_def)
qed (simp add: absolute_def path_parts_def)

lemma normal_pathE:
  assumes "normal_path p"
  obtains qs where "p = absolute qs" and "list_all plain_part qs" and "path_parts p = qs"
  using assms unfolding normal_path_def by metis

text \<open>A path below another one continues it with a slash.\<close>

lemma join_append: "qs \<noteq> [] \<Longrightarrow> rs \<noteq> [] \<Longrightarrow> join sep (qs @ rs) = join sep qs @ sep @ join sep rs"
proof (induction qs rule: induct_list012)
  case (2 q)
  then show ?case by (cases rs) simp_all
qed simp_all

lemma join_plain_last:
  assumes "list_all plain_part qs" and "qs \<noteq> []"
  shows "join ''/'' qs \<noteq> [] \<and> last (join ''/'' qs) \<noteq> CHR ''/''"
  using assms
proof (induction qs rule: induct_list012)
  case (2 q)
  then have "q \<noteq> []" "CHR ''/'' \<notin> set q" by (simp_all add: plain_part_def)
  moreover from this have "last q \<noteq> CHR ''/''" using last_in_set [of q] by metis
  ultimately show ?case by simp
qed (auto simp: plain_part_def)

lemma trim_slashes_absolute:
  "list_all plain_part qs \<Longrightarrow> trim_slashes (absolute qs) = (if qs = [] then [] else absolute qs)"
proof (cases "qs = []")
  case False
  assume "list_all plain_part qs"
  from join_plain_last [OF this False] have "join ''/'' qs \<noteq> []" "last (join ''/'' qs) \<noteq> CHR ''/''" by auto
  then have "dropWhile ((=) CHR ''/'') (rev (''/'' @ join ''/'' qs)) = rev (''/'' @ join ''/'' qs)"
    by (cases "join ''/'' qs" rule: rev_cases) simp_all
  with False show ?thesis by (simp add: trim_slashes_def absolute_def)
qed (simp add: trim_slashes_def absolute_def)

lemma starts_with_append [simp]: "starts_with (p @ s) p"
  by (simp add: starts_with_def)

lemma path_covers_below:
  "path_covers dest path \<longleftrightarrow> dest = ''/'' \<or> path = dest \<or> (\<exists>t. path = dest @ ''/'' @ t)"
proof -
  have "(case strip_prefix path dest of Some rest \<Rightarrow> starts_with rest ''/'' | None \<Rightarrow> False) \<longleftrightarrow>
      (\<exists>t. path = dest @ ''/'' @ t)"
    by (auto simp: strip_prefix_def starts_with_prefix prefix_def)
  then show ?thesis by (simp add: path_covers_def)
qed

lemma absolute_slash: "list_all plain_part qs \<Longrightarrow> absolute qs = ''/'' \<longleftrightarrow> qs = []"
  using join_plain_last [of qs] by (auto simp: absolute_def)

lemma prefix_joined:
  assumes "list_all plain_part qs" "list_all plain_part rs" "qs \<noteq> []"
    and "join ''/'' rs = join ''/'' qs @ ''/'' @ t"
  shows "prefix qs rs"
proof -
  have rs: "rs \<noteq> []" using assms(4) by (cases rs) auto
  have "rs = split_on CHR ''/'' (join ''/'' rs)"
    using assms(2) rs by (intro split_on_join [symmetric]) (auto simp: plain_part_def list_all_iff)
  also have "\<dots> = split_on CHR ''/'' (join ''/'' (qs @ split_on CHR ''/'' t))"
    using assms(3,4) by (simp add: join_append)
  also have "\<dots> = qs @ split_on CHR ''/'' t"
    using assms(1,3) split_on_no_sep [of _ "CHR ''/''" t]
    by (intro split_on_join) (auto simp: plain_part_def list_all_iff)
  finally show ?thesis by (metis prefixI)
qed

lemma path_covers_absolute:
  assumes q: "list_all plain_part qs" and r: "list_all plain_part rs"
  shows "path_covers (trim_slashes (absolute qs)) (absolute rs) \<longleftrightarrow> prefix qs rs"
proof (cases "qs = []")
  case True
  with trim_slashes_absolute [OF q] have "trim_slashes (absolute qs) = []" by simp
  with True show ?thesis by (simp add: path_covers_def strip_prefix_def starts_with_def) (simp add: absolute_def)
next
  case False
  then have d: "trim_slashes (absolute qs) = absolute qs" by (simp add: trim_slashes_absolute [OF q])
  show ?thesis
  proof
    assume "path_covers (trim_slashes (absolute qs)) (absolute rs)"
    then consider "absolute rs = absolute qs" | t where "absolute rs = absolute qs @ ''/'' @ t"
      using False path_covers_below [of "absolute qs" "absolute rs"] by (auto simp: d absolute_slash [OF q])
    then show "prefix qs rs"
    proof cases
      case 1
      then have "path_parts (absolute rs) = path_parts (absolute qs)" by simp
      then show ?thesis by (simp add: split_absolute q r)
    next
      case 2
      then have "rs \<noteq> []" using False by (auto simp: absolute_def split: if_splits)
      with 2 False have "join ''/'' rs = join ''/'' qs @ ''/'' @ t" by (simp add: absolute_def)
      then show ?thesis by (rule prefix_joined [OF q r False])
    qed
  next
    assume "prefix qs rs"
    then obtain ts where ts: "rs = qs @ ts" by (auto simp: prefix_def)
    show "path_covers (trim_slashes (absolute qs)) (absolute rs)"
    proof (cases "ts = []")
      case True
      with ts show ?thesis by (simp add: path_covers_below d)
    next
      case ne: False
      then have "absolute rs = absolute qs @ ''/'' @ join ''/'' ts"
        using False by (simp add: absolute_def ts join_append)
      then show ?thesis by (simp add: path_covers_below d)
    qed
  qed
qed

text \<open>Of two paths above the same one, the longer in bytes is the deeper.\<close>

lemma length_absolute_less:
  assumes "list_all plain_part (qs @ ts)" and "ts \<noteq> []"
  shows "length (absolute qs) < length (absolute (qs @ ts))"
proof (cases "qs = []")
  case True
  with join_plain_last [of ts] assms show ?thesis by (simp add: absolute_def)
qed (use assms in \<open>simp add: absolute_def join_append\<close>)

lemma max_by_key_None: "max_by_key f xs = None \<longleftrightarrow> xs = []"
  by (cases xs) (auto split: option.splits)

lemma max_by_key_Some: "max_by_key f xs = Some x \<Longrightarrow> x \<in> set xs \<and> (\<forall>y \<in> set xs. f y \<le> f x)"
  by (induction xs arbitrary: x) (fastforce simp: max_by_key_None split: option.splits if_splits)+

lemma covering_mounts:
  assumes "normal_path path" and "normal_path (mount_dest m)"
  shows "path_covers (trim_slashes (mount_dest m)) path \<longleftrightarrow> governs m path"
proof -
  obtain qs rs where "mount_dest m = absolute qs" "list_all plain_part qs" "path = absolute rs" "list_all plain_part rs"
    using assms by (metis normal_pathE)
  then show ?thesis by (simp add: governs_def path_covers_absolute split_absolute)
qed

lemma deepest_governs:
  assumes "normal_path path" and all: "\<forall>m \<in> set mounts. normal_path (mount_dest m)"
  shows "case deepest_covering_mount path mounts of
      None \<Rightarrow> \<forall>m \<in> set mounts. \<not> governs m path
    | Some m \<Rightarrow> m \<in> set mounts \<and> governs m path \<and>
        (\<forall>n \<in> set mounts. governs n path \<longrightarrow> prefix (path_parts (mount_dest n)) (path_parts (mount_dest m)))"
proof (cases "deepest_covering_mount path mounts")
  case None
  then have "filter (\<lambda>m. path_covers (trim_slashes (mount_dest m)) path) mounts = []"
    by (simp only: deepest_covering_mount_def max_by_key_None)
  then have "\<forall>m \<in> set mounts. \<not> path_covers (trim_slashes (mount_dest m)) path" by (simp only: filter_empty_conv)
  with None all show ?thesis by (simp add: covering_mounts [OF assms(1)])
next
  case (Some m)
  from max_by_key_Some [OF Some [unfolded deepest_covering_mount_def]] all
  have m: "m \<in> set mounts" "governs m path" and
    len: "\<forall>n \<in> set mounts. governs n path \<longrightarrow> length (mount_dest n) \<le> length (mount_dest m)"
    by (auto simp: covering_mounts [OF assms(1)])
  have "prefix (path_parts (mount_dest n)) (path_parts (mount_dest m))" if n: "n \<in> set mounts" "governs n path" for n
  proof (rule ccontr)
    assume no: "\<not> ?thesis"
    with n(2) m(2) have pre: "prefix (path_parts (mount_dest m)) (path_parts (mount_dest n))"
      unfolding governs_def using prefix_same_cases by blast
    obtain qs rs where q: "mount_dest m = absolute qs" "path_parts (mount_dest m) = qs"
      and r: "mount_dest n = absolute rs" "list_all plain_part rs" "path_parts (mount_dest n) = rs"
      using all m(1) n(1) by (metis normal_pathE)
    obtain ts where ts: "rs = qs @ ts" using pre q(2) r(3) by (auto simp: prefix_def)
    with no q(2) r(3) have "ts \<noteq> []" by auto
    with ts r(2) have "length (absolute qs) < length (absolute rs)" using length_absolute_less by metis
    with len n q(1) r(1) show False by fastforce
  qed
  with Some m show ?thesis by simp
qed

section \<open>Persistence\<close>

text \<open>The mount that decides about a path: of those that govern it, the one below all others.\<close>

definition deciding :: "docker_mount list \<Rightarrow> string \<Rightarrow> docker_mount \<Rightarrow> bool" where
  "deciding mounts path m \<longleftrightarrow> m \<in> set mounts \<and> governs m path \<and>
     (\<forall>n \<in> set mounts. governs n path \<longrightarrow> prefix (path_parts (mount_dest n)) (path_parts (mount_dest m)))"

definition is_ephemeral :: "persistence \<Rightarrow> bool" where
  "is_ephemeral c \<longleftrightarrow> c = EphemeralTmpfs \<or> c = EphemeralWritableLayer"

lemma normalize_normal:
  assumes "normalize_absolute_path v = Some p"
  shows "normal_path p \<and> path_parts p = path_parts v"
  using normalize_absolute_parts [OF assms] by (simp add: normal_path_def split_absolute)

lemma deciding_unique:
  assumes "distinct (map mount_dest mounts)" and all: "\<forall>m \<in> set mounts. normal_path (mount_dest m)"
    and "deciding mounts path m" and "deciding mounts path n"
  shows "m = n"
proof -
  have mn: "m \<in> set mounts" "n \<in> set mounts" "path_parts (mount_dest m) = path_parts (mount_dest n)"
    using assms(3,4) by (auto simp: deciding_def intro: prefix_order.antisym)
  then have "mount_dest m = mount_dest n" using all unfolding normal_path_def by metis
  then show ?thesis using mn assms(1) by (auto simp: distinct_map dest: inj_onD)
qed

lemma facts_of_mount:
  assumes "normalize_absolute_path root = Some r" and "deepest_covering_mount r mounts = Some m"
    and "persistence_facts_of sha256 root mounts = Inr f"
  shows "mount_rw m \<and> classification f = classify_mount m"
  using assms
  by (cases "mount_rw m"; cases "normalize_absolute_path (mount_dest m)") (auto simp: persistence_facts_of_def)

text \<open>Data is called persistent exactly when it is. For containers with normal and distinct mount
  points, a root is classified as persistent exactly when the mount that decides about it, by path
  components, is a writable bind mount or volume; no mount point that merely shares a prefix of the
  root's name counts, and a root on a read-only mount is refused.\<close>

theorem persistence_decided:
  assumes "distinct (map mount_dest mounts)" and "\<forall>m \<in> set mounts. normal_path (mount_dest m)"
    and "persistence_facts_of sha256 root mounts = Inr f"
  shows "(\<not> is_ephemeral (classification f) \<longleftrightarrow>
      (\<exists>m. deciding mounts root m \<and> mount_kind m \<in> {''bind'', ''volume''})) \<and>
    (deciding mounts root n \<longrightarrow> mount_rw n)"
proof -
  obtain r where r: "normalize_absolute_path root = Some r"
    using assms(3) by (auto simp: persistence_facts_of_def split: option.splits)
  have same: "deciding mounts root = deciding mounts r"
    using normalize_normal [OF r] by (simp add: deciding_def governs_def fun_eq_iff)
  note deep = deepest_governs [OF conjunct1 [OF normalize_normal [OF r]] assms(2)]
  show ?thesis
  proof (cases "deepest_covering_mount r mounts")
    case None
    with deep have "\<not> deciding mounts root k" for k by (simp add: same) (simp add: deciding_def)
    moreover from None assms(3) r have "classification f = EphemeralWritableLayer"
      by (auto simp: persistence_facts_of_def)
    ultimately show ?thesis by (simp add: is_ephemeral_def)
  next
    case (Some m)
    with deep have m: "deciding mounts root m" by (simp add: deciding_def same)
    have "mount_rw m \<and> classification f = classify_mount m" by (rule facts_of_mount [OF r Some assms(3)])
    moreover have "deciding mounts root k \<longleftrightarrow> k = m" for k
      using deciding_unique [OF assms(1,2) _ m] m by blast
    ultimately show ?thesis by (simp add: classify_mount_def is_ephemeral_def)
  qed
qed

text \<open>A volume at \<open>/data\<close> does not cover \<open>/database\<close>; the bind mount below it does.\<close>

definition ex_mount :: "string \<Rightarrow> string \<Rightarrow> docker_mount" where
  "ex_mount kind dest = \<lparr>mount_kind = kind, mount_name = None, mount_source = ''/src'', mount_dest = dest,
     mount_mode = ''rw'', mount_rw = True\<rparr>"

definition ex_mounts :: "docker_mount list" where
  "ex_mounts = [ex_mount ''tmpfs'' ''/'', ex_mount ''volume'' ''/data'', ex_mount ''bind'' ''/database'',
     ex_mount ''tmpfs'' ''/database/tmp'']"

lemma persistence_decided_witness:
  "(\<exists>m. deciding ex_mounts ''/database/x'' m \<and> mount_kind m \<in> {''bind'', ''volume''}) \<and>
   \<not> (\<exists>m. deciding ex_mounts ''/database/tmp'' m \<and> mount_kind m \<in> {''bind'', ''volume''})"
proof -
  have "distinct (map mount_dest ex_mounts)" "\<forall>m \<in> set ex_mounts. normal_path (mount_dest m)"
    by code_simp+
  note P = persistence_decided [OF this, of id]
  have "case persistence_facts_of id ''/database/x'' ex_mounts of
      Inr f \<Rightarrow> \<not> is_ephemeral (classification f) | Inl _ \<Rightarrow> False"
    "case persistence_facts_of id ''/database/tmp'' ex_mounts of
      Inr f \<Rightarrow> is_ephemeral (classification f) | Inl _ \<Rightarrow> False"
    by code_simp+
  with P show ?thesis by (auto split: sum.splits)
qed

end
