(* ===== verification/Docker_Preflight.thy ===== *)
theory Docker_Preflight
  imports Docker_Target Remote_Connection
begin

text \<open>
  Execution on the remote host, \<^verbatim>\<open>desktop/src/remote_executor.rs\<close>: the executors on the ssh host and in a
  container, and the preflight of a container. The ssh transport is the record \<open>transport\<close> of
  \<^verbatim>\<open>desktop/src/bridge.rs\<close>; it works on a state \<open>'w\<close>, the world, which holds whatever the remote
  commands read and change. An I/O error is its message.
\<close>

section \<open>Remote commands\<close>

type_synonym ('w, 'a) io = "'w \<Rightarrow> (string + 'a) \<times> 'w"

definition io_return :: "'a \<Rightarrow> ('w, 'a) io" where
  "io_return x w = (Inr x, w)"

definition io_fail :: "string \<Rightarrow> ('w, 'a) io" where
  "io_fail e w = (Inl e, w)"

definition io_bind :: "('w, 'a) io \<Rightarrow> ('a \<Rightarrow> ('w, 'b) io) \<Rightarrow> ('w, 'b) io" where
  "io_bind m f w = (case m w of (Inl e, w') \<Rightarrow> (Inl e, w') | (Inr x, w') \<Rightarrow> f x w')"

definition io_update :: "('w \<Rightarrow> 'w) \<Rightarrow> ('w, unit) io" where
  "io_update g w = (Inr (), g w)"

definition io_lift :: "('e \<Rightarrow> string) \<Rightarrow> 'e + 'a \<Rightarrow> ('w, 'a) io" where
  "io_lift show_error r = (case r of Inl e \<Rightarrow> io_fail (show_error e) | Inr x \<Rightarrow> io_return x)"

record 'w transport =
  run_command :: "ssh_command \<Rightarrow> string \<Rightarrow> ('w, command_output) io"
  run_command_with_stdin :: "ssh_command \<Rightarrow> string \<Rightarrow> string \<Rightarrow> ('w, unit) io"

datatype executor = HostExecutor ssh_command | DockerExecutor ssh_command docker_target

fun docker_message :: "docker_error \<Rightarrow> string" where
  "docker_message UnsafePath = ''path must be a safe absolute POSIX path''"
| "docker_message MalformedList = ''Docker returned malformed container-list output''"
| "docker_message ContainerNotFound = ''container was not found by exact name''"
| "docker_message AmbiguousContainer = ''multiple containers had the exact requested name''"
| "docker_message (ContainerUnavailable state) = ''container is not running ('' @ state @ '')''"
| "docker_message MalformedInspect = ''Docker returned malformed inspect output''"
| "docker_message ReadOnlyMount = ''the deepest mount covering the Pantoken root is read-only''"

fun run_script :: "'w transport \<Rightarrow> executor \<Rightarrow> string \<Rightarrow> ('w, command_output) io" where
  "run_script tr (HostExecutor c) script = run_command tr c script"
| "run_script tr (DockerExecutor c t) script = run_command tr c (shell_join (command_words t script))"

definition unsafe_path :: "'a option \<Rightarrow> docker_error + 'a" where
  "unsafe_path r = (case r of None \<Rightarrow> Inl UnsafePath | Some x \<Rightarrow> Inr x)"

fun upload :: "'w transport \<Rightarrow> executor \<Rightarrow> string \<Rightarrow> string \<Rightarrow> ('w, unit) io" where
  "upload tr (HostExecutor c) dest data = run_command_with_stdin tr c (''cat > '' @ shell_quote dest) data"
| "upload tr (DockerExecutor c t) dest data =
     io_bind (io_lift docker_message (unsafe_path (upload_words t dest)))
       (\<lambda>words. run_command_with_stdin tr c (shell_join words) data)"

text \<open>The command of the proxy that \<open>spawn_proxy\<close> starts.\<close>

fun proxy_command :: "executor \<Rightarrow> string \<Rightarrow> (string \<times> string) list \<Rightarrow> docker_error + ssh_command" where
  "proxy_command (HostExecutor c) server env = Inr (c\<lparr>server_path := server, extra_env := extra_env c @ env\<rparr>)"
| "proxy_command (DockerExecutor c t) server env =
     (case proxy_words (t\<lparr>docker_env := docker_env t @ env\<rparr>) server of
        None \<Rightarrow> Inl UnsafePath
      | Some words \<Rightarrow>
          Inr (c\<lparr>raw_remote_command := Some (shell_join words), remote_root := pantoken_root t, extra_env := []\<rparr>))"

section \<open>The preflight\<close>

record docker_json =
  parse_record :: "string \<Rightarrow> container_record option"
  parse_inspects :: "string \<Rightarrow> docker_inspect list option"
  digest :: "string \<Rightarrow> string"

datatype preflight_outcome =
    PreflightReady executor
  | PreflightAwaiting executor preflight_phase "pending_risk list"

definition command_failure :: "command_output \<Rightarrow> string \<Rightarrow> string" where
  "command_failure out context =
     context @ '': '' @ (case str_lines (stderr out) of l # _ \<Rightarrow> l | [] \<Rightarrow> ''command failed'')"

definition checked :: "string \<Rightarrow> command_output \<Rightarrow> ('w, unit) io" where
  "checked context out = (if is_success out then io_return () else io_fail (command_failure out context))"

definition list_words :: "string list" where
  "list_words = [''docker'', ''container'', ''ls'', ''-a'', ''--format'', ''{{json .}}'']"

definition locate_container :: "docker_json \<Rightarrow> docker_profile \<Rightarrow> string \<Rightarrow> docker_error + container_record" where
  "locate_container J d out =
     (case parse_container_list (parse_record J) out of
        Inl e \<Rightarrow> Inl e
      | Inr records \<Rightarrow> resolve_exact_running records (container_name d))"

definition container_alive :: "container_record \<Rightarrow> docker_inspect \<Rightarrow> bool" where
  "container_alive r i \<longleftrightarrow> inspect_id i = list_id r \<and> is_running (inspect_state i) \<and> \<not> is_paused (inspect_state i) \<and>
     \<not> is_restarting (inspect_state i) \<and> \<not> is_dead (inspect_state i)"

definition resolved_target :: "docker_profile \<Rightarrow> docker_inspect \<Rightarrow> docker_target" where
  "resolved_target d i = \<lparr>configured_name = container_name d, container_id = inspect_id i, docker_user = container_user d,
     workdir = container_workdir d, pantoken_root = container_root d, docker_env = []\<rparr>"

definition identity_script :: "docker_profile \<Rightarrow> string" where
  "identity_script d =
     (let root = posix_quote (container_root d);
          work = posix_quote (unwrap_or (container_workdir d) (container_root d))
      in ''uid=$(id -u) && gid=$(id -g) && home=${HOME:-} && test -n \"$home\" && command -v sh >/dev/null 2>&1 && ''
         @ ''mkdir -p '' @ root @ '' && test -w '' @ root @ '' && test -d '' @ work @ '' && test -w '' @ work
         @ '' && printf '' @ [CHR 0x27] @ ''%s|%s|%s'' @ [CHR 0x5C] @ ''n'' @ [CHR 0x27] @ '' \"$uid\" \"$gid\" \"$home\"'')"

text \<open>\<open>str::parse::<u64>\<close>, which also takes a leading plus.\<close>

definition parse_id :: "string \<Rightarrow> nat option" where
  "parse_id s = (let ds = unwrap_or (strip_prefix s ''+'') s in if list_all is_digit ds then parse_u64 ds else None)"

definition parse_identity :: "string \<Rightarrow> string + nat \<times> nat" where
  "parse_identity out =
     (case split_on CHR ''|'' (trim out) of
        [u, g, h] \<Rightarrow>
          (case parse_id u of
             None \<Rightarrow> Inl ''container identity probe returned invalid UID''
           | Some uid \<Rightarrow> (case parse_id g of
               None \<Rightarrow> Inl ''container identity probe returned invalid GID''
             | Some gid \<Rightarrow> Inr (uid, gid)))
      | _ \<Rightarrow> Inl ''container identity probe returned malformed output'')"

definition root_digest :: "docker_json \<Rightarrow> remote_profile \<Rightarrow> docker_profile \<Rightarrow> string \<Rightarrow> nat \<Rightarrow> nat \<Rightarrow> string" where
  "root_digest J p d cid uid gid =
     root_risk_fingerprint (digest J) 1 (profile_id p) (container_name d) cid (container_user d) uid gid"

fun classification_name :: "persistence \<Rightarrow> string" where
  "classification_name PersistentBind = ''persistentBind''"
| "classification_name PersistentVolume = ''persistentVolume''"
| "classification_name EphemeralTmpfs = ''tmpfs''"
| "classification_name EphemeralWritableLayer = ''writableLayer''"

definition storage_digest :: "docker_json \<Rightarrow> remote_profile \<Rightarrow> docker_profile \<Rightarrow> string \<Rightarrow> persistence_facts \<Rightarrow> string" where
  "storage_digest J p d cid f =
     ephemeral_risk_fingerprint (digest J) 1 (profile_id p) (container_name d) cid (container_root d)
       (classification_name (classification f)) (facts_dest f) (facts_kind f) (facts_rw f) (backing_hash f)"

definition root_risk :: "string \<Rightarrow> pending_risk" where
  "root_risk fp = \<lparr>risk_id = ''rootExecution'', risk_kind = RootExecution, risk_fingerprint = fp,
     risk_title = ''Run Pantoken as root in this container?'',
     risk_explanation = ''The selected Docker user resolves to UID 0. Docker access is itself a high-privilege host boundary, and container root or broad mounts can weaken isolation.'',
     risk_consequences = ''Pantoken and polytoken processes will have root privileges inside the container and may modify mounted resources.'',
     continue_label = ''Allow root for this container''\<rparr>"

definition storage_risk :: "string \<Rightarrow> pending_risk" where
  "storage_risk fp = \<lparr>risk_id = ''ephemeralData'', risk_kind = EphemeralData, risk_fingerprint = fp,
     risk_title = ''Pantoken data is not on persistent storage'',
     risk_explanation = ''Docker stop/start normally retains the writable layer, but this Pantoken root is on tmpfs or the container writable layer.'',
     risk_consequences = ''Container removal, recreation, or rebuild can lose the Pantoken runtime, session state, and Pantoken-managed polytoken XDG data.'',
     continue_label = ''Use non-persistent storage''\<rparr>"

definition pending_risks_of ::
    "docker_json \<Rightarrow> remote_profile \<Rightarrow> docker_profile \<Rightarrow> string \<Rightarrow> nat \<Rightarrow> nat \<Rightarrow> persistence_facts \<Rightarrow> pending_risk list" where
  "pending_risks_of J p d cid uid gid f =
     (let rf = root_digest J p d cid uid gid; sf = storage_digest J p d cid f
      in (if uid = 0 \<and> root_fingerprint (acknowledged p) \<noteq> Some rf then [root_risk rf] else [])
       @ (if is_ephemeral (classification f) \<and> ephemeral_fingerprint (acknowledged p) \<noteq> Some sf
          then [storage_risk sf] else []))"

definition proxy_target :: "docker_profile \<Rightarrow> docker_inspect \<Rightarrow> docker_target" where
  "proxy_target d i = (resolved_target d i)
     \<lparr>docker_env := [(''PANTOKEN_REMOTE_ROOT'', container_root d), (''PANTOKEN_SERVE_MODE'', ''stdio-proxy'')]\<rparr>"

definition docker_access :: "'w transport \<Rightarrow> ssh_command \<Rightarrow> ('w, unit) io" where
  "docker_access tr host =
     io_bind (run_command tr host (''docker version --format '' @ [CHR 0x27] @ ''{{.Client.Version}}'' @ [CHR 0x27]))
       (checked ''Docker CLI unavailable or permission denied'')"

definition find_container ::
    "docker_json \<Rightarrow> 'w transport \<Rightarrow> ssh_command \<Rightarrow> docker_profile \<Rightarrow> ('w, container_record) io" where
  "find_container J tr host d =
     io_bind (run_command tr host (shell_join list_words)) (\<lambda>listed.
     io_bind (checked ''could not list Docker containers'' listed) (\<lambda>_.
     io_lift docker_message (locate_container J d (stdout listed))))"

definition inspect_container ::
    "docker_json \<Rightarrow> 'w transport \<Rightarrow> ssh_command \<Rightarrow> container_record \<Rightarrow> ('w, docker_inspect) io" where
  "inspect_container J tr host r =
     io_bind (run_command tr host (shell_join [''docker'', ''container'', ''inspect'', list_id r])) (\<lambda>inspected.
     io_bind (checked ''could not inspect Docker container'' inspected) (\<lambda>_.
     io_bind (io_lift docker_message (parse_inspect (parse_inspects J) (stdout inspected))) (\<lambda>i.
     if container_alive r i then io_return i
     else io_fail ''container stopped or was replaced during preflight'')))"

definition probe_identity :: "'w transport \<Rightarrow> executor \<Rightarrow> docker_profile \<Rightarrow> ('w, nat \<times> nat) io" where
  "probe_identity tr ex d =
     io_bind (run_script tr ex (identity_script d)) (\<lambda>identity.
     io_bind (checked ''container user, shell, Pantoken root, or workdir is unavailable'' identity) (\<lambda>_.
     io_lift id (parse_identity (stdout identity))))"

definition assess ::
    "docker_json \<Rightarrow> remote_profile \<Rightarrow> docker_profile \<Rightarrow> docker_inspect \<Rightarrow> nat \<times> nat \<Rightarrow> persistence_facts \<Rightarrow> preflight_outcome" where
  "assess J p d i ids f =
     (let risks = pending_risks_of J p d (inspect_id i) (fst ids) (snd ids) f;
          ex = DockerExecutor (ssh_command_of p) (proxy_target d i)
      in if risks = [] then PreflightReady ex else PreflightAwaiting ex CheckingPersistence risks)"

definition phase :: "(preflight_phase \<Rightarrow> 'w \<Rightarrow> 'w) \<Rightarrow> preflight_phase \<Rightarrow> ('w, 'a) io \<Rightarrow> ('w, 'a) io" where
  "phase on_phase ph rest = io_bind (io_update (on_phase ph)) (\<lambda>_. rest)"

definition preflight_docker ::
    "docker_json \<Rightarrow> 'w transport \<Rightarrow> (preflight_phase \<Rightarrow> 'w \<Rightarrow> 'w) \<Rightarrow> remote_profile \<Rightarrow> ('w, preflight_outcome) io" where
  "preflight_docker J tr on_phase p =
     (case exec_target p of
        Host \<Rightarrow> io_fail ''Docker preflight requires a Docker profile''
      | DockerContainer d \<Rightarrow>
          (let host = ssh_command_of p in
           phase on_phase CheckingDockerAccess (
           io_bind (docker_access tr host) (\<lambda>_.
           phase on_phase LocatingContainer (
           io_bind (find_container J tr host d) (\<lambda>r.
           phase on_phase InspectingIdentity (
           io_bind (inspect_container J tr host r) (\<lambda>i.
           phase on_phase CheckingUserPermissions (
           io_bind (probe_identity tr (DockerExecutor host (resolved_target d i)) d) (\<lambda>ids.
           phase on_phase CheckingPersistence (
           io_bind (io_lift docker_message (persistence_facts_of (digest J) (container_root d) (inspect_mounts i))) (\<lambda>f.
           io_return (assess J p d i ids f)))))))))))))"

section \<open>What a container that is ready has passed\<close>

lemma io_bind_Inr:
  "io_bind m f w = (Inr y, w') \<longleftrightarrow> (\<exists>x w1. m w = (Inr x, w1) \<and> f x w1 = (Inr y, w'))"
  by (auto simp: io_bind_def split: prod.splits sum.splits)

lemma io_update_Inr [simp]: "io_update g w = (Inr u, w') \<longleftrightarrow> w' = g w"
  by (auto simp: io_update_def)

lemma io_return_Inr [simp]: "io_return x w = (Inr y, w') \<longleftrightarrow> y = x \<and> w' = w"
  by (auto simp: io_return_def)

lemma io_fail_Inr [simp]: "io_fail e w \<noteq> (Inr y, w')"
  by (simp add: io_fail_def)

lemma io_lift_Inr [simp]: "io_lift g r w = (Inr y, w') \<longleftrightarrow> r = Inr y \<and> w' = w"
  by (cases r) (auto simp: io_lift_def io_fail_def io_return_def)

lemma checked_Inr [simp]: "checked context out w = (Inr u, w') \<longleftrightarrow> is_success out \<and> w' = w"
  by (simp add: checked_def)

lemma phase_Inr [simp]: "phase on_phase ph m w = (Inr y, w') \<longleftrightarrow> m (on_phase ph w) = (Inr y, w')"
  by (simp add: phase_def io_bind_Inr)

lemma preflight_steps:
  assumes "preflight_docker J tr on_phase p w = (Inr res, w')"
  obtains d r i ids f w1 w2 w3 w4 w5 w6 where
    "exec_target p = DockerContainer d"
    "find_container J tr (ssh_command_of p) d w1 = (Inr r, w2)"
    "inspect_container J tr (ssh_command_of p) r w3 = (Inr i, w4)"
    "probe_identity tr (DockerExecutor (ssh_command_of p) (resolved_target d i)) d w5 = (Inr ids, w6)"
    "persistence_facts_of (digest J) (container_root d) (inspect_mounts i) = Inr f"
    "res = assess J p d i ids f"
proof (cases "exec_target p")
  case Host
  with assms show thesis by (simp add: preflight_docker_def)
next
  case (DockerContainer d)
  with assms show thesis
    by (auto simp: preflight_docker_def Let_def io_bind_Inr intro: that)
qed

text \<open>A container that was found carries the requested name, alone, and was running.\<close>

lemma resolve_exact:
  assumes "resolve_exact_running records n = Inr r"
  shows "filter (\<lambda>r. list_names r = n) records = [r] \<and> ascii_lower (list_state r) = ''running''"
proof (cases "filter (\<lambda>r. list_names r = n) records")
  case (Cons x xs)
  with assms show ?thesis by (cases xs) (auto simp: resolve_exact_running_def split: if_splits)
qed (use assms in \<open>simp add: resolve_exact_running_def\<close>)

lemma find_container_unique:
  assumes "find_container J tr host d w = (Inr r, w')"
  shows "list_names r = container_name d \<and> ascii_lower (list_state r) = ''running''"
proof -
  obtain out where "locate_container J d out = Inr r"
    using assms by (auto simp: find_container_def io_bind_Inr)
  then obtain records where "resolve_exact_running records (container_name d) = Inr r"
    by (cases "parse_container_list (parse_record J) out") (auto simp: locate_container_def)
  from resolve_exact [OF this] show ?thesis by (auto dest!: filter_eq_ConsD)
qed

lemma inspect_container_alive:
  assumes "inspect_container J tr host r w = (Inr i, w')"
  shows "container_alive r i"
  using assms by (auto simp: inspect_container_def io_bind_Inr split: if_splits)

text \<open>The fields of an acknowledgement. Two digests that agree bind every field, unless SHA-256 maps
  the two messages to the same digest.\<close>

definition root_fields :: "remote_profile \<Rightarrow> docker_profile \<Rightarrow> string \<Rightarrow> nat \<times> nat \<Rightarrow> string list" where
  "root_fields p d cid ids = [''1'', profile_id p, container_name d, cid, container_user d,
     show_int (int (fst ids)), show_int (int (snd ids))]"

definition storage_fields :: "remote_profile \<Rightarrow> docker_profile \<Rightarrow> string \<Rightarrow> persistence_facts \<Rightarrow> string list" where
  "storage_fields p d cid f = [''1'', profile_id p, container_name d, cid, container_root d,
     classification_name (classification f), facts_dest f, facts_kind f, facts_rw f, backing_hash f]"

definition same_or_collision :: "(string \<Rightarrow> string) \<Rightarrow> string list \<Rightarrow> string list \<Rightarrow> bool" where
  "same_or_collision sha256 fs gs \<longleftrightarrow>
     fs = gs \<or> encode_fields fs \<noteq> encode_fields gs \<and> sha256 (encode_fields fs) = sha256 (encode_fields gs)"

lemma root_digest_fields: "root_digest J p d cid uid gid = fingerprint (digest J) (root_fields p d cid (uid, gid))"
proof -
  have "show_int 1 = ''1''" by code_simp
  then show ?thesis by (simp add: root_digest_def root_risk_fingerprint_def root_fields_def)
qed

lemma storage_digest_fields: "storage_digest J p d cid f = fingerprint (digest J) (storage_fields p d cid f)"
proof -
  have "show_int 1 = ''1''" by code_simp
  then show ?thesis by (simp add: storage_digest_def ephemeral_risk_fingerprint_def storage_fields_def)
qed

lemma no_pending_risks:
  "pending_risks_of J p d cid (fst ids) (snd ids) f = [] \<longleftrightarrow>
     (fst ids = 0 \<longrightarrow> root_fingerprint (acknowledged p) = Some (fingerprint (digest J) (root_fields p d cid ids))) \<and>
     (is_ephemeral (classification f) \<longrightarrow>
        ephemeral_fingerprint (acknowledged p) = Some (fingerprint (digest J) (storage_fields p d cid f)))"
  by (simp add: pending_risks_of_def Let_def root_digest_fields storage_digest_fields)

text \<open>C24: Nothing runs in a container on an acknowledgement given for another one. When the preflight
  says ready, the executor is pinned to the id of the one container with exactly the configured name,
  which was running and not paused, restarting or dead; if the user is root there, or the root's storage
  is not persistent, the operator acknowledged exactly this profile, container, user and storage: an
  acknowledgement recorded for any other fields is not accepted, unless SHA-256 collides on the two.\<close>

theorem ready_container_acknowledged:
  assumes "preflight_docker J tr on_phase p w = (Inr (PreflightReady ex), w')"
  shows "\<exists>d r i ids f w1 w2 w3 w4 w5 w6. exec_target p = DockerContainer d \<and>
    find_container J tr (ssh_command_of p) d w1 = (Inr r, w2) \<and> list_names r = container_name d \<and>
    inspect_container J tr (ssh_command_of p) r w3 = (Inr i, w4) \<and> container_alive r i \<and>
    probe_identity tr (DockerExecutor (ssh_command_of p) (resolved_target d i)) d w5 = (Inr ids, w6) \<and>
    ex = DockerExecutor (ssh_command_of p) (proxy_target d i) \<and>
    persistence_facts_of (digest J) (container_root d) (inspect_mounts i) = Inr f \<and>
    (fst ids = 0 \<longrightarrow> (\<exists>a. root_fingerprint (acknowledged p) = Some a \<and>
       (\<forall>fs. a = fingerprint (digest J) fs \<longrightarrow>
         same_or_collision (digest J) fs (root_fields p d (inspect_id i) ids)))) \<and>
    (is_ephemeral (classification f) \<longrightarrow> (\<exists>a. ephemeral_fingerprint (acknowledged p) = Some a \<and>
       (\<forall>fs. a = fingerprint (digest J) fs \<longrightarrow>
         same_or_collision (digest J) fs (storage_fields p d (inspect_id i) f))))"
  using assms
proof (rule preflight_steps)
  fix d r i ids f w1 w2 w3 w4 w5 w6
  assume d: "exec_target p = DockerContainer d"
    and r: "find_container J tr (ssh_command_of p) d w1 = (Inr r, w2)"
    and i: "inspect_container J tr (ssh_command_of p) r w3 = (Inr i, w4)"
    and ids: "probe_identity tr (DockerExecutor (ssh_command_of p) (resolved_target d i)) d w5 = (Inr ids, w6)"
    and f: "persistence_facts_of (digest J) (container_root d) (inspect_mounts i) = Inr f"
    and out: "PreflightReady ex = assess J p d i ids f"
  from out have ex: "ex = DockerExecutor (ssh_command_of p) (proxy_target d i)"
    and none: "pending_risks_of J p d (inspect_id i) (fst ids) (snd ids) f = []"
    by (auto simp: assess_def Let_def split: if_splits)
  have root: "fst ids = 0 \<longrightarrow> (\<exists>a. root_fingerprint (acknowledged p) = Some a \<and>
      (\<forall>fs. a = fingerprint (digest J) fs \<longrightarrow>
        same_or_collision (digest J) fs (root_fields p d (inspect_id i) ids)))"
    and storage: "is_ephemeral (classification f) \<longrightarrow> (\<exists>a. ephemeral_fingerprint (acknowledged p) = Some a \<and>
      (\<forall>fs. a = fingerprint (digest J) fs \<longrightarrow>
        same_or_collision (digest J) fs (storage_fields p d (inspect_id i) f)))"
    using none [unfolded no_pending_risks] by (auto simp: fingerprint_eq same_or_collision_def)
  note alive = inspect_container_alive [OF i] and named = conjunct1 [OF find_container_unique [OF r]]
  show ?thesis
    by (intro exI [of _ d] exI [of _ r] exI [of _ i] exI [of _ ids] exI [of _ f], intro exI conjI)
      (rule d r named i alive ids ex f root storage)+
qed

section \<open>A concrete preflight\<close>

text \<open>A container with root as its user and no mounts; the digest is the message itself.\<close>

definition ex_docker :: docker_profile where
  "ex_docker = \<lparr>container_name = ''dev'', container_user = ''root'', container_workdir = None, container_root = ''/srv/p''\<rparr>"

definition ex_inspect :: docker_inspect where
  "ex_inspect = \<lparr>inspect_id = ''c1'', inspect_state = \<lparr>is_running = True, is_paused = False, is_restarting = False,
     is_dead = False\<rparr>, inspect_mounts = []\<rparr>"

definition ex_json :: docker_json where
  "ex_json = \<lparr>parse_record = (\<lambda>_. Some \<lparr>list_id = ''c1'', list_names = ''dev'', list_image = ''i'',
       list_state = ''Running'', list_status = ''Up''\<rparr>),
     parse_inspects = (\<lambda>_. Some [ex_inspect]), digest = id\<rparr>"

definition ex_docker_profile :: remote_profile where
  "ex_docker_profile = \<lparr>profile_id = ''a'', profile_label = ''b'', ssh_destination = ''host'', ssh_port = None,
     install_policy = OfferInstall, remote_root_override = None, server_path_override = None, xdg_setting = Isolated,
     exec_target = DockerContainer ex_docker,
     acknowledged = \<lparr>root_fingerprint = Some ''1:11:a3:dev2:c14:root1:01:0'',
       ephemeral_fingerprint = Some ''1:11:a3:dev2:c16:/srv/p13:writableLayer19:<no-covering-mount>13:writableLayer9:readWrite16:<writable-layer>''\<rparr>\<rparr>"

definition ex_transport :: "unit transport" where
  "ex_transport = \<lparr>run_command = (\<lambda>c cmd. io_return \<lparr>stdout = ''0|0|/root'', stderr = [], exit_code = Some 0\<rparr>),
     run_command_with_stdin = (\<lambda>c cmd data. io_return ())\<rparr>"

definition ready_with :: "(string + preflight_outcome) \<times> unit \<Rightarrow> executor option" where
  "ready_with out = (case fst out of Inr (PreflightReady ex) \<Rightarrow> Some ex | _ \<Rightarrow> None)"

lemma ex_preflight_steps:
  "\<exists>r. locate_container ex_json ex_docker ''0|0|/root'' = Inr r \<and> container_alive r ex_inspect"
  "parse_identity ''0|0|/root'' = Inr (0, 0)"
  "\<exists>f. persistence_facts_of id ''/srv/p'' [] = Inr f \<and>
     pending_risks_of ex_json ex_docker_profile ex_docker ''c1'' 0 0 f = []"
proof -
  have "case locate_container ex_json ex_docker ''0|0|/root'' of Inr r \<Rightarrow> container_alive r ex_inspect | Inl _ \<Rightarrow> False"
    by code_simp
  then show "\<exists>r. locate_container ex_json ex_docker ''0|0|/root'' = Inr r \<and> container_alive r ex_inspect"
    by (auto split: sum.splits)
  have "trim ''0|0|/root'' = ''0|0|/root''" by code_simp
  then show "parse_identity ''0|0|/root'' = Inr (0, 0)"
    by (simp add: parse_identity_def parse_id_def strip_prefix_def version_eval)
  have "case persistence_facts_of id ''/srv/p'' [] of
      Inr f \<Rightarrow> pending_risks_of ex_json ex_docker_profile ex_docker ''c1'' 0 0 f = [] | Inl _ \<Rightarrow> False"
    by code_simp
  then show "\<exists>f. persistence_facts_of id ''/srv/p'' [] = Inr f \<and>
     pending_risks_of ex_json ex_docker_profile ex_docker ''c1'' 0 0 f = []"
    by (auto split: sum.splits)
qed

lemma ex_preflight_ready:
  "ready_with (preflight_docker ex_json ex_transport (\<lambda>_ w. w) ex_docker_profile ()) \<noteq> None"
proof -
  obtain r f where "locate_container ex_json ex_docker ''0|0|/root'' = Inr r" "container_alive r ex_inspect"
    "persistence_facts_of id ''/srv/p'' [] = Inr f" "pending_risks_of ex_json ex_docker_profile ex_docker ''c1'' 0 0 f = []"
    using ex_preflight_steps(1,3) by blast
  moreover have "exec_target ex_docker_profile = DockerContainer ex_docker" "container_root ex_docker = ''/srv/p''"
    "digest ex_json = id" "inspect_mounts ex_inspect = []" "inspect_id ex_inspect = ''c1''"
    "parse_inspects ex_json = (\<lambda>_. Some [ex_inspect])"
    "run_command ex_transport = (\<lambda>c cmd. io_return \<lparr>stdout = ''0|0|/root'', stderr = [], exit_code = Some 0\<rparr>)"
    by (simp_all add: ex_docker_profile_def ex_docker_def ex_json_def ex_inspect_def ex_transport_def)
  ultimately show ?thesis
    by (simp add: preflight_docker_def Let_def phase_def docker_access_def find_container_def inspect_container_def
        probe_identity_def assess_def io_bind_def io_update_def io_return_def io_lift_def checked_def is_success_def
        parse_inspect_def ex_preflight_steps(2) ready_with_def)
qed

lemma ready_container_acknowledged_witness:
  "\<exists>i. ready_with (preflight_docker ex_json ex_transport (\<lambda>_ w. w) ex_docker_profile ()) =
         Some (DockerExecutor (ssh_command_of ex_docker_profile) (proxy_target ex_docker i)) \<and>
       (\<exists>w r. container_alive r i \<and> inspect_container ex_json ex_transport (ssh_command_of ex_docker_profile) r w = (Inr i, w))"
proof -
  have "ready_with (preflight_docker ex_json ex_transport (\<lambda>_ w. w) ex_docker_profile ()) \<noteq> None"
    by (rule ex_preflight_ready)
  then obtain ex where
    run: "preflight_docker ex_json ex_transport (\<lambda>_ w. w) ex_docker_profile () = (Inr (PreflightReady ex), ())"
    by (auto simp: ready_with_def prod_eq_iff split: sum.splits preflight_outcome.splits)
  have "exec_target ex_docker_profile = DockerContainer ex_docker" by (simp add: ex_docker_profile_def)
  with ready_container_acknowledged [OF run] run show ?thesis by (force simp: ready_with_def)
qed

text \<open>For a container, the XDG directories come from the root on the ssh host: with the default root they
  are passed to \<^verbatim>\<open>docker exec\<close> with a tilde that no shell expands; and no path below the default
  root can be uploaded to or started.\<close>

lemma docker_env_has_tilde:
  "list_all (\<lambda>(k, v). starts_with v ''~/'') (extra_env (ssh_command_of ex_docker_profile)) \<and>
   (case proxy_command (DockerExecutor c (proxy_target ex_docker ex_inspect)) ''/srv/p/server'' [(''XDG_DATA_HOME'', ''~/d'')] of
      Inr cmd \<Rightarrow> raw_remote_command cmd = Some (shell_join [''docker'', ''exec'', ''-i'', ''--user'', ''root'',
        ''--env'', ''PANTOKEN_REMOTE_ROOT=/srv/p'', ''--env'', ''PANTOKEN_SERVE_MODE=stdio-proxy'',
        ''--env'', ''XDG_DATA_HOME=~/d'', ''c1'', ''/srv/p/server''])
    | Inl _ \<Rightarrow> False)"
  by (simp add: proxy_words_def, code_simp) simp

lemma docker_needs_absolute:
  assumes "\<not> starts_with path ''/''"
  shows "proxy_command (DockerExecutor c t) path env = Inl UnsafePath"
    "upload tr (DockerExecutor c t) path data w = (Inl (docker_message UnsafePath), w)"
proof -
  have "normalize_absolute_path path = None" using assms by (simp add: normalize_absolute_path_def)
  then show "proxy_command (DockerExecutor c t) path env = Inl UnsafePath"
    "upload tr (DockerExecutor c t) path data w = (Inl (docker_message UnsafePath), w)"
    by (simp_all add: proxy_words_def upload_words_def io_bind_def io_lift_def io_fail_def unsafe_path_def)
qed

end
