(* ===== verification/Provisioning.thy ===== *)
theory Provisioning
  imports Release_Manifest Docker_Preflight
begin

text \<open>
  Provisioning of a remote host, \<^verbatim>\<open>desktop/src/provisioning/\<close>: the probe (\<^verbatim>\<open>probe.rs\<close>), the installers of
  polytoken and of the server (\<^verbatim>\<open>polytoken_install.rs\<close>, \<^verbatim>\<open>pantoken_server_install.rs\<close>) and their
  reconciliation (\<^verbatim>\<open>reconcile.rs\<close>). The remote host and the web are the world of the transport. What the
  sources call from libraries is the record \<open>provision_env\<close>: downloads, SHA-256, JSON, the clock, the
  lossy decoding of UTF-8 and the debug form of a string.
\<close>

section \<open>The probe\<close>

record probe_tools =
  has_tar :: bool
  has_unzip :: bool
  has_curl :: bool
  has_sha256sum :: bool

record probe_result =
  probe_os :: string
  probe_arch :: string
  probe_bitness :: nat
  probe_libc :: string
  probe_home :: string
  probe_temp :: "string option"
  probe_tools :: probe_tools
  probe_version :: "string option"

record install_provenance =
  installed_version :: string
  installed_target :: string
  source_url :: string
  archive_sha256 :: string
  install_channel :: "string option"
  installed_at :: string
  trust_level :: string

record 'w provision_env =
  http_fetch :: "string \<Rightarrow> ('w, string) io"
  sha256_hex :: "string \<Rightarrow> string"
  parse_probe :: "string \<Rightarrow> string + probe_result"
  print_provenance :: "install_provenance \<Rightarrow> string"
  now_secs :: string
  utf8_lossy :: "string \<Rightarrow> string"
  debug_str :: "string \<Rightarrow> string"

definition POLYTOKEN_DAEMON_TARGET_VERSION :: string where
  "POLYTOKEN_DAEMON_TARGET_VERSION = ''0.5.0-unstable.9''"

definition io_map_error :: "(string \<Rightarrow> string) \<Rightarrow> ('w, 'a) io \<Rightarrow> ('w, 'a) io" where
  "io_map_error g m w = (case m w of (Inl e, w') \<Rightarrow> (Inl (g e), w') | (Inr x, w') \<Rightarrow> (Inr x, w'))"

definition debug_code :: "int option \<Rightarrow> string" where
  "debug_code c = (case c of None \<Rightarrow> ''None'' | Some n \<Rightarrow> ''Some('' @ show_int n @ '')'')"

definition or_none :: "string option \<Rightarrow> string option" where
  "or_none s = (if s = Some [] then None else s)"

definition parse_probe_output :: "'w provision_env \<Rightarrow> command_output \<Rightarrow> string + probe_result" where
  "parse_probe_output E out =
     (if \<not> is_success out then Inl (''probe command failed (exit '' @ debug_code (exit_code out) @ ''): '' @ stderr out)
      else let noise = ''probe output was not valid JSON (shell noise?). Last line: '' in
        case find (\<lambda>l. trim l \<noteq> []) (rev (str_lines (stdout out))) of
          None \<Rightarrow> Inl (noise @ debug_str E (stdout out))
        | Some l \<Rightarrow>
            (case parse_probe E l of
               Inl e \<Rightarrow> Inl (noise @ debug_str E (l @ '' (parse error: '' @ e @ '')''))
             | Inr p \<Rightarrow> Inr (p\<lparr>probe_version := or_none (probe_version p), probe_temp := or_none (probe_temp p)\<rparr>)))"

definition probe_remote :: "'w provision_env \<Rightarrow> 'w transport \<Rightarrow> string \<Rightarrow> executor \<Rightarrow> ('w, probe_result) io" where
  "probe_remote E tr script ex =
     io_bind (io_map_error ((@) ''SSH error during probe: '') (run_script tr ex script)) (\<lambda>out.
     io_lift id (parse_probe_output E out))"

definition target_triple :: "probe_result \<Rightarrow> string + string" where
  "target_triple p =
     (if probe_os p = ''linux'' \<and> probe_arch p = ''x86_64'' \<and> probe_libc p = ''glibc''
      then Inr ''x86_64-unknown-linux-gnu''
      else if probe_os p = ''darwin'' \<and> probe_arch p \<in> {''aarch64'', ''arm64''} \<and> probe_libc p = ''darwin''
      then Inr ''aarch64-apple-darwin''
      else Inl (''unsupported target: '' @ probe_os p @ ''/'' @ probe_libc p @ ''/'' @ probe_arch p))"

section \<open>Artifacts\<close>

datatype channel = Stable | Unstable

definition channel_for_version :: "string \<Rightarrow> channel" where
  "channel_for_version v = (if CHR ''-'' \<in> set v then Unstable else Stable)"

definition target_to_platform :: "string \<Rightarrow> (string \<times> string) option" where
  "target_to_platform t =
     (if t = ''x86_64-unknown-linux-gnu'' then Some (''linux'', ''amd64'')
      else if t = ''aarch64-apple-darwin'' then Some (''macos'', ''arm64'')
      else None)"

record artifact_urls =
  archive_url :: string
  checksums_url :: string
  url_format :: archive_format

fun extension :: "archive_format \<Rightarrow> string" where
  "extension TarGz = ''tar.gz''"
| "extension Zip = ''zip''"

definition resolve_artifact_urls :: "string \<Rightarrow> string \<Rightarrow> string + artifact_urls" where
  "resolve_artifact_urls target ver =
     (case target_to_platform target of
        None \<Rightarrow> Inl (''unsupported target: '' @ target)
      | Some (platform, arch) \<Rightarrow>
          (let fmt = (if platform = ''linux'' then TarGz else Zip);
               base = (case channel_for_version ver of
                  Stable \<Rightarrow> ''https://dl.polytoken.dev/'' @ ver
                | Unstable \<Rightarrow> ''https://dl.polytoken.dev/unstable/'' @ ver)
           in Inr \<lparr>archive_url = base @ ''/'' @ platform @ ''-'' @ arch @ ''/polytoken.'' @ extension fmt,
                   checksums_url = base @ ''/SHA256SUMS.'' @ platform, url_format = fmt\<rparr>))"

text \<open>The hash is lowered with the ASCII rule: no other letter lowers to a hexadecimal digit.\<close>

fun find_in_lines :: "string \<Rightarrow> string list \<Rightarrow> string option" where
  "find_in_lines name [] = None"
| "find_in_lines name (l # ls) =
     (case split_whitespace l of
        hash # entry # _ \<Rightarrow>
          (if last (split_on CHR ''/'' entry) = name then Some (ascii_lower hash) else find_in_lines name ls)
      | _ \<Rightarrow> find_in_lines name ls)"

definition find_checksum_in_sums :: "string \<Rightarrow> string \<Rightarrow> string option" where
  "find_checksum_in_sums sums name = find_in_lines name (str_lines sums)"

definition archive_filename :: "string \<Rightarrow> string \<Rightarrow> archive_format \<Rightarrow> string" where
  "archive_filename platform arch fmt = ''polytoken-'' @ platform @ ''-'' @ arch @ ''.'' @ extension fmt"

text \<open>The two installers differ in the wording of a mismatch.\<close>

definition verify_checksum :: "'w provision_env \<Rightarrow> string \<Rightarrow> string \<Rightarrow> string \<Rightarrow> string + unit" where
  "verify_checksum E wording data expected =
     (let actual = sha256_hex E data
      in if actual = expected then Inr ()
         else Inl (wording @ expected @ '', got '' @ actual))"

section \<open>Install commands\<close>

text \<open>\<open>Path::parent\<close> of a path that ends in a plain component.\<close>

definition parent_dir :: "string \<Rightarrow> string" where
  "parent_dir p = trim_slashes (rev (dropWhile ((\<noteq>) CHR ''/'') (rev p)))"

definition layout_message :: "'w provision_env \<Rightarrow> string \<Rightarrow> string" where
  "layout_message E s = ''input contains '' @ [CHR 0x27] @ ''..'' @ [CHR 0x27] @ '' traversal: '' @ debug_str E s"

text \<open>The version is checked before the target.\<close>

definition layout_path ::
    "'w provision_env \<Rightarrow> (string \<Rightarrow> string \<Rightarrow> string \<Rightarrow> string option) \<Rightarrow> string \<Rightarrow> string \<Rightarrow> string \<Rightarrow> string + string" where
  "layout_path E layout root ver target =
     (case layout root ver target of
        Some p \<Rightarrow> Inr p
      | None \<Rightarrow> Inl (layout_message E (if has_parent_component ver then ver else target)))"

fun extract_command :: "archive_format \<Rightarrow> string \<Rightarrow> string \<Rightarrow> string" where
  "extract_command TarGz archive staging = ''tar xzf '' @ archive @ '' -C '' @ staging"
| "extract_command Zip archive staging = ''unzip -o '' @ archive @ '' -d '' @ staging"

definition build_install_command :: "string \<Rightarrow> string \<Rightarrow> archive_format \<Rightarrow> string" where
  "build_install_command final_dir archive_path fmt =
     (let staging_dir = final_dir @ ''.staging-$$''; staging = posix_quote staging_dir; fin = posix_quote final_dir;
          archive = posix_quote archive_path; binary = posix_quote (staging_dir @ ''/polytoken'')
      in ''set -e; mkdir -p '' @ staging @ ''; '' @ extract_command fmt archive staging @ ''; chmod +x '' @ binary
         @ ''; test -x '' @ binary @ ''; mkdir -p '' @ fin @ ''; rm -rf '' @ fin @ ''; mv '' @ staging @ '' '' @ fin
         @ ''; rm -f '' @ archive @ ''; echo ok'')"

definition build_cleanup_staging_command :: "string \<Rightarrow> string \<Rightarrow> string \<Rightarrow> string" where
  "build_cleanup_staging_command root ver target =
     ''rm -rf '' @ posix_quote (case polytoken_binary root ver target of Some p \<Rightarrow> parent_dir p | None \<Rightarrow> [])
     @ ''.staging-* 2>/dev/null; true''"

definition build_binary_check_command :: "string \<Rightarrow> string" where
  "build_binary_check_command path = ''test -x '' @ posix_quote path @ '' && echo exists || echo missing''"

definition heredoc :: "string \<Rightarrow> string \<Rightarrow> string \<Rightarrow> string" where
  "heredoc path marker json =
     ''cat > '' @ posix_quote path @ '' << '' @ [CHR 0x27] @ marker @ [CHR 0x27] @ [CHR 0x0A] @ json @ [CHR 0x0A] @ marker"

definition server_binary_in_archive :: string where
  "server_binary_in_archive = ''bin/pantoken-server''"

fun server_extract_command :: "archive_format \<Rightarrow> string \<Rightarrow> string \<Rightarrow> string" where
  "server_extract_command TarGz archive staging =
     ''tar xzf '' @ archive @ '' -C '' @ staging @ '' '' @ server_binary_in_archive"
| "server_extract_command Zip archive staging =
     ''unzip -o '' @ archive @ '' '' @ server_binary_in_archive @ '' -d '' @ staging"

definition build_server_install_command :: "string \<Rightarrow> string \<Rightarrow> archive_format \<Rightarrow> string" where
  "build_server_install_command final_dir archive_path fmt =
     (let staging_dir = final_dir @ ''.staging-$$''; staging = posix_quote staging_dir; fin = posix_quote final_dir;
          archive = posix_quote archive_path;
          nested = posix_quote (staging_dir @ ''/'' @ server_binary_in_archive);
          binary = posix_quote (staging_dir @ ''/pantoken-server'')
      in ''set -e; mkdir -p '' @ staging @ ''; '' @ server_extract_command fmt archive staging @ ''; chmod +x '' @ nested
         @ ''; test -x '' @ nested @ ''; mv '' @ nested @ '' '' @ binary @ ''; mkdir -p '' @ fin @ ''; rm -rf '' @ fin
         @ ''; mv '' @ staging @ '' '' @ fin @ ''; rm -f '' @ archive @ ''; echo ok'')"

section \<open>The installers\<close>

text \<open>A command of an installer: an I/O error and an exit other than zero are errors.\<close>

definition remote_step :: "'w transport \<Rightarrow> executor \<Rightarrow> (command_output \<Rightarrow> bool) \<Rightarrow> string \<Rightarrow> ('w, unit) io" where
  "remote_step tr ex ok script =
     io_bind (io_map_error ((@) ''SSH error: '') (run_script tr ex script)) (\<lambda>out.
     if is_success out \<and> ok out then io_return ()
     else io_fail (''remote command failed (exit '' @ debug_code (exit_code out) @ ''): '' @ stderr out))"

definition install_polytoken ::
    "'w provision_env \<Rightarrow> 'w transport \<Rightarrow> executor \<Rightarrow> string \<Rightarrow> probe_result \<Rightarrow> ('w, install_provenance) io" where
  "install_polytoken E tr ex root p =
     (let ver = POLYTOKEN_DAEMON_TARGET_VERSION in
      io_bind (io_lift ((@) ''unsupported target: '') (target_triple p)) (\<lambda>target.
      io_bind (io_lift id (resolve_artifact_urls target ver)) (\<lambda>urls.
      io_bind (io_map_error ((@) ''download failed: '') (http_fetch E (archive_url urls))) (\<lambda>archive.
      io_bind (io_map_error ((@) ''download failed: '') (http_fetch E (checksums_url urls))) (\<lambda>sums.
      let filename = (case target_to_platform target of
             Some (platform, arch) \<Rightarrow> archive_filename platform arch (url_format urls) | None \<Rightarrow> []);
          remote_path = root @ ''/.cache/'' @ filename in
      case find_checksum_in_sums (utf8_lossy E sums) filename of
        None \<Rightarrow> io_fail (''download failed: checksum for '' @ filename @ '' not found in SHA256SUMS'')
      | Some expected \<Rightarrow>
          io_bind (io_lift id (verify_checksum E ''SHA256 mismatch: expected '' archive expected)) (\<lambda>_.
          io_bind (remote_step tr ex (\<lambda>_. True) (''mkdir -p '' @ posix_quote (root @ ''/.cache''))) (\<lambda>_.
          io_bind (io_map_error ((@) ''SSH error: '') (upload tr ex remote_path archive)) (\<lambda>_.
          io_bind (io_lift ((@) ''unsupported target: '') (layout_path E polytoken_binary root ver target)) (\<lambda>bin.
          io_bind (remote_step tr ex (\<lambda>_. True) (build_install_command (parent_dir bin) remote_path (url_format urls))) (\<lambda>_.
          let provenance = \<lparr>installed_version = ver, installed_target = target, source_url = archive_url urls,
                archive_sha256 = expected, install_channel = Some (case channel_for_version ver of
                  Stable \<Rightarrow> ''stable'' | Unstable \<Rightarrow> ''unstable''),
                installed_at = now_secs E, trust_level = ''checksum-only''\<rparr> in
          io_bind (remote_step tr ex (\<lambda>_. True)
              (heredoc (install_metadata root) ''PANTOKEN_INSTALL_JSON_EOF'' (print_provenance E provenance))) (\<lambda>_.
          io_return provenance)))))))))))"

definition resolve_server_artifact :: "release_manifest \<Rightarrow> string \<Rightarrow> release_target option" where
  "resolve_server_artifact m target = find (\<lambda>t. target_triple_of t = target) (targets m)"

definition check_server_installed ::
    "'w provision_env \<Rightarrow> 'w transport \<Rightarrow> executor \<Rightarrow> string \<Rightarrow> string \<Rightarrow> string \<Rightarrow> ('w, bool) io" where
  "check_server_installed E tr ex root ver target =
     io_bind (io_lift ((@) ''unsupported target for server install: '') (layout_path E release_artifact root ver target)) (\<lambda>path.
     io_bind (io_map_error ((@) ''SSH error: '') (run_script tr ex (build_binary_check_command path))) (\<lambda>out.
     io_return (trim (stdout out) = ''exists'')))"

definition install_server ::
    "'w provision_env \<Rightarrow> 'w transport \<Rightarrow> executor \<Rightarrow> string \<Rightarrow> probe_result \<Rightarrow> release_manifest \<Rightarrow> ('w, string) io" where
  "install_server E tr ex root p m =
     io_bind (io_lift ((@) ''unsupported target for server install: '') (target_triple p)) (\<lambda>target.
     case resolve_server_artifact m target of
       None \<Rightarrow> io_fail (''unsupported target for server install: '' @ target)
     | Some artifact \<Rightarrow>
         (let ver = release_version m;
              remote_path = root @ ''/.cache/'' @ last (split_on CHR ''/'' (artifact_url artifact)) in
          io_bind (io_map_error ((@) ''server download failed: '') (http_fetch E (artifact_url artifact))) (\<lambda>archive.
          io_bind (io_lift id (verify_checksum E ''server SHA256 mismatch: expected '' archive (artifact_sha256 artifact))) (\<lambda>_.
          io_bind (remote_step tr ex (\<lambda>_. True) (''mkdir -p '' @ posix_quote (root @ ''/.cache''))) (\<lambda>_.
          io_bind (io_map_error ((@) ''SSH error: '') (upload tr ex remote_path archive)) (\<lambda>_.
          io_bind (io_lift ((@) ''unsupported target for server install: '') (layout_path E release_artifact root ver target)) (\<lambda>bin.
          io_bind (remote_step tr ex (\<lambda>out. contains (stdout out) ''ok'')
              (build_server_install_command (parent_dir bin) remote_path (artifact_format artifact))) (\<lambda>_.
          io_bind (remote_step tr ex (\<lambda>_. True)
              (heredoc (parent_dir bin @ ''/install.json'') ''PANTOKEN_SERVER_INSTALL_JSON_EOF''
                (print_provenance E \<lparr>installed_version = ver, installed_target = target,
                   source_url = artifact_url artifact, archive_sha256 = artifact_sha256 artifact,
                   install_channel = None, installed_at = now_secs E, trust_level = ''checksum-only''\<rparr>))) (\<lambda>_.
          io_return bin)))))))))"

section \<open>Reconciliation\<close>

datatype reconcile_outcome =
    ReadyOutcome probe_result polytoken_compat "string option" string
  | InstalledOutcome probe_result install_provenance "string option" string
  | MissingOutcome probe_result
  | UnsupportedOutcome probe_result
  | FailedOutcome string

text \<open>\<open>?\<close> on a result whose failure is an outcome.\<close>

definition on_error ::
    "('w, 'a) io \<Rightarrow> (string \<Rightarrow> 'w \<Rightarrow> reconcile_outcome \<times> 'w) \<Rightarrow> ('a \<Rightarrow> 'w \<Rightarrow> reconcile_outcome \<times> 'w)
      \<Rightarrow> 'w \<Rightarrow> reconcile_outcome \<times> 'w" where
  "on_error m handler rest w = (case m w of (Inl e, w') \<Rightarrow> handler e w' | (Inr x, w') \<Rightarrow> rest x w')"

definition fail :: "(connection_state \<Rightarrow> 'w \<Rightarrow> 'w) \<Rightarrow> string \<Rightarrow> 'w \<Rightarrow> reconcile_outcome \<times> 'w" where
  "fail sink detail w = (FailedOutcome detail, sink (ConnectionFailed ProvisioningFailed detail) w)"

definition version_check_command :: string where
  "version_check_command = ''polytoken --version 2>/dev/null | head -1 || echo '' @ [CHR 0x27, CHR 0x27]"

definition remote_compatibility :: "'w transport \<Rightarrow> executor \<Rightarrow> string option \<Rightarrow> ('w, polytoken_compat) io" where
  "remote_compatibility tr ex found w =
     (case found of
        Some v \<Rightarrow> (check_compatibility found (Inl []) POLYTOKEN_DAEMON_TARGET_VERSION, w)
      | None \<Rightarrow> (let (out, w') = run_script tr ex version_check_command w
                 in (check_compatibility None out POLYTOKEN_DAEMON_TARGET_VERSION, w')))"

definition polytoken_path_from_probe :: "probe_result \<Rightarrow> string option" where
  "polytoken_path_from_probe p = (if probe_version p \<noteq> None then Some ''polytoken'' else None)"

definition ensure_server_installed ::
    "'w provision_env \<Rightarrow> 'w transport \<Rightarrow> executor \<Rightarrow> string \<Rightarrow> probe_result \<Rightarrow> release_manifest \<Rightarrow> ('w, string) io" where
  "ensure_server_installed E tr ex root p m =
     io_bind (io_lift ((@) ''target resolution: '') (target_triple p)) (\<lambda>target.
     io_bind (io_map_error ((@) ''server install check: '')
         (check_server_installed E tr ex root (release_version m) target)) (\<lambda>installed.
     if installed
     then io_lift ((@) ''server binary path: '') (layout_path E release_artifact root (release_version m) target)
     else io_map_error ((@) ''server install: '') (install_server E tr ex root p m)))"

text \<open>The branch for a polytoken that is missing or too old.\<close>

definition install_missing ::
    "'w provision_env \<Rightarrow> 'w transport \<Rightarrow> (connection_state \<Rightarrow> 'w \<Rightarrow> 'w) \<Rightarrow> executor \<Rightarrow> remote_profile
      \<Rightarrow> release_manifest \<Rightarrow> probe_result \<Rightarrow> string \<Rightarrow> 'w \<Rightarrow> reconcile_outcome \<times> 'w" where
  "install_missing E tr sink ex profile m p target w =
     (let root = effective_root profile in
      if install_policy profile = RequireExisting
      then (MissingOutcome p, sink (ConnectionFailed ProvisioningFailed ''polytoken not found and policy requires existing'') w)
      else on_error (install_polytoken E tr ex root p) (\<lambda>e. fail sink (''install failed: '' @ e)) (\<lambda>provenance.
           on_error (ensure_server_installed E tr ex root p m) (fail sink) (\<lambda>server w.
             (InstalledOutcome p provenance (polytoken_binary root POLYTOKEN_DAEMON_TARGET_VERSION target) server, w)))
        (snd (run_script tr ex (build_cleanup_staging_command root POLYTOKEN_DAEMON_TARGET_VERSION target) w)))"

definition after_compat ::
    "'w provision_env \<Rightarrow> 'w transport \<Rightarrow> (connection_state \<Rightarrow> 'w \<Rightarrow> 'w) \<Rightarrow> executor \<Rightarrow> remote_profile
      \<Rightarrow> release_manifest \<Rightarrow> probe_result \<Rightarrow> string \<Rightarrow> polytoken_compat \<Rightarrow> 'w \<Rightarrow> reconcile_outcome \<times> 'w" where
  "after_compat E tr sink ex profile m p target c =
     (case c of
        Compatible _ _ _ \<Rightarrow>
          on_error (ensure_server_installed E tr ex (effective_root profile) p m) (fail sink) (\<lambda>server w.
            (ReadyOutcome p c (polytoken_path_from_probe p) server, w))
      | Unparseable raw \<Rightarrow> fail sink (''polytoken version unparseable: '' @ raw)
      | _ \<Rightarrow> install_missing E tr sink ex profile m p target)"

definition reconcile ::
    "'w provision_env \<Rightarrow> 'w transport \<Rightarrow> string \<Rightarrow> (connection_state \<Rightarrow> 'w \<Rightarrow> 'w) \<Rightarrow> executor \<Rightarrow> remote_profile
      \<Rightarrow> release_manifest \<Rightarrow> 'w \<Rightarrow> reconcile_outcome \<times> 'w" where
  "reconcile E tr script sink ex profile m w =
     on_error (probe_remote E tr script ex) (\<lambda>e. fail sink (''probe failed: '' @ e)) (\<lambda>p.
       case target_triple p of
         Inl _ \<Rightarrow> (\<lambda>w. (UnsupportedOutcome p,
           sink (ConnectionFailed ProvisioningFailed ''unsupported remote target'') w))
       | Inr target \<Rightarrow>
           on_error (remote_compatibility tr ex (probe_version p)) (\<lambda>e. fail sink (''compat check failed: '' @ e))
             (after_compat E tr sink ex profile m p target))
     (sink Provisioning w)"

section \<open>Nothing unverified is installed\<close>

lemma io_map_error_Inr [simp]: "io_map_error g m w = (Inr x, w') \<longleftrightarrow> m w = (Inr x, w')"
  by (auto simp: io_map_error_def split: prod.splits sum.splits)

text \<open>An archive that does not match its checksum never leaves the device. When the server's archive
  has been downloaded and its digest differs from the manifest's, the installer fails with the mismatch
  and the remote host is in the state in which the download left it: no directory, no upload, no command.\<close>

theorem mismatch_touches_nothing:
  assumes "target_triple p = Inr target" and "resolve_server_artifact m target = Some artifact"
    and "http_fetch E (artifact_url artifact) w = (Inr archive, w1)"
    and "sha256_hex E archive \<noteq> artifact_sha256 artifact"
  shows "install_server E tr ex root p m w =
    (Inl (''server SHA256 mismatch: expected '' @ artifact_sha256 artifact @ '', got '' @ sha256_hex E archive), w1)"
  using assms
  by (simp add: install_server_def Let_def io_bind_def io_lift_def io_return_def io_fail_def io_map_error_def verify_checksum_def)

lemma polytoken_mismatch:
  assumes "target_triple p = Inr target" "resolve_artifact_urls target POLYTOKEN_DAEMON_TARGET_VERSION = Inr urls"
    and "http_fetch E (archive_url urls) w = (Inr archive, w1)" "http_fetch E (checksums_url urls) w1 = (Inr sums, w2)"
    and "target_to_platform target = Some (platform, arch)"
    and "find_checksum_in_sums (utf8_lossy E sums) (archive_filename platform arch (url_format urls)) = Some expected"
    and "sha256_hex E archive \<noteq> expected"
  shows "install_polytoken E tr ex root p w =
    (Inl (''SHA256 mismatch: expected '' @ expected @ '', got '' @ sha256_hex E archive), w2)"
  using assms
  by (simp add: install_polytoken_def Let_def io_bind_def io_lift_def io_return_def io_fail_def io_map_error_def
      verify_checksum_def)

section \<open>Paths\<close>

lemma path_join_relative:
  assumes "root \<noteq> []" "\<not> starts_with root ''/''" "\<not> starts_with p ''/''"
  shows "path_join root p \<noteq> [] \<and> \<not> starts_with (path_join root p) ''/''"
  using assms by (cases root) (auto simp: path_join_def starts_with_def)

lemma effective_root_nonempty: "effective_root p \<noteq> []"
  by (simp add: effective_root_def non_empty_or_def split: option.split)

lemma target_triple_supported:
  "target_triple p = Inr t \<Longrightarrow> t \<in> set supported_target_triples"
  by (auto simp: target_triple_def supported_target_triples_def split: if_splits)

lemma slash_no_component: "parse_component (CHR ''/'' # s) = None"
  by (simp add: parse_component_def is_digit_def)

lemma semver_relative: "parse_semver v \<Longrightarrow> \<not> starts_with v ''/''"
proof
  assume "parse_semver v" and "starts_with v ''/''"
  then obtain s where v: "v = CHR ''/'' # s" by (cases v) (auto simp: starts_with_def)
  obtain core pre where "split_once CHR ''-'' v = Some (CHR ''/'' # core, pre) \<or> split_once CHR ''-'' v = None \<and> v = CHR ''/'' # core"
    by (cases "split_once CHR ''-'' s") (auto simp: v)
  moreover obtain q qs where "split_on CHR ''.'' (CHR ''/'' # core) = (CHR ''/'' # q) # qs"
    by (cases "split_on CHR ''.'' core") auto
  ultimately have "parse_version v = None"
    by (auto simp: parse_version_def slash_no_component split: list.split)
  with \<open>parse_semver v\<close> show False by (simp add: parse_semver_def)
qed

lemma artifact_relative:
  assumes "root \<noteq> []" "\<not> starts_with root ''/''" "\<not> starts_with ver ''/''" "t \<in> set supported_target_triples"
    and "release_artifact root ver t = Some path"
  shows "\<not> starts_with path ''/''"
proof -
  have t: "\<not> starts_with t ''/''" using assms(4) by (auto simp: supported_target_triples_def starts_with_def)
  have path: "path = path_join (path_join (path_join (path_join root ''releases'') ver) t) ''pantoken-server''"
    using assms(5) by (auto simp: release_artifact_def releases_dir_def sanitize_or_err_def split: if_splits)
  have "\<not> starts_with ''releases'' ''/''" "\<not> starts_with ''pantoken-server'' ''/''" by (simp_all add: starts_with_def)
  then show ?thesis unfolding path using path_join_relative assms(1-3) t by metis
qed

section \<open>How a reconciliation ends\<close>

definition reported :: "(connection_state \<Rightarrow> 'w \<Rightarrow> 'w) \<Rightarrow> 'w \<Rightarrow> string \<Rightarrow> bool" where
  "reported sink w detail \<longleftrightarrow> (\<exists>w1. w = sink (ConnectionFailed ProvisioningFailed detail) w1)"

fun sound_end ::
    "'w provision_env \<Rightarrow> 'w transport \<Rightarrow> (connection_state \<Rightarrow> 'w \<Rightarrow> 'w) \<Rightarrow> executor \<Rightarrow> remote_profile
      \<Rightarrow> release_manifest \<Rightarrow> reconcile_outcome \<times> 'w \<Rightarrow> bool" where
  "sound_end E tr sink ex profile m (ReadyOutcome p _ polytoken server, w') \<longleftrightarrow>
     polytoken = polytoken_path_from_probe p \<and>
     (\<exists>w1. ensure_server_installed E tr ex (effective_root profile) p m w1 = (Inr server, w'))"
| "sound_end E tr sink ex profile m (InstalledOutcome p provenance polytoken server, w') \<longleftrightarrow>
     install_policy profile = OfferInstall \<and>
     (\<exists>t w1 w2. target_triple p = Inr t \<and>
        install_polytoken E tr ex (effective_root profile) p w1 = (Inr provenance, w2) \<and>
        polytoken = polytoken_binary (effective_root profile) POLYTOKEN_DAEMON_TARGET_VERSION t \<and>
        ensure_server_installed E tr ex (effective_root profile) p m w2 = (Inr server, w'))"
| "sound_end E tr sink ex profile m (MissingOutcome p, w') \<longleftrightarrow> install_policy profile = RequireExisting \<and>
     reported sink w' ''polytoken not found and policy requires existing''"
| "sound_end E tr sink ex profile m (UnsupportedOutcome p, w') \<longleftrightarrow> reported sink w' ''unsupported remote target''"
| "sound_end E tr sink ex profile m (FailedOutcome d, w') \<longleftrightarrow> reported sink w' d"

lemma on_error_sound:
  assumes "\<And>e w1. m w = (Inl e, w1) \<Longrightarrow> sound_end E tr sink ex profile rel (handler e w1)"
    and "\<And>x w1. m w = (Inr x, w1) \<Longrightarrow> sound_end E tr sink ex profile rel (rest x w1)"
  shows "sound_end E tr sink ex profile rel (on_error m handler rest w)"
  using assms by (auto simp: on_error_def split: prod.splits sum.splits)

lemma fail_sound: "sound_end E tr sink ex profile m (fail sink d w)"
  by (auto simp: fail_def reported_def)

lemma not_require: "install_policy p \<noteq> RequireExisting \<longleftrightarrow> install_policy p = OfferInstall"
  by (cases "install_policy p") simp_all

lemma install_sound:
  assumes "target_triple p = Inr target"
  shows "sound_end E tr sink ex profile m (install_missing E tr sink ex profile m p target w)"
proof (cases "install_policy profile = RequireExisting")
  case False
  then show ?thesis
    unfolding install_missing_def Let_def if_not_P [OF False]
  proof (intro on_error_sound fail_sound)
    fix provenance w1 server w2
    assume "install_polytoken E tr ex (effective_root profile) p
        (snd (run_script tr ex (build_cleanup_staging_command (effective_root profile) POLYTOKEN_DAEMON_TARGET_VERSION target) w)) =
          (Inr provenance, w1)"
      and "ensure_server_installed E tr ex (effective_root profile) p m w1 = (Inr server, w2)"
    with assms False show "sound_end E tr sink ex profile m
        (InstalledOutcome p provenance (polytoken_binary (effective_root profile) POLYTOKEN_DAEMON_TARGET_VERSION target) server, w2)"
      by (auto simp: not_require)
  qed
qed (auto simp: install_missing_def Let_def reported_def)

lemma compat_sound:
  assumes "target_triple p = Inr target"
  shows "sound_end E tr sink ex profile m (after_compat E tr sink ex profile m p target c w)"
proof (cases c)
  case (Compatible found wanted newer)
  then show ?thesis
    unfolding after_compat_def Compatible polytoken_compat.case
    by (intro on_error_sound fail_sound) auto
qed (simp_all add: after_compat_def fail_sound install_sound assms)

lemma reconcile_ends: "sound_end E tr sink ex profile m (reconcile E tr script sink ex profile m w)"
  unfolding reconcile_def
proof (rule on_error_sound, rule fail_sound)
  fix p w1
  show "sound_end E tr sink ex profile m ((case target_triple p of
      Inl _ \<Rightarrow> (\<lambda>w. (UnsupportedOutcome p, sink (ConnectionFailed ProvisioningFailed ''unsupported remote target'') w))
    | Inr target \<Rightarrow> on_error (remote_compatibility tr ex (probe_version p))
        (\<lambda>e. fail sink (''compat check failed: '' @ e)) (after_compat E tr sink ex profile m p target)) w1)"
  proof (cases "target_triple p")
    case (Inr target)
    show ?thesis unfolding Inr sum.case by (intro on_error_sound fail_sound compat_sound Inr)
  qed (auto simp: reported_def)
qed

section \<open>Where things are installed\<close>

lemma layout_path_Inr: "layout_path E layout root ver t = Inr path \<longleftrightarrow> layout root ver t = Some path"
  by (simp add: layout_path_def split: option.split)

lemma server_path:
  assumes "ensure_server_installed E tr ex root p m w = (Inr path, w')"
  obtains t where "target_triple p = Inr t" and "release_artifact root (release_version m) t = Some path"
  using assms
  by (auto simp: ensure_server_installed_def install_server_def Let_def io_bind_Inr layout_path_Inr
      split: if_splits option.split_asm)

lemma installed_needs_upload:
  assumes "install_polytoken E tr ex root p w = (Inr provenance, w')"
  obtains dest archive w1 w2 where "upload tr ex (root @ dest) archive w1 = (Inr (), w2)"
  using assms
  by (auto simp: install_polytoken_def Let_def io_bind_Inr split: option.split_asm)

text \<open>A container target never starts with the default root. As long as the profile does not override
  the remote root with an absolute path, the provisioning of a container cannot install polytoken, and
  if it reports the server as ready, the command that should start the server is refused as unsafe:
  whatever the remote host answers, no connection comes up.\<close>

theorem docker_default_root_fails:
  assumes "\<not> starts_with (effective_root profile) ''/''" and "parse_semver (release_version m)"
  shows "case fst (reconcile E tr script sink (DockerExecutor c t) profile m w) of
      ReadyOutcome p _ polytoken server \<Rightarrow> proxy_command (DockerExecutor c t) server env = Inl UnsafePath
    | InstalledOutcome p provenance polytoken server \<Rightarrow> False
    | _ \<Rightarrow> True"
proof -
  let ?root = "effective_root profile" and ?ex = "DockerExecutor c t"
  obtain out w' where r: "reconcile E tr script sink ?ex profile m w = (out, w')" by fastforce
  note ends = reconcile_ends [of E tr sink ?ex profile m script w, unfolded r]
  show ?thesis
  proof (cases out)
    case (ReadyOutcome p k polytoken server)
    with ends obtain w1 where "ensure_server_installed E tr ?ex ?root p m w1 = (Inr server, w')" by auto
    then obtain tt where "target_triple p = Inr tt" "release_artifact ?root (release_version m) tt = Some server"
      by (rule server_path)
    then have "\<not> starts_with server ''/''"
      using artifact_relative [OF effective_root_nonempty assms(1) semver_relative [OF assms(2)] target_triple_supported]
      by blast
    from docker_needs_absolute(1) [OF this] r ReadyOutcome show ?thesis by (simp del: proxy_command.simps)
  next
    case (InstalledOutcome p provenance polytoken server)
    with ends obtain w1 w2 where "install_polytoken E tr ?ex ?root p w1 = (Inr provenance, w2)" by auto
    then obtain dest archive w3 w4 where "upload tr ?ex (?root @ dest) archive w3 = (Inr (), w4)"
      by (rule installed_needs_upload)
    moreover have "\<not> starts_with (?root @ dest) ''/''"
      using assms(1) effective_root_nonempty [of profile] by (cases ?root) (auto simp: starts_with_def)
    ultimately show ?thesis by (simp add: docker_needs_absolute(2) del: upload.simps)
  qed (simp_all add: r)
qed

text \<open>Every failed provisioning is shown. When the reconciliation ends with anything but a server that
  is ready or installed, the last thing it did is to report a failed provisioning, with the detail of
  its outcome; and an outcome that is ready or installed names the path of the layout at which the
  server of the manifest's version lies for the target of the host.\<close>

theorem reconcile_reports:
  "case reconcile E tr script sink ex profile m w of
      (FailedOutcome d, w') \<Rightarrow> reported sink w' d
    | (MissingOutcome p, w') \<Rightarrow> reported sink w' ''polytoken not found and policy requires existing''
    | (UnsupportedOutcome p, w') \<Rightarrow> reported sink w' ''unsupported remote target''
    | (ReadyOutcome p _ _ server, w') \<Rightarrow>
        (\<exists>t. target_triple p = Inr t \<and> release_artifact (effective_root profile) (release_version m) t = Some server)
    | (InstalledOutcome p _ _ server, w') \<Rightarrow>
        (\<exists>t. target_triple p = Inr t \<and> release_artifact (effective_root profile) (release_version m) t = Some server)"
proof -
  obtain out w' where r: "reconcile E tr script sink ex profile m w = (out, w')" by fastforce
  note ends = reconcile_ends [of E tr sink ex profile m script w, unfolded r]
  show ?thesis unfolding r
    by (cases out) (use ends in \<open>auto elim!: server_path\<close>)
qed

text \<open>Installing is repeated: a polytoken that is not on the \<open>PATH\<close> of the host is never found, wherever it was
  installed, so a reconciliation that installs it does so again on every connection.\<close>

lemma probe_decides:
  assumes "probe_remote E tr script ex (sink Provisioning w) = (Inr p, w1)" and "target_triple p = Inr t"
    and "remote_compatibility tr ex (probe_version p) w1 = (Inr Missing, w2)"
  shows "reconcile E tr script sink ex profile m w = install_missing E tr sink ex profile m p t w2"
  using assms by (simp add: reconcile_def on_error_def after_compat_def)

lemma missing_is_never_ready: "fst (install_missing E tr sink ex profile m p t w) \<noteq> ReadyOutcome q k pt server"
  by (auto simp: install_missing_def Let_def on_error_def fail_def split: prod.splits sum.splits)

text \<open>The staging directory has no process number: the quoting that the path needs for its dollar signs
  keeps the shell from replacing them, and from replacing the tilde of the default root.\<close>

lemma staging_is_literal:
  "sh_words (posix_quote (dir @ ''.staging-$$'')) = Some [map (\<lambda>c. (c, True)) (dir @ ''.staging-$$'')]"
proof -
  have "\<not> list_all posix_safe (dir @ ''.staging-$$'')" by (simp add: posix_safe_def alphanumeric_def)
  then have "mark posix_safe (dir @ ''.staging-$$'') = map (\<lambda>c. (c, True)) (dir @ ''.staging-$$'')"
    by (simp add: mark_def)
  with posix.read_join [of "[dir @ ''.staging-$$'']"] show ?thesis by simp
qed

section \<open>Concrete hosts\<close>

definition ex_manifest :: release_manifest where
  "ex_manifest = \<lparr>release_version = ''0.2.75'', protocol_version = 5, build_sha = None,
     targets = [\<lparr>target_triple_of = ''x86_64-unknown-linux-gnu'', artifact_url = ''https://x/a.tar.gz'',
       artifact_sha256 = ''y'', artifact_format = TarGz\<rparr>]\<rparr>"

definition ex_probe :: probe_result where
  "ex_probe = \<lparr>probe_os = ''linux'', probe_arch = ''x86_64'', probe_bitness = 64, probe_libc = ''glibc'',
     probe_home = ''/root'', probe_temp = None, probe_tools = \<lparr>has_tar = True, has_unzip = False, has_curl = False,
     has_sha256sum = True\<rparr>, probe_version = None\<rparr>"

text \<open>Every download is the text \<open>x\<close>, and the digest is the message itself.\<close>

definition ex_env :: "unit provision_env" where
  "ex_env = \<lparr>http_fetch = (\<lambda>_. io_return ''x''), sha256_hex = id, parse_probe = (\<lambda>_. Inr ex_probe),
     print_provenance = (\<lambda>_. ''{}''), now_secs = ''0'', utf8_lossy = id, debug_str = id\<rparr>"

lemma mismatch_touches_nothing_witness:
  "install_server ex_env ex_transport (HostExecutor ex_ssh) ''/srv'' ex_probe ex_manifest () =
     (Inl ''server SHA256 mismatch: expected y, got x'', ())"
  using mismatch_touches_nothing [of ex_probe "''x86_64-unknown-linux-gnu''" ex_manifest
      "hd (targets ex_manifest)" ex_env "()" "''x''" "()" ex_transport "HostExecutor ex_ssh" "''/srv''"]
  by (simp add: ex_probe_def target_triple_def ex_manifest_def resolve_server_artifact_def ex_env_def io_return_def)

lemma docker_default_root_fails_witness:
  "case fst (reconcile ex_env ex_transport [] (\<lambda>_ w. w) (DockerExecutor ex_ssh (proxy_target ex_docker ex_inspect))
        ex_docker_profile ex_manifest ()) of
      ReadyOutcome p _ polytoken server \<Rightarrow>
        proxy_command (DockerExecutor ex_ssh (proxy_target ex_docker ex_inspect)) server [] = Inl UnsafePath
    | InstalledOutcome p provenance polytoken server \<Rightarrow> False
    | _ \<Rightarrow> True"
proof (rule docker_default_root_fails)
  show "\<not> starts_with (effective_root ex_docker_profile) ''/''"
    by (simp add: ex_docker_profile_def effective_root_def non_empty_or_def starts_with_def)
  show "parse_semver (release_version ex_manifest)" by (simp add: ex_manifest_def version_eval)
qed

end
