(* ===== verification/Remote_Hosts.thy ===== *)
theory Remote_Hosts
  imports Bridge Provisioning
begin

text \<open>
  The desktop's commands on remote hosts, \<^verbatim>\<open>desktop/src/remote_commands.rs\<close>, and the part of the state
  they work on, \<^verbatim>\<open>desktop/src/state.rs\<close>: the file of profiles and the map of running sessions. Several
  sessions run at once, each with a task that provisions its host and then runs its bridge.
\<close>

section \<open>The state\<close>

text \<open>A session's connection and cancellation token are shared with its task, so they are allocated: \<open>session_ref\<close>
  is their identity, \<open>connections\<close> the store of the connections and \<open>cancelled\<close> the tokens that were
  cancelled. \<open>profiles\<close> is the content of the file of profiles, or the error of reading it; \<open>healthy\<close> is
  whether the local server is supervised; \<open>tasks\<close> are the tasks handed to the runtime, the latest first.\<close>

record remote_session =
  session_ref :: nat
  bridge_port :: nat

record task =
  task_ref :: nat
  task_profile :: remote_profile
  task_port :: nat

record desktop =
  profiles :: "string + remote_profile list"
  sessions :: "string \<rightharpoonup> remote_session"
  connections :: "nat \<Rightarrow> remote_connection"
  next_ref :: nat
  cancelled :: "nat set"
  tasks :: "task list"
  healthy :: bool
  server_port :: nat

definition get_remote :: "desktop \<Rightarrow> string \<Rightarrow> remote_connection option" where
  "get_remote s i = map_option (\<lambda>r. connections s (session_ref r)) (sessions s i)"

definition get_remote_bridge_port :: "desktop \<Rightarrow> string \<Rightarrow> nat option" where
  "get_remote_bridge_port s i = map_option bridge_port (sessions s i)"

definition stop_session :: "remote_session \<Rightarrow> desktop \<Rightarrow> desktop" where
  "stop_session r s = s\<lparr>cancelled := insert (session_ref r) (cancelled s)\<rparr>"

definition stop_remote :: "string \<Rightarrow> desktop \<Rightarrow> desktop" where
  "stop_remote i s = (case sessions s i of
     None \<Rightarrow> s
   | Some r \<Rightarrow> stop_session r (s\<lparr>sessions := (sessions s)(i := None),
       connections := (connections s)(session_ref r := disconnect_connection (connections s (session_ref r)))\<rparr>))"

text \<open>\<open>teardown\<close> cancels every session; their connections keep their states.\<close>

definition teardown :: "desktop \<Rightarrow> desktop" where
  "teardown s = s\<lparr>sessions := \<lambda>_. None, cancelled := cancelled s \<union> session_ref ` ran (sessions s), healthy := False\<rparr>"

section \<open>Profiles\<close>

definition list_remote_profiles :: "desktop \<Rightarrow> remote_profile list" where
  "list_remote_profiles s = (case profiles s of Inl _ \<Rightarrow> [] | Inr ps \<Rightarrow> ps)"

text \<open>The error of a write that fails is the first argument of the commands that save.\<close>

definition save :: "string option \<Rightarrow> remote_profile list \<Rightarrow> desktop \<Rightarrow> (string + unit) \<times> desktop" where
  "save io_error ps s = (case io_error of None \<Rightarrow> (Inr (), s\<lparr>profiles := Inr ps\<rparr>) | Some e \<Rightarrow> (Inl e, s))"

fun profile_message :: "profile_error \<Rightarrow> string" where
  "profile_message EmptyId = ''profile id must not be empty''"
| "profile_message EmptyLabel = ''profile label must not be empty''"
| "profile_message EmptyDestination = ''ssh_destination must not be empty''"
| "profile_message (InvalidPort p) = ''port '' @ show_int (int p) @ '' is invalid (must be 1..=65535)''"
| "profile_message EmptyContainerName = ''container name must not be empty''"
| "profile_message InvalidContainerUser = ''container user is invalid''"
| "profile_message (InvalidPath p) = ''unsafe absolute path: '' @ p"
| "profile_message (InvalidFingerprint _) = ''risk fingerprint must be lowercase SHA-256 hex''"

definition add_remote_profile ::
    "string option \<Rightarrow> remote_profile \<Rightarrow> desktop \<Rightarrow> (string + remote_profile) \<times> desktop" where
  "add_remote_profile io_error p s =
     (case validate p of
        Inl e \<Rightarrow> (Inl (profile_message e), s)
      | Inr _ \<Rightarrow> (case profiles s of
          Inl e \<Rightarrow> (Inl e, s)
        | Inr ps \<Rightarrow> (case save io_error (ps @ [p]) s of
            (Inl e, s') \<Rightarrow> (Inl e, s')
          | (Inr _, s') \<Rightarrow> (Inr p, s'))))"

text \<open>\<open>iter_mut().find(P)\<close>: the change of the first element that satisfies \<open>P\<close>.\<close>

fun update_first :: "('a \<Rightarrow> bool) \<Rightarrow> ('a \<Rightarrow> 'a) \<Rightarrow> 'a list \<Rightarrow> 'a list" where
  "update_first P g [] = []"
| "update_first P g (x # xs) = (if P x then g x # xs else x # update_first P g xs)"

definition has_id :: "string \<Rightarrow> remote_profile \<Rightarrow> bool" where
  "has_id i p \<longleftrightarrow> profile_id p = i"

definition update_remote_profile :: "string option \<Rightarrow> remote_profile \<Rightarrow> desktop \<Rightarrow> (string + unit) \<times> desktop" where
  "update_remote_profile io_error p s =
     (case validate p of
        Inl e \<Rightarrow> (Inl (profile_message e), s)
      | Inr _ \<Rightarrow> (case profiles s of
          Inl e \<Rightarrow> (Inl e, s)
        | Inr ps \<Rightarrow>
            if list_ex (has_id (profile_id p)) ps then save io_error (update_first (has_id (profile_id p)) (\<lambda>_. p) ps) s
            else (Inl (''no profile with id '' @ profile_id p), s)))"

definition delete_remote_profile :: "string option \<Rightarrow> string \<Rightarrow> desktop \<Rightarrow> (string + unit) \<times> desktop" where
  "delete_remote_profile io_error i s0 =
     (let s = stop_remote i s0 in
      case profiles s of
        Inl e \<Rightarrow> (Inl e, s)
      | Inr ps \<Rightarrow>
          (let kept = filter (\<lambda>p. profile_id p \<noteq> i) ps
           in if length kept = length ps then (Inl (''no profile with id '' @ i), s) else save io_error kept s))"

section \<open>Snapshots\<close>

record host_state =
  host_id :: string
  host_kind :: string
  host_label :: string
  host_subtitle :: string
  state_name :: string
  ws_url :: "string option"
  host_failure_label :: "string option"
  host_failure_action :: "string option"
  host_failure_detail :: "string option"
  host_preflight_phase :: "preflight_phase option"
  host_pending_risks :: "pending_risk list option"
  redacted_ssh_host :: "string option"
  host_container :: "string option"

fun connection_state_to_host_string :: "connection_state \<Rightarrow> string" where
  "connection_state_to_host_string Disconnected = ''disconnected''"
| "connection_state_to_host_string TestingSsh = ''testingSsh''"
| "connection_state_to_host_string (Preflight _) = ''preflight''"
| "connection_state_to_host_string (AwaitingAcknowledgement _ _) = ''awaitingAcknowledgement''"
| "connection_state_to_host_string Connecting = ''connecting''"
| "connection_state_to_host_string Provisioning = ''provisioning''"
| "connection_state_to_host_string Starting = ''starting''"
| "connection_state_to_host_string Ready = ''ready''"
| "connection_state_to_host_string Reconnecting = ''reconnecting''"
| "connection_state_to_host_string (ConnectionFailed _ _) = ''failed''"

text \<open>\<open>String::truncate\<close> panics inside a character: \<open>None\<close>.\<close>

definition redact_detail :: "string \<Rightarrow> string option" where
  "redact_detail raw =
     (let cleaned = join [CHR 0x0A] (filter (\<lambda>line. let t = trim line in
            \<not> (starts_with t ''ssh '' \<and> (contains t ''-o'' \<or> contains t ''BatchMode''))) (str_lines raw))
      in if 500 < length cleaned then map_option (\<lambda>p. p @ ellipsis) (str_prefix cleaned 500) else Some cleaned)"

text \<open>\<open>rsplit_once('@')\<close>: what follows the last at sign.\<close>

definition ssh_host :: "string \<Rightarrow> string" where
  "ssh_host d = rev (takeWhile ((\<noteq>) CHR ''@'') (rev d))"

definition profile_target_context :: "remote_profile \<Rightarrow> string option \<times> string option" where
  "profile_target_context p = (case exec_target p of
     Host \<Rightarrow> (None, None)
   | DockerContainer d \<Rightarrow> (Some (ssh_host (ssh_destination p)), Some (container_name d)))"

fun bridge_runs :: "connection_state \<Rightarrow> bool" where
  "bridge_runs TestingSsh = True"
| "bridge_runs Connecting = True"
| "bridge_runs Provisioning = True"
| "bridge_runs Starting = True"
| "bridge_runs Ready = True"
| "bridge_runs Reconnecting = True"
| "bridge_runs _ = False"

definition loopback_url :: "nat \<Rightarrow> string" where
  "loopback_url port = ''ws://127.0.0.1:'' @ show_int (int port)"

text \<open>\<open>None\<close> is the panic of \<open>redact_detail\<close>.\<close>

definition remote_snapshot ::
    "string \<Rightarrow> remote_profile \<Rightarrow> remote_connection \<Rightarrow> nat option \<Rightarrow> host_state option" where
  "remote_snapshot i p c port =
     (let st = conn_state c;
          failure = (case st of
              ConnectionFailed k d \<Rightarrow>
                map_option (\<lambda>r. (Some (failure_label k), Some (suggested_action k), Some r)) (redact_detail d)
            | _ \<Rightarrow> Some (None, None, None))
      in map_option (\<lambda>(l, a, d).
           \<lparr>host_id = i, host_kind = ''remote'', host_label = profile_label p, host_subtitle = ssh_destination p,
            state_name = connection_state_to_host_string st,
            ws_url = (if bridge_runs st then map_option loopback_url port else None),
            host_failure_label = l, host_failure_action = a, host_failure_detail = d,
            host_preflight_phase = fst (preflight_metadata st), host_pending_risks = snd (preflight_metadata st),
            redacted_ssh_host = fst (profile_target_context p), host_container = snd (profile_target_context p)\<rparr>) failure)"

definition local_host :: "desktop \<Rightarrow> host_state" where
  "local_host s =
     \<lparr>host_id = ''local'', host_kind = ''local'', host_label = [], host_subtitle = [],
      state_name = (if healthy s then ''ready'' else ''disconnected''),
      ws_url = Some (loopback_url (server_port s) @ ''/ws''), host_failure_label = None, host_failure_action = None,
      host_failure_detail = None, host_preflight_phase = None, host_pending_risks = None,
      redacted_ssh_host = None, host_container = None\<rparr>"

text \<open>The outer option is the panic, the inner one an unknown host.\<close>

definition host_state_of :: "desktop \<Rightarrow> string \<Rightarrow> host_state option option" where
  "host_state_of s i =
     (if i = ''local'' then Some (Some (local_host s))
      else case get_remote s i of
        None \<Rightarrow> Some None
      | Some c \<Rightarrow> (case profiles s of
          Inl _ \<Rightarrow> Some None
        | Inr ps \<Rightarrow> (case find (has_id i) ps of
            None \<Rightarrow> Some None
          | Some p \<Rightarrow> map_option Some (remote_snapshot i p c (get_remote_bridge_port s i)))))"

definition disconnected_host :: "remote_profile \<Rightarrow> host_state" where
  "disconnected_host p =
     \<lparr>host_id = profile_id p, host_kind = ''remote'', host_label = profile_label p, host_subtitle = ssh_destination p,
      state_name = ''disconnected'', ws_url = None, host_failure_label = None, host_failure_action = None,
      host_failure_detail = None, host_preflight_phase = None, host_pending_risks = None,
      redacted_ssh_host = fst (profile_target_context p), host_container = snd (profile_target_context p)\<rparr>"

definition listed_host :: "desktop \<Rightarrow> remote_profile \<Rightarrow> host_state option" where
  "listed_host s p = (case get_remote s (profile_id p) of
     None \<Rightarrow> Some (disconnected_host p)
   | Some c \<Rightarrow> remote_snapshot (profile_id p) p c (get_remote_bridge_port s (profile_id p)))"

definition list_hosts :: "desktop \<Rightarrow> host_state list option" where
  "list_hosts s = map_option ((#) (local_host s)) (those (map (listed_host s) (list_remote_profiles s)))"

section \<open>Commands\<close>

text \<open>A free port is the argument \<open>port\<close>, or the error of finding one. A command that panics gives \<open>Inr None\<close>.\<close>

definition ensure_remote_host ::
    "string + nat \<Rightarrow> string \<Rightarrow> desktop \<Rightarrow> (string + host_state option) \<times> desktop" where
  "ensure_remote_host port i s =
     (case profiles s of
        Inl e \<Rightarrow> (Inl e, s)
      | Inr ps \<Rightarrow> (case find (has_id i) ps of
          None \<Rightarrow> (Inl (''no remote profile with id '' @ i), s)
        | Some p \<Rightarrow> (case validate p of
            Inl e \<Rightarrow> (Inl (profile_message e), s)
          | Inr _ \<Rightarrow> (case get_remote s i of
              Some c \<Rightarrow> (Inr (remote_snapshot i p c (get_remote_bridge_port s i)), s)
            | None \<Rightarrow> (case port of
                Inl e \<Rightarrow> (Inl (''couldn't acquire a free loopback port for the bridge: '' @ e), s)
              | Inr n \<Rightarrow>
                  (let r = next_ref s; c = begin_connection p new_connection
                   in (Inr (remote_snapshot i p c (Some n)),
                       s\<lparr>sessions := (sessions s)(i \<mapsto> \<lparr>session_ref = r, bridge_port = n\<rparr>),
                         connections := (connections s)(r := c), next_ref := Suc r,
                         tasks := \<lparr>task_ref = r, task_profile = p, task_port = n\<rparr> # tasks s\<rparr>)))))))"

definition disconnect_host :: "string \<Rightarrow> desktop \<Rightarrow> (string + unit) \<times> desktop" where
  "disconnect_host i s = (Inr (), stop_remote i s)"

fun acknowledge :: "risk_kind \<Rightarrow> string \<Rightarrow> remote_profile \<Rightarrow> remote_profile" where
  "acknowledge RootExecution fp p = p\<lparr>acknowledged := (acknowledged p)\<lparr>root_fingerprint := Some fp\<rparr>\<rparr>"
| "acknowledge EphemeralData fp p = p\<lparr>acknowledged := (acknowledged p)\<lparr>ephemeral_fingerprint := Some fp\<rparr>\<rparr>"

definition pending_risk_with :: "string \<Rightarrow> string \<Rightarrow> pending_risk list \<Rightarrow> pending_risk option" where
  "pending_risk_with rid fp risks = find (\<lambda>r. risk_id r = rid \<and> risk_fingerprint r = fp) risks"

definition acknowledge_risk ::
    "string option \<Rightarrow> string \<Rightarrow> string \<Rightarrow> string \<Rightarrow> desktop \<Rightarrow> (string + unit) \<times> desktop" where
  "acknowledge_risk io_error i rid fp s =
     (case get_remote s i of
        None \<Rightarrow> (Inl (''no active connection for '' @ i), s)
      | Some c \<Rightarrow> (case conn_state c of
          AwaitingAcknowledgement _ risks \<Rightarrow> (case pending_risk_with rid fp risks of
              None \<Rightarrow> (Inl ''pending risk fingerprint no longer matches; retry preflight'', s)
            | Some risk \<Rightarrow> (case profiles s of
                Inl e \<Rightarrow> (Inl e, s)
              | Inr ps \<Rightarrow> (case find (has_id i) ps of
                  None \<Rightarrow> (Inl (''no remote profile with id '' @ i), s)
                | Some p \<Rightarrow> (case validate (acknowledge (risk_kind risk) fp p) of
                    Inl e \<Rightarrow> (Inl (profile_message e), s)
                  | Inr _ \<Rightarrow> (case save io_error (update_first (has_id i) (acknowledge (risk_kind risk) fp) ps) s of
                      (Inl e, s') \<Rightarrow> (Inl e, s')
                    | (Inr _, s') \<Rightarrow> (Inr (), stop_remote i s'))))))
        | _ \<Rightarrow> (Inl ''connection is not awaiting acknowledgement'', s)))"

definition cancel_connection :: "string \<Rightarrow> desktop \<Rightarrow> (string + unit) \<times> desktop" where
  "cancel_connection i s = disconnect_host i s"

definition resume_connection ::
    "string + nat \<Rightarrow> string \<Rightarrow> desktop \<Rightarrow> (string + host_state option) \<times> desktop" where
  "resume_connection port i s = ensure_remote_host port i s"

end
