(* ===== verification/Host_Sessions.thy ===== *)
theory Host_Sessions
  imports Remote_Hosts
begin

text \<open>
  What holds of the desktop's sessions under every sequence of commands: no task runs without its session,
  no host has two, and a command or a task of one host never shows in the state of another.
\<close>

section \<open>Runs of the desktop\<close>

text \<open>\<open>TaskState\<close> is a report of a task to the connection it shares with its session, by \<open>on_state\<close>.\<close>

datatype command =
    AddProfile "string option" remote_profile
  | UpdateProfile "string option" remote_profile
  | DeleteProfile "string option" string
  | EnsureHost "string + nat" string
  | DisconnectHost string
  | AcknowledgeRisk "string option" string string string
  | TaskState nat connection_state
  | Teardown

definition task_state :: "nat \<Rightarrow> connection_state \<Rightarrow> desktop \<Rightarrow> desktop" where
  "task_state r st s = s\<lparr>connections := (connections s)(r := on_state st (connections s r))\<rparr>"

fun apply_command :: "command \<Rightarrow> desktop \<Rightarrow> desktop" where
  "apply_command (AddProfile e p) s = snd (add_remote_profile e p s)"
| "apply_command (UpdateProfile e p) s = snd (update_remote_profile e p s)"
| "apply_command (DeleteProfile e i) s = snd (delete_remote_profile e i s)"
| "apply_command (EnsureHost n i) s = snd (ensure_remote_host n i s)"
| "apply_command (DisconnectHost i) s = snd (disconnect_host i s)"
| "apply_command (AcknowledgeRisk e i rid fp) s = snd (acknowledge_risk e i rid fp s)"
| "apply_command (TaskState r st) s = task_state r st s"
| "apply_command Teardown s = teardown s"

definition new_desktop :: "string + remote_profile list \<Rightarrow> nat \<Rightarrow> desktop" where
  "new_desktop ps n = \<lparr>profiles = ps, sessions = \<lambda>_. None, connections = \<lambda>_. new_connection, next_ref = 0,
     cancelled = {}, tasks = [], healthy = False, server_port = n\<rparr>"

definition live_tasks :: "desktop \<Rightarrow> string \<Rightarrow> task list" where
  "live_tasks s i = filter (\<lambda>t. task_ref t \<notin> cancelled s \<and> profile_id (task_profile t) = i) (tasks s)"

text \<open>The invariant: a host has the session of its one live task, or neither.\<close>

definition session_of :: "task \<Rightarrow> remote_session" where
  "session_of t = \<lparr>session_ref = task_ref t, bridge_port = task_port t\<rparr>"

definition well_formed :: "desktop \<Rightarrow> bool" where
  "well_formed s \<longleftrightarrow> (\<forall>t\<in>set (tasks s). task_ref t < next_ref s) \<and> distinct (map task_ref (tasks s)) \<and>
     (\<forall>c\<in>cancelled s. c < next_ref s) \<and>
     (\<forall>i. map session_of (live_tasks s i) = (case sessions s i of None \<Rightarrow> [] | Some r \<Rightarrow> [r]))"

lemma live_task: "t \<in> set (live_tasks s i) \<longleftrightarrow> t \<in> set (tasks s) \<and> task_ref t \<notin> cancelled s \<and> profile_id (task_profile t) = i"
  by (simp add: live_tasks_def)

lemma well_formed_live:
  "well_formed s \<Longrightarrow> map session_of (live_tasks s i) = (case sessions s i of None \<Rightarrow> [] | Some r \<Rightarrow> [r])"
  by (simp add: well_formed_def)

lemma well_formed_ref: "well_formed s \<Longrightarrow> t \<in> set (tasks s) \<Longrightarrow> task_ref t < next_ref s"
  by (simp add: well_formed_def)

lemma well_formed_task:
  "well_formed s \<Longrightarrow> t \<in> set (tasks s) \<Longrightarrow> u \<in> set (tasks s) \<Longrightarrow> task_ref t = task_ref u \<Longrightarrow> t = u"
  by (auto simp: well_formed_def distinct_map inj_on_def)

lemma well_formed_session:
  assumes "well_formed s" and "sessions s i = Some r"
  obtains t where "t \<in> set (tasks s)" and "live_tasks s i = [t]" and "r = session_of t"
    and "profile_id (task_profile t) = i" and "session_ref r \<notin> cancelled s" and "session_ref r < next_ref s"
proof -
  from well_formed_live [OF assms(1), of i] assms(2) obtain t where t: "live_tasks s i = [t]" "r = session_of t"
    by (auto simp: map_eq_Cons_conv)
  then have l: "t \<in> set (tasks s) \<and> task_ref t \<notin> cancelled s \<and> profile_id (task_profile t) = i"
    using live_task [of t s i] by simp
  from that [of t] t l well_formed_ref [OF assms(1), of t] show thesis by (simp add: session_of_def)
qed

lemma session_refs_distinct:
  assumes "well_formed s" and "sessions s i = Some r" and "sessions s j = Some q" and "session_ref r = session_ref q"
  shows "i = j"
proof -
  obtain t where t: "t \<in> set (tasks s)" "r = session_of t" "profile_id (task_profile t) = i"
    using assms(1,2) by (rule well_formed_session)
  obtain u where u: "u \<in> set (tasks s)" "q = session_of u" "profile_id (task_profile u) = j"
    using assms(1,3) by (rule well_formed_session)
  from assms(4) t u have "task_ref t = task_ref u" by (simp add: session_of_def)
  with well_formed_task [OF assms(1) t(1) u(1)] t u show ?thesis by simp
qed

text \<open>The invariant depends on these fields alone.\<close>

lemma well_formed_cong:
  assumes "tasks s' = tasks s" "next_ref s' = next_ref s" "cancelled s' = cancelled s" "sessions s' = sessions s"
  shows "well_formed s' = well_formed s"
  using assms by (simp add: well_formed_def live_tasks_def)

lemma save_keeps: "\<exists>ps. snd (save e qs s) = s\<lparr>profiles := ps\<rparr>"
proof (cases e)
  case (Some x)
  then show ?thesis by (auto simp: save_def intro: exI [of _ "profiles s"])
qed (auto simp: save_def)

lemma well_formed_profiles [simp]: "well_formed (s\<lparr>profiles := ps\<rparr>) = well_formed s"
  by (rule well_formed_cong) simp_all

lemma well_formed_save [simp]: "well_formed (snd (save e qs s)) = well_formed s"
  by (metis save_keeps well_formed_profiles)

lemma stop_remote_well_formed:
  assumes "well_formed s"
  shows "well_formed (stop_remote i s)"
proof (cases "sessions s i")
  case (Some r)
  with assms obtain t where t: "t \<in> set (tasks s)" "live_tasks s i = [t]" "r = session_of t"
      "profile_id (task_profile t) = i" "session_ref r \<notin> cancelled s" "session_ref r < next_ref s"
    by (rule well_formed_session)
  have stopped: "live_tasks (stop_remote i s) j = filter (\<lambda>u. task_ref u \<noteq> task_ref t) (live_tasks s j)" for j
    using Some t by (auto simp: live_tasks_def stop_remote_def stop_session_def session_of_def intro: filter_cong)
  have "filter (\<lambda>u. task_ref u \<noteq> task_ref t) (live_tasks s j) = (if j = i then [] else live_tasks s j)" for j
    using t by (auto simp: filter_id_conv live_task dest: well_formed_task [OF assms _ t(1)])
  with stopped assms Some t show ?thesis
    by (simp add: well_formed_def stop_remote_def stop_session_def)
qed (use assms in \<open>simp add: stop_remote_def\<close>)

lemma ensure_well_formed:
  assumes "well_formed s"
  shows "well_formed (snd (ensure_remote_host port i s))"
proof (cases "snd (ensure_remote_host port i s) = s")
  case False
  then obtain ps p n where p: "find (has_id i) ps = Some p" and none: "sessions s i = None"
    and s': "snd (ensure_remote_host port i s) = s\<lparr>sessions := (sessions s)(i \<mapsto> \<lparr>session_ref = next_ref s, bridge_port = n\<rparr>),
      connections := (connections s)(next_ref s := begin_connection p new_connection), next_ref := Suc (next_ref s),
      tasks := \<lparr>task_ref = next_ref s, task_profile = p, task_port = n\<rparr> # tasks s\<rparr>"
    by (auto simp: ensure_remote_host_def get_remote_def Let_def split: sum.splits option.splits)
  have fresh: "next_ref s \<notin> cancelled s" "next_ref s \<notin> task_ref ` set (tasks s)"
    using assms by (auto simp: well_formed_def)
  from p have "profile_id p = i" by (auto simp: find_Some_iff has_id_def)
  with s' fresh have "live_tasks (snd (ensure_remote_host port i s)) j = (if j = i
      then \<lparr>task_ref = next_ref s, task_profile = p, task_port = n\<rparr> # live_tasks s i else live_tasks s j)" for j
    by (simp add: live_tasks_def)
  moreover have "live_tasks s i = []" using well_formed_live [OF assms, of i] none by simp
  ultimately show ?thesis
    using assms s' fresh by (auto simp: well_formed_def session_of_def less_Suc_eq)
qed (use assms in simp)

lemma teardown_well_formed:
  assumes "well_formed s"
  shows "well_formed (teardown s)"
proof -
  have "task_ref t \<in> cancelled s \<union> session_ref ` ran (sessions s)" if "t \<in> set (tasks s)" for t
  proof (cases "task_ref t \<in> cancelled s")
    case False
    with that have "t \<in> set (live_tasks s (profile_id (task_profile t)))" by (simp add: live_tasks_def)
    then have "session_of t \<in> set (map session_of (live_tasks s (profile_id (task_profile t))))" by simp
    with well_formed_live [OF assms] have "sessions s (profile_id (task_profile t)) = Some (session_of t)"
      by (auto split: option.splits)
    then have "session_of t \<in> ran (sessions s)" by (rule ranI)
    then show ?thesis by (force simp: session_of_def)
  qed simp
  moreover have "session_ref r < next_ref s" if "r \<in> ran (sessions s)" for r
    using that assms by (auto simp: ran_def elim: well_formed_session)
  ultimately show ?thesis
    using assms by (auto simp: well_formed_def teardown_def live_tasks_def filter_empty_conv)
qed

lemma task_state_well_formed: "well_formed (task_state r st s) = well_formed s"
  by (rule well_formed_cong) (simp_all add: task_state_def)

lemma command_well_formed: "well_formed s \<Longrightarrow> well_formed (apply_command c s)"
proof (cases c)
  case (AddProfile e p)
  moreover assume "well_formed s"
  ultimately show ?thesis
    by (auto simp: add_remote_profile_def split: sum.splits prod.splits)
      (metis snd_conv well_formed_save)+
next
  case (AcknowledgeRisk e i rid fp)
  moreover assume "well_formed s"
  ultimately show ?thesis
    by (auto simp: acknowledge_risk_def split: sum.splits prod.splits option.splits connection_state.splits)
      (metis snd_conv stop_remote_well_formed well_formed_save)+
qed (auto simp: update_remote_profile_def delete_remote_profile_def disconnect_host_def Let_def stop_remote_well_formed
    ensure_well_formed teardown_well_formed task_state_well_formed split: sum.splits)


definition run_commands :: "command list \<Rightarrow> desktop \<Rightarrow> desktop" where
  "run_commands cs s = fold apply_command cs s"

lemma runs_well_formed: "well_formed (run_commands cs (new_desktop ps n))"
proof -
  have "well_formed (new_desktop ps n)" by (simp add: well_formed_def new_desktop_def live_tasks_def)
  then have "well_formed s \<Longrightarrow> well_formed (fold apply_command cs s)" for s
    by (induction cs arbitrary: s) (simp_all add: command_well_formed)
  then show ?thesis by (simp add: run_commands_def \<open>well_formed (new_desktop ps n)\<close>)
qed

text \<open>C25: No bridge runs without its session, and no host has two. After every sequence of commands, from
  the window or from the tasks, the tasks of a host that were not cancelled are at most one, and there is
  one exactly when the host has a session: the session then has the task's connection and the port that
  the task was given.\<close>

theorem one_live_task_per_host:
  "map session_of (live_tasks (run_commands cs (new_desktop ps n)) i) =
    (case sessions (run_commands cs (new_desktop ps n)) i of None \<Rightarrow> [] | Some r \<Rightarrow> [r])"
  by (rule well_formed_live [OF runs_well_formed])

section \<open>Hosts do not disturb each other\<close>

text \<open>Whether a command may show in the state of a host. The reports of a task show in the host whose
  session shares the task's connection.\<close>

fun touches :: "command \<Rightarrow> desktop \<Rightarrow> string \<Rightarrow> bool" where
  "touches (AddProfile _ p) s j \<longleftrightarrow> profile_id p = j"
| "touches (UpdateProfile _ p) s j \<longleftrightarrow> profile_id p = j"
| "touches (DeleteProfile _ i) s j \<longleftrightarrow> i = j"
| "touches (EnsureHost _ i) s j \<longleftrightarrow> i = j"
| "touches (DisconnectHost i) s j \<longleftrightarrow> i = j"
| "touches (AcknowledgeRisk _ i _ _) s j \<longleftrightarrow> i = j"
| "touches (TaskState r _) s j \<longleftrightarrow> map_option session_ref (sessions s j) = Some r"
| "touches Teardown s j \<longleftrightarrow> True"

definition known_profile :: "desktop \<Rightarrow> string \<Rightarrow> remote_profile option" where
  "known_profile s i = (case profiles s of Inl _ \<Rightarrow> None | Inr ps \<Rightarrow> find (has_id i) ps)"

text \<open>What the state of a host is made of.\<close>

definition view :: "desktop \<Rightarrow> string \<Rightarrow> (bool \<times> nat) \<times> (remote_connection option \<times> nat option) \<times> remote_profile option" where
  "view s i = ((healthy s, server_port s), (get_remote s i, get_remote_bridge_port s i), known_profile s i)"

lemma host_state_view:
  assumes "view s' i = view s i"
  shows "host_state_of s' i = host_state_of s i"
proof -
  have state: "host_state_of s i = (if i = ''local'' then Some (Some (local_host s)) else
      case get_remote s i of None \<Rightarrow> Some None
      | Some c \<Rightarrow> (case known_profile s i of None \<Rightarrow> Some None
        | Some p \<Rightarrow> map_option Some (remote_snapshot i p c (get_remote_bridge_port s i))))" for s
    by (auto simp: host_state_of_def known_profile_def split: option.split sum.split)
  from assms have "healthy s' = healthy s" "server_port s' = server_port s" "get_remote s' i = get_remote s i"
      "get_remote_bridge_port s' i = get_remote_bridge_port s i" "known_profile s' i = known_profile s i"
    by (simp_all add: view_def)
  then show ?thesis by (simp only: state local_host_def)
qed

lemma view_stop:
  assumes "well_formed s" and "i \<noteq> j"
  shows "view (stop_remote i s) j = view s j"
proof (cases "sessions s i")
  case (Some r)
  have "session_ref q \<noteq> session_ref r" if "sessions s j = Some q" for q
    using session_refs_distinct [OF assms(1) Some that] assms(2) by auto
  then show ?thesis
    using Some assms(2) by (cases "sessions s j") (simp_all add: view_def stop_remote_def stop_session_def get_remote_def
        get_remote_bridge_port_def known_profile_def)
qed (simp add: stop_remote_def)

lemma find_update_first: "(\<And>x. P x \<Longrightarrow> \<not> Q x \<and> \<not> Q (g x)) \<Longrightarrow> find Q (update_first P g xs) = find Q xs"
  by (induction xs) auto

lemma find_filter: "(\<And>x. Q x \<Longrightarrow> P x) \<Longrightarrow> find Q (filter P xs) = find Q xs"
  by (induction xs) auto

lemma view_save:
  assumes "profiles s = Inr ps" and "find (has_id j) qs = find (has_id j) ps"
  shows "view (snd (save e qs s)) j = view s j"
  using assms by (auto simp: save_def view_def get_remote_def get_remote_bridge_port_def known_profile_def split: option.split)

lemma stop_remote_profiles [simp]: "profiles (stop_remote i s) = profiles s"
  by (simp add: stop_remote_def stop_session_def split: option.split)

lemma acknowledge_id [simp]: "profile_id (acknowledge k fp p) = profile_id p"
  by (cases k) simp_all

lemma command_view:
  assumes w: "well_formed s" and t: "\<not> touches c s j"
  shows "view (apply_command c s) j = view s j"
proof (cases c)
  case (AddProfile e p)
  have "find (has_id j) (ps @ [p]) = find (has_id j) ps" for ps
    using t AddProfile by (induction ps) (auto simp: has_id_def)
  then have "view (snd (save e (ps @ [p]) s)) j = view s j" if "profiles s = Inr ps" for ps
    using view_save that by blast
  with AddProfile show ?thesis
    by (auto simp: add_remote_profile_def split: sum.split prod.split)
next
  case (UpdateProfile e p)
  have "find (has_id j) (update_first (has_id (profile_id p)) (\<lambda>_. p) ps) = find (has_id j) ps" for ps
    using t UpdateProfile by (intro find_update_first) (auto simp: has_id_def)
  with view_save UpdateProfile show ?thesis
    by (auto simp: update_remote_profile_def split: sum.split)
next
  case (DeleteProfile e i)
  then have ij: "i \<noteq> j" using t by simp
  have "find (has_id j) (filter (\<lambda>p. profile_id p \<noteq> i) ps) = find (has_id j) ps" for ps
    using ij by (intro find_filter) (auto simp: has_id_def)
  with view_save [of "stop_remote i s"] view_stop [OF w ij] DeleteProfile show ?thesis
    by (auto simp: delete_remote_profile_def Let_def split: sum.split)
next
  case (EnsureHost n i)
  have "session_ref r \<noteq> next_ref s" if "sessions s j = Some r" for r
    using well_formed_session [OF w that] by force
  then have "map_option (\<lambda>r. if session_ref r = next_ref s then d else connections s (session_ref r)) (sessions s j) =
      map_option (\<lambda>r. connections s (session_ref r)) (sessions s j)" for d
    by (cases "sessions s j") simp_all
  with t EnsureHost show ?thesis
    by (auto simp: ensure_remote_host_def Let_def view_def get_remote_def get_remote_bridge_port_def known_profile_def
        split: sum.split option.split)
next
  case (DisconnectHost i)
  with t show ?thesis by (simp add: disconnect_host_def view_stop [OF w])
next
  case (AcknowledgeRisk e i rid fp)
  then have ij: "i \<noteq> j" using t by simp
  have "find (has_id j) (update_first (has_id i) (acknowledge k fp) ps) = find (has_id j) ps" for k ps
    using ij by (intro find_update_first) (auto simp: has_id_def)
  with view_save have saved: "view (snd (save e (update_first (has_id i) (acknowledge k fp) ps) s)) j = view s j"
      if "profiles s = Inr ps" for k ps
    using that by blast
  have "view (stop_remote i (snd (save e qs s))) j = view (snd (save e qs s)) j" for qs
    using w ij by (simp add: view_stop)
  with saved AcknowledgeRisk show ?thesis
    by (auto simp: acknowledge_risk_def split: sum.split prod.split option.split connection_state.split) (metis snd_conv)+
next
  case (TaskState r st)
  with t show ?thesis
    by (cases "sessions s j") (simp_all add: task_state_def view_def get_remote_def get_remote_bridge_port_def known_profile_def)
qed (use t in simp)

text \<open>Hosts do not disturb each other. A command on one host, or a report of one host's task, leaves the
  state of every other host as it was, the local one included; the reports of a task that was cancelled
  show in no host at all, even when its host is connected again.\<close>

theorem hosts_are_isolated:
  fixes cs ps n
  defines "s \<equiv> run_commands cs (new_desktop ps n)"
  assumes "\<not> touches c s j"
  shows "host_state_of (apply_command c s) j = host_state_of s j"
  using assms(2) unfolding s_def by (intro host_state_view command_view runs_well_formed)

lemma cancelled_task_touches_nothing:
  assumes "r \<in> cancelled (run_commands cs (new_desktop ps n))"
  shows "\<not> touches (TaskState r st) (run_commands cs (new_desktop ps n)) j"
  using assms by (auto elim: well_formed_session [OF runs_well_formed])


section \<open>Acknowledging risks\<close>

lemma stop_forgets [simp]: "get_remote (stop_remote i s) i = None"
  by (simp add: get_remote_def stop_remote_def stop_session_def split: option.split)

lemma find_holds: "find P xs = Some x \<Longrightarrow> P x"
  by (induction xs) (auto split: if_splits)

lemma find_update_same:
  "find P xs = Some x \<Longrightarrow> P (g x) \<Longrightarrow> find P (update_first P g xs) = Some (g x)"
  by (induction xs) (auto split: if_splits)

lemma acknowledge_validate:
  assumes "validate p = Inr ()" and "valid_fingerprint fp"
  shows "validate (acknowledge k fp p) = Inr ()"
  using assms
  by (cases k) (auto simp: validate_def invalid_fingerprint_def List.map_filter_def split: if_splits sum.splits option.splits)

lemma pending_risk_cases:
  assumes "r \<in> set (pending_risks_of J p d cid uid gid f)"
  obtains "r = root_risk (root_digest J p d cid uid gid)" and "uid = 0"
  | "r = storage_risk (storage_digest J p d cid f)" and "is_ephemeral (classification f)"
  using assms by (auto simp: pending_risks_of_def Let_def split: if_splits)

lemma risk_kinds: "risk_kind (root_risk fp) = RootExecution" "risk_kind (storage_risk fp) = EphemeralData"
    "risk_fingerprint (root_risk fp) = fp" "risk_fingerprint (storage_risk fp) = fp" "root_risk fp \<noteq> storage_risk gp"
    "storage_risk gp \<noteq> root_risk fp" "risk_id (root_risk fp) \<noteq> risk_id (storage_risk gp)"
  by (simp_all add: root_risk_def storage_risk_def)

lemma acknowledge_digests [simp]:
  "root_digest J (p\<lparr>acknowledged := a\<rparr>) d cid uid gid = root_digest J p d cid uid gid"
  "storage_digest J (p\<lparr>acknowledged := a\<rparr>) d cid f = storage_digest J p d cid f"
  by (simp_all add: root_digest_def storage_digest_def)

lemma acknowledge_clears:
  assumes "r \<in> set (pending_risks_of J p d cid uid gid f)"
  shows "pending_risks_of J (acknowledge (risk_kind r) (risk_fingerprint r) p) d cid uid gid f =
    remove1 r (pending_risks_of J p d cid uid gid f)"
  using assms
proof (rule pending_risk_cases)
  assume "r = root_risk (root_digest J p d cid uid gid)" and "uid = 0"
  with assms show ?thesis
    by (auto simp: pending_risks_of_def Let_def risk_kinds split: if_splits)
next
  assume "r = storage_risk (storage_digest J p d cid f)" and "is_ephemeral (classification f)"
  with assms show ?thesis
    by (auto simp: pending_risks_of_def Let_def risk_kinds split: if_splits)
qed

lemma find_pending:
  assumes "r \<in> set (pending_risks_of J p d cid uid gid f)"
  shows "pending_risk_with (risk_id r) (risk_fingerprint r) (pending_risks_of J p d cid uid gid f) = Some r"
  using assms
  by (auto simp: pending_risks_of_def Let_def pending_risk_with_def risk_kinds split: if_splits)

text \<open>Every acknowledgement settles the risk that was shown, and no other. When the connection of a host
  awaits the risks that the preflight of its profile found, and the operator acknowledges one of them, the
  command succeeds, the session is stopped, and the next preflight of the stored profile, finding the
  same container, user and storage, asks for the other risks only.\<close>

theorem acknowledged_risk_settled:
  assumes "get_remote s i = Some c" and "known_profile s i = Some p" and "validate p = Inr ()"
    and "conn_state c = AwaitingAcknowledgement ph (pending_risks_of J p d cid uid gid f)"
    and "r \<in> set (pending_risks_of J p d cid uid gid f)" and "valid_fingerprint (risk_fingerprint r)"
  shows "case acknowledge_risk None i (risk_id r) (risk_fingerprint r) s of (res, s') \<Rightarrow>
    res = Inr () \<and> get_remote s' i = None \<and>
    (\<exists>p'. known_profile s' i = Some p' \<and> exec_target p' = exec_target p \<and> ssh_command_of p' = ssh_command_of p \<and>
       pending_risks_of J p' d cid uid gid f = remove1 r (pending_risks_of J p d cid uid gid f))"
proof -
  let ?fp = "risk_fingerprint r" and ?k = "risk_kind r"
  obtain ps where ps: "profiles s = Inr ps" "find (has_id i) ps = Some p"
    using assms(2) by (auto simp: known_profile_def split: sum.splits)
  then have "has_id i p" by (auto dest: find_holds)
  with ps(2) have "find (has_id i) (update_first (has_id i) (acknowledge ?k ?fp) ps) = Some (acknowledge ?k ?fp p)"
    by (intro find_update_same) (auto simp: has_id_def)
  moreover have "exec_target (acknowledge ?k ?fp p) = exec_target p" "ssh_command_of (acknowledge ?k ?fp p) = ssh_command_of p"
    by (cases ?k; simp add: ssh_command_of_def effective_root_def effective_server_def)+
  ultimately show ?thesis
    using assms ps find_pending [OF assms(5)] acknowledge_clears [OF assms(5)] acknowledge_validate [OF assms(3,6), of ?k]
    by (simp add: acknowledge_risk_def save_def known_profile_def)
qed

text \<open>An acknowledgement of anything that is not shown changes nothing.\<close>

lemma acknowledges_only_what_is_shown:
  assumes "get_remote s i = Some c" and "conn_state c = AwaitingAcknowledgement ph risks"
    and "\<not> list_ex (\<lambda>r. risk_id r = rid \<and> risk_fingerprint r = fp) risks"
  shows "acknowledge_risk e i rid fp s =
    (Inl ''pending risk fingerprint no longer matches; retry preflight'', s)"
proof -
  from assms(3) have "pending_risk_with rid fp risks = None"
    by (auto simp: pending_risk_with_def find_None_iff list_ex_iff)
  with assms(1,2) show ?thesis by (simp add: acknowledge_risk_def)
qed

section \<open>Snapshots\<close>

text \<open>The window gets a URL only while the bridge is up, and only of the loopback interface.\<close>

lemma snapshot_url:
  "remote_snapshot i p c (Some n) = Some h \<Longrightarrow> ws_url h = (if bridge_runs (conn_state c) then Some (loopback_url n) else None)"
  by (auto simp: remote_snapshot_def Let_def)

text \<open>\<open>redact_detail\<close> cuts at byte 500: inside a character it panics, and with it the command that asked for
  the state of the host.\<close>

lemma redact_detail_panics: "redact_detail (replicate 499 CHR ''x'' @ bytes [0xC3, 0xA9, 0x2E]) = None"
  by code_simp


section \<open>Concrete hosts\<close>

definition ex_json_hex :: docker_json where
  "ex_json_hex = \<lparr>parse_record = \<lambda>_. None, parse_inspects = \<lambda>_. None, digest = \<lambda>_. replicate 64 (CHR ''a'')\<rparr>"

definition ex_facts :: persistence_facts where
  "ex_facts = \<lparr>classification = PersistentVolume, facts_dest = [], facts_kind = [], facts_rw = [], backing_hash = []\<rparr>"

definition ex_root_profile :: remote_profile where
  "ex_root_profile = ex_docker_profile\<lparr>acknowledged := \<lparr>root_fingerprint = None, ephemeral_fingerprint = None\<rparr>\<rparr>"

abbreviation "ex_risks \<equiv> pending_risks_of ex_json_hex ex_root_profile ex_docker ''c1'' 0 0 ex_facts"

definition ex_desktop :: desktop where
  "ex_desktop = run_commands [EnsureHost (Inr 4000) (profile_id ex_root_profile),
     TaskState 0 (AwaitingAcknowledgement CheckingPersistence ex_risks)] (new_desktop (Inr [ex_root_profile]) 3000)"

lemma ex_awaits:
  "get_remote ex_desktop (profile_id ex_root_profile) = Some
     \<lparr>conn_state = AwaitingAcknowledgement CheckingPersistence ex_risks, conn_profile = Some ex_root_profile\<rparr> \<and>
   known_profile ex_desktop (profile_id ex_root_profile) = Some ex_root_profile"
proof -
  have "validate ex_root_profile = Inr ()" by code_simp
  then show ?thesis
    by (simp add: ex_desktop_def run_commands_def new_desktop_def ensure_remote_host_def Let_def has_id_def get_remote_def
        begin_connection_def new_connection_def task_state_def on_state_def known_profile_def)
qed

lemma acknowledged_risk_settled_witness:
  "case acknowledge_risk None (profile_id ex_root_profile) ''rootExecution'' (replicate 64 (CHR ''a'')) ex_desktop of
     (res, s') \<Rightarrow> res = Inr () \<and> get_remote s' (profile_id ex_root_profile) = None"
proof -
  let ?r = "root_risk (replicate 64 (CHR ''a''))"
  have "root_digest ex_json_hex ex_root_profile ex_docker ''c1'' 0 0 = replicate 64 (CHR ''a'')" by code_simp
  moreover have "root_fingerprint (acknowledged ex_root_profile) \<noteq> Some (replicate 64 (CHR ''a''))" by code_simp
  ultimately have "?r \<in> set ex_risks" by (simp add: pending_risks_of_def Let_def)
  moreover have "validate ex_root_profile = Inr ()" "valid_fingerprint (replicate 64 (CHR ''a''))" by code_simp+
  ultimately show ?thesis
    using acknowledged_risk_settled [of ex_desktop "profile_id ex_root_profile" _ ex_root_profile CheckingPersistence
        ex_json_hex ex_docker "''c1''" 0 0 ex_facts ?r] ex_awaits
    by (auto simp: risk_kinds root_risk_def split: prod.splits)
qed

lemma hosts_are_isolated_witness:
  "host_state_of (apply_command (DisconnectHost (profile_id ex_root_profile)) ex_desktop) ''b'' = host_state_of ex_desktop ''b''"
proof -
  have "profile_id ex_root_profile = ''a''" by code_simp
  then show ?thesis
    using hosts_are_isolated [where c = "DisconnectHost (profile_id ex_root_profile)" and j = "''b''"]
    unfolding ex_desktop_def by simp
qed

end
