(* ===== verification/Host_Tasks.thy ===== *)
theory Host_Tasks
  imports Host_Sessions
begin

text \<open>
  The task that connects a host, which \<open>ensure_remote_host_impl\<close> of \<^verbatim>\<open>desktop/src/remote_commands.rs\<close>
  spawns: the preflight of a container, the provisioning of the host and the start of its bridge. The world
  \<open>'w\<close> holds the remote host and the connection to which \<open>sink\<close> reports; \<open>bridge\<close> runs a bridge for an
  executor, the path of the server and the environment of its proxies.
\<close>

section \<open>The task\<close>

definition apply_outcome_to_command :: "ssh_command \<Rightarrow> reconcile_outcome \<Rightarrow> ssh_command" where
  "apply_outcome_to_command c outcome =
     (let resolved = (\<lambda>polytoken server. c\<lparr>server_path := server, extra_env := extra_env c @
            (case polytoken of None \<Rightarrow> [] | Some path \<Rightarrow> [(''PANTOKEN_POLYTOKEN_BIN'', path)])\<rparr>)
      in case outcome of
        ReadyOutcome _ _ polytoken server \<Rightarrow> resolved polytoken server
      | InstalledOutcome _ _ polytoken server \<Rightarrow> resolved polytoken server
      | _ \<Rightarrow> c)"

definition choose_executor ::
    "docker_json \<Rightarrow> 'w transport \<Rightarrow> (connection_state \<Rightarrow> 'w \<Rightarrow> 'w) \<Rightarrow> remote_profile \<Rightarrow> 'w \<Rightarrow> executor option \<times> 'w" where
  "choose_executor J tr sink p w =
     (case exec_target p of
        Host \<Rightarrow> (Some (HostExecutor (ssh_command_of p)), w)
      | DockerContainer _ \<Rightarrow> (case preflight_docker J tr (\<lambda>ph. sink (Preflight ph)) p w of
          (Inl e, w') \<Rightarrow> (None, sink (ConnectionFailed ProvisioningFailed e) w')
        | (Inr (PreflightReady ex), w') \<Rightarrow> (Some ex, w')
        | (Inr (PreflightAwaiting _ ph risks), w') \<Rightarrow> (None, sink (AwaitingAcknowledgement ph risks) w')))"

fun is_provisioned :: "reconcile_outcome \<Rightarrow> bool" where
  "is_provisioned (ReadyOutcome _ _ _ _) = True"
| "is_provisioned (InstalledOutcome _ _ _ _) = True"
| "is_provisioned _ = False"

definition connect_task ::
    "docker_json \<Rightarrow> 'w provision_env \<Rightarrow> 'w transport \<Rightarrow> string \<Rightarrow> release_manifest
      \<Rightarrow> (executor \<Rightarrow> string \<Rightarrow> (string \<times> string) list \<Rightarrow> 'w \<Rightarrow> 'w)
      \<Rightarrow> (connection_state \<Rightarrow> 'w \<Rightarrow> 'w) \<Rightarrow> remote_profile \<Rightarrow> 'w \<Rightarrow> 'w" where
  "connect_task J E tr script m bridge sink p w =
     (case choose_executor J tr sink p w of
        (None, w1) \<Rightarrow> w1
      | (Some ex, w1) \<Rightarrow>
          (let (outcome, w2) = reconcile E tr script sink ex p m (sink Connecting w1) in
           if is_provisioned outcome then
             (let c = apply_outcome_to_command (ssh_command_of p) outcome
              in bridge ex (server_path c) (extra_env c) (sink Starting w2))
           else w2))"

section \<open>How a connection ends\<close>

text \<open>The executors on which a bridge may run: the host of the profile itself, or the container of the
  profile that is left without pending risks.\<close>

definition cleared :: "docker_json \<Rightarrow> remote_profile \<Rightarrow> executor \<Rightarrow> bool" where
  "cleared J p ex \<longleftrightarrow> (case exec_target p of
     Host \<Rightarrow> ex = HostExecutor (ssh_command_of p)
   | DockerContainer d \<Rightarrow> (\<exists>i ids f. ex = DockerExecutor (ssh_command_of p) (proxy_target d i) \<and>
       is_running (inspect_state i) \<and> persistence_facts_of (digest J) (container_root d) (inspect_mounts i) = Inr f \<and>
       pending_risks_of J p d (inspect_id i) (fst ids) (snd ids) f = []))"

lemma preflight_ready_cleared:
  assumes "preflight_docker J tr on_phase p w = (Inr (PreflightReady ex), w')"
  shows "cleared J p ex"
  using assms
proof (rule preflight_steps)
  fix d r i ids f w1 w2 w3 w4 w5 w6
  assume d: "exec_target p = DockerContainer d"
    and i: "inspect_container J tr (ssh_command_of p) r w3 = (Inr i, w4)"
    and f: "persistence_facts_of (digest J) (container_root d) (inspect_mounts i) = Inr f"
    and out: "PreflightReady ex = assess J p d i ids f"
  from out have "ex = DockerExecutor (ssh_command_of p) (proxy_target d i)"
    and "pending_risks_of J p d (inspect_id i) (fst ids) (snd ids) f = []"
    by (auto simp: assess_def Let_def split: if_splits)
  moreover have "is_running (inspect_state i)"
    using inspect_container_alive [OF i] by (simp add: container_alive_def)
  ultimately show ?thesis
    unfolding cleared_def d execution_target.case
    by (intro exI [of _ i] exI [of _ ids] exI [of _ f]) (simp add: f)
qed

lemma choose_executor_cases:
  obtains ex w1 where "choose_executor J tr sink p w = (Some ex, w1)" and "cleared J p ex"
  | ph risks w1 where "choose_executor J tr sink p w = (None, sink (AwaitingAcknowledgement ph risks) w1)"
      and "exec_target p \<noteq> Host"
  | e w1 where "choose_executor J tr sink p w = (None, sink (ConnectionFailed ProvisioningFailed e) w1)"
proof (cases "exec_target p")
  case Host
  then show thesis by (intro that(1)) (simp_all add: choose_executor_def cleared_def)
next
  case (DockerContainer d)
  obtain r w1 where r: "preflight_docker J tr (\<lambda>ph. sink (Preflight ph)) p w = (r, w1)" by fastforce
  show thesis
  proof (cases r)
    case (Inl e)
    with DockerContainer r show thesis by (intro that(3)) (simp add: choose_executor_def)
  next
    case (Inr out)
    show thesis
    proof (cases out)
      case (PreflightReady ex)
      with DockerContainer r Inr preflight_ready_cleared show thesis
        by (intro that(1)) (auto simp: choose_executor_def)
    next
      case (PreflightAwaiting ex ph risks)
      with DockerContainer r Inr show thesis by (intro that(2)) (simp_all add: choose_executor_def)
    qed
  qed
qed

lemma provisioned_server:
  assumes "reconcile E tr script sink ex p m w = (outcome, w')" and "is_provisioned outcome"
  obtains t where "release_artifact (effective_root p) (release_version m) t =
    Some (server_path (apply_outcome_to_command c outcome))"
  using reconcile_ends [of E tr sink ex p m script w] assms that
  by (cases outcome) (auto simp: apply_outcome_to_command_def elim!: server_path)

text \<open>The three ends of a connection.\<close>

definition asks :: "(connection_state \<Rightarrow> 'w \<Rightarrow> 'w) \<Rightarrow> 'w \<Rightarrow> bool" where
  "asks sink w \<longleftrightarrow> (\<exists>ph risks w1. w = sink (AwaitingAcknowledgement ph risks) w1)"

definition gave_up :: "(connection_state \<Rightarrow> 'w \<Rightarrow> 'w) \<Rightarrow> 'w \<Rightarrow> bool" where
  "gave_up sink w \<longleftrightarrow> (\<exists>e. reported sink w e)"

definition bridges where
  "bridges J sink bridge p m w \<longleftrightarrow> (\<exists>ex server env w1 t. w = bridge ex server env (sink Starting w1) \<and> cleared J p ex \<and>
     release_artifact (effective_root p) (release_version m) t = Some server)"

lemma asks_sink: "asks sink (sink (AwaitingAcknowledgement ph risks) w)"
  by (auto simp: asks_def)

lemma gave_up_sink: "gave_up sink (sink (ConnectionFailed ProvisioningFailed e) w)"
  by (auto simp: gave_up_def reported_def)

lemma not_provisioned_reported:
  assumes "reconcile E tr script sink ex p m w = (outcome, w')" and "\<not> is_provisioned outcome"
  shows "gave_up sink w'"
  using reconcile_ends [of E tr sink ex p m script w] assms
  by (cases outcome) (auto simp: gave_up_def)

text \<open>A connection ends in one of three ways, whatever the remote host answers. It asks the operator to
  acknowledge risks, which only a container does; or the last thing it reports is a provisioning that
  failed; or, right after reporting that the runtime starts, it runs the bridge, on the profile's own host
  or on the profile's running container with every risk acknowledged, and with the server of the
  manifest's version.\<close>

theorem connection_ends:
  fixes J E tr script m bridge sink p w
  defines "w' \<equiv> connect_task J E tr script m bridge sink p w"
  shows "(asks sink w' \<and> exec_target p \<noteq> Host) \<or> gave_up sink w' \<or> bridges J sink bridge p m w'"
proof (rule choose_executor_cases [of J tr sink p w])
  fix ex w1
  assume ex: "choose_executor J tr sink p w = (Some ex, w1)" "cleared J p ex"
  obtain outcome w2 where r: "reconcile E tr script sink ex p m (sink Connecting w1) = (outcome, w2)" by fastforce
  show ?thesis
  proof (cases "is_provisioned outcome")
    case True
    with r obtain t where "release_artifact (effective_root p) (release_version m) t =
        Some (server_path (apply_outcome_to_command (ssh_command_of p) outcome))"
      by (rule provisioned_server)
    with ex r True have "bridges J sink bridge p m w'"
      unfolding bridges_def w'_def connect_task_def Let_def by fastforce
    then show ?thesis by simp
  next
    case False
    with ex r not_provisioned_reported [OF r] show ?thesis by (simp add: w'_def connect_task_def)
  qed
qed (simp_all add: w'_def connect_task_def asks_sink gave_up_sink)

text \<open>A container with the default root never comes up. As long as the profile does not override the
  remote root with an absolute path, a connection to its container, whatever the remote host answers,
  asks for an acknowledgement, reports a failed provisioning, or runs a bridge that refuses, as unsafe,
  every command that could start the server.\<close>

theorem unrooted_container_never_starts:
  fixes J E tr script m bridge sink p w
  defines "w' \<equiv> connect_task J E tr script m bridge sink p w"
  assumes "exec_target p \<noteq> Host" and "\<not> starts_with (effective_root p) ''/''" and "parse_semver (release_version m)"
  shows "asks sink w' \<or> gave_up sink w' \<or> (\<exists>ex server env w1. w' = bridge ex server env (sink Starting w1) \<and>
    (\<forall>env. proxy_command ex server env = Inl UnsafePath))"
proof (rule choose_executor_cases [of J tr sink p w])
  fix ex w1
  assume ex: "choose_executor J tr sink p w = (Some ex, w1)" "cleared J p ex"
  then obtain c t where docker: "ex = DockerExecutor c t"
    using assms(2) by (auto simp: cleared_def split: execution_target.splits)
  obtain outcome w2 where r: "reconcile E tr script sink ex p m (sink Connecting w1) = (outcome, w2)" by fastforce
  show ?thesis
  proof (cases "is_provisioned outcome")
    case True
    have "proxy_command ex (server_path (apply_outcome_to_command (ssh_command_of p) outcome)) env = Inl UnsafePath" for env
      using docker_default_root_fails [where c = c and t = t and E = E and tr = tr and script = script and sink = sink
          and w = "sink Connecting w1" and env = env, OF assms(3,4)] r docker True
      by (cases outcome) (auto simp: apply_outcome_to_command_def simp del: proxy_command.simps)
    with ex r True show ?thesis unfolding w'_def connect_task_def Let_def by fastforce
  next
    case False
    with ex r not_provisioned_reported [OF r] show ?thesis by (simp add: w'_def connect_task_def)
  qed
qed (simp_all add: w'_def connect_task_def asks_sink gave_up_sink)

section \<open>A concrete connection\<close>

text \<open>The world is the list of the states reported; no download succeeds.\<close>

definition ex_log_env :: "connection_state list provision_env" where
  "ex_log_env = \<lparr>http_fetch = (\<lambda>_. io_fail ''offline''), sha256_hex = id, parse_probe = (\<lambda>_. Inr ex_probe),
     print_provenance = (\<lambda>_. ''{}''), now_secs = ''0'', utf8_lossy = id, debug_str = id\<rparr>"

definition ex_log_transport :: "connection_state list transport" where
  "ex_log_transport = \<lparr>run_command = (\<lambda>c cmd. io_return \<lparr>stdout = ''0|0|/root'', stderr = [], exit_code = Some 0\<rparr>),
     run_command_with_stdin = (\<lambda>c cmd data. io_return ())\<rparr>"

lemma unrooted_container_never_starts_witness:
  "let sink = (\<lambda>st w. w @ [st]);
       w' = connect_task ex_json ex_log_env ex_log_transport [] ex_manifest (\<lambda>ex server env w. w) sink ex_docker_profile []
   in asks sink w' \<or> gave_up sink w' \<or> (\<exists>ex server env w1. w' = sink Starting w1 \<and>
     (\<forall>env. proxy_command ex server env = Inl UnsafePath))"
proof -
  have "exec_target ex_docker_profile \<noteq> Host" by (simp add: ex_docker_profile_def)
  moreover have "\<not> starts_with (effective_root ex_docker_profile) ''/''"
    by (simp add: ex_docker_profile_def effective_root_def non_empty_or_def starts_with_def)
  moreover have "parse_semver (release_version ex_manifest)" by (simp add: ex_manifest_def version_eval)
  ultimately show ?thesis
    using unrooted_container_never_starts [where p = ex_docker_profile and m = ex_manifest and J = ex_json
        and E = ex_log_env and tr = ex_log_transport and script = "[]" and bridge = "\<lambda>ex server env w. w"
        and sink = "\<lambda>st w. w @ [st]" and w = "[]"]
    by (simp add: Let_def del: proxy_command.simps)
qed

end
