(* ===== verification/Session_Registry.thy ===== *)
theory Session_Registry
  imports Complex_Main Session_Types Text_Clip
begin

text \<open>
  The sessions on disk, \<^verbatim>\<open>polytoken/sessions_registry.rs\<close>, the merge of the list of sessions,
  \<^verbatim>\<open>shared/session_list.rs\<close>, and the archive index, \<^verbatim>\<open>archive_store.rs\<close>. The disk is a map from paths to
  texts and a listing of the directory of sessions; parsing and printing JSON is the record \<open>session_serde\<close>.
\<close>

section \<open>The file of a session\<close>

datatype parent_session_ref = StandaloneParent | LocalParent "string option"

record session_json =
  json_session_id :: string
  project_path :: string
  json_created_at :: string
  last_activity_at :: string
  last_user_message_preview :: "string option"
  initial_model_name :: "string option"
  overridden_title :: "string option"
  inferred_title :: "string option"
  parent_session_id :: "parent_session_ref option"

text \<open>\<open>insert_title\<close> is the text of the object with the key \<open>overridden_title\<close> set, or the error.\<close>

record session_serde =
  parse_session :: "string \<Rightarrow> session_json option"
  insert_title :: "string \<Rightarrow> string \<Rightarrow> string + string"

type_synonym files = "string \<rightharpoonup> string"

definition session_file :: "string \<Rightarrow> string" where
  "session_file dir = path_join dir ''session.json''"

definition read_session_json :: "session_serde \<Rightarrow> files \<Rightarrow> string \<Rightarrow> session_json option" where
  "read_session_json J fs dir = Option.bind (fs (session_file dir)) (parse_session J)"

text \<open>The result is whether the title was written; its caller only logs the error.\<close>

definition write_overridden_title ::
    "session_serde \<Rightarrow> bool \<Rightarrow> string \<Rightarrow> string \<Rightarrow> files \<Rightarrow> bool \<times> files" where
  "write_overridden_title J writable path ttl fs =
     (case fs path of
        None \<Rightarrow> (False, fs)
      | Some raw \<Rightarrow> (case insert_title J raw ttl of
          Inl _ \<Rightarrow> (False, fs)
        | Inr out \<Rightarrow> if writable then (True, fs(path \<mapsto> out)) else (False, fs)))"

section \<open>The list of sessions\<close>

text \<open>An entry of the directory: its name, whether it is a directory, and its time of modification when it can
  be read and lies after the epoch. The sort is stable; unknown times come last.\<close>

record dir_entry =
  entry_name :: string
  entry_is_dir :: bool
  entry_mtime :: "rat option"

definition newest_first :: "dir_entry list \<Rightarrow> dir_entry list" where
  "newest_first es = sort_key (\<lambda>e. - the (entry_mtime e)) (filter (\<lambda>e. entry_mtime e \<noteq> None) es)
     @ filter (\<lambda>e. entry_mtime e = None) es"

text \<open>\<open>None\<close> is a directory that cannot be read.\<close>

definition list_session_ids :: "dir_entry list option \<Rightarrow> string list" where
  "list_session_ids listing = (case listing of
     None \<Rightarrow> []
   | Some es \<Rightarrow> map entry_name (newest_first (filter entry_is_dir es)))"

definition non_empty :: "string \<Rightarrow> string \<Rightarrow> string" where
  "non_empty s d = (if s = [] then d else s)"

definition epoch :: string where "epoch = ''1970-01-01T00:00:00.000Z''"

definition cwd_of :: "string \<Rightarrow> session_json \<Rightarrow> string" where
  "cwd_of dir meta = non_empty (project_path meta) dir"

definition cold_session_entry_from_meta ::
    "string \<Rightarrow> string \<Rightarrow> session_json \<Rightarrow> bool \<Rightarrow> worktree_info option \<Rightarrow> session_list_entry" where
  "cold_session_entry_from_meta dir sid meta archived worktree =
     (let created = non_empty (json_created_at meta) epoch;
          updated = non_empty (last_activity_at meta) created;
          preview = unwrap_or (last_user_message_preview meta) []
      in \<lparr>le_session_id = sid, le_path = session_file dir, le_cwd = cwd_of dir meta,
          le_display_name = (case overridden_title meta of Some t \<Rightarrow> Some t | None \<Rightarrow> inferred_title meta),
          le_preview = preview, le_user_message_count = 0, le_updated_at = updated, le_created_at = created,
          le_last_user_message_at = (if preview \<noteq> [] then updated else created),
          le_parent_session_path = (case parent_session_id meta of
              Some (LocalParent (Some s)) \<Rightarrow> if s \<noteq> [] then Some s else None
            | _ \<Rightarrow> None),
          le_usage = None, le_archived = archived, le_worktree = worktree\<rparr>)"

definition list_cold_sessions where
  "list_cold_sessions J fs sessions_dir listing archived_for worktree_for =
     List.map_filter (\<lambda>sid.
         (let dir = path_join sessions_dir sid
          in map_option (\<lambda>meta. cold_session_entry_from_meta dir sid meta (archived_for (session_file dir))
               (worktree_for (cwd_of dir meta))) (read_session_json J fs dir)))
       (list_session_ids listing)"

text \<open>Where both lists have a session, the entry on disk wins, but for the name.\<close>

definition overlay_name :: "session_list_entry list \<Rightarrow> session_list_entry \<Rightarrow> session_list_entry" where
  "overlay_name warm e = (case find (\<lambda>w. le_session_id w = le_session_id e) (rev warm) of
     Some w \<Rightarrow> (if le_display_name w \<noteq> None then e\<lparr>le_display_name := le_display_name w\<rparr> else e)
   | None \<Rightarrow> e)"

definition merge_session_lists ::
    "session_list_entry list \<Rightarrow> session_list_entry list \<Rightarrow> session_list_entry list" where
  "merge_session_lists on_disk warm =
     filter (\<lambda>w. le_session_id w \<notin> le_session_id ` set on_disk) warm @ map (overlay_name warm) on_disk"

section \<open>The archive\<close>

text \<open>The index in memory and the content of its file; a write that fails is logged only. The order in which
  the hash set is written is the argument \<open>order\<close>.\<close>

record archive_store =
  archived_paths :: "string set"
  archive_file :: "string list option"

definition archive_load :: "string list option \<Rightarrow> archive_store" where
  "archive_load file = \<lparr>archived_paths = (case file of None \<Rightarrow> {} | Some ps \<Rightarrow> set ps), archive_file = file\<rparr>"

definition archive_persist :: "bool \<Rightarrow> (string set \<Rightarrow> string list) \<Rightarrow> archive_store \<Rightarrow> archive_store" where
  "archive_persist writable order a =
     (if writable then a\<lparr>archive_file := Some (order (archived_paths a))\<rparr> else a)"

definition archive_set ::
    "bool \<Rightarrow> (string set \<Rightarrow> string list) \<Rightarrow> string \<Rightarrow> bool \<Rightarrow> archive_store \<Rightarrow> archive_store" where
  "archive_set writable order path flag a =
     (if (path \<in> archived_paths a) = flag then a
      else archive_persist writable order (a\<lparr>archived_paths :=
        (if flag then insert path (archived_paths a) else archived_paths a - {path})\<rparr>))"

section \<open>What the list shows\<close>

lemma newest_first_set [simp]: "set (newest_first es) = set es"
  by (auto simp: newest_first_def)

lemma newest_first_sorted:
  "i < j \<Longrightarrow> j < length (newest_first es) \<Longrightarrow> entry_mtime (newest_first es ! j) = Some t \<Longrightarrow>
     \<exists>u. entry_mtime (newest_first es ! i) = Some u \<and> t \<le> u"
proof -
  let ?known = "sort_key (\<lambda>e. - the (entry_mtime e)) (filter (\<lambda>e. entry_mtime e \<noteq> None) es)"
  assume ij: "i < j" "j < length (newest_first es)" and t: "entry_mtime (newest_first es ! j) = Some t"
  have j: "j < length ?known"
  proof (rule ccontr)
    assume "\<not> j < length ?known"
    with ij have "newest_first es ! j = filter (\<lambda>e. entry_mtime e = None) es ! (j - length ?known)"
      and "j - length ?known < length (filter (\<lambda>e. entry_mtime e = None) es)"
      by (auto simp: newest_first_def nth_append)
    then have "newest_first es ! j \<in> set (filter (\<lambda>e. entry_mtime e = None) es)" by (metis nth_mem)
    with t show False by simp
  qed
  with ij have "?known ! i \<in> set ?known" by (intro nth_mem) simp
  then obtain u where u: "entry_mtime (?known ! i) = Some u" by auto
  have "sorted (map (\<lambda>e. - the (entry_mtime e)) ?known)" by simp
  from sorted_nth_mono [OF this, of i j] ij j t u show ?thesis
    by (simp add: newest_first_def nth_append)
qed

lemma overlay_id [simp]: "le_session_id (overlay_name warm e) = le_session_id e"
  by (simp add: overlay_name_def split: option.split)

lemma merged_ids:
  "map le_session_id (merge_session_lists on_disk warm) =
     filter (\<lambda>i. i \<notin> le_session_id ` set on_disk) (map le_session_id warm) @ map le_session_id on_disk"
  by (simp add: merge_session_lists_def filter_map comp_def)

lemma merged_distinct:
  "distinct (map le_session_id on_disk) \<Longrightarrow> distinct (map le_session_id warm) \<Longrightarrow>
     distinct (map le_session_id (merge_session_lists on_disk warm))"
  by (auto simp: merged_ids intro: distinct_filter)

section \<open>The archive survives a restart\<close>

definition archive_wf :: "archive_store \<Rightarrow> bool" where
  "archive_wf a \<longleftrightarrow> archived_paths (archive_load (archive_file a)) = archived_paths a"

lemma archive_set_wf:
  assumes "archive_wf a" and "set (order (archived_paths (archive_set True order path flag a))) =
    archived_paths (archive_set True order path flag a)"
  shows "archive_wf (archive_set True order path flag a)"
  using assms by (auto simp: archive_wf_def archive_load_def archive_set_def archive_persist_def)

lemma archive_set_has: "path' \<in> archived_paths (archive_set writable order path flag a) \<longleftrightarrow>
    (if path' = path then flag else path' \<in> archived_paths a)"
  by (auto simp: archive_set_def archive_persist_def)

end
