(* ===== verification/Worktrees.thy ===== *)
theory Worktrees
  imports Session_Registry Versions
begin

text \<open>
  Worktrees of sessions, \<^verbatim>\<open>shared/worktree.rs\<close>, and the index of those that were created,
  \<^verbatim>\<open>worktree_store.rs\<close>. The version control and the directories are the world \<open>'w\<close> of the record
  \<open>shell\<close>; the lower case of a string that is not ASCII is its \<open>to_lowercase\<close>.
\<close>

section \<open>Plans\<close>

datatype vcs = Jj | Git

record worktree_meta =
  meta_path :: string
  meta_base :: string
  meta_vcs :: vcs
  meta_name :: string

record worktree_plan =
  plan_path :: string
  plan_command :: string
  plan_args :: "string list"
  plan_name :: string
  plan_base :: string

record removal_plan =
  removal_command :: string
  removal_args :: "string list"
  remove_dir :: bool

record 'w shell =
  run_in :: "string option \<Rightarrow> string \<Rightarrow> string list \<Rightarrow> 'w \<Rightarrow> (string + command_output) \<times> 'w"
  status_text :: "int option \<Rightarrow> string"
  path_exists :: "string \<Rightarrow> 'w \<Rightarrow> bool"
  create_dir_all :: "string \<Rightarrow> 'w \<Rightarrow> string option \<times> 'w"
  remove_dir_all :: "string \<Rightarrow> 'w \<Rightarrow> string option \<times> 'w"
  current_dir :: string
  to_lowercase :: "string \<Rightarrow> string"

text \<open>The components of a path other than the root and dots; two dots drop the last one.\<close>

definition lexical_step :: "string \<Rightarrow> string list \<Rightarrow> string list" where
  "lexical_step c ps = (if c = [] \<or> c = ''.'' then ps else if c = ''..'' then butlast ps else ps @ [c])"

definition resolve_lexical :: "string \<Rightarrow> string \<Rightarrow> string" where
  "resolve_lexical cwd path =
     (let start = (if starts_with path ''/'' then [] else fold lexical_step (split_on CHR ''/'' cwd) [])
      in concat (map ((#) CHR ''/'') (fold lexical_step (split_on CHR ''/'' path) start)))"

definition slugify_repo_path :: "(string \<Rightarrow> string) \<Rightarrow> string \<Rightarrow> string" where
  "slugify_repo_path lower path = lower (join ''-'' (filter (\<lambda>s. s \<noteq> []) (split_on CHR ''/'' path)))"

definition detect_vcs :: "'w shell \<Rightarrow> string \<Rightarrow> 'w \<Rightarrow> vcs option" where
  "detect_vcs sh repo w =
     (if path_exists sh (path_join repo ''.jj'') w then Some Jj
      else if path_exists sh (path_join repo ''.git'') w then Some Git else None)"

definition list_of_option :: "'a option \<Rightarrow> 'a list" where
  "list_of_option x = (case x of None \<Rightarrow> [] | Some y \<Rightarrow> [y])"

definition worktree_args :: "vcs \<Rightarrow> string \<Rightarrow> string \<Rightarrow> string option \<Rightarrow> string \<Rightarrow> string list" where
  "worktree_args v base name branch path = (case v of
     Jj \<Rightarrow> [''-R'', base, ''workspace'', ''add'', ''--name'', name]
       @ (case branch of None \<Rightarrow> [] | Some b \<Rightarrow> [''-r'', b]) @ [path]
   | Git \<Rightarrow> [''-C'', base, ''worktree'', ''add'', ''--detach'', path] @ list_of_option branch)"

definition plan_worktree :: "'w shell \<Rightarrow> string \<Rightarrow> vcs \<Rightarrow> string \<Rightarrow> string option \<Rightarrow> string \<Rightarrow> worktree_plan" where
  "plan_worktree sh repo v ident branch wroot =
     (let base = resolve_lexical (current_dir sh) repo;
          name = ''pantoken-'' @ ident;
          path = path_join (path_join wroot (slugify_repo_path (to_lowercase sh) base)) name
      in \<lparr>plan_path = path, plan_command = (case v of Jj \<Rightarrow> ''jj'' | Git \<Rightarrow> ''git''),
          plan_args = worktree_args v base name branch path, plan_name = name, plan_base = base\<rparr>)"

definition plan_worktree_removal :: "worktree_meta \<Rightarrow> bool \<Rightarrow> removal_plan" where
  "plan_worktree_removal m force = (case meta_vcs m of
     Jj \<Rightarrow> \<lparr>removal_command = ''jj'',
       removal_args = [''-R'', meta_base m, ''workspace'', ''forget'', meta_name m], remove_dir = True\<rparr>
   | Git \<Rightarrow> \<lparr>removal_command = ''git'', removal_args = [''-C'', meta_base m, ''worktree'', ''remove'']
       @ (if force then [''--force''] else []) @ [meta_path m], remove_dir = False\<rparr>)"

text \<open>The names drawn are the arguments \<open>names\<close>, at most ten, and \<open>fallback\<close>, a name with the time.\<close>

fun plan_fresh_worktree ::
    "'w shell \<Rightarrow> string \<Rightarrow> vcs \<Rightarrow> string option \<Rightarrow> string \<Rightarrow> string list \<Rightarrow> string \<Rightarrow> 'w \<Rightarrow> worktree_plan" where
  "plan_fresh_worktree sh repo v branch wroot [] fallback w = plan_worktree sh repo v fallback branch wroot"
| "plan_fresh_worktree sh repo v branch wroot (n # names) fallback w =
     (let plan = plan_worktree sh repo v n branch wroot
      in if \<not> path_exists sh (plan_path plan) w then plan
         else plan_fresh_worktree sh repo v branch wroot names fallback w)"

section \<open>Running them\<close>

definition failure_text :: "'w shell \<Rightarrow> string \<Rightarrow> string list \<Rightarrow> command_output \<Rightarrow> string \<Rightarrow> string" where
  "failure_text sh program args out detail =
     program @ '' '' @ join '' '' args @ '' failed with status '' @ status_text sh (exit_code out)
     @ (if detail = [] then [] else '': '') @ detail"

definition run_vcs :: "'w shell \<Rightarrow> string \<Rightarrow> string list \<Rightarrow> 'w \<Rightarrow> (string + unit) \<times> 'w" where
  "run_vcs sh program args w = (case run_in sh None program args w of
     (Inl e, w1) \<Rightarrow> (Inl (''failed to run '' @ program @ '': '' @ e), w1)
   | (Inr out, w1) \<Rightarrow>
       (if is_success out then Inr ()
        else Inl (failure_text sh program args out
          (if trim (stderr out) \<noteq> [] then trim (stderr out) else trim (stdout out))), w1))"

definition create_worktree ::
    "'w shell \<Rightarrow> string \<Rightarrow> string option \<Rightarrow> string option \<Rightarrow> string \<Rightarrow> string list \<Rightarrow> string \<Rightarrow> 'w
      \<Rightarrow> (string + worktree_meta) \<times> 'w" where
  "create_worktree sh repo ident branch wroot names fallback w =
     (case detect_vcs sh repo w of
        None \<Rightarrow> (Inl (''cannot create a worktree: '' @ repo @ '' is not a jj or git repository''), w)
      | Some v \<Rightarrow>
          (let plan = (case ident of
                 Some i \<Rightarrow> plan_worktree sh repo v i branch wroot
               | None \<Rightarrow> plan_fresh_worktree sh repo v branch wroot names fallback w);
               parent = path_join wroot (slugify_repo_path (to_lowercase sh) (plan_base plan))
           in case create_dir_all sh parent w of
             (Some e, w1) \<Rightarrow> (Inl (''failed to create worktree parent dir '' @ parent @ '': '' @ e), w1)
           | (None, w1) \<Rightarrow> (case run_vcs sh (plan_command plan) (plan_args plan) w1 of
               (Inl e, w2) \<Rightarrow> (Inl e, w2)
             | (Inr _, w2) \<Rightarrow> (Inr \<lparr>meta_path = plan_path plan, meta_base = plan_base plan, meta_vcs = v,
                 meta_name = plan_name plan\<rparr>, w2))))"

definition is_clean :: "'w shell \<Rightarrow> worktree_meta \<Rightarrow> 'w \<Rightarrow> bool \<times> 'w" where
  "is_clean sh m w =
     (case (case meta_vcs m of
         Git \<Rightarrow> run_in sh None ''git'' [''-C'', meta_path m, ''status'', ''--porcelain''] w
       | Jj \<Rightarrow> run_in sh (Some (meta_path m)) ''jj'' [''diff'', ''--name-only''] w) of
        (Inl _, w1) \<Rightarrow> (False, w1)
      | (Inr out, w1) \<Rightarrow> (is_success out \<and> trim (stdout out) = [], w1))"

record remove_result =
  was_removed :: bool
  keep_reason :: "string option"

text \<open>\<open>remove_dir_all\<close> reports no error for a directory that is not there.\<close>

definition delete_worktree :: "'w shell \<Rightarrow> worktree_meta \<Rightarrow> bool \<Rightarrow> 'w \<Rightarrow> (string + remove_result) \<times> 'w" where
  "delete_worktree sh m force w =
     (let plan = plan_worktree_removal m force in
      case run_vcs sh (removal_command plan) (removal_args plan) w of
        (Inl e, w1) \<Rightarrow> (Inl e, w1)
      | (Inr _, w1) \<Rightarrow>
          (if remove_dir plan then (case remove_dir_all sh (meta_path m) w1 of
              (Some e, w2) \<Rightarrow> (Inl (''failed to remove '' @ meta_path m @ '': '' @ e), w2)
            | (None, w2) \<Rightarrow> (Inr \<lparr>was_removed = True, keep_reason = None\<rparr>, w2))
           else (Inr \<lparr>was_removed = True, keep_reason = None\<rparr>, w1)))"

definition remove_worktree :: "'w shell \<Rightarrow> worktree_meta \<Rightarrow> bool \<Rightarrow> 'w \<Rightarrow> (string + remove_result) \<times> 'w" where
  "remove_worktree sh m force w =
     (if force then delete_worktree sh m force w
      else let (clean, w1) = is_clean sh m w
           in if clean then delete_worktree sh m force w1
              else (Inr \<lparr>was_removed = False, keep_reason = Some ''worktree has uncommitted changes''\<rparr>, w1))"

definition plan_list_branches :: "'w shell \<Rightarrow> string \<Rightarrow> vcs \<Rightarrow> string \<times> string list" where
  "plan_list_branches sh repo v =
     (let base = resolve_lexical (current_dir sh) repo in case v of
        Jj \<Rightarrow> (''jj'', [''-R'', base, ''bookmark'', ''list'', ''-T'', ''name ++ '' @ [CHR 0x22, CHR 0x5C] @ ''n'' @ [CHR 0x22]])
      | Git \<Rightarrow> (''git'', [''-C'', base, ''branch'', ''--format=%(refname:short)'']))"

definition parse_branches :: "string \<Rightarrow> string list" where
  "parse_branches out =
     take 100 (remdups_adj (sort (filter (\<lambda>l. l \<noteq> [] \<and> l \<noteq> ''(no branch)'') (map trim (str_lines out)))))"

definition list_branches :: "'w shell \<Rightarrow> string \<Rightarrow> 'w \<Rightarrow> (string + string list) \<times> 'w" where
  "list_branches sh repo w =
     (case detect_vcs sh repo w of
        None \<Rightarrow> (Inr [], w)
      | Some v \<Rightarrow>
          (let (program, args) = plan_list_branches sh repo v in
           case run_in sh None program args w of
             (Inl e, w1) \<Rightarrow> (Inl (''failed to run '' @ program @ '': '' @ e), w1)
           | (Inr out, w1) \<Rightarrow>
               (if is_success out then Inr (parse_branches (stdout out))
                else Inl (failure_text sh program args out (trim (stderr out))), w1)))"

section \<open>The index\<close>

record worktree_store =
  by_path :: "string \<rightharpoonup> worktree_meta"
  reaped :: "string set"
  store_file :: "(worktree_meta \<times> bool option) list option"

definition live_worktree :: "worktree_store \<Rightarrow> string \<Rightarrow> worktree_meta option" where
  "live_worktree st path = (if path \<in> reaped st then None else by_path st path)"

text \<open>The order in which the map is written is the argument \<open>order\<close>. A write that fails panics.\<close>

definition store_persist :: "((string \<rightharpoonup> worktree_meta) \<Rightarrow> worktree_meta list) \<Rightarrow> worktree_store \<Rightarrow> worktree_store" where
  "store_persist order st = st\<lparr>store_file :=
     Some (map (\<lambda>m. (m, if meta_path m \<in> reaped st then Some True else None)) (order (by_path st)))\<rparr>"

definition store_add ::
    "((string \<rightharpoonup> worktree_meta) \<Rightarrow> worktree_meta list) \<Rightarrow> worktree_meta \<Rightarrow> worktree_store \<Rightarrow> worktree_store" where
  "store_add order m st = store_persist order
     (st\<lparr>by_path := (by_path st)(meta_path m \<mapsto> m), reaped := reaped st - {meta_path m}\<rparr>)"

definition mark_reaped ::
    "((string \<rightharpoonup> worktree_meta) \<Rightarrow> worktree_meta list) \<Rightarrow> string \<Rightarrow> worktree_store \<Rightarrow> worktree_store" where
  "mark_reaped order path st =
     (if by_path st path \<noteq> None \<and> path \<notin> reaped st
      then store_persist order (st\<lparr>reaped := insert path (reaped st)\<rparr>) else st)"

fun load_entries :: "(worktree_meta \<times> bool option) list \<Rightarrow> worktree_store \<Rightarrow> worktree_store" where
  "load_entries [] st = st"
| "load_entries ((m, r) # es) st = load_entries es
     (st\<lparr>by_path := (by_path st)(meta_path m \<mapsto> m),
         reaped := (if unwrap_or r False then insert (meta_path m) (reaped st) else reaped st)\<rparr>)"

definition store_load :: "(worktree_meta \<times> bool option) list option \<Rightarrow> worktree_store" where
  "store_load file = load_entries (unwrap_or file []) \<lparr>by_path = Map.empty, reaped = {}, store_file = file\<rparr>"

section \<open>The index survives a restart\<close>

definition store_wf :: "worktree_store \<Rightarrow> bool" where
  "store_wf st \<longleftrightarrow> (\<forall>p m. by_path st p = Some m \<longrightarrow> meta_path m = p) \<and> reaped st \<subseteq> dom (by_path st)"

text \<open>An order of a map lists each of its values once.\<close>

definition lists_values :: "((string \<rightharpoonup> worktree_meta) \<Rightarrow> worktree_meta list) \<Rightarrow> (string \<rightharpoonup> worktree_meta) \<Rightarrow> bool" where
  "lists_values order f \<longleftrightarrow> distinct (order f) \<and> set (order f) = ran f"

lemma store_ops_wf:
  "store_wf st \<Longrightarrow> store_wf (store_add order m st)" "store_wf st \<Longrightarrow> store_wf (mark_reaped order p st)"
  by (auto simp: store_wf_def store_add_def mark_reaped_def store_persist_def)

lemma set_flag: "unwrap_or r False \<longleftrightarrow> r = Some True"
  by (cases r) simp_all

lemma load_entries_by_path:
  "by_path (load_entries es st) = by_path st ++ map_of (rev (map (\<lambda>(m, r). (meta_path m, m)) es))"
  by (induction es st rule: load_entries.induct) (simp_all add: fun_eq_iff map_add_def split: option.split)

lemma load_entries_reaped: "reaped (load_entries es st) = reaped st \<union> {meta_path m | m. (m, Some True) \<in> set es}"
proof (induction es st rule: load_entries.induct)
  case (2 m r es st)
  have "{meta_path n | n. (n, Some True) \<in> set ((m, r) # es)} =
      (if r = Some True then {meta_path m} else {}) \<union> {meta_path n | n. (n, Some True) \<in> set es}"
    by auto
  with 2 show ?case by (simp add: set_flag Un_assoc [symmetric])
qed simp

lemma store_insert_wf:
  assumes "store_wf st" and "R \<subseteq> insert (meta_path m) (reaped st)"
  shows "store_wf (st\<lparr>by_path := (by_path st)(meta_path m \<mapsto> m), reaped := R\<rparr>)"
proof -
  from assms have "R \<subseteq> insert (meta_path m) (dom (by_path st))" by (auto simp: store_wf_def)
  with assms(1) show ?thesis by (simp add: store_wf_def)
qed

lemma load_wf: "store_wf (store_load file)"
proof -
  have "store_wf st \<Longrightarrow> store_wf (load_entries es st)" for es st
  proof (induction es st rule: load_entries.induct)
    case (2 m r es st)
    from 2(2) have "store_wf (st\<lparr>by_path := (by_path st)(meta_path m \<mapsto> m),
        reaped := (if unwrap_or r False then insert (meta_path m) (reaped st) else reaped st)\<rparr>)"
      by (rule store_insert_wf) auto
    from 2(1) [OF this] show ?case by simp
  qed simp
  moreover have "store_wf \<lparr>by_path = Map.empty, reaped = {}, store_file = file\<rparr>" by (simp add: store_wf_def)
  ultimately show ?thesis by (simp add: store_load_def)
qed

text \<open>The index of worktrees survives a restart. Whatever the server adds and reaps, the file that the last
  change wrote, read back, gives the index it had in memory: the same worktrees, with the same ones
  reaped, in whatever order the map was written.\<close>

theorem worktree_index_restored:
  assumes "store_wf st" and "lists_values order (by_path st)"
  shows "by_path (store_load (store_file (store_persist order st))) = by_path st \<and>
    reaped (store_load (store_file (store_persist order st))) = reaped st"
proof -
  let ?es = "map (\<lambda>m. (m, if meta_path m \<in> reaped st then Some True else None)) (order (by_path st))"
  have key: "\<And>p m. by_path st p = Some m \<Longrightarrow> meta_path m = p" and sub: "reaped st \<subseteq> dom (by_path st)"
    using assms(1) by (auto simp: store_wf_def)
  have listed: "m \<in> set (order (by_path st)) \<longleftrightarrow> by_path st (meta_path m) = Some m" for m
    using assms(2) key by (auto simp: lists_values_def ran_def)
  have "inj_on meta_path (set (order (by_path st)))" by (rule inj_onI) (metis listed option.inject)
  then have dist: "distinct (map fst (rev (map (\<lambda>m. (meta_path m, m)) (order (by_path st)))))"
    using assms(2) by (simp add: lists_values_def distinct_map rev_map [symmetric] comp_def)
  have "map_of (rev (map (\<lambda>m. (meta_path m, m)) (order (by_path st)))) p = by_path st p" for p
  proof (cases "by_path st p")
    case None
    then have "p \<notin> meta_path ` set (order (by_path st))" by (auto simp: listed)
    then show ?thesis using None by (simp add: map_of_eq_None_iff image_image)
  next
    case (Some m)
    then have "meta_path m = p" by (rule key)
    with Some have "m \<in> set (order (by_path st))" by (simp add: listed)
    with \<open>meta_path m = p\<close> have "(p, m) \<in> set (rev (map (\<lambda>m. (meta_path m, m)) (order (by_path st))))" by auto
    with dist show ?thesis using Some by (simp add: map_of_is_SomeI)
  qed
  then have paths: "by_path (store_load (store_file (store_persist order st))) = by_path st"
    by (simp add: store_persist_def store_load_def load_entries_by_path comp_def fun_eq_iff)
  have "(m, Some True) \<in> set ?es \<longleftrightarrow> by_path st (meta_path m) = Some m \<and> meta_path m \<in> reaped st" for m
    using listed by (auto split: if_splits)
  then have "{meta_path m | m. (m, Some True) \<in> set ?es} = {meta_path m | m. by_path st (meta_path m) = Some m \<and> meta_path m \<in> reaped st}"
    by blast
  also have "\<dots> = reaped st"
  proof (intro equalityI subsetI)
    fix p
    assume "p \<in> reaped st"
    with sub obtain m where "by_path st p = Some m" by blast
    with key \<open>p \<in> reaped st\<close> show "p \<in> {meta_path m | m. by_path st (meta_path m) = Some m \<and> meta_path m \<in> reaped st}"
      by blast
  qed blast
  finally have "{meta_path m | m. (m, Some True) \<in> set ?es} = reaped st" .
  then have "reaped (store_load (store_file (store_persist order st))) = reaped st"
    by (simp add: store_persist_def store_load_def load_entries_reaped)
  with paths show ?thesis by simp
qed


section \<open>A concrete worktree\<close>

definition ex_meta :: worktree_meta where
  "ex_meta = \<lparr>meta_path = ''/wt/a-b/pantoken-x'', meta_base = ''/a/b'', meta_vcs = Git, meta_name = ''pantoken-x''\<rparr>"

definition ex_store :: worktree_store where
  "ex_store = store_add (\<lambda>_. [ex_meta]) ex_meta (store_load None)"

lemma ex_store_fields: "by_path ex_store = [meta_path ex_meta \<mapsto> ex_meta]" "reaped ex_store = {}"
  by (simp_all add: ex_store_def store_add_def store_load_def store_persist_def)

lemma worktree_index_restored_witness:
  "by_path (store_load (store_file (store_persist (\<lambda>_. [ex_meta]) ex_store))) = [meta_path ex_meta \<mapsto> ex_meta]"
proof -
  have "store_wf ex_store" unfolding ex_store_def by (intro store_ops_wf load_wf)
  moreover have "lists_values (\<lambda>_. [ex_meta]) (by_path ex_store)" by (simp add: lists_values_def ex_store_fields)
  ultimately show ?thesis
    using worktree_index_restored [of ex_store "\<lambda>_. [ex_meta]"] by (simp add: ex_store_fields)
qed

text \<open>Version control that reports no change and does whatever it is told.\<close>

definition ex_shell :: "unit shell" where
  "ex_shell = \<lparr>run_in = (\<lambda>cwd program args w. (Inr \<lparr>stdout = [], stderr = [], exit_code = Some 0\<rparr>, w)),
     status_text = (\<lambda>_. ''exit status: 0''), path_exists = (\<lambda>p w. True), create_dir_all = (\<lambda>p w. (None, w)),
     remove_dir_all = (\<lambda>p w. (None, w)), current_dir = ''/'', to_lowercase = ascii_lower\<rparr>"

text \<open>The directory of a repository is named after its path, with hyphens for slashes and small letters: it is
  not unique.\<close>

lemma slugs_collide:
  "slugify_repo_path ascii_lower ''/src/a-b'' = slugify_repo_path ascii_lower ''/src/a/b''"
  "slugify_repo_path ascii_lower ''/src/App'' = slugify_repo_path ascii_lower ''/src/app''"
  by code_simp+

text \<open>The branches of a repository whose head is detached begin with a line that names no branch.\<close>

lemma detached_head_listed:
  "''(HEAD detached at 1a2b3c4)'' \<in> set (parse_branches (''(HEAD detached at 1a2b3c4)'' @ [CHR 0x0A] @ ''main''))"
  by code_simp

end
