(* ===== verification/Session_Stores.thy ===== *)
theory Session_Stores
  imports Warm_Pool Worktrees
begin

text \<open>
  The driver's work on the stores, \<^verbatim>\<open>polytoken/driver.rs\<close>: the list of sessions, the archive flag,
  the name of a session, and the worktrees that come and go with the sessions. \<open>site\<close> holds what does not
  change: where the sessions lie, the parser, and the order in which the hash maps are walked.
\<close>

section \<open>State\<close>

record site =
  sessions_dir :: string
  session_json :: session_serde
  walk :: "(string \<rightharpoonup> warm_session) \<Rightarrow> string list"
  write_order :: "(string \<rightharpoonup> worktree_meta) \<Rightarrow> worktree_meta list"
  archive_order :: "string set \<Rightarrow> string list"

record stores =
  session_files :: files
  listing :: "dir_entry list option"
  archive :: archive_store
  worktrees :: worktree_store

definition session_dir :: "site \<Rightarrow> string \<Rightarrow> string" where
  "session_dir S sid = path_join (sessions_dir S) sid"

definition cwd_for_session :: "site \<Rightarrow> files \<Rightarrow> string \<Rightarrow> string option" where
  "cwd_for_session S fs sid =
     (case read_session_json (session_json S) fs (session_dir S sid) of
        None \<Rightarrow> None
      | Some meta \<Rightarrow> if project_path meta = [] then None else Some (project_path meta))"

definition warm_cwd :: "site \<Rightarrow> files \<Rightarrow> warm_session \<Rightarrow> string option" where
  "warm_cwd S fs ws =
     (case Option.bind (last_state ws) (\<lambda>s. or_else (project_cwd s) (state_cwd s)) of
        Some c \<Rightarrow> (if c \<noteq> [] then Some c else cwd_for_session S fs (session_id_of (warm_ref ws)))
      | None \<Rightarrow> cwd_for_session S fs (session_id_of (warm_ref ws)))"

definition warm_session_owns_cwd :: "site \<Rightarrow> files \<Rightarrow> pool \<Rightarrow> string \<Rightarrow> bool" where
  "warm_session_owns_cwd S fs p cwd \<longleftrightarrow>
     list_ex (\<lambda>i. Option.bind (warm p i) (warm_cwd S fs) = Some cwd) (walk S (warm p))"

definition worktree_field_for :: "string \<Rightarrow> worktree_store \<Rightarrow> worktree_info option" where
  "worktree_field_for cwd st = map_option (\<lambda>m. \<lparr>wi_path = meta_path m, wi_base = meta_base m, wi_name = meta_name m,
     wi_reaped = (if cwd \<in> reaped st then Some True else None)\<rparr>) (by_path st cwd)"

section \<open>The list of sessions\<close>

definition warm_entry :: "site \<Rightarrow> stores \<Rightarrow> timestamp \<Rightarrow> string \<Rightarrow> warm_session \<Rightarrow> session_list_entry" where
  "warm_entry S st now sid ws =
     (let file = session_file (session_dir S sid); cwd = ws_path (warm_workspace ws)
      in \<lparr>le_session_id = sid, le_path = file, le_cwd = cwd, le_display_name = Option.bind (last_state ws) session_title,
          le_preview = [], le_user_message_count = 0, le_updated_at = now, le_created_at = now,
          le_last_user_message_at = now, le_parent_session_path = None, le_usage = None,
          le_archived = (file \<in> archived_paths (archive st)), le_worktree = worktree_field_for cwd (worktrees st)\<rparr>)"

definition overlay_usage :: "pool \<Rightarrow> session_list_entry \<Rightarrow> session_list_entry" where
  "overlay_usage p e = (case Option.bind (warm p (le_session_id e)) (\<lambda>ws. usage_from_state (last_state ws)) of
     Some u \<Rightarrow> e\<lparr>le_usage := Some u\<rparr>
   | None \<Rightarrow> e)"

definition disk_entries :: "site \<Rightarrow> stores \<Rightarrow> session_list_entry list" where
  "disk_entries S st = list_cold_sessions (session_json S) (session_files st) (sessions_dir S) (listing st)
     (\<lambda>path. path \<in> archived_paths (archive st)) (\<lambda>cwd. worktree_field_for cwd (worktrees st))"

definition live_entries :: "site \<Rightarrow> stores \<Rightarrow> timestamp \<Rightarrow> pool \<Rightarrow> session_list_entry list" where
  "live_entries S st now p = List.map_filter (\<lambda>sid. map_option (warm_entry S st now sid) (warm p sid)) (walk S (warm p))"

definition list_sessions :: "site \<Rightarrow> stores \<Rightarrow> timestamp \<Rightarrow> pool \<Rightarrow> session_list_entry list" where
  "list_sessions S st now p = map (overlay_usage p) (merge_session_lists (disk_entries S st) (live_entries S st now p))"

text \<open>\<open>post\<close> is the daemon's answer to the new title: the error, if any. A name for a cold session goes to its
  file.\<close>

definition rename_session ::
    "site \<Rightarrow> (string \<Rightarrow> string \<Rightarrow> string option) \<Rightarrow> bool \<Rightarrow> timestamp \<Rightarrow> string \<Rightarrow> string \<Rightarrow> string
      \<Rightarrow> stores \<times> pool \<Rightarrow> session_driver_event list \<times> stores \<times> pool" where
  "rename_session S post writable now millis path name sp =
     (let (st, p) = sp in
      case session_id_from_path path of
        None \<Rightarrow> ([], st, p)
      | Some sid \<Rightarrow> (case warm p sid of
          Some ws \<Rightarrow> (case post sid name of
              None \<Rightarrow> ([], st, p\<lparr>warm := (warm p)(sid \<mapsto>
                ws\<lparr>last_state := map_option (\<lambda>s. s\<lparr>session_title := Some name\<rparr>) (last_state ws)\<rparr>)\<rparr>)
            | Some e \<Rightarrow> ([E_HostUiRequest (stamped (warm_ref ws) now)
                (H_Notify (''rename-failed-'' @ millis) (''Couldn't rename session: '' @ e) (Some NotifyError))], st, p))
        | None \<Rightarrow> ([], st\<lparr>session_files := snd (write_overridden_title (session_json S) writable path name
            (session_files st))\<rparr>, p)))"

section \<open>Worktrees of sessions\<close>

datatype reap_outcome = NoWorktree | Reaped | Retained string

definition reap_worktree ::
    "site \<Rightarrow> 'w shell \<Rightarrow> string \<Rightarrow> bool \<Rightarrow> stores \<times> 'w \<Rightarrow> reap_outcome \<times> stores \<times> 'w" where
  "reap_worktree S sh cwd force sw =
     (let (st, w) = sw in
      case live_worktree (worktrees st) cwd of
        None \<Rightarrow> (NoWorktree, st, w)
      | Some m \<Rightarrow> (case remove_worktree sh m force w of
          (Inl e, w1) \<Rightarrow> (Retained e, st, w1)
        | (Inr r, w1) \<Rightarrow>
            (if was_removed r
             then (Reaped, st\<lparr>worktrees := mark_reaped (write_order S) cwd (worktrees st)\<rparr>, w1)
             else (Retained (unwrap_or (keep_reason r) ''uncommitted changes''), st, w1))))"

definition cleanup_worktree ::
    "site \<Rightarrow> 'w shell \<Rightarrow> pool \<Rightarrow> string \<Rightarrow> bool \<Rightarrow> stores \<times> 'w \<Rightarrow> remove_result \<times> stores \<times> 'w" where
  "cleanup_worktree S sh p path force sw =
     (if warm_session_owns_cwd S (session_files (fst sw)) p path
      then (\<lparr>was_removed = False, keep_reason = Some ''session is active''\<rparr>, sw)
      else let (out, sw') = reap_worktree S sh path force sw
           in (case out of
                 NoWorktree \<Rightarrow> \<lparr>was_removed = False, keep_reason = Some ''no pantoken worktree at this path''\<rparr>
               | Reaped \<Rightarrow> \<lparr>was_removed = True, keep_reason = None\<rparr>
               | Retained reason \<Rightarrow> \<lparr>was_removed = False, keep_reason = Some reason\<rparr>, sw'))"

text \<open>The name of the directory of a path that ends in \<open>session.json\<close>.\<close>

definition archived_session_id :: "string \<Rightarrow> string option" where
  "archived_session_id path =
     (let parts = filter (\<lambda>s. s \<noteq> [] \<and> s \<noteq> ''.'') (split_on CHR ''/'' path)
      in if parts \<noteq> [] \<and> last parts = ''session.json'' \<and> length parts \<ge> 2 \<and> parts ! (length parts - 2) \<noteq> ''..''
         then Some (parts ! (length parts - 2)) else None)"

text \<open>The result is the worktree that was kept, with the reason.\<close>

definition set_archived ::
    "site \<Rightarrow> 'w shell \<Rightarrow> bool \<Rightarrow> string \<Rightarrow> bool \<Rightarrow> stores \<times> 'w \<Rightarrow> (string \<times> string) option \<times> stores \<times> 'w" where
  "set_archived S sh writable path flag sw =
     (let st = (fst sw)\<lparr>archive := archive_set writable (archive_order S) path flag (archive (fst sw))\<rparr>;
          w = snd sw
      in if \<not> flag then (None, st, w)
         else case Option.bind (archived_session_id path) (cwd_for_session S (session_files st)) of
           None \<Rightarrow> (None, st, w)
         | Some cwd \<Rightarrow> (case reap_worktree S sh cwd False (st, w) of
             (Retained reason, sw') \<Rightarrow> (Some (cwd, reason), sw')
           | (_, sw') \<Rightarrow> (None, sw')))"


section \<open>What is removed\<close>

lemma mark_reaped_live [simp]: "live_worktree (mark_reaped ord p st) p = None"
  by (auto simp: live_worktree_def mark_reaped_def store_persist_def)

lemma mark_reaped_by_path [simp]: "by_path (mark_reaped ord p st) = by_path st"
  by (simp add: mark_reaped_def store_persist_def)

text \<open>A reaping that changes anything found a live worktree, and, unless forced, found it clean: else the check
  was all it ran.\<close>

definition gated :: "'w shell \<Rightarrow> worktree_meta option \<Rightarrow> bool \<Rightarrow> 'w \<Rightarrow> 'w \<Rightarrow> bool" where
  "gated sh live force w w' \<longleftrightarrow> w' = w \<or>
     (\<exists>m. live = Some m \<and> (force \<or> fst (is_clean sh m w) \<or> w' = snd (is_clean sh m w)))"

lemma remove_kept:
  assumes "remove_worktree sh m force w = (r, w')" and "\<not> force" and "\<not> fst (is_clean sh m w)"
  shows "r = Inr \<lparr>was_removed = False, keep_reason = Some ''worktree has uncommitted changes''\<rparr> \<and> w' = snd (is_clean sh m w)"
  using assms by (auto simp: remove_worktree_def split: prod.splits)

lemma reap_gated:
  assumes "reap_worktree S sh cwd force (st, w) = (out, st', w')"
  shows "gated sh (live_worktree (worktrees st) cwd) force w w' \<and>
    (out = Reaped \<longrightarrow> (\<exists>m. live_worktree (worktrees st) cwd = Some m \<and> (force \<or> fst (is_clean sh m w)) \<and>
       live_worktree (worktrees st') cwd = None \<and> by_path (worktrees st') cwd = Some m)) \<and>
    (out \<noteq> Reaped \<longrightarrow> st' = st)"
proof (cases "live_worktree (worktrees st) cwd")
  case None
  with assms show ?thesis by (auto simp: reap_worktree_def gated_def)
next
  case (Some m)
  then have stored: "by_path (worktrees st) cwd = Some m" by (auto simp: live_worktree_def split: if_splits)
  obtain r w1 where r: "remove_worktree sh m force w = (r, w1)" by fastforce
  show ?thesis
  proof (cases "force \<or> fst (is_clean sh m w)")
    case True
    with assms Some r stored show ?thesis
      by (cases r) (auto simp: reap_worktree_def gated_def split: if_splits)
  next
    case False
    with remove_kept [OF r] assms Some r show ?thesis
      by (auto simp: reap_worktree_def gated_def)
  qed
qed


text \<open>Archiving never forces: it keeps a worktree with changes, and says so.\<close>

lemma archive_keeps_changes:
  assumes "set_archived S sh writable path True (st, w) = (kept, st', w')"
    and "archived_session_id path = Some sid" and "cwd_for_session S (session_files st) sid = Some cwd"
    and "live_worktree (worktrees st) cwd = Some m" and "\<not> fst (is_clean sh m w)"
  shows "kept = Some (cwd, ''worktree has uncommitted changes'') \<and> w' = snd (is_clean sh m w) \<and>
    worktrees st' = worktrees st"
proof -
  obtain r w1 where r: "remove_worktree sh m False w = (r, w1)" by fastforce
  from remove_kept [OF r] assms r show ?thesis
    by (auto simp: set_archived_def reap_worktree_def Let_def)
qed

section \<open>What the list shows\<close>

definition lists_keys :: "((string \<rightharpoonup> warm_session) \<Rightarrow> string list) \<Rightarrow> (string \<rightharpoonup> warm_session) \<Rightarrow> bool" where
  "lists_keys ord f \<longleftrightarrow> distinct (ord f) \<and> set (ord f) = dom f"

definition on_disk_ids :: "site \<Rightarrow> stores \<Rightarrow> string list" where
  "on_disk_ids S st = filter (\<lambda>sid. read_session_json (session_json S) (session_files st) (session_dir S sid) \<noteq> None)
     (list_session_ids (listing st))"

lemma map_filter_ids:
  "(\<And>x y. f x = Some y \<Longrightarrow> g y = x) \<Longrightarrow> map g (List.map_filter f xs) = filter (\<lambda>x. f x \<noteq> None) xs"
  by (induction xs) (auto simp: List.map_filter_simps split: option.split)

lemma cold_id [simp]: "le_session_id (cold_session_entry_from_meta dir sid meta a wt) = sid"
  by (simp add: cold_session_entry_from_meta_def Let_def)

lemma cold_ids: "map le_session_id (disk_entries S st) = on_disk_ids S st"
proof -
  have "map le_session_id (disk_entries S st) =
      filter (\<lambda>sid. (let dir = path_join (sessions_dir S) sid in map_option (\<lambda>meta. cold_session_entry_from_meta dir sid meta
         (session_file dir \<in> archived_paths (archive st)) (worktree_field_for (cwd_of dir meta) (worktrees st)))
           (read_session_json (session_json S) (session_files st) dir)) \<noteq> None)
        (list_session_ids (listing st))"
    unfolding disk_entries_def list_cold_sessions_def by (rule map_filter_ids) (auto simp: Let_def)
  then show ?thesis by (simp add: on_disk_ids_def session_dir_def Let_def)
qed

lemma warm_entry_id [simp]: "le_session_id (warm_entry S st now sid ws) = sid"
  by (simp add: warm_entry_def Let_def)

lemma overlay_usage_fields [simp]:
  "le_session_id (overlay_usage p e) = le_session_id e" "le_display_name (overlay_usage p e) = le_display_name e"
  by (simp_all add: overlay_usage_def split: option.split)

lemma live_ids:
  assumes "lists_keys (walk S) (warm p)"
  shows "map le_session_id (live_entries S st now p) = walk S (warm p)"
proof -
  have "map le_session_id (live_entries S st now p) =
      filter (\<lambda>sid. map_option (warm_entry S st now sid) (warm p sid) \<noteq> None) (walk S (warm p))"
    unfolding live_entries_def by (rule map_filter_ids) auto
  also have "\<dots> = walk S (warm p)"
    using assms by (auto simp: filter_id_conv lists_keys_def dom_def)
  finally show ?thesis .
qed

text \<open>C27: The list shows every session once. The ids of the list are the ids of the directories with a readable
  session file, in their order, after the ids of the warm sessions that are not on disk yet; when no
  directory is listed twice, no id occurs twice.\<close>

theorem list_sessions_complete:
  assumes "lists_keys (walk S) (warm p)" and "distinct (on_disk_ids S st)"
  shows "map le_session_id (list_sessions S st now p) =
      filter (\<lambda>i. i \<notin> set (on_disk_ids S st)) (walk S (warm p)) @ on_disk_ids S st \<and>
    distinct (map le_session_id (list_sessions S st now p))"
proof -
  have "le_session_id ` set (disk_entries S st) = set (on_disk_ids S st)"
    using arg_cong [OF cold_ids, of set] by simp
  then have "map le_session_id (list_sessions S st now p) =
      filter (\<lambda>i. i \<notin> set (on_disk_ids S st)) (walk S (warm p)) @ on_disk_ids S st"
    by (simp add: list_sessions_def comp_def merged_ids cold_ids live_ids [OF assms(1)])
  then show ?thesis using assms by (auto simp: lists_keys_def)
qed

section \<open>What a name does\<close>

lemma map_filter_memberD: "e \<in> set (List.map_filter f xs) \<Longrightarrow> \<exists>x \<in> set xs. f x = Some e"
  by (induction xs) (auto simp: List.map_filter_simps split: option.splits)

lemma cold_entry_name:
  assumes "e \<in> set (list_cold_sessions J fs dir ls a wt)"
  shows "\<exists>meta. read_session_json J fs (path_join dir (le_session_id e)) = Some meta \<and>
    le_display_name e = (case overridden_title meta of Some t \<Rightarrow> Some t | None \<Rightarrow> inferred_title meta)"
  using map_filter_memberD [OF assms [unfolded list_cold_sessions_def]]
  by (auto simp: Let_def cold_session_entry_from_meta_def)

lemma find_sound: "find P xs = Some x \<Longrightarrow> x \<in> set xs \<and> P x"
  by (induction xs) (auto split: if_splits)

lemma overlay_name_cases:
  "overlay_name live e = e \<or> (\<exists>w \<in> set live. le_session_id w = le_session_id e \<and> le_display_name w \<noteq> None \<and>
     le_display_name (overlay_name live e) = le_display_name w)"
proof (cases "find (\<lambda>w. le_session_id w = le_session_id e) (rev live)")
  case (Some w)
  then have "w \<in> set live \<and> le_session_id w = le_session_id e" by (auto dest: find_sound)
  with Some show ?thesis by (auto simp: overlay_name_def)
qed (simp add: overlay_name_def)

lemma overlay_name_live:
  assumes "w \<in> set live" and "le_session_id w = le_session_id e"
    and "\<forall>v \<in> set live. le_session_id v = le_session_id e \<longrightarrow> le_display_name v = Some n"
  shows "le_display_name (overlay_name live e) = Some n"
proof -
  obtain v where v: "find (\<lambda>w. le_session_id w = le_session_id e) (rev live) = Some v"
    using assms(1,2) by (cases "find (\<lambda>w. le_session_id w = le_session_id e) (rev live)") (auto simp: find_None_iff)
  then have "v \<in> set live \<and> le_session_id v = le_session_id e" by (auto dest: find_sound)
  with assms(3) v show ?thesis by (simp add: overlay_name_def)
qed

lemma live_entry:
  "e \<in> set (live_entries S st now p) \<Longrightarrow> \<exists>ws. warm p (le_session_id e) = Some ws \<and> e = warm_entry S st now (le_session_id e) ws"
  by (auto simp: live_entries_def dest!: map_filter_memberD)

lemma list_entry:
  assumes "e \<in> set (list_sessions S st now p)"
  obtains "e \<in> overlay_usage p ` set (live_entries S st now p)"
  | d where "d \<in> set (disk_entries S st)" and "e = overlay_usage p (overlay_name (live_entries S st now p) d)"
  using assms by (auto simp: list_sessions_def merge_session_lists_def)

lemma warm_name:
  assumes e: "e \<in> set (list_sessions S st now p)" and w: "warm p (le_session_id e) = Some ws"
    and t: "Option.bind (last_state ws) session_title = Some n" and k: "lists_keys (walk S) (warm p)"
  shows "le_display_name e = Some n"
proof -
  let ?live = "live_entries S st now p"
  have named: "le_display_name v = Some n" if v: "v \<in> set ?live" "le_session_id v = le_session_id e" for v
  proof -
    obtain ws' where "warm p (le_session_id v) = Some ws'" "v = warm_entry S st now (le_session_id v) ws'"
      using live_entry [OF v(1)] by blast
    with v(2) w have "v = warm_entry S st now (le_session_id e) ws" by simp
    with t show ?thesis by (simp add: warm_entry_def Let_def)
  qed
  from e show ?thesis
  proof (rule list_entry)
    assume "e \<in> overlay_usage p ` set ?live"
    with named show ?thesis by auto
  next
    fix d
    assume d: "e = overlay_usage p (overlay_name ?live d)"
    have "le_session_id e \<in> le_session_id ` set ?live"
      using arg_cong [OF live_ids [OF k], of set] k w by (simp add: lists_keys_def domI)
    then obtain v where "v \<in> set ?live" "le_session_id v = le_session_id d" using d by auto
    moreover have "\<forall>v \<in> set ?live. le_session_id v = le_session_id d \<longrightarrow> le_display_name v = Some n"
      using named d by simp
    ultimately show ?thesis using d by (simp add: overlay_name_live)
  qed
qed

lemma cold_name:
  assumes e: "e \<in> set (list_sessions S st now p)" and w: "warm p (le_session_id e) = None"
  shows "\<exists>meta. read_session_json (session_json S) (session_files st) (session_dir S (le_session_id e)) = Some meta \<and>
    le_display_name e = (case overridden_title meta of Some t \<Rightarrow> Some t | None \<Rightarrow> inferred_title meta)"
  using e
proof (rule list_entry)
  assume "e \<in> overlay_usage p ` set (live_entries S st now p)"
  then obtain v where "v \<in> set (live_entries S st now p)" "le_session_id v = le_session_id e" by auto
  with live_entry w show ?thesis by fastforce
next
  fix d
  assume d: "d \<in> set (disk_entries S st)" "e = overlay_usage p (overlay_name (live_entries S st now p) d)"
  then have "overlay_name (live_entries S st now p) d = d"
    using overlay_name_cases [of "live_entries S st now p" d] live_entry w by fastforce
  with d cold_entry_name [OF d(1) [unfolded disk_entries_def]] show ?thesis by (simp add: session_dir_def)
qed

text \<open>A rename shows in the next list. When the daemon of a warm session accepts the new name, or the name
  of a cold session is written to its file, every entry that the next list has for the session carries the
  new name, and a rename of a cold session starts nothing.\<close>

theorem rename_shows:
  assumes path: "session_id_from_path path = Some sid" "path = session_file (session_dir S sid)"
    and json: "\<forall>raw out meta. insert_title (session_json S) raw name = Inr out \<longrightarrow>
      parse_session (session_json S) out = Some meta \<longrightarrow> overridden_title meta = Some name"
    and walk: "lists_keys (walk S) (warm p')"
    and renamed: "rename_session S post writable now millis path name (st, p) = (evs, st', p')"
    and accepted: "case warm p sid of
        Some ws \<Rightarrow> post sid name = None \<and> last_state ws \<noteq> None
      | None \<Rightarrow> fst (write_overridden_title (session_json S) writable path name (session_files st))"
    and e: "e \<in> set (list_sessions S st' now' p')" "le_session_id e = sid"
  shows "le_display_name e = Some name \<and> evs = [] \<and> dom (warm p') = dom (warm p)"
proof (cases "warm p sid")
  case (Some ws)
  then obtain s where s: "last_state ws = Some s" "post sid name = None" using accepted by auto
  with renamed path Some have p': "p' = p\<lparr>warm := (warm p)(sid \<mapsto> ws\<lparr>last_state := Some (s\<lparr>session_title := Some name\<rparr>)\<rparr>)\<rparr>"
      and "evs = []"
    by (auto simp: rename_session_def)
  then have "warm p' (le_session_id e) = Some (ws\<lparr>last_state := Some (s\<lparr>session_title := Some name\<rparr>)\<rparr>)"
    using e(2) by simp
  from warm_name [OF e(1) this _ walk] show ?thesis using p' \<open>evs = []\<close> Some by auto
next
  case None
  then obtain raw out where w: "session_files st path = Some raw" "insert_title (session_json S) raw name = Inr out" writable
    using accepted by (auto simp: write_overridden_title_def split: option.splits sum.splits if_splits)
  with renamed path None have st': "st' = st\<lparr>session_files := (session_files st)(path \<mapsto> out)\<rparr>" "p' = p" "evs = []"
    by (auto simp: rename_session_def write_overridden_title_def)
  then obtain meta where "read_session_json (session_json S) (session_files st') (session_dir S sid) = Some meta"
      and n: "le_display_name e = (case overridden_title meta of Some t \<Rightarrow> Some t | None \<Rightarrow> inferred_title meta)"
    using cold_name [OF e(1)] e(2) None by auto
  then have "parse_session (session_json S) out = Some meta"
    using st' path(2) by (simp add: read_session_json_def)
  with json w(2) have "overridden_title meta = Some name" by blast
  with n st' show ?thesis by simp
qed


section \<open>Concrete stores\<close>

text \<open>The text of a session's file is its title.\<close>

definition ex_serde :: session_serde where
  "ex_serde = \<lparr>parse_session = (\<lambda>txt. Some \<lparr>json_session_id = ''a'', project_path = ''/wt/a-b/pantoken-x'',
       json_created_at = [], last_activity_at = [], last_user_message_preview = None, initial_model_name = None,
       overridden_title = Some txt, inferred_title = None, parent_session_id = None\<rparr>),
     insert_title = (\<lambda>raw ttl. Inr ttl)\<rparr>"

definition ex_site :: site where
  "ex_site = \<lparr>sessions_dir = ''/s'', session_json = ex_serde, walk = (\<lambda>f. if f ''a'' = None then [] else [''a'']),
     write_order = (\<lambda>_. [ex_meta]), archive_order = (\<lambda>_. [])\<rparr>"

definition ex_stores :: stores where
  "ex_stores = \<lparr>session_files = [''/s/a/session.json'' \<mapsto> ''old''],
     listing = Some [\<lparr>entry_name = ''a'', entry_is_dir = True, entry_mtime = None\<rparr>],
     archive = archive_load None, worktrees = ex_store\<rparr>"

definition ex_cold :: pool where
  "ex_cold = \<lparr>warm = Map.empty, order = [], warm_cap = 1\<rparr>"

lemma ex_walk: "lists_keys (walk ex_site) Map.empty"
  by (simp add: lists_keys_def ex_site_def)

lemma ex_paths: "session_dir ex_site ''a'' = ''/s/a''" "session_file ''/s/a'' = ''/s/a/session.json''"
  by code_simp+


lemma list_sessions_complete_witness:
  "map le_session_id (list_sessions ex_site ex_stores ''t'' ex_cold) = [''a'']"
proof -
  have "on_disk_ids ex_site ex_stores = [''a'']"
    by (simp add: on_disk_ids_def ex_stores_def list_session_ids_def newest_first_def read_session_json_def ex_paths)
      (simp add: ex_site_def ex_serde_def)
  with list_sessions_complete [of ex_site ex_cold ex_stores "''t''"] ex_walk show ?thesis
    by (simp add: ex_cold_def lists_keys_def)
qed

lemma rename_shows_witness:
  "case rename_session ex_site (\<lambda>_ _. None) True ''t'' ''0'' ''/s/a/session.json'' ''new'' (ex_stores, ex_cold) of
     (evs, st', p') \<Rightarrow> le_display_name (hd (list_sessions ex_site st' ''t'' p')) = Some ''new'' \<and> evs = []"
proof -
  let ?st = "ex_stores\<lparr>session_files := (session_files ex_stores)(''/s/a/session.json'' \<mapsto> ''new'')\<rparr>"
  have i: "session_id_from_path ''/s/a/session.json'' = Some ''a''" by code_simp
  then have r: "rename_session ex_site (\<lambda>_ _. None) True ''t'' ''0'' ''/s/a/session.json'' ''new'' (ex_stores, ex_cold) =
      ([], ?st, ex_cold)"
    by (simp add: rename_session_def ex_cold_def write_overridden_title_def ex_stores_def ex_site_def ex_serde_def)
  have w: "lists_keys (walk ex_site) (warm ex_cold)" using ex_walk by (simp add: ex_cold_def)
  have "on_disk_ids ex_site ?st = [''a'']"
    by (simp add: on_disk_ids_def ex_stores_def list_session_ids_def newest_first_def read_session_json_def ex_paths)
      (simp add: ex_site_def ex_serde_def)
  then have "map le_session_id (list_sessions ex_site ?st ''t'' ex_cold) = [''a'']"
    using cold_ids [of ex_site ?st] live_ids [OF w, of ?st "''t''"]
    by (simp add: list_sessions_def comp_def merged_ids ex_cold_def ex_site_def)
  then obtain e where e: "list_sessions ex_site ?st ''t'' ex_cold = [e]" "le_session_id e = ''a''" by auto
  have "le_display_name e = Some ''new'' \<and> [] = ([] :: session_driver_event list) \<and> dom (warm ex_cold) = dom (warm ex_cold)"
  proof (rule rename_shows [OF i _ _ w r])
    show "''/s/a/session.json'' = session_file (session_dir ex_site ''a'')" by (simp add: ex_paths)
    show "e \<in> set (list_sessions ex_site ?st ''t'' ex_cold)" by (simp add: e)
  qed (simp_all add: e ex_cold_def write_overridden_title_def ex_stores_def ex_site_def ex_serde_def)
  with e r show ?thesis by simp
qed

end
