(* ===== verification/Catalogues.thy ===== *)
theory Catalogues
  imports Background_Model
begin

text \<open>
  What the polytoken binary and the daemon print, parsed (\<^verbatim>\<open>polytoken/models.rs\<close>, \<^verbatim>\<open>facets.rs\<close>,
  \<^verbatim>\<open>commands.rs\<close>, \<^verbatim>\<open>file_catalog.rs\<close>), and the classes of errors of a session that cannot be
  opened (\<^verbatim>\<open>restore_error.rs\<close>). The JSON of the slash commands is decoded by serde, an argument.
\<close>

section \<open>Strings\<close>

definition trim_start :: "string \<Rightarrow> string" where
  "trim_start s = concat (dropWhile is_whitespace (utf8_chars s))"

text \<open>\<open>str::find\<close> of a string: what is before the first occurrence, and what is after it.\<close>

fun split_str :: "string \<Rightarrow> string \<Rightarrow> (string \<times> string) option" where
  "split_str p [] = (if p = [] then Some ([], []) else None)"
| "split_str p (c # cs) =
     (if starts_with (c # cs) p then Some ([], drop (length p) (c # cs))
      else map_option (\<lambda>(a, b). (c # a, b)) (split_str p cs))"

text \<open>\<open>str::replace\<close> of a string by nothing.\<close>

fun remove_str :: "string \<Rightarrow> string \<Rightarrow> string" where
  "remove_str p [] = []"
| "remove_str p (c # cs) =
     (if p \<noteq> [] \<and> starts_with (c # cs) p then remove_str p (drop (length p - 1) cs)
      else c # remove_str p cs)"

section \<open>Models\<close>

record parsed_models =
  pm_models :: "model_option list"
  pm_default_model :: "string option"
  pm_default_small_model :: "string option"
  pm_default_thinking_level :: "string option"

definition no_models :: parsed_models where
  "no_models = \<lparr>pm_models = [], pm_default_model = None, pm_default_small_model = None,
     pm_default_thinking_level = None\<rparr>"

record reasoning_info =
  ri_levels :: "string list"
  ri_default_level :: "string option"

text \<open>No character outside ASCII has a lower case with a letter of \<open>(default)\<close>.\<close>

definition is_default_level :: "string \<Rightarrow> bool" where
  "is_default_level raw = contains (ascii_lower raw) ''(default)''"

definition level_name :: "string \<Rightarrow> string" where
  "level_name raw = trim (remove_str ''(DEFAULT)'' (remove_str ''(default)'' raw))"

fun scan_levels :: "string list \<Rightarrow> reasoning_info \<Rightarrow> reasoning_info" where
  "scan_levels [] info = info"
| "scan_levels (raw # rs) info =
     (let level = level_name raw in
      if level = [] then scan_levels rs info
      else scan_levels rs
        \<lparr>ri_levels = ri_levels info @ [level],
         ri_default_level =
           (if is_default_level raw \<and> ri_default_level info = None then Some level else ri_default_level info)\<rparr>)"

definition parse_reasoning :: "string \<Rightarrow> reasoning_info" where
  "parse_reasoning line =
     (case split_str ''levels='' line of
        None \<Rightarrow> \<lparr>ri_levels = [], ri_default_level = None\<rparr>
      | Some (_, rest) \<Rightarrow>
          scan_levels (split_on CHR '','' (hd (split_on CHR '';'' rest))) \<lparr>ri_levels = [], ri_default_level = None\<rparr>)"

definition first_token_after_prefix :: "string \<Rightarrow> string \<Rightarrow> string option" where
  "first_token_after_prefix line p =
     Option.bind (strip_prefix line p) (\<lambda>rest. case split_whitespace rest of [] \<Rightarrow> None | t # _ \<Rightarrow> Some t)"

definition parse_model_header :: "string \<Rightarrow> string option" where
  "parse_model_header line =
     Option.bind (strip_prefix line ''-'') (\<lambda>rest. case utf8_chars rest of
        [] \<Rightarrow> None
      | c # cs \<Rightarrow> if is_whitespace c
                 then (case split_whitespace (concat cs) of [] \<Rightarrow> None | t # _ \<Rightarrow> if t = [] then None else Some t)
                 else None)"

definition parse_indented_field_rest :: "string \<Rightarrow> string \<Rightarrow> string option" where
  "parse_indented_field_rest line field =
     (case utf8_chars line of
        [] \<Rightarrow> None
      | c # _ \<Rightarrow> if is_whitespace c then map_option trim_start (strip_prefix (trim_start line) field) else None)"

text \<open>The state of the loop over the lines; \<open>found\<close> is the result so far.\<close>

record model_scan =
  found :: parsed_models
  current_id :: "string option"
  current_reasoning :: "string option"
  in_models_section :: bool

definition start_scan :: model_scan where
  "start_scan = \<lparr>found = no_models, current_id = None, current_reasoning = None, in_models_section = False\<rparr>"

definition option_of :: "string \<Rightarrow> string option \<Rightarrow> model_option" where
  "option_of i reason =
     (let info = map_option parse_reasoning reason
      in \<lparr>mo_model_id = i, mo_label = i, mo_thinking_levels = map_option ri_levels info,
          mo_default_thinking_level = Option.bind info ri_default_level\<rparr>)"

definition flush_model :: "model_scan \<Rightarrow> model_scan" where
  "flush_model s =
     (case current_id s of
        None \<Rightarrow> s\<lparr>current_reasoning := None\<rparr>
      | Some i \<Rightarrow>
          (let m = option_of i (current_reasoning s); f = found s
           in s\<lparr>current_id := None, current_reasoning := None,
               found := f\<lparr>pm_models := pm_models f @ [m],
                 pm_default_thinking_level :=
                   (if Some i = pm_default_model f then mo_default_thinking_level m
                    else pm_default_thinking_level f)\<rparr>\<rparr>))"

definition scan_field :: "string \<Rightarrow> model_scan \<Rightarrow> model_scan" where
  "scan_field line s =
     (if current_id s = None then s
      else case parse_indented_field_rest line ''reasoning:'' of
        Some rest \<Rightarrow> s\<lparr>current_reasoning := Some rest\<rparr>
      | None \<Rightarrow> s)"

definition scan_line :: "string \<Rightarrow> model_scan \<Rightarrow> model_scan" where
  "scan_line raw s =
     (let line = strip_cr raw in
      case first_token_after_prefix line ''default_model:'' of
        Some t \<Rightarrow> s\<lparr>found := (found s)\<lparr>pm_default_model := Some t\<rparr>\<rparr>
      | None \<Rightarrow>
     (case first_token_after_prefix line ''default_small_model:'' of
        Some t \<Rightarrow> s\<lparr>found := (found s)\<lparr>pm_default_small_model := Some t\<rparr>\<rparr>
      | None \<Rightarrow>
      if trim line = ''models:'' then s\<lparr>in_models_section := True\<rparr>
      else case (if in_models_section s then parse_model_header line else None) of
        Some i \<Rightarrow> (flush_model s)\<lparr>current_id := Some i\<rparr>
      | None \<Rightarrow> scan_field line s))"

definition parse_models :: "string \<Rightarrow> parsed_models" where
  "parse_models out = found (flush_model (fold scan_line (split_on (CHR 0x0A) out) start_scan))"

definition model_post_key :: "string \<Rightarrow> string" where
  "model_post_key key = key"

section \<open>Facets, commands, files\<close>

definition strip_one_newline :: "string \<Rightarrow> string option" where
  "strip_one_newline s = or_else (strip_prefix s [CHR 0x0D, CHR 0x0A]) (strip_prefix s [CHR 0x0A])"

definition strip_quotes :: "string \<Rightarrow> string" where
  "strip_quotes s =
     (let cs = utf8_chars s in
      if length cs \<ge> 2 \<and> (hd cs = [CHR 0x22] \<and> last cs = [CHR 0x22] \<or> hd cs = [CHR 0x27] \<and> last cs = [CHR 0x27])
      then concat (butlast (tl cs)) else s)"

definition parse_facet_name :: "string \<Rightarrow> string option" where
  "parse_facet_name content = do {
     after_open \<leftarrow> strip_prefix content ''---'';
     after_newline \<leftarrow> strip_one_newline after_open;
     (raw, _) \<leftarrow> or_else (split_str (CHR 0x0A # ''---'') after_newline)
                  (split_str (CHR 0x0D # CHR 0x0A # ''---'') after_newline);
     line \<leftarrow> (case str_lines (strip_cr raw) of [] \<Rightarrow> None | l # _ \<Rightarrow> Some l);
     value \<leftarrow> strip_prefix line ''name:'';
     Some (strip_quotes (trim value)) }"

record command_info =
  ci_name :: string
  ci_description :: "string option"

definition OMITTED_CANONICALS :: "string list" where
  "OMITTED_CANONICALS = [''/model'', ''/jobs'', ''/permissions'', ''/todo'', ''/theme'', ''/rewind'', ''/help'',
     ''/refresh'', ''/quit'', ''/detach'', ''/version'', ''/inputdebug'']"

definition slash_command :: "string \<times> string option \<Rightarrow> command_info option" where
  "slash_command cmd =
     (if fst cmd = [] \<or> fst cmd \<in> set OMITTED_CANONICALS then None
      else let name = dropWhile (\<lambda>c. c = CHR ''/'') (fst cmd)
        in if name = [] then None else Some \<lparr>ci_name = name, ci_description = snd cmd\<rparr>)"

text \<open>\<open>decode\<close> gives the canonical names and descriptions, if there are any.\<close>

definition parse_slash_commands ::
    "(string \<Rightarrow> (string \<times> string option) list option option) \<Rightarrow> string \<Rightarrow> command_info list" where
  "parse_slash_commands decode out =
     (case decode out of Some (Some cmds) \<Rightarrow> List.map_filter slash_command cmds | _ \<Rightarrow> [])"

record file_info =
  fi_path :: string
  fi_is_directory :: bool

definition parse_file_catalog :: "string list \<Rightarrow> file_info list" where
  "parse_file_catalog paths = List.map_filter (\<lambda>p.
     if p = [] then None
     else let is_directory = ends_with p ''/''; path = (if is_directory then butlast p else p)
       in if path = ''.git'' \<or> starts_with path ''.git/'' \<or> contains path ''/.git/'' then None
          else Some \<lparr>fi_path = path, fi_is_directory = is_directory\<rparr>) paths"

section \<open>Errors of opening a session\<close>

datatype restore_error_class =
  MissingCwd | DaemonStartupFailure | AuthFailure | LeaseConflict | Unreachable | OtherRestoreError

definition is_permanent :: "restore_error_class \<Rightarrow> bool" where
  "is_permanent c \<longleftrightarrow> c \<in> {MissingCwd, DaemonStartupFailure, AuthFailure}"

definition classify :: "string \<Rightarrow> restore_error_class" where
  "classify raw =
     (let has = contains raw in
      if has ''session directory no longer exists'' \<or> has ''no such directory:'' then MissingCwd
      else if has ''polytoken daemon failed to start:'' \<or> has ''polytoken daemon exited early'' then DaemonStartupFailure
      else if has ''lease claim failed (401)'' \<or> has ''unauthorized'' then AuthFailure
      else if has ''another TUI is attached'' \<or> has ''lease claim failed (409)'' then LeaseConflict
      else if has ''lease claim failed (0)'' \<or> has ''request timed out'' \<or> has ''did not become ready within''
           \<or> has ''did not become healthy within'' \<or> has ''daemon health probe failed'' \<or> has ''ECONNREFUSED''
           \<or> has ''fetch failed'' then Unreachable
      else OtherRestoreError)"

section \<open>Text without white space\<close>

lemma utf8_chars_append:
  "b = [] \<or> \<not> is_cont (hd b) \<Longrightarrow> utf8_chars (a @ b) = utf8_chars a @ utf8_chars b"
proof (induction a rule: utf8_chars.induct)
  case (2 x bs)
  have "takeWhile is_cont (bs @ b) = takeWhile is_cont bs \<and>
      dropWhile is_cont (bs @ b) = dropWhile is_cont bs @ b"
    using "2.prems" by (cases b) (auto simp: takeWhile_append dropWhile_append takeWhile_eq_all_conv [THEN iffD2])
  with 2 show ?case by simp
qed simp

text \<open>A word is what \<open>split_whitespace\<close> can yield: characters, none of them white space.\<close>

definition word :: "string \<Rightarrow> bool" where
  "word t \<longleftrightarrow> t \<noteq> [] \<and> \<not> is_cont (hd t) \<and> list_all (\<lambda>c. \<not> is_whitespace c) (utf8_chars t)
     \<and> set t \<inter> {CHR 0x0A, CHR 0x0D} = {}"

lemma word_chars [simp]: "word t \<Longrightarrow> utf8_chars t \<noteq> []"
  using utf8_chars_concat [of t] by (cases t) (simp_all add: word_def)

lemma trim_start_word: "word t \<Longrightarrow> s = [] \<or> \<not> is_cont (hd s) \<Longrightarrow> trim_start (t @ s) = t @ s"
  using utf8_chars_concat [of "t @ s"]
  by (cases "utf8_chars t") (auto simp: trim_start_def utf8_chars_append word_def)

lemma split_whitespace_word: "word t \<Longrightarrow> split_whitespace t = [t]"
  using ws_words_solid [of "utf8_chars t"] by (simp add: split_whitespace_def word_def list_all_iff)

lemma space_is_char: "\<not> is_cont (CHR '' '')"
  by (simp add: is_cont_def)

lemma space_whitespace: "is_whitespace [CHR '' '']"
  by (simp add: is_whitespace_def)

lemma utf8_space: "t = [] \<or> \<not> is_cont (hd t) \<Longrightarrow> utf8_chars (CHR '' '' # t) = [CHR '' ''] # utf8_chars t"
  using utf8_chars_append [of t "'' ''"] by simp

lemma word_hd: "word t \<Longrightarrow> t = [] \<or> \<not> is_cont (hd t)"
  by (simp add: word_def)

lemma trim_padded:
  assumes "word t"
  shows "trim t = t" and "trim (CHR '' '' # t) = t" and "trim (t @ '' '') = t" and "trim (CHR '' '' # t @ '' '') = t"
proof -
  have ends: "dropWhile is_whitespace (utf8_chars t) = utf8_chars t"
      "dropWhile is_whitespace (utf8_chars t @ ys) = utf8_chars t @ ys"
      "dropWhile is_whitespace (rev (utf8_chars t)) = rev (utf8_chars t)" for ys
    using assms by (auto simp: word_def list_all_iff dropWhile_append dropWhile_eq_self_iff hd_rev)
  have app: "utf8_chars (t @ '' '') = utf8_chars t @ [[CHR '' '']]"
    by (simp add: utf8_chars_append space_is_char)
  have app2: "utf8_chars (CHR '' '' # t @ '' '') = [CHR '' ''] # utf8_chars t @ [[CHR '' '']]"
    using utf8_space [of "t @ '' ''"] word_hd [OF assms] app assms by (cases t) (auto simp: word_def)
  show "trim t = t" "trim (CHR '' '' # t) = t" "trim (t @ '' '') = t" "trim (CHR '' '' # t @ '' '') = t"
    using ends utf8_space [OF word_hd [OF assms]]
    by (simp_all add: trim_def app app2 space_whitespace del: utf8_chars.simps)
qed

section \<open>The levels of a model\<close>

lemma contains_suffix: "contains (a @ p) p"
  by (induction a) (cases p, auto simp: starts_with_def)

lemma starts_with_set: "starts_with s p \<Longrightarrow> set p \<subseteq> set s"
  using set_take_subset [of "length p" s] by (simp add: starts_with_def)

lemma contains_set: "contains s p \<Longrightarrow> set p \<subseteq> set s"
proof (induction s)
  case (Cons a s)
  then show ?case using starts_with_set [of "a # s" p] by auto
qed simp

lemma starts_with_hd: "p \<noteq> [] \<Longrightarrow> starts_with (c # cs) p \<Longrightarrow> c = hd p"
  by (cases p) (simp_all add: starts_with_def)

lemma remove_str_absent: "hd p \<notin> set s \<Longrightarrow> remove_str p s = s"
  by (induction s) (auto dest: starts_with_hd)

lemma remove_str_self: "remove_str p p = []"
  by (cases p) (simp_all add: starts_with_def)

lemma remove_str_suffix: "hd p \<notin> set s \<Longrightarrow> remove_str p (s @ p) = s"
  by (induction s) (auto simp: remove_str_self dest: starts_with_hd)

definition level_word :: "string \<Rightarrow> bool" where
  "level_word l \<longleftrightarrow> word l \<and> list_all (\<lambda>c. c \<notin> set ''(,;'') l"

fun level_text :: "string \<times> bool \<Rightarrow> string" where
  "level_text (l, d) = l @ (if d then '' (default)'' else [])"

lemma ascii_lower_paren: "CHR ''('' \<in> set (ascii_lower s) \<longleftrightarrow> CHR ''('' \<in> set s"
proof -
  define low where "low c = (if CHR ''A'' \<le> c \<and> c \<le> CHR ''Z'' then char_of (of_char c + 32 :: nat) else c)" for c
  have low: "low c = CHR ''('' \<longleftrightarrow> c = CHR ''(''" for c
  proof (cases "CHR ''A'' \<le> c \<and> c \<le> CHR ''Z''")
    case True
    then have b: "65 \<le> (of_char c :: nat)" "(of_char c :: nat) \<le> 90" by (simp_all add: less_eq_char_def)
    have "char_of (of_char c + 32 :: nat) \<noteq> CHR ''(''"
    proof
      assume "char_of (of_char c + 32 :: nat) = CHR ''(''"
      then have "of_char (char_of (of_char c + 32 :: nat)) = (of_char (CHR ''('') :: nat)" by simp
      with b show False by simp
    qed
    with True b show ?thesis by (auto simp: low_def)
  next
    case False
    then have "low c = c" by (simp only: low_def if_False)
    then show ?thesis by simp
  qed
  have "ascii_lower s = map low s" by (simp add: ascii_lower_def low_def)
  then have "CHR ''('' \<in> set (ascii_lower s) \<longleftrightarrow> (\<exists>c\<in>set s. low c = CHR ''('')" by (simp only: set_map image_iff eq_commute [of "CHR ''('' :: char"])
  with low show ?thesis by metis
qed

lemma level_piece:
  assumes "level_word l" and "raw = level_text (l, d) \<or> raw = CHR '' '' # level_text (l, d)"
  shows "level_name raw = l" and "is_default_level raw = d"
proof -
  have w: "word l" and no: "CHR ''('' \<notin> set l" using assms(1) by (auto simp: level_word_def list_all_iff)
  have kept: "remove_str ''(DEFAULT)'' x = x" "remove_str ''(default)'' x = x" if "CHR ''('' \<notin> set x" for x
    using that by (auto intro!: remove_str_absent)
  have cut: "level_name (x @ '' '' @ ''(default)'') = trim (x @ '' '')" if "CHR ''('' \<notin> set x" for x
  proof -
    have "remove_str ''(default)'' ((x @ '' '') @ ''(default)'') = x @ '' ''"
      using that by (intro remove_str_suffix) simp
    with kept(1) [of "x @ '' ''"] that show ?thesis by (simp add: level_name_def del: remove_str.simps)
  qed
  have plain: "level_name x = trim x" if "CHR ''('' \<notin> set x" for x
    using kept [of x] that by (simp add: level_name_def del: remove_str.simps)
  show "level_name raw = l"
    using assms(2) no cut [of l] cut [of "CHR '' '' # l"] plain [of l] plain [of "CHR '' '' # l"]
    by (cases d) (auto simp: trim_padded [OF w] simp del: remove_str.simps)
  show "is_default_level raw = d"
  proof (cases d)
    case True
    with assms(2) have "raw = l @ '' '' @ ''(default)'' \<or> raw = (CHR '' '' # l @ '' '') @ ''(default)''" by simp
    moreover have "ascii_lower (x @ ''(default)'') = ascii_lower x @ ''(default)''" for x
      by (simp add: ascii_lower_def less_eq_char_def)
    ultimately show ?thesis
      using True contains_suffix by (metis append.assoc is_default_level_def)
  next
    case False
    with no assms(2) have "CHR ''('' \<notin> set (ascii_lower raw)" by (auto simp: ascii_lower_paren)
    with False show ?thesis by (auto simp: is_default_level_def dest: contains_set)
  qed
qed

lemma scan_levels_pieces:
  "list_all2 (\<lambda>raw (l, d). level_word l \<and> (raw = level_text (l, d) \<or> raw = CHR '' '' # level_text (l, d))) raws lv \<Longrightarrow>
   scan_levels raws info = \<lparr>ri_levels = ri_levels info @ map fst lv,
     ri_default_level = or_else (ri_default_level info) (map_option fst (find snd lv))\<rparr>"
proof (induction raws lv arbitrary: info rule: list_all2_induct)
  case Nil
  then show ?case by (cases "ri_default_level info") simp_all
next
  case (Cons raw raws x lv)
  obtain l d where x: "x = (l, d)" by fastforce
  with Cons have w: "level_word l" and r: "raw = level_text (l, d) \<or> raw = CHR '' '' # level_text (l, d)" by auto
  from w have "l \<noteq> []" by (simp add: level_word_def word_def)
  with level_piece [OF w r] Cons.IH x show ?case
    by (cases "ri_default_level info") (simp_all add: Let_def)
qed

section \<open>The printed catalogue\<close>

text \<open>What \<^verbatim>\<open>polytoken models\<close> prints, as the module describes it. A model has its name, other fields, and
  perhaps its levels between a text before them and a text after.\<close>

record printed_model =
  pr_id :: string
  pr_before :: "string list"
  pr_reasoning :: "(string \<times> (string \<times> bool) list \<times> string) option"
  pr_after :: "string list"

definition reasoning_text :: "string \<Rightarrow> (string \<times> bool) list \<Rightarrow> string \<Rightarrow> string" where
  "reasoning_text pre lv post = pre @ ''levels='' @ join '', '' (map level_text lv) @ post"

definition print_model :: "printed_model \<Rightarrow> string list" where
  "print_model m = [''- '' @ pr_id m] @ pr_before m @
     (case pr_reasoning m of None \<Rightarrow> [] | Some (pre, lv, post) \<Rightarrow> [''  reasoning: '' @ reasoning_text pre lv post]) @
     pr_after m"

definition print_models :: "string option \<Rightarrow> string option \<Rightarrow> printed_model list \<Rightarrow> string" where
  "print_models dflt small ms = concat (map (\<lambda>l. l @ [CHR 0x0A])
     ((case dflt of None \<Rightarrow> [] | Some d \<Rightarrow> [''default_model: '' @ d]) @
      (case small of None \<Rightarrow> [] | Some d \<Rightarrow> [''default_small_model: '' @ d]) @
      [[], ''models:''] @ concat (map print_model ms)))"

text \<open>A field that is no key of the parser, and the texts around the levels.\<close>

definition inert :: "string \<Rightarrow> bool" where
  "inert l \<longleftrightarrow> CHR 0x0A \<notin> set l \<and> (let line = strip_cr l in
     first_token_after_prefix line ''default_model:'' = None \<and>
     first_token_after_prefix line ''default_small_model:'' = None \<and> trim line \<noteq> ''models:'' \<and>
     parse_model_header line = None \<and> parse_indented_field_rest line ''reasoning:'' = None)"

definition first_at :: "string \<Rightarrow> string \<Rightarrow> bool" where
  "first_at p pre \<longleftrightarrow> list_all (\<lambda>i. \<not> starts_with (drop i (pre @ p)) p) [0..<length pre]"

definition printable :: "printed_model \<Rightarrow> bool" where
  "printable m \<longleftrightarrow> word (pr_id m) \<and> list_all inert (pr_before m @ pr_after m) \<and>
     (case pr_reasoning m of None \<Rightarrow> True | Some (pre, lv, post) \<Rightarrow>
        pre \<noteq> [] \<and> \<not> is_cont (hd pre) \<and> \<not> is_whitespace (hd (utf8_chars pre)) \<and> first_at ''levels='' pre \<and> lv \<noteq> [] \<and>
        list_all (level_word \<circ> fst) lv \<and> (post = [] \<or> hd post = CHR '';'') \<and>
        set (pre @ post) \<inter> {CHR 0x0A, CHR 0x0D} = {})"

definition printed_option :: "printed_model \<Rightarrow> model_option" where
  "printed_option m =
     \<lparr>mo_model_id = pr_id m, mo_label = pr_id m,
      mo_thinking_levels = map_option (\<lambda>(_, lv, _). map fst lv) (pr_reasoning m),
      mo_default_thinking_level = Option.bind (pr_reasoning m) (\<lambda>(_, lv, _). map_option fst (find snd lv))\<rparr>"

section \<open>Parsing it\<close>

lemma starts_with_app: "length p \<le> length a \<Longrightarrow> starts_with (a @ b) p = starts_with a p"
  by (simp add: starts_with_def)

lemma split_str_first: "first_at p pre \<Longrightarrow> p \<noteq> [] \<Longrightarrow> split_str p (pre @ p @ x) = Some (pre, x)"
proof (induction pre)
  case Nil
  then show ?case by (cases p) (simp_all add: starts_with_def)
next
  case (Cons c pre)
  have "\<not> starts_with (drop i ((c # pre) @ p)) p" if "i < length (c # pre)" for i
    using Cons.prems(1) that by (simp add: first_at_def list_all_iff del: upt_Suc)
  note no = this
  from no [of 0] have here: "\<not> starts_with ((c # pre) @ p) p" by simp
  have "first_at p pre"
    unfolding first_at_def list_all_iff
  proof
    fix i assume "i \<in> set [0..<length pre]"
    then show "\<not> starts_with (drop i (pre @ p)) p" using no [of "Suc i"] by simp
  qed
  moreover have "\<not> starts_with ((c # pre) @ p @ x) p"
    using here starts_with_app [of p "(c # pre) @ p" x] by simp
  ultimately show ?case using Cons by simp
qed

lemma split_levels: "\<forall>p \<in> set (q # ps). CHR '','' \<notin> set p \<Longrightarrow>
    split_on CHR '','' (join '', '' (q # ps)) = q # map (Cons CHR '' '') ps"
proof (induction ps arbitrary: q)
  case Nil
  then show ?case by (simp add: split_on_single)
next
  case (Cons p ps)
  then have "split_on CHR '','' (join '', '' (p # ps)) = p # map (Cons CHR '' '') ps" by simp
  with Cons.prems show ?case by (simp add: split_on_append)
qed

lemma level_text_chars:
  assumes "level_word l"
  shows "set (level_text (l, d)) \<inter> {CHR '','', CHR '';'', CHR 0x0A, CHR 0x0D} = {}"
  using assms by (auto simp: level_word_def word_def list_all_iff)

lemma levels_chars:
  assumes "list_all (level_word \<circ> fst) lv"
  shows "set (join '', '' (map level_text lv)) \<inter> {CHR '';'', CHR 0x0A, CHR 0x0D} = {}"
proof -
  have "set (level_text x) \<inter> {CHR '';'', CHR 0x0A, CHR 0x0D} = {}" if "x \<in> set lv" for x
    using assms that level_text_chars [of "fst x" "snd x"] by (auto simp: list_all_iff)
  with set_join [of "'', ''" "map level_text lv"] show ?thesis by fastforce
qed

lemma parse_reasoning_text:
  assumes "first_at ''levels='' pre" and lv: "list_all (level_word \<circ> fst) lv" "lv \<noteq> []"
    and post: "post = [] \<or> hd post = CHR '';''"
  shows "parse_reasoning (reasoning_text pre lv post) = \<lparr>ri_levels = map fst lv, ri_default_level = map_option fst (find snd lv)\<rparr>"
proof -
  let ?t = "join '', '' (map level_text lv)"
  have t: "CHR '';'' \<notin> set ?t" using levels_chars [OF lv(1)] by auto
  have "hd (split_on CHR '';'' (?t @ post)) = ?t"
    using t post by (cases post) (auto simp: split_on_append split_on_single)
  moreover obtain x xs where x: "lv = x # xs" using lv(2) by (cases lv) auto
  have "\<forall>p \<in> set (level_text x # map level_text xs). CHR '','' \<notin> set p"
  proof
    fix p assume "p \<in> set (level_text x # map level_text xs)"
    then have "p \<in> level_text ` set lv" using x by simp
    then obtain y where "y \<in> set lv" "p = level_text y" by blast
    with lv(1) level_text_chars [of "fst y" "snd y"] show "CHR '','' \<notin> set p" by (auto simp: list_all_iff)
  qed
  from split_levels [OF this] have "split_on CHR '','' ?t = level_text x # map (Cons CHR '' '') (map level_text xs)"
    using x by simp
  moreover have "list_all2 (\<lambda>raw (l, d). level_word l \<and> (raw = level_text (l, d) \<or> raw = CHR '' '' # level_text (l, d)))
      (level_text x # map (Cons CHR '' '') (map level_text xs)) lv"
    using lv(1) unfolding x by (cases x) (auto simp: list_all2_map1 list_all2_same list_all_iff simp del: level_text.simps)
  moreover have "split_str ''levels='' (pre @ ''levels='' @ ?t @ post) = Some (pre, ?t @ post)"
    using assms(1) by (intro split_str_first) simp_all
  ultimately show ?thesis
    by (simp add: parse_reasoning_def reasoning_text_def scan_levels_pieces del: level_text.simps scan_levels.simps)
qed

text \<open>The lines one by one.\<close>

lemma strip_cr_id: "CHR 0x0D \<notin> set l \<Longrightarrow> strip_cr l = l"
  by (metis last_in_set strip_cr_def)

lemma scan_inert: "inert l \<Longrightarrow> scan_line l s = s"
  by (simp add: scan_line_def scan_field_def inert_def Let_def)

lemma no_prefix: "l = [] \<or> hd l \<noteq> CHR ''d'' \<Longrightarrow>
    first_token_after_prefix l ''default_model:'' = None \<and> first_token_after_prefix l ''default_small_model:'' = None"
  by (cases l) (simp_all add: first_token_after_prefix_def strip_prefix_def starts_with_def)

lemma token_after:
  assumes "word t"
  shows "first_token_after_prefix (p @ '' '' @ t) p = Some t"
proof -
  have "split_whitespace (CHR '' '' # t) = [t]"
    using split_whitespace_word [OF assms] utf8_space [OF word_hd [OF assms]]
    by (simp add: split_whitespace_def space_whitespace del: utf8_chars.simps)
  then show ?thesis by (simp add: first_token_after_prefix_def strip_prefix_def starts_with_def)
qed

lemma word_no_cr: "word t \<Longrightarrow> CHR 0x0D \<notin> set t \<and> CHR 0x0A \<notin> set t"
  by (auto simp: word_def)

lemma scan_default: "word d \<Longrightarrow>
    scan_line (''default_model: '' @ d) s = s\<lparr>found := (found s)\<lparr>pm_default_model := Some d\<rparr>\<rparr>"
  using token_after [of d "''default_model:''"] word_no_cr [of d]
  by (simp add: scan_line_def Let_def strip_cr_id)

lemma scan_small: "word d \<Longrightarrow>
    scan_line (''default_small_model: '' @ d) s = s\<lparr>found := (found s)\<lparr>pm_default_small_model := Some d\<rparr>\<rparr>"
  using token_after [of d "''default_small_model:''"] word_no_cr [of d]
  by (simp add: scan_line_def Let_def strip_cr_id first_token_after_prefix_def strip_prefix_def starts_with_def)

lemma scan_section: "scan_line ''models:'' s = s\<lparr>in_models_section := True\<rparr>"
proof -
  have "word ''models:''" by (simp add: word_def is_cont_def is_whitespace_def)
  with no_prefix [of "''models:''"] show ?thesis
    by (simp add: scan_line_def Let_def strip_cr_id trim_padded del: utf8_chars.simps)
qed

lemma hd_trim: "dropWhile is_whitespace (utf8_chars s) = c # cs \<Longrightarrow> \<exists>r. trim s = c @ r"
proof -
  assume d: "dropWhile is_whitespace (utf8_chars s) = c # cs"
  then have "\<not> is_whitespace c" by (metis hd_dropWhile list.distinct(1) list.sel(1))
  with d have "trim s = concat (c # rev (dropWhile is_whitespace (rev cs)))"
    by (cases "\<forall>x\<in>set cs. is_whitespace x")
      (auto simp: trim_def dropWhile_append dropWhile_eq_Nil_conv [THEN iffD2])
  then show ?thesis by simp
qed

lemma scan_header:
  assumes "word i" and "in_models_section s"
  shows "scan_line (''- '' @ i) s = (flush_model s)\<lparr>current_id := Some i\<rparr>"
proof -
  have u: "utf8_chars (''- '' @ i) = [CHR ''-''] # [CHR '' ''] # utf8_chars i"
    using utf8_chars_append [of "CHR '' '' # i" "''-''"] utf8_space [OF word_hd [OF assms(1)]] by (simp add: is_cont_def)
  then have "dropWhile is_whitespace (utf8_chars (''- '' @ i)) = [CHR ''-''] # [CHR '' ''] # utf8_chars i"
    by (simp add: is_whitespace_def del: utf8_chars.simps)
  from hd_trim [OF this] have t: "trim (''- '' @ i) \<noteq> ''models:''" by auto
  have h: "parse_model_header (''- '' @ i) = Some i"
    using utf8_space [OF word_hd [OF assms(1)]] split_whitespace_word [OF assms(1)] assms(1)
    by (simp add: parse_model_header_def strip_prefix_def starts_with_def space_whitespace word_def del: utf8_chars.simps)
  have "strip_cr (''- '' @ i) = ''- '' @ i" using word_no_cr [OF assms(1)] by (simp add: strip_cr_id)
  with t h no_prefix [of "''- '' @ i"] assms(2) show ?thesis by (simp add: scan_line_def Let_def)
qed

lemma scan_reasoning:
  assumes "T \<noteq> []" and "\<not> is_cont (hd T)" and "\<not> is_whitespace (hd (utf8_chars T))" and "CHR 0x0D \<notin> set T"
  shows "scan_line (''  reasoning: '' @ T) s = (if current_id s = None then s else s\<lparr>current_reasoning := Some T\<rparr>)"
proof -
  obtain c cs where T: "utf8_chars T = c # cs" using assms(1) by (cases T) auto
  have lit: "utf8_chars ''  reasoning: '' = map (\<lambda>c. [c]) ''  reasoning: ''" by (simp add: is_cont_def)
  have u: "utf8_chars (''  reasoning: '' @ T) = map (\<lambda>c. [c]) ''  reasoning: '' @ utf8_chars T"
    unfolding lit [symmetric] using assms(2) by (intro utf8_chars_append) simp
  then have dw: "dropWhile is_whitespace (utf8_chars (''  reasoning: '' @ T)) =
      map (\<lambda>c. [c]) ''reasoning: '' @ utf8_chars T"
    by (simp add: is_whitespace_def del: utf8_chars.simps)
  from dw hd_trim [of "''  reasoning: '' @ T" "''r''" "map (\<lambda>c. [c]) ''easoning: '' @ utf8_chars T"]
  have t: "trim (''  reasoning: '' @ T) \<noteq> ''models:''" by (auto simp del: utf8_chars.simps)
  have ts: "trim_start (''  reasoning: '' @ T) = ''reasoning: '' @ T"
    using dw by (simp add: trim_start_def del: utf8_chars.simps)
  have tt: "trim_start ('' '' @ T) = T"
    using T assms(2,3) utf8_space [of T] utf8_chars_concat [of T]
    by (simp add: trim_start_def space_whitespace del: utf8_chars.simps utf8_chars_concat)
  have "parse_indented_field_rest (''  reasoning: '' @ T) ''reasoning:'' = Some T"
    using u ts tt by (simp add: parse_indented_field_rest_def strip_prefix_def starts_with_def space_whitespace del: utf8_chars.simps)
  moreover have "parse_model_header (''  reasoning: '' @ T) = None"
    by (simp add: parse_model_header_def strip_prefix_def starts_with_def)
  moreover have "strip_cr (''  reasoning: '' @ T) = ''  reasoning: '' @ T" using assms(4) by (simp add: strip_cr_id)
  ultimately show ?thesis
    using t no_prefix [of "''  reasoning: '' @ T"] by (simp add: scan_line_def scan_field_def Let_def)
qed

lemma fold_inert: "list_all inert ls \<Longrightarrow> fold scan_line ls s = s"
  by (induction ls) (simp_all add: scan_inert)

lemma print_model_scan:
  assumes m: "printable m" and "in_models_section s"
  shows "fold scan_line (print_model m) s = (flush_model s)\<lparr>current_id := Some (pr_id m),
    current_reasoning := map_option (\<lambda>(pre, lv, post). reasoning_text pre lv post) (pr_reasoning m)\<rparr>"
proof -
  have none: "current_reasoning (flush_model s) = None"
    by (simp add: flush_model_def Let_def split: option.split)
  have w: "word (pr_id m)" and b: "list_all inert (pr_before m)" "list_all inert (pr_after m)"
    using m by (simp_all add: printable_def)
  show ?thesis
  proof (cases "pr_reasoning m")
    case None
    with none show ?thesis
      unfolding print_model_def
      using w b assms(2) by (simp add: scan_header fold_inert del: append_Cons append.simps)
  next
    case (Some r)
    then obtain pre lv post where r: "pr_reasoning m = Some (pre, lv, post)" by (cases r) auto
    let ?T = "reasoning_text pre lv post"
    have p: "pre \<noteq> []" "\<not> is_cont (hd pre)" "\<not> is_whitespace (hd (utf8_chars pre))"
        "list_all (level_word \<circ> fst) lv" "set (pre @ post) \<inter> {CHR 0x0A, CHR 0x0D} = {}"
      using m r by (simp_all add: printable_def)
    have "utf8_chars ?T = utf8_chars pre @ utf8_chars (''levels='' @ join '', '' (map level_text lv) @ post)"
      unfolding reasoning_text_def by (intro utf8_chars_append) (simp add: is_cont_def)
    moreover have "utf8_chars pre \<noteq> []" using p(1) by (cases pre) auto
    ultimately have "hd (utf8_chars ?T) = hd (utf8_chars pre)" by simp
    moreover have "CHR 0x0D \<notin> set ?T" using p(5) levels_chars [OF p(4)] by (auto simp: reasoning_text_def)
    moreover have "?T \<noteq> []" "hd ?T = hd pre" using p(1) by (simp_all add: reasoning_text_def)
    ultimately have "scan_line (''  reasoning: '' @ ?T) s' = (if current_id s' = None then s' else s'\<lparr>current_reasoning := Some ?T\<rparr>)" for s'
      using p(2,3) by (intro scan_reasoning) simp_all
    with r show ?thesis
      unfolding print_model_def
      using w b assms(2) by (simp add: scan_header fold_inert del: append_Cons append.simps)
  qed
qed

definition add_option :: "printed_model \<Rightarrow> parsed_models \<Rightarrow> parsed_models" where
  "add_option m f = f\<lparr>pm_models := pm_models f @ [printed_option m],
     pm_default_thinking_level := (if Some (pr_id m) = pm_default_model f then mo_default_thinking_level (printed_option m)
       else pm_default_thinking_level f)\<rparr>"

lemma option_of_printed:
  "printable m \<Longrightarrow>
   option_of (pr_id m) (map_option (\<lambda>(pre, lv, post). reasoning_text pre lv post) (pr_reasoning m)) = printed_option m"
  by (auto simp: option_of_def printed_option_def printable_def parse_reasoning_text Let_def split: option.splits)

lemma scan_models:
  "list_all printable ms \<Longrightarrow> in_models_section s \<Longrightarrow>
   found (flush_model (fold scan_line (concat (map print_model ms)) s)) = fold add_option ms (found (flush_model s))"
proof (induction ms arbitrary: s)
  case (Cons m ms)
  let ?s = "(flush_model s)\<lparr>current_id := Some (pr_id m),
    current_reasoning := map_option (\<lambda>(pre, lv, post). reasoning_text pre lv post) (pr_reasoning m)\<rparr>"
  have "in_models_section (flush_model s)" using Cons.prems by (simp add: flush_model_def Let_def split: option.split)
  moreover have "found (flush_model ?s) = add_option m (found (flush_model s))"
    using Cons.prems option_of_printed [of m] by (simp add: flush_model_def [of ?s] add_option_def Let_def)
  ultimately show ?case using Cons print_model_scan [of m s] by simp
qed simp

lemma split_on_lines:
  "\<forall>l \<in> set ls. c \<notin> set l \<Longrightarrow> split_on c (concat (map (\<lambda>l. l @ [c]) ls)) = ls @ [[]]"
  by (induction ls) (simp_all add: split_on_append)

lemma print_model_no_lf:
  assumes "printable m" and "l \<in> set (print_model m)"
  shows "CHR 0x0A \<notin> set l"
proof -
  have "CHR 0x0A \<notin> set (reasoning_text pre lv post)" if "pr_reasoning m = Some (pre, lv, post)" for pre lv post
    using that assms(1) levels_chars [of lv] by (auto simp: printable_def reasoning_text_def)
  with assms show ?thesis
    by (auto simp: print_model_def printable_def list_all_iff inert_def word_def split: option.splits)
qed

text \<open>A printed catalogue of models is read back whole: every model with its name, its thinking levels in
  order and the level marked as default, the two default models, and the level of the model that is the default
  (of the last one, if the name occurs twice).\<close>

theorem models_roundtrip:
  assumes "list_all printable ms" and "pred_option word dflt" and "pred_option word small"
  shows "parse_models (print_models dflt small ms) =
    \<lparr>pm_models = map printed_option ms, pm_default_model = dflt, pm_default_small_model = small,
     pm_default_thinking_level =
       Option.bind (find (\<lambda>m. Some (pr_id m) = dflt) (rev ms)) (mo_default_thinking_level \<circ> printed_option)\<rparr>"
proof -
  let ?head = "(case dflt of None \<Rightarrow> [] | Some d \<Rightarrow> [''default_model: '' @ d]) @
      (case small of None \<Rightarrow> [] | Some d \<Rightarrow> [''default_small_model: '' @ d]) @ [[], ''models:'']"
  let ?s = "\<lparr>found = no_models\<lparr>pm_default_model := dflt, pm_default_small_model := small\<rparr>,
     current_id = None, current_reasoning = None, in_models_section = True\<rparr>"
  have "inert []" by (simp add: inert_def strip_cr_def no_prefix Let_def trim_def parse_model_header_def
      strip_prefix_def starts_with_def parse_indented_field_rest_def)
  with assms have h: "fold scan_line ?head start_scan = ?s"
    by (cases dflt; cases small)
      (simp_all add: start_scan_def no_models_def scan_inert scan_section scan_default scan_small del: append_Cons append.simps)
  have no: "\<forall>l \<in> set (?head @ concat (map print_model ms)). CHR 0x0A \<notin> set l"
    using assms print_model_no_lf by (auto simp: list_all_iff word_def split: option.splits)
  have "parse_models (print_models dflt small ms) =
      found (flush_model (fold scan_line (?head @ concat (map print_model ms) @ [[]]) start_scan))"
    using split_on_lines [OF no] by (simp add: parse_models_def print_models_def)
  also have "\<dots> = fold add_option ms (found (flush_model ?s))"
    using h scan_models [OF assms(1), of ?s] scan_inert [OF \<open>inert []\<close>] by (simp del: append_assoc add: append_assoc [symmetric])
  also have "\<dots> = fold add_option ms (found ?s)" by (simp add: flush_model_def)
  also have "fold add_option ms f = f\<lparr>pm_models := pm_models f @ map printed_option ms,
      pm_default_thinking_level := (case find (\<lambda>m. Some (pr_id m) = pm_default_model f) (rev ms) of
        None \<Rightarrow> pm_default_thinking_level f | Some m \<Rightarrow> mo_default_thinking_level (printed_option m))\<rparr>" for f
  proof (induction ms arbitrary: f)
    case (Cons m ms)
    have "find P (xs @ [x]) = (case find P xs of Some y \<Rightarrow> Some y | None \<Rightarrow> if P x then Some x else None)" for P and xs :: "printed_model list" and x
      by (induction xs) simp_all
    with Cons show ?case by (simp add: add_option_def split: option.split)
  qed simp
  finally show ?thesis
    by (simp add: no_models_def split: option.split)
qed

definition ex_models :: "printed_model list" where
  "ex_models = [\<lparr>pr_id = ''p/a'', pr_before = [''  provider: p/a''],
     pr_reasoning = Some (''effort set=x; '', [(''low'', False), (''high'', True)], ''; can_disable=yes''),
     pr_after = [''  selectable: p/a, p/a(low)'']\<rparr>]"

lemma models_roundtrip_witness:
  "parse_models (print_models (Some ''p/a'') None ex_models) =
     \<lparr>pm_models = [\<lparr>mo_model_id = ''p/a'', mo_label = ''p/a'', mo_thinking_levels = Some [''low'', ''high''],
        mo_default_thinking_level = Some ''high''\<rparr>],
      pm_default_model = Some ''p/a'', pm_default_small_model = None, pm_default_thinking_level = Some ''high''\<rparr>"
proof -
  have "list_all printable ex_models" by code_simp
  moreover have "word ''p/a''" by code_simp
  ultimately show ?thesis
    using models_roundtrip [of ex_models "Some ''p/a''" None] by (simp add: ex_models_def printed_option_def)
qed

section \<open>Limits of the parsers\<close>

text \<open>A marker in mixed case is recognised, but stays part of the name of the level.\<close>

lemma mixed_case_marker_kept:
  "parse_reasoning ''levels=high (Default), low'' =
     \<lparr>ri_levels = [''high (Default)'', ''low''], ri_default_level = Some ''high (Default)''\<rparr>"
  by code_simp

text \<open>The name of a facet is found on the first line of the front matter only.\<close>

lemma facet_name_first_line:
  "parse_facet_name (''---'' @ [CHR 0x0A] @ ''name: plan'' @ [CHR 0x0A] @ ''---'') = Some ''plan''"
  "parse_facet_name (''---'' @ [CHR 0x0A] @ ''model: m'' @ [CHR 0x0A] @ ''name: plan'' @ [CHR 0x0A] @ ''---'') = None"
  by code_simp+

text \<open>A \<open>.git\<close> directory below the root is listed, although what is inside it is not.\<close>

lemma nested_git_listed:
  "map fi_path (parse_file_catalog [''.git/'', ''lib/.git/'', ''lib/.git/config'']) = [''lib/.git'']"
  by code_simp

lemma commands_bare:
  assumes "c \<in> set (parse_slash_commands decode out)"
  shows "ci_name c \<noteq> [] \<and> hd (ci_name c) \<noteq> CHR ''/''"
proof -
  from assms obtain cmd where "slash_command cmd = Some c"
    by (auto simp: parse_slash_commands_def List.map_filter_def split: option.splits)
  then have n: "ci_name c = dropWhile (\<lambda>c. c = CHR ''/'') (fst cmd)" "ci_name c \<noteq> []"
    by (auto simp: slash_command_def Let_def split: if_splits)
  then show ?thesis using hd_dropWhile [of "\<lambda>c. c = CHR ''/''" "fst cmd"] by simp
qed

lemma contains_nil [simp]: "contains x []"
  by (cases x) (simp_all add: starts_with_def)

lemma contains_prefix: "contains (p @ x) p"
  by (cases p) (simp_all add: starts_with_def)

lemma classify_missing: "contains e ''session directory no longer exists'' \<Longrightarrow> classify e = MissingCwd"
  by (simp add: classify_def Let_def del: contains.simps)

end
