(* ===== verification/Driver_Catalogues.thy ===== *)
theory Driver_Catalogues
  imports Session_Stores Catalogues
begin

text \<open>
  What the driver looks up for the pickers, \<^verbatim>\<open>polytoken/driver.rs\<close>: models, facets, commands, files and
  directories, with the caches of the binary's answers. The binary runs in the world of \<open>shell\<close>;
  \<open>Model_Cache\<close> has the concurrent fetches of the models, here a fetch is one step.
\<close>

section \<open>Caches\<close>

datatype catalog_diagnostic = EmptyOutput string | CouldNotBeParsed string | NoResponse string

record caches =
  model_cache :: "parsed_models option"
  diagnostic :: "catalog_diagnostic option"
  facet_cache :: "string \<rightharpoonup> string list"
  command_cache :: "string \<rightharpoonup> command_info list"

definition invalidate_model_cache :: "caches \<Rightarrow> caches" where
  "invalidate_model_cache c = c\<lparr>model_cache := None, diagnostic := None\<rparr>"

definition invalidate_all_config_caches :: "caches \<Rightarrow> caches" where
  "invalidate_all_config_caches c =
     c\<lparr>model_cache := None, diagnostic := None, facet_cache := Map.empty, command_cache := Map.empty\<rparr>"

definition invalidate_cwd_config_caches :: "string \<Rightarrow> caches \<Rightarrow> caches" where
  "invalidate_cwd_config_caches cwd c =
     c\<lparr>facet_cache := (facet_cache c)(cwd := None), command_cache := (command_cache c)(cwd := None)\<rparr>"

section \<open>The directory of a session\<close>

definition target_warm_for_read :: "pool \<Rightarrow> string option \<Rightarrow> warm_session option" where
  "target_warm_for_read p session = (case session of Some sid \<Rightarrow> warm p sid | None \<Rightarrow> active_warm p)"

definition targeted_session_cwd :: "site \<Rightarrow> files \<Rightarrow> pool \<Rightarrow> string option \<Rightarrow> string option" where
  "targeted_session_cwd S fs p session = Option.bind (target_warm_for_read p session) (warm_cwd S fs)"

definition file_lookup_root :: "site \<Rightarrow> files \<Rightarrow> pool \<Rightarrow> string option \<Rightarrow> string option \<Rightarrow> string option" where
  "file_lookup_root S fs p cwd session =
     or_else (case cwd of Some r \<Rightarrow> if r = [] then None else Some r | None \<Rightarrow> None) (targeted_session_cwd S fs p session)"

section \<open>Models\<close>

definition run_polytoken ::
    "'w shell \<Rightarrow> string \<Rightarrow> string list \<Rightarrow> string option \<Rightarrow> 'w \<Rightarrow> (string + command_output) \<times> 'w" where
  "run_polytoken sh binary args cwd w = run_in sh cwd binary args w"

definition models_diagnostic :: "command_output \<Rightarrow> catalog_diagnostic option" where
  "models_diagnostic out =
     (if pm_models (parse_models (stdout out)) \<noteq> [] then None
      else if trim (stdout out) = []
      then Some (EmptyOutput
        (if trim (stderr out) = [] then ''polytoken models returned empty stdout''
         else ''polytoken models returned empty stdout; stderr: '' @ concat (take 500 (utf8_chars (stderr out)))))
      else Some (CouldNotBeParsed ''polytoken models returned output, but no model entries were parsed''))"

definition get_or_fetch_parsed_models :: "'w shell \<Rightarrow> string \<Rightarrow> caches \<times> 'w \<Rightarrow> parsed_models \<times> caches \<times> 'w" where
  "get_or_fetch_parsed_models sh binary cw =
     (let (c, w) = cw in
      case model_cache c of
        Some parsed \<Rightarrow> (parsed, c, w)
      | None \<Rightarrow> (case run_polytoken sh binary [''models''] None w of
          (Inr out, w1) \<Rightarrow>
            (let parsed = parse_models (stdout out)
             in (parsed, c\<lparr>model_cache := Some parsed, diagnostic := models_diagnostic out\<rparr>, w1))
        | (Inl _, w1) \<Rightarrow> (no_models, c\<lparr>diagnostic := Some
            (NoResponse ''could not discover models; check polytoken configuration'')\<rparr>, w1)))"

record model_defaults =
  md_model_id :: "string option"
  md_thinking_level :: "string option"
  md_permission_monitor :: "permission_monitor_mode option"

text \<open>\<open>config_default\<close> is what the daemon of a warm session answers, if it does.\<close>

definition get_model_defaults ::
    "'w shell \<Rightarrow> string \<Rightarrow> site \<Rightarrow> (string \<Rightarrow> permission_monitor option) \<Rightarrow> pool \<Rightarrow> caches \<times> 'w
      \<Rightarrow> model_defaults \<times> caches \<times> 'w" where
  "get_model_defaults sh binary S config_default p cw =
     (let (parsed, cw1) = get_or_fetch_parsed_models sh binary cw
      in (\<lparr>md_model_id = pm_default_model parsed, md_thinking_level = pm_default_thinking_level parsed,
           md_permission_monitor =
             map_option monitor_to_mode (Option.bind (find (\<lambda>i. config_default i \<noteq> None) (walk S (warm p))) config_default)\<rparr>, cw1))"

section \<open>Commands and facets\<close>

definition list_commands ::
    "'w shell \<Rightarrow> string \<Rightarrow> (string \<Rightarrow> (string \<times> string option) list option option) \<Rightarrow> string option \<Rightarrow> caches \<times> 'w
      \<Rightarrow> command_info list \<times> caches \<times> 'w" where
  "list_commands sh binary decode dir cw =
     (let (c, w) = cw in
      case dir of
        None \<Rightarrow> ([], c, w)
      | Some cwd \<Rightarrow> (case command_cache c cwd of
          Some cached \<Rightarrow> (cached, c, w)
        | None \<Rightarrow> (case run_polytoken sh binary
              [''--working-dir'', cwd, ''print-slash-commands'', ''--format'', ''json''] (Some cwd) w of
            (Inr out, w1) \<Rightarrow>
              (let cmds = parse_slash_commands decode (stdout out)
               in (cmds, c\<lparr>command_cache := (command_cache c)(cwd \<mapsto> cmds)\<rparr>, w1))
          | (Inl _, w1) \<Rightarrow> ([], c, w1))))"

definition builtin_facets :: "string list" where
  "builtin_facets = [''execute'', ''plan'']"

function trim_end_matches :: "string \<Rightarrow> string \<Rightarrow> string" where
  "trim_end_matches p s =
     (if p \<noteq> [] \<and> ends_with s p then trim_end_matches p (take (length s - length p) s) else s)"
  by pat_completeness auto
termination
  by (relation "measure (length \<circ> snd)") (auto simp: ends_with_def intro!: diff_less)

declare trim_end_matches.simps [simp del]

definition facet_name :: "'w shell \<Rightarrow> string \<Rightarrow> string \<Rightarrow> string \<Rightarrow> 'w \<Rightarrow> string \<times> 'w" where
  "facet_name sh binary cwd file w =
     (case run_polytoken sh binary [''--working-dir'', cwd, ''vfs'', ''cat'', ''polytoken://facets/'' @ file] (Some cwd) w of
        (Inr out, w1) \<Rightarrow> (unwrap_or (parse_facet_name (stdout out)) (trim_end_matches ''.md'' file), w1)
      | (Inl _, w1) \<Rightarrow> (trim_end_matches ''.md'' file, w1))"

fun facet_names :: "'w shell \<Rightarrow> string \<Rightarrow> string \<Rightarrow> string list \<Rightarrow> 'w \<Rightarrow> string list \<times> 'w" where
  "facet_names sh binary cwd [] w = ([], w)"
| "facet_names sh binary cwd (f # fs) w =
     (let (n, w1) = facet_name sh binary cwd f w; (ns, w2) = facet_names sh binary cwd fs w1 in (n # ns, w2))"

definition list_facets ::
    "'w shell \<Rightarrow> string \<Rightarrow> string option \<Rightarrow> caches \<times> 'w \<Rightarrow> string list \<times> caches \<times> 'w" where
  "list_facets sh binary dir cw =
     (let (c, w) = cw in
      case dir of
        None \<Rightarrow> (builtin_facets, c, w)
      | Some cwd \<Rightarrow> (case facet_cache c cwd of
          Some cached \<Rightarrow> (cached, c, w)
        | None \<Rightarrow> (case run_polytoken sh binary
              [''--working-dir'', cwd, ''vfs'', ''ls'', ''polytoken://facets''] (Some cwd) w of
            (Inl _, w1) \<Rightarrow> (builtin_facets, c, w1)
          | (Inr out, w1) \<Rightarrow>
              (let listed = filter (\<lambda>l. ends_with l ''.md'') (map trim (str_lines (stdout out)))
               in if listed = [] then (builtin_facets, c, w1)
                  else let (names, w2) = facet_names sh binary cwd listed w1;
                           facets = (if names = [] then builtin_facets else names)
                       in (facets, c\<lparr>facet_cache := (facet_cache c)(cwd \<mapsto> facets)\<rparr>, w2)))))"

section \<open>Files and directories\<close>

text \<open>The answer to \<open>GET /files\<close>, if any. The second component is the mark of a truncated list.\<close>

definition list_file_index :: "pool \<Rightarrow> (string \<Rightarrow> string list option) \<Rightarrow> string option \<Rightarrow> file_info list \<times> bool" where
  "list_file_index p files session =
     (case Option.bind session (\<lambda>sid. if warm p sid = None then None else files sid) of
        Some fs \<Rightarrow> (parse_file_catalog fs, False)
      | None \<Rightarrow> ([], False))"

text \<open>The absolute path of a picker, normalised without looking at the disk. A component of a path is what lies
  between slashes and is neither empty nor a dot; a leading dot is dropped as well.\<close>

fun push_component :: "string \<Rightarrow> string list \<Rightarrow> string list" where
  "push_component c ds = (if c = [] \<or> c = ''.'' then ds else if c = ''..'' then butlast ds else ds @ [c])"

definition normalise_absolute :: "string \<Rightarrow> string" where
  "normalise_absolute path = ''/'' @ join ''/'' (fold push_component (split_on CHR ''/'' path) [])"

definition resolve_picker_path :: "string option \<Rightarrow> string option \<Rightarrow> string" where
  "resolve_picker_path home_var path =
     (let home = unwrap_or home_var ''/''; raw = trim (unwrap_or path [])
      in if raw = [] \<or> raw = ''~'' then home
         else case strip_prefix raw ''~/'' of
           Some rest \<Rightarrow> normalise_absolute (path_join home rest)
         | None \<Rightarrow> normalise_absolute (if starts_with raw ''/'' then raw else path_join home raw))"

record dir_listing =
  dl_path :: string
  dl_parent :: "string option"
  dl_entries :: "string list"
  dl_error :: "bool option"

text \<open>\<open>read_dir\<close> gives the names in a directory with whether each is a directory itself; \<open>parent\<close> is
  \<open>Path::parent\<close>.\<close>

definition list_dir ::
    "(string \<Rightarrow> (string \<times> bool) list option) \<Rightarrow> (string \<Rightarrow> string option) \<Rightarrow> string option \<Rightarrow> string option \<Rightarrow> dir_listing" where
  "list_dir read_dir parent home_var path =
     (let target = resolve_picker_path home_var path;
          up = (case parent target of Some q \<Rightarrow> if q = target then None else Some q | None \<Rightarrow> None)
      in case read_dir target of
           Some es \<Rightarrow> \<lparr>dl_path = target, dl_parent = up, dl_entries = sort (map fst (filter snd es)), dl_error = None\<rparr>
         | None \<Rightarrow> \<lparr>dl_path = target, dl_parent = up, dl_entries = [], dl_error = Some True\<rparr>)"

record path_stat =
  st_path :: string
  st_exists :: bool
  st_is_dir :: bool

definition stat_path :: "(string \<Rightarrow> bool) \<Rightarrow> (string \<Rightarrow> bool) \<Rightarrow> string option \<Rightarrow> string \<Rightarrow> path_stat" where
  "stat_path exists_at dir_at home_var path =
     (let r = resolve_picker_path home_var (Some path) in \<lparr>st_path = r, st_exists = exists_at r, st_is_dir = dir_at r\<rparr>)"

record branch_list =
  bl_path :: string
  bl_branches :: "string list"
  bl_error :: "bool option"

definition branches_of :: "'w shell \<Rightarrow> string \<Rightarrow> 'w \<Rightarrow> branch_list \<times> 'w" where
  "branches_of sh path w =
     (case list_branches sh path w of
        (Inr bs, w1) \<Rightarrow> (\<lparr>bl_path = path, bl_branches = bs, bl_error = None\<rparr>, w1)
      | (Inl _, w1) \<Rightarrow> (\<lparr>bl_path = path, bl_branches = [], bl_error = Some True\<rparr>, w1))"

section \<open>The pickers\<close>

text \<open>Every list of facets in the cache names a facet.\<close>

definition facets_ok :: "caches \<Rightarrow> bool" where
  "facets_ok c \<longleftrightarrow> [] \<notin> ran (facet_cache c)"

lemma facet_names_length: "length (fst (facet_names sh b cwd fs w)) = length fs"
  by (induction fs arbitrary: w) (simp_all add: split_beta Let_def)

lemma facets_ok_invalidate [intro]:
  "facets_ok c \<Longrightarrow> facets_ok (invalidate_cwd_config_caches cwd c)" "facets_ok (invalidate_all_config_caches c)"
  by (auto simp: facets_ok_def invalidate_cwd_config_caches_def invalidate_all_config_caches_def ran_def split: if_splits)

text \<open>The picker of facets is never empty, and asking a second time runs nothing.\<close>

lemma list_facets_total:
  assumes "facets_ok c" and "list_facets sh b dir (c, w) = (fs, c', w')"
  shows "fs \<noteq> [] \<and> facets_ok c' \<and> model_cache c' = model_cache c \<and> command_cache c' = command_cache c"
  using assms
  by (auto simp: list_facets_def facets_ok_def builtin_facets_def ran_def Let_def split_beta
      split: option.splits sum.splits if_splits prod.splits)

definition cached_facets :: "string option \<Rightarrow> caches \<Rightarrow> string list option" where
  "cached_facets dir c = Option.bind dir (facet_cache c)"

lemma list_facets_cached:
  "cached_facets dir c = Some fs \<Longrightarrow> list_facets sh b dir (c, w) = (fs, c, w)"
  by (cases dir) (simp_all add: cached_facets_def list_facets_def)

lemma list_commands_cached:
  assumes "list_commands sh b decode (Some cwd) (c, w) = (cs, c', w')" and "command_cache c' cwd \<noteq> None"
  shows "list_commands sh b decode (Some cwd) (c', w'') = (cs, c', w'')"
  using assms by (auto simp: list_commands_def Let_def split: option.splits sum.splits prod.splits)

text \<open>A failed run of the binary is cached like a good one: only a binary that could not be started is asked
  again.\<close>

lemma failed_run_cached:
  assumes "run_in sh None b [''models''] w = (Inr \<lparr>stdout = [], stderr = e, exit_code = Some 1\<rparr>, w1)"
    and "model_cache c = None"
  shows "model_cache (fst (snd (get_or_fetch_parsed_models sh b (c, w)))) = Some no_models"
proof -
  have "parse_models [] = no_models" by code_simp
  with assms show ?thesis by (simp add: get_or_fetch_parsed_models_def run_polytoken_def)
qed

text \<open>A session whose directory is gone is not opened again and again.\<close>

lemma missing_directory_permanent:
  assumes "\<not> is_dir h (session_cwd h sid)" and "cold_start h now sid a p = (evs, Inl e, p1)"
  shows "classify e = MissingCwd \<and> p1 = p"
proof -
  from assms have "e = ''session directory no longer exists'' @ '': '' @ session_cwd h sid" "p1 = p"
    by (auto simp: cold_start_def)
  with contains_prefix [of "''session directory no longer exists''" "'': '' @ session_cwd h sid"]
  show ?thesis by (simp add: classify_missing del: contains.simps append.simps append_Cons)
qed

end
