(* ===== verification/Driver_Actions.thy ===== *)
theory Driver_Actions
  imports Driver_Catalogues Hub
begin

text \<open>
  What the driver does to a session on request, \<^verbatim>\<open>polytoken/driver.rs\<close>: prompts, stops, the queue, new
  sessions, branches, todos, jobs, and the session actions. The daemon is the world \<open>'d\<close> of the record
  \<open>daemon_api\<close>, one function per request. Emitted events are returned in order. \<open>millis\<close> is the clock in the ids
  of notices.
\<close>

section \<open>The daemon\<close>

record prompt_accepted =
  queued_item :: "pending_turn_item option"
  resolved_references :: "prompt_reference list option"

datatype daemon_command =
    Cmd_Model string "string option"
  | Cmd_Facet string
  | Cmd_PermissionMode permission_monitor_mode
  | Cmd_AdventurousHandoff
  | Cmd_Autodrain bool
  | Cmd_Compact
  | Cmd_Clear
  | Cmd_ResetShell
  | Cmd_Reload
  | Cmd_GoalSet string
  | Cmd_GoalPause
  | Cmd_GoalResume
  | Cmd_GoalClear
  | Cmd_Title string
  | Cmd_Mcp string mcp_action

datatype todo_conflict = DependentTodos "string list" | TodoTurnInFlight

record 'a http_reply =
  http_status :: int
  http_data :: "'a option"
  http_error :: "string option"

datatype job_kind = ShellJob | SubagentJob

record job_channel =
  ch_bytes :: "int option"
  ch_tail :: "string option"

record job_snapshot =
  js_handle :: string
  js_kind :: job_kind
  js_status :: json
  js_tool_name :: string
  js_created_at :: string
  js_ended_at :: "string option"
  js_started_at :: "string option"
  js_updated_at :: string
  js_subagent_type :: "string option"
  js_model :: "string option"
  js_subagent_handle :: "string option"
  js_expiring :: "bool option"
  js_channels :: "job_channel list option"

text \<open>A command is answered by an error or by a flag, which only the toggle of the handoff has.\<close>

record 'd daemon_api =
  api_prompt :: "string \<Rightarrow> 'd \<Rightarrow> (string + prompt_accepted) \<times> 'd"
  api_turn_input :: "'d \<Rightarrow> pending_turn_snapshot option \<times> 'd"
  api_dequeue_newest :: "'d \<Rightarrow> string option \<times> 'd"
  api_cancel_turn :: "'d \<Rightarrow> string option \<times> 'd"
  api_command :: "daemon_command \<Rightarrow> 'd \<Rightarrow> (string + bool) \<times> 'd"
  api_rewind :: "string \<Rightarrow> 'd \<Rightarrow> string option \<times> 'd"
  api_state :: "'d \<Rightarrow> state_snapshot option \<times> 'd"
  api_history :: "'d \<Rightarrow> json list option \<times> 'd"
  api_jobs :: "'d \<Rightarrow> job_snapshot list http_reply \<times> 'd"
  api_delete_todo :: "int \<Rightarrow> 'd \<Rightarrow> todo_conflict http_reply \<times> 'd"

section \<open>Notices\<close>

definition action_error_notice :: "timestamp \<Rightarrow> string \<Rightarrow> session_ref \<Rightarrow> string \<Rightarrow> string \<Rightarrow> session_driver_event" where
  "action_error_notice now millis sref what err =
     notify (stamped sref now) (''action-error-'' @ millis) (what @ '' failed: '' @ err) NotifyWarning"

definition action_success_notice :: "timestamp \<Rightarrow> string \<Rightarrow> session_ref \<Rightarrow> string \<Rightarrow> session_driver_event" where
  "action_success_notice now millis sref message =
     notify (stamped sref now) (''action-success-'' @ millis) message NotifyInfo"

section \<open>Prompts\<close>

definition warning_sign :: string where
  "warning_sign = bytes [0xE2, 0x9A, 0xA0]"

definition images_notice :: "event_base \<Rightarrow> string \<Rightarrow> image_content list \<Rightarrow> session_driver_event list" where
  "images_notice base millis images =
     (if images = [] then []
      else [notify base (''img-unsupported-'' @ millis)
        (warning_sign @ '' '' @
         (if length images = 1 then ''1 image was'' else digits_of (length images) @ '' images were'') @
         '' attached but the daemon doesn'' @ [CHR 0x27] @ ''t support images yet '' @ em_dash @
         '' only the text was sent.'') NotifyWarning])"

definition prompt ::
    "'d daemon_api \<Rightarrow> timestamp \<Rightarrow> string \<Rightarrow> string \<Rightarrow> string option \<Rightarrow> image_content list \<Rightarrow> string option
      \<Rightarrow> pool \<times> 'd \<Rightarrow> session_driver_event list \<times> (string + unit) \<times> pool \<times> 'd" where
  "prompt A now millis text session images prompt_id pd =
     (let (p, d) = pd in
      case session of
        None \<Rightarrow> ([], Inl ''no session to prompt'', p, d)
      | Some sid \<Rightarrow> (case warm p sid of
          None \<Rightarrow> ([], Inl ''no warm polytoken session to prompt'', p, d)
        | Some ws \<Rightarrow>
            (let p1 = focus sid p; base = stamped (warm_ref ws) now in
             case api_prompt A text d of
               (Inl e, d1) \<Rightarrow> ([], Inl (''prompt failed: '' @ e), p1, d1)
             | (Inr accepted, d1) \<Rightarrow> (case queued_item accepted of
                 Some item \<Rightarrow>
                   (let (snapshot, d2) = api_turn_input A d1;
                        messages = (case snapshot of
                          Some s \<Rightarrow> queue_messages_from_snapshot s now
                        | None \<Rightarrow> [queue_message_from_item item now])
                    in (E_QueueUpdated base messages # images_notice base millis images, Inr (), p1, d2))
               | None \<Rightarrow>
                   (E_UserMessage base (unwrap_or prompt_id (''pt-'' @ millis)) text
                      (if images = [] then None else Some images) None
                      (map_option map_resolved_references (resolved_references accepted))
                    # images_notice base millis images, Inr (), p1, d1)))))"

definition abort :: "'d daemon_api \<Rightarrow> string option \<Rightarrow> pool \<times> 'd \<Rightarrow> (string + unit) \<times> 'd" where
  "abort A session pd =
     (let (p, d) = pd in
      case session of
        None \<Rightarrow> (Inl ''No active session to stop.'', d)
      | Some sid \<Rightarrow>
          (if warm p sid = None
           then (Inl (''Couldn'' @ [CHR 0x27] @ ''t stop session '' @ sid @ '': it is not connected to the daemon.''), d)
           else case api_cancel_turn A d of
             (None, d1) \<Rightarrow> (Inr (), d1)
           | (Some e, d1) \<Rightarrow> (Inl (''Couldn'' @ [CHR 0x27] @ ''t send stop to the daemon: '' @ e), d1)))"

fun delete_newest :: "'d daemon_api \<Rightarrow> nat \<Rightarrow> 'd \<Rightarrow> 'd" where
  "delete_newest A 0 d = d"
| "delete_newest A (Suc n) d =
     (case api_dequeue_newest A d of (None, d1) \<Rightarrow> delete_newest A n d1 | (Some _, d1) \<Rightarrow> d1)"

text \<open>The first list of the result is the texts to steer with, the second, for follow-ups, stays empty.\<close>

definition clear_queue :: "'d daemon_api \<Rightarrow> string option \<Rightarrow> pool \<times> 'd \<Rightarrow> (string list \<times> string list) \<times> 'd" where
  "clear_queue A session pd =
     (let (p, d) = pd in
      if Option.bind session (warm p) = None then (([], []), d)
      else let (snapshot, d1) = api_turn_input A d;
               items = (case snapshot of Some s \<Rightarrow> pts_items s | None \<Rightarrow> [])
           in ((map pti_content items, []), delete_newest A (length items) d1))"

section \<open>New sessions and branches\<close>

definition applied :: "'d daemon_api \<Rightarrow> (string \<Rightarrow> session_driver_event) \<Rightarrow> daemon_command option \<Rightarrow> 'd
    \<Rightarrow> session_driver_event list \<times> bool \<times> 'd" where
  "applied A failure cmd d =
     (case cmd of
        None \<Rightarrow> ([], False, d)
      | Some c \<Rightarrow> (case api_command A c d of
          (Inl e, d1) \<Rightarrow> ([failure e], False, d1)
        | (Inr _, d1) \<Rightarrow> ([], True, d1)))"

text \<open>The choices of the draft, each sent before the seed is built; the notices of those that failed. The mode is
  cached when the daemon took it.\<close>

definition apply_draft ::
    "'d daemon_api \<Rightarrow> timestamp \<Rightarrow> string \<Rightarrow> new_session_opts \<Rightarrow> warm_session \<times> 'd
      \<Rightarrow> session_driver_event list \<times> warm_session \<times> 'd" where
  "apply_draft A now millis opts wd =
     (let (ws, d) = wd;
          note = (\<lambda>what. action_error_notice now millis (warm_ref ws) what);
          (n1, _, d1) = applied A (note ''Applying the selected model'')
            (map_option (\<lambda>m. Cmd_Model (model_post_key m) (ns_thinking opts)) (ns_model opts)) d;
          (n2, _, d2) = applied A (note ''Applying the selected facet'') (map_option Cmd_Facet (ns_facet opts)) d1;
          (n3, taken, d3) = applied A (note ''Applying the selected permission mode'')
            (map_option Cmd_PermissionMode (ns_permission_monitor opts)) d2
      in (n1 @ n2 @ n3, if taken then ws\<lparr>monitor_mode := ns_permission_monitor opts\<rparr> else ws, d3))"

definition opening_seed :: "timestamp \<Rightarrow> warm_session \<Rightarrow> json list option \<Rightarrow> session_driver_event list" where
  "opening_seed now ws history =
     (let snapshot = live_snapshot (driver_ctx now ws) in
      case history of
        Some its \<Rightarrow> build_branch_seed now snapshot its (warm_ref ws)
      | None \<Rightarrow> [E_SessionOpened (stamped (warm_ref ws) now) snapshot])"

text \<open>The directory in which the session starts, with its worktree, if the draft asked for one.\<close>

record disk =
  home_dir :: string
  worktree_root :: string
  fresh_names :: "string list"
  fallback_name :: string
  dir_exists :: "string \<Rightarrow> bool"
  dir_is_dir :: "string \<Rightarrow> bool"

definition start_dir ::
    "site \<Rightarrow> 'w shell \<Rightarrow> disk \<Rightarrow> new_session_opts \<Rightarrow> stores \<times> 'w
      \<Rightarrow> (string + string \<times> worktree_meta option) \<times> stores \<times> 'w" where
  "start_dir S sh D opts sw =
     (let (st, w) = sw; typed = trim (unwrap_or (ns_cwd opts) []);
          cwd = (if typed = [] then home_dir D else typed)
      in if \<not> dir_exists D cwd then (Inl (''no such directory: '' @ cwd), st, w)
         else if \<not> dir_is_dir D cwd then (Inl (''not a directory: '' @ cwd), st, w)
         else if \<not> unwrap_or (ns_worktree opts) False then (Inr (cwd, None), st, w)
         else case create_worktree sh cwd None (ns_base_branch opts) (worktree_root D) (fresh_names D) (fallback_name D) w of
           (Inl e, w1) \<Rightarrow> (Inl e, st, w1)
         | (Inr m, w1) \<Rightarrow> (Inr (meta_path m, Some m), st\<lparr>worktrees := store_add (write_order S) m (worktrees st)\<rparr>, w1))"

text \<open>A worktree whose session did not start is removed by force and marked as reaped, whether that worked or not.\<close>

definition discard_worktree :: "site \<Rightarrow> 'w shell \<Rightarrow> worktree_meta option \<Rightarrow> stores \<times> 'w \<Rightarrow> stores \<times> 'w" where
  "discard_worktree S sh created sw =
     (case created of
        None \<Rightarrow> sw
      | Some m \<Rightarrow> (let (_, w1) = remove_worktree sh m True (snd sw)
          in ((fst sw)\<lparr>worktrees := mark_reaped (write_order S) (meta_path m) (worktrees (fst sw))\<rparr>, w1)))"

text \<open>The result is the seed or the error; \<open>evs\<close> are the events of evicted sessions.\<close>

definition new_session ::
    "site \<Rightarrow> 'w shell \<Rightarrow> disk \<Rightarrow> host \<Rightarrow> 'd daemon_api \<Rightarrow> timestamp \<Rightarrow> string \<Rightarrow> new_session_opts
      \<Rightarrow> pool \<times> stores \<times> 'w \<times> 'd
      \<Rightarrow> session_driver_event list \<times> (string + session_driver_event list) \<times> pool \<times> stores \<times> 'w \<times> 'd" where
  "new_session S sh D h A now millis opts pswd =
     (let (p, st, w, d) = pswd in
      case start_dir S sh D opts (st, w) of
        (Inl e, st1, w1) \<Rightarrow> ([], Inl e, p, st1, w1, d)
      | (Inr (cwd, created), st1, w1) \<Rightarrow>
          (case warm_new h now ''__new__'' cwd p of
             (evs, Inl e, p1) \<Rightarrow>
               (let (st2, w2) = discard_worktree S sh created (st1, w1) in (evs, Inl e, p1, st2, w2, d))
           | (evs, Inr ws, p1) \<Rightarrow>
               (let (notices, ws1, d1) = apply_draft A now millis opts (ws, d);
                    (history, d2) = api_history A d1;
                    p2 = p1\<lparr>warm := (warm p1)(session_id_of (warm_ref ws) \<mapsto> ws1)\<rparr>
                in (evs, Inr (opening_seed now ws1 history @ notices), p2, st1, w1, d2))))"

text \<open>An empty seed is a branch that failed.\<close>

definition branch_from ::
    "'d daemon_api \<Rightarrow> timestamp \<Rightarrow> string \<Rightarrow> string option \<Rightarrow> pool \<times> 'd \<Rightarrow> session_driver_event list \<times> pool \<times> 'd" where
  "branch_from A now entry session pd =
     (let (p, d) = pd in
      case Option.bind session (\<lambda>sid. map_option (Pair sid) (warm p sid)) of
        None \<Rightarrow> ([], p, d)
      | Some (sid, ws) \<Rightarrow> (case api_rewind A entry d of
          (Some _, d1) \<Rightarrow> ([], p, d1)
        | (None, d1) \<Rightarrow>
            (let (state, d2) = api_state A d1;
                 ws1 = (case state of Some s \<Rightarrow> ws\<lparr>last_state := Some s\<rparr> | None \<Rightarrow> ws);
                 (history, d3) = api_history A d2
             in ((case history of
                    Some its \<Rightarrow> build_branch_seed now (live_snapshot (driver_ctx now ws1)) its (warm_ref ws1)
                  | None \<Rightarrow> []),
                 p\<lparr>warm := (warm p)(sid \<mapsto> ws1)\<rparr>, d3))))"

section \<open>Jobs and todos\<close>

datatype job_status = JobReserved | JobRunning | JobCompleted | JobFailed | JobCancelled

definition status_word :: "json \<Rightarrow> string option" where
  "status_word v =
     (case (case v of J_Object fs \<Rightarrow> map_of (rev fs) ''status'' | _ \<Rightarrow> None) of
        Some (J_String s) \<Rightarrow> Some s
      | _ \<Rightarrow> (case v of J_String s \<Rightarrow> Some s | _ \<Rightarrow> None))"

definition parse_job_status :: "json \<Rightarrow> job_status" where
  "parse_job_status v =
     (let s = status_word v in
      if s = Some ''reserved'' then JobReserved
      else if s = Some ''completed'' then JobCompleted
      else if s = Some ''failed'' then JobFailed
      else if s = Some ''cancelled'' then JobCancelled
      else JobRunning)"

text \<open>The job with its status, and the tail and the size of its output. The sum of the sizes is not bounded.\<close>

record background_job =
  bj_snapshot :: job_snapshot
  bj_status :: job_status
  bj_output_tail :: "string option"
  bj_output_bytes :: "int option"

definition background_job_of :: "job_snapshot \<Rightarrow> background_job" where
  "background_job_of j =
     \<lparr>bj_snapshot = j, bj_status = parse_job_status (js_status j),
      bj_output_tail = map_option (\<lambda>chs. concat (take 500 (utf8_chars (join [CHR 0x0A] (List.map_filter ch_tail chs)))))
        (js_channels j),
      bj_output_bytes = map_option (\<lambda>chs. sum_list (List.map_filter ch_bytes chs)) (js_channels j)\<rparr>"

definition list_jobs :: "'d daemon_api \<Rightarrow> string option \<Rightarrow> pool \<times> 'd \<Rightarrow> background_job list \<times> 'd" where
  "list_jobs A session pd =
     (let (p, d) = pd in
      if Option.bind session (warm p) = None then ([], d)
      else let (r, d1) = api_jobs A d
           in (if http_status r \<noteq> 200 then [] else map background_job_of (unwrap_or (http_data r) []), d1))"

definition delete_todo :: "'d daemon_api \<Rightarrow> string option \<Rightarrow> int \<Rightarrow> pool \<times> 'd \<Rightarrow> (todo_delete_error + unit) \<times> 'd" where
  "delete_todo A session i pd =
     (let (p, d) = pd in
      case session of
        None \<Rightarrow> (Inl (TodoOther ''no session focused''), d)
      | Some sid \<Rightarrow>
          (if warm p sid = None then (Inl (TodoOther ''no warm session''), d)
           else let (r, d1) = api_delete_todo A i d; s = http_status r
           in (if s = 204 \<or> s = 200 then Inr ()
               else if s = 404 then Inl NotFound
               else if s = 409 then (case http_data r of
                   Some (DependentTodos titles) \<Rightarrow> Inl (DependentsExist titles)
                 | Some TodoTurnInFlight \<Rightarrow> Inl TurnInFlight
                 | None \<Rightarrow> Inl (TodoOther (unwrap_or (http_error r) ''409 conflict'')))
               else Inl (TodoOther (''DELETE /todos/'' @ show_int i @ '' failed ('' @ show_int s @ ''): '' @
                      unwrap_or (http_error r) [])), d1)))"

record at_refs =
  ar_skills :: "string list"
  ar_subagents :: "string list"

definition at_refs_from_snapshot :: "state_snapshot option \<Rightarrow> at_refs" where
  "at_refs_from_snapshot state = (case state of
     Some s \<Rightarrow> \<lparr>ar_skills = unwrap_or (available_skills s) [], ar_subagents = unwrap_or (available_subagents s) []\<rparr>
   | None \<Rightarrow> \<lparr>ar_skills = [], ar_subagents = []\<rparr>)"

definition list_at_refs :: "'d daemon_api \<Rightarrow> string option \<Rightarrow> pool \<times> 'd \<Rightarrow> at_refs \<times> pool \<times> 'd" where
  "list_at_refs A session pd =
     (let (p, d) = pd in
      case Option.bind session (\<lambda>sid. map_option (Pair sid) (warm p sid)) of
        None \<Rightarrow> (at_refs_from_snapshot None, p, d)
      | Some (sid, ws) \<Rightarrow>
          (if last_state ws \<noteq> None then (at_refs_from_snapshot (last_state ws), p, d)
           else case api_state A d of
             (Some s, d1) \<Rightarrow> (at_refs_from_snapshot (Some s), p\<lparr>warm := (warm p)(sid \<mapsto> ws\<lparr>last_state := Some s\<rparr>)\<rparr>, d1)
           | (None, d1) \<Rightarrow> (at_refs_from_snapshot None, p, d1)))"

section \<open>Session actions\<close>

fun mode_debug :: "permission_monitor_mode \<Rightarrow> string" where
  "mode_debug Standard = ''Standard''"
| "mode_debug Bypass = ''Bypass''"
| "mode_debug BypassPlus = ''BypassPlus''"
| "mode_debug Autonomous = ''Autonomous''"

text \<open>What an action is called in an error, its command, unless it cannot be sent, and the notice of its
  success, which may depend on the daemon's answer.\<close>

fun action_plan :: "warm_session \<Rightarrow> session_action
    \<Rightarrow> string \<times> (string + daemon_command) \<times> (bool \<Rightarrow> string option)" where
  "action_plan ws (A_SetModel m level) =
     (''Model switch'', Inr (Cmd_Model (model_post_key m) level),
      \<lambda>_. Some (''Model switched to '' @ m @ (case level of Some l \<Rightarrow> '' (thinking: '' @ l @ '')'' | None \<Rightarrow> [])))"
| "action_plan ws (A_SetThinking level) =
     (''Thinking-level switch'',
      (case Option.bind (last_state ws) active_model of
         Some m \<Rightarrow> Inr (Cmd_Model m (Some level))
       | None \<Rightarrow> Inl (''the session'' @ [CHR 0x27] @ ''s active model isn'' @ [CHR 0x27] @ ''t known yet '' @ em_dash
           @ '' try again in a moment'')),
      \<lambda>_. Some (''Thinking level set to '' @ level))"
| "action_plan ws (A_SetFacet fc) =
     (''Facet switch'', Inr (Cmd_Facet fc), \<lambda>_. Some (''Facet switched to '' @ fc))"
| "action_plan ws (A_SetPermissionMonitor mode) =
     (''Permission-mode switch'', Inr (Cmd_PermissionMode mode), \<lambda>_. Some (''Permission monitor set to '' @ mode_debug mode))"
| "action_plan ws A_ToggleAdventurousHandoff =
     (''Adventurous-handoff toggle'', Inr Cmd_AdventurousHandoff,
      \<lambda>on. Some (''Adventurous handoff '' @ (if on then ''enabled'' else ''disabled'')))"
| "action_plan ws (A_SetNotificationAutodrain on) =
     (''Notification-autodrain switch'', Inr (Cmd_Autodrain on),
      \<lambda>_. Some (''Notification auto-drain '' @ (if on then ''enabled'' else ''disabled'')))"
| "action_plan ws A_Compact = (''Compact'', Inr Cmd_Compact, \<lambda>_. None)"
| "action_plan ws A_ClearContext = (''Clear context'', Inr Cmd_Clear, \<lambda>_. None)"
| "action_plan ws A_ResetShell = (''Reset shell'', Inr Cmd_ResetShell, \<lambda>_. None)"
| "action_plan ws A_DaemonReload = (''Daemon reload'', Inr Cmd_Reload, \<lambda>_. None)"
| "action_plan ws (A_GoalSet txt) = (''Goal set'', Inr (Cmd_GoalSet txt), \<lambda>_. Some (''Goal set: '' @ txt))"
| "action_plan ws A_GoalPause = (''Goal pause'', Inr Cmd_GoalPause, \<lambda>_. Some ''Goal paused'')"
| "action_plan ws A_GoalResume = (''Goal resume'', Inr Cmd_GoalResume, \<lambda>_. Some ''Goal resumed'')"
| "action_plan ws A_GoalClear = (''Goal clear'', Inr Cmd_GoalClear, \<lambda>_. Some ''Goal cleared'')"
| "action_plan ws (A_SetTitle t) = (''Set title'', Inr (Cmd_Title t), \<lambda>_. None)"
| "action_plan ws (A_SetMcpServer server act) =
     (''MCP server '' @ [CHR 0x27] @ server @ [CHR 0x27] @ '' action'', Inr (Cmd_Mcp server act), \<lambda>_. None)"

definition run_action ::
    "'d daemon_api \<Rightarrow> timestamp \<Rightarrow> string \<Rightarrow> session_action \<Rightarrow> string option \<Rightarrow> pool \<Rightarrow> caches \<times> 'd
      \<Rightarrow> session_driver_event list \<times> caches \<times> 'd" where
  "run_action A now millis act session p cd =
     (let (c, d) = cd in
      case Option.bind session (warm p) of
        None \<Rightarrow> ([], c, d)
      | Some ws \<Rightarrow>
          (let (what, cmd, success) = action_plan ws act in
           case (case cmd of Inl e \<Rightarrow> (Inl e, d) | Inr x \<Rightarrow> api_command A x d) of
             (Inl e, d1) \<Rightarrow> ([action_error_notice now millis (warm_ref ws) what e], c, d1)
           | (Inr flag, d1) \<Rightarrow>
               (case success flag of Some m \<Rightarrow> [action_success_notice now millis (warm_ref ws) m] | None \<Rightarrow> [],
                if act = A_DaemonReload then invalidate_all_config_caches c else c, d1)))"

section \<open>What they guarantee\<close>

text \<open>Whatever an operation emits is about its session.\<close>

lemma notify_names [simp]: "names_session (eb_session_ref b) (notify b i m l)"
  by (simp add: notify_def event_session_ref_def)

lemma images_notice_names [simp]: "list_all (names_session (eb_session_ref b)) (images_notice b millis images)"
  by (simp add: images_notice_def)


text \<open>A daemon whose queue nobody else touches: a snapshot shows it, and a deletion takes the newest item.\<close>

definition quiet_queue :: "'d daemon_api \<Rightarrow> ('d \<Rightarrow> pending_turn_item list) \<Rightarrow> bool" where
  "quiet_queue A queue \<longleftrightarrow>
     (\<forall>d. \<exists>s. fst (api_turn_input A d) = Some s \<and> pts_items s = queue d \<and> queue (snd (api_turn_input A d)) = queue d) \<and>
     (\<forall>d. fst (api_dequeue_newest A d) = None \<and> queue (snd (api_dequeue_newest A d)) = butlast (queue d))"

lemma delete_newest_quiet:
  "quiet_queue A queue \<Longrightarrow> queue (delete_newest A n d) = take (length (queue d) - n) (queue d)"
proof (induction n arbitrary: d)
  case (Suc n)
  then have "fst (api_dequeue_newest A d) = None" "queue (snd (api_dequeue_newest A d)) = butlast (queue d)"
    by (simp_all add: quiet_queue_def)
  with Suc show ?case
    by (cases "api_dequeue_newest A d") (auto simp: butlast_conv_take take_take min_def)
qed simp

text \<open>Clearing the queue moves its texts. Of a daemon whose queue nobody else touches every queued text is
  returned, in the order of the queue, and the queue is empty afterwards.\<close>

theorem clear_queue_moves_texts:
  assumes "quiet_queue A queue" and "warm p sid = Some ws" and "clear_queue A (Some sid) (p, d) = ((steering, follow), d')"
  shows "steering = map pti_content (queue d) \<and> follow = [] \<and> queue d' = []"
proof -
  obtain s d1 where s: "api_turn_input A d = (Some s, d1)" "pts_items s = queue d" "queue d1 = queue d"
    using assms(1) by (metis prod.collapse quiet_queue_def)
  with assms(2,3) have "steering = map pti_content (queue d)" "follow = []"
      "d' = delete_newest A (length (queue d)) d1" by (simp_all add: clear_queue_def Let_def)
  with delete_newest_quiet [OF assms(1)] s(3) show ?thesis by simp
qed

text \<open>It is not atomic. The daemon of the example has one item queued, and another one arrives after the snapshot.
  The deletion takes the new item, which nobody gets back; the old one is handed to the composer and stays queued.\<close>

definition ex_item :: "string \<Rightarrow> pending_turn_item" where
  "ex_item t = \<lparr>pti_admission_prompt_id = t, pti_content = t, pti_id = t\<rparr>"

definition ex_api :: "string list \<Rightarrow> string list daemon_api" where
  "ex_api late =
     \<lparr>api_prompt = \<lambda>t q. (Inr \<lparr>queued_item = None, resolved_references = None\<rparr>, q),
      api_turn_input = \<lambda>q. (Some \<lparr>pts_items = map ex_item q, pts_queue_revision = 0\<rparr>, q @ late),
      api_dequeue_newest = \<lambda>q. (None, butlast q),
      api_cancel_turn = \<lambda>q. (None, q), api_command = \<lambda>c q. (Inr True, q), api_rewind = \<lambda>e q. (None, q),
      api_state = \<lambda>q. (None, q), api_history = \<lambda>q. (None, q),
      api_jobs = \<lambda>q. (\<lparr>http_status = 200, http_data = None, http_error = None\<rparr>, q),
      api_delete_todo = \<lambda>i q. (\<lparr>http_status = 204, http_data = None, http_error = None\<rparr>, q)\<rparr>"

definition ex_chat :: pool where
  "ex_chat = \<lparr>warm = [''s'' \<mapsto> ex_warm], order = [''s''], warm_cap = 4\<rparr>"

lemma late_item_lost:
  "clear_queue (ex_api [''new'']) (Some ''s'') (ex_chat, [''old'']) = (([''old''], []), [''old''])"
  by (simp add: clear_queue_def ex_api_def ex_chat_def ex_item_def)

text \<open>A deletion that fails leaves the items queued, and their texts are returned nevertheless.\<close>

lemma failed_delete_duplicates:
  assumes "warm p sid = Some ws" and "api_turn_input A d = (Some s, d1)" and "pts_items s \<noteq> []"
    and "api_dequeue_newest A d1 = (Some e, d1)"
  shows "clear_queue A (Some sid) (p, d) = ((map pti_content (pts_items s), []), d1)"
  using assms by (cases "pts_items s") (simp_all add: clear_queue_def)

lemma clear_queue_moves_texts_witness:
  "fst (fst (clear_queue (ex_api []) (Some ''s'') (ex_chat, [''a'', ''b'']))) = [''a'', ''b'']"
proof -
  have q: "quiet_queue (ex_api []) (map ex_item)" by (simp add: quiet_queue_def ex_api_def map_butlast)
  obtain st fo d' where c: "clear_queue (ex_api []) (Some ''s'') (ex_chat, [''a'', ''b'']) = ((st, fo), d')"
    by (metis prod.exhaust)
  have "warm ex_chat ''s'' = Some ex_warm" by (simp add: ex_chat_def)
  from clear_queue_moves_texts [OF q this c] c show ?thesis by (simp add: ex_item_def)
qed


section \<open>Actions and new sessions\<close>

text \<open>An action is reported by one notice if it failed, by at most one if not, and only a reload forgets the
  caches.\<close>

lemma action_reported:
  assumes "run_action A now millis act (Some sid) p (c, d) = (evs, c', d')" and "warm p sid = Some ws"
  shows "length evs \<le> 1 \<and> list_all (names_session (warm_ref ws)) evs \<and> (c' \<noteq> c \<longrightarrow> act = A_DaemonReload) \<and>
    (\<forall>x e. fst (snd (action_plan ws act)) = Inr x \<and> fst (api_command A x d) = Inl e \<longrightarrow>
       evs = [action_error_notice now millis (warm_ref ws) (fst (action_plan ws act)) e] \<and> c' = c)"
proof -
  obtain what cmd success where plan: "action_plan ws act = (what, cmd, success)" by (metis prod_cases3)
  have n: "names_session (warm_ref ws) (action_error_notice now millis (warm_ref ws) what e)"
      "names_session (warm_ref ws) (action_success_notice now millis (warm_ref ws) m)" for e m
    using notify_names [of "stamped (warm_ref ws) now"]
    by (simp_all add: action_error_notice_def action_success_notice_def del: notify_names)
  show ?thesis
    using assms plan n by (cases cmd) (auto simp: run_action_def split: sum.splits option.splits prod.splits if_splits)
qed

lemma applied_notices:
  assumes "applied A failure cmd d = (ns, taken, d')"
  shows "(taken \<longrightarrow> ns = [] \<and> cmd \<noteq> None) \<and> (\<forall>c. cmd = Some c \<and> \<not> taken \<longrightarrow> (\<exists>e. ns = [failure e]))"
  using assms by (auto simp: applied_def split: option.splits sum.splits prod.splits)

lemma opening_seed_opens:
  "\<exists>rest. opening_seed now ws history = E_SessionOpened (stamped (warm_ref ws) now) (live_snapshot (driver_ctx now ws)) # rest"
  by (simp add: opening_seed_def build_branch_seed_def Let_def split: option.split)

lemma start_dir_index:
  assumes "start_dir S sh D opts (st, w) = (r, st', w')"
  shows "case r of
      Inr (cwd, Some m) \<Rightarrow> cwd = meta_path m \<and> st' = st\<lparr>worktrees := store_add (write_order S) m (worktrees st)\<rparr>
    | _ \<Rightarrow> st' = st"
  using assms by (auto simp: start_dir_def Let_def split: if_splits prod.splits sum.splits)

lemma discarded_live:
  "live_worktree (mark_reaped ord (meta_path m) (store_add ord' m st)) path = Some n \<Longrightarrow>
   live_worktree st path = Some n"
  by (auto simp: live_worktree_def mark_reaped_def store_add_def store_persist_def split: if_splits)

lemma apply_draft_settles:
  assumes a: "apply_draft A now millis opts (ws, d) = (notices, ws1, d1)"
  shows "warm_ref ws1 = warm_ref ws \<and> length notices \<le> 3 \<and>
    (monitor_mode ws1 = monitor_mode ws \<or> monitor_mode ws1 = ns_permission_monitor opts \<and> length notices \<le> 2)"
proof -
  let ?note = "\<lambda>what. action_error_notice now millis (warm_ref ws) what"
  obtain n1 t1 da where a1: "applied A (?note ''Applying the selected model'')
      (map_option (\<lambda>m. Cmd_Model (model_post_key m) (ns_thinking opts)) (ns_model opts)) d = (n1, t1, da)"
    by (metis prod_cases3)
  obtain n2 t2 db where a2: "applied A (?note ''Applying the selected facet'') (map_option Cmd_Facet (ns_facet opts)) da = (n2, t2, db)"
    by (metis prod_cases3)
  obtain n3 t3 dc where a3: "applied A (?note ''Applying the selected permission mode'')
      (map_option Cmd_PermissionMode (ns_permission_monitor opts)) db = (n3, t3, dc)" by (metis prod_cases3)
  have l: "length n \<le> 1" if "applied A f cmd x = (n, t, x')" for f cmd x n t x'
    using that by (auto simp: applied_def split: option.splits sum.splits prod.splits)
  have "notices = n1 @ n2 @ n3" "ws1 = (if t3 then ws\<lparr>monitor_mode := ns_permission_monitor opts\<rparr> else ws)"
    using a a1 a2 a3 by (simp_all add: apply_draft_def)
  then show ?thesis
    using l [OF a1] l [OF a2] l [OF a3] applied_notices [OF a3] by auto
qed



end
