(* ===== verification/Model_Cache.thy ===== *)
theory Model_Cache
  imports Driver_Catalogues
begin

text \<open>
  The single flight of \<^verbatim>\<open>get_or_fetch_parsed_models\<close>, \<^verbatim>\<open>polytoken/driver.rs\<close>: concurrent callers
  share one run of the binary. A caller is at one of the points between the atomic steps of the loop; the flag,
  the cache and the \<^verbatim>\<open>tokio::sync::Notify\<close> are shared. \<open>notify_one\<close> wakes the oldest waiter, or
  leaves a permit, at most one, which the next poll takes.
\<close>

section \<open>Callers\<close>

text \<open>\<open>Looking\<close> is the head of the loop, \<open>Missed\<close> is after a cache miss, \<open>Polling\<close> is before the poll of
  \<open>notified\<close>, \<open>Woken\<close> before the baton is passed on, \<open>Stored\<close> and \<open>Cleared\<close> are the fetcher's steps
  after the run.\<close>

datatype caller_phase =
    Outside
  | Looking
  | Missed
  | Fetching
  | Stored parsed_models
  | Cleared parsed_models
  | Polling
  | Waiting
  | Woken
  | Returned parsed_models

record 'i flight =
  cached :: "parsed_models option"
  fetching :: bool
  permit :: bool
  waiters :: "'i list"
  phase :: "'i \<Rightarrow> caller_phase"

definition no_flight :: "'i flight" where
  "no_flight = \<lparr>cached = None, fetching = False, permit = False, waiters = [], phase = \<lambda>_. Outside\<rparr>"

definition move :: "'i \<Rightarrow> caller_phase \<Rightarrow> 'i flight \<Rightarrow> 'i flight" where
  "move c ph s = s\<lparr>phase := (phase s)(c := ph)\<rparr>"

definition notify_one :: "'i flight \<Rightarrow> 'i flight" where
  "notify_one s = (case waiters s of
     [] \<Rightarrow> s\<lparr>permit := True\<rparr>
   | w # ws \<Rightarrow> move w Woken (s\<lparr>waiters := ws\<rparr>))"

text \<open>The next step of a caller. \<open>out\<close> is the run's result, if the run worked. A caller that waits has no step.\<close>

definition advance :: "parsed_models option \<Rightarrow> 'i \<Rightarrow> 'i flight \<Rightarrow> 'i flight option" where
  "advance out c s = (case phase s c of
     Outside \<Rightarrow> Some (move c Looking s)
   | Returned _ \<Rightarrow> Some (move c Looking s)
   | Looking \<Rightarrow> (case cached s of Some m \<Rightarrow> Some (move c (Returned m) s) | None \<Rightarrow> Some (move c Missed s))
   | Missed \<Rightarrow> (if fetching s then Some (move c Polling s) else Some (move c Fetching (s\<lparr>fetching := True\<rparr>)))
   | Fetching \<Rightarrow> (case out of
       Some m \<Rightarrow> Some (move c (Stored m) (s\<lparr>cached := Some m\<rparr>))
     | None \<Rightarrow> Some (move c (Stored no_models) s))
   | Stored m \<Rightarrow> Some (move c (Cleared m) (s\<lparr>fetching := False\<rparr>))
   | Cleared m \<Rightarrow> Some (notify_one (move c (Returned m) s))
   | Polling \<Rightarrow> (if permit s then Some (move c Woken (s\<lparr>permit := False\<rparr>))
                else Some (move c Waiting (s\<lparr>waiters := waiters s @ [c]\<rparr>)))
   | Waiting \<Rightarrow> None
   | Woken \<Rightarrow> Some (notify_one (move c Looking s)))"

inductive flight_step :: "'i flight \<Rightarrow> 'i flight \<Rightarrow> bool" where
  caller_step: "advance out c s = Some s' \<Longrightarrow> flight_step s s'"
| invalidated: "flight_step s (s\<lparr>cached := None\<rparr>)"

inductive in_flight_run :: "'i flight \<Rightarrow> bool" where
  flight_start: "in_flight_run no_flight"
| flight_next: "in_flight_run s \<Longrightarrow> flight_step s s' \<Longrightarrow> in_flight_run s'"

section \<open>The invariant\<close>

definition fetches :: "caller_phase \<Rightarrow> bool" where
  "fetches ph \<longleftrightarrow> (case ph of Fetching \<Rightarrow> True | Stored _ \<Rightarrow> True | _ \<Rightarrow> False)"

definition carries :: "caller_phase \<Rightarrow> bool" where
  "carries ph \<longleftrightarrow> (case ph of Cleared _ \<Rightarrow> True | Woken \<Rightarrow> True | _ \<Rightarrow> False)"

text \<open>The flag is held by the one caller that fetches, and the waiters are the callers that wait, none of them
  beside a permit. While somebody waits or is about to, somebody fetches or carries the baton, or the permit is there.\<close>

definition flag_ok :: "'i flight \<Rightarrow> bool" where
  "flag_ok s \<longleftrightarrow>
     (\<forall>c. fetches (phase s c) \<longrightarrow> fetching s) \<and> (fetching s \<longrightarrow> (\<exists>c. fetches (phase s c))) \<and>
     (\<forall>c d. fetches (phase s c) \<longrightarrow> fetches (phase s d) \<longrightarrow> c = d)"

definition waiters_ok :: "'i flight \<Rightarrow> bool" where
  "waiters_ok s \<longleftrightarrow> distinct (waiters s) \<and> (\<forall>c. c \<in> set (waiters s) \<longleftrightarrow> phase s c = Waiting) \<and>
     (permit s \<longrightarrow> waiters s = [])"

definition baton_ok :: "'i flight \<Rightarrow> bool" where
  "baton_ok s \<longleftrightarrow> (\<forall>c. phase s c = Polling \<or> phase s c = Waiting \<longrightarrow>
     fetching s \<or> (\<exists>d. carries (phase s d)) \<or> permit s)"

definition flight_ok :: "'i flight \<Rightarrow> bool" where
  "flight_ok s \<longleftrightarrow> flag_ok s \<and> waiters_ok s \<and> baton_ok s"

lemma flight_simps [simp]:
  "fetching (move c ph s) = fetching s" "permit (move c ph s) = permit s" "waiters (move c ph s) = waiters s"
  "cached (move c ph s) = cached s" "phase (move c ph s) d = (if d = c then ph else phase s d)"
  by (simp_all add: move_def)

lemma phase_kinds [simp]:
  "\<not> fetches Outside" "\<not> fetches Looking" "\<not> fetches Missed" "fetches Fetching" "fetches (Stored m)"
  "\<not> fetches (Cleared m)" "\<not> fetches Polling" "\<not> fetches Waiting" "\<not> fetches Woken" "\<not> fetches (Returned m)"
  "\<not> carries Outside" "\<not> carries Looking" "\<not> carries Missed" "\<not> carries Fetching" "\<not> carries (Stored m)"
  "carries (Cleared m)" "\<not> carries Polling" "\<not> carries Waiting" "carries Woken" "\<not> carries (Returned m)"
  by (simp_all add: fetches_def carries_def)

lemma move_flag_ok: "flag_ok s \<Longrightarrow> fetches (phase s c) \<longleftrightarrow> fetches ph \<Longrightarrow> flag_ok (move c ph s)"
  unfolding flag_ok_def by (auto split: if_splits)

lemma flag_ok_fields [simp]:
  "flag_ok (s\<lparr>waiters := x\<rparr>) = flag_ok s" "flag_ok (s\<lparr>permit := y\<rparr>) = flag_ok s"
  by (simp_all add: flag_ok_def)

lemma notify_ok:
  assumes "flag_ok t" and "waiters_ok t"
  shows "flight_ok (notify_one t)"
proof (cases "waiters t")
  case Nil
  with assms show ?thesis
    by (simp add: notify_one_def flight_ok_def flag_ok_def waiters_ok_def baton_ok_def)
next
  case (Cons w ws)
  with assms(2) have w: "phase t w = Waiting" and d: "distinct (w # ws)" "\<not> permit t"
      and m: "\<forall>c. c \<in> set (w # ws) \<longleftrightarrow> phase t c = Waiting"
    unfolding waiters_ok_def by auto
  have "flag_ok (notify_one t)"
    using assms(1) w Cons by (simp add: notify_one_def move_flag_ok)
  moreover have "waiters_ok (notify_one t)"
    using d m Cons by (auto simp: notify_one_def waiters_ok_def)
  moreover have "baton_ok (notify_one t)"
    using Cons unfolding baton_ok_def by (auto simp: notify_one_def intro: exI [of _ w])
  ultimately show ?thesis by (simp add: flight_ok_def)
qed

text \<open>A caller that neither waited, nor fetched, nor carried the baton may move to any phase that does neither, except
  to the polling that needs the flag.\<close>

lemma move_waiters_ok: "waiters_ok s \<Longrightarrow> phase s c \<noteq> Waiting \<Longrightarrow> ph \<noteq> Waiting \<Longrightarrow> waiters_ok (move c ph s)"
  by (auto simp: waiters_ok_def)

lemma move_baton_ok:
  assumes "baton_ok s" and "carries (phase s c) \<longrightarrow> carries ph" and "ph = Waiting \<longrightarrow> phase s c = Polling"
    and "ph = Polling \<longrightarrow> fetching s"
  shows "baton_ok (move c ph s)"
  unfolding baton_ok_def
proof (intro allI impI)
  fix e assume e: "phase (move c ph s) e = Polling \<or> phase (move c ph s) e = Waiting"
  have "fetching s \<or> (\<exists>d. carries (phase s d)) \<or> permit s"
  proof (cases "e = c")
    case True
    with e assms(3,4) assms(1) show ?thesis unfolding baton_ok_def by auto
  next
    case False
    with e assms(1) show ?thesis unfolding baton_ok_def by auto
  qed
  then show "fetching (move c ph s) \<or> (\<exists>d. carries (phase (move c ph s) d)) \<or> permit (move c ph s)"
    using assms(2) by auto
qed

lemma advance_ok:
  assumes ok: "flight_ok s" and step: "advance out c s = Some s'"
  shows "flight_ok s'"
proof -
  have f: "flag_ok s" and w: "waiters_ok s" and b: "baton_ok s" using ok by (simp_all add: flight_ok_def)
  have simple: "flight_ok (move c ph s)"
    if "fetches (phase s c) \<longleftrightarrow> fetches ph" "phase s c \<noteq> Waiting" "ph \<noteq> Waiting" "\<not> carries (phase s c)"
      "ph = Polling \<longrightarrow> fetching s" for ph
    using that move_flag_ok [OF f] move_waiters_ok [OF w] move_baton_ok [OF b] by (simp add: flight_ok_def)
  have same: "flight_ok (t\<lparr>cached := x\<rparr>) = flight_ok t" for x and t :: "'a flight"
    by (simp add: flight_ok_def flag_ok_def waiters_ok_def baton_ok_def)
  have store: "move c ph (s\<lparr>cached := x\<rparr>) = (move c ph s)\<lparr>cached := x\<rparr>" for ph x by (simp add: move_def)
  show ?thesis
  proof (cases "phase s c")
    case Missed
    show ?thesis
    proof (cases "fetching s")
      case True
      with Missed step simple [of Polling] show ?thesis by (simp add: advance_def)
    next
      case False
      with f have none: "\<not> fetches (phase s d)" for d by (auto simp: flag_ok_def)
      let ?t = "move c Fetching (s\<lparr>fetching := True\<rparr>)"
      have "flag_ok ?t" using none by (auto simp: flag_ok_def intro: exI [of _ c])
      moreover have "waiters_ok ?t" using w Missed by (auto simp: waiters_ok_def)
      moreover have "baton_ok ?t" by (simp add: baton_ok_def)
      ultimately show ?thesis using step Missed False by (auto simp: advance_def flight_ok_def)
    qed
  next
    case (Stored m)
    have only: "d = c" if "fetches (phase s d)" for d
      using f Stored that unfolding flag_ok_def by (metis phase_kinds(5))
    let ?t = "move c (Cleared m) (s\<lparr>fetching := False\<rparr>)"
    have "flag_ok ?t" using only by (auto simp: flag_ok_def)
    moreover have "waiters_ok ?t" using w Stored by (auto simp: waiters_ok_def)
    moreover have "baton_ok ?t" by (auto simp: baton_ok_def)
    ultimately show ?thesis using step Stored by (simp add: advance_def flight_ok_def)
  next
    case (Cleared m)
    then have "flag_ok (move c (Returned m) s)" "waiters_ok (move c (Returned m) s)"
      using move_flag_ok [OF f] move_waiters_ok [OF w] by simp_all
    with step Cleared notify_ok show ?thesis by (auto simp: advance_def)
  next
    case Woken
    then have "flag_ok (move c Looking s)" "waiters_ok (move c Looking s)"
      using move_flag_ok [OF f] move_waiters_ok [OF w] by simp_all
    with step Woken notify_ok show ?thesis by (auto simp: advance_def)
  next
    case Polling
    show ?thesis
    proof (cases "permit s")
      case True
      let ?t = "move c Woken (s\<lparr>permit := False\<rparr>)"
      have "flag_ok ?t" using f Polling by (simp add: move_flag_ok)
      moreover have "waiters_ok ?t" using w Polling by (auto simp: waiters_ok_def)
      moreover have "baton_ok ?t" by (auto simp: baton_ok_def)
      ultimately show ?thesis using step Polling True by (simp add: advance_def flight_ok_def)
    next
      case False
      let ?t = "move c Waiting (s\<lparr>waiters := waiters s @ [c]\<rparr>)"
      have "flag_ok ?t" using f Polling by (simp add: move_flag_ok)
      moreover have "waiters_ok ?t" using w Polling False by (auto simp: waiters_ok_def)
      moreover have "baton_ok ?t"
      proof -
        from b Polling False have "fetching s \<or> (\<exists>d. carries (phase s d))" by (auto simp: baton_ok_def)
        then show ?thesis
        proof
          assume "fetching s"
          then show ?thesis by (simp add: baton_ok_def)
        next
          assume "\<exists>d. carries (phase s d)"
          then obtain d where "carries (phase s d)" ..
          with Polling have "carries (phase ?t d)" by (cases "d = c") simp_all
          then show ?thesis unfolding baton_ok_def by blast
        qed
      qed
      ultimately show ?thesis using step Polling False by (simp add: advance_def flight_ok_def)
    qed
  next
    case Fetching
    then have ph: "flight_ok (move c (Stored m) s)" for m using simple [of "Stored m"] by simp
    show ?thesis
    proof (cases out)
      case None
      then have "s' = move c (Stored no_models) s" using step Fetching by (simp add: advance_def)
      with ph show ?thesis by simp
    next
      case (Some m)
      then have "s' = (move c (Stored m) s)\<lparr>cached := Some m\<rparr>" using step Fetching by (simp add: advance_def store)
      with ph [of m] same show ?thesis by simp
    qed
  next
    case Looking
    with step show ?thesis using simple [of Missed] simple [of "Returned m" for m]
      by (cases "cached s") (auto simp: advance_def)
  next
    case Outside
    with step show ?thesis using simple [of Looking] by (auto simp: advance_def)
  next
    case (Returned m)
    with step show ?thesis using simple [of Looking] by (auto simp: advance_def)
  next
    case Waiting
    with step show ?thesis by (simp add: advance_def)
  qed
qed

lemma flight_run_ok: "in_flight_run s \<Longrightarrow> flight_ok s"
proof (induction rule: in_flight_run.induct)
  case flight_start
  show ?case by (simp add: no_flight_def flight_ok_def flag_ok_def waiters_ok_def baton_ok_def)
next
  case (flight_next s s')
  from flight_next.hyps(2) show ?case
  proof cases
    case (caller_step out c)
    with flight_next.IH show ?thesis by (rule advance_ok)
  next
    case invalidated
    with flight_next.IH show ?thesis by (simp add: flight_ok_def flag_ok_def waiters_ok_def baton_ok_def)
  qed
qed

section \<open>One run at a time, and nobody forgotten\<close>

inductive flight_steps :: "'i flight \<Rightarrow> 'i flight \<Rightarrow> bool" where
  steps_none: "flight_steps s s"
| steps_more: "advance out c s = Some s' \<Longrightarrow> flight_steps s' s'' \<Longrightarrow> flight_steps s s''"

lemma steps_trans: "flight_steps s t \<Longrightarrow> flight_steps t u \<Longrightarrow> flight_steps s u"
  by (induction rule: flight_steps.induct) (auto intro: steps_more)

lemma steps_one: "advance out c s = Some s' \<Longrightarrow> flight_steps s s'"
  by (blast intro: flight_steps.intros)

text \<open>The fetcher ends its run, and the one with the baton wakes the oldest waiter.\<close>

lemma fetcher_ends:
  assumes "flight_ok s" and "fetching s"
  shows "\<exists>t b. flight_steps s t \<and> flight_ok t \<and> waiters t = waiters s \<and> carries (phase t b)"
proof -
  obtain b where b: "fetches (phase s b)" using assms by (auto simp: flight_ok_def flag_ok_def)
  have stored: "\<exists>u. flight_steps t u \<and> flight_ok u \<and> waiters u = waiters t \<and> carries (phase u b)"
    if "flight_ok t" "phase t b = Stored m" for t m
  proof -
    have a: "advance None b t = Some (move b (Cleared m) (t\<lparr>fetching := False\<rparr>))"
      using that(2) by (simp add: advance_def)
    from steps_one [OF a] advance_ok [OF that(1) a] show ?thesis
      by (intro exI [of _ "move b (Cleared m) (t\<lparr>fetching := False\<rparr>)"]) simp
  qed
  from b consider "phase s b = Fetching" | m where "phase s b = Stored m"
    by (auto simp: fetches_def split: caller_phase.splits)
  then show ?thesis
  proof cases
    case 1
    then have a: "advance None b s = Some (move b (Stored no_models) s)" by (simp add: advance_def)
    from stored [OF advance_ok [OF assms(1) a]] obtain u where
      "flight_steps (move b (Stored no_models) s) u" "flight_ok u" "waiters u = waiters s" "carries (phase u b)" by auto
    with steps_trans [OF steps_one [OF a]] show ?thesis by blast
  next
    case 2
    with stored [OF assms(1)] show ?thesis by blast
  qed
qed

lemma baton_wakes:
  assumes "flight_ok s" and "carries (phase s b)" and "waiters s = w # ws"
  shows "\<exists>t. flight_steps s t \<and> flight_ok t \<and> waiters t = ws \<and> phase t w = Woken"
proof -
  obtain ph where a: "advance None b s = Some (notify_one (move b ph s))"
    using assms(2) by (auto simp: advance_def carries_def split: caller_phase.splits)
  from advance_ok [OF assms(1) a] steps_one [OF a] assms(3) show ?thesis
    by (auto simp: notify_one_def intro!: exI [of _ "notify_one (move b ph s)"])
qed

lemma holder_step:
  assumes "flight_ok s" and "waiters s = w # ws"
  shows "\<exists>t. flight_steps s t \<and> flight_ok t \<and> waiters t = ws \<and> phase t w = Woken"
proof (cases "fetching s")
  case True
  from fetcher_ends [OF assms(1) True] obtain t b where
    t: "flight_steps s t" "flight_ok t" "waiters t = w # ws" "carries (phase t b)" using assms(2) by auto
  with baton_wakes [OF t(2,4,3)] steps_trans [OF t(1)] show ?thesis by blast
next
  case False
  have "phase s w = Waiting" "\<not> permit s" using assms by (auto simp: flight_ok_def waiters_ok_def)
  with False assms(1) obtain b where "carries (phase s b)" unfolding flight_ok_def baton_ok_def by blast
  with baton_wakes [OF assms(1) _ assms(2)] show ?thesis by blast
qed

lemma waiter_reached:
  "flight_ok s \<Longrightarrow> n < length (waiters s) \<Longrightarrow> \<exists>t. flight_steps s t \<and> phase t (waiters s ! n) = Woken"
proof (induction n arbitrary: s)
  case (0 s)
  then obtain w ws where w: "waiters s = w # ws" by (cases "waiters s") auto
  from holder_step [OF 0(1) w] w show ?case by auto
next
  case (Suc n)
  then obtain w ws where w: "waiters s = w # ws" by (cases "waiters s") auto
  from holder_step [OF Suc.prems(1) w] obtain t where "flight_steps s t" "flight_ok t" "waiters t = ws" by auto
  with Suc.IH [of t] Suc.prems(2) w steps_trans [of s t] show ?case by auto
qed

text \<open>C28: The binary is asked once at a time. In every run, however the callers and the invalidations of the cache
  interleave, two callers never fetch together, and no caller that waits is forgotten: while it waits, somebody else
  fetches or is about to wake a waiter, and without any help from the callers behind it the run can go on until
  it is woken.\<close>

theorem model_flight:
  assumes "in_flight_run s"
  shows "(\<forall>c d. fetches (phase s c) \<and> fetches (phase s d) \<longrightarrow> c = d) \<and>
    (\<forall>c. phase s c = Waiting \<longrightarrow>
       (\<exists>b. b \<noteq> c \<and> (fetches (phase s b) \<or> carries (phase s b)) \<and> (\<forall>out. advance out b s \<noteq> None)) \<and>
       (\<exists>t. flight_steps s t \<and> phase t c = Woken))"
proof -
  note ok = flight_run_ok [OF assms]
  have "\<exists>b. b \<noteq> c \<and> (fetches (phase s b) \<or> carries (phase s b)) \<and> (\<forall>out. advance out b s \<noteq> None)"
      "\<exists>t. flight_steps s t \<and> phase t c = Woken" if c: "phase s c = Waiting" for c
  proof -
    from ok c have m: "c \<in> set (waiters s)" "\<not> permit s" by (auto simp: flight_ok_def waiters_ok_def)
    with ok c obtain b where b: "fetches (phase s b) \<or> carries (phase s b)"
      unfolding flight_ok_def baton_ok_def flag_ok_def by metis
    then have "b \<noteq> c" "\<forall>out. advance out b s \<noteq> None"
      using c by (auto simp: advance_def fetches_def carries_def split: caller_phase.splits option.splits)
    with b show "\<exists>b. b \<noteq> c \<and> (fetches (phase s b) \<or> carries (phase s b)) \<and> (\<forall>out. advance out b s \<noteq> None)" by blast
    from m(1) obtain n where "n < length (waiters s)" "waiters s ! n = c" by (auto simp: in_set_conv_nth)
    with waiter_reached [OF ok] show "\<exists>t. flight_steps s t \<and> phase t c = Woken" by auto
  qed
  with ok show ?thesis by (auto simp: flight_ok_def flag_ok_def)
qed

section \<open>Schedules\<close>

text \<open>Callers that step in a given order; one that waits is passed over.\<close>

fun schedule :: "('i \<times> parsed_models option) list \<Rightarrow> 'i flight \<Rightarrow> 'i flight" where
  "schedule [] s = s"
| "schedule ((c, out) # cs) s = schedule cs (case advance out c s of Some t \<Rightarrow> t | None \<Rightarrow> s)"

lemma schedule_run: "in_flight_run s \<Longrightarrow> in_flight_run (schedule cs s)"
proof (induction cs s rule: schedule.induct)
  case (2 c out cs s)
  then show ?case by (cases "advance out c s") (auto intro: flight_next caller_step)
qed (simp add: flight_start)

lemma schedule_append: "schedule (xs @ ys) s = schedule ys (schedule xs s)"
  by (induction xs s rule: schedule.induct) simp_all

definition ex_waiting :: "nat flight" where
  "ex_waiting = schedule (replicate 3 (0, None) @ replicate 4 (1, None)) no_flight"

lemma model_flight_witness: "phase ex_waiting 1 = Waiting \<and> (\<exists>t. flight_steps ex_waiting t \<and> phase t 1 = Woken)"
proof -
  have "in_flight_run ex_waiting" unfolding ex_waiting_def by (intro schedule_run flight_start)
  from model_flight [OF this] moreover have "phase ex_waiting 1 = Waiting"
    by (simp add: ex_waiting_def eval_nat_numeral advance_def no_flight_def)
  ultimately show ?thesis by blast
qed

text \<open>The permit that a run without waiters leaves behind is not harmless. The first caller fetches alone, the cache is
  invalidated, the second fetches, and the third takes the permit, passes it on to nobody, which leaves it again, and
  finds the flag still set.\<close>

definition stale_permit :: "parsed_models \<Rightarrow> nat flight" where
  "stale_permit m = \<lparr>cached = None, fetching = True, permit = True, waiters = [],
     phase = (\<lambda>_. Outside)(0 := Returned m, 1 := Fetching, 2 := Looking)\<rparr>"

lemma stale_permit_reached: "in_flight_run (stale_permit m)"
proof -
  let ?one = "schedule (replicate 3 (0, None) @ [(0, Some m), (0, None), (0, None)]) no_flight :: nat flight"
  have "in_flight_run (schedule (replicate 3 (1, None) @ [(2, None)]) (?one\<lparr>cached := None\<rparr>))"
    by (rule schedule_run, rule flight_next [OF schedule_run [OF flight_start] invalidated])
  also have "schedule (replicate 3 (1, None) @ [(2, None)]) (?one\<lparr>cached := None\<rparr>) = stale_permit m"
    by (simp add: eval_nat_numeral advance_def no_flight_def move_def notify_one_def stale_permit_def fun_eq_iff)
  finally show ?thesis .
qed

text \<open>A stale permit makes a caller spin. There is a run in which one caller fetches and another, instead of
  waiting for it, goes round its loop for ever: however many steps it takes alone, it neither waits nor returns, and
  every four of them leave everything as it was.\<close>

lemma stale_permit_spins:
  "\<exists>s :: nat flight. in_flight_run s \<and> phase s 1 = Fetching \<and>
     (\<forall>k. phase (schedule (replicate k (2, None)) s) 2 \<in> {Looking, Missed, Polling, Woken} \<and>
          schedule (replicate (4 * k) (2, None)) s = s)"
proof -
  let ?s = "stale_permit no_models"
  have round: "schedule (replicate 4 (2, None)) ?s = ?s"
    by (simp add: eval_nat_numeral advance_def move_def notify_one_def stale_permit_def fun_eq_iff)
  have rounds: "schedule (replicate (4 * k) (2, None)) ?s = ?s" for k
    using round by (induction k) (simp_all add: schedule_append replicate_add)
  have part: "phase (schedule (replicate j (2, None)) ?s) 2 \<in> {Looking, Missed, Polling, Woken}" if "j < 4" for j
  proof -
    from that consider "j = 0" | "j = 1" | "j = 2" | "j = 3" by linarith
    then show ?thesis
      by cases (simp_all add: eval_nat_numeral advance_def move_def notify_one_def stale_permit_def)
  qed
  have "phase (schedule (replicate k (2, None)) ?s) 2 \<in> {Looking, Missed, Polling, Woken}" for k
  proof -
    have "replicate k (2, None) = replicate (4 * (k div 4)) (2 :: nat, None :: parsed_models option) @ replicate (k mod 4) (2, None)"
      by (simp flip: replicate_add)
    then have "schedule (replicate k (2, None)) ?s = schedule (replicate (k mod 4) (2, None)) ?s"
      by (simp add: schedule_append rounds)
    with part [of "k mod 4"] show ?thesis by simp
  qed
  with rounds stale_permit_reached show ?thesis
    by (intro exI [of _ ?s]) (simp add: stale_permit_def)
qed

text \<open>What a run finds is stored even if the cache was invalidated after it began.\<close>

lemma stale_result_stored:
  "\<exists>s. in_flight_run s \<and> phase s (0 :: nat) = Fetching \<and>
     cached (schedule [(0, Some m)] (s\<lparr>cached := None\<rparr>)) = Some m"
  using schedule_run [OF flight_start, of "replicate 3 (0 :: nat, None)"]
  by (intro exI [of _ "schedule (replicate 3 (0, None)) no_flight"])
    (simp add: eval_nat_numeral advance_def no_flight_def)

end
