(* ===== verification/Daemon_Http.thy ===== *)
theory Daemon_Http
  imports Driver_Actions
begin

text \<open>
  The client of one daemon, \<^verbatim>\<open>polytoken/daemon_client.rs\<close>: requests, what becomes of their responses, and the
  endpoints. The network is the record \<open>net\<close> over a world \<open>'w\<close>, which the daemon shares; a request that is not
  answered within ten seconds is \<open>Unreached\<close>. serde decodes the bodies: \<open>decode\<close> is the argument of an endpoint
  whose body has a type. Bodies that are sent are JSON values. An error text is cut at a byte, which panics inside a
  character; a panic is \<open>None\<close>.
\<close>

section \<open>Requests\<close>

datatype http_method = GET | POST | DELETE

record http_request =
  req_method :: http_method
  req_url :: string
  req_body :: "json option"
  req_bearer :: "(string \<times> string) option"

text \<open>The status and the body, unless it could not be read.\<close>

datatype fetched = Unreached | Answered int "string option"

record 'w net =
  send :: "http_request \<Rightarrow> 'w \<Rightarrow> fetched \<times> 'w"
  from_json :: "string \<Rightarrow> json option"
  url_encode :: "string \<Rightarrow> string"
  error_code :: "string \<Rightarrow> string option"
  handoff_enabled :: "string \<Rightarrow> bool option option"

record attachment_lease =
  lease_id :: string
  heartbeat_interval_ms :: nat
  expires_after_ms :: nat

record daemon_client =
  client_session :: string
  client_port :: nat
  base_url :: string
  own_pid :: int
  auth_token :: "string option"
  daemon_pid :: "int option"
  daemon_start_time :: "nat option"
  held_lease :: "attachment_lease option"
  subscribed :: bool
  heartbeat_timeout_ms :: nat

definition new_client :: "string \<Rightarrow> nat \<Rightarrow> int \<Rightarrow> string option \<Rightarrow> daemon_client" where
  "new_client sid p pid token =
     \<lparr>client_session = sid, client_port = p, base_url = ''http://127.0.0.1:'' @ digits_of p, own_pid = pid,
      auth_token = token, daemon_pid = None, daemon_start_time = None, held_lease = None, subscribed = False,
      heartbeat_timeout_ms = 30000\<rparr>"

definition auth_header :: "daemon_client \<Rightarrow> (string \<times> string) option" where
  "auth_header c = map_option (\<lambda>t. (''Authorization'', ''Bearer '' @ t)) (auth_token c)"

text \<open>Only a \<open>POST\<close> has a body.\<close>

definition safe_fetch ::
    "'w net \<Rightarrow> daemon_client \<Rightarrow> string \<Rightarrow> http_method \<Rightarrow> json option \<Rightarrow> 'w \<Rightarrow> fetched \<times> 'w" where
  "safe_fetch N c url m body =
     send N \<lparr>req_method = m, req_url = url, req_body = (if m = POST then body else None), req_bearer = auth_header c\<rparr>"

definition fetch_error :: "string option \<Rightarrow> string option" where
  "fetch_error t = (if t = None then Some ''failed to read response body'' else None)"

section \<open>Responses\<close>

definition unreached :: "'a http_reply" where
  "unreached = \<lparr>http_status = 0, http_data = None, http_error = Some ''request failed (connection error or timeout)''\<rparr>"

definition cut_text :: "nat \<Rightarrow> string \<Rightarrow> string option" where
  "cut_text n s = str_prefix s (min (length s) n)"

definition message_field :: "json option \<Rightarrow> string option" where
  "message_field v =
     (case v of
        Some (J_Object fs) \<Rightarrow> (case map_of (rev fs) ''message'' of Some (J_String m) \<Rightarrow> Some m | _ \<Rightarrow> None)
      | _ \<Rightarrow> None)"

definition decoded_body :: "(string \<Rightarrow> 'a option) \<Rightarrow> string \<Rightarrow> 'a option" where
  "decoded_body decode text = (if text \<noteq> [] then decode text else None)"

definition post_reply :: "'w net \<Rightarrow> (string \<Rightarrow> 'a option) \<Rightarrow> int \<Rightarrow> string option \<Rightarrow> 'a http_reply option" where
  "post_reply N decode s t =
     (if s = 0 then Some \<lparr>http_status = 0, http_data = None, http_error = fetch_error t\<rparr>
      else
        let text = unwrap_or t [] in
        map_option (\<lambda>e. \<lparr>http_status = s, http_data = decoded_body decode text, http_error = e\<rparr>)
          (if s < 400 then Some None
           else case message_field (from_json N text) of
             Some m \<Rightarrow> Some (Some m)
           | None \<Rightarrow> map_option Some (cut_text 200 text)))"

definition get_reply :: "(string \<Rightarrow> 'a option) \<Rightarrow> int \<Rightarrow> string option \<Rightarrow> 'a http_reply option" where
  "get_reply decode s t =
     (if s = 0 then Some \<lparr>http_status = 0, http_data = None, http_error = fetch_error t\<rparr>
      else
        let text = unwrap_or t [] in
        map_option (\<lambda>e. \<lparr>http_status = s, http_data = decoded_body decode text, http_error = e\<rparr>)
          (if s < 400 \<or> text = [] then Some None else map_option Some (cut_text 500 text)))"

definition client_post ::
    "'w net \<Rightarrow> daemon_client \<Rightarrow> (string \<Rightarrow> 'a option) \<Rightarrow> string \<Rightarrow> json option \<Rightarrow> 'w \<Rightarrow> 'a http_reply option \<times> 'w" where
  "client_post N c decode path body w =
     (case safe_fetch N c (base_url c @ path) POST body w of
        (Unreached, w1) \<Rightarrow> (Some unreached, w1)
      | (Answered s t, w1) \<Rightarrow> (post_reply N decode s t, w1))"

definition client_get ::
    "'w net \<Rightarrow> daemon_client \<Rightarrow> (string \<Rightarrow> 'a option) \<Rightarrow> string \<Rightarrow> 'w \<Rightarrow> 'a http_reply option \<times> 'w" where
  "client_get N c decode path w =
     (case safe_fetch N c (base_url c @ path) GET None w of
        (Unreached, w1) \<Rightarrow> (Some unreached, w1)
      | (Answered s t, w1) \<Rightarrow> (get_reply decode s t, w1))"

text \<open>A call returns a value or an error, or it panics.\<close>

type_synonym ('w, 'a) call = "'w \<Rightarrow> (string + 'a) option \<times> 'w"

definition refusal :: "string \<Rightarrow> 'a http_reply \<Rightarrow> string" where
  "refusal what r = what @ '' failed ('' @ show_int (http_status r) @ ''): '' @ unwrap_or (http_error r) []"

definition posted :: "'w net \<Rightarrow> daemon_client \<Rightarrow> int list \<Rightarrow> string \<Rightarrow> json option \<Rightarrow> ('w, unit) call" where
  "posted N c accepted path body w =
     map_prod (map_option (\<lambda>r. if http_status r \<in> set accepted then Inr () else Inl (refusal (''POST '' @ path) r))) id
       (client_post N c (from_json N) path body w)"

definition needed :: "int \<Rightarrow> string \<Rightarrow> 'a http_reply option \<times> 'w \<Rightarrow> (string + 'a) option \<times> 'w" where
  "needed s what =
     map_prod (map_option (\<lambda>r. case http_data r of
         Some x \<Rightarrow> if http_status r = s then Inr x else Inl (refusal what r)
       | None \<Rightarrow> Inl (refusal what r))) id"

section \<open>Turns\<close>

definition client_prompt ::
    "'w net \<Rightarrow> daemon_client \<Rightarrow> (string \<Rightarrow> prompt_accepted option) \<Rightarrow> string \<Rightarrow> int option \<Rightarrow> ('w, prompt_accepted) call" where
  "client_prompt N c decode content max_tool_turns w =
     needed 202 ''POST /prompt''
       (client_post N c decode ''/prompt''
         (Some (J_Object ((''content'', J_String content) #
           (case max_tool_turns of Some n \<Rightarrow> [(''max_tool_turns'', J_Number (show_int n))] | None \<Rightarrow> [])))) w)"

definition queue_turn_input :: "'w net \<Rightarrow> daemon_client \<Rightarrow> string \<Rightarrow> ('w, unit) call" where
  "queue_turn_input N c content = posted N c [202] ''/turn/input'' (Some (J_Object [(''content'', J_String content)]))"

definition turn_input_snapshot ::
    "'w net \<Rightarrow> daemon_client \<Rightarrow> (string \<Rightarrow> pending_turn_snapshot option) \<Rightarrow> 'w \<Rightarrow> pending_turn_snapshot http_reply option \<times> 'w" where
  "turn_input_snapshot N c decode = client_get N c decode ''/turn/input''"

definition dequeue_newest_input :: "'w net \<Rightarrow> daemon_client \<Rightarrow> ('w, unit) call" where
  "dequeue_newest_input N c w =
     (case safe_fetch N c (base_url c @ ''/turn/input/newest'') DELETE None w of
        (Unreached, w1) \<Rightarrow> (Some (Inl ''DELETE /turn/input/newest failed (connection error)''), w1)
      | (Answered s t, w1) \<Rightarrow>
          (Some (if s \<noteq> 200 \<and> s \<noteq> 409 then Inl (''DELETE /turn/input/newest failed ('' @ show_int s @ '')'') else Inr ()), w1))"

definition toggle_adventurous_handoff :: "'w net \<Rightarrow> daemon_client \<Rightarrow> ('w, bool) call" where
  "toggle_adventurous_handoff N c w =
     (case safe_fetch N c (base_url c @ ''/adventurous-handoff'') POST None w of
        (Unreached, w1) \<Rightarrow> (Some (Inl ''POST /adventurous-handoff failed (connection error)''), w1)
      | (Answered s t, w1) \<Rightarrow>
          (Some (if s = 0 then Inl (''POST /adventurous-handoff failed ('' @ unwrap_or (fetch_error t) ''fetch returned null'' @ '')'')
                 else if 400 \<le> s then Inl (''POST /adventurous-handoff failed ('' @ show_int s @ '')'')
                 else Inr (unwrap_or (unwrap_or (Option.bind t (handoff_enabled N)) None) False)), w1))"

definition cancel_turn :: "'w net \<Rightarrow> daemon_client \<Rightarrow> ('w, unit) call" where
  "cancel_turn N c = posted N c [202, 409] ''/turn/cancel'' None"

section \<open>What the session is\<close>

definition client_state ::
    "'w net \<Rightarrow> daemon_client \<Rightarrow> (string \<Rightarrow> state_snapshot option) \<Rightarrow> 'w \<Rightarrow> state_snapshot http_reply option \<times> 'w" where
  "client_state N c decode = client_get N c decode ''/state''"

definition history_path :: "int option \<Rightarrow> int option \<Rightarrow> string" where
  "history_path offset limit =
     (let params = (case offset of Some n \<Rightarrow> [''offset='' @ show_int n] | None \<Rightarrow> [])
                 @ (case limit of Some n \<Rightarrow> [''limit='' @ show_int n] | None \<Rightarrow> [])
      in ''/history'' @ (if params = [] then [] else ''?'' @ join ''&'' params))"

definition client_history ::
    "'w net \<Rightarrow> daemon_client \<Rightarrow> (string \<Rightarrow> json list option) \<Rightarrow> int option \<Rightarrow> int option \<Rightarrow> 'w \<Rightarrow> json list http_reply option \<times> 'w" where
  "client_history N c decode offset limit = client_get N c decode (history_path offset limit)"

definition client_files ::
    "'w net \<Rightarrow> daemon_client \<Rightarrow> (string \<Rightarrow> string list option) \<Rightarrow> bool option \<Rightarrow> 'w \<Rightarrow> string list http_reply option \<times> 'w" where
  "client_files N c decode include_ignored =
     client_get N c decode (''/files'' @ (if unwrap_or include_ignored False then ''?include_ignored=true'' else []))"

definition client_jobs ::
    "'w net \<Rightarrow> daemon_client \<Rightarrow> (string \<Rightarrow> job_snapshot list option) \<Rightarrow> 'w \<Rightarrow> job_snapshot list http_reply option \<times> 'w" where
  "client_jobs N c decode = client_get N c decode ''/jobs''"

definition get_permission_monitor :: "'w net \<Rightarrow> daemon_client \<Rightarrow> (string \<Rightarrow> 'a option) \<Rightarrow> ('w, 'a) call" where
  "get_permission_monitor N c decode w =
     needed 200 ''GET /permission-monitor'' (client_get N c decode ''/permission-monitor'' w)"

definition get_notification_autodrain :: "'w net \<Rightarrow> daemon_client \<Rightarrow> (string \<Rightarrow> 'a option) \<Rightarrow> ('w, 'a) call" where
  "get_notification_autodrain N c decode w =
     needed 200 ''GET /notification-autodrain'' (client_get N c decode ''/notification-autodrain'' w)"

section \<open>Commands\<close>

definition client_set_model :: "'w net \<Rightarrow> daemon_client \<Rightarrow> string \<Rightarrow> string option \<Rightarrow> ('w, unit) call" where
  "client_set_model N c m effort w =
     map_prod (map_option (\<lambda>r.
         if http_status r = 200 \<or> http_status r = 409 \<and> http_data r = Some ''no_change'' then Inr ()
         else Inl (refusal ''POST /model'' r))) id
       (client_post N c (error_code N) ''/model''
         (Some (J_Object ((''model'', J_String m) #
           (case effort of Some l \<Rightarrow> [(''reasoning_effort'', J_String l)] | None \<Rightarrow> [])))) w)"

definition client_set_title :: "'w net \<Rightarrow> daemon_client \<Rightarrow> string \<Rightarrow> ('w, unit) call" where
  "client_set_title N c t = posted N c [200] ''/title'' (Some (J_Object [(''title'', J_String t)]))"

fun mode_word :: "permission_monitor_mode \<Rightarrow> string" where
  "mode_word Standard = ''standard''"
| "mode_word Bypass = ''bypass''"
| "mode_word BypassPlus = ''bypass_plus''"
| "mode_word Autonomous = ''autonomous''"

definition set_permission_mode :: "'w net \<Rightarrow> daemon_client \<Rightarrow> permission_monitor_mode \<Rightarrow> ('w, unit) call" where
  "set_permission_mode N c m =
     posted N c [200] ''/permission-monitor'' (Some (J_Object [(''mode'', J_String (mode_word m))]))"

definition set_notification_autodrain :: "'w net \<Rightarrow> daemon_client \<Rightarrow> bool \<Rightarrow> ('w, unit) call" where
  "set_notification_autodrain N c on =
     posted N c [200] ''/notification-autodrain'' (Some (J_Object [(''enabled'', J_Bool on)]))"

definition client_clear :: "'w net \<Rightarrow> daemon_client \<Rightarrow> ('w, unit) call" where
  "client_clear N c = posted N c [200] ''/clear'' None"

text \<open>The driver compacts without guidance.\<close>

definition client_compact :: "'w net \<Rightarrow> daemon_client \<Rightarrow> json option \<Rightarrow> ('w, unit) call" where
  "client_compact N c request = posted N c [202] ''/compact'' (Some (unwrap_or request J_Null))"

definition client_rewind :: "'w net \<Rightarrow> daemon_client \<Rightarrow> json \<Rightarrow> ('w, unit) call" where
  "client_rewind N c request = posted N c [202] ''/rewind'' (Some request)"

definition client_set_facet :: "'w net \<Rightarrow> daemon_client \<Rightarrow> string \<Rightarrow> ('w, unit) call" where
  "client_set_facet N c fc = posted N c [200] ''/facet'' (Some (J_Object [(''facet'', J_String fc)]))"

definition client_reload :: "'w net \<Rightarrow> daemon_client \<Rightarrow> ('w, unit) call" where
  "client_reload N c = posted N c [200] ''/reload'' None"

definition reset_shell :: "'w net \<Rightarrow> daemon_client \<Rightarrow> ('w, unit) call" where
  "reset_shell N c = posted N c [200] ''/reset-shell'' None"

definition goal_set :: "'w net \<Rightarrow> daemon_client \<Rightarrow> string \<Rightarrow> ('w, unit) call" where
  "goal_set N c txt = posted N c [200] ''/goal'' (Some (J_Object [(''summary'', J_String txt)]))"

definition goal_pause :: "'w net \<Rightarrow> daemon_client \<Rightarrow> ('w, unit) call" where
  "goal_pause N c = posted N c [200, 204] ''/goal/pause'' None"

definition goal_resume :: "'w net \<Rightarrow> daemon_client \<Rightarrow> ('w, unit) call" where
  "goal_resume N c = posted N c [200, 204] ''/goal/resume'' None"

definition goal_clear :: "'w net \<Rightarrow> daemon_client \<Rightarrow> ('w, unit) call" where
  "goal_clear N c = posted N c [200, 204] ''/goal/clear'' None"

fun mcp_word :: "mcp_action \<Rightarrow> string" where
  "mcp_word McpEnable = ''enable''"
| "mcp_word McpDisable = ''disable''"
| "mcp_word McpDisconnect = ''disconnect''"
| "mcp_word McpReconnect = ''reconnect''"

text \<open>The error names the server as it was given.\<close>

definition mcp_server_action :: "'w net \<Rightarrow> daemon_client \<Rightarrow> string \<Rightarrow> mcp_action \<Rightarrow> ('w, unit) call" where
  "mcp_server_action N c server act w =
     map_prod (map_option (\<lambda>r. if http_status r = 200 then Inr ()
         else Inl (refusal (''POST /mcp/'' @ server @ ''/'' @ mcp_word act) r))) id
       (client_post N c (from_json N) (''/mcp/'' @ url_encode N server @ ''/'' @ mcp_word act) None w)"

definition client_delete_todo ::
    "'w net \<Rightarrow> daemon_client \<Rightarrow> (string \<Rightarrow> todo_conflict option) \<Rightarrow> int \<Rightarrow> 'w \<Rightarrow> todo_conflict http_reply \<times> 'w" where
  "client_delete_todo N c decode i w =
     (case safe_fetch N c (base_url c @ ''/todos/'' @ show_int i) DELETE None w of
        (Unreached, w1) \<Rightarrow> (unreached, w1)
      | (Answered s t, w1) \<Rightarrow>
          (if s = 0 then \<lparr>http_status = 0, http_data = None, http_error = fetch_error t\<rparr>
           else let text = unwrap_or t [] in
             \<lparr>http_status = s, http_data = decoded_body decode text,
              http_error = (if s < 400 \<or> text = [] then None else Some (concat (take 500 (utf8_chars text))))\<rparr>, w1))"

definition respond_interrogative :: "'w net \<Rightarrow> daemon_client \<Rightarrow> string \<Rightarrow> json \<Rightarrow> ('w, unit) call" where
  "respond_interrogative N c i response w =
     (case safe_fetch N c (base_url c @ ''/interrogative/'' @ url_encode N i @ ''/respond'') POST (Some response) w of
        (Unreached, w1) \<Rightarrow> (Some (Inl (''POST /interrogative/respond timed out (10s) for '' @ i)), w1)
      | (Answered s t, w1) \<Rightarrow>
          (if 200 \<le> s \<and> s < 300 then Some (Inr ())
           else map_option (\<lambda>m. Inl (''POST /interrogative/respond failed ('' @ show_int s @ ''): '' @ m))
             (cut_text 200 (unwrap_or (or_else (fetch_error t) t) ''empty response body'')), w1))"

text \<open>The endpoint of each command of the driver. Only the toggle has an answer.\<close>

definition no_answer :: "(string + unit) option \<times> 'w \<Rightarrow> (string + bool) option \<times> 'w" where
  "no_answer = map_prod (map_option (map_sum id (\<lambda>_. False))) id"

fun client_command :: "'w net \<Rightarrow> daemon_client \<Rightarrow> daemon_command \<Rightarrow> ('w, bool) call" where
  "client_command N c (Cmd_Model m effort) w = no_answer (client_set_model N c m effort w)"
| "client_command N c (Cmd_Facet fc) w = no_answer (client_set_facet N c fc w)"
| "client_command N c (Cmd_PermissionMode m) w = no_answer (set_permission_mode N c m w)"
| "client_command N c Cmd_AdventurousHandoff w = toggle_adventurous_handoff N c w"
| "client_command N c (Cmd_Autodrain on) w = no_answer (set_notification_autodrain N c on w)"
| "client_command N c Cmd_Compact w = no_answer (client_compact N c None w)"
| "client_command N c Cmd_Clear w = no_answer (client_clear N c w)"
| "client_command N c Cmd_ResetShell w = no_answer (reset_shell N c w)"
| "client_command N c Cmd_Reload w = no_answer (client_reload N c w)"
| "client_command N c (Cmd_GoalSet txt) w = no_answer (goal_set N c txt w)"
| "client_command N c Cmd_GoalPause w = no_answer (goal_pause N c w)"
| "client_command N c Cmd_GoalResume w = no_answer (goal_resume N c w)"
| "client_command N c Cmd_GoalClear w = no_answer (goal_clear N c w)"
| "client_command N c (Cmd_Title t) w = no_answer (client_set_title N c t w)"
| "client_command N c (Cmd_Mcp server act) w = no_answer (mcp_server_action N c server act w)"

section \<open>What a call reports\<close>

lemma cut_text_short: "length s \<le> n \<Longrightarrow> cut_text n s = Some s"
  by (simp add: cut_text_def str_prefix_def is_char_boundary_def)

lemma client_post_one:
  "client_post N c d path body w =
    (let q = \<lparr>req_method = POST, req_url = base_url c @ path, req_body = body, req_bearer = auth_header c\<rparr>
     in (case fst (send N q w) of Unreached \<Rightarrow> Some unreached | Answered s t \<Rightarrow> post_reply N d s t, snd (send N q w)))"
  by (simp add: client_post_def safe_fetch_def split_beta split: fetched.splits prod.splits)

lemma post_reply_some:
  "post_reply N d s t = Some r \<Longrightarrow> http_status r = s \<and> (s \<noteq> 0 \<longrightarrow> http_data r = decoded_body d (unwrap_or t []))"
  by (auto simp: post_reply_def Let_def split: if_splits option.splits)

lemma post_reply_none: "post_reply N d s t = None \<Longrightarrow> 400 \<le> s \<and> 200 < length (unwrap_or t [])"
  using cut_text_short [of "unwrap_or t []" 200]
  by (auto simp: post_reply_def Let_def not_less [symmetric] split: if_splits option.splits)

text \<open>A call is one request with the client's token, and says \<open>ok\<close> of an answer as \<open>ok\<close> does: what was not answered,
  and what was answered otherwise, is an error. It panics at most on a long text of an error.\<close>

definition reported ::
    "'w net \<Rightarrow> daemon_client \<Rightarrow> (int \<Rightarrow> string \<Rightarrow> bool) \<Rightarrow> 'w \<Rightarrow> (string + 'a) option \<times> 'w \<Rightarrow> bool" where
  "reported N c ok w res \<longleftrightarrow>
     (\<exists>q. req_method q = POST \<and> req_bearer q = auth_header c \<and> snd res = snd (send N q w) \<and>
       (case fst (send N q w) of
          Unreached \<Rightarrow> \<exists>e. fst res = Some (Inl e)
        | Answered s t \<Rightarrow> (case fst res of
            None \<Rightarrow> 400 \<le> s \<and> 200 < length (unwrap_or t [])
          | Some (Inl e) \<Rightarrow> \<not> ok s (unwrap_or t [])
          | Some (Inr x) \<Rightarrow> ok s (unwrap_or t []))))"

lemma reported_post:
  assumes ok: "\<And>r. (\<exists>x. judge r = Inr x) \<longleftrightarrow> good (http_status r) (http_data r)"
    and bad: "\<not> good 0 None" and data: "\<And>s t. 0 \<noteq> s \<Longrightarrow> good s (decoded_body d t) \<longleftrightarrow> ok s t" and zero: "\<And>t y. \<not> ok 0 t \<and> \<not> good 0 y"
  shows "reported N c ok w (map_prod (map_option judge) id (client_post N c d path body w))"
proof -
  let ?q = "\<lparr>req_method = POST, req_url = base_url c @ path, req_body = body, req_bearer = auth_header c\<rparr>"
  have un: "\<exists>e. judge unreached = Inl e"
    using ok [of unreached] bad by (cases "judge unreached") (auto simp: unreached_def)
  have j: "case judge r of Inl e \<Rightarrow> \<not> ok s (unwrap_or t []) | Inr x \<Rightarrow> ok s (unwrap_or t [])"
    if "post_reply N d s t = Some r" for s t r
    using post_reply_some [OF that] ok [of r] data [of s "unwrap_or t []"] zero by (cases "judge r"; cases "s = 0") auto
  show ?thesis
    unfolding reported_def client_post_one Let_def
    by (rule exI [of _ ?q])
      (use un j in \<open>auto dest: post_reply_none split: fetched.splits option.splits\<close>)
qed

lemma reported_posted: "0 \<notin> set accepted \<Longrightarrow> reported N c (\<lambda>s t. s \<in> set accepted) w (posted N c accepted path body w)"
  unfolding posted_def by (rule reported_post [where good = "\<lambda>s y. s \<in> set accepted"]) auto

lemma reported_no_answer: "reported N c ok w res \<Longrightarrow> reported N c ok w (no_answer res)"
proof -
  assume r: "reported N c ok w res"
  have "fst (no_answer res) = map_option (map_sum id (\<lambda>_. False)) (fst res)" "snd (no_answer res) = snd res"
    by (simp_all add: no_answer_def)
  with r show ?thesis
    unfolding reported_def by (elim exE, intro exI) (auto split: fetched.splits option.splits sum.splits)
qed

text \<open>The answers each command takes for a success.\<close>

fun command_ok :: "'w net \<Rightarrow> daemon_command \<Rightarrow> int \<Rightarrow> string \<Rightarrow> bool" where
  "command_ok N (Cmd_Model m effort) = (\<lambda>s t. s = 200 \<or> s = 409 \<and> decoded_body (error_code N) t = Some ''no_change'')"
| "command_ok N Cmd_AdventurousHandoff = (\<lambda>s t. s \<noteq> 0 \<and> s < 400)"
| "command_ok N Cmd_Compact = (\<lambda>s t. s \<in> set [202])"
| "command_ok N Cmd_GoalPause = (\<lambda>s t. s \<in> set [200, 204])"
| "command_ok N Cmd_GoalResume = (\<lambda>s t. s \<in> set [200, 204])"
| "command_ok N Cmd_GoalClear = (\<lambda>s t. s \<in> set [200, 204])"
| "command_ok N cmd = (\<lambda>s t. s \<in> set [200])"

lemmas command_defs = client_set_facet_def set_permission_mode_def set_notification_autodrain_def client_compact_def
  client_clear_def reset_shell_def client_reload_def goal_set_def goal_pause_def goal_resume_def goal_clear_def client_set_title_def

lemma toggle_reported: "reported N c (command_ok N Cmd_AdventurousHandoff) w (toggle_adventurous_handoff N c w)"
proof -
  let ?q = "\<lparr>req_method = POST, req_url = base_url c @ ''/adventurous-handoff'', req_body = None, req_bearer = auth_header c\<rparr>"
  show ?thesis
    unfolding reported_def toggle_adventurous_handoff_def safe_fetch_def
    by (rule exI [of _ ?q]) (auto split: fetched.splits prod.splits)
qed


text \<open>An error that is too long is cut at a byte. In the text of a todo it is cut at a character.\<close>

definition ex_net :: "int \<Rightarrow> string \<Rightarrow> unit net" where
  "ex_net s t = \<lparr>send = \<lambda>q w. (Answered s (Some t), w), from_json = \<lambda>_. None, url_encode = id, error_code = \<lambda>_. None,
     handoff_enabled = \<lambda>_. None\<rparr>"

definition long_error :: string where
  "long_error = replicate 199 CHR ''x'' @ bytes [0xC3, 0xA9]"

lemma error_text_panics: "client_command (ex_net 500 long_error) (new_client ''s'' 1 2 None) Cmd_Clear () = (None, ())"
  by (simp add: ex_net_def client_clear_def posted_def client_post_def safe_fetch_def post_reply_def no_answer_def cut_text_def
    message_field_def str_prefix_def is_char_boundary_def is_cont_def long_error_def bytes_def nth_append Let_def)

end
