(* ===== verification/Iso_Time.thy ===== *)
theory Iso_Time
  imports Calendar Numbers Text_Clip
begin

text \<open>
  The timestamps of \<^verbatim>\<open>polytoken/daemon_client.rs\<close>, which depends on no calendar library: dates to days and
  back, printing the time (\<open>now_iso8601\<close>) and parsing the daemon's timestamps (\<open>parse_rfc3339_millis\<close>). Release
  builds wrap on overflow, which only the offset of a time zone can reach; a build with overflow checks panics there.
\<close>

section \<open>Days and dates\<close>

text \<open>Howard Hinnant's algorithms. A year that was parsed has no sign, so it is only negative by one, and the era
  rounds towards minus infinity.\<close>

definition days_from_civil :: "int \<Rightarrow> int \<Rightarrow> int \<Rightarrow> int option" where
  "days_from_civil year m d =
     (if \<not> (1 \<le> m \<and> m \<le> 12) \<or> \<not> (1 \<le> d \<and> d \<le> 31) then None
      else
        let y = (if m \<le> 2 then year - 1 else year);
            era = (if 0 \<le> y then y div 400 else - (- (y - 399) div 400));
            yoe = y - era * 400;
            doy = (153 * (if 2 < m then m - 3 else m + 9) + 2) div 5 + d - 1;
            doe = yoe * 365 + yoe div 4 - yoe div 100 + doy
        in Some (era * 146097 + doe - 719468))"

definition epoch_to_civil :: "int \<Rightarrow> int \<times> int \<times> int \<times> int \<times> int \<times> int" where
  "epoch_to_civil secs =
     (let days = secs div 86400;
          time_secs = secs mod 86400;
          h = time_secs div 3600;
          mi = time_secs mod 3600 div 60;
          s = time_secs mod 60;
          z = days + 719468;
          era = (if 0 \<le> z then z else z - 146096) div 146097;
          doe = z - era * 146097;
          yoe = (doe - doe div 1460 + doe div 36524 - doe div 146096) div 365;
          y = yoe + era * 400;
          doy = doe - (365 * yoe + yoe div 4 - yoe div 100);
          mp = (5 * doy + 2) div 153;
          d = doy - (153 * mp + 2) div 5 + 1;
          mo = (if mp < 10 then mp + 3 else mp - 9)
      in (if mo \<le> 2 then y + 1 else y, mo, d, h, mi, s))"

text \<open>The time that is printed, in milliseconds since 1970.\<close>

definition now_iso8601 :: "int \<Rightarrow> string" where
  "now_iso8601 now =
     (let (y, mo, d, h, mi, s) = epoch_to_civil (now div 1000)
      in pad 4 y @ ''-'' @ pad 2 mo @ ''-'' @ pad 2 d @ ''T'' @ pad 2 h @ '':'' @ pad 2 mi @ '':'' @ pad 2 s @
         [CHR ''.''] @ pad 3 (now mod 1000) @ ''Z'')"

section \<open>Parsing\<close>

text \<open>\<open>str::rfind\<close> of a character: what is before it, and what follows.\<close>

definition split_last :: "char \<Rightarrow> string \<Rightarrow> (string \<times> string) option" where
  "split_last c s = map_option (\<lambda>(a, b). (rev b, rev a)) (split_once c (rev s))"

text \<open>The offset after a sign, if there is one there: a failure to parse it, and an offset in minutes.\<close>

definition tz_offset :: "char \<Rightarrow> string \<Rightarrow> (string \<times> int) option option" where
  "tz_offset sign rest =
     (case split_last sign rest of
        Some (before, tz) \<Rightarrow>
          if before \<noteq> [] \<and> 5 \<le> length tz then
            (case split_on (CHR '':'') tz of
               a # b # _ \<Rightarrow>
                 Some (case (parse_i32 a, parse_i32 b) of
                   (Some tz_h, Some tz_m) \<Rightarrow>
                     Some (before, to_signed 32 ((if sign = CHR ''-'' then - 1 else 1) * to_signed 32 (tz_h * 60 + tz_m)))
                 | _ \<Rightarrow> None)
             | _ \<Rightarrow> Some None)
          else None
      | None \<Rightarrow> None)"

definition parse_tz :: "string \<Rightarrow> (string \<times> int) option" where
  "parse_tz rest =
     (case split_last (CHR ''Z'') rest of
        Some (before, _) \<Rightarrow> Some (before, 0)
      | None \<Rightarrow> (case tz_offset (CHR ''+'') rest of
          Some r \<Rightarrow> r
        | None \<Rightarrow> (case tz_offset (CHR ''-'') rest of
            Some r \<Rightarrow> r
          | None \<Rightarrow> Some (rest, 0))))"

definition parse_millis :: "string \<Rightarrow> nat option" where
  "parse_millis ms =
     (let three = take 3 (utf8_chars ms)
      in parse_u32 (concat three @ replicate (3 - length three) CHR ''0''))"

definition parse_time :: "string \<Rightarrow> (nat \<times> nat \<times> nat \<times> nat) option" where
  "parse_time s =
     (case split_on (CHR '':'') s of
        a # b # c # _ \<Rightarrow>
          (let (sec, millis) = (case split_once (CHR ''.'') c of
                 Some (x, ms) \<Rightarrow> (x, unwrap_or (parse_millis ms) 0)
               | None \<Rightarrow> (c, 0))
           in (case (parse_u32 a, parse_u32 b, parse_u32 sec) of
                 (Some h, Some m, Some x) \<Rightarrow> Some (h, m, x, millis)
               | _ \<Rightarrow> None))
      | _ \<Rightarrow> None)"

definition parse_date :: "string \<Rightarrow> (int \<times> nat \<times> nat) option" where
  "parse_date s =
     (case split_on (CHR ''-'') s of
        a # b # c # _ \<Rightarrow>
          (case (parse_i32 a, parse_u32 b, parse_u32 c) of
             (Some y, Some m, Some d) \<Rightarrow> Some (y, m, d)
           | _ \<Rightarrow> None)
      | _ \<Rightarrow> None)"

text \<open>The callers read the 128-bit result back as 64 bits with a sign.\<close>

definition parse_rfc3339_millis :: "string \<Rightarrow> int option" where
  "parse_rfc3339_millis str =
     (case split_once (CHR ''T'') (trim str) of
        None \<Rightarrow> None
      | Some (date_part, rest) \<Rightarrow>
          (case (parse_date date_part, parse_tz rest) of
             (Some (year, month, day), Some (time_part, tz_offset_minutes)) \<Rightarrow>
               (case (parse_time time_part, days_from_civil year (int month) (int day)) of
                  (Some (h, m, sec, millis), Some days) \<Rightarrow>
                    (let total_seconds = days * 86400 + int h * 3600 + int m * 60 + int sec - tz_offset_minutes * 60
                     in Some ((total_seconds * 1000 + int millis) mod 2 ^ 128))
                | _ \<Rightarrow> None)
           | _ \<Rightarrow> None))"

section \<open>Days and dates are inverse\<close>

lemma epoch_civil: "epoch_to_civil secs =
  (case civil_from_days (secs div 86400) of (y, mo, d) \<Rightarrow>
     (y, mo, d, secs mod 86400 div 3600, secs mod 86400 mod 3600 div 60, secs mod 86400 mod 60))"
  by (simp only: epoch_to_civil_def civil_from_days_def Let_def prod.case)

fun valid_date :: "int \<times> int \<times> int \<Rightarrow> bool" where
  "valid_date (y, m, d) \<longleftrightarrow> 1970 \<le> y \<and> 1 \<le> m \<and> m \<le> 12 \<and> 1 \<le> d \<and> d \<le> days_in_month y m"

lemma days_in_month_range: "28 \<le> days_in_month y m \<and> days_in_month y m \<le> 31"
  by (simp add: days_in_month_def)

lemma valid_next: "valid_date t \<Longrightarrow> valid_date (next_day t)"
proof (cases t)
  case (fields y m d)
  assume v: "valid_date t"
  have pos: "1 \<le> days_in_month a b" for a b using days_in_month_range [of a b] by linarith
  from v fields show ?thesis by (auto simp: pos)
qed

fun day_number :: "int \<times> int \<times> int \<Rightarrow> int" where
  "day_number (y, m, d) =
     start (if m \<le> 2 then y - 1 else y) + (153 * (if 2 < m then m - 3 else m + 9) + 2) div 5 + d - 1"

lemma start_split:
  assumes "0 \<le> y"
  shows "start y = y div 400 * 146097 + ((y - y div 400 * 400) * 365 + (y - y div 400 * 400) div 4 - (y - y div 400 * 400) div 100)"
proof -
  define e r where "e = y div 400" and "r = y mod 400"
  have y: "y = 400 * e + r" and r: "0 \<le> r" "r < 400" by (simp_all add: e_def r_def)
  have q: "(400 * e + r) div 400 = e" using int_div_pos_eq [OF refl r] by simp
  have "(400 * e + r) div 4 = 100 * e + r div 4" "(400 * e + r) div 100 = 4 * e + r div 100"
    by (simp_all add: div_add1_eq mult.commute [of 400])
  then show ?thesis unfolding y start_def q by simp
qed

lemma days_from_civil_number:
  assumes "valid_date (y, m, d)"
  shows "days_from_civil y m d = Some (day_number (y, m, d) - 719468)"
proof -
  let ?y = "if m \<le> 2 then y - 1 else y"
  have y: "0 \<le> ?y" using assms by simp
  have d: "1 \<le> m \<and> m \<le> 12" "1 \<le> d \<and> d \<le> 31" using assms days_in_month_range [of y m] by auto
  have "(if 0 \<le> ?y then ?y div 400 else - (- (?y - 399) div 400)) = ?y div 400" using y by (simp only: if_True)
  then show ?thesis
    unfolding days_from_civil_def Let_def using d start_split [OF y] by (simp only: day_number.simps) simp
qed

lemma day_number_next:
  assumes "valid_date t"
  shows "day_number (next_day t) = day_number t + 1"
proof -
  obtain y m d where t: "t = (y, m, d)" by (cases t)
  have "1 \<le> m" "m \<le> 12" using assms t by auto
  then have m: "m = 1 \<or> m = 2 \<or> m = 3 \<or> m = 4 \<or> m = 5 \<or> m = 6 \<or> m = 7 \<or> m = 8 \<or> m = 9 \<or> m = 10 \<or> m = 11 \<or> m = 12"
    by presburger
  have "start y - start (y - 1) = (if leap y then 366 else 365)"
    using year_length [of "y - 1" 0] by simp
  with m assms show ?thesis
    unfolding t by (auto simp: days_in_month_def)
qed

lemma civil_valid: "valid_date (civil_from_days (int n)) \<and> day_number (civil_from_days (int n)) = int n + 719468"
proof (induction n)
  case 0
  show ?case by code_simp
next
  case (Suc n)
  have "civil_from_days (int (Suc n)) = next_day (civil_from_days (int n))"
    using civil_step [of "int n"] by (simp add: add.commute)
  with Suc valid_next day_number_next show ?case by simp
qed

lemma days_of_date: "0 \<le> n \<Longrightarrow> civil_from_days n = (y, m, d) \<Longrightarrow> days_from_civil y m d = Some n"
  using civil_valid [of "nat n"] days_from_civil_number [of y m d] by simp

section \<open>What is printed is parsed\<close>

lemma pad_digits: "0 \<le> n \<Longrightarrow> pad w n = replicate (w - length (digits_of (nat n))) CHR ''0'' @ digits_of (nat n)"
  by (simp add: pad_def show_int_def Let_def)

lemma pad_is_digits: "0 \<le> n \<Longrightarrow> list_all is_digit (pad w n)"
  by (simp only: pad_digits padded_all_digits)

lemma pad_without: "0 \<le> n \<Longrightarrow> \<not> is_digit c \<Longrightarrow> c \<notin> set (pad w n)"
  using pad_is_digits [of n w] by (auto simp: list_all_iff)

lemma parse_pad: "0 \<le> n \<Longrightarrow> n < int bound \<Longrightarrow> parse_unsigned bound (pad w n) = Some (nat n)"
  by (simp only: pad_digits) (rule parse_unsigned_padded, simp)

lemma parse_pad_i32: "0 \<le> n \<Longrightarrow> n < 2 ^ 31 \<Longrightarrow> parse_i32 (pad w n) = Some n"
  by (simp only: pad_digits) (subst parse_signed_padded, simp_all)

lemma three_digits: "n < 1000 \<Longrightarrow> length (digits_of n) \<le> 3"
  by (simp add: digits_of.simps [of n] digits_of.simps [of "n div 10"] digits_of.simps [of "n div 10 div 10"])

lemma separators: "\<not> is_digit CHR ''-''" "\<not> is_digit CHR '':''" "\<not> is_digit CHR ''.''" "\<not> is_digit CHR ''T''" "\<not> is_digit CHR ''Z''"
  by (simp_all add: is_digit_def)

definition plain :: "char \<Rightarrow> bool" where
  "plain c \<longleftrightarrow> (0x21::nat) \<le> of_char c \<and> of_char c < (0x7F::nat)"

lemma single_chars: "list_all (\<lambda>c. \<not> is_cont c) s \<Longrightarrow> utf8_chars s = map (\<lambda>c. [c]) s"
proof (induction s)
  case (Cons c s)
  then have "takeWhile is_cont s = []" "dropWhile is_cont s = s" by (cases s; simp)+
  with Cons show ?case by simp
qed simp

lemma plain_single: "plain c \<Longrightarrow> \<not> is_cont c"
  by (simp add: plain_def is_cont_def)

lemma plain_chars: "list_all plain s \<Longrightarrow> utf8_chars s = map (\<lambda>c. [c]) s"
  by (rule single_chars) (auto simp: list_all_iff plain_single)

lemma plain_visible: "plain c \<Longrightarrow> \<not> is_whitespace [c]"
  by (auto simp: plain_def is_whitespace_def)

lemma trim_plain: "list_all plain s \<Longrightarrow> trim s = s"
proof -
  assume p: "list_all plain s"
  have v: "\<forall>c \<in> set (map (\<lambda>c. [c]) s). \<not> is_whitespace c" using p plain_visible by (auto simp: list_all_iff)
  then have "dropWhile is_whitespace (map (\<lambda>c. [c]) s) = map (\<lambda>c. [c]) s"
      "dropWhile is_whitespace (rev (map (\<lambda>c. [c]) s)) = rev (map (\<lambda>c. [c]) s)"
    by (auto simp: dropWhile_eq_self_iff hd_rev hd_map last_map simp del: rev_map)
  then show ?thesis by (simp add: trim_def plain_chars [OF p] del: rev_map)
qed

lemma digit_plain: "is_digit c \<Longrightarrow> plain c"
  by (simp add: is_digit_def plain_def)

lemma pad_plain: "0 \<le> n \<Longrightarrow> list_all plain (pad w n)"
  using pad_is_digits [of n w] digit_plain by (auto simp: list_all_iff)

lemma parse_date_printed:
  assumes "0 \<le> y" and "y < 2 ^ 31" and "0 \<le> m" and "m < 2 ^ 32" and "0 \<le> d" and "d < 2 ^ 32"
  shows "parse_date (pad 4 y @ ''-'' @ pad 2 m @ ''-'' @ pad 2 d) = Some (y, nat m, nat d)"
proof -
  have "split_on CHR ''-'' (pad 4 y @ ''-'' @ pad 2 m @ ''-'' @ pad 2 d) = [pad 4 y, pad 2 m, pad 2 d]"
    using assms by (simp add: split_on_append split_on_single pad_without separators)
  with assms show ?thesis by (simp add: parse_date_def parse_pad parse_pad_i32)
qed

lemma parse_millis_printed: "0 \<le> x \<Longrightarrow> x < 1000 \<Longrightarrow> parse_millis (pad 3 x) = Some (nat x)"
proof -
  assume x: "0 \<le> x" "x < 1000"
  have "length (pad 3 x) = 3" using three_digits [of "nat x"] x by (simp add: pad_digits)
  with x show ?thesis by (simp add: parse_millis_def plain_chars [OF pad_plain] parse_pad Let_def)
qed

lemma parse_time_printed:
  assumes "0 \<le> h" and "h < 2 ^ 32" and "0 \<le> m" and "m < 2 ^ 32" and "0 \<le> x" and "x < 2 ^ 32"
    and "0 \<le> ms" and "ms < 1000"
  shows "parse_time (pad 2 h @ '':'' @ pad 2 m @ '':'' @ pad 2 x @ [CHR ''.''] @ pad 3 ms) = Some (nat h, nat m, nat x, nat ms)"
proof -
  have c: "CHR '':'' \<notin> set (pad 2 x @ [CHR ''.''] @ pad 3 ms)"
    using assms by (simp add: pad_without separators)
  have "split_on CHR '':'' (pad 2 h @ '':'' @ pad 2 m @ '':'' @ pad 2 x @ [CHR ''.''] @ pad 3 ms)
      = [pad 2 h, pad 2 m, pad 2 x @ [CHR ''.''] @ pad 3 ms]"
    using assms split_on_single [OF c] by (simp add: split_on_append pad_without separators)
  moreover have "split_once CHR ''.'' (pad 2 x @ [CHR ''.''] @ pad 3 ms) = Some (pad 2 x, pad 3 ms)"
    using assms by (simp add: split_once_append pad_without separators)
  ultimately show ?thesis using assms by (simp add: parse_time_def parse_pad parse_millis_printed)
qed

lemma civil_year:
  assumes "0 \<le> n" and "n < 2 ^ 37" and "civil_from_days n = (y, m, d)"
  shows "y < 2 ^ 31"
proof -
  let ?doe = "(n + 719468) mod 146097"
  have "n + 719468 < 1000000 * 146097" using assms(2) by simp
  then have "(n + 719468) div 146097 < 1000000" by linarith
  moreover have "year_of ?doe < 400" using start_year_of(2) [of ?doe] by simp
  moreover have "y \<le> year_of ?doe + (n + 719468) div 146097 * 400 + 1"
    using assms(3) unfolding civil_date [OF assms(1)] date_def by (auto simp: Let_def split: prod.splits if_splits)
  ultimately show ?thesis by simp
qed

text \<open>A timestamp that the server prints is read back exactly, to the millisecond, over the whole range of times that
  an \<open>i64\<close> of milliseconds can express: the conversions between days and dates are inverse to each other.\<close>

theorem timestamps_roundtrip:
  assumes "0 \<le> now" and "now < 2 ^ 63"
  shows "parse_rfc3339_millis (now_iso8601 now) = Some now"
proof -
  define day where "day = now div 1000 div 86400"
  define rest where "rest = now div 1000 mod 86400"
  obtain y m d where c: "civil_from_days day = (y, m, d)" by (cases "civil_from_days day")
  have day: "0 \<le> day" "day < 2 ^ 37" using assms by (simp_all add: day_def)
  have r: "0 \<le> rest" "rest < 86400" by (simp_all add: rest_def)
  have v: "valid_date (y, m, d)" using civil_valid [of "nat day"] day(1) c by simp
  then have dt: "0 \<le> y" "0 \<le> m" "m < 2 ^ 32" "0 \<le> d" "d < 2 ^ 32"
    using days_in_month_range [of y m] by auto
  define h mi x ms where "h = rest div 3600" and "mi = rest mod 3600 div 60" and "x = rest mod 60" and "ms = now mod 1000"
  have t: "0 \<le> h" "h < 2 ^ 32" "0 \<le> mi" "mi < 2 ^ 32" "0 \<le> x" "x < 2 ^ 32" "0 \<le> ms" "ms < 1000"
    using r by (simp_all add: h_def mi_def x_def ms_def)
  let ?date = "pad 4 y @ ''-'' @ pad 2 m @ ''-'' @ pad 2 d"
  let ?time = "pad 2 h @ '':'' @ pad 2 mi @ '':'' @ pad 2 x @ [CHR ''.''] @ pad 3 ms"
  have "epoch_to_civil (now div 1000) = (y, m, d, h, mi, x)"
    unfolding epoch_civil day_def [symmetric] rest_def [symmetric] c prod.case h_def mi_def x_def ..
  then have print: "now_iso8601 now = ?date @ CHR ''T'' # ?time @ ''Z''" by (simp add: now_iso8601_def ms_def)
  have "list_all plain (now_iso8601 now)" unfolding print using dt t by (simp add: pad_plain) (simp add: plain_def)
  then have trim: "trim (now_iso8601 now) = ?date @ CHR ''T'' # ?time @ ''Z''" by (simp add: trim_plain print)
  have cut: "split_once CHR ''T'' (?date @ CHR ''T'' # ?time @ ''Z'') = Some (?date, ?time @ ''Z'')"
    using dt by (intro split_once_append) (simp add: pad_without separators)
  have zone: "parse_tz (?time @ ''Z'') = Some (?time, 0)" by (simp add: parse_tz_def split_last_def)
  have total: "(day * 86400 + h * 3600 + mi * 60 + x) * 1000 + ms = now"
  proof -
    have "rest mod 3600 mod 60 = x" unfolding x_def by (rule mod_mod_cancel) simp
    then show ?thesis
      using div_mult_mod_eq [of now 1000] div_mult_mod_eq [of "now div 1000" 86400] div_mult_mod_eq [of rest 3600]
        div_mult_mod_eq [of "rest mod 3600" 60]
      by (simp flip: day_def rest_def ms_def h_def mi_def)
  qed
  show ?thesis
    using days_of_date [OF day(1) c] dt t total assms
    by (simp only: parse_rfc3339_millis_def trim cut option.case prod.case zone Let_def
      parse_date_printed [OF dt(1) civil_year [OF day c] dt(2-5)] parse_time_printed [OF t]) simp
qed

lemma timestamps_roundtrip_witness:
  "parse_rfc3339_millis (now_iso8601 951782401005) = Some 951782401005"
  by (rule timestamps_roundtrip) simp_all

text \<open>The offset of a time zone is subtracted. One without a colon is not understood, and neither is a time without
  seconds.\<close>

lemmas timestamp_eval =
  parse_rfc3339_millis_def parse_date_def parse_time_def parse_tz_def tz_offset_def split_last_def parse_millis_def
  parse_unsigned_def parse_signed_def digits_def decimal_def is_digit_def strip_prefix_def starts_with_def
  days_from_civil_def to_signed_def

lemma offsets:
  "parse_rfc3339_millis ''1970-01-01T01:30:00+01:30'' = Some 0"
  "parse_rfc3339_millis ''1970-01-01T00:00:00.5-00:01'' = Some 60500"
  "parse_rfc3339_millis ''1970-01-01T01:30:00+0130'' = None"
proof -
  have t: "trim ''1970-01-01T01:30:00+01:30'' = ''1970-01-01T01:30:00+01:30''"
    "trim ''1970-01-01T00:00:00.5-00:01'' = ''1970-01-01T00:00:00.5-00:01''"
    "trim ''1970-01-01T01:30:00+0130'' = ''1970-01-01T01:30:00+0130''"
    by (rule trim_plain, simp add: plain_def)+
  show "parse_rfc3339_millis ''1970-01-01T01:30:00+01:30'' = Some 0"
    by (simp add: timestamp_eval t)
  show "parse_rfc3339_millis ''1970-01-01T00:00:00.5-00:01'' = Some 60500"
    by (simp add: timestamp_eval t is_cont_def Let_def numeral_2_eq_2 numeral_3_eq_3)
      (simp flip: numeral_2_eq_2)
  show "parse_rfc3339_millis ''1970-01-01T01:30:00+0130'' = None"
    by (simp add: timestamp_eval t)
qed

text \<open>A date that does not exist is one of the next month.\<close>

lemma february_30: "days_from_civil 2025 2 30 = days_from_civil 2025 3 2"
  by (simp add: days_from_civil_def)

end
