(* ===== verification/Daemon_Lease.thy ===== *)
theory Daemon_Lease
  imports Daemon_Http Iso_Time
begin

text \<open>
  The attachment lease and the end of a daemon, \<^verbatim>\<open>polytoken/daemon_client.rs\<close> and \<^verbatim>\<open>polytoken/process_identity.rs\<close>:
  claiming the lease with its retries, what a conflict says, releasing it, and terminating the process without hitting
  another one with the same number. The state is the client with the world; the processes are the record
  \<open>processes\<close> over that world.
\<close>

section \<open>Conflicts\<close>

record lease_held_info =
  held_summary :: string
  held_expires_at :: "string option"

text \<open>The body of a conflict, every field of which may be missing.\<close>

record active_lease =
  active_terminal_label :: "string option"
  active_pid :: "int option"
  active_expires_at :: "string option"

record conflict_body =
  active :: "active_lease option"
  conflict_message :: "string option"

definition parse_lease_held_error :: "(string \<Rightarrow> conflict_body option) \<Rightarrow> string option \<Rightarrow> lease_held_info option" where
  "parse_lease_held_error decode error =
     (case Option.bind error decode of
        None \<Rightarrow> None
      | Some b \<Rightarrow> (case active b of
          Some a \<Rightarrow> Some
            \<lparr>held_summary = quoted (unwrap_or (active_terminal_label a) ''unknown TUI'') @
               (case active_pid a of Some p \<Rightarrow> '' pid '' @ show_int p | None \<Rightarrow> []) @
               (case active_expires_at a of Some e \<Rightarrow> '', lease expires '' @ e | None \<Rightarrow> []),
             held_expires_at = active_expires_at a\<rparr>
        | None \<Rightarrow> map_option (\<lambda>m. \<lparr>held_summary = m, held_expires_at = None\<rparr>) (conflict_message b)))"

definition attached_text :: "lease_held_info \<Rightarrow> string \<Rightarrow> string" where
  "attached_text held wait =
     ''another TUI is attached to this session ('' @ held_summary held @
     ''). Detach it there (/detach) or wait '' @ wait @ '' for its lease to lapse.''"

definition format_lease_conflict_message :: "lease_held_info option \<Rightarrow> int option \<Rightarrow> string" where
  "format_lease_conflict_message held seconds =
     (case held of
        None \<Rightarrow> ''lease claim failed (409): another TUI is attached''
      | Some h \<Rightarrow> attached_text h (case seconds of Some s \<Rightarrow> show_int s @ ''s'' | None \<Rightarrow> ''~30s''))"

definition ceil_seconds :: "int \<Rightarrow> int" where
  "ceil_seconds ms = (if ms mod 1000 \<noteq> 0 then ms div 1000 + 1 else ms div 1000)"

datatype lease_error = LeaseConflict "lease_held_info option" | LeaseOther string

record lease_conflict_error =
  lc_message :: string
  lc_held :: "lease_held_info option"

fun lease_error_text :: "lease_error \<Rightarrow> string" where
  "lease_error_text (LeaseConflict (Some h)) = attached_text h ''~30s''"
| "lease_error_text (LeaseConflict None) = ''lease claim failed (409)''"
| "lease_error_text (LeaseOther m) = m"

fun lease_conflict_of :: "lease_error \<Rightarrow> lease_conflict_error" where
  "lease_conflict_of (LeaseConflict h) = \<lparr>lc_message = lease_error_text (LeaseConflict h), lc_held = h\<rparr>"
| "lease_conflict_of (LeaseOther m) = \<lparr>lc_message = m, lc_held = None\<rparr>"

section \<open>Claiming\<close>

record claim_response =
  cr_lease_id :: string
  cr_heartbeat_interval_seconds :: int
  cr_expires_after_seconds :: int

type_synonym 'w dcw = "daemon_client \<times> 'w"

definition claim_lease ::
    "'w net \<Rightarrow> (string \<Rightarrow> claim_response option) \<Rightarrow> (string \<Rightarrow> conflict_body option) \<Rightarrow> string \<Rightarrow> 'w dcw
      \<Rightarrow> (lease_error + claim_response) option \<times> 'w dcw" where
  "claim_lease N decode decode_body label cw =
     (let (c, w) = cw in
      case client_post N c decode ''/tui-attachment/claim''
          (Some (J_Object [(''pid'', J_Number (show_int (own_pid c))), (''terminal_label'', J_String label)])) w of
        (None, w1) \<Rightarrow> (None, c, w1)
      | (Some r, w1) \<Rightarrow>
          (case (if http_status r = 200 then http_data r else None) of
             None \<Rightarrow>
               (Some (Inl (if http_status r = 409 then LeaseConflict (parse_lease_held_error decode_body (http_error r))
                  else LeaseOther (refusal ''lease claim'' r))), c, w1)
           | Some x \<Rightarrow>
               (Some (Inr x),
                c\<lparr>held_lease := Some
                    \<lparr>lease_id = cr_lease_id x,
                     heartbeat_interval_ms = nat (max (cr_heartbeat_interval_seconds x) 1) * 1000 mod 2 ^ 64,
                     expires_after_ms = nat (max (cr_expires_after_seconds x) 1) * 1000 mod 2 ^ 64\<rparr>\<rparr>, w1)))"

text \<open>The timer of the lease stops when the daemon does not know the lease any more.\<close>

fun heartbeat_continues :: "fetched \<Rightarrow> bool" where
  "heartbeat_continues Unreached = True"
| "heartbeat_continues (Answered s t) \<longleftrightarrow> s \<noteq> 404 \<and> s \<noteq> 409"

section \<open>Retrying\<close>

definition expiry_millis :: "lease_held_info option \<Rightarrow> int option" where
  "expiry_millis held = map_option (to_signed 64) (Option.bind (Option.bind held held_expires_at) parse_rfc3339_millis)"

definition lapses_in :: "int \<Rightarrow> int \<Rightarrow> int" where
  "lapses_in e now = to_signed 64 (e - now)"

definition beyond_window :: "nat \<Rightarrow> nat \<Rightarrow> int \<Rightarrow> lease_held_info option \<Rightarrow> int option" where
  "beyond_window n delay now held =
     (case expiry_millis held of
        Some e \<Rightarrow> if to_signed 64 (int n * to_signed 64 (int delay)) < lapses_in e now then Some (lapses_in e now) else None
      | None \<Rightarrow> None)"

definition exhausted :: "int \<Rightarrow> lease_held_info option \<Rightarrow> lease_conflict_error" where
  "exhausted now held =
     \<lparr>lc_message = format_lease_conflict_message held (map_option (\<lambda>e. ceil_seconds (lapses_in e now)) (expiry_millis held)),
      lc_held = held\<rparr>"

text \<open>\<open>n\<close> retries are left after this attempt. The clock is a part of the state.\<close>

fun retry_rounds ::
    "('s \<Rightarrow> (lease_error + 'a) option \<times> 's) \<Rightarrow> ('s \<Rightarrow> int) \<Rightarrow> (nat \<Rightarrow> 's \<Rightarrow> 's) \<Rightarrow> nat \<Rightarrow> nat \<Rightarrow> 's
      \<Rightarrow> (lease_conflict_error + 'a) option \<times> 's" where
  "retry_rounds claim now sleep delay n s =
     (case claim s of
        (None, s1) \<Rightarrow> (None, s1)
      | (Some (Inr x), s1) \<Rightarrow> (Some (Inr x), s1)
      | (Some (Inl (LeaseOther m)), s1) \<Rightarrow> (Some (Inl \<lparr>lc_message = m, lc_held = None\<rparr>), s1)
      | (Some (Inl (LeaseConflict held)), s1) \<Rightarrow>
          (case n of
             0 \<Rightarrow> (Some (Inl (exhausted (now s1) held)), s1)
           | Suc k \<Rightarrow> (case beyond_window n delay (now s1) held of
               Some ms \<Rightarrow>
                 (Some (Inl \<lparr>lc_message = format_lease_conflict_message held (Some (ceil_seconds ms)), lc_held = held\<rparr>), s1)
             | None \<Rightarrow> retry_rounds claim now sleep delay k (sleep delay s1))))"

declare retry_rounds.simps [simp del]

text \<open>A number of retries beyond the signed range leaves no attempt.\<close>

definition retry_claim_with_sleep ::
    "('s \<Rightarrow> (lease_error + 'a) option \<times> 's) \<Rightarrow> ('s \<Rightarrow> int) \<Rightarrow> (nat \<Rightarrow> 's \<Rightarrow> 's) \<Rightarrow> nat option \<Rightarrow> nat option \<Rightarrow> 's
      \<Rightarrow> (lease_conflict_error + 'a) option \<times> 's" where
  "retry_claim_with_sleep claim now sleep max_retries delay_ms s =
     (let m = to_signed 32 (int (unwrap_or max_retries 3)) in
      if m < 0 then (Some (Inl (exhausted (now s) None)), s)
      else retry_rounds claim now sleep (unwrap_or delay_ms 3000) (nat m) s)"

definition claim_lease_with_retry ::
    "'w net \<Rightarrow> (string \<Rightarrow> claim_response option) \<Rightarrow> (string \<Rightarrow> conflict_body option) \<Rightarrow> ('w \<Rightarrow> int) \<Rightarrow> (nat \<Rightarrow> 'w \<Rightarrow> 'w)
      \<Rightarrow> string \<Rightarrow> nat option \<Rightarrow> nat option \<Rightarrow> 'w dcw \<Rightarrow> (lease_conflict_error + claim_response) option \<times> 'w dcw" where
  "claim_lease_with_retry N decode decode_body now sleep label =
     retry_claim_with_sleep (claim_lease N decode decode_body label) (\<lambda>(c, w). now w) (\<lambda>d (c, w). (c, sleep d w))"

section \<open>The end of a daemon\<close>

record 'w processes =
  read_start_time :: "int \<Rightarrow> 'w \<Rightarrow> nat option"
  sigterm :: "int \<Rightarrow> 'w \<Rightarrow> 'w"

definition verify :: "'w processes \<Rightarrow> int \<Rightarrow> nat option \<Rightarrow> 'w \<Rightarrow> bool" where
  "verify P pid stored w =
     (case stored of
        None \<Rightarrow> True
      | Some t \<Rightarrow> (case read_start_time P pid w of Some u \<Rightarrow> u = t | None \<Rightarrow> False))"

text \<open>Field 22 of \<^verbatim>\<open>/proc/<pid>/stat\<close>; the name of the program may contain parentheses and spaces.\<close>

definition parse_stat :: "string \<Rightarrow> nat option" where
  "parse_stat text =
     (case split_last (CHR '')'') text of
        Some (_, rest) \<Rightarrow>
          (let fields = split_whitespace rest in if 19 < length fields then parse_unsigned (2 ^ 64) (fields ! 19) else None)
      | None \<Rightarrow> None)"

text \<open>What \<open>try_wait\<close> says: an error, the exit code, or that it runs.\<close>

definition child_already_exited :: "(string + int option) \<Rightarrow> bool" where
  "child_already_exited r = (case r of Inr (Some _) \<Rightarrow> True | Inr None \<Rightarrow> False | Inl _ \<Rightarrow> True)"

definition health ::
    "'w net \<Rightarrow> 'w processes \<Rightarrow> (string \<Rightarrow> int option) \<Rightarrow> 'w dcw \<Rightarrow> int http_reply option \<times> 'w dcw" where
  "health N P decode cw =
     (let (c, w) = cw; (r, w1) = client_get N c decode ''/health'' w in
      (r, case r of
            Some x \<Rightarrow> (case (if http_status x = 200 then http_data x else None) of
               Some pid \<Rightarrow> c\<lparr>daemon_pid := Some pid, daemon_start_time := read_start_time P pid w1\<rparr>
             | None \<Rightarrow> c)
          | None \<Rightarrow> c, w1))"

definition terminate :: "'w net \<Rightarrow> daemon_client \<Rightarrow> ('w, unit) call" where
  "terminate N c w =
     map_prod (map_option (\<lambda>r. if http_status r = 0 then Inl (unwrap_or (http_error r) []) else Inr ())) id
       (client_post N c (from_json N) ''/terminate'' None w)"

definition kill_daemon :: "'w processes \<Rightarrow> 'w dcw \<Rightarrow> 'w dcw" where
  "kill_daemon P cw =
     (let (c, w) = cw in
      case daemon_pid c of
        None \<Rightarrow> (c, w)
      | Some pid \<Rightarrow> (c, if verify P pid (daemon_start_time c) w then sigterm P pid w else w))"

definition clear_lease :: "daemon_client \<Rightarrow> daemon_client" where
  "clear_lease c = c\<lparr>held_lease := None\<rparr>"

definition release_lease :: "'w net \<Rightarrow> 'w dcw \<Rightarrow> 'w dcw" where
  "release_lease N cw =
     (let (c, w) = cw in
      (clear_lease c,
       case held_lease c of
         None \<Rightarrow> w
       | Some l \<Rightarrow> snd (safe_fetch N c (base_url c @ ''/tui-attachment/'' @ url_encode N (lease_id l)) DELETE None w)))"

text \<open>The clean-up over HTTP is cut off after two seconds; \<open>in_time\<close> says whether it came to asking the daemon to
  terminate. Its answer is not used, but reading it can panic.\<close>

definition close_without_kill :: "'w net \<Rightarrow> bool \<Rightarrow> 'w dcw \<Rightarrow> 'w dcw option" where
  "close_without_kill N in_time cw =
     (let (c, w) = cw; (c1, w1) = release_lease N (c\<lparr>subscribed := False\<rparr>, w) in
      if in_time then (case terminate N c1 w1 of (None, w2) \<Rightarrow> None | (Some _, w2) \<Rightarrow> Some (c1, w2)) else Some (c1, w1))"

definition close_client :: "'w net \<Rightarrow> 'w processes \<Rightarrow> bool \<Rightarrow> 'w dcw \<Rightarrow> 'w dcw option" where
  "close_client N P in_time cw = map_option (kill_daemon P) (close_without_kill N in_time cw)"

section \<open>Retries end\<close>

definition after_round :: "('s \<Rightarrow> 'r \<times> 's) \<Rightarrow> (nat \<Rightarrow> 's \<Rightarrow> 's) \<Rightarrow> nat \<Rightarrow> nat \<Rightarrow> 's \<Rightarrow> 's" where
  "after_round claim sleep delay k s = ((\<lambda>s. sleep delay (snd (claim s))) ^^ k) s"

lemma after_round_simps [simp]:
  "after_round claim sleep delay 0 s = s"
  "after_round claim sleep delay (Suc k) s = after_round claim sleep delay k (sleep delay (snd (claim s)))"
  by (simp_all add: after_round_def funpow_Suc_right del: funpow.simps(2))

text \<open>The attempt that decides, and what it decides.\<close>

definition decides ::
    "('s \<Rightarrow> (lease_error + 'a) option \<times> 's) \<Rightarrow> ('s \<Rightarrow> int) \<Rightarrow> nat \<Rightarrow> nat \<Rightarrow> 's
      \<Rightarrow> (lease_conflict_error + 'a) option \<times> 's \<Rightarrow> bool" where
  "decides claim now delay n s res \<longleftrightarrow> snd res = snd (claim s) \<and>
     (case fst (claim s) of
        None \<Rightarrow> fst res = None
      | Some (Inr x) \<Rightarrow> fst res = Some (Inr x)
      | Some (Inl (LeaseOther m)) \<Rightarrow> fst res = Some (Inl \<lparr>lc_message = m, lc_held = None\<rparr>)
      | Some (Inl (LeaseConflict held)) \<Rightarrow>
          (\<exists>m. fst res = Some (Inl \<lparr>lc_message = m, lc_held = held\<rparr>)) \<and>
          (n = 0 \<or> beyond_window n delay (now (snd (claim s))) held \<noteq> None))"

lemma retry_rounds_decide:
  "\<exists>k \<le> n. (\<forall>j<k. \<exists>held. fst (claim (after_round claim sleep d j s)) = Some (Inl (LeaseConflict held)) \<and>
      beyond_window (n - j) d (now (snd (claim (after_round claim sleep d j s)))) held = None) \<and>
    decides claim now d (n - k) (after_round claim sleep d k s) (retry_rounds claim now sleep d n s)"
proof (induction n arbitrary: s)
  case 0
  show ?case
    by (cases "claim s")
      (auto simp: decides_def retry_rounds.simps [of _ _ _ _ 0] exhausted_def split: option.splits sum.splits lease_error.splits)
next
  case (Suc n)
  obtain r s1 where c: "claim s = (r, s1)" by fastforce
  show ?case
  proof (cases "\<exists>held. r = Some (Inl (LeaseConflict held)) \<and> beyond_window (Suc n) d (now s1) held = None")
    case True
    then obtain held where h: "r = Some (Inl (LeaseConflict held))" "beyond_window (Suc n) d (now s1) held = None" by blast
    from Suc.IH [of "sleep d s1"] obtain k where k: "k \<le> n"
      "\<forall>j<k. \<exists>held. fst (claim (after_round claim sleep d j (sleep d s1))) = Some (Inl (LeaseConflict held)) \<and>
        beyond_window (n - j) d (now (snd (claim (after_round claim sleep d j (sleep d s1))))) held = None"
      "decides claim now d (n - k) (after_round claim sleep d k (sleep d s1)) (retry_rounds claim now sleep d n (sleep d s1))"
      by blast
    have "retry_rounds claim now sleep d (Suc n) s = retry_rounds claim now sleep d n (sleep d s1)"
      using c h by (simp add: retry_rounds.simps [of _ _ _ _ "Suc n"])
    with k c h show ?thesis by (intro exI [of _ "Suc k"]) (auto simp: less_Suc_eq_0_disj)
  next
    case False
    with c show ?thesis
      by (intro exI [of _ 0])
        (auto simp: decides_def retry_rounds.simps [of _ _ _ _ "Suc n"] split: option.splits sum.splits lease_error.splits)
  qed
qed

text \<open>C34: Claiming the lease ends, and with the answer of its last attempt. With \<open>n\<close> retries there are at most
  \<open>n + 1\<close> attempts, with a pause between two of them; all but the last met a conflict whose lease could still
  lapse in the time that was left. The last one succeeded, failed otherwise, or met a conflict when no retry was
  left or the lease outlasts them all; the error then carries the holder of that conflict.\<close>

theorem lease_claim_ends:
  assumes "n < 2 ^ 31"
  shows "\<exists>k \<le> n. (\<forall>j<k. \<exists>held. fst (claim (after_round claim sleep d j s)) = Some (Inl (LeaseConflict held)) \<and>
      beyond_window (n - j) d (now (snd (claim (after_round claim sleep d j s)))) held = None) \<and>
    decides claim now d (n - k) (after_round claim sleep d k s)
      (retry_claim_with_sleep claim now sleep (Some n) (Some d) s)"
proof -
  have "to_signed 32 (int n) = int n" using assms by (intro to_signed_id) simp_all
  then have "retry_claim_with_sleep claim now sleep (Some n) (Some d) s = retry_rounds claim now sleep d n s"
    by (simp add: retry_claim_with_sleep_def Let_def)
  then show ?thesis using retry_rounds_decide [of n claim sleep d s now] by simp
qed

text \<open>A holder who leaves after two attempts.\<close>

definition ex_claim :: "nat \<times> int \<Rightarrow> (lease_error + unit) option \<times> nat \<times> int" where
  "ex_claim s = (Some (if fst s < 2 then Inl (LeaseConflict None) else Inr ()), Suc (fst s), snd s)"

lemma lease_claim_ends_witness:
  "\<exists>k \<le> 3. decides ex_claim snd 3000 (3 - k) (after_round ex_claim (\<lambda>d (i, t). (i, t + int d)) 3000 k (0, 0))
    (retry_claim_with_sleep ex_claim snd (\<lambda>d (i, t). (i, t + int d)) (Some 3) (Some 3000) (0, 0))"
  using lease_claim_ends [of 3 ex_claim "\<lambda>d (i, t). (i, t + int d)" 3000 "(0, 0)" snd] by auto

section \<open>What a conflict says\<close>

text \<open>\<open>client_post\<close> hands on the message of an error, not its body. The daemon's conflicts have a message, so the holder
  and the expiry beside it are lost: the retries never stop early, and no error names the holder.\<close>

lemma conflict_loses_holder:
  assumes "send N \<lparr>req_method = POST, req_url = base_url c @ ''/tui-attachment/claim'',
      req_body = Some (J_Object [(''pid'', J_Number (show_int (own_pid c))), (''terminal_label'', J_String label)]),
      req_bearer = auth_header c\<rparr> w = (Answered 409 (Some text), w1)"
    and "from_json N text = Some (J_Object fs)" and "map_of (rev fs) ''message'' = Some (J_String m)" and "decode_body m = None"
  shows "claim_lease N decode decode_body label (c, w) = (Some (Inl (LeaseConflict None)), c, w1)"
  using assms
  by (simp add: claim_lease_def client_post_def safe_fetch_def post_reply_def message_field_def parse_lease_held_error_def
      Let_def)

text \<open>A lease that has lapsed by the last attempt asks for patience of less than no time.\<close>

lemma lapsed_lease_waits: "attached_text h (show_int (ceil_seconds (lapses_in 7000 10000)) @ ''s'') = attached_text h ''-3s''"
proof -
  have "show_int (ceil_seconds (lapses_in 7000 10000)) = ''-3''" by code_simp
  then show ?thesis by simp
qed

section \<open>Who is killed\<close>

text \<open>C35: Closing a daemon does not kill another process. If its health check told the process and the start time of that
  process could be read, then whatever happened since, closing sends a signal at most to that process number, and
  only if the process that has the number then still has that start time. The lease is given up and the event stream
  is stopped either way.\<close>

theorem close_kills_only_the_daemon:
  assumes "health N P decode (c, w) = (Some r, c1, w1)" and "http_status r = 200" and "http_data r = Some pid"
    and "read_start_time P pid w1 = Some t" and "close_client N P in_time (c1, w2) = Some (c3, w3)"
  shows "held_lease c3 = None \<and> \<not> subscribed c3 \<and>
    (\<exists>w'. close_without_kill N in_time (c1, w2) = Some (c3, w') \<and>
      w3 = (if read_start_time P pid w' = Some t then sigterm P pid w' else w'))"
proof -
  have c1: "daemon_pid c1 = Some pid" "daemon_start_time c1 = Some t"
    using assms(1-4) by (auto simp: health_def split: prod.splits)
  obtain w' where w': "close_without_kill N in_time (c1, w2) = Some (c3, w')" and k: "kill_daemon P (c3, w') = (c3, w3)"
    using assms(5) by (auto simp: close_client_def kill_daemon_def split: option.splits)
  then have c3: "c3 = clear_lease (c1\<lparr>subscribed := False\<rparr>)"
    by (auto simp: close_without_kill_def release_lease_def Let_def split: option.splits prod.splits if_splits)
  with c1 have "daemon_pid c3 = Some pid" "daemon_start_time c3 = Some t" "held_lease c3 = None" "\<not> subscribed c3"
    by (simp_all add: clear_lease_def)
  with k have "w3 = (if read_start_time P pid w' = Some t then sigterm P pid w' else w')"
    by (auto simp: kill_daemon_def verify_def split: option.splits if_splits)
  with w' \<open>held_lease c3 = None\<close> \<open>\<not> subscribed c3\<close> show ?thesis by blast
qed

text \<open>A world of processes with their start times, in which number 7 has been given to another one.\<close>

definition ex_os :: "(int \<rightharpoonup> nat) processes" where
  "ex_os = \<lparr>read_start_time = \<lambda>p w. w p, sigterm = \<lambda>p w. w(p := None)\<rparr>"

definition ex_wire :: "(int \<rightharpoonup> nat) net" where
  "ex_wire = \<lparr>send = \<lambda>q w. (Answered 200 (Some ''7''), w), from_json = \<lambda>_. None, url_encode = id,
     error_code = \<lambda>_. None, handoff_enabled = \<lambda>_. None\<rparr>"

lemma close_kills_only_the_daemon_witness:
  "close_client ex_wire ex_os True
     (fst (snd (health ex_wire ex_os (\<lambda>_. Some 7) (new_client ''s'' 1 2 None, [7 \<mapsto> 100]))), [7 \<mapsto> 200])
   = Some ((new_client ''s'' 1 2 None)\<lparr>daemon_pid := Some 7, daemon_start_time := Some 100\<rparr>, [7 \<mapsto> 200])"
proof -
  let ?c = "(new_client ''s'' 1 2 None)\<lparr>daemon_pid := Some 7, daemon_start_time := Some 100\<rparr>"
  let ?r = "\<lparr>http_status = 200, http_data = Some 7, http_error = None\<rparr>"
  have h: "health ex_wire ex_os (\<lambda>_. Some 7) (new_client ''s'' 1 2 None, [7 \<mapsto> 100]) = (Some ?r, ?c, [7 \<mapsto> 100])"
    by (simp add: health_def client_get_def get_reply_def safe_fetch_def ex_wire_def ex_os_def decoded_body_def)
  have t: "read_start_time ex_os 7 [7 \<mapsto> 100] = Some 100" by (simp add: ex_os_def)
  have q: "close_without_kill ex_wire True (?c, [7 \<mapsto> 200]) = Some (?c, [7 \<mapsto> 200])"
    by (simp add: close_without_kill_def release_lease_def terminate_def clear_lease_def new_client_def client_post_def
        safe_fetch_def ex_wire_def post_reply_def)
  then obtain c3 w3 where c: "close_client ex_wire ex_os True (?c, [7 \<mapsto> 200]) = Some (c3, w3)"
    by (simp add: close_client_def) (metis prod.exhaust)
  from close_kills_only_the_daemon [OF h _ _ t c] q have "c3 = ?c" "w3 = [7 \<mapsto> 200]" by (simp_all add: ex_os_def)
  with c h show ?thesis by simp
qed

section \<open>Start times\<close>

lemma ws_words_plain:
  assumes "list_all (\<lambda>f. f \<noteq> [] \<and> list_all plain f) fs"
  shows "ws_words (map (\<lambda>c. [c]) (concat (map (\<lambda>f. CHR '' '' # f) fs))) = fs"
  using assms
proof (induction fs)
  case (Cons f fs)
  let ?rest = "map (\<lambda>c. [c]) (concat (map (\<lambda>f. CHR '' '' # f) fs))"
  obtain b bs where f: "f = b # bs" using Cons.prems by (cases f) auto
  have p: "\<not> is_whitespace [c]" if "c \<in> set f" for c
    using Cons.prems that plain_visible by (auto simp: list_all_iff)
  have stop: "?rest = [] \<or> is_whitespace (hd ?rest)"
    using space_whitespace by (cases fs) auto
  have solid: "\<forall>d \<in> set (map (\<lambda>c. [c]) bs). \<not> is_whitespace d" using p by (auto simp: f)
  have take: "takeWhile (\<lambda>d. \<not> is_whitespace d) ?rest = []" and drop: "dropWhile (\<lambda>d. \<not> is_whitespace d) ?rest = ?rest"
    using stop by (cases ?rest; simp)+
  have w: "takeWhile (\<lambda>d. \<not> is_whitespace d) (map (\<lambda>c. [c]) bs @ ?rest) = map (\<lambda>c. [c]) bs"
      "dropWhile (\<lambda>d. \<not> is_whitespace d) (map (\<lambda>c. [c]) bs @ ?rest) = ?rest"
    using takeWhile_append2 [of "map (\<lambda>c. [c]) bs" "\<lambda>d. \<not> is_whitespace d" ?rest]
      dropWhile_append2 [of "map (\<lambda>c. [c]) bs" "\<lambda>d. \<not> is_whitespace d" ?rest] solid take drop by auto
  have cs: "concat (map (\<lambda>c. [c]) bs) = bs" by (induction bs) simp_all
  have "ws_words ?rest = fs" using Cons by simp
  then have "ws_words (map (\<lambda>c. [c]) (b # bs) @ ?rest) = (b # bs) # fs"
    using p [of b] by (simp add: f w cs)
  then show ?case by (simp add: f space_whitespace)
qed simp

text \<open>The start time is read whatever the name of the program is.\<close>

lemma start_time_of_any_program:
  assumes "list_all (\<lambda>f. f \<noteq> [] \<and> list_all plain f \<and> CHR '')'' \<notin> set f) fs" and "19 < length fs"
  shows "parse_stat (num @ '' ('' @ comm @ CHR '')'' # concat (map (\<lambda>f. CHR '' '' # f) fs)) = parse_unsigned (2 ^ 64) (fs ! 19)"
proof -
  let ?rest = "concat (map (\<lambda>f. CHR '' '' # f) fs)"
  have "CHR '')'' \<notin> set ?rest" using assms(1) by (auto simp: list_all_iff)
  then have "split_last CHR '')'' (num @ '' ('' @ comm @ CHR '')'' # ?rest) = Some (num @ '' ('' @ comm, ?rest)"
    by (simp add: split_last_def split_once_append)
  moreover have "split_whitespace ?rest = fs"
  proof -
    have "list_all (\<lambda>c. \<not> is_cont c) ?rest"
      using assms(1) plain_single space_is_char by (auto simp: list_all_iff)
    then have "utf8_chars ?rest = map (\<lambda>c. [c]) ?rest" by (rule single_chars)
    moreover have "list_all (\<lambda>f. f \<noteq> [] \<and> list_all plain f) fs" using assms(1) by (auto simp: list_all_iff)
    ultimately show ?thesis using ws_words_plain by (simp add: split_whitespace_def)
  qed
  ultimately show ?thesis using assms(2) by (simp add: parse_stat_def)
qed

end
