(* ===== verification/Sse_Stream.thy ===== *)
theory Sse_Stream
  imports Catalogues Daemon_Types
begin

text \<open>
  The daemon's stream of server-sent events, \<^verbatim>\<open>polytoken/daemon_client.rs\<close> (\<^verbatim>\<open>sse_loop\<close>): the chunks of
  a response become frames, the frames become envelopes, and a stream that ends is opened again after a pause. A
  chunk is what one read of the socket returned. The envelopes' JSON is decoded by serde, the argument \<open>decode\<close>.
\<close>

section \<open>Decoding bytes\<close>

text \<open>\<open>String::from_utf8_lossy\<close>. A first byte determines the ranges of the bytes that must follow it.\<close>

definition follow_ranges :: "nat \<Rightarrow> (nat \<times> nat) list option" where
  "follow_ranges b =
     (let c = (0x80, 0xBF) in
      if b < 0x80 then Some []
      else if 0xC2 \<le> b \<and> b \<le> 0xDF then Some [c]
      else if b = 0xE0 then Some [(0xA0, 0xBF), c]
      else if b = 0xED then Some [(0x80, 0x9F), c]
      else if 0xE1 \<le> b \<and> b \<le> 0xEF then Some [c, c]
      else if b = 0xF0 then Some [(0x90, 0xBF), c, c]
      else if b = 0xF4 then Some [(0x80, 0x8F), c, c]
      else if 0xF1 \<le> b \<and> b \<le> 0xF3 then Some [c, c, c]
      else None)"

text \<open>How many of the ranges are met.\<close>

fun follows :: "(nat \<times> nat) list \<Rightarrow> string \<Rightarrow> nat" where
  "follows [] s = 0"
| "follows (r # rs) [] = 0"
| "follows ((lo, hi) # rs) (b # s) = (if lo \<le> of_char b \<and> of_char b \<le> hi then Suc (follows rs s) else 0)"

definition replacement :: string where
  "replacement = bytes [0xEF, 0xBF, 0xBD]"

text \<open>A character that is complete is kept. Otherwise what was met of it becomes one replacement character.\<close>

function lossy :: "string \<Rightarrow> string" where
  "lossy [] = []"
| "lossy (b # s) =
     (case follow_ranges (of_char b) of
        None \<Rightarrow> replacement @ lossy s
      | Some rs \<Rightarrow>
          (let n = follows rs s
           in (if n = length rs then b # take n s else replacement) @ lossy (drop n s)))"
  by pat_completeness auto
termination by (relation "measure length") auto

function valid_utf8 :: "string \<Rightarrow> bool" where
  "valid_utf8 [] \<longleftrightarrow> True"
| "valid_utf8 (b # s) \<longleftrightarrow>
     (case follow_ranges (of_char b) of
        None \<Rightarrow> False
      | Some rs \<Rightarrow> follows rs s = length rs \<and> valid_utf8 (drop (length rs) s))"
  by pat_completeness auto
termination by (relation "measure length") auto

text \<open>\<open>str::replace\<close> of CR LF by LF.\<close>

fun unix_lines :: "string \<Rightarrow> string" where
  "unix_lines [] = []"
| "unix_lines [c] = [c]"
| "unix_lines (c # d # s) =
     (if c = CHR 0x0D \<and> d = CHR 0x0A then CHR 0x0A # unix_lines s else c # unix_lines (d # s))"

section \<open>Frames\<close>

record 'e sse_state =
  sse_buffer :: string
  last_event_id :: "string option"

fun frame_field :: "string \<Rightarrow> string option \<times> string list \<Rightarrow> string option \<times> string list" where
  "frame_field l (i, ds) =
     (case strip_prefix l ''id:'' of
        Some rest \<Rightarrow> (Some (trim rest), ds)
      | None \<Rightarrow>
          (case strip_prefix l ''data:'' of
             Some rest \<Rightarrow> (i, ds @ [unwrap_or (strip_prefix rest '' '') rest])
           | None \<Rightarrow> (i, ds)))"

text \<open>The last id seen so far, and the envelope of the frame, if it has one that can be decoded.\<close>

definition read_frame :: "(string \<Rightarrow> 'e option) \<Rightarrow> string \<Rightarrow> string option \<Rightarrow> 'e list \<times> string option" where
  "read_frame decode frame i =
     (let (i', ds) = fold frame_field (split_on (CHR 0x0A) frame) (i, []);
          json = trim (join [CHR 0x0A] ds)
      in (if ds = [] \<or> json = [] then [] else (case decode json of Some e \<Rightarrow> [e] | None \<Rightarrow> []), i'))"

fun read_frames :: "(string \<Rightarrow> 'e option) \<Rightarrow> string list \<Rightarrow> string option \<Rightarrow> 'e list \<times> string option" where
  "read_frames decode [] i = ([], i)"
| "read_frames decode (f # fs) i =
     (let (es, i1) = read_frame decode f i; (es', i2) = read_frames decode fs i1 in (es @ es', i2))"

definition blank_line :: string where
  "blank_line = [CHR 0x0A, CHR 0x0A]"

text \<open>The complete frames of the buffer, and what is left of it.\<close>

lemma split_str_smaller: "split_str p s = Some (a, b) \<Longrightarrow> p \<noteq> [] \<Longrightarrow> length b < length s"
  by (induction s arbitrary: a b) (auto split: if_splits)

function cut_frames :: "string \<Rightarrow> string list \<times> string" where
  "cut_frames s = (case split_str blank_line s of
     None \<Rightarrow> ([], s)
   | Some (f, rest) \<Rightarrow> (let (fs, r) = cut_frames rest in (f # fs, r)))"
  by pat_completeness auto
termination
  by (relation "measure length") (auto dest!: sym [of "Some _"] split_str_smaller simp: blank_line_def)

declare cut_frames.simps [simp del]

definition sse_chunk :: "(string \<Rightarrow> 'e option) \<Rightarrow> string \<Rightarrow> 'e sse_state \<Rightarrow> 'e list \<times> 'e sse_state" where
  "sse_chunk decode chunk s =
     (let (fs, rest) = cut_frames (sse_buffer s @ unix_lines (lossy chunk));
          (es, i) = read_frames decode fs (last_event_id s)
      in (es, s\<lparr>sse_buffer := rest, last_event_id := i\<rparr>))"

fun sse_chunks :: "(string \<Rightarrow> 'e option) \<Rightarrow> string list \<Rightarrow> 'e sse_state \<Rightarrow> 'e list \<times> 'e sse_state" where
  "sse_chunks decode [] s = ([], s)"
| "sse_chunks decode (c # cs) s =
     (let (es, s1) = sse_chunk decode c s; (es', s2) = sse_chunks decode cs s1 in (es @ es', s2))"

section \<open>Chunks do not matter\<close>

lemma follows_append:
  "follows rs s = length rs \<Longrightarrow> follows rs (s @ t) = length rs \<and> length rs \<le> length s"
  by (induction rs s rule: follows.induct) (auto split: if_splits)

lemma lossy_append: "valid_utf8 a \<Longrightarrow> lossy (a @ b) = a @ lossy b"
proof (induction a rule: valid_utf8.induct)
  case (2 x s)
  then obtain rs where rs: "follow_ranges (of_char x) = Some rs" "follows rs s = length rs" "valid_utf8 (drop (length rs) s)"
    by (auto split: option.splits)
  with follows_append [OF rs(2), of b] "2.IH" [OF rs(1)] show ?case by (simp add: Let_def)
qed simp

lemma lossy_valid: "valid_utf8 a \<Longrightarrow> lossy a = a"
  using lossy_append [of a "[]"] by simp

lemma lossy_concat: "list_all valid_utf8 cs \<Longrightarrow> lossy (concat cs) = concat cs"
  by (induction cs) (simp_all add: lossy_append)

lemma unix_lines_append: "a = [] \<or> last a \<noteq> CHR 0x0D \<Longrightarrow> unix_lines (a @ b) = unix_lines a @ unix_lines b"
proof (induction a rule: unix_lines.induct)
  case (2 c)
  then show ?case by (cases b) auto
qed (auto split: if_splits)

lemma unix_lines_concat:
  "list_all (\<lambda>c. c = [] \<or> last c \<noteq> CHR 0x0D) cs \<Longrightarrow> unix_lines (concat cs) = concat (map unix_lines cs)"
  by (induction cs) (simp_all add: unix_lines_append)

lemma split_str_len: "split_str p s = Some (a, b) \<Longrightarrow> length p \<le> length s"
proof (induction s arbitrary: a b)
  case (Cons c s)
  then show ?case
    by (cases "starts_with (c # s) p") (auto simp: starts_with_def dest: arg_cong [of _ _ length] intro: le_SucI)
qed (auto split: if_splits)

lemma split_str_append: "split_str p s = Some (a, b) \<Longrightarrow> p \<noteq> [] \<Longrightarrow> split_str p (s @ t) = Some (a, b @ t)"
proof (induction s arbitrary: a b)
  case (Cons c s)
  show ?case
  proof (cases "starts_with (c # s) p")
    case True
    then have "length p \<le> length (c # s)" by (metis nat_le_linear starts_with_def take_all)
    with True Cons.prems show ?thesis
      using starts_with_app [of p "c # s" t] drop_append [of "length p" "c # s" t] by auto
  next
    case False
    with Cons.prems obtain a' where a: "split_str p s = Some (a', b)" "a = c # a'" by auto
    show ?thesis
    proof (cases "starts_with (c # s @ t) p")
      case True
      with False have "length s < length p - 1" using starts_with_app [of p "c # s" t] by (cases "length p \<le> length (c # s)") auto
      with a(1) Cons.prems(2) split_str_len have False by fastforce
      then show ?thesis ..
    next
      case no: False
      with False a Cons.IH [OF a(1) Cons.prems(2)] show ?thesis by simp
    qed
  qed
qed (auto split: if_splits)

lemma cut_frames_append:
  "cut_frames s = (fs, r) \<Longrightarrow> cut_frames (s @ t) = (fs @ fst (cut_frames (r @ t)), snd (cut_frames (r @ t)))"
proof (induction s arbitrary: fs r rule: cut_frames.induct)
  case (1 s)
  show ?case
  proof (cases "split_str blank_line s")
    case None
    with "1.prems" show ?thesis by (simp add: cut_frames.simps [of s])
  next
    case (Some x)
    obtain f rest where x: "x = (f, rest)" by fastforce
    obtain fs' where c: "cut_frames rest = (fs', r)" "fs = f # fs'"
      using "1.prems" Some x by (auto simp: cut_frames.simps [of s] Let_def split: prod.splits)
    have "split_str blank_line (s @ t) = Some (f, rest @ t)"
      using split_str_append [of blank_line s f rest t] Some x by (simp add: blank_line_def)
    with c "1.IH" [OF Some x [symmetric] c(1)] x show ?thesis
      by (simp add: cut_frames.simps [of "s @ t"] Let_def split_beta)
  qed
qed

lemma cut_rest: "cut_frames s = (fs, r) \<Longrightarrow> cut_frames r = ([], r)"
proof (induction s arbitrary: fs rule: cut_frames.induct)
  case (1 s)
  show ?case
  proof (cases "split_str blank_line s")
    case None
    with "1.prems" have "r = s" by (simp add: cut_frames.simps [of s])
    with None show ?thesis by (simp add: cut_frames.simps [of s])
  next
    case (Some x)
    obtain f rest where x: "x = (f, rest)" by fastforce
    with "1.prems" Some obtain fs' where "cut_frames rest = (fs', r)"
      by (auto simp: cut_frames.simps [of s] Let_def split: prod.splits)
    with "1.IH" Some x show ?thesis by blast
  qed
qed

lemma read_frames_append:
  "read_frames decode (fs @ gs) i =
     (fst (read_frames decode fs i) @ fst (read_frames decode gs (snd (read_frames decode fs i))),
      snd (read_frames decode gs (snd (read_frames decode fs i))))"
  by (induction fs arbitrary: i) (simp_all add: split_beta Let_def)

text \<open>Text that arrives, whatever it was decoded from.\<close>

definition sse_text :: "(string \<Rightarrow> 'e option) \<Rightarrow> string \<Rightarrow> 'e sse_state \<Rightarrow> 'e list \<times> 'e sse_state" where
  "sse_text decode t s =
     (let (fs, rest) = cut_frames (sse_buffer s @ t); (es, i) = read_frames decode fs (last_event_id s)
      in (es, s\<lparr>sse_buffer := rest, last_event_id := i\<rparr>))"

lemma sse_chunk_text: "sse_chunk decode c s = sse_text decode (unix_lines (lossy c)) s"
  by (simp add: sse_chunk_def sse_text_def)

lemma sse_text_append:
  "sse_text decode (t @ u) s =
     (fst (sse_text decode t s) @ fst (sse_text decode u (snd (sse_text decode t s))),
      snd (sse_text decode u (snd (sse_text decode t s))))"
proof -
  obtain fs r where c: "cut_frames (sse_buffer s @ t) = (fs, r)" by fastforce
  show ?thesis
    using cut_frames_append [OF c, of u]
    by (simp add: sse_text_def c split_beta Let_def read_frames_append)
qed

lemma sse_chunks_text:
  assumes "cut_frames (sse_buffer s) = ([], sse_buffer s)"
  shows "sse_chunks decode cs s = sse_text decode (concat (map (unix_lines \<circ> lossy) cs)) s"
  using assms
proof (induction cs arbitrary: s)
  case Nil
  then show ?case by (simp add: sse_text_def)
next
  case (Cons c cs)
  have "cut_frames (sse_buffer (snd (sse_chunk decode c s))) = ([], sse_buffer (snd (sse_chunk decode c s)))"
    using cut_rest by (simp add: sse_chunk_text sse_text_def split_beta Let_def) (metis prod.collapse)
  from Cons.IH [OF this] show ?case
    by (simp add: sse_chunk_text sse_text_append split_beta Let_def)
qed

text \<open>C31: How the network cuts the stream does not matter as long as it leaves the characters and the line ends whole:
  for any chunks of valid UTF-8 that do not end in a carriage return, the events, the last event id and what is
  left in the buffer are those of the whole text at once.\<close>

theorem sse_chunking:
  assumes "list_all (\<lambda>c. valid_utf8 c \<and> (c = [] \<or> last c \<noteq> CHR 0x0D)) cs" and "sse_buffer s = []"
  shows "sse_chunks decode cs s = sse_chunk decode (concat cs) s"
proof -
  have v: "list_all valid_utf8 cs" "list_all (\<lambda>c. c = [] \<or> last c \<noteq> CHR 0x0D) cs"
    using assms(1) by (simp_all add: list_all_iff)
  have "cut_frames [] = ([], [])" by (simp add: cut_frames.simps blank_line_def)
  then have "sse_chunks decode cs s = sse_text decode (concat (map (unix_lines \<circ> lossy) cs)) s"
    using assms(2) by (simp add: sse_chunks_text)
  also have "concat (map (unix_lines \<circ> lossy) cs) = concat (map unix_lines cs)"
    using v(1) by (induction cs) (simp_all add: lossy_valid)
  also have "\<dots> = unix_lines (lossy (concat cs))"
    using unix_lines_concat [OF v(2)] lossy_concat [OF v(1)] by simp
  finally show ?thesis by (simp add: sse_chunk_text)
qed

text \<open>Otherwise it does. A character that is cut in two becomes replacement characters, and of two frames whose
  separator is cut inside a line end the first does not end.\<close>

definition fresh_stream :: "'e sse_state" where
  "fresh_stream = \<lparr>sse_buffer = [], last_event_id = None\<rparr>"

definition ex_accent :: string where
  "ex_accent = bytes [0xC3, 0xA9]"

lemma cut_character_garbled:
  "fst (sse_chunk Some (''data: '' @ ex_accent @ blank_line) fresh_stream) = [ex_accent]"
  "fst (sse_chunks Some [''data: '' @ bytes [0xC3], bytes [0xA9] @ blank_line] fresh_stream) = [replacement @ replacement]"
  by code_simp+

definition crlf :: string where
  "crlf = [CHR 0x0D, CHR 0x0A]"

lemma cut_line_end_merges:
  "fst (sse_chunk Some (''data: a'' @ crlf @ crlf @ ''data: b'' @ crlf @ crlf) fresh_stream) = [''a'', ''b'']"
  "fst (sse_chunks Some [''data: a'' @ crlf @ [CHR 0x0D], [CHR 0x0A] @ ''data: b'' @ crlf @ crlf] fresh_stream)
     = [''a'' @ [CHR 0x0A] @ ''b'']"
  by code_simp+

lemma sse_chunking_witness:
  "sse_chunks Some [''id: 7'' @ [CHR 0x0A] @ ''da'', ''ta: x'' @ [CHR 0x0A], [CHR 0x0A]] fresh_stream =
   sse_chunk Some (''id: 7'' @ [CHR 0x0A] @ ''data: x'' @ blank_line) fresh_stream"
proof -
  have "list_all (\<lambda>c. valid_utf8 c \<and> (c = [] \<or> last c \<noteq> CHR 0x0D))
      [''id: 7'' @ [CHR 0x0A] @ ''da'', ''ta: x'' @ [CHR 0x0A], [CHR 0x0A]]" by code_simp
  from sse_chunking [OF this, of fresh_stream Some] show ?thesis by (simp add: fresh_stream_def blank_line_def)
qed

section \<open>Reconnecting\<close>

text \<open>How an attempt to open the stream went: it could not be sent, it was answered by an error, or it yielded chunks
  until the stream ended, broke, or was silent for longer than the heartbeat allows.\<close>

datatype stream_end = StreamEnded | StreamBroken | HeartbeatLapsed

datatype attempt = SendFailed | RefusedWith int | Streamed "string list" stream_end

record sse_loop_state =
  backoff :: nat
  resume_id :: "string option"
  had_connected :: bool

record 'e attempt_result =
  sent_id :: "string option"
  emitted :: "'e list"
  pause :: nat

definition next_backoff :: "nat \<Rightarrow> nat" where
  "next_backoff b = min (b * 2) 30000"

fun sse_attempt :: "(string \<Rightarrow> 'e option) \<Rightarrow> 'e \<Rightarrow> attempt \<Rightarrow> sse_loop_state \<Rightarrow> 'e attempt_result \<times> sse_loop_state" where
  "sse_attempt decode gap (Streamed cs e) s =
     (let (es, t) = sse_chunks decode cs \<lparr>sse_buffer = [], last_event_id = resume_id s\<rparr>
      in (\<lparr>sent_id = resume_id s, emitted = (if had_connected s then [gap] else []) @ es, pause = 1000\<rparr>,
          \<lparr>backoff = next_backoff 1000, resume_id = last_event_id t, had_connected = True\<rparr>))"
| "sse_attempt decode gap _ s =
     (\<lparr>sent_id = resume_id s, emitted = [], pause = backoff s\<rparr>, s\<lparr>backoff := next_backoff (backoff s)\<rparr>)"

fun sse_loop :: "(string \<Rightarrow> 'e option) \<Rightarrow> 'e \<Rightarrow> attempt list \<Rightarrow> sse_loop_state \<Rightarrow> 'e attempt_result list" where
  "sse_loop decode gap [] s = []"
| "sse_loop decode gap (a # as) s = (let (r, s1) = sse_attempt decode gap a s in r # sse_loop decode gap as s1)"

definition loop_start :: sse_loop_state where
  "loop_start = \<lparr>backoff = 1000, resume_id = None, had_connected = False\<rparr>"

fun streamed :: "attempt \<Rightarrow> bool" where
  "streamed (Streamed cs e) = True"
| "streamed _ = False"

lemma next_backoff_range: "1000 \<le> b \<Longrightarrow> b \<le> 30000 \<Longrightarrow> 1000 \<le> next_backoff b \<and> next_backoff b \<le> 30000"
  by (simp add: next_backoff_def)

lemma sse_loop_nth:
  assumes "i < length as" and "1000 \<le> backoff s" and "backoff s \<le> 30000"
  shows "length (sse_loop decode gap as s) = length as \<and> 1000 \<le> pause (sse_loop decode gap as s ! i) \<and>
    pause (sse_loop decode gap as s ! i) \<le> 30000 \<and>
    (if streamed (as ! i)
     then (had_connected s \<or> list_ex streamed (take i as)) \<longrightarrow> emitted (sse_loop decode gap as s ! i) \<noteq> [] \<and>
       hd (emitted (sse_loop decode gap as s ! i)) = gap
     else emitted (sse_loop decode gap as s ! i) = [])"
  using assms
proof (induction as arbitrary: s i)
  case (Cons a as)
  obtain r s1 where r: "sse_attempt decode gap a s = (r, s1)" by fastforce
  have b: "1000 \<le> backoff s1 \<and> backoff s1 \<le> 30000"
    using r Cons.prems(2,3) next_backoff_range [of "backoff s"] next_backoff_range [of 1000]
    by (cases a) (auto simp: Let_def split_beta)
  have p: "1000 \<le> pause r \<and> pause r \<le> 30000" "\<not> streamed a \<longrightarrow> emitted r = []"
      "streamed a \<and> had_connected s \<longrightarrow> emitted r \<noteq> [] \<and> hd (emitted r) = gap"
    using r Cons.prems(2,3) by (cases a; auto simp: Let_def split_beta)+
  have h: "had_connected s1 \<longleftrightarrow> had_connected s \<or> streamed a"
    using r by (cases a) (auto simp: Let_def split_beta)
  have len: "length (sse_loop decode gap as s1) = length as" for as s1
    by (induction as arbitrary: s1) (simp_all add: Let_def split_beta)
  show ?case
  proof (cases i)
    case 0
    with p len r show ?thesis by simp
  next
    case (Suc j)
    from Suc Cons.prems(1) b have "j < length as" "1000 \<le> backoff s1" "backoff s1 \<le> 30000" by simp_all
    from Cons.IH [OF this] have "length (sse_loop decode gap as s1) = length as \<and>
        1000 \<le> pause (sse_loop decode gap as s1 ! j) \<and> pause (sse_loop decode gap as s1 ! j) \<le> 30000 \<and>
        (if streamed (as ! j)
         then (had_connected s \<or> list_ex streamed (take i (a # as))) \<longrightarrow> emitted (sse_loop decode gap as s1 ! j) \<noteq> [] \<and>
           hd (emitted (sse_loop decode gap as s1 ! j)) = gap
         else emitted (sse_loop decode gap as s1 ! j) = [])"
      unfolding h Suc by (simp add: disj_assoc)
    with Suc r show ?thesis by (simp only: sse_loop.simps Let_def prod.case nth_Cons_Suc length_Cons) simp
  qed
qed simp

text \<open>C32: A stream that was lost is never taken up silently. Whatever becomes of the attempts to open it, every one that
  yields a stream after an earlier one begins with the synthetic discontinuity, so that the session is seeded anew
  before it sees another event; an attempt that fails emits nothing; and the pause after an attempt is between one and
  thirty seconds.\<close>

theorem sse_gaps_announced:
  assumes "i < length as"
  shows "1000 \<le> pause (sse_loop decode gap as loop_start ! i) \<and> pause (sse_loop decode gap as loop_start ! i) \<le> 30000 \<and>
    (if streamed (as ! i)
     then (\<exists>j<i. streamed (as ! j)) \<longrightarrow> emitted (sse_loop decode gap as loop_start ! i) \<noteq> [] \<and>
       hd (emitted (sse_loop decode gap as loop_start ! i)) = gap
     else emitted (sse_loop decode gap as loop_start ! i) = [])"
proof -
  have "list_ex streamed (take i as)" if "j < i" "streamed (as ! j)" for j
  proof -
    have "take i as ! j \<in> set (take i as)" using that(1) assms by (intro nth_mem) simp
    with that show ?thesis by (auto simp: list_ex_iff)
  qed
  then have imp: "(\<exists>j<i. streamed (as ! j)) \<longrightarrow> list_ex streamed (take i as)" by blast
  have start: "backoff loop_start = 1000" "\<not> had_connected loop_start" by (simp_all add: loop_start_def)
  note n = sse_loop_nth [OF assms, of loop_start decode gap, unfolded start(1)]
  show ?thesis
  proof (cases "streamed (as ! i)")
    case True
    with n imp show ?thesis by auto
  next
    case False
    with n show ?thesis by auto
  qed
qed

lemma sse_gaps_announced_witness:
  "hd (emitted (sse_loop Some ''gap'' [Streamed [''data: a'' @ blank_line] StreamEnded, SendFailed,
     Streamed [''data: b'' @ blank_line] StreamBroken] loop_start ! 2)) = ''gap''"
proof -
  let ?as = "[Streamed [''data: a'' @ blank_line] StreamEnded, SendFailed, Streamed [''data: b'' @ blank_line] StreamBroken]"
  have "\<exists>j<2. streamed (?as ! j)" by (intro exI [of _ 0]) simp
  with sse_gaps_announced [of 2 ?as Some "''gap''"] show ?thesis by simp
qed

end
