(* ===== verification/Daemon_Start.thy ===== *)
theory Daemon_Start
  imports Daemon_Lease Sse_Stream
begin

text \<open>
  How a daemon is started, \<^verbatim>\<open>polytoken/daemon_client.rs\<close>: the arguments and the environment, the private file with
  its token, waiting for \<^verbatim>\<open>startup.json\<close>, and what the two ways of starting return. What the operating system
  does is an argument: the files, what each poll sees, and what a process prints. Slicing a text inside a character
  panics.
\<close>

section \<open>What the process prints\<close>

record spawned_daemon =
  sd_session :: string
  sd_port :: nat
  sd_token :: "string option"

definition extract_kv_value :: "string \<Rightarrow> string \<Rightarrow> string option" where
  "extract_kv_value line key =
     (case split_str key line of
        None \<Rightarrow> None
      | Some (_, rest) \<Rightarrow>
          (let val = concat (takeWhile (\<lambda>c. \<not> is_whitespace c) (utf8_chars rest)) in if val = [] then None else Some val))"

text \<open>\<open>debug\<close> is the formatting with \<^verbatim>\<open>{:?}\<close>.\<close>

definition parse_spawn_output :: "(string \<Rightarrow> string) \<Rightarrow> string \<Rightarrow> (string + spawned_daemon) option" where
  "parse_spawn_output debug out_text =
     (case find (\<lambda>l. contains l ''session_id='') (str_lines out_text) of
        None \<Rightarrow>
          map_option (\<lambda>t. Inl (''polytoken new --no-attach produced no session_id line:'' @ [CHR 0x0A] @ t)) (cut_text 500 out_text)
      | Some line \<Rightarrow>
          (let bad = Inl (''polytoken new --no-attach line unparseable: '' @ debug line)
           in Some (case (extract_kv_value line ''session_id='', extract_kv_value line ''port='') of
                (Some sid, Some p) \<Rightarrow>
                  (case parse_u16 p of
                     Some n \<Rightarrow> Inr \<lparr>sd_session = sid, sd_port = n, sd_token = None\<rparr>
                   | None \<Rightarrow> bad)
              | _ \<Rightarrow> bad)))"

section \<open>Arguments and environment\<close>

definition home_config :: "(string \<rightharpoonup> string) \<Rightarrow> string" where
  "home_config env = path_join (unwrap_or (env ''HOME'') []) ''.config''"

definition default_global_config_dir :: "(string \<rightharpoonup> string) \<Rightarrow> string" where
  "default_global_config_dir env =
     path_join (case map_option trim (env ''XDG_CONFIG_HOME'') of
         Some x \<Rightarrow> if x \<noteq> [] then x else home_config env
       | None \<Rightarrow> home_config env) ''polytoken''"

record spawn_opts =
  so_cwd :: "string option"
  so_session_id :: "string option"
  so_sessions_dir :: "string option"
  so_global_config_dir :: "string option"
  so_login_env :: "(string \<rightharpoonup> string) option"

definition merged_spawn_env :: "(string \<rightharpoonup> string) \<Rightarrow> (string \<rightharpoonup> string) option \<Rightarrow> (string \<rightharpoonup> string) option" where
  "merged_spawn_env env login =
     (case login of
        None \<Rightarrow> None
      | Some l \<Rightarrow> if l = Map.empty then None else Some (env ++ l))"

text \<open>Whether the binary was not found, and the text of the error.\<close>

definition spawn_error_message :: "string \<Rightarrow> string \<Rightarrow> bool \<times> string \<Rightarrow> string" where
  "spawn_error_message what polytoken_bin e =
     ''failed to spawn '' @ what @ '': '' @
     (if fst e then ''polytoken binary not found at '' @ [CHR 0x27] @ polytoken_bin @ [CHR 0x27] else snd e)"

definition new_session_args :: "spawn_opts \<Rightarrow> string list" where
  "new_session_args opts =
     (case so_cwd opts of Some d \<Rightarrow> [''--working-dir'', d] | None \<Rightarrow> []) @ [''new'', ''--no-attach'']"

definition build_resume_args :: "string \<Rightarrow> string \<Rightarrow> string \<Rightarrow> string \<Rightarrow> string \<Rightarrow> string list" where
  "build_resume_args cwd sid global_config_dir sdir credential_file =
     [''daemon'', ''--project-dir'', cwd, ''--session-id'', sid, ''--resume'', ''--global-config-dir'', global_config_dir,
      ''--sessions-dir'', sdir, ''--credential-file'', credential_file]"

section \<open>Files\<close>

record startup_json =
  sj_state :: string
  sj_pid :: "int option"
  sj_port :: "int option"
  sj_message :: "string option"
  sj_credential_file :: "string option"

text \<open>A file that is missing or cannot be read is \<open>None\<close>.\<close>

definition read_startup_json :: "(string \<Rightarrow> startup_json option) \<Rightarrow> (string \<Rightarrow> string option) \<Rightarrow> string \<Rightarrow> startup_json option" where
  "read_startup_json decode fs dir = Option.bind (fs (path_join dir ''startup.json'')) decode"

definition read_credential_token :: "(string \<Rightarrow> json option) \<Rightarrow> (string \<Rightarrow> string option) \<Rightarrow> string \<Rightarrow> string option" where
  "read_credential_token parse fs path =
     (case Option.bind (fs path) parse of
        Some (J_Object kvs) \<Rightarrow> (case map_of (rev kvs) ''token'' of Some (J_String t) \<Rightarrow> Some t | _ \<Rightarrow> None)
      | _ \<Rightarrow> None)"

text \<open>Two digits for each of the 32 random bytes.\<close>

definition hex_digit :: "nat \<Rightarrow> char" where
  "hex_digit n = char_of (if n < 10 then 48 + n else 87 + n)"

definition generate_daemon_credential_token :: "nat list \<Rightarrow> string" where
  "generate_daemon_credential_token bs = concat (map (\<lambda>b. [hex_digit (b div 16), hex_digit (b mod 16)]) bs)"

text \<open>The operations on the disk, each of which may fail with an error. Opening creates or truncates.\<close>

record 'w disk =
  make_dirs :: "string \<Rightarrow> 'w \<Rightarrow> string option \<times> 'w"
  stat_file :: "string \<Rightarrow> 'w \<Rightarrow> string option \<times> 'w"
  set_mode :: "string \<Rightarrow> nat \<Rightarrow> 'w \<Rightarrow> string option \<times> 'w"
  open_with_mode :: "string \<Rightarrow> nat \<Rightarrow> 'w \<Rightarrow> string option \<times> 'w"
  write_and_sync :: "string \<Rightarrow> string \<Rightarrow> 'w \<Rightarrow> string option \<times> 'w"

type_synonym 'w disk_step = "string \<times> ('w \<Rightarrow> string option \<times> 'w)"

fun run_steps :: "'w disk_step list \<Rightarrow> 'w \<Rightarrow> string option \<times> 'w" where
  "run_steps [] w = (None, w)"
| "run_steps ((what, f) # fs) w =
     (case f w of (Some e, w1) \<Rightarrow> (Some (what @ '': '' @ e), w1) | (None, w1) \<Rightarrow> run_steps fs w1)"

definition private_dir_steps :: "'w disk \<Rightarrow> string \<Rightarrow> 'w disk_step list" where
  "private_dir_steps D path =
     [(''failed to stat credential file parent '' @ path, stat_file D path),
      (''failed to chmod credential file parent '' @ path @ '' to 0700'', set_mode D path 0x1C0)]"

definition credential_json :: "string \<Rightarrow> json" where
  "credential_json token =
     J_Object [(''version'', J_Number ''1''), (''kind'', J_String ''polytoken-daemon-credential''), (''token'', J_String token)]"

text \<open>The file lies in \<open>dir\<close>. The modes are 0700 for the directory and 0600 for the file.\<close>

definition prepare_resume_credential_file ::
    "'w disk \<Rightarrow> (json \<Rightarrow> string) \<Rightarrow> nat list \<Rightarrow> string \<Rightarrow> 'w \<Rightarrow> (string + string) \<times> 'w" where
  "prepare_resume_credential_file D print random dir w =
     (let token = generate_daemon_credential_token random;
          file = path_join dir ''credential.json''
      in case run_steps ((''failed to create credential file parent '' @ dir, make_dirs D dir) # private_dir_steps D dir @
             [(''failed to create credential file '' @ file, open_with_mode D file 0x180),
              (''failed to write credential file '' @ file, write_and_sync D file (print (credential_json token))),
              (''failed to stat credential file '' @ file, stat_file D file),
              (''failed to chmod credential file '' @ file @ '' to 0600'', set_mode D file 0x180)]) w of
           (Some e, w1) \<Rightarrow> (Inl e, w1)
         | (None, w1) \<Rightarrow> (Inr token, w1))"

section \<open>Waiting\<close>

text \<open>What a poll sees: the file, the child (an error, its exit status, or that it runs), and whether the time is up.\<close>

record poll =
  po_json :: "startup_json option"
  po_child :: "string + string option"
  po_deadline :: bool

text \<open>\<open>Hangs\<close>: reading the standard error of the child does not end. \<open>Waiting\<close>: the polls so far did not decide.\<close>

datatype startup_outcome = Ready startup_json | StartFailed string | Panics | Hangs | Waiting

definition with_stderr :: "string option \<Rightarrow> string \<Rightarrow> startup_outcome" where
  "with_stderr err_text lead =
     (case err_text of
        None \<Rightarrow> Hangs
      | Some t \<Rightarrow> (case cut_text 500 t of Some u \<Rightarrow> StartFailed (lead @ u) | None \<Rightarrow> Panics))"

definition is_ours :: "int option \<Rightarrow> startup_json \<Rightarrow> bool" where
  "is_ours expect_pid j \<longleftrightarrow> (case expect_pid of Some p \<Rightarrow> sj_pid j = Some p | None \<Rightarrow> True)"

definition startup_verdict :: "int option \<Rightarrow> startup_json \<Rightarrow> startup_outcome" where
  "startup_verdict expect_pid j =
     (if sj_state j = ''ready'' \<and> sj_port j \<noteq> None \<and> is_ours expect_pid j then Ready j
      else if sj_state j = ''failed'' \<and> is_ours expect_pid j
        then StartFailed (''polytoken daemon failed to start: '' @ unwrap_or (sj_message j) ''no message'')
      else Waiting)"

definition timed_out_text :: "(startup_json \<Rightarrow> string) \<Rightarrow> nat \<Rightarrow> int option \<Rightarrow> startup_json option \<Rightarrow> string" where
  "timed_out_text print timeout_ms expect_pid last_json =
     ''polytoken daemon did not become ready within '' @ digits_of timeout_ms @ ''ms (startup.json: '' @
     (case last_json of Some j \<Rightarrow> print j | None \<Rightarrow> ''null'') @ ''; expected pid: '' @
     (case expect_pid of Some p \<Rightarrow> show_int p | None \<Rightarrow> ''any'') @ '')'' @ [CHR 0x0A] @ ''daemon stderr: ''"

text \<open>\<open>err_text\<close> is what the child's standard error holds until it ends: at its exit, or, at the deadline, never
  (\<open>None\<close>) as long as it runs.\<close>

fun wait_for_daemon_startup ::
    "(startup_json \<Rightarrow> string) \<Rightarrow> nat \<Rightarrow> int option \<Rightarrow> string option \<Rightarrow> startup_json option \<Rightarrow> poll list \<Rightarrow> startup_outcome" where
  "wait_for_daemon_startup print timeout_ms expect_pid err_text last_json [] = Waiting"
| "wait_for_daemon_startup print timeout_ms expect_pid err_text last_json (p # ps) =
     (let last_json = or_else (po_json p) last_json in
      case (case po_json p of Some j \<Rightarrow> startup_verdict expect_pid j | None \<Rightarrow> Waiting) of
        Waiting \<Rightarrow>
          (case po_child p of
             Inr (Some code) \<Rightarrow>
               with_stderr err_text (''polytoken daemon exited early (status '' @ code @ ''):'' @ [CHR 0x0A] @ ''stderr: '')
           | _ \<Rightarrow>
               (if po_deadline p then with_stderr err_text (timed_out_text print timeout_ms expect_pid last_json)
                else wait_for_daemon_startup print timeout_ms expect_pid err_text last_json ps))
      | verdict \<Rightarrow> verdict)"

section \<open>Starting\<close>

definition spawned_token ::
    "(string \<Rightarrow> startup_json option) \<Rightarrow> (string \<Rightarrow> json option) \<Rightarrow> (string \<Rightarrow> string option) \<Rightarrow> string option \<Rightarrow> string \<Rightarrow> string option" where
  "spawned_token decode parse fs sdir sid =
     (case sdir of
        None \<Rightarrow> None
      | Some dir \<Rightarrow>
          Option.bind (Option.bind (read_startup_json decode fs (path_join dir sid)) sj_credential_file)
            (read_credential_token parse fs))"

definition spawn_new_daemon ::
    "(string \<Rightarrow> string) \<Rightarrow> (int option \<Rightarrow> string) \<Rightarrow> (string \<Rightarrow> startup_json option) \<Rightarrow> (string \<Rightarrow> json option)
      \<Rightarrow> (string \<Rightarrow> string option) \<Rightarrow> string \<Rightarrow> spawn_opts \<Rightarrow> (string list \<Rightarrow> bool \<times> string + command_output)
      \<Rightarrow> (string + spawned_daemon) option" where
  "spawn_new_daemon debug show_status decode parse fs polytoken_bin opts run =
     (case run (new_session_args opts) of
        Inl e \<Rightarrow> Some (Inl (spawn_error_message ''polytoken new'' polytoken_bin e))
      | Inr out \<Rightarrow>
          (let out_text = lossy (stdout out); err_text = lossy (stderr out) in
           if \<not> is_success out then
             (case (cut_text 500 err_text, cut_text 500 out_text) of
                (Some e, Some s) \<Rightarrow>
                  Some (Inl (''polytoken new --no-attach exited '' @ show_status (exit_code out) @ '':'' @ [CHR 0x0A] @ ''stderr: '' @ e @
                    [CHR 0x0A] @ ''stdout: '' @ s))
              | _ \<Rightarrow> None)
           else map_option (map_sum id (\<lambda>d. d\<lparr>sd_token := spawned_token decode parse fs (so_sessions_dir opts) (sd_session d)\<rparr>))
             (parse_spawn_output debug out_text)))"

text \<open>What the resumed daemon does: the token of the prepared file, the process or the error of starting it, and how
  the wait for it ends. On an error it is killed, and \<open>rest\<close> is what is left of its standard error. \<open>None\<close> is a panic
  or a wait that does not end.\<close>

definition spawn_resume_daemon ::
    "(string \<Rightarrow> json option) \<Rightarrow> (string \<Rightarrow> string option) \<Rightarrow> string \<Rightarrow> string \<Rightarrow> string + string
      \<Rightarrow> bool \<times> string + startup_outcome \<Rightarrow> string \<Rightarrow> (string + spawned_daemon) option" where
  "spawn_resume_daemon parse fs polytoken_bin sid prepared started rest =
     (case prepared of
        Inl e \<Rightarrow> Some (Inl e)
      | Inr token \<Rightarrow> (case started of
          Inl e \<Rightarrow> Some (Inl (spawn_error_message ''polytoken daemon'' polytoken_bin e))
        | Inr (Ready j) \<Rightarrow> Some (case sj_port j of
            None \<Rightarrow> Inl ''startup.json has no port''
          | Some p \<Rightarrow> Inr \<lparr>sd_session = sid, sd_port = nat (p mod 2 ^ 16),
              sd_token = or_else (Option.bind (sj_credential_file j) (read_credential_token parse fs)) (Some token)\<rparr>)
        | Inr (StartFailed e) \<Rightarrow>
            map_option (\<lambda>t. Inl (e @ [CHR 0x0A] @ ''daemon stderr: '' @ t)) (cut_text 500 (lossy rest))
        | Inr _ \<Rightarrow> None))"

text \<open>Which way a daemon is started, and what a resume needs.\<close>

datatype spawn_way = WayNew | WayResume string string string string

definition spawn_way_of :: "spawn_opts \<Rightarrow> string + spawn_way" where
  "spawn_way_of opts =
     (case so_session_id opts of
        None \<Rightarrow> Inr WayNew
      | Some sid \<Rightarrow> (case so_cwd opts of
          None \<Rightarrow> Inl ''spawnDaemon: resume requires cwd''
        | Some cwd \<Rightarrow> (case so_sessions_dir opts of
            None \<Rightarrow> Inl ''spawnDaemon: resume requires sessionsDir''
          | Some dir \<Rightarrow> (case so_global_config_dir opts of
              None \<Rightarrow> Inl ''spawnDaemon: resume requires globalConfigDir''
            | Some conf \<Rightarrow> Inr (WayResume sid cwd dir conf)))))"

section \<open>What is trusted\<close>

definition decides_start :: "int option \<Rightarrow> startup_json \<Rightarrow> bool" where
  "decides_start expect_pid j \<longleftrightarrow>
     is_ours expect_pid j \<and> (sj_state j = ''ready'' \<and> sj_port j \<noteq> None \<or> sj_state j = ''failed'')"

lemma startup_verdict_waits: "startup_verdict e j = Waiting \<longleftrightarrow> \<not> decides_start e j"
  by (auto simp: startup_verdict_def decides_start_def)

lemma startup_verdict_ready:
  "startup_verdict e j = Ready k \<longleftrightarrow> k = j \<and> is_ours e j \<and> sj_state j = ''ready'' \<and> sj_port j \<noteq> None"
  by (auto simp: startup_verdict_def)

lemma with_stderr_not_ready: "with_stderr t e \<noteq> Ready j"
  by (simp add: with_stderr_def split: option.splits)

lemma wait_ready:
  "wait_for_daemon_startup print ms e err l ps = Ready j \<Longrightarrow>
    Some j \<in> po_json ` set ps \<and> is_ours e j \<and> sj_state j = ''ready'' \<and> sj_port j \<noteq> None"
proof (induction ps arbitrary: l)
  case (Cons p ps)
  show ?case
  proof (cases "case po_json p of Some j \<Rightarrow> startup_verdict e j | None \<Rightarrow> Waiting")
    case (Ready k)
    then have "po_json p = Some k" "is_ours e k \<and> sj_state k = ''ready'' \<and> sj_port k \<noteq> None"
      by (auto simp: startup_verdict_ready split: option.splits)
    moreover from Cons.prems Ready have "k = j" by simp
    ultimately show ?thesis by (auto intro: rev_image_eqI)
  next
    case Waiting
    with Cons.prems have "wait_for_daemon_startup print ms e err (or_else (po_json p) l) ps = Ready j"
      by (auto simp: Let_def with_stderr_not_ready split: sum.splits option.splits if_splits)
    from Cons.IH [OF this] show ?thesis by auto
  qed (use Cons.prems in simp_all)
qed simp

definition still_running :: "poll \<Rightarrow> bool" where
  "still_running p \<longleftrightarrow> \<not> po_deadline p \<and> (case po_child p of Inr (Some s) \<Rightarrow> False | _ \<Rightarrow> True)"

lemma wait_running:
  "list_all still_running ps \<Longrightarrow> wait_for_daemon_startup print ms e err l ps =
    (case find (decides_start e) (List.map_filter po_json ps) of Some j \<Rightarrow> startup_verdict e j | None \<Rightarrow> Waiting)"
proof (induction ps arbitrary: l)
  case (Cons p ps)
  have r: "\<not> po_deadline p" "\<And>s. po_child p \<noteq> Inr (Some s)" using Cons.prems by (auto simp: still_running_def)
  show ?case
  proof (cases "case po_json p of Some j \<Rightarrow> startup_verdict e j | None \<Rightarrow> Waiting")
    case Waiting
    with r have "wait_for_daemon_startup print ms e err l (p # ps) =
        wait_for_daemon_startup print ms e err (or_else (po_json p) l) ps"
      by (auto simp: Let_def split: sum.splits option.splits)
    moreover have "find (decides_start e) (List.map_filter po_json (p # ps)) = find (decides_start e) (List.map_filter po_json ps)"
      using Waiting by (auto simp: map_filter_simps startup_verdict_waits split: option.splits)
    ultimately show ?thesis using Cons by simp
  qed (auto simp: Let_def map_filter_simps startup_verdict_waits [symmetric] split: option.splits)
qed (simp add: map_filter_simps)

text \<open>C36: Only the daemon that was started is trusted. A start that succeeds returns what that process, by its number,
  wrote itself, with the port it listens on. While the process runs and there is time, the outcome is that of the
  first file of this process that says ready, with a port, or failed; whatever files an earlier daemon left in the
  directory, they neither end the wait nor fail it.\<close>

theorem startup_trusts_own_daemon:
  shows "(wait_for_daemon_startup print ms (Some pid) err None ps = Ready j \<longrightarrow>
      Some j \<in> po_json ` set ps \<and> sj_pid j = Some pid \<and> sj_state j = ''ready'' \<and> sj_port j \<noteq> None) \<and>
    (list_all still_running ps \<longrightarrow> wait_for_daemon_startup print ms (Some pid) err None ps =
      (case find (decides_start (Some pid)) (List.map_filter po_json ps) of
         Some j \<Rightarrow> startup_verdict (Some pid) j
       | None \<Rightarrow> Waiting))"
  using wait_ready [of print ms "Some pid" err None ps j] wait_running [of ps print ms "Some pid" err None]
  by (simp add: is_ours_def)

definition ex_startup :: "int \<Rightarrow> startup_json" where
  "ex_startup pid = \<lparr>sj_state = ''ready'', sj_pid = Some pid, sj_port = Some 70000, sj_message = None, sj_credential_file = None\<rparr>"

lemma startup_trusts_own_daemon_witness:
  "wait_for_daemon_startup (\<lambda>_. []) 15000 (Some 9) (Some [])
     None [\<lparr>po_json = Some (ex_startup 3), po_child = Inr None, po_deadline = False\<rparr>,
       \<lparr>po_json = Some (ex_startup 9), po_child = Inr None, po_deadline = False\<rparr>] = Ready (ex_startup 9)"
proof -
  have "list_all still_running [\<lparr>po_json = Some (ex_startup 3), po_child = Inr None, po_deadline = False\<rparr>,
       \<lparr>po_json = Some (ex_startup 9), po_child = Inr None, po_deadline = False\<rparr>]"
    by (simp add: still_running_def)
  with startup_trusts_own_daemon [of "\<lambda>_. []" 15000 9 "Some []"] show ?thesis
    by (simp add: map_filter_simps decides_start_def startup_verdict_def is_ours_def ex_startup_def)
qed

text \<open>At the deadline the standard error of a process that still runs is read to its end: the wait for a daemon that
  does not come up does not end after 15 seconds, and the clean-up after it is never reached.\<close>

lemma deadline_hangs:
  "wait_for_daemon_startup print ms e None l [\<lparr>po_json = None, po_child = Inr None, po_deadline = True\<rparr>] = Hangs"
  by (simp add: with_stderr_def)

text \<open>A port that is none is truncated to 16 bits.\<close>

lemma port_truncated:
  "spawn_resume_daemon parse fs bin sid (Inr token) (Inr (Ready (ex_startup 9))) rest
     = Some (Inr \<lparr>sd_session = sid, sd_port = 4464, sd_token = Some token\<rparr>)"
  by (simp add: spawn_resume_daemon_def ex_startup_def)

text \<open>The error of a start is cut at a byte.\<close>

lemma spawn_output_panics:
  "parse_spawn_output debug (replicate 499 CHR ''x'' @ bytes [0xC3, 0xA9]) = None"
proof -
  define t where "t = replicate 499 CHR ''x'' @ bytes [0xC3, 0xA9]"
  have t: "CHR 0x0A \<notin> set t" "CHR ''s'' \<notin> set t" "t \<noteq> []" by (auto simp: t_def bytes_def dest: arg_cong [of _ _ "of_char :: char \<Rightarrow> nat"])
  have l: "str_lines t = [t]" using t by (simp add: str_lines_def split_on_single)
  have "\<not> contains t ''session_id=''" using contains_set [of t "''session_id=''"] t(2) by auto
  moreover have "cut_text 500 t = None"
    by (simp add: t_def cut_text_def str_prefix_def is_char_boundary_def nth_append is_cont_def bytes_def)
  ultimately show ?thesis using l by (simp add: parse_spawn_output_def flip: t_def)
qed

end
