(* ===== verification/Pid_Lock.thy ===== *)
theory Pid_Lock
  imports Iso_Time Daemon_Start
begin

text \<open>
  The lock of a data directory and the identity of the server that owns it,
  \<^verbatim>\<open>server-rs/pantoken-server/src/pidlock.rs\<close>. The directory is a record of the texts of its files; what the
  operating system and serde do is an argument: \<open>lo_parse\<close> and \<open>lo_text\<close> are the JSON reader and printer, \<open>lo_kill\<close>
  sends signal 0 (\<open>None\<close> for success, else the error number), and \<open>lo_stored\<close> is what a file holds after a write.
\<close>

unbundle bit_operations_syntax

section \<open>The lock file\<close>

record lock_info =
  lock_pid :: int
  lock_server_id :: "string option"

record lock_os =
  lo_parse :: "string \<Rightarrow> json option"
  lo_text :: "json \<Rightarrow> string option"
  lo_kill :: "int \<Rightarrow> nat option"
  lo_stored :: "string option \<Rightarrow> string \<Rightarrow> string option"
  lo_unlinks :: bool

record data_dir =
  pid_text :: "string option"
  id_text :: "string option"

text \<open>\<open>Value::as_i64\<close>: a number written as an integer that fits.\<close>

fun as_i64 :: "json \<Rightarrow> int option" where
  "as_i64 (J_Number s) = parse_i64 s"
| "as_i64 _ = None"

definition json_pid :: "json \<Rightarrow> int option" where
  "json_pid v =
     (case v of
        J_Number _ \<Rightarrow> as_i64 v
      | J_Object _ \<Rightarrow> Option.bind (field v ''pid'') as_i64
      | _ \<Rightarrow> None)"

definition positive_lock :: "int option \<Rightarrow> string option \<Rightarrow> lock_info option" where
  "positive_lock p sid =
     (case p of
        Some n \<Rightarrow> if n > 0 then Some \<lparr>lock_pid = n, lock_server_id = sid\<rparr> else None
      | None \<Rightarrow> None)"

definition parse_lock :: "lock_os \<Rightarrow> string \<Rightarrow> lock_info option" where
  "parse_lock os text =
     (let trimmed = trim text in
      if trimmed = [] then None
      else case Option.bind (lo_parse os trimmed) (\<lambda>v. positive_lock (json_pid v) (field_str v ''serverId'')) of
             Some l \<Rightarrow> Some l
           | None \<Rightarrow> positive_lock (parse_i64 trimmed) None)"

definition EPERM :: nat where "EPERM = 1"

definition is_pid_alive :: "lock_os \<Rightarrow> int \<Rightarrow> bool" where
  "is_pid_alive os pid =
     (case lo_kill os (to_signed 32 pid) of
        None \<Rightarrow> True
      | Some errno \<Rightarrow> errno = EPERM)"

datatype lock_verdict = Reclaim | Live

definition lock_decision :: "lock_os \<Rightarrow> lock_info option \<Rightarrow> int \<Rightarrow> lock_verdict" where
  "lock_decision os existing self_pid =
     (case existing of
        None \<Rightarrow> Reclaim
      | Some l \<Rightarrow>
          if lock_pid l = self_pid then Reclaim
          else if is_pid_alive os (lock_pid l) then Live else Reclaim)"

section \<open>Taking and releasing it\<close>

record pid_lock =
  pl_pid :: int
  pl_server_id :: string
  pl_released :: bool

definition lock_json :: "string \<Rightarrow> int \<Rightarrow> json" where
  "lock_json sid pid = J_Object [(''pid'', J_Number (show_int pid)), (''serverId'', J_String sid)]"

definition read_lock :: "lock_os \<Rightarrow> 'a data_dir_scheme \<Rightarrow> lock_info option" where
  "read_lock os d = Option.bind (pid_text d) (parse_lock os)"

definition write_lock :: "lock_os \<Rightarrow> string \<Rightarrow> int \<Rightarrow> 'a data_dir_scheme \<Rightarrow> 'a data_dir_scheme" where
  "write_lock os sid self_pid d =
     d\<lparr>pid_text := lo_stored os (pid_text d)
         (unwrap_or (lo_text os (lock_json sid self_pid)) (show_int self_pid))\<rparr>"

text \<open>Reading and deciding is one step, writing a second: nothing holds the directory in between. The error is the
  holder's process id.\<close>

definition check_lock :: "lock_os \<Rightarrow> int \<Rightarrow> 'a data_dir_scheme \<Rightarrow> int + unit" where
  "check_lock os self_pid d =
     (case (read_lock os d, lock_decision os (read_lock os d) self_pid) of
        (Some l, Live) \<Rightarrow> Inl (lock_pid l)
      | _ \<Rightarrow> Inr ())"

definition acquire_pid_lock ::
    "lock_os \<Rightarrow> string \<Rightarrow> int \<Rightarrow> 'a data_dir_scheme \<Rightarrow> (int + pid_lock) \<times> 'a data_dir_scheme" where
  "acquire_pid_lock os sid self_pid d =
     (case check_lock os self_pid d of
        Inl holder \<Rightarrow> (Inl holder, d)
      | Inr _ \<Rightarrow>
          (Inr \<lparr>pl_pid = self_pid, pl_server_id = sid, pl_released = False\<rparr>, write_lock os sid self_pid d))"

definition release_lock ::
    "lock_os \<Rightarrow> pid_lock \<Rightarrow> 'a data_dir_scheme \<Rightarrow> pid_lock \<times> 'a data_dir_scheme" where
  "release_lock os l d =
     (if pl_released l then (l, d)
      else (l\<lparr>pl_released := True\<rparr>,
            case read_lock os d of
              Some cur \<Rightarrow> if lock_pid cur \<noteq> pl_pid l then d else if lo_unlinks os then d\<lparr>pid_text := None\<rparr> else d
            | None \<Rightarrow> if lo_unlinks os then d\<lparr>pid_text := None\<rparr> else d))"

section \<open>The identity of the server\<close>

definition xorshift :: "128 word \<Rightarrow> 128 word" where
  "xorshift s0 =
     (let s1 = s0 XOR drop_bit 12 s0; s2 = s1 XOR push_bit 25 s1 in s2 XOR drop_bit 27 s2)"

fun random_bytes :: "nat \<Rightarrow> 128 word \<Rightarrow> 8 word list" where
  "random_bytes 0 s = []"
| "random_bytes (Suc n) s =
     (let s1 = xorshift s in ucast (drop_bit 32 (s1 * 0x2545F4914F6CDD1D)) # random_bytes n s1)"

text \<open>The clock reads \<open>nanos\<close>.\<close>

definition random_hex :: "nat \<Rightarrow> 128 word \<Rightarrow> 128 word \<Rightarrow> string" where
  "random_hex n nanos pid =
     (let s = nanos XOR push_bit 64 pid; s = (if s = 0 then 0xDEADBEEFCAFEBABE else s)
      in concat (map (\<lambda>b. [hex_digit (unat b div 16), hex_digit (unat b mod 16)]) (random_bytes n s)))"

text \<open>\<open>mkdir\<close> tells whether the directory is there. A write that fails is an error here.\<close>

definition mint_or_read_server_id ::
    "lock_os \<Rightarrow> bool \<Rightarrow> 128 word \<Rightarrow> 128 word \<Rightarrow> 'a data_dir_scheme \<Rightarrow> string option \<times> 'a data_dir_scheme" where
  "mint_or_read_server_id os mkdir nanos pid d =
     (if \<not> mkdir then (None, d)
      else case map_option trim (id_text d) of
             Some (c # cs) \<Rightarrow> (Some (c # cs), d)
           | _ \<Rightarrow>
               (let fresh = random_hex 16 nanos pid; after = lo_stored os (id_text d) fresh
                in (if after = Some fresh then Some fresh else None, d\<lparr>id_text := after\<rparr>)))"

section \<open>What was written is read\<close>

text \<open>What the code relies on serde for: the text of a lock, trimmed, reads back.\<close>

definition lock_reads_back :: "lock_os \<Rightarrow> string \<Rightarrow> int \<Rightarrow> bool" where
  "lock_reads_back os sid pid \<longleftrightarrow>
     (\<exists>t. lo_text os (lock_json sid pid) = Some t \<and> trim t \<noteq> [] \<and>
          lo_parse os (trim t) = Some (lock_json sid pid))"

definition writes_stick :: "lock_os \<Rightarrow> bool" where
  "writes_stick os \<longleftrightarrow> (\<forall>old t. lo_stored os old t = Some t)"

lemma show_int_parses: "0 < n \<Longrightarrow> n < 2 ^ 63 \<Longrightarrow> parse_i64 (show_int n) = Some n"
  using parse_signed_padded [of "nat n" 64 0] by (simp add: show_int_def nat_less_iff)

lemma parse_lock_written:
  assumes "lock_reads_back os sid pid" and "0 < pid" and "pid < 2 ^ 63"
  shows "parse_lock os (unwrap_or (lo_text os (lock_json sid pid)) d) =
    Some \<lparr>lock_pid = pid, lock_server_id = Some sid\<rparr>"
  using assms
  by (auto simp: lock_reads_back_def parse_lock_def json_pid_def lock_json_def field_def field_str_def show_int_parses
      positive_lock_def)

lemma read_written_lock:
  assumes "lock_reads_back os sid pid" and "writes_stick os" and "0 < pid" and "pid < 2 ^ 63"
  shows "read_lock os (write_lock os sid pid d) = Some \<lparr>lock_pid = pid, lock_server_id = Some sid\<rparr>"
  using assms by (simp add: read_lock_def write_lock_def writes_stick_def parse_lock_written)

lemma check_lock_held:
  "read_lock os d = Some l \<Longrightarrow> lock_pid l \<noteq> q \<Longrightarrow> is_pid_alive os (lock_pid l) \<Longrightarrow> check_lock os q d = Inl (lock_pid l)"
  by (simp add: check_lock_def lock_decision_def)

lemma check_lock_own [simp]: "read_lock os d = Some l \<Longrightarrow> lock_pid l = q \<Longrightarrow> check_lock os q d = Inr ()"
  by (simp add: check_lock_def lock_decision_def)

lemma check_lock_free: "read_lock os d = None \<Longrightarrow> check_lock os q d = Inr ()"
  by (simp add: check_lock_def)

text \<open>While a process that holds the lock is alive, nobody else gets it: every attempt fails, names the holder and
  leaves the directory as it is; a handle that another process still has does not remove the lock; and once the
  holder releases it, the next attempt succeeds. The text of the lock must reach the file and read back.\<close>

theorem lock_excludes:
  assumes "lock_reads_back os sid p" and "writes_stick os" and "lo_unlinks os" and "0 < p" and "p < 2 ^ 63"
    and "acquire_pid_lock os sid p d = (Inr l, d1)" and "is_pid_alive os p" and "q \<noteq> p" and "pl_pid stale = q"
  shows "acquire_pid_lock os sid' q d1 = (Inl p, d1) \<and> snd (release_lock os stale d1) = d1 \<and>
    (\<exists>l' d2. acquire_pid_lock os sid' q (snd (release_lock os l d1)) = (Inr l', d2))"
proof -
  have l: "l = \<lparr>pl_pid = p, pl_server_id = sid, pl_released = False\<rparr>" and d1: "d1 = write_lock os sid p d"
    using assms(6) by (auto simp: acquire_pid_lock_def split: sum.splits)
  have r: "read_lock os d1 = Some \<lparr>lock_pid = p, lock_server_id = Some sid\<rparr>"
    unfolding d1 by (rule read_written_lock) (rule assms)+
  have free: "read_lock os (d1\<lparr>pid_text := None\<rparr>) = None" by (simp add: read_lock_def)
  show ?thesis
    using assms check_lock_held [OF r, of q] r
    by (simp add: acquire_pid_lock_def release_lock_def l check_lock_free [OF free])
qed

definition ex_lock_os :: "(int \<Rightarrow> nat option) \<Rightarrow> lock_os" where
  "ex_lock_os kill =
     \<lparr>lo_parse = (\<lambda>_. Some (lock_json ''ab'' 12)), lo_text = (\<lambda>_. Some ''12''), lo_kill = kill,
      lo_stored = (\<lambda>_ t. Some t), lo_unlinks = True\<rparr>"

definition ex_data_dir :: data_dir where
  "ex_data_dir = \<lparr>pid_text = None, id_text = None\<rparr>"

lemma trim_12: "trim ''12'' = ''12''"
  by (rule trim_plain) (simp add: plain_def)

lemma lock_excludes_witness:
  "acquire_pid_lock (ex_lock_os (\<lambda>_. None)) ''cd'' 13 (write_lock (ex_lock_os (\<lambda>_. None)) ''ab'' 12 ex_data_dir) =
     (Inl 12, write_lock (ex_lock_os (\<lambda>_. None)) ''ab'' 12 ex_data_dir)"
proof -
  let ?os = "ex_lock_os (\<lambda>_. None)"
  have a: "acquire_pid_lock ?os ''ab'' 12 ex_data_dir =
      (Inr \<lparr>pl_pid = 12, pl_server_id = ''ab'', pl_released = False\<rparr>, write_lock ?os ''ab'' 12 ex_data_dir)"
    by (simp add: acquire_pid_lock_def check_lock_def read_lock_def ex_data_dir_def)
  show ?thesis
    by (rule lock_excludes [OF _ _ _ _ _ a, where q = 13 and
            stale = "\<lparr>pl_pid = 13, pl_server_id = ''cd'', pl_released = False\<rparr>", THEN conjunct1])
      (simp_all add: lock_reads_back_def writes_stick_def ex_lock_os_def trim_12 is_pid_alive_def)
qed

text \<open>Two processes that both read before either writes both take the lock: the later write wins and the earlier
  holder does not learn of it.\<close>

lemma lock_race:
  assumes "read_lock os d = None" and "lock_reads_back os sid' q" and "writes_stick os" and "0 < q" and "q < 2 ^ 63"
  shows "check_lock os p d = Inr () \<and> check_lock os q d = Inr () \<and>
    read_lock os (write_lock os sid' q (write_lock os sid p d)) = Some \<lparr>lock_pid = q, lock_server_id = Some sid'\<rparr>"
  using assms by (simp add: check_lock_free read_written_lock)

text \<open>A process id is cut to 32 bits before it is asked for: an absurd one is taken for another process, here the
  caller's own process group, which always answers.\<close>

lemma absurd_pid_is_live:
  assumes "lo_kill os 0 = None"
  shows "is_pid_alive os 4294967296"
  using assms by (simp add: is_pid_alive_def to_signed_def)

section \<open>The identity stays\<close>

lemma hex_digit_plain: "n < 16 \<Longrightarrow> plain (hex_digit n)"
proof -
  assume "n < 16"
  then have "n \<in> set [0..<16]" by simp
  moreover have "\<forall>k \<in> set [0..<16]. plain (hex_digit k)" by code_simp
  ultimately show ?thesis by blast
qed

lemma random_hex_plain: "list_all plain (random_hex n nanos pid)"
proof -
  have "unat b div 16 < 16" for b :: "8 word"
    using unsigned_less [where 'a = nat, of b] by simp
  then show ?thesis
    by (auto simp: random_hex_def Let_def list_all_iff hex_digit_plain)
qed

lemma length_random_bytes [simp]: "length (random_bytes n s) = n"
  by (induction n s rule: random_bytes.induct) (simp_all add: Let_def)

lemma length_random_hex: "length (random_hex n nanos pid) = 2 * n"
proof -
  have "length (concat (map (\<lambda>b. [f b, g b]) xs)) = 2 * length xs" for f g :: "8 word \<Rightarrow> char" and xs
    by (induction xs) simp_all
  then show ?thesis by (simp add: random_hex_def Let_def)
qed

lemma random_hex_nonempty: "random_hex 16 nanos pid \<noteq> []"
  using length_random_hex [of 16 nanos pid] by auto

lemma read_server_id:
  "sid \<noteq> [] \<Longrightarrow> map_option trim (id_text d) = Some sid \<Longrightarrow>
     mint_or_read_server_id os True nanos pid d = (Some sid, d)"
  by (cases sid) (auto simp: mint_or_read_server_id_def)

text \<open>The identity of a server does not change: once it was minted or read, every later start in the same directory,
  at another time and with another process id, reads the same one and writes nothing.\<close>

theorem server_id_is_stable:
  assumes "mint_or_read_server_id os True nanos pid d = (Some sid, d1)"
  shows "mint_or_read_server_id os' True nanos' pid' d1 = (Some sid, d1)"
proof (rule read_server_id)
  show "sid \<noteq> []" and "map_option trim (id_text d1) = Some sid"
    using assms random_hex_nonempty random_hex_plain
    by (auto simp: mint_or_read_server_id_def Let_def trim_plain split: if_splits option.splits list.splits)
qed

lemma server_id_is_stable_witness:
  "mint_or_read_server_id (ex_lock_os (\<lambda>_. None)) True 7 8
     (snd (mint_or_read_server_id (ex_lock_os (\<lambda>_. None)) True 1 2 ex_data_dir)) =
   (Some (random_hex 16 1 2), snd (mint_or_read_server_id (ex_lock_os (\<lambda>_. None)) True 1 2 ex_data_dir))"
  by (rule server_id_is_stable [of "ex_lock_os (\<lambda>_. None)" 1 2 ex_data_dir])
    (simp add: mint_or_read_server_id_def ex_data_dir_def ex_lock_os_def Let_def)

end
