(* ===== verification/Remote_Runtime.thy ===== *)
theory Remote_Runtime
  imports Pid_Lock Connection Provisioning
begin

text \<open>
  The server on a remote host: the runtime that listens on the private socket, the proxy that a connection over ssh
  runs, and the idle clean-up, \<^verbatim>\<open>server-rs/pantoken-server/src/remote/runtime.rs\<close>,
  \<^verbatim>\<open>remote/lifecycle.rs\<close> and the runtime's part of \<^verbatim>\<open>main.rs\<close>. The run directory is a record; the clock, what
  a read returns and whether the operating system grants a call are arguments.
\<close>

section \<open>The identity probe\<close>

datatype runtime_state = RS_Running | RS_Starting | RS_Incompatible | RS_NotInstalled

record identity =
  id_protocol :: nat
  id_daemon_target :: string
  id_state :: runtime_state

definition own_identity :: identity where
  "own_identity =
     \<lparr>id_protocol = PROTOCOL_VERSION, id_daemon_target = POLYTOKEN_DAEMON_TARGET_VERSION, id_state = RS_Running\<rparr>"

datatype probe_error = ConnectError | ClosedEarly | BadIdentity | ReadError

text \<open>The first frame among the results that is not an error.\<close>

fun first_ok :: "(frame_error + u8 list) list \<Rightarrow> u8 list option" where
  "first_ok [] = None"
| "first_ok (Inr body # rs) = Some body"
| "first_ok (Inl _ # rs) = first_ok rs"

fun read_identity :: "(u8 list \<Rightarrow> identity option) \<Rightarrow> frame_decoder \<Rightarrow> stdio_read list \<Rightarrow> probe_error + identity" where
  "read_identity parse d [] = Inl ClosedEarly"
| "read_identity parse d (ReadFailed # rs) = Inl ReadError"
| "read_identity parse d (Chunk bs # rs) =
     (if bs = [] then Inl ClosedEarly
      else case first_ok (fst (push d bs)) of
             Some body \<Rightarrow> (case parse body of Some i \<Rightarrow> Inr i | None \<Rightarrow> Inl BadIdentity)
           | None \<Rightarrow> read_identity parse (snd (push d bs)) rs)"

definition ask_identity :: "(u8 list \<Rightarrow> identity option) \<Rightarrow> bool \<Rightarrow> stdio_read list \<Rightarrow> probe_error + identity" where
  "ask_identity parse connects reads =
     (if connects then read_identity parse \<lparr>buf = []\<rparr> reads else Inl ConnectError)"

section \<open>A connection to the runtime\<close>

datatype first_frame = FirstClosed | FirstFailed | FirstBody "u8 list" "stdio_read list"

text \<open>Only the first result of a read is looked at; the others, and what the decoder still holds, are dropped.\<close>

fun read_first :: "frame_decoder \<Rightarrow> stdio_read list \<Rightarrow> first_frame" where
  "read_first d [] = FirstClosed"
| "read_first d (ReadFailed # rs) = FirstFailed"
| "read_first d (Chunk bs # rs) =
     (if bs = [] then FirstClosed
      else case fst (push d bs) of
             Inr body # _ \<Rightarrow> FirstBody body rs
           | _ \<Rightarrow> read_first (snd (push d bs)) rs)"

definition is_probe :: "(u8 list \<Rightarrow> json option) \<Rightarrow> u8 list \<Rightarrow> bool" where
  "is_probe value body \<longleftrightarrow> Option.bind (value body) (\<lambda>v. field_str v ''type'') = Some ''probe''"

text \<open>A read of the combined reader returns what is left of the frame, as much as the buffer holds.\<close>

function pieces :: "'a list \<Rightarrow> 'a list list" where
  "pieces xs = (if xs = [] then [] else take 8192 xs # pieces (drop 8192 xs))"
  by pat_completeness auto
termination by (relation "measure length") auto

declare pieces.simps [simp del]

definition combined_reader :: "u8 list \<Rightarrow> stdio_read list \<Rightarrow> stdio_read list" where
  "combined_reader pre rest = map Chunk (pieces pre) @ rest"

datatype served =
    NotServed
  | ServeFailed
  | Identified identity
  | Served "session_call list option"

definition handle_runtime_connection ::
    "(u8 list \<Rightarrow> json option) \<Rightarrow> (u8 list \<Rightarrow> client_message option) \<Rightarrow> string option \<Rightarrow> stdio_read list \<Rightarrow> served" where
  "handle_runtime_connection value parse token reads =
     (case read_first \<lparr>buf = []\<rparr> reads of
        FirstClosed \<Rightarrow> NotServed
      | FirstFailed \<Rightarrow> ServeFailed
      | FirstBody body rest \<Rightarrow>
          (if is_probe value body then Identified own_identity
           else Served (stdio_session parse token (combined_reader (frame_of body) rest))))"

section \<open>The run directory\<close>

text \<open>\<open>server_pid_text\<close> is \<^verbatim>\<open>run/server.pid\<close>, and \<open>listener\<close> the process that accepts on \<^verbatim>\<open>run/server.sock\<close>.\<close>

record run_dir = data_dir +
  server_pid_text :: "string option"
  listener :: "int option"

text \<open>What a process is granted: its directory, its random numbers, removing and binding the socket, starting a child.\<close>

record grants =
  g_mkdir :: bool
  g_nanos :: "128 word"
  g_bind :: bool
  g_spawn :: bool

definition mint_id :: "lock_os \<Rightarrow> grants \<Rightarrow> int \<Rightarrow> run_dir \<Rightarrow> string option \<times> run_dir" where
  "mint_id os g pid d = mint_or_read_server_id os (g_mkdir g) (g_nanos g) (word_of_int pid) d"

definition run_remote_runtime :: "grants \<Rightarrow> int \<Rightarrow> run_dir \<Rightarrow> bool \<times> run_dir" where
  "run_remote_runtime g pid d =
     (if \<not> g_mkdir g then (False, d)
      else let d1 = d\<lparr>listener := None\<rparr> in if g_bind g then (True, d1\<lparr>listener := Some pid\<rparr>) else (False, d1))"

text \<open>The process exits on every failure; leaving through \<^verbatim>\<open>exit\<close> does not release the lock.\<close>

definition run_remote_runtime_mode :: "lock_os \<Rightarrow> grants \<Rightarrow> int \<Rightarrow> run_dir \<Rightarrow> bool \<times> run_dir" where
  "run_remote_runtime_mode os g pid d =
     (case mint_id os g pid d of
        (None, d1) \<Rightarrow> (False, d1)
      | (Some sid, d1) \<Rightarrow>
          (case acquire_pid_lock os sid pid d1 of
             (Inl _, d2) \<Rightarrow> (False, d2)
           | (Inr _, d2) \<Rightarrow> run_remote_runtime g pid d2))"

section \<open>The proxy\<close>

datatype bootstrap_result = Connected | NoDirectory | NoServerId | SpawnFailed | Awaits "pid_lock option"

definition retry_connect :: "run_dir \<Rightarrow> bootstrap_result" where
  "retry_connect d = (if listener d \<noteq> None then Connected else Awaits None)"

text \<open>\<open>connect_with_bootstrap\<close> up to the wait for the socket; \<open>Awaits (Some l)\<close> is a wait that holds the lock \<open>l\<close>.\<close>

definition begin_bootstrap :: "lock_os \<Rightarrow> grants \<Rightarrow> int \<Rightarrow> run_dir \<Rightarrow> bootstrap_result \<times> run_dir" where
  "begin_bootstrap os g self_pid d =
     (if listener d \<noteq> None then (Connected, d)
      else if \<not> g_mkdir g then (NoDirectory, d)
      else case mint_id os g self_pid d of
        (None, d1) \<Rightarrow> (NoServerId, d1)
      | (Some sid, d1) \<Rightarrow>
          (let existing = Option.bind (server_pid_text d1) (parse_lock os) in
           if lock_decision os existing self_pid = Live then (Awaits None, d1)
           else let d2 = (if existing \<noteq> None then d1\<lparr>listener := None\<rparr> else d1) in
             case acquire_pid_lock os sid self_pid d2 of
               (Inl _, d3) \<Rightarrow> (retry_connect d3, d3)
             | (Inr l, d3) \<Rightarrow>
                 (if g_spawn g then (Awaits (Some l), d3) else (SpawnFailed, snd (release_lock os l d3)))))"

definition SOCKET_READINESS_TIMEOUT_SECS :: nat where "SOCKET_READINESS_TIMEOUT_SECS = 30"

text \<open>One observation is the clock, in nanoseconds, and whether the socket then accepts; \<open>None\<close> is still waiting.\<close>

fun wait_for_socket :: "nat \<Rightarrow> (nat \<times> bool) list \<Rightarrow> bool option" where
  "wait_for_socket deadline [] = None"
| "wait_for_socket deadline ((now, accepts) # obs) =
     (if now \<ge> deadline then Some False
      else if accepts then Some True
      else wait_for_socket deadline obs)"

text \<open>The result is whether there is a stream.\<close>

definition connect_with_bootstrap ::
    "lock_os \<Rightarrow> grants \<Rightarrow> int \<Rightarrow> nat \<Rightarrow> (nat \<times> bool) list \<Rightarrow> run_dir \<Rightarrow> bool option" where
  "connect_with_bootstrap os g self_pid t0 obs d =
     (case fst (begin_bootstrap os g self_pid d) of
        Connected \<Rightarrow> Some True
      | Awaits _ \<Rightarrow> wait_for_socket (t0 + 1000000000 * SOCKET_READINESS_TIMEOUT_SECS) obs
      | _ \<Rightarrow> Some False)"

datatype proxy_outcome = ProxyFails | ProxyRefuses identity | ProxyRelays

definition run_stdio_proxy :: "bool \<Rightarrow> probe_error + identity \<Rightarrow> proxy_outcome" where
  "run_stdio_proxy stream probe =
     (if \<not> stream then ProxyFails
      else case probe of
        Inr i \<Rightarrow> if id_state i = RS_Incompatible then ProxyRefuses i else ProxyRelays
      | Inl _ \<Rightarrow> ProxyRelays)"

text \<open>One direction of the relay: the bytes it passed on and whether it ended without an error; \<open>writes\<close> is how many
  writes succeed.\<close>

fun relay_copy :: "nat \<Rightarrow> stdio_read list \<Rightarrow> u8 list \<times> bool" where
  "relay_copy writes [] = ([], True)"
| "relay_copy writes (ReadFailed # rs) = ([], False)"
| "relay_copy writes (Chunk bs # rs) =
     (if bs = [] then ([], True)
      else case writes of
        0 \<Rightarrow> ([], False)
      | Suc n \<Rightarrow> apfst ((@) bs) (relay_copy n rs))"

section \<open>Idle clean-up\<close>

record lifecycle_config =
  idle_reap_ms :: int
  hub_idle_ms :: int

text \<open>The product wraps in a release build.\<close>

definition lifecycle_from_env :: "string option \<Rightarrow> int \<Rightarrow> lifecycle_config" where
  "lifecycle_from_env var reap =
     \<lparr>idle_reap_ms = reap, hub_idle_ms = unwrap_or (Option.bind var (parse_i64)) (to_signed 64 (reap * 2))\<rparr>"

definition reaping_disabled :: "lifecycle_config \<Rightarrow> bool" where
  "reaping_disabled cfg \<longleftrightarrow> idle_reap_ms cfg \<le> 0 \<and> hub_idle_ms cfg \<le> 0"

definition check_interval :: "lifecycle_config \<Rightarrow> nat" where
  "check_interval cfg = max (nat (max (min (idle_reap_ms cfg) (hub_idle_ms cfg)) 1000) div 4) 1000"

text \<open>What one check sees; \<open>warm_after\<close> is asked again after the disposal.\<close>

record tick =
  t_now :: nat
  t_clients :: nat
  t_turn :: bool
  t_warm :: nat
  t_warm_after :: nat

record idle_timers =
  last_activity :: nat
  last_reap :: nat

definition busy_tick :: "tick \<Rightarrow> bool" where
  "busy_tick t \<longleftrightarrow> t_clients t > 0 \<or> t_turn t"

definition elapsed :: "int \<Rightarrow> nat \<Rightarrow> nat \<Rightarrow> bool" where
  "elapsed ms since now \<longleftrightarrow> ms > 0 \<and> 1000000 * nat ms \<le> now - since"

text \<open>What a check does: dispose the warm sessions, and signal the exit.\<close>

definition lifecycle_check :: "lifecycle_config \<Rightarrow> tick \<Rightarrow> idle_timers \<Rightarrow> (bool \<times> bool) \<times> idle_timers" where
  "lifecycle_check cfg t s =
     (if busy_tick t then ((False, False), s\<lparr>last_activity := t_now t\<rparr>)
      else
        (let reaps = elapsed (idle_reap_ms cfg) (last_activity s) (t_now t) \<and> t_warm t > 0 \<and>
               elapsed (idle_reap_ms cfg) (last_reap s) (t_now t);
             exits = elapsed (hub_idle_ms cfg) (last_activity s) (t_now t) \<and> t_warm_after t = 0
         in ((reaps, exits), if reaps then s\<lparr>last_reap := t_now t\<rparr> else s)))"

fun lifecycle_loop :: "lifecycle_config \<Rightarrow> idle_timers \<Rightarrow> tick list \<Rightarrow> (tick \<times> bool \<times> bool) list" where
  "lifecycle_loop cfg s [] = []"
| "lifecycle_loop cfg s (t # ts) =
     (let (did, s1) = lifecycle_check cfg t s in (t, did) # (if snd did then [] else lifecycle_loop cfg s1 ts))"

definition run_lifecycle :: "lifecycle_config \<Rightarrow> nat \<Rightarrow> tick list \<Rightarrow> (tick \<times> bool \<times> bool) list" where
  "run_lifecycle cfg t0 ts =
     (if reaping_disabled cfg then [] else lifecycle_loop cfg \<lparr>last_activity = t0, last_reap = t0\<rparr> ts)"

section \<open>The runtime is the server behind it\<close>

text \<open>Whatever the pieces a frame comes in, nothing is decoded before its last byte.\<close>

lemma drain_incomplete:
  assumes "sendable body" and "frame_of body = xs @ ys" and "ys \<noteq> []"
  shows "drain_frames xs = ([], xs)"
proof (cases "length xs < 4")
  case False
  then obtain a b c d rest where xs: "xs = a # b # c # d # rest"
    by (auto simp: not_less numeral_eq_Suc Suc_le_length_iff)
  let ?w = "word_of_nat (length body) :: u32"
  from assms(1) have "length body < 2 ^ LENGTH(32)" by (simp add: sendable_def MAX_FRAME_BYTES_def)
  then have n: "unat ?w = length body" by (metis of_nat_inverse)
  from assms(2) xs have "from_be_bytes a b c d = ?w" and "body = rest @ ys"
    by (auto simp: frame_of_def to_be_bytes_def from_to_be_bytes)
  with n assms show ?thesis unfolding xs by (auto simp: drain_prefix sendable_def Let_def)
qed simp

lemma drain_whole: "sendable body \<Longrightarrow> drain_frames (frame_of body) = ([Inr body], [])"
  using drain_frame_of [of body "[]"] by simp

lemma read_first_frame:
  assumes "sendable body" and "buf d @ concat css = frame_of body" and "[] \<notin> set css" and "css \<noteq> []"
  shows "read_first d (map Chunk css @ rest) = FirstBody body rest"
  using assms(2-4)
proof (induction css arbitrary: d)
  case (Cons cs css)
  then have cs: "cs \<noteq> []" by auto
  show ?case
  proof (cases css)
    case Nil
    with Cons.prems assms(1) show ?thesis by (simp add: drain_whole)
  next
    case (Cons c' css')
    with Cons.prems have "concat css \<noteq> []" by force
    with Cons.prems have d: "drain_frames (buf d @ cs) = ([], buf d @ cs)"
      by (intro drain_incomplete [OF assms(1), of _ "concat css"]) simp_all
    have "read_first (snd (push d cs)) (map Chunk css @ rest) = FirstBody body rest"
      using Cons.prems d Cons by (intro Cons.IH) simp_all
    with cs d show ?thesis by simp
  qed
qed simp

lemma reader_recv_frame:
  assumes "sendable body" and "buf d @ concat css = frame_of body" and "[] \<notin> set css" and "css \<noteq> []"
  shows "reader_recv parse (d, map Chunk css @ rest) =
    (case first_message parse [Inr body] of
       Some m \<Rightarrow> (Some m, \<lparr>buf = []\<rparr>, rest)
     | None \<Rightarrow> reader_recv parse (\<lparr>buf = []\<rparr>, rest))"
  using assms(2-4)
proof (induction css arbitrary: d)
  case (Cons cs css)
  then have cs: "cs \<noteq> []" by auto
  show ?case
  proof (cases css)
    case Nil
    with Cons.prems assms(1) have "push d cs = ([Inr body], \<lparr>buf = []\<rparr>)"
      by (simp add: push_def drain_whole)
    with Nil Cons.prems show ?thesis
      by (simp add: reader_recv_chunk del: reader_recv.simps first_message.simps split: option.split)
  next
    case (Cons c' css')
    with Cons.prems have "concat css \<noteq> []" by force
    with Cons.prems have d: "drain_frames (buf d @ cs) = ([], buf d @ cs)"
      by (intro drain_incomplete [OF assms(1), of _ "concat css"]) simp_all
    have "reader_recv parse (snd (push d cs), map Chunk css @ rest) =
        (case first_message parse [Inr body] of
           Some m \<Rightarrow> (Some m, \<lparr>buf = []\<rparr>, rest)
         | None \<Rightarrow> reader_recv parse (\<lparr>buf = []\<rparr>, rest))"
      using Cons.prems d Cons by (intro Cons.IH) simp_all
    with cs d show ?thesis by (simp add: reader_recv_chunk del: reader_recv.simps)
  qed
qed simp

lemma concat_pieces: "concat (pieces xs) = xs"
  by (induction xs rule: pieces.induct) (subst pieces.simps, simp)

lemma pieces_nonempty: "[] \<notin> set (pieces xs)"
  by (induction xs rule: pieces.induct) (subst pieces.simps, auto)

lemma frame_of_nonempty: "frame_of body \<noteq> []"
  by (simp add: frame_of_def to_be_bytes_def)

lemma pieces_some: "xs \<noteq> [] \<Longrightarrow> pieces xs \<noteq> []"
  by (subst pieces.simps) simp

text \<open>C39: Behind the runtime's look at the first frame, a session is the one that a direct connection would get: when that
  frame ends its read and is not a probe, whatever the reads it came in and whatever follows, the hub sees the same
  calls.\<close>

theorem runtime_session_transparent:
  assumes "sendable body" and "concat css = frame_of body" and "[] \<notin> set css" and "\<not> is_probe value body"
  shows "handle_runtime_connection value parse token (map Chunk css @ rest) =
    Served (stdio_session parse token (map Chunk css @ rest))"
proof -
  have ne: "css \<noteq> []" using assms(2) frame_of_nonempty [of body] by auto
  have "adapter_recv parse (map Chunk css @ rest) = adapter_recv parse (combined_reader (frame_of body) rest)"
    using reader_recv_frame [of body "\<lparr>buf = []\<rparr>" css parse rest] assms ne
      reader_recv_frame [of body "\<lparr>buf = []\<rparr>" "pieces (frame_of body)" parse rest]
    by (simp add: adapter_recv_def combined_reader_def concat_pieces pieces_nonempty pieces_some frame_of_nonempty
        del: first_message.simps)
  then show ?thesis
    using read_first_frame [of body "\<lparr>buf = []\<rparr>" css rest] assms ne
    by (simp add: handle_runtime_connection_def stdio_session_def run_session_def)
qed

lemma runtime_session_transparent_witness:
  "handle_runtime_connection (\<lambda>_. None) ex_parse None
     (map Chunk [[0, 0], [0, 1], [0x68]] @ [Chunk (frame_of [0x70])]) =
   Served (stdio_session ex_parse None (map Chunk [[0, 0], [0, 1], [0x68]] @ [Chunk (frame_of [0x70])]))"
  by (rule runtime_session_transparent [of "[0x68]"])
    (simp_all add: sendable_def MAX_FRAME_BYTES_def frame_of_def to_be_bytes_def is_probe_def)

lemma probe_identified:
  assumes "sendable body" and "is_probe value body"
  shows "handle_runtime_connection value parse token (Chunk (frame_of body @ extra) # rest) = Identified own_identity"
  using assms frame_of_nonempty [of body] by (simp add: handle_runtime_connection_def drain_frame_of)

text \<open>What came in the same read after the first frame is gone, and an empty frame takes the frames behind it along.\<close>

lemma runtime_drops_the_rest:
  assumes "sendable body" and "\<not> is_probe value body"
  shows "handle_runtime_connection value parse token (Chunk (frame_of body @ extra) # rest) =
    Served (stdio_session parse token (combined_reader (frame_of body) rest))"
  using assms frame_of_nonempty [of body] by (simp add: handle_runtime_connection_def drain_frame_of)

lemma empty_frame_swallows:
  "handle_runtime_connection value parse token [Chunk (0 # 0 # 0 # 0 # frame_of body)] = NotServed"
  by (simp add: handle_runtime_connection_def drain_prefix from_be_bytes_def)

text \<open>No runtime says that it does not fit, and the proxy does not compare the versions.\<close>

lemma versions_never_compared:
  assumes "handle_runtime_connection value parse token reads = Identified i"
  shows "id_state i = RS_Running \<and> run_stdio_proxy True (Inr (i\<lparr>id_protocol := p, id_daemon_target := v\<rparr>)) = ProxyRelays"
  using assms
  by (auto simp: handle_runtime_connection_def own_identity_def run_stdio_proxy_def split: first_frame.splits if_splits)

lemma relay_copy_prefix: "[] \<notin> set css \<Longrightarrow> fst (relay_copy n (map Chunk css)) = concat (take n css)"
proof (induction css arbitrary: n)
  case (Cons cs css)
  then show ?case by (cases n) auto
qed simp

section \<open>Nobody gets past the lock of the proxy\<close>

text \<open>What other processes do to the run directory, one at a time.\<close>

inductive run_step :: "lock_os \<Rightarrow> int \<Rightarrow> run_dir \<Rightarrow> run_dir \<Rightarrow> bool" for os self_pid where
  runtime_starts: "pid \<noteq> self_pid \<Longrightarrow> run_step os self_pid d (snd (run_remote_runtime_mode os g pid d))"
| proxy_starts: "pid \<noteq> self_pid \<Longrightarrow> run_step os self_pid d (snd (begin_bootstrap os g pid d))"
| lock_dropped: "pl_pid l \<noteq> self_pid \<Longrightarrow> run_step os self_pid d (snd (release_lock os l d))"

text \<open>The lock is read back as that of \<open>p\<close>, and no process listens.\<close>

definition locked_out :: "lock_os \<Rightarrow> int \<Rightarrow> run_dir \<Rightarrow> bool" where
  "locked_out os p d \<longleftrightarrow> map_option lock_pid (read_lock os d) = Some p \<and> listener d = None"

lemma mint_keeps:
  assumes "mint_id os g pid d = (r, d1)"
  shows "pid_text d1 = pid_text d" and "listener d1 = listener d" and "server_pid_text d1 = server_pid_text d"
  using assms
  by (auto simp: mint_id_def mint_or_read_server_id_def Let_def split: if_splits option.splits list.splits)

lemma locked_out_cong:
  "pid_text d1 = pid_text d \<Longrightarrow> listener d1 = listener d \<Longrightarrow> locked_out os p d1 = locked_out os p d"
  by (simp add: locked_out_def read_lock_def)

lemma mint_locked_out: "mint_id os g pid d = (r, d1) \<Longrightarrow> locked_out os p d \<Longrightarrow> locked_out os p d1"
  using locked_out_cong mint_keeps by blast

lemma acquire_locked_out:
  assumes "locked_out os p d" and "is_pid_alive os p" and "pid \<noteq> p"
  shows "acquire_pid_lock os sid pid d = (Inl p, d)"
proof -
  obtain l where "read_lock os d = Some l" and "lock_pid l = p"
    using assms(1) by (auto simp: locked_out_def)
  with check_lock_held [of os d l pid] assms(2,3) show ?thesis by (simp add: acquire_pid_lock_def)
qed

lemma runtime_locked_out:
  assumes "locked_out os p d" and "is_pid_alive os p" and "pid \<noteq> p"
  shows "\<not> fst (run_remote_runtime_mode os g pid d)" and "locked_out os p (snd (run_remote_runtime_mode os g pid d))"
  using assms mint_locked_out [OF _ assms(1), of g pid] acquire_locked_out [OF _ assms(2,3)]
  by (auto simp: run_remote_runtime_mode_def split: prod.splits option.splits)

lemma proxy_locked_out:
  assumes "locked_out os p d" and "is_pid_alive os p" and "pid \<noteq> p"
  shows "locked_out os p (snd (begin_bootstrap os g pid d))"
proof (cases "mint_id os g pid d")
  case (Pair r d1)
  from mint_locked_out [OF Pair assms(1)] have d1: "locked_out os p d1" .
  then have d2: "locked_out os p (d1\<lparr>listener := None\<rparr>)" by (simp add: locked_out_def read_lock_def)
  show ?thesis
    using assms(1) d1 d2 acquire_locked_out [OF d1 assms(2,3)] acquire_locked_out [OF d2 assms(2,3)]
    by (auto simp: begin_bootstrap_def Pair Let_def split: option.split)
qed

lemma drop_locked_out:
  "locked_out os p d \<Longrightarrow> pl_pid l \<noteq> p \<Longrightarrow> locked_out os p (snd (release_lock os l d))"
  by (auto simp: locked_out_def release_lock_def split: option.splits)

lemma run_steps_locked_out:
  assumes "(run_step os p)\<^sup>*\<^sup>* d d'" and "locked_out os p d" and "is_pid_alive os p"
  shows "locked_out os p d'"
  using assms(1,2)
proof (induction rule: rtranclp_induct)
  case (step y z)
  from step.hyps(2) step.IH [OF step.prems] assms(3) show ?case
    by (cases rule: run_step.cases) (simp_all add: runtime_locked_out proxy_locked_out drop_locked_out)
qed

lemma wait_for_nobody:
  "\<forall>(now, accepts) \<in> set obs. \<not> accepts \<Longrightarrow> \<exists>(now, accepts) \<in> set obs. deadline \<le> now \<Longrightarrow>
     wait_for_socket deadline obs = Some False"
  by (induction deadline obs rule: wait_for_socket.induct) auto

lemma bootstrap_holds_lock:
  assumes "begin_bootstrap os g p d = (Awaits (Some l), d1)"
  shows "\<exists>d2. d1 = write_lock os (pl_server_id l) p d2 \<and> listener d2 = None"
proof -
  obtain r d0 where m: "mint_id os g p d = (r, d0)" by (cases "mint_id os g p d")
  then obtain sid where r: "r = Some sid" and n: "listener d = None"
    using assms by (auto simp: begin_bootstrap_def split: if_splits option.splits)
  define d2 where "d2 = (if Option.bind (server_pid_text d0) (parse_lock os) \<noteq> None then d0\<lparr>listener := None\<rparr> else d0)"
  have "listener d2 = None" using mint_keeps(2) [OF m] n by (simp add: d2_def)
  moreover obtain a d3 where q: "acquire_pid_lock os sid p d2 = (a, d3)" by (cases "acquire_pid_lock os sid p d2")
  have "a = Inr l \<and> d1 = d3"
    using assms n m r q unfolding d2_def
    by (cases "Option.bind (server_pid_text d0) (parse_lock os)")
      (auto simp: begin_bootstrap_def Let_def retry_connect_def split: if_splits sum.splits)
  then have "d1 = write_lock os (pl_server_id l) p d2"
    using q by (auto simp: acquire_pid_lock_def split: sum.splits)
  ultimately show ?thesis by blast
qed

text \<open>C37: A proxy that finds no runtime never gets one: while it waits for the runtime that it started, it holds the very
  lock that the runtime has to take. That runtime, and every other process that starts one, exits; nothing that happens
  in the run directory makes the socket accept, so once the thirty seconds are over the connection has failed.\<close>

theorem bootstrap_locks_itself_out:
  assumes "begin_bootstrap os g p d = (Awaits (Some l), d1)"
    and "lock_reads_back os (pl_server_id l) p" and "writes_stick os" and "0 < p" and "p < 2 ^ 63"
    and "is_pid_alive os p"
    and "\<forall>(now, accepts) \<in> set obs. \<exists>d'. (run_step os p)\<^sup>*\<^sup>* d1 d' \<and> accepts = (listener d' \<noteq> None)"
    and "\<exists>(now, accepts) \<in> set obs. t0 + 30000000000 \<le> now"
  shows "connect_with_bootstrap os g p t0 obs d = Some False \<and>
    (\<forall>g' pid. pid \<noteq> p \<longrightarrow> \<not> fst (run_remote_runtime_mode os g' pid d1))"
proof -
  obtain d2 where d1: "d1 = write_lock os (pl_server_id l) p d2" and n: "listener d2 = None"
    using bootstrap_holds_lock [OF assms(1)] by blast
  have lo: "locked_out os p d1"
    using read_written_lock [OF assms(2-5), of d2] n by (simp add: locked_out_def d1 write_lock_def)
  have "\<forall>(now, accepts) \<in> set obs. \<not> accepts"
    using assms(7) run_steps_locked_out [OF _ lo assms(6)] by (fastforce simp: locked_out_def)
  with wait_for_nobody assms(8) have "wait_for_socket (t0 + 1000000000 * SOCKET_READINESS_TIMEOUT_SECS) obs = Some False"
    by (simp add: SOCKET_READINESS_TIMEOUT_SECS_def)
  with assms(1) runtime_locked_out [OF lo assms(6)] show ?thesis
    by (simp add: connect_with_bootstrap_def)
qed

text \<open>Started by itself, the same runtime listens.\<close>

lemma runtime_starts_alone:
  assumes "read_lock os d = None" and "writes_stick os" and "g_mkdir g" and "g_bind g"
  shows "fst (run_remote_runtime_mode os g pid d) \<and> listener (snd (run_remote_runtime_mode os g pid d)) = Some pid"
proof (cases "mint_id os g pid d")
  case (Pair r d1)
  then have "r \<noteq> None"
    using assms(2,3) by (auto simp: mint_id_def mint_or_read_server_id_def writes_stick_def Let_def
        split: option.splits list.splits)
  moreover have "read_lock os d1 = None"
    using mint_keeps [OF Pair] assms(1) by (simp add: read_lock_def)
  ultimately show ?thesis
    using assms(3,4) by (auto simp: run_remote_runtime_mode_def Pair acquire_pid_lock_def check_lock_free
        run_remote_runtime_def Let_def)
qed

definition ex_run_dir :: run_dir where
  "ex_run_dir = \<lparr>pid_text = None, id_text = Some ''ab'', server_pid_text = None, listener = None\<rparr>"

definition ex_grants :: grants where
  "ex_grants = \<lparr>g_mkdir = True, g_nanos = 1, g_bind = True, g_spawn = True\<rparr>"

lemma trim_ab: "trim ''ab'' = ''ab''"
  by (rule trim_plain) (simp add: plain_def)

lemma bootstrap_locks_itself_out_witness:
  "connect_with_bootstrap (ex_lock_os (\<lambda>_. None)) ex_grants 12 0 [(0, False), (31000000000, False)] ex_run_dir =
     Some False"
proof -
  let ?os = "ex_lock_os (\<lambda>_. None)" and ?l = "\<lparr>pl_pid = 12, pl_server_id = ''ab'', pl_released = False\<rparr>"
  have m: "mint_id ?os ex_grants 12 ex_run_dir = (Some ''ab'', ex_run_dir)"
    by (simp add: mint_id_def mint_or_read_server_id_def ex_grants_def ex_run_dir_def trim_ab)
  have b: "begin_bootstrap ?os ex_grants 12 ex_run_dir = (Awaits (Some ?l), write_lock ?os ''ab'' 12 ex_run_dir)"
    by (simp add: begin_bootstrap_def m)
      (simp add: ex_run_dir_def ex_grants_def lock_decision_def acquire_pid_lock_def check_lock_def read_lock_def)
  show ?thesis
    by (rule bootstrap_locks_itself_out [OF b, THEN conjunct1])
      (auto simp: lock_reads_back_def writes_stick_def ex_lock_os_def trim_12 is_pid_alive_def write_lock_def
        ex_run_dir_def intro!: exI [of _ "write_lock (ex_lock_os (\<lambda>_. None)) ''ab'' 12 ex_run_dir"])
qed

section \<open>Idle clean-up spares whoever works\<close>

lemma elapsed_earlier: "elapsed ms since now \<Longrightarrow> t \<le> since \<Longrightarrow> elapsed ms t now"
  unfolding elapsed_def by linarith

lemma check_timers:
  assumes "lifecycle_check cfg t s = (did, s1)" and "last_activity s \<le> t_now t" and "last_reap s \<le> t_now t"
  shows "last_activity s \<le> last_activity s1" and "last_reap s \<le> last_reap s1"
    and "last_activity s1 \<le> t_now t" and "last_reap s1 \<le> t_now t"
    and "busy_tick t \<Longrightarrow> last_activity s1 = t_now t" and "fst did \<Longrightarrow> last_reap s1 = t_now t"
  using assms by (auto simp: lifecycle_check_def Let_def split: if_splits)

lemma check_acts:
  assumes "lifecycle_check cfg t s = ((reaps, exits), s1)"
  shows "reaps \<or> exits \<Longrightarrow> \<not> busy_tick t"
    and "reaps \<Longrightarrow> elapsed (idle_reap_ms cfg) (last_activity s) (t_now t) \<and> elapsed (idle_reap_ms cfg) (last_reap s) (t_now t)"
    and "exits \<Longrightarrow> elapsed (hub_idle_ms cfg) (last_activity s) (t_now t) \<and> t_warm_after t = 0"
  using assms by (auto simp: lifecycle_check_def Let_def split: if_splits)

lemma loop_spares:
  assumes "lifecycle_loop cfg s ts = pre @ (t, reaps, exits) # post" and "sorted (map t_now ts)"
    and "\<forall>u \<in> set ts. last_activity s \<le> t_now u \<and> last_reap s \<le> t_now u"
  shows "(reaps \<or> exits \<longrightarrow> \<not> busy_tick t) \<and>
    (reaps \<longrightarrow> elapsed (idle_reap_ms cfg) (last_activity s) (t_now t) \<and>
       elapsed (idle_reap_ms cfg) (last_reap s) (t_now t)) \<and>
    (exits \<longrightarrow> elapsed (hub_idle_ms cfg) (last_activity s) (t_now t) \<and> t_warm_after t = 0 \<and> post = []) \<and>
    (\<forall>(u, r, e) \<in> set pre.
       (busy_tick u \<longrightarrow> (reaps \<longrightarrow> elapsed (idle_reap_ms cfg) (t_now u) (t_now t)) \<and>
          (exits \<longrightarrow> elapsed (hub_idle_ms cfg) (t_now u) (t_now t))) \<and>
       (r \<and> reaps \<longrightarrow> elapsed (idle_reap_ms cfg) (t_now u) (t_now t)))"
  using assms
proof (induction pre arbitrary: s ts)
  case Nil
  then obtain ts' where ts: "ts = t # ts'" by (cases ts) (auto split: prod.splits)
  obtain s1 where c: "lifecycle_check cfg t s = ((reaps, exits), s1)"
    using Nil.prems(1) ts by (cases "lifecycle_check cfg t s") simp
  have "exits \<Longrightarrow> post = []" using Nil.prems(1) ts c by simp
  with check_acts [OF c] show ?case by auto
next
  case (Cons p pre)
  obtain u r e where p: "p = (u, r, e)" by (cases p)
  with Cons.prems(1) obtain ts' where ts: "ts = u # ts'" by (cases ts) (auto split: prod.splits)
  obtain s1 where c: "lifecycle_check cfg u s = ((r, e), s1)"
    using Cons.prems(1) ts p by (cases "lifecycle_check cfg u s") simp
  have tl: "lifecycle_loop cfg s1 ts' = pre @ (t, reaps, exits) # post"
    using Cons.prems(1) ts p c by (auto split: if_splits)
  have le: "last_activity s \<le> t_now u" "last_reap s \<le> t_now u" using Cons.prems(3) ts by auto
  note k = check_timers [OF c le]
  have srt: "sorted (map t_now ts')" and after: "\<forall>v \<in> set ts'. t_now u \<le> t_now v"
    using Cons.prems(2) ts by auto
  have "\<forall>v \<in> set ts'. last_activity s1 \<le> t_now v \<and> last_reap s1 \<le> t_now v"
    using after k(3,4) by (meson order_trans)
  note ih = Cons.IH [OF tl srt this]
  from ih have early: "reaps \<Longrightarrow> x \<le> last_activity s1 \<Longrightarrow> elapsed (idle_reap_ms cfg) x (t_now t)"
    "exits \<Longrightarrow> x \<le> last_activity s1 \<Longrightarrow> elapsed (hub_idle_ms cfg) x (t_now t)"
    "reaps \<Longrightarrow> y \<le> last_reap s1 \<Longrightarrow> elapsed (idle_reap_ms cfg) y (t_now t)" for x y
    using elapsed_earlier by blast+
  from ih early k show ?case by (auto simp: p)
qed

text \<open>C38: The clean-up leaves alone what is in use. Whenever it disposes the warm sessions, no client is connected, no turn
  runs, and neither was the case at any check of the last \<open>idle_reap_ms\<close>, nor were they disposed then already. It ends the
  server only when, in addition, no session is warm and the last \<open>hub_idle_ms\<close> saw no activity; then it is done.\<close>

theorem reaper_spares_active:
  assumes "run_lifecycle cfg t0 ts = pre @ (t, reaps, exits) # post"
    and "sorted (map t_now ts)" and "\<forall>u \<in> set ts. t0 \<le> t_now u"
  shows "(reaps \<or> exits \<longrightarrow> \<not> busy_tick t) \<and>
    (reaps \<longrightarrow> (\<forall>(u, r, e) \<in> set pre. busy_tick u \<or> r \<longrightarrow> elapsed (idle_reap_ms cfg) (t_now u) (t_now t))) \<and>
    (exits \<longrightarrow> t_warm_after t = 0 \<and> post = [] \<and>
       (\<forall>(u, r, e) \<in> set pre. busy_tick u \<longrightarrow> elapsed (hub_idle_ms cfg) (t_now u) (t_now t)))"
proof -
  have "lifecycle_loop cfg \<lparr>last_activity = t0, last_reap = t0\<rparr> ts = pre @ (t, reaps, exits) # post"
    using assms(1) by (simp add: run_lifecycle_def split: if_splits)
  note spares = loop_spares [OF this assms(2)]
  have "(u, r, e) \<in> set pre \<Longrightarrow>
      (busy_tick u \<longrightarrow> (reaps \<longrightarrow> elapsed (idle_reap_ms cfg) (t_now u) (t_now t)) \<and>
         (exits \<longrightarrow> elapsed (hub_idle_ms cfg) (t_now u) (t_now t))) \<and>
      (r \<and> reaps \<longrightarrow> elapsed (idle_reap_ms cfg) (t_now u) (t_now t))" for u r e
    using spares assms(3) by fastforce
  moreover have "(reaps \<or> exits \<longrightarrow> \<not> busy_tick t) \<and> (exits \<longrightarrow> t_warm_after t = 0 \<and> post = [])"
    using spares assms(3) by simp
  ultimately show ?thesis by blast
qed

definition ex_tick :: "nat \<Rightarrow> nat \<Rightarrow> nat \<Rightarrow> tick" where
  "ex_tick now n warm_now = \<lparr>t_now = now, t_clients = n, t_turn = False, t_warm = warm_now, t_warm_after = 0\<rparr>"

definition ex_lifecycle :: lifecycle_config where
  "ex_lifecycle = lifecycle_from_env None 50"

lemma reaper_spares_active_witness:
  "elapsed 50 (t_now (ex_tick 1000000 1 2)) (t_now (ex_tick 60000000 0 2))"
proof -
  have "run_lifecycle ex_lifecycle 0 [ex_tick 1000000 1 2, ex_tick 60000000 0 2] =
      [(ex_tick 1000000 1 2, False, False)] @ (ex_tick 60000000 0 2, True, False) # []"
    by (simp add: run_lifecycle_def reaping_disabled_def ex_lifecycle_def lifecycle_from_env_def to_signed_def
        lifecycle_check_def busy_tick_def ex_tick_def elapsed_def Let_def)
  from reaper_spares_active [OF this] show ?thesis
    by (simp add: ex_tick_def busy_tick_def ex_lifecycle_def lifecycle_from_env_def)
qed

text \<open>With the disposal switched off but the exit on, a server with a warm session never ends.\<close>

lemma warm_server_stays:
  assumes "\<forall>t \<in> set ts. t_warm_after t > 0"
  shows "\<forall>(t, reaps, exits) \<in> set (lifecycle_loop cfg s ts). \<not> exits"
  using assms
proof (induction ts arbitrary: s)
  case (Cons t ts)
  obtain reaps exits s1 where c: "lifecycle_check cfg t s = ((reaps, exits), s1)"
    by (metis surj_pair)
  with Cons check_acts(3) [OF c] show ?case by fastforce
qed simp

end
