(* ===== verification/File_Search.thy ===== *)
theory File_Search
  imports Driver_Catalogues Iso_Time "HOL-Library.Product_Lexorder"
begin

text \<open>
  The search behind a mention of a file, \<^verbatim>\<open>polytoken/file_search.rs\<close>, and how \<^verbatim>\<open>driver.rs\<close> chooses between the
  project and a directory outside it. The walk of the \<open>ignore\<close> crate is an argument: it takes the options and the
  filter and gives the entries it visits, an error being \<open>None\<close>; \<open>lc\<close> is \<open>str::to_lowercase\<close>.
\<close>

definition FILE_QUERY_CAP :: nat where "FILE_QUERY_CAP = 50"

section \<open>Searching the project\<close>

definition forward_slashes :: "string \<Rightarrow> string" where
  "forward_slashes = map (\<lambda>c. if c = CHR 0x5C then CHR ''/'' else c)"

definition trim_matches :: "char \<Rightarrow> string \<Rightarrow> string" where
  "trim_matches c s = rev (dropWhile ((=) c) (rev (dropWhile ((=) c) s)))"

definition build_path_query :: "string \<Rightarrow> string list" where
  "build_path_query query =
     (let normalized = forward_slashes query in
      if CHR ''/'' \<notin> set normalized then (if normalized = [] then [] else [normalized])
      else let trimmed = trim_matches (CHR ''/'') normalized in
        if trimmed = [] then [] else filter (\<lambda>s. s \<noteq> []) (split_on CHR ''/'' trimmed))"

text \<open>The segments that are left after the components.\<close>

fun match_components :: "string list \<Rightarrow> string list \<Rightarrow> string list" where
  "match_components [] cs = []"
| "match_components segs [] = segs"
| "match_components (s # segs) (c # cs) =
     (if contains c s then match_components segs cs else match_components (s # segs) cs)"

definition path_matches :: "string \<Rightarrow> string list \<Rightarrow> bool" where
  "path_matches path segs \<longleftrightarrow> segs = [] \<or> match_components segs (split_on CHR ''/'' path) = []"

datatype walk_kind = WalkFile | WalkDir | WalkOther

text \<open>\<open>we_rel\<close> is the path below the root, if there is one.\<close>

record walk_entry =
  we_depth :: nat
  we_kind :: "walk_kind option"
  we_rel :: "string option"

record walk_options =
  wo_hidden :: bool
  wo_ignore :: bool
  wo_git_ignore :: bool
  wo_git_global :: bool
  wo_git_exclude :: bool
  wo_follow_links :: bool

definition walk_filter :: "string \<Rightarrow> bool" where
  "walk_filter name \<longleftrightarrow> name \<noteq> ''.git'' \<and> name \<noteq> ''.polytoken''"

definition in_private :: "string \<Rightarrow> string \<Rightarrow> bool" where
  "in_private d rel \<longleftrightarrow> rel = d \<or> starts_with rel (d @ ''/'') \<or> contains rel (''/'' @ d @ ''/'')"

definition walk_result :: "string list \<Rightarrow> walk_entry \<Rightarrow> file_info option" where
  "walk_result segs e =
     (case (we_kind e, we_rel e) of
        (Some k, Some r) \<Rightarrow>
          (let rel = forward_slashes r in
           if we_depth e = 0 \<or> k = WalkOther \<or> in_private ''.git'' rel \<or> in_private ''.polytoken'' rel \<or>
              \<not> path_matches rel segs
           then None
           else Some \<lparr>fi_path = rel, fi_is_directory = (k = WalkDir)\<rparr>)
      | _ \<Rightarrow> None)"

fun collect_files :: "string list \<Rightarrow> file_info list \<Rightarrow> walk_entry option list \<Rightarrow> file_info list" where
  "collect_files segs results [] = results"
| "collect_files segs results (None # es) = collect_files segs results es"
| "collect_files segs results (Some e # es) =
     (if FILE_QUERY_CAP \<le> length results then results
      else collect_files segs (results @ list_of_option (walk_result segs e)) es)"

type_synonym walk = "string \<Rightarrow> walk_options \<Rightarrow> (string \<Rightarrow> bool) \<Rightarrow> walk_entry option list"

definition list_files_with_fd :: "walk \<Rightarrow> string \<Rightarrow> string \<Rightarrow> bool \<Rightarrow> file_info list" where
  "list_files_with_fd visit proj query include_ignored =
     collect_files (build_path_query query) []
       (visit proj
          \<lparr>wo_hidden = \<not> include_ignored, wo_ignore = \<not> include_ignored, wo_git_ignore = \<not> include_ignored,
           wo_git_global = False, wo_git_exclude = \<not> include_ignored, wo_follow_links = True\<rparr>
          walk_filter)"

section \<open>Browsing outside it\<close>

definition is_external_query :: "string \<Rightarrow> bool" where
  "is_external_query query \<longleftrightarrow> starts_with query ''/'' \<or> starts_with query ''~'' \<or> starts_with query ''..''"

definition split_external_query :: "string \<Rightarrow> string \<times> string" where
  "split_external_query query =
     (case split_last (CHR ''/'') query of
        None \<Rightarrow> (query, [])
      | Some (dir, partial) \<Rightarrow> (if dir = [] \<and> starts_with query ''/'' then ''/'' else dir, partial))"

definition join_prefix :: "string \<Rightarrow> string \<Rightarrow> string" where
  "join_prefix dir name = (if ends_with dir ''/'' then dir @ name else dir @ ''/'' @ name)"

definition resolve_dir_prefix :: "string \<Rightarrow> string \<Rightarrow> string \<Rightarrow> string" where
  "resolve_dir_prefix dir base home =
     (if dir = ''~'' then home
      else case strip_prefix dir ''~/'' of
        Some rest \<Rightarrow> path_join home rest
      | None \<Rightarrow> if starts_with dir ''/'' then dir else path_join base dir)"

definition external_entry :: "(string \<Rightarrow> string) \<Rightarrow> string \<Rightarrow> bool \<Rightarrow> string \<times> bool \<Rightarrow> bool" where
  "external_entry lc partial include_ignored e \<longleftrightarrow>
     \<not> (\<not> (include_ignored \<or> starts_with partial ''.'') \<and> starts_with (fst e) ''.'') \<and>
     \<not> (partial \<noteq> [] \<and> \<not> contains (lc (fst e)) (lc partial))"

text \<open>\<open>read_dir\<close> gives the names in a directory and whether each is one itself, through links.\<close>

definition list_external ::
    "(string \<Rightarrow> (string \<times> bool) list option) \<Rightarrow> (string \<Rightarrow> string) \<Rightarrow> string \<Rightarrow> string \<Rightarrow> string \<Rightarrow> nat \<Rightarrow> bool \<Rightarrow>
     file_info list" where
  "list_external read_dir lc base home query cap include_ignored =
     (let (dir, partial) = split_external_query query in
      case read_dir (resolve_dir_prefix dir base home) of
        None \<Rightarrow> []
      | Some es \<Rightarrow>
          map (\<lambda>(name, is_dir). \<lparr>fi_path = join_prefix dir name, fi_is_directory = is_dir\<rparr>)
            (take cap (sort_key (\<lambda>(name, is_dir). (\<not> is_dir, lc name))
              (filter (external_entry lc partial include_ignored) es))))"

definition list_files ::
    "walk \<Rightarrow> (string \<Rightarrow> (string \<times> bool) list option) \<Rightarrow> (string \<Rightarrow> string) \<Rightarrow> string option \<Rightarrow>
     string option \<Rightarrow> string \<Rightarrow> bool \<Rightarrow> file_info list" where
  "list_files visit read_dir lc home_var proj query include_ignored =
     (if is_external_query query then
        (let home = unwrap_or home_var [] in
         case proj of
           Some r \<Rightarrow> list_external read_dir lc r home query FILE_QUERY_CAP include_ignored
         | None \<Rightarrow>
             (if starts_with query ''..'' then []
              else list_external read_dir lc home home query FILE_QUERY_CAP include_ignored))
      else case proj of
        None \<Rightarrow> []
      | Some r \<Rightarrow> list_files_with_fd visit r query include_ignored)"

section \<open>What a search finds\<close>

text \<open>Taking the first component that fits loses nothing.\<close>

lemma match_components_subseq:
  "match_components segs cs = [] \<longleftrightarrow> (\<exists>ds. subseq ds cs \<and> list_all2 contains ds segs)"
proof (induction segs cs rule: match_components.induct)
  case (3 s segs c cs)
  show ?case
  proof (cases "contains c s")
    case True
    have "(\<exists>ds. subseq ds (c # cs) \<and> list_all2 contains ds (s # segs)) \<longleftrightarrow>
        (\<exists>ds. subseq ds cs \<and> list_all2 contains ds segs)"
    proof
      assume "\<exists>ds. subseq ds (c # cs) \<and> list_all2 contains ds (s # segs)"
      then obtain d ds where "subseq (d # ds) (c # cs)" "list_all2 contains ds segs"
        by (auto simp: list_all2_Cons2)
      then have "subseq ds cs"
        by (cases "d = c") (auto dest: subseq_Cons')
      with \<open>list_all2 contains ds segs\<close> show "\<exists>ds. subseq ds cs \<and> list_all2 contains ds segs" by blast
    next
      assume "\<exists>ds. subseq ds cs \<and> list_all2 contains ds segs"
      then obtain ds where "subseq (c # ds) (c # cs)" "list_all2 contains (c # ds) (s # segs)"
        using True by auto
      then show "\<exists>ds. subseq ds (c # cs) \<and> list_all2 contains ds (s # segs)" by blast
    qed
    with True 3 show ?thesis by simp
  next
    case False
    have "(\<exists>ds. subseq ds (c # cs) \<and> list_all2 contains ds (s # segs)) \<longleftrightarrow>
        (\<exists>ds. subseq ds cs \<and> list_all2 contains ds (s # segs))"
    proof
      assume "\<exists>ds. subseq ds (c # cs) \<and> list_all2 contains ds (s # segs)"
      then obtain d ds where d: "subseq (d # ds) (c # cs)" "contains d s" "list_all2 contains ds segs"
        by (auto simp: list_all2_Cons2)
      with False have "d \<noteq> c" by auto
      with d(1) have "subseq (d # ds) cs" by simp
      moreover have "list_all2 contains (d # ds) (s # segs)" using d(2,3) by simp
      ultimately show "\<exists>ds. subseq ds cs \<and> list_all2 contains ds (s # segs)" by (intro exI conjI)
    next
      assume "\<exists>ds. subseq ds cs \<and> list_all2 contains ds (s # segs)"
      then show "\<exists>ds. subseq ds (c # cs) \<and> list_all2 contains ds (s # segs)" by (blast intro: list_emb_Cons)
    qed
    with False 3 show ?thesis by simp
  qed
next
  case (1 cs)
  have "subseq [] cs \<and> list_all2 contains [] []" by simp
  then show ?case by (metis match_components.simps(1))
qed (auto simp: list_all2_Cons2)

lemma collect_files_take:
  "length results \<le> FILE_QUERY_CAP \<Longrightarrow>
     collect_files segs results es =
       take FILE_QUERY_CAP (results @ concat (map (\<lambda>e. case e of None \<Rightarrow> [] | Some e \<Rightarrow> list_of_option (walk_result segs e)) es))"
  by (induction segs results es rule: collect_files.induct) (auto simp: list_of_option_def split: option.split)

lemma walk_result_spec:
  "walk_result segs e = Some fi \<Longrightarrow>
     path_matches (fi_path fi) segs \<and> \<not> in_private ''.git'' (fi_path fi) \<and> \<not> in_private ''.polytoken'' (fi_path fi)"
  by (auto simp: walk_result_def Let_def split: option.splits if_splits)

text \<open>A search of the project gives the first entries of the walk that match, at most fifty: each path has, in order,
  components that contain the segments of the query, and none is inside the private directories, however the walk
  got there.\<close>

theorem search_finds_matches:
  assumes "fi \<in> set (list_files_with_fd visit proj query include_ignored)"
  shows "length (list_files_with_fd visit proj query include_ignored) \<le> 50 \<and>
    (\<exists>ds. subseq ds (split_on CHR ''/'' (fi_path fi)) \<and> list_all2 contains ds (build_path_query query)) \<and>
    \<not> in_private ''.git'' (fi_path fi) \<and> \<not> in_private ''.polytoken'' (fi_path fi)"
proof -
  obtain es where l: "list_files_with_fd visit proj query include_ignored =
      take FILE_QUERY_CAP (concat (map (\<lambda>e. case e of None \<Rightarrow> [] | Some e \<Rightarrow> list_of_option (walk_result (build_path_query query) e)) es))"
    by (simp add: list_files_with_fd_def collect_files_take)
  with assms obtain e where "walk_result (build_path_query query) e = Some fi"
    by (auto simp: list_of_option_def dest!: in_set_takeD split: option.splits)
  from walk_result_spec [OF this] have m: "path_matches (fi_path fi) (build_path_query query)"
    and p: "\<not> in_private ''.git'' (fi_path fi)" "\<not> in_private ''.polytoken'' (fi_path fi)" by auto
  from m have "\<exists>ds. subseq ds (split_on CHR ''/'' (fi_path fi)) \<and> list_all2 contains ds (build_path_query query)"
    by (auto simp: path_matches_def match_components_subseq intro: exI [of _ "[]"])
  with p l show ?thesis by (simp add: FILE_QUERY_CAP_def)
qed

section \<open>What a directory outside lists\<close>

lemma split_last_join:
  "CHR ''/'' \<notin> set name \<Longrightarrow> split_last (CHR ''/'') (dir @ CHR ''/'' # name) = Some (dir, name)"
  by (simp add: split_last_def split_once_append)

text \<open>Picking an entry keeps the directory: the answer splits into the directory as typed and the entry.\<close>

lemma split_join_prefix:
  assumes "CHR ''/'' \<notin> set name" and "dir = ''/'' \<or> (dir \<noteq> [] \<and> last dir \<noteq> CHR ''/'')"
  shows "split_external_query (join_prefix dir name) = (dir, name)"
proof (cases "dir = ''/''")
  case True
  with split_last_join [OF assms(1), of "[]"] show ?thesis
    by (simp add: split_external_query_def join_prefix_def ends_with_def starts_with_def)
next
  case False
  with assms(2) have "dir \<noteq> []" "last dir \<noteq> CHR ''/''" by auto
  then obtain c cs where "dir = cs @ [c]" "c \<noteq> CHR ''/''" by (metis append_butlast_last_id)
  then have "join_prefix dir name = dir @ CHR ''/'' # name"
    by (simp add: join_prefix_def ends_with_def)
  with split_last_join [OF assms(1), of dir] \<open>dir \<noteq> []\<close> show ?thesis
    by (simp add: split_external_query_def)
qed

lemma external_listing:
  assumes "split_external_query query = (dir, partial)"
  shows "length (list_external read_dir lc base home query cap inc) \<le> cap"
    and "fi \<in> set (list_external read_dir lc base home query cap inc) \<Longrightarrow>
      \<exists>es name. read_dir (resolve_dir_prefix dir base home) = Some es \<and> (name, fi_is_directory fi) \<in> set es \<and>
        fi_path fi = join_prefix dir name \<and> external_entry lc partial inc (name, fi_is_directory fi)"
    and "sorted (map (\<lambda>fi. \<not> fi_is_directory fi) (list_external read_dir lc base home query cap inc))"
proof -
  show "length (list_external read_dir lc base home query cap inc) \<le> cap"
    by (simp add: list_external_def assms split: option.split)
  show "fi \<in> set (list_external read_dir lc base home query cap inc) \<Longrightarrow>
      \<exists>es name. read_dir (resolve_dir_prefix dir base home) = Some es \<and> (name, fi_is_directory fi) \<in> set es \<and>
        fi_path fi = join_prefix dir name \<and> external_entry lc partial inc (name, fi_is_directory fi)"
    by (cases "read_dir (resolve_dir_prefix dir base home)")
      (auto simp: list_external_def assms dest!: in_set_takeD)
  have "sorted (map (\<lambda>(name, is_dir). \<not> is_dir) (take cap (sort_key (\<lambda>(name, is_dir). (\<not> is_dir, lc name)) es)))" for es
  proof -
    have "sorted (map (\<lambda>(name, is_dir). (\<not> is_dir, lc name)) (take cap (sort_key (\<lambda>(name, is_dir). (\<not> is_dir, lc name)) es)))"
      by (metis sorted_sort_key sorted_wrt_take take_map)
    then show ?thesis
      unfolding sorted_map by (rule sorted_wrt_mono_rel [rotated]) (auto simp: less_eq_prod_def)
  qed
  then show "sorted (map (\<lambda>fi. \<not> fi_is_directory fi) (list_external read_dir lc base home query cap inc))"
    by (cases "read_dir (resolve_dir_prefix dir base home)") (simp_all add: list_external_def assms comp_def case_prod_unfold)
qed

end
