(* ===== verification/Login_Env.thy ===== *)
theory Login_Env
  imports Sse_Stream Numbers
begin

text \<open>
  The environment of the login shell, which daemons are started with:
  \<^verbatim>\<open>server-rs/pantoken-server/src/shared/login_env.rs\<close>. The files that exist, the variables of the process and
  what became of the shell are arguments.
\<close>

definition resolve_login_shell ::
    "(string \<Rightarrow> bool) \<Rightarrow> string option \<Rightarrow> string option \<Rightarrow> string option \<Rightarrow> string option" where
  "resolve_login_shell exists_at configured shell_var passwd_shell =
     find (\<lambda>c. c \<noteq> [] \<and> exists_at c)
       (List.map_filter id [configured, shell_var, passwd_shell, Some ''/bin/zsh'', Some ''/bin/bash''])"

definition key_start :: "char \<Rightarrow> bool" where
  "key_start c \<longleftrightarrow> (CHR ''A'' \<le> c \<and> c \<le> CHR ''Z'') \<or> (CHR ''a'' \<le> c \<and> c \<le> CHR ''z'') \<or> c = CHR ''_''"

definition is_valid_env_key :: "string \<Rightarrow> bool" where
  "is_valid_env_key key =
     (case key of [] \<Rightarrow> False | c # cs \<Rightarrow> key_start c \<and> list_all (\<lambda>d. key_start d \<or> is_digit d) cs)"

definition env_line :: "string \<Rightarrow> (string \<times> string) option" where
  "env_line line =
     (case split_once (CHR ''='') line of
        None \<Rightarrow> None
      | Some (key, val) \<Rightarrow> if is_valid_env_key key \<and> CHR 0x0D \<notin> set val then Some (key, val) else None)"

definition env_pairs :: "string \<Rightarrow> (string \<times> string) list" where
  "env_pairs text = List.map_filter env_line (split_on (CHR 0x0A) text)"

text \<open>A later line replaces an earlier one.\<close>

definition parse_env_output :: "string \<Rightarrow> string \<rightharpoonup> string" where
  "parse_env_output text = foldl (\<lambda>m (k, v). m(k \<mapsto> v)) Map.empty (env_pairs text)"

record login_env_status =
  les_active_shell :: "string option"
  les_ok :: bool
  les_detail :: "string option"

record captured_login_env =
  cle_env :: "string \<rightharpoonup> string"
  cle_status :: login_env_status

text \<open>How the shell ended: whether it succeeded, and what it wrote to standard output and standard error.\<close>

datatype shell_run = ShellNotStarted string | ShellTimedOut | ShellWaitFailed string | ShellEnded bool string string

definition capture_failed :: "string option \<Rightarrow> string \<Rightarrow> captured_login_env" where
  "capture_failed sh detail =
     \<lparr>cle_env = Map.empty, cle_status = \<lparr>les_active_shell = sh, les_ok = False, les_detail = Some detail\<rparr>\<rparr>"

definition capture_login_env :: "string option \<Rightarrow> (string \<Rightarrow> shell_run) \<Rightarrow> captured_login_env" where
  "capture_login_env shell_path run =
     (case shell_path of
        None \<Rightarrow> capture_failed None ''no login shell found''
      | Some sh \<Rightarrow>
          (case run sh of
             ShellNotStarted e \<Rightarrow> capture_failed (Some sh) (''capture failed: '' @ e)
           | ShellTimedOut \<Rightarrow> capture_failed (Some sh) ''capture timed out''
           | ShellWaitFailed e \<Rightarrow> capture_failed (Some sh) (''capture failed: '' @ e)
           | ShellEnded ok out err \<Rightarrow>
               (if \<not> ok then
                  capture_failed (Some sh) (''capture failed: '' @ concat (take 200 (utf8_chars (lossy err))))
                else let text = lossy out; n = length (remdups (map fst (env_pairs text))) in
                  \<lparr>cle_env = parse_env_output text,
                   cle_status = \<lparr>les_active_shell = Some sh, les_ok = True,
                     les_detail = Some (show_int (int n) @ '' vars captured'')\<rparr>\<rparr>)))"

section \<open>What it yields\<close>

lemma login_shell_exists:
  "resolve_login_shell exists_at configured shell_var passwd_shell = Some sh \<Longrightarrow> sh \<noteq> [] \<and> exists_at sh"
  by (auto simp: resolve_login_shell_def find_Some_iff)

lemma configured_shell_wins:
  "exists_at sh \<Longrightarrow> sh \<noteq> [] \<Longrightarrow> resolve_login_shell exists_at (Some sh) shell_var passwd_shell = Some sh"
  by (simp add: resolve_login_shell_def List.map_filter_def)

text \<open>A line as \<^verbatim>\<open>env\<close> prints it.\<close>

definition env_printed :: "(string \<times> string) list \<Rightarrow> string" where
  "env_printed es = concat (map (\<lambda>(k, v). k @ CHR ''='' # v @ [CHR 0x0A]) es)"

definition printable_env :: "(string \<times> string) list \<Rightarrow> bool" where
  "printable_env es \<longleftrightarrow> distinct (map fst es) \<and>
     (\<forall>(k, v) \<in> set es. is_valid_env_key k \<and> CHR 0x0A \<notin> set v \<and> CHR 0x0D \<notin> set v)"

lemma key_start_plain: "key_start c \<Longrightarrow> c \<noteq> CHR ''='' \<and> c \<noteq> CHR 0x0A"
  by (auto simp: key_start_def)

lemma valid_key_plain: "is_valid_env_key k \<Longrightarrow> CHR ''='' \<notin> set k \<and> CHR 0x0A \<notin> set k"
  using key_start_plain by (fastforce simp: is_valid_env_key_def list_all_iff is_digit_def split: list.splits)

lemma env_pairs_printed: "printable_env es \<Longrightarrow> env_pairs (env_printed es) = es"
proof (induction es)
  case Nil
  then show ?case by (simp add: env_pairs_def env_printed_def List.map_filter_def env_line_def)
next
  case (Cons e es)
  obtain k v where e: "e = (k, v)" by (cases e)
  with Cons.prems have k: "is_valid_env_key k" and v: "CHR 0x0A \<notin> set v" "CHR 0x0D \<notin> set v"
    by (auto simp: printable_env_def)
  have line: "env_line (k @ CHR ''='' # v) = Some (k, v)"
    using k v valid_key_plain [OF k] by (simp add: env_line_def split_once_append)
  have "split_on (CHR 0x0A) ((k @ CHR ''='' # v) @ CHR 0x0A # env_printed es) =
      (k @ CHR ''='' # v) # split_on (CHR 0x0A) (env_printed es)"
    using valid_key_plain [OF k] v by (intro split_on_append) auto
  then have "env_pairs (env_printed (e # es)) = (k, v) # env_pairs (env_printed es)"
    by (simp add: env_printed_def e env_pairs_def line)
  moreover have "printable_env es" using Cons.prems by (auto simp: printable_env_def)
  ultimately show ?case using Cons.IH e by simp
qed

lemma foldl_update_map_of:
  "distinct (map fst es) \<Longrightarrow> foldl (\<lambda>m (k, v). m(k \<mapsto> v)) m es = m ++ map_of es"
proof (induction es arbitrary: m)
  case (Cons e es)
  then show ?case
    by (cases e) (auto simp: map_add_upd_left dom_map_of_conv_image_fst simp del: fun_upd_apply)
qed simp

text \<open>What the shell's \<^verbatim>\<open>env\<close> printed is what daemons get: an environment whose names are identifiers and whose
  values stay on one line is captured exactly.\<close>

theorem login_env_captured:
  assumes "printable_env es"
  shows "parse_env_output (env_printed es) = map_of es"
  using assms foldl_update_map_of [of es Map.empty]
  by (simp add: parse_env_output_def env_pairs_printed) (simp add: printable_env_def)

lemma login_env_captured_witness:
  "parse_env_output (env_printed [(''PATH'', ''/bin=/x''), (''E'', '''')]) = map_of [(''PATH'', ''/bin=/x''), (''E'', '''')]"
  by (rule login_env_captured) (simp add: printable_env_def is_valid_env_key_def key_start_def)

text \<open>A value with a line feed is cut there, and what follows can define another variable.\<close>

lemma multi_line_value_injects:
  "parse_env_output (env_printed [(''PATH'', ''/bin''), (''X'', ''a'' @ [CHR 0x0A] @ ''PATH=/evil'')]) =
     [''PATH'' \<mapsto> ''/evil'', ''X'' \<mapsto> ''a'']"
  by (simp add: parse_env_output_def env_pairs_def env_printed_def List.map_filter_def env_line_def is_valid_env_key_def
      key_start_def fun_upd_twist)

end
