(* ===== verification/Static_Serve.thy ===== *)
theory Static_Serve
  imports Pid_Lock
begin

text \<open>
  The configuration of the server, \<^verbatim>\<open>server-rs/pantoken-server/src/config.rs\<close>, and the built client that it serves,
  \<^verbatim>\<open>static_serve.rs\<close>. The environment is a map; the file system, gzip and \<open>str::to_lowercase\<close> are arguments.
\<close>

section \<open>Configuration\<close>

record server_config =
  cf_port :: nat
  cf_data_dir :: string
  cf_vapid_subject :: string
  cf_host :: string
  cf_token :: "string option"
  cf_debug :: bool
  cf_client_dist :: string
  cf_warm_cap :: int
  cf_idle_reap_ms :: int
  cf_live_refresh_ms :: nat
  cf_delta_flush_ms :: nat

definition home_dir :: "(string \<rightharpoonup> string) \<Rightarrow> string" where
  "home_dir env = (case env ''HOME'' of Some h \<Rightarrow> if h \<noteq> [] then h else ''/'' | None \<Rightarrow> ''/'')"

definition xdg_dir :: "(string \<rightharpoonup> string) \<Rightarrow> string \<Rightarrow> string \<Rightarrow> string" where
  "xdg_dir env var sub =
     path_join (case env var of
         Some s \<Rightarrow> if trim s \<noteq> [] then s else path_join (path_join (home_dir env) ''.local'') sub
       | None \<Rightarrow> path_join (path_join (home_dir env) ''.local'') sub) ''pantoken''"

definition default_data_dir :: "(string \<rightharpoonup> string) \<Rightarrow> string" where
  "default_data_dir env = xdg_dir env ''XDG_DATA_HOME'' ''share''"

definition legacy_data_dir :: "(string \<rightharpoonup> string) \<Rightarrow> string" where
  "legacy_data_dir env = xdg_dir env ''XDG_STATE_HOME'' ''state''"

definition env_parse :: "(string \<rightharpoonup> string) \<Rightarrow> (string \<Rightarrow> 'a option) \<Rightarrow> string \<Rightarrow> 'a \<Rightarrow> 'a" where
  "env_parse env parse var dflt = unwrap_or (Option.bind (env var) parse) dflt"

definition load_config :: "string \<Rightarrow> (string \<rightharpoonup> string) \<Rightarrow> server_config" where
  "load_config manifest_dir env =
     \<lparr>cf_port = env_parse env parse_u16 ''PANTOKEN_PORT'' 8787,
      cf_data_dir = unwrap_or (env ''PANTOKEN_DATA_DIR'') (default_data_dir env),
      cf_vapid_subject = unwrap_or (env ''PANTOKEN_VAPID_SUBJECT'') ''mailto:pantoken@example.com'',
      cf_host = unwrap_or (env ''PANTOKEN_HOST'') ''127.0.0.1'',
      cf_token = (case env ''PANTOKEN_TOKEN'' of Some t \<Rightarrow> if t \<noteq> [] then Some t else None | None \<Rightarrow> None),
      cf_debug = (case env ''PANTOKEN_DEBUG'' of Some v \<Rightarrow> v \<noteq> ''0'' | None \<Rightarrow> True),
      cf_client_dist = unwrap_or (env ''PANTOKEN_CLIENT_DIST'') (path_join manifest_dir ''../../client/dist''),
      cf_warm_cap = env_parse env parse_i64 ''PANTOKEN_WARM_CAP'' 8,
      cf_idle_reap_ms = env_parse env parse_i64 ''PANTOKEN_IDLE_REAP_MS'' 600000,
      cf_live_refresh_ms = env_parse env (parse_unsigned (2 ^ 64)) ''PANTOKEN_LIVE_REFRESH_MS'' 1000,
      cf_delta_flush_ms = env_parse env (parse_unsigned (2 ^ 64)) ''PANTOKEN_DELTA_FLUSH_MS'' 50\<rparr>"

text \<open>The directories that exist; whether making the parent and the renaming succeed.\<close>

definition migrate_legacy_data_dir ::
    "(string \<rightharpoonup> string) \<Rightarrow> string \<Rightarrow> bool \<Rightarrow> bool \<Rightarrow> string set \<Rightarrow> string set" where
  "migrate_legacy_data_dir env data mkdir renames dirs =
     (let legacy = legacy_data_dir env in
      if env ''PANTOKEN_DATA_DIR'' \<noteq> None \<or> legacy \<notin> dirs \<or> data \<in> dirs \<or> \<not> mkdir \<or> \<not> renames then dirs
      else insert data (dirs - {legacy}))"

definition token_from_request :: "string option \<Rightarrow> string option \<Rightarrow> string option" where
  "token_from_request auth qtoken =
     (case Option.bind auth (\<lambda>a. strip_prefix a ''Bearer '') of
        Some rest \<Rightarrow> Some (trim rest)
      | None \<Rightarrow> qtoken)"

text \<open>An existing directory is never replaced, and nothing but the legacy one is moved.\<close>

lemma migration_keeps:
  "d \<in> dirs \<Longrightarrow> d \<noteq> legacy_data_dir env \<Longrightarrow> d \<in> migrate_legacy_data_dir env data mkdir renames dirs"
  "data \<in> dirs \<Longrightarrow> migrate_legacy_data_dir env data mkdir renames dirs = dirs"
  by (simp_all add: migrate_legacy_data_dir_def Let_def)

section \<open>Static files\<close>

definition COMPRESSIBLE :: "string list" where
  "COMPRESSIBLE = [''.js'', ''.mjs'', ''.css'', ''.html'', ''.svg'', ''.json'', ''.webmanifest'', ''.map'', ''.txt'']"

definition GZIP_MIN_BYTES :: nat where "GZIP_MIN_BYTES = 1024"

definition is_slash :: "char \<Rightarrow> bool" where
  "is_slash c \<longleftrightarrow> c = CHR ''/'' \<or> c = CHR 0x5C"

fun trim_start_dots :: "string \<Rightarrow> string" where
  "trim_start_dots (a # b # s) =
     (if a = CHR ''.'' \<and> b = CHR ''.'' then trim_start_dots s else a # b # s)"
| "trim_start_dots s = s"

definition normalize_path :: "string \<Rightarrow> string" where
  "normalize_path pathname =
     (let stripped = dropWhile is_slash (trim_start_dots (dropWhile is_slash pathname))
      in dropWhile ((=) CHR ''/'') (join ''/'' (filter (\<lambda>s. s \<noteq> ''..'' \<and> s \<noteq> []) (split_on CHR ''/'' stripped))))"

definition xxhash :: "string \<Rightarrow> 64 word" where
  "xxhash bs = fold (\<lambda>c h. (h XOR word_of_nat (of_char c)) * 0x100000001b3) bs 0xcbf29ce484222325"

fun hex_number :: "nat \<Rightarrow> string" where
  "hex_number n = (if n < 16 then [hex_digit n] else hex_number (n div 16) @ [hex_digit (n mod 16)])"

declare hex_number.simps [simp del]

definition mime_type :: "string \<Rightarrow> string option" where
  "mime_type ext =
     map_of [(''.js'', ''text/javascript''), (''.mjs'', ''text/javascript''), (''.css'', ''text/css''),
       (''.html'', ''text/html; charset=utf-8''), (''.svg'', ''image/svg+xml''), (''.json'', ''application/json''),
       (''.webmanifest'', ''application/manifest+json''), (''.map'', ''application/json''),
       (''.txt'', ''text/plain; charset=utf-8''), (''.png'', ''image/png''), (''.jpg'', ''image/jpeg''),
       (''.jpeg'', ''image/jpeg''), (''.gif'', ''image/gif''), (''.webp'', ''image/webp''), (''.ico'', ''image/x-icon''),
       (''.woff'', ''font/woff''), (''.woff2'', ''font/woff2''), (''.wasm'', ''application/wasm'')] ext"

record static_cache =
  sc_gzip :: "string \<rightharpoonup> string"
  sc_etag :: "string \<rightharpoonup> string"

record static_server =
  ss_dist :: string
  ss_is_file :: "string \<Rightarrow> bool"
  ss_read :: "string \<Rightarrow> string option"
  ss_gzip :: "string \<Rightarrow> string option"
  ss_lower :: "string \<Rightarrow> string"

record asset_request =
  ar_if_none_match :: "string option"
  ar_accept_encoding :: "string option"

record static_reply =
  sr_code :: nat
  sr_cache_control :: "string option"
  sr_tag :: "string option"
  sr_vary :: bool
  sr_type :: "string option"
  sr_gzipped :: bool
  sr_body :: string

definition plain_reply :: "nat \<Rightarrow> string \<Rightarrow> static_reply" where
  "plain_reply code body =
     \<lparr>sr_code = code, sr_cache_control = None, sr_tag = None, sr_vary = False,
      sr_type = Some ''text/plain; charset=utf-8'', sr_gzipped = False, sr_body = body\<rparr>"

text \<open>\<open>Path::extension\<close> of the last component, with its dot.\<close>

definition file_extension :: "(string \<Rightarrow> string) \<Rightarrow> string \<Rightarrow> string" where
  "file_extension lc path =
     (case split_last (CHR ''.'') (last (split_on CHR ''/'' path)) of
        Some (stem, e) \<Rightarrow> if stem \<noteq> [] then ''.'' @ lc e else ''.html''
      | None \<Rightarrow> ''.html'')"

definition etag_for :: "string \<Rightarrow> string \<Rightarrow> static_cache \<Rightarrow> string \<times> static_cache" where
  "etag_for rel body c =
     (case sc_etag c rel of
        Some t \<Rightarrow> (t, c)
      | None \<Rightarrow>
          (let t = quoted (hex_number (unat (xxhash body)) @ ''-'' @ hex_number (length body))
           in (t, c\<lparr>sc_etag := (sc_etag c)(rel \<mapsto> t)\<rparr>)))"

definition gzipped_asset :: "static_server \<Rightarrow> string \<Rightarrow> string \<Rightarrow> string \<Rightarrow> static_cache \<Rightarrow> string option \<times> static_cache" where
  "gzipped_asset S rel body ext c =
     (if ext \<notin> set COMPRESSIBLE \<or> length body < GZIP_MIN_BYTES then (None, c)
      else case sc_gzip c rel of
        Some gz \<Rightarrow> (Some gz, c)
      | None \<Rightarrow>
          (case ss_gzip S body of
             None \<Rightarrow> (None, c)
           | Some gz \<Rightarrow> (Some gz, c\<lparr>sc_gzip := (sc_gzip c)(rel \<mapsto> gz)\<rparr>)))"

definition accepts_gzip :: "string option \<Rightarrow> bool" where
  "accepts_gzip header =
     (case header of
        None \<Rightarrow> False
      | Some s \<Rightarrow> list_ex (\<lambda>part. trim part = ''gzip'') (concat (map (split_on CHR '' '') (split_on CHR '','' s))))"

definition respond_asset ::
    "static_server \<Rightarrow> string \<Rightarrow> string \<Rightarrow> asset_request \<Rightarrow> static_cache \<Rightarrow> static_reply \<times> static_cache" where
  "respond_asset S rel path rq c =
     (case ss_read S path of
        None \<Rightarrow> (plain_reply 500 ''read error'', c)
      | Some body \<Rightarrow>
          (let immutable = starts_with rel ''assets/'';
               ext = file_extension (ss_lower S) path;
               compressible = ext \<in> set COMPRESSIBLE;
               control = (if immutable then ''public, max-age=31536000, immutable'' else ''no-cache'');
               (tag, c1) = (if immutable then (None, c) else apfst Some (etag_for rel body c))
           in if tag \<noteq> None \<and> ar_if_none_match rq = tag
              then (\<lparr>sr_code = 304, sr_cache_control = Some control, sr_tag = tag, sr_vary = False, sr_type = None,
                     sr_gzipped = False, sr_body = []\<rparr>, c1)
              else
                (let reply = \<lparr>sr_code = 200, sr_cache_control = Some control, sr_tag = tag, sr_vary = compressible,
                       sr_type = mime_type ext, sr_gzipped = False, sr_body = body\<rparr>
                 in if accepts_gzip (ar_accept_encoding rq) \<and> compressible \<and> GZIP_MIN_BYTES \<le> length body
                    then (case gzipped_asset S rel body ext c1 of
                            (Some gz, c2) \<Rightarrow> (reply\<lparr>sr_gzipped := True, sr_body := gz\<rparr>, c2)
                          | (None, c2) \<Rightarrow> (reply, c2))
                    else (reply, c1))))"

text \<open>\<open>None\<close> is that there is no build.\<close>

definition serve_static :: "static_server \<Rightarrow> string \<Rightarrow> asset_request \<Rightarrow> static_cache \<Rightarrow> static_reply option \<times> static_cache" where
  "serve_static S pathname rq c =
     (let rel = normalize_path pathname; path = path_join (ss_dist S) rel; index = path_join (ss_dist S) ''index.html''
      in if ss_is_file S path then apfst Some (respond_asset S rel path rq c)
         else if starts_with rel ''assets/'' then (Some (plain_reply 404 ''not found''), c)
         else if ss_is_file S index then apfst Some (respond_asset S ''index.html'' index rq c)
         else (None, c))"

section \<open>Nothing outside the build is served\<close>

lemma join_head:
  "ps \<noteq> [] \<Longrightarrow> hd ps \<noteq> [] \<Longrightarrow> join sep ps \<noteq> [] \<and> hd (join sep ps) = hd (hd ps)"
  by (induction sep ps rule: join.induct) auto

lemma join_starts_plain:
  assumes "\<forall>p \<in> set ps. p \<noteq> [] \<and> CHR ''/'' \<notin> set p"
  shows "dropWhile ((=) CHR ''/'') (join ''/'' ps) = join ''/'' ps" and "\<not> starts_with (join ''/'' ps) ''/''"
proof -
  have "join ''/'' ps = [] \<or> (\<exists>c s. join ''/'' ps = c # s \<and> c \<noteq> CHR ''/'')"
  proof (cases ps)
    case (Cons p qs)
    with assms have "p \<noteq> []" "CHR ''/'' \<notin> set p" by auto
    then have "hd p \<noteq> CHR ''/''" by (cases p) auto
    moreover from Cons \<open>p \<noteq> []\<close> have "join ''/'' ps \<noteq> [] \<and> hd (join ''/'' ps) = hd p"
      using join_head [of ps "''/''"] by simp
    ultimately show ?thesis by (cases "join ''/'' ps") auto
  qed simp
  then show "dropWhile ((=) CHR ''/'') (join ''/'' ps) = join ''/'' ps" and "\<not> starts_with (join ''/'' ps) ''/''"
    by (auto simp: starts_with_def)
qed

lemma normalize_path_join:
  "\<exists>ps. normalize_path pathname = join ''/'' ps \<and> (\<forall>p \<in> set ps. p \<noteq> [] \<and> p \<noteq> ''..'' \<and> CHR ''/'' \<notin> set p)"
proof -
  let ?ps = "filter (\<lambda>s. s \<noteq> ''..'' \<and> s \<noteq> [])
      (split_on CHR ''/'' (dropWhile is_slash (trim_start_dots (dropWhile is_slash pathname))))"
  have ps: "\<forall>p \<in> set ?ps. p \<noteq> [] \<and> p \<noteq> ''..'' \<and> CHR ''/'' \<notin> set p"
    using split_on_no_sep by auto
  then have "\<forall>p \<in> set ?ps. p \<noteq> [] \<and> CHR ''/'' \<notin> set p" by blast
  then have "dropWhile ((=) CHR ''/'') (join ''/'' ?ps) = join ''/'' ?ps" by (rule join_starts_plain)
  with ps show ?thesis unfolding normalize_path_def Let_def by (intro exI [of _ ?ps] conjI)
qed

text \<open>Whatever the request asks for, the path that is looked up is the build's directory followed by components none of
  which goes up.\<close>

theorem static_stays_inside:
  "\<exists>sep. path_join built (normalize_path pathname) = built @ sep @ normalize_path pathname \<and> set sep \<subseteq> {CHR ''/''} \<and>
     ''..'' \<notin> set (split_on CHR ''/'' (normalize_path pathname))"
proof -
  obtain ps where ps: "normalize_path pathname = join ''/'' ps"
    and ok: "\<forall>p \<in> set ps. p \<noteq> [] \<and> p \<noteq> ''..'' \<and> CHR ''/'' \<notin> set p"
    using normalize_path_join by blast
  have "\<not> starts_with (normalize_path pathname) ''/''"
    unfolding ps by (rule join_starts_plain) (use ok in simp)
  moreover have "''..'' \<notin> set (split_on CHR ''/'' (normalize_path pathname))"
  proof (cases "ps = []")
    case False
    with ok have "split_on CHR ''/'' (join ''/'' ps) = ps" by (intro split_on_join) auto
    with ok show ?thesis by (auto simp: ps)
  qed (simp add: ps)
  ultimately show ?thesis
    by (auto simp: path_join_def intro: exI [of _ "[]"] exI [of _ "''/''"])
qed

text \<open>An asset that is gone is an error, never the page.\<close>

lemma missing_asset_not_found:
  assumes "starts_with (normalize_path pathname) ''assets/''"
    and "\<not> ss_is_file S (path_join (ss_dist S) (normalize_path pathname))"
  shows "serve_static S pathname rq c = (Some (plain_reply 404 ''not found''), c)"
  using assms by (simp add: serve_static_def Let_def)

lemma etag_remembered: "etag_for rel body c = (t, c1) \<Longrightarrow> etag_for rel body' c1 = (t, c1)"
  by (auto simp: etag_for_def Let_def split: option.splits)

lemma gzip_keeps_etags: "sc_etag (snd (gzipped_asset S rel body ext c)) = sc_etag c"
  by (simp add: gzipped_asset_def split: option.split)

lemma etag_for_cached: "sc_etag c rel = Some t \<Longrightarrow> etag_for rel body c = (t, c)"
  by (simp add: etag_for_def)

text \<open>Asking again with the tag of the answer costs no body, as long as the file can be read.\<close>

lemma respond_revalidates:
  assumes "respond_asset S rel path rq c = (r, c1)" and "sr_tag r = Some t"
  shows "fst (respond_asset S rel path (rq'\<lparr>ar_if_none_match := Some t\<rparr>) c1) =
      \<lparr>sr_code = 304, sr_cache_control = Some ''no-cache'', sr_tag = Some t, sr_vary = False, sr_type = None,
       sr_gzipped = False, sr_body = []\<rparr>"
proof (cases "ss_read S path")
  case None
  with assms show ?thesis by (auto simp: respond_asset_def plain_reply_def)
next
  case (Some body)
  have im: "\<not> starts_with rel ''assets/''"
    using assms Some by (auto simp: respond_asset_def Let_def split: if_splits prod.splits option.splits)
  obtain t' c' where e: "etag_for rel body c = (t', c')" by (cases "etag_for rel body c")
  have t: "t' = t"
    using assms Some im e by (auto simp: respond_asset_def Let_def split: if_splits prod.splits option.splits)
  have "sc_etag c' rel = Some t'" using e by (auto simp: etag_for_def Let_def split: option.splits)
  moreover have "sc_etag c1 = sc_etag c'"
    using assms(1) Some im e gzip_keeps_etags [of S rel body "file_extension (ss_lower S) path" c']
    by (auto simp: respond_asset_def Let_def split: if_splits prod.splits option.splits)
  ultimately have "etag_for rel body c1 = (t, c1)" by (simp add: t etag_for_cached)
  then show ?thesis using Some im by (simp add: respond_asset_def)
qed

end
