(* ===== verification/Http_Routes.thy ===== *)
theory Http_Routes
  imports Static_Serve Sync_Examples Connection
begin

text \<open>
  Web push, \<^verbatim>\<open>server-rs/pantoken-server/src/push.rs\<close>, and the HTTP routes with their checks, \<^verbatim>\<open>main.rs\<close>. The order in
  which a hash map is iterated, signing, sending and the decoding of bodies are arguments; the JSON of a reply that
  shows the hub is not modelled further than the hub it shows.
\<close>

section \<open>Subscriptions\<close>

record push_subscription =
  ps_endpoint :: string
  ps_auth :: string
  ps_p256dh :: string

text \<open>The store and the list that its file holds; \<open>None\<close> if it cannot be read or parsed.\<close>

record push_store =
  pu_subs :: "string \<rightharpoonup> push_subscription"
  pu_file :: "push_subscription list option"

record push_env =
  pe_order :: "(string \<rightharpoonup> push_subscription) \<Rightarrow> string list"
  pe_write :: "push_subscription list option \<Rightarrow> push_subscription list \<Rightarrow> push_subscription list option"
  pe_prepare :: "push_subscription \<Rightarrow> bool"

definition store_values :: "push_env \<Rightarrow> push_store \<Rightarrow> push_subscription list" where
  "store_values P st = List.map_filter (pu_subs st) (pe_order P (pu_subs st))"

definition persist :: "push_env \<Rightarrow> push_store \<Rightarrow> push_store" where
  "persist P st = st\<lparr>pu_file := pe_write P (pu_file st) (store_values P st)\<rparr>"

definition load_store :: "push_subscription list option \<Rightarrow> push_store" where
  "load_store file =
     \<lparr>pu_subs = foldl (\<lambda>m s. m(ps_endpoint s \<mapsto> s)) Map.empty (unwrap_or file []), pu_file = file\<rparr>"

definition add_subscription :: "push_env \<Rightarrow> push_subscription \<Rightarrow> push_store \<Rightarrow> push_store" where
  "add_subscription P s st = persist P (st\<lparr>pu_subs := (pu_subs st)(ps_endpoint s \<mapsto> s)\<rparr>)"

definition remove_subscription :: "push_env \<Rightarrow> string \<Rightarrow> push_store \<Rightarrow> push_store" where
  "remove_subscription P ep st =
     (if pu_subs st ep = None then st else persist P (st\<lparr>pu_subs := (pu_subs st)(ep := None)\<rparr>))"

definition prune_subscriptions :: "push_env \<Rightarrow> string list \<Rightarrow> push_store \<Rightarrow> push_store" where
  "prune_subscriptions P dead st =
     (if dead = [] then st else persist P (st\<lparr>pu_subs := foldl (\<lambda>m ep. m(ep := None)) (pu_subs st) dead\<rparr>))"

section \<open>Sending\<close>

datatype push_error = EndpointNotFound | EndpointNotValid | OtherPushError

definition is_dead_endpoint :: "push_error \<Rightarrow> bool" where
  "is_dead_endpoint e \<longleftrightarrow> e = EndpointNotFound \<or> e = EndpointNotValid"

datatype send_outcome = PushSent | PushDead | PushFailed

definition classify_send_result :: "push_error + unit \<Rightarrow> send_outcome" where
  "classify_send_result r =
     (case r of Inr _ \<Rightarrow> PushSent | Inl e \<Rightarrow> if is_dead_endpoint e then PushDead else PushFailed)"

text \<open>\<open>enabled\<close>: there is a usable key. \<open>deliver\<close> is what the push service of a subscription answers.\<close>

definition send_to_all ::
    "push_env \<Rightarrow> bool \<Rightarrow> (push_subscription \<Rightarrow> push_error + unit) \<Rightarrow> push_store \<Rightarrow> nat \<times> push_store" where
  "send_to_all P enabled deliver st =
     (let subs = store_values P st in
      if subs = [] \<or> \<not> enabled then (0, st)
      else
        (let results = map (\<lambda>s. (ps_endpoint s, classify_send_result (deliver s))) (filter (pe_prepare P) subs);
             dead = map fst (filter (\<lambda>(_, out). out = PushDead) results)
         in (length (filter (\<lambda>(_, out). out = PushSent) results), prune_subscriptions P dead st)))"

section \<open>The routes\<close>

datatype route =
    GetHealth | GetVapid | PostSubscribe | PostUnsubscribe | PostTest | PostUpdateState | GetDebugState | DebugReset

record route_request =
  rq_auth :: "string option"
  rq_token :: "string option"
  rq_bootstrap :: "string option"
  rq_body :: string

datatype route_reply =
    Refused nat string
  | OkReply
  | HealthOf hub
  | PublicKey string
  | TestReport nat nat
  | UpdateReport bool bool
  | SnapshotOf hub

record update_body =
  ub_available :: "bool option"
  ub_sha :: "string option"
  ub_apply_failed :: "bool option"

text \<open>What the handlers have besides the state: decoding of bodies, the hub's surroundings, the push service.\<close>

record http_env =
  he_config :: server_config
  he_debug_driver :: bool
  he_runtime :: runtime
  he_driver :: driver
  he_push :: push_env
  he_push_key :: "string option"
  he_public_key :: string
  he_send :: "push_subscription \<Rightarrow> push_error + unit"
  he_subscription :: "string \<Rightarrow> push_subscription option"
  he_unsubscribe :: "string \<Rightarrow> string option option"
  he_update :: "string \<Rightarrow> nat + update_body"

record http_state =
  hs_hub :: hub
  hs_push :: push_store

definition check_token :: "http_env \<Rightarrow> route_request \<Rightarrow> bool" where
  "check_token E rq \<longleftrightarrow> token_ok (token_from_request (rq_auth rq) (rq_token rq)) (cf_token (he_config E))"

definition unauthorized :: route_reply where
  "unauthorized = Refused 401 ''unauthorized''"

definition push_vapid :: "http_env \<Rightarrow> route_request \<Rightarrow> http_state \<Rightarrow> route_reply \<times> http_state" where
  "push_vapid E rq s = (if \<not> check_token E rq then unauthorized else PublicKey (he_public_key E), s)"

definition push_subscribe :: "http_env \<Rightarrow> route_request \<Rightarrow> http_state \<Rightarrow> route_reply \<times> http_state" where
  "push_subscribe E rq s =
     (if \<not> check_token E rq then (unauthorized, s)
      else case he_subscription E (rq_body rq) of
        None \<Rightarrow> (Refused 400 ''bad request'', s)
      | Some sub \<Rightarrow> (OkReply, s\<lparr>hs_push := add_subscription (he_push E) sub (hs_push s)\<rparr>))"

definition push_unsubscribe :: "http_env \<Rightarrow> route_request \<Rightarrow> http_state \<Rightarrow> route_reply \<times> http_state" where
  "push_unsubscribe E rq s =
     (if \<not> check_token E rq then (unauthorized, s)
      else case he_unsubscribe E (rq_body rq) of
        None \<Rightarrow> (Refused 400 ''bad request'', s)
      | Some None \<Rightarrow> (OkReply, s)
      | Some (Some ep) \<Rightarrow> (OkReply, s\<lparr>hs_push := remove_subscription (he_push E) ep (hs_push s)\<rparr>))"

definition push_test :: "http_env \<Rightarrow> route_request \<Rightarrow> http_state \<Rightarrow> route_reply \<times> http_state" where
  "push_test E rq s =
     (if \<not> check_token E rq then (unauthorized, s)
      else let (sent, st) = send_to_all (he_push E) (he_push_key E \<noteq> None) (he_send E) (hs_push s)
        in (TestReport (length (store_values (he_push E) st)) sent, s\<lparr>hs_push := st\<rparr>))"

text \<open>The body is decoded before the handler runs, so one that does not decode is refused without a look at the token.\<close>

definition update_state :: "http_env \<Rightarrow> route_request \<Rightarrow> http_state \<Rightarrow> route_reply \<times> http_state" where
  "update_state E rq s =
     (case he_update E (rq_body rq) of
        Inl code \<Rightarrow> (Refused code [], s)
      | Inr b \<Rightarrow>
          (if \<not> check_token E rq then (unauthorized, s)
           else
             (let sha = (if unwrap_or (ub_available b) False then ub_sha b else None);
                  ((app, force), h) = report_update sha (unwrap_or (ub_apply_failed b) False) None (hs_hub s)
              in (UpdateReport app force, s\<lparr>hs_hub := h\<rparr>))))"

definition debug_guard :: "http_env \<Rightarrow> route_request \<Rightarrow> route_reply option" where
  "debug_guard E rq =
     (if \<not> cf_debug (he_config E) then Some (Refused 404 ''debug disabled'')
      else if \<not> check_token E rq then Some unauthorized
      else None)"

definition debug_state :: "http_env \<Rightarrow> route_request \<Rightarrow> http_state \<Rightarrow> route_reply \<times> http_state" where
  "debug_state E rq s = (unwrap_or (debug_guard E rq) (SnapshotOf (hs_hub s)), s)"

text \<open>\<open>None\<close> is a panic.\<close>

definition debug_reset :: "http_env \<Rightarrow> route_request \<Rightarrow> http_state \<Rightarrow> (route_reply \<times> http_state) option" where
  "debug_reset E rq s =
     (case debug_guard E rq of
        Some r \<Rightarrow> Some (r, s)
      | None \<Rightarrow>
          (if \<not> he_debug_driver E then Some (Refused 403 ''debug reset is dev-driver-only'', s)
           else map_option (\<lambda>h. (OkReply, s\<lparr>hs_hub := h\<rparr>))
             (reset (he_runtime E) (he_driver E) (rq_bootstrap rq \<noteq> Some ''0'') (hs_hub s))))"

fun handle_route :: "http_env \<Rightarrow> route \<Rightarrow> route_request \<Rightarrow> http_state \<Rightarrow> (route_reply \<times> http_state) option" where
  "handle_route E GetHealth rq s = Some (HealthOf (hs_hub s), s)"
| "handle_route E GetVapid rq s = Some (push_vapid E rq s)"
| "handle_route E PostSubscribe rq s = Some (push_subscribe E rq s)"
| "handle_route E PostUnsubscribe rq s = Some (push_unsubscribe E rq s)"
| "handle_route E PostTest rq s = Some (push_test E rq s)"
| "handle_route E PostUpdateState rq s = Some (update_state E rq s)"
| "handle_route E GetDebugState rq s = Some (debug_state E rq s)"
| "handle_route E DebugReset rq s = debug_reset E rq s"

section \<open>Who gets in\<close>


definition ex_push_env :: push_env where
  "ex_push_env = \<lparr>pe_order = (\<lambda>m. if m ''e'' = None then [] else [''e'']), pe_write = (\<lambda>_ ss. Some ss), pe_prepare = (\<lambda>_. True)\<rparr>"

definition ex_http_env :: http_env where
  "ex_http_env =
     \<lparr>he_config = load_config ''/src'' [''PANTOKEN_TOKEN'' \<mapsto> ''s3cret''], he_debug_driver = False,
      he_runtime = sorted_runtime, he_driver = ex_driver, he_push = ex_push_env, he_push_key = None, he_public_key = [],
      he_send = (\<lambda>_. Inr ()),
      he_subscription = (\<lambda>b. Some \<lparr>ps_endpoint = b, ps_auth = [], ps_p256dh = []\<rparr>),
      he_unsubscribe = (\<lambda>b. Some (Some b)), he_update = (\<lambda>_. Inl 422)\<rparr>"

definition ex_http_state :: http_state where
  "ex_http_state = \<lparr>hs_hub = ex_init, hs_push = load_store (Some [\<lparr>ps_endpoint = ''e'', ps_auth = [], ps_p256dh = []\<rparr>])\<rparr>"


lemma bearer_gets_in:
  assumes "cf_token (he_config E) = Some t" and "trim t = t"
  shows "check_token E (rq\<lparr>rq_auth := Some (''Bearer '' @ t)\<rparr>)"
  using assms by (simp add: check_token_def token_ok_def token_from_request_def strip_prefix_def starts_with_def)

section \<open>Who is forgotten\<close>

lemma foldl_remove: "foldl (\<lambda>m ep. m(ep := None)) m dead = (\<lambda>ep. if ep \<in> set dead then None else m ep)"
  by (induction dead arbitrary: m) (auto simp: fun_eq_iff)

text \<open>Every subscription is filed under its endpoint.\<close>

definition store_ok :: "push_env \<Rightarrow> push_store \<Rightarrow> bool" where
  "store_ok P st \<longleftrightarrow>
     enumerates (pe_order P (pu_subs st)) (pu_subs st) \<and> (\<forall>ep s. pu_subs st ep = Some s \<longrightarrow> ps_endpoint s = ep)"

lemma in_map_filter: "y \<in> set (List.map_filter f xs) \<longleftrightarrow> (\<exists>x \<in> set xs. f x = Some y)"
  by (induction xs) (auto simp: map_filter_simps split: option.split)

lemma store_values_set:
  assumes "store_ok P st"
  shows "s \<in> set (store_values P st) \<longleftrightarrow> pu_subs st (ps_endpoint s) = Some s"
proof -
  have "set (pe_order P (pu_subs st)) = dom (pu_subs st)" and e: "\<And>ep s. pu_subs st ep = Some s \<Longrightarrow> ps_endpoint s = ep"
    using assms by (auto simp: store_ok_def enumerates_def)
  then have "s \<in> set (store_values P st) \<longleftrightarrow> (\<exists>ep. pu_subs st ep = Some s)"
    by (auto simp: store_values_def in_map_filter)
  with e show ?thesis by metis
qed

lemma prune_subs [simp]: "pu_subs (prune_subscriptions P dead st) ep = (if ep \<in> set dead then None else pu_subs st ep)"
  by (simp add: prune_subscriptions_def persist_def foldl_remove)

text \<open>After a notification exactly the subscriptions are forgotten that the push service reports as gone; one that failed
  for another reason, or could not be prepared, stays.\<close>

lemma push_prunes_dead_only:
  assumes "store_ok P st" and "pu_subs st ep = Some s" and "send_to_all P True deliver st = (n, st')"
  shows "pu_subs st' ep = (if pe_prepare P s \<and> classify_send_result (deliver s) = PushDead then None else Some s)"
proof -
  have s: "s \<in> set (store_values P st)" "ps_endpoint s = ep"
    using assms(1,2) by (auto simp: store_values_set store_ok_def)
  let ?dead = "map fst (filter (\<lambda>(_, out). out = PushDead)
      (map (\<lambda>s. (ps_endpoint s, classify_send_result (deliver s))) (filter (pe_prepare P) (store_values P st))))"
  have "st' = prune_subscriptions P ?dead st"
    using assms(3) s by (cases "store_values P st = []") (auto simp: send_to_all_def Let_def)
  moreover have "ep \<in> set ?dead \<longleftrightarrow> pe_prepare P s \<and> classify_send_result (deliver s) = PushDead"
  proof
    assume "ep \<in> set ?dead"
    then obtain x where "x \<in> set (store_values P st)" "pe_prepare P x" "classify_send_result (deliver x) = PushDead"
      "ps_endpoint x = ep" by auto
    moreover from this assms(1,2) have "x = s" by (simp add: store_values_set)
    ultimately show "pe_prepare P s \<and> classify_send_result (deliver s) = PushDead" by simp
  next
    assume "pe_prepare P s \<and> classify_send_result (deliver s) = PushDead"
    with s show "ep \<in> set ?dead" by (force simp: image_iff)
  qed
  ultimately show ?thesis using assms(2) by simp
qed

text \<open>What was persisted is loaded.\<close>

lemma foldl_subscriptions:
  "foldl (\<lambda>m s. m(ps_endpoint s \<mapsto> s)) m ss ep =
     (case find (\<lambda>s. ps_endpoint s = ep) (rev ss) of Some s \<Rightarrow> Some s | None \<Rightarrow> m ep)"
  by (induction ss rule: rev_induct) auto

lemma store_reloads:
  assumes "store_ok P st" and "\<And>old ss. pe_write P old ss = Some ss"
  shows "pu_subs (load_store (pu_file (persist P st))) = pu_subs st"
proof
  fix ep
  let ?f = "find (\<lambda>s. ps_endpoint s = ep) (rev (store_values P st))"
  have "pu_subs (load_store (pu_file (persist P st))) ep = (case ?f of Some s \<Rightarrow> Some s | None \<Rightarrow> None)"
    by (simp add: load_store_def persist_def assms(2) foldl_subscriptions)
  also have "\<dots> = pu_subs st ep"
  proof (cases ?f)
    case None
    then have "s \<in> set (store_values P st) \<Longrightarrow> ps_endpoint s \<noteq> ep" for s by (simp add: find_None_iff)
    then have "pu_subs st (ps_endpoint s) = Some s \<Longrightarrow> ps_endpoint s \<noteq> ep" for s
      by (simp add: store_values_set [OF assms(1)])
    moreover have "pu_subs st ep = Some s \<Longrightarrow> ps_endpoint s = ep" for s
      using assms(1) by (simp add: store_ok_def)
    ultimately have "pu_subs st ep = None" by (cases "pu_subs st ep") blast+
    with None show ?thesis by simp
  next
    case (Some s)
    then obtain i where "i < length (rev (store_values P st))" "rev (store_values P st) ! i = s" "ps_endpoint s = ep"
      by (auto simp: find_Some_iff)
    then have "s \<in> set (store_values P st)" by (metis nth_mem set_rev)
    then have "pu_subs st ep = Some s" using store_values_set [OF assms(1)] \<open>ps_endpoint s = ep\<close> by simp
    with Some show ?thesis by simp
  qed
  finally show "pu_subs (load_store (pu_file (persist P st))) ep = pu_subs st ep" .
qed

end
