(* ===== verification/Spec2Isabelle.thy ===== *)
theory Spec2Isabelle
  imports Fold_Facts Journal Text_Clip Hub_Tracking Background_Model Hub_Ops Client_Sync
    Hub_Flight Hub_Control Prompts Frame Connection Versions Archive Event_Facts Warm_Pool
    Bridge Provisioning Host_Tasks Session_Stores Driver_Actions Model_Cache
    Daemon_Start Remote_Runtime File_Search Login_Env Http_Routes
begin

text \<open>
  \<^bold>\<open>A verification library for the pantoken server\<close>

  The server (\<^verbatim>\<open>server-rs/\<close>) sits between a coding-agent daemon and any number of browser
  clients. The daemon's driver emits session events; the hub
  (\<^verbatim>\<open>server-rs/pantoken-server/src/hub.rs\<close>) tracks which sessions run and which need the operator,
  appends every event of a viewed session to that session's journal, and sends it, stamped with the
  journal's epoch and sequence number, to the clients that look at the session. A client folds the
  events with the same reducer the hub uses. A client that reconnects names the last frame it folded
  and is sent either the frames it missed or a fresh seed. Client messages are handled under the hub's
  lock; work that waits for the driver is queued as an op and run by one applier, in order.

  \<^bold>\<open>Theories\<close>

  \<^item> \<open>Prelude\<close>: generic lemmas on options, lists, maps and strings.
  \<^item> \<open>Session_Types\<close>, \<open>Session_State\<close> (\<^verbatim>\<open>pantoken-protocol/src/session_driver.rs\<close>, \<^verbatim>\<open>state.rs\<close>): the
    events, and \<open>fold_event\<close>, the reducer, arm by arm. \<open>Fold_Facts\<close>: the states it builds are
    well-formed (\<open>fold_all_well_formed\<close>), a turn's end settles the transcript (\<open>turn_end_settles\<close>), and
    an event changes the transcript at its end only (\<open>fold_event_transcript\<close>).
  \<^item> \<open>Replay_Log\<close>: two locales. \<open>coalescing\<close> is a log whose neighbouring entries may be merged when
    the fold cannot tell; \<open>replay_log\<close> adds a ring of the latest entries. \<open>Journal\<close>
    (\<^verbatim>\<open>pantoken-server/src/journal.rs\<close>) interprets both and proves the seed invariant, the bounds of
    the ring, and that a resume is exact.
  \<^item> \<open>Text_Clip\<close>: \<open>clipped\<close>, with strings as UTF-8 bytes, and its panic.
  \<^item> \<open>Hub_Tracking\<close>: running and initializing sessions, the attention map, tool activity and
    notifications, as a record \<open>tracking\<close> threaded through the events; \<open>None\<close> is the panic of
    \<open>clipped\<close>.
  \<^item> \<open>Background_Model\<close> (\<^verbatim>\<open>background_model.rs\<close>): resolution of the background-model setting.
  \<^item> \<open>Wire\<close> (\<^verbatim>\<open>wire.rs\<close>): the messages.
  \<^item> \<open>Hub\<close>, \<open>Hub_Clients\<close>, \<open>Hub_Ops\<close> (\<^verbatim>\<open>hub.rs\<close>): the record \<open>hub\<close> is \<open>SessionHub\<close>; the first holds
    ingest and routing (\<open>on_event\<close>), the second connections and \<open>handle_client\<close>, the third the ops,
    \<open>switch_to\<close> and the applier. An op is a value of \<open>hub_op\<close>, and a switch that waits for its swap is
    a value of \<open>applier\<close>: what the code awaits is where other steps interleave.
  \<^item> \<open>Hub_Sync\<close>: every step keeps every stamped frame authentic: it agrees with the history of its
    epoch. \<open>Client_Sync\<close>: the client's frame gate (\<^verbatim>\<open>client/src/lib/store.svelte.ts\<close>), the step
    relation \<open>sys_step\<close> over a hub and its clients (connections, losses, parking and resuming), the
    locale \<open>follower\<close> and the properties of what clients see. \<open>Sync_Examples\<close>: concrete runs.
  \<^item> \<open>Hub_Flight\<close>, \<open>Hub_Control\<close>: single-flight switches, the applier, desktop updates.
  \<^item> \<open>Prompts\<close>: the locale \<open>result_cache\<close>, the prompt ledger and dialog answers.
  \<^item> \<open>Frame\<close> (\<^verbatim>\<open>pantoken-protocol/src/frame.rs\<close>): the length-prefixed codec on words, and the locale
    \<open>incremental\<close> of decoders that do not mind where the stream is cut.
  \<^item> \<open>Connection\<close> (\<^verbatim>\<open>connection/mod.rs\<close>, \<^verbatim>\<open>ws.rs\<close>, \<^verbatim>\<open>stdio.rs\<close>): the session of one client over the
    locale \<open>message_source\<close>, whose two instances are the transports.
  \<^item> \<open>Versions\<close> (\<^verbatim>\<open>pantoken-remote-layout/src/semver.rs\<close>,
    \<^verbatim>\<open>desktop/src/provisioning/polytoken_compat.rs\<close>): version order as the locale \<open>comparison\<close>, and the
    compatibility check.
  \<^item> \<open>Archive\<close> (\<^verbatim>\<open>pantoken-tar-validate/src/lib.rs\<close>): the validator of release archives.

  The driver's side (\<^verbatim>\<open>pantoken-server/src/polytoken/\<close>), which the theories above leave abstract:

  \<^item> \<open>Daemon_Types\<close> (\<^verbatim>\<open>pantoken-daemon-types/src/lib.rs\<close>): the daemon's events, its state, and the
    answers it takes.
  \<^item> \<open>Ui_Bridge\<close> (\<^verbatim>\<open>ui_bridge.rs\<close>), \<open>Usage\<close> and \<open>Event_Map\<close> (\<^verbatim>\<open>event_map.rs\<close>): the translation of a
    daemon event, arm by arm (\<open>map_arm\<close>), with the accumulator threaded through and effects as values.
    \<open>Event_Facts\<close>: the error protocol of a turn, streaming, and that a card offers what its answer
    accepts.
  \<^item> \<open>Calendar\<close>, \<open>History_Seed\<close> (\<^verbatim>\<open>history_seed.rs\<close>): the replay of a history, and that it settles every
    tool card.
  \<^item> \<open>Live_Session\<close> (\<^verbatim>\<open>driver.rs\<close>): one warm session: the event stream, the effects with the daemon's
    replies as the record \<open>daemon\<close>, reseeding, and the answers to dialogs.
  \<^item> \<open>Warm_Pool\<close> (\<^verbatim>\<open>driver.rs\<close>, \<^verbatim>\<open>shared/warm_cap.rs\<close>): the pool of warm sessions with its recency order,
    the operations that change it as the relation \<open>pool_run\<close>, and eviction.

  \<^item> \<open>Session_Registry\<close> (\<^verbatim>\<open>sessions_registry.rs\<close>, \<^verbatim>\<open>session_list.rs\<close>, \<^verbatim>\<open>archive_store.rs\<close>),
    \<open>Worktrees\<close> (\<^verbatim>\<open>worktree.rs\<close>, \<^verbatim>\<open>worktree_store.rs\<close>) and \<open>Session_Stores\<close> (\<^verbatim>\<open>driver.rs\<close>): the sessions on
    disk, the archive, the worktrees, and the driver's list of sessions, renames and clean-ups.
  \<^item> \<open>Catalogues\<close> (\<^verbatim>\<open>models.rs\<close>, \<^verbatim>\<open>facets.rs\<close>, \<^verbatim>\<open>commands.rs\<close>, \<^verbatim>\<open>file_catalog.rs\<close>, \<^verbatim>\<open>restore_error.rs\<close>): the
    parsers of the daemon's listings. \<open>Driver_Catalogues\<close>: the driver's caches and pickers. \<open>Model_Cache\<close>:
    concurrent fetches of the models as a step relation, of which one runs at a time.
  \<^item> \<open>File_Search\<close> (\<^verbatim>\<open>file_search.rs\<close>): the search for a file in the project and in a directory outside it.
    \<open>Login_Env\<close> (\<^verbatim>\<open>shared/login_env.rs\<close>): the environment that daemons are started with.
  \<^item> \<open>Driver_Actions\<close> (\<^verbatim>\<open>driver.rs\<close>): prompts, the queue, new sessions, branches, and the actions on a session.
  \<^item> \<open>Sse_Stream\<close> (\<^verbatim>\<open>daemon_client.rs\<close>): the daemon's stream of events, from chunks to envelopes, and its
    reconnection. \<open>Daemon_Http\<close>: requests, responses and endpoints, over the record \<open>net\<close>. \<open>Daemon_Lease\<close>: the
    lease and its retries, and the end of a daemon. \<open>Daemon_Start\<close>: how one is started. \<open>Numbers\<close> and
    \<open>Iso_Time\<close>: decimal numbers, dates and timestamps.
  \<^item> \<open>Pid_Lock\<close> (\<^verbatim>\<open>pidlock.rs\<close>): the lock of a data directory, which excludes others while its holder lives
    (\<open>lock_excludes\<close>) but is not taken atomically, and the server id. \<open>Remote_Runtime\<close> (\<^verbatim>\<open>remote/runtime.rs\<close>,
    \<^verbatim>\<open>remote/lifecycle.rs\<close>): the server on a remote host, the proxy that reaches it, and the idle clean-up; the
    relation \<open>run_step\<close> is what other processes do to the run directory while a proxy waits.
  \<^item> \<open>Static_Serve\<close> (\<^verbatim>\<open>config.rs\<close>, \<^verbatim>\<open>static_serve.rs\<close>): the configuration and the files of the built client, none of
    which lies outside it. \<open>Http_Routes\<close> (\<^verbatim>\<open>push.rs\<close>, \<^verbatim>\<open>main.rs\<close>): push subscriptions and the routes, over the
    token of \<open>Connection\<close> and the hub.

  The desktop's side (\<^verbatim>\<open>desktop/src/\<close>), which reaches a server on another host:

  \<^item> \<open>Shell_Words\<close> (\<^verbatim>\<open>bridge.rs\<close>, \<^verbatim>\<open>docker_target.rs\<close>): the commands sent over ssh, against a reader of
    shell words; the locale \<open>quoting\<close> of quoting functions that are read back.
  \<^item> \<open>Remote_Profile\<close> (\<^verbatim>\<open>remote_profile.rs\<close>, \<^verbatim>\<open>pantoken-remote-layout/src/layout.rs\<close>): profiles, their
    validation, and fingerprints of acknowledged risks, which bind every field.
  \<^item> \<open>Remote_Connection\<close> (\<^verbatim>\<open>remote_connection.rs\<close>): the states of a connection and their labels.
  \<^item> \<open>Bridge\<close> (\<^verbatim>\<open>bridge.rs\<close>): exits, backoff, and the relay between browser and ssh.
  \<^item> \<open>Docker_Target\<close> (\<^verbatim>\<open>docker_target.rs\<close>): containers and mounts; which mount decides about a root.
    \<open>Docker_Preflight\<close> (\<^verbatim>\<open>remote_executor.rs\<close>): executors over the record \<open>transport\<close>, and the preflight,
    which is ready only with acknowledgements for exactly this container.
  \<^item> \<open>Release_Manifest\<close> (\<^verbatim>\<open>pantoken-remote-layout/src/manifest.rs\<close>) and \<open>Provisioning\<close>
    (\<^verbatim>\<open>provisioning/\<close>): the probe of a host, both installers, and the reconciliation with how it ends.
  \<^item> \<open>Remote_Hosts\<close> (\<^verbatim>\<open>remote_commands.rs\<close>, \<^verbatim>\<open>state.rs\<close>): the sessions of several hosts, with the
    connections they share with their tasks in a store, and the commands of the window.
    \<open>Host_Sessions\<close>: what every sequence of commands keeps. \<open>Host_Tasks\<close>: the task that connects a host,
    from the preflight to the bridge, and its three ends.

  \<^bold>\<open>Conventions\<close>

  Strings are lists of bytes. Sequence numbers, epochs and client keys (\<open>u64\<close>) are naturals: the model
  has no 2^64 increments. A function that can panic returns an option, or a sum when the state it
  leaves matters. Hash maps are maps; where the code iterates one, the order is the parameter \<open>runtime\<close>
  (\<open>runtime_ok\<close>: it lists the domain once), which also serialises JSON. The driver, the clock and the
  file manager are parameters; every step takes the driver that answers during it. A client's send
  channel is a queue of 128 messages, and \<open>try_send\<close> on a full one drops the message. In the driver,
  parsing and printing JSON is the record \<open>serde\<close>, a double is the rational it denotes until it is
  sent as its 64 bits, and each handler is one step: where the code awaits the daemon, its reply is an
  argument.

  No definition needs fuel: loops are structural recursion over lists; \<open>drain_frames\<close>, \<open>utf8_chars\<close>,
  \<open>ws_words\<close>, \<open>parse_spec\<close>, \<open>cut_frames\<close> and \<open>pieces\<close> have measures, and the reading loop of a connection, which may run for
  ever, is a \<open>partial_function\<close> (\<open>drain\<close>) whose termination on a transport that ends is
  \<open>ws_session_exact\<close>.

  \<^bold>\<open>Not modelled\<close>

  JSON encoding (serde), sockets and pipes below the reads and writes they return, file systems below the texts of
  files, signing and encryption of web push, the start-up of the server, file-system notifications, the random names of
  worktrees, the desktop's window, its updates and its local server process, the test doubles of the daemon
  (\<^verbatim>\<open>mock_driver.rs\<close>, \<^verbatim>\<open>fake_daemon.rs\<close>), and the browser's user interface other than the frame gate. These are
  calls of the operating system, of a framework or of a library with little logic of their own around them. Lists
  the hub only forwards are opaque JSON values. The swap buffer is filled as in the code; nothing in the code reads it.
\<close>

end
